(* ===== verification/Shield_Prelude.thy ===== *)
theory Shield_Prelude
  imports Main "HOL-Library.Word" "HOL-Library.Monad_Syntax"
begin

text \<open>
  The shared vocabulary of the development: the machine integers of the BPF program, packets as
  byte lists with bounds-checked little-endian loads (a load outside the packet is \<open>None\<close>, the
  model's memory fault), byte swapping, and the generic lemmas on options, maps and words that
  the component theories use.
\<close>

unbundle bit_operations_syntax

type_synonym u8 = "8 word"
type_synonym u16 = "16 word"
type_synonym u32 = "32 word"
type_synonym u64 = "64 word"

type_synonym packet = "u8 list"

named_theorems load_simps \<open>bounds-checked loads that are known to be in range\<close>

section \<open>Little-endian loads\<close>

definition le16 :: "u8 \<Rightarrow> u8 \<Rightarrow> u16" where
  "le16 b0 b1 = ucast b0 OR push_bit 8 (ucast b1)"

definition le32 :: "u8 \<Rightarrow> u8 \<Rightarrow> u8 \<Rightarrow> u8 \<Rightarrow> u32" where
  "le32 b0 b1 b2 b3 =
     ucast b0 OR push_bit 8 (ucast b1) OR push_bit 16 (ucast b2) OR push_bit 24 (ucast b3)"

definition load8 :: "packet \<Rightarrow> nat \<Rightarrow> u8 option" where
  "load8 p i = (if i < length p then Some (p ! i) else None)"

definition load16 :: "packet \<Rightarrow> nat \<Rightarrow> u16 option" where
  "load16 p i = (if i + 2 \<le> length p then Some (le16 (p ! i) (p ! (i + 1))) else None)"

definition load32 :: "packet \<Rightarrow> nat \<Rightarrow> u32 option" where
  "load32 p i =
     (if i + 4 \<le> length p
      then Some (le32 (p ! i) (p ! (i + 1)) (p ! (i + 2)) (p ! (i + 3))) else None)"

definition load_bytes :: "packet \<Rightarrow> nat \<Rightarrow> nat \<Rightarrow> u8 list option" where
  "load_bytes p i n = (if i + n \<le> length p then Some (take n (drop i p)) else None)"

text \<open>\<open>bpf_ntohs\<close> on the little-endian target: the two bytes swapped.\<close>

definition bpf_ntohs :: "u16 \<Rightarrow> u16" where
  "bpf_ntohs x = push_bit 8 x OR drop_bit 8 x"

text \<open>The bytes of a little-endian 32-bit value, as \<open>memcpy(k.ip, &saddr, 4)\<close> sees them.\<close>

definition bytes_of_u32 :: "u32 \<Rightarrow> u8 list" where
  "bytes_of_u32 x =
     [ucast x, ucast (drop_bit 8 x), ucast (drop_bit 16 x), ucast (drop_bit 24 x)]"

text \<open>A 16-bit value in network order, as bytes on the wire.\<close>

definition be16_bytes :: "u16 \<Rightarrow> u8 list" where
  "be16_bytes x = [ucast (drop_bit 8 x), ucast x]"

lemma load8_Some [load_simps]: "i < length p \<Longrightarrow> load8 p i = Some (p ! i)"
  by (simp add: load8_def)

lemma load16_Some [load_simps]:
  "i + 2 \<le> length p \<Longrightarrow> load16 p i = Some (le16 (p ! i) (p ! (i + 1)))"
  by (simp add: load16_def)

lemma load32_Some [load_simps]:
  "i + 4 \<le> length p \<Longrightarrow>
     load32 p i = Some (le32 (p ! i) (p ! (i + 1)) (p ! (i + 2)) (p ! (i + 3)))"
  by (simp add: load32_def)

lemma load_bytes_Some [load_simps]:
  "i + n \<le> length p \<Longrightarrow> load_bytes p i n = Some (take n (drop i p))"
  by (simp add: load_bytes_def)

lemma load_bytes_length: "load_bytes p i n = Some bs \<Longrightarrow> length bs = n"
  by (auto simp: load_bytes_def split: if_splits)

section \<open>Byte order\<close>

lemma bpf_ntohs_involutive [simp]: "bpf_ntohs (bpf_ntohs x) = x"
  by (rule bit_word_eqI) (auto simp: bpf_ntohs_def bit_simps)

lemma bpf_ntohs_0 [simp]: "bpf_ntohs 0 = 0"
  by (simp add: bpf_ntohs_def)

lemma bpf_ntohs_eq_0_iff [simp]: "bpf_ntohs x = 0 \<longleftrightarrow> x = 0"
  by (metis bpf_ntohs_0 bpf_ntohs_involutive)

lemma bpf_ntohs_inject [simp]: "bpf_ntohs x = bpf_ntohs y \<longleftrightarrow> x = y"
  by (metis bpf_ntohs_involutive)

lemma ntohs_le16_be16 [simp]: "bpf_ntohs (le16 (ucast (drop_bit 8 x)) (ucast x)) = x"
  by (rule bit_word_eqI) (auto simp: bpf_ntohs_def le16_def bit_simps)

lemma bytes_of_le32 [simp]: "bytes_of_u32 (le32 a b c d) = [a, b, c, d]"
proof -
  have "ucast (le32 a b c d) = a"
    by (rule bit_word_eqI) (auto simp: le32_def bit_simps dest: bit_imp_le_length)
  moreover have "ucast (drop_bit 8 (le32 a b c d)) = b"
    by (rule bit_word_eqI) (auto simp: le32_def bit_simps dest: bit_imp_le_length)
  moreover have "ucast (drop_bit 16 (le32 a b c d)) = c"
    by (rule bit_word_eqI) (auto simp: le32_def bit_simps dest: bit_imp_le_length)
  moreover have "ucast (drop_bit 24 (le32 a b c d)) = d"
    by (rule bit_word_eqI) (auto simp: le32_def bit_simps dest: bit_imp_le_length)
  ultimately show ?thesis by (simp add: bytes_of_u32_def)
qed

lemma length_bytes_of_u32 [simp]: "length (bytes_of_u32 x) = 4"
  by (simp add: bytes_of_u32_def)

lemma length_be16_bytes [simp]: "length (be16_bytes x) = 2"
  by (simp add: be16_bytes_def)

lemma unat_ucast_u8: "unat (ucast (b :: u8) :: u64) = unat b"
  by transfer simp

section \<open>Runs of a step relation\<close>

text \<open>A run is a sequence of steps, each with the event that labels it.\<close>

inductive steps :: "('s \<Rightarrow> 'e \<Rightarrow> 's \<Rightarrow> bool) \<Rightarrow> 's \<Rightarrow> 'e list \<Rightarrow> 's \<Rightarrow> bool" for R s where
  none: "steps R s [] s"
| step: "steps R s es s' \<Longrightarrow> R s' e s'' \<Longrightarrow> steps R s (es @ [e]) s''"

lemma steps_invariant:
  assumes run: "steps R s es s'" and init: "P s"
    and step: "\<And>s1 e s2. P s1 \<Longrightarrow> e \<in> set es \<Longrightarrow> R s1 e s2 \<Longrightarrow> P s2"
  shows "P s'"
proof -
  have "(\<forall>e \<in> set es. \<forall>s1 s2. P s1 \<longrightarrow> R s1 e s2 \<longrightarrow> P s2) \<longrightarrow> P s'"
    using run
  proof (induction rule: steps.induct)
    case none
    show ?case using init by simp
  next
    case (step es s' e s'')
    then show ?case by (simp add: ball_Un) blast
  qed
  then show ?thesis using step by blast
qed

lemma steps_one: "R s e s' \<Longrightarrow> steps R s [e] s'"
  using steps.step [OF steps.none, of R s e s'] by simp

lemma steps_append: "steps R s es s' \<Longrightarrow> steps R s' es' s'' \<Longrightarrow> steps R s (es @ es') s''"
proof (rotate_tac, induction rule: steps.induct)
  case (step es' s1 e s2)
  then show ?case using steps.step [of R s "es @ es'" s1 e s2] by simp
qed simp

lemma steps_Cons: "R s e s1 \<Longrightarrow> steps R s1 es s' \<Longrightarrow> steps R s (e # es) s'"
  using steps_append [OF steps_one, of R s e s1 es s'] by simp

end
