(* ===== verification/Bpf_Maps.thy ===== *)
theory Bpf_Maps
  imports Shield_Prelude
begin

text \<open>
  The BPF maps of the program. The map declarations of
  \<open>src/shield/bpf/xdp_kernloom_shield.bpf.c\<close> (type and capacity) are records of type
  \<open>bpf_map_def\<close>; the contents of a map is a partial function. A lookup is function application.
  What \<open>bpf_map_update_elem\<close> does is kernel code, so it is a parameter: the locales below state
  its documented contract, and \<open>hash_update\<close> and \<open>lru_update\<close> are concrete functions that meet it.
  \<open>bpf_lru\<close> is what every update keeps (it stores the value or fails, and may evict other entries);
  \<open>bpf_lru_room\<close> says that an LRU map evicts to make room only: while its entries number less than
  \<open>room\<close> a new key is stored and nothing is lost (the kernel documents eviction when the table
  reaches its capacity; what it reserves on the free lists of the CPUs makes \<open>room\<close> smaller);
  \<open>bpf_lru_cap\<close> that it never holds more than its \<open>max_entries\<close>; \<open>bpf_hash\<close> that a plain hash map
  never evicts and refuses new keys when it is full.
\<close>

section \<open>Map declarations\<close>

datatype bpf_map_type =
    BPF_MAP_TYPE_HASH
  | BPF_MAP_TYPE_ARRAY
  | BPF_MAP_TYPE_PERCPU_ARRAY
  | BPF_MAP_TYPE_LRU_HASH
  | BPF_MAP_TYPE_LPM_TRIE
  | BPF_MAP_TYPE_RINGBUF

datatype bpf_flags = BPF_ANY | BPF_NOEXIST

record bpf_map_def =
  map_type :: bpf_map_type
  max_entries :: nat

definition xdp_totals_map :: bpf_map_def where
  "xdp_totals_map = \<lparr>map_type = BPF_MAP_TYPE_PERCPU_ARRAY, max_entries = 1\<rparr>"

definition xdp_src4_stats_map :: bpf_map_def where
  "xdp_src4_stats_map = \<lparr>map_type = BPF_MAP_TYPE_LRU_HASH, max_entries = 131072\<rparr>"

definition xdp_src6_stats_map :: bpf_map_def where
  "xdp_src6_stats_map = \<lparr>map_type = BPF_MAP_TYPE_LRU_HASH, max_entries = 131072\<rparr>"

definition xdp_flow4_stats_map :: bpf_map_def where
  "xdp_flow4_stats_map = \<lparr>map_type = BPF_MAP_TYPE_LRU_HASH, max_entries = 32768\<rparr>"

definition xdp_allow_lpm_map :: bpf_map_def where
  "xdp_allow_lpm_map = \<lparr>map_type = BPF_MAP_TYPE_LPM_TRIE, max_entries = 65536\<rparr>"

definition xdp_deny_hash_map :: bpf_map_def where
  "xdp_deny_hash_map = \<lparr>map_type = BPF_MAP_TYPE_HASH, max_entries = 1048576\<rparr>"

definition xdp_allow6_lpm_map :: bpf_map_def where
  "xdp_allow6_lpm_map = \<lparr>map_type = BPF_MAP_TYPE_LPM_TRIE, max_entries = 65536\<rparr>"

definition xdp_deny6_hash_map :: bpf_map_def where
  "xdp_deny6_hash_map = \<lparr>map_type = BPF_MAP_TYPE_HASH, max_entries = 1048576\<rparr>"

definition xdp_cfg_map :: bpf_map_def where
  "xdp_cfg_map = \<lparr>map_type = BPF_MAP_TYPE_ARRAY, max_entries = 1\<rparr>"

definition edge4_deny_map :: bpf_map_def where
  "edge4_deny_map = \<lparr>map_type = BPF_MAP_TYPE_LRU_HASH, max_entries = 65536\<rparr>"

definition edge4_allow_map :: bpf_map_def where
  "edge4_allow_map = \<lparr>map_type = BPF_MAP_TYPE_LRU_HASH, max_entries = 65536\<rparr>"

definition edge4_rl_policy_map :: bpf_map_def where
  "edge4_rl_policy_map = \<lparr>map_type = BPF_MAP_TYPE_HASH, max_entries = 65536\<rparr>"

definition edge4_rl_state_map :: bpf_map_def where
  "edge4_rl_state_map = \<lparr>map_type = BPF_MAP_TYPE_HASH, max_entries = 65536\<rparr>"

definition edge4_cfg_map :: bpf_map_def where
  "edge4_cfg_map = \<lparr>map_type = BPF_MAP_TYPE_ARRAY, max_entries = 1\<rparr>"

definition xdp_rl_cfg_map :: bpf_map_def where
  "xdp_rl_cfg_map = \<lparr>map_type = BPF_MAP_TYPE_ARRAY, max_entries = 1\<rparr>"

definition xdp_rl_policy4_map :: bpf_map_def where
  "xdp_rl_policy4_map = \<lparr>map_type = BPF_MAP_TYPE_HASH, max_entries = 262144\<rparr>"

definition xdp_rl_policy6_map :: bpf_map_def where
  "xdp_rl_policy6_map = \<lparr>map_type = BPF_MAP_TYPE_HASH, max_entries = 262144\<rparr>"

definition xdp_rl_state4_map :: bpf_map_def where
  "xdp_rl_state4_map = \<lparr>map_type = BPF_MAP_TYPE_HASH, max_entries = 262144\<rparr>"

definition xdp_rl_state6_map :: bpf_map_def where
  "xdp_rl_state6_map = \<lparr>map_type = BPF_MAP_TYPE_HASH, max_entries = 262144\<rparr>"

definition xdp_port_hist_map :: bpf_map_def where
  "xdp_port_hist_map = \<lparr>map_type = BPF_MAP_TYPE_PERCPU_ARRAY, max_entries = 1024\<rparr>"

definition xdp_len_hist_map :: bpf_map_def where
  "xdp_len_hist_map = \<lparr>map_type = BPF_MAP_TYPE_PERCPU_ARRAY, max_entries = 16\<rparr>"

definition xdp_events_map :: bpf_map_def where
  "xdp_events_map = \<lparr>map_type = BPF_MAP_TYPE_RINGBUF, max_entries = 2 ^ 22\<rparr>"

text \<open>An array map holds a value at every index below its capacity and nowhere else.\<close>

definition array_wf :: "bpf_map_def \<Rightarrow> (u32 \<rightharpoonup> 'v) \<Rightarrow> bool" where
  "array_wf d m \<longleftrightarrow> (\<forall>k. m k \<noteq> None \<longleftrightarrow> unat k < max_entries d)"

lemma array_wf_lookup: "array_wf d m \<Longrightarrow> unat k < max_entries d \<Longrightarrow> \<exists>v. m k = Some v"
  by (auto simp: array_wf_def)

lemma array_wf_poke: "array_wf d m \<Longrightarrow> m k \<noteq> None \<Longrightarrow> array_wf d (m(k \<mapsto> v))"
  by (simp add: array_wf_def)

lemma array_wf_restrict:
  "max_entries d < 2 ^ 32 \<Longrightarrow>
     array_wf d (\<lambda>k. if unat k < max_entries d then Some v else None)"
  by (simp add: array_wf_def)

section \<open>The contract of map updates\<close>

type_synonym ('k, 'v) map_update = "bpf_flags \<Rightarrow> 'k \<Rightarrow> 'v \<Rightarrow> ('k \<rightharpoonup> 'v) \<Rightarrow> ('k \<rightharpoonup> 'v)"

locale bpf_lru =
  fixes upd :: "('k, 'v) map_update"
  assumes upd_key: "upd f k v m k = Some v \<or> upd f k v m k = m k"
    and upd_noexist: "m k \<noteq> None \<Longrightarrow> upd BPF_NOEXIST k v m k = m k"
    and upd_other: "k' \<noteq> k \<Longrightarrow> upd f k v m k' = m k' \<or> upd f k v m k' = None"
begin

lemma upd_entry:
  "upd f k v m k' = Some w \<Longrightarrow> (k' = k \<and> w = v) \<or> m k' = Some w"
  using upd_key [of f k v m] upd_other [of k' k f v m] by (cases "k' = k") auto

lemma upd_new: "m k = None \<Longrightarrow> upd f k v m k \<in> {None, Some v}"
  using upd_key [of f k v m] by auto

lemma upd_invariant:
  assumes "\<And>k v. m k = Some v \<Longrightarrow> P k v" and "P k v"
    and "upd f k v m k' = Some w"
  shows "P k' w"
  using upd_entry [OF assms(3)] assms(1,2) by auto

lemma upd_dom: "dom (upd f k v m) \<subseteq> insert k (dom m)"
  using upd_entry by fast

end

locale bpf_lru_room = bpf_lru upd for upd :: "('k, 'v) map_update" +
  fixes room :: nat
  assumes room_new: "m k = None \<Longrightarrow> finite (dom m) \<Longrightarrow> card (dom m) < room \<Longrightarrow> upd f k v m = m(k \<mapsto> v)"
begin

text \<open>A map whose keys are among fewer than \<open>room\<close> keeps them all.\<close>

lemma keeps_entries:
  assumes "finite A" "card A \<le> room" "dom m \<subseteq> A" "k \<in> A" "m k = None"
  shows "upd f k v m = m(k \<mapsto> v)"
proof (rule room_new)
  show "m k = None" by (rule assms(5))
  show "finite (dom m)" using assms(1,3) by (rule finite_subset [rotated])
  have "k \<notin> dom m" using assms(5) by (simp add: domIff)
  then have "dom m \<subset> A" using assms(3,4) by blast
  from psubset_card_mono [OF assms(1) this] assms(2) show "card (dom m) < room" by simp
qed

end

locale bpf_lru_cap = bpf_lru upd for upd :: "('k, 'v) map_update" +
  fixes cap :: nat
  assumes cap_kept: "finite (dom m) \<Longrightarrow> card (dom m) \<le> cap \<Longrightarrow> card (dom (upd f k v m)) \<le> cap"
begin

text \<open>A new key stored in a full map costs an old one its entry.\<close>

lemma full_evicts:
  assumes fin: "finite (dom m)" and full: "card (dom m) = cap" and new: "m k = None" and got: "upd f k v m k = Some v"
  shows "\<exists>k'. m k' \<noteq> None \<and> upd f k v m k' = None"
proof (rule ccontr)
  assume none: "\<not> (\<exists>k'. m k' \<noteq> None \<and> upd f k v m k' = None)"
  have "upd f k v m k' \<noteq> None" if "m k' \<noteq> None" for k'
  proof
    assume "upd f k v m k' = None"
    with that have "m k' \<noteq> None \<and> upd f k v m k' = None" by simp
    with none show False by (simp only: simp_thms not_ex)
  qed
  then have "insert k (dom m) \<subseteq> dom (upd f k v m)" using got by (simp add: subset_iff domIff)
  moreover have "finite (dom (upd f k v m))" using fin upd_dom by (meson finite_insert finite_subset)
  ultimately have "card (insert k (dom m)) \<le> card (dom (upd f k v m))" by (rule card_mono [rotated])
  moreover have "card (dom (upd f k v m)) \<le> cap" using fin full by (intro cap_kept) simp_all
  ultimately show False using fin full new by (simp add: domIff)
qed

end

locale bpf_hash = bpf_lru upd for upd :: "('k, 'v) map_update" +
  fixes cap :: nat
  assumes upd_frame: "k' \<noteq> k \<Longrightarrow> upd f k v m k' = m k'"
    and upd_room: "finite (dom m) \<Longrightarrow> card (dom m) < cap \<Longrightarrow> upd BPF_ANY k v m k = Some v"
    and upd_full: "m k = None \<Longrightarrow> \<not> card (dom m) < cap \<Longrightarrow> upd f k v m = m"
begin

lemma upd_eq_room:
  "finite (dom m) \<Longrightarrow> card (dom m) < cap \<Longrightarrow> upd BPF_ANY k v m = m(k \<mapsto> v)"
  using upd_frame upd_room by (intro ext) (metis fun_upd_apply)

lemma upd_occupancy:
  assumes fin: "finite (dom m)" and le: "card (dom m) \<le> cap"
  shows "card (dom (upd f k v m)) \<le> cap"
proof (cases "m k = None \<and> card (dom m) = cap")
  case True
  then show ?thesis using upd_full [of m k] le by simp
next
  case False
  have "card (dom (upd f k v m)) \<le> card (insert k (dom m))"
    by (rule card_mono) (use fin upd_dom in auto)
  also have "\<dots> \<le> cap"
    using False fin le by (cases "k \<in> dom m") (auto simp: insert_absorb domIff)
  finally show ?thesis .
qed

end

section \<open>Concrete maps that meet the contract\<close>

definition hash_update :: "bpf_map_def \<Rightarrow> ('k, 'v) map_update" where
  "hash_update d f k v m =
     (if f = BPF_NOEXIST \<and> m k \<noteq> None then m
      else if m k \<noteq> None \<or> card (dom m) < max_entries d then m(k \<mapsto> v)
      else m)"

definition lru_update :: "(('k \<rightharpoonup> 'v) \<Rightarrow> 'k) \<Rightarrow> bpf_map_def \<Rightarrow> ('k, 'v) map_update" where
  "lru_update victim d f k v m =
     (if f = BPF_NOEXIST \<and> m k \<noteq> None then m
      else if m k \<noteq> None \<or> card (dom m) < max_entries d then m(k \<mapsto> v)
      else if m (victim m) \<noteq> None then (m(victim m := None))(k \<mapsto> v)
      else m)"

interpretation hash: bpf_hash "hash_update d" "max_entries d" for d
  by unfold_locales (auto simp: hash_update_def)

interpretation lru: bpf_lru_room "lru_update victim d" "max_entries d" for victim d
  by unfold_locales (auto simp: lru_update_def)

text \<open>A full map gives up one entry for a new one, so it stays within its capacity.\<close>

lemma card_evicted:
  assumes "finite (dom m)" "m x \<noteq> None" shows "card (dom ((m(x := None))(k \<mapsto> v))) \<le> card (dom m)"
proof -
  have "card (insert k (dom m - {x})) \<le> Suc (card (dom m - {x}))" using assms(1) by (simp add: card_insert_if)
  also have "\<dots> = card (dom m)" using assms by (intro card_Suc_Diff1) auto
  finally show ?thesis by (simp add: insert_Diff_if split: if_splits)
qed

lemma lru_update_cap:
  assumes "finite (dom m)" "card (dom m) \<le> max_entries d"
  shows "card (dom (lru_update victim d f k v m)) \<le> max_entries d"
proof (cases "m k = None \<and> card (dom m) < max_entries d")
  case True
  then show ?thesis using assms by (simp add: lru_update_def card_insert_if)
next
  case False
  have old: "insert k (dom m) = dom m" if "m k = Some w" for w using that by auto
  from False assms card_evicted [OF assms(1), of "victim m" k v] old show ?thesis
    by (auto simp: lru_update_def simp del: dom_fun_upd simp: dom_fun_upd [of m k])
qed

interpretation lru_cap: bpf_lru_cap "lru_update victim d" "max_entries d" for victim d
  by unfold_locales (rule lru_update_cap)

end
