(* ===== verification/Token_Bucket.thy ===== *)
theory Token_Bucket
  imports Bpf_Maps
begin

text \<open>
  The token bucket of the rate limiter: \<open>struct rl_cfg_t\<close>, \<open>struct rl_state_t\<close> and
  \<open>tb_allow_and_update_unlocked\<close> / \<open>tb_allow_and_update\<close> at the width of the code (64-bit words,
  so that wrap-around is visible), a reference bucket over the naturals, and the lemmas that
  relate the two.
\<close>

section \<open>State and operations\<close>

definition NSEC_PER_SEC :: u64 where
  "NSEC_PER_SEC = 1000000000"

record rl_cfg_t =
  rate_pps :: u64
  burst :: u64

record bpf_spin_lock =
  val :: u32

record rl_state_t =
  lock :: bpf_spin_lock
  last_ns :: u64
  tokens :: u64

text \<open>
  The refill half of the update: the number of tokens available at \<open>now\<close> and the new \<open>last_ns\<close>.
\<close>

definition tb_refill :: "rl_state_t \<Rightarrow> rl_cfg_t \<Rightarrow> u64 \<Rightarrow> u64 \<times> u64" where
  "tb_refill st cfg now =
     (let toks = tokens st;
          delta = (if now > last_ns st then now - last_ns st else 0)
      in if toks < burst cfg then
           let missing = burst cfg - toks;
               need_ns = (missing * NSEC_PER_SEC + rate_pps cfg - 1) div rate_pps cfg
           in if delta \<ge> need_ns then (burst cfg, now)
              else let add = (delta * rate_pps cfg) div NSEC_PER_SEC
                   in if add > 0 then
                        (if toks + add > burst cfg then burst cfg else toks + add,
                         last_ns st + (add * NSEC_PER_SEC) div rate_pps cfg)
                      else (toks, last_ns st)
         else (toks, last_ns st))"

text \<open>The body of the update past its guards: refill, then spend one token if there is one.\<close>

definition tb_take :: "rl_state_t \<Rightarrow> rl_cfg_t \<Rightarrow> u64 \<Rightarrow> bool \<times> rl_state_t" where
  "tb_take st cfg now =
     (let (toks, since) = tb_refill st cfg now;
          st1 = st\<lparr>last_ns := since\<rparr>
      in if toks = 0 then (False, st1\<lparr>tokens := 0\<rparr>)
         else (True, st1\<lparr>tokens := toks - 1\<rparr>))"

text \<open>Both pointers may be NULL; the configuration is tested first, as in the code.\<close>

definition tb_allow_and_update_unlocked ::
    "rl_state_t option \<Rightarrow> rl_cfg_t option \<Rightarrow> u64 \<Rightarrow> bool \<times> rl_state_t option" where
  "tb_allow_and_update_unlocked st_ptr cfg_ptr now =
     (case cfg_ptr of
        None \<Rightarrow> (True, st_ptr)
      | Some cfg \<Rightarrow>
          if rate_pps cfg = 0 \<or> burst cfg = 0 then (True, st_ptr)
          else (case st_ptr of
                  None \<Rightarrow> (True, None)
                | Some st \<Rightarrow> (let (allowed, st') = tb_take st cfg now in (allowed, Some st'))))"

text \<open>
  \<open>bpf_spin_lock\<close> on a lock that is held never returns when the whole invocation is one step:
  the result is \<open>None\<close>.
\<close>

definition spin_lock :: "rl_state_t \<Rightarrow> rl_state_t option" where
  "spin_lock st = (if val (lock st) = 0 then Some (st\<lparr>lock := \<lparr>val = 1\<rparr>\<rparr>) else None)"

definition spin_unlock :: "rl_state_t \<Rightarrow> rl_state_t" where
  "spin_unlock st = st\<lparr>lock := \<lparr>val = 0\<rparr>\<rparr>"

definition tb_allow_and_update ::
    "rl_state_t option \<Rightarrow> rl_cfg_t option \<Rightarrow> u64 \<Rightarrow> (bool \<times> rl_state_t option) option" where
  "tb_allow_and_update st_ptr cfg now =
     (case st_ptr of
        None \<Rightarrow> Some (True, None)
      | Some st \<Rightarrow>
          do {
            st1 \<leftarrow> spin_lock st;
            let (allowed, st2) = tb_allow_and_update_unlocked (Some st1) cfg now;
            Some (allowed, map_option spin_unlock st2)
          })"

section \<open>The reference bucket\<close>

definition nsec :: nat where "nsec = 1000000000"

definition need_spec :: "nat \<Rightarrow> nat \<Rightarrow> nat" where
  "need_spec rate missing = (missing * nsec + rate - 1) div rate"

definition refill_spec :: "nat \<Rightarrow> nat \<Rightarrow> nat \<Rightarrow> nat \<Rightarrow> nat \<Rightarrow> nat \<times> nat" where
  "refill_spec rate cap toks since now =
     (if toks < cap then
        if need_spec rate (cap - toks) \<le> now - since then (cap, now)
        else (toks + (now - since) * rate div nsec,
              since + ((now - since) * rate div nsec) * nsec div rate)
      else (toks, since))"

lemma nsec_pos [simp]: "0 < nsec" by (simp add: nsec_def)

lemma need_spec_upper: "0 < rate \<Longrightarrow> missing * nsec \<le> need_spec rate missing * rate"
  using div_mult_mod_eq [of "missing * nsec + rate - 1" rate]
    mod_less_divisor [of rate "missing * nsec + rate - 1"]
  unfolding need_spec_def by linarith

lemma need_spec_lower:
  assumes "0 < rate" and "d < need_spec rate missing"
  shows "d * rate < missing * nsec"
proof -
  have "Suc d * rate \<le> need_spec rate missing * rate"
    using assms(2) by (intro mult_right_mono) auto
  also have "\<dots> \<le> missing * nsec + rate - 1"
    by (simp add: need_spec_def)
  finally show ?thesis using assms(1) by simp
qed

lemma refill_gain_lt:
  assumes "0 < rate" and "d < need_spec rate missing"
  shows "d * rate div nsec < missing"
  using need_spec_lower [OF assms] by (simp add: less_mult_imp_div_less)

lemma refill_advance_le:
  assumes "0 < rate" shows "(d * rate div nsec) * nsec div rate \<le> d"
proof -
  have "(d * rate div nsec) * nsec div rate \<le> d * rate div rate"
    by (intro div_le_mono div_times_less_eq_dividend)
  then show ?thesis using assms by simp
qed

lemma refill_spec_le_cap: "0 < rate \<Longrightarrow> toks \<le> cap \<Longrightarrow> fst (refill_spec rate cap toks since now) \<le> cap"
  using refill_gain_lt [of rate "now - since" "cap - toks"]
  by (auto simp: refill_spec_def not_le)

text \<open>
  What a token costs. A refill gives whole tokens and moves the clock by their time rounded down to
  whole nanoseconds, so a source pays \<open>token_ns\<close> for a token: the exact price when the rate divides
  a billion, and up to a nanosecond less than it otherwise.
\<close>

definition token_ns :: "nat \<Rightarrow> nat" where
  "token_ns rate = nsec div rate"

lemma token_ns_pos: "0 < rate \<Longrightarrow> rate \<le> nsec \<Longrightarrow> 0 < token_ns rate"
  by (simp add: token_ns_def div_greater_zero_iff)

lemma token_ns_le: "0 < rate \<Longrightarrow> n * token_ns rate \<le> n * nsec div rate"
  by (simp add: token_ns_def less_eq_div_iff_mult_less_eq mult.assoc)

lemma token_ns_need: "0 < rate \<Longrightarrow> n * token_ns rate \<le> need_spec rate n"
  using token_ns_le [of rate n] div_le_mono [of "n * nsec" "n * nsec + rate - 1" rate]
  unfolding need_spec_def by linarith

lemma token_ns_exact:
  assumes "rate dvd nsec" "0 < rate" shows "t div token_ns rate = t * rate div nsec"
proof -
  obtain k where k: "nsec = rate * k" using assms(1) by (elim dvdE)
  then have "token_ns rate = k" using assms(2) unfolding token_ns_def k by simp
  then show ?thesis using assms(2) by (simp add: k mult.commute [of rate])
qed

lemma refill_spec_potential:
  assumes "0 < rate" and "refill_spec rate cap toks since now = (toks', since')"
  shows "toks' * token_ns rate + since \<le> toks * token_ns rate + since'"
proof (cases "toks < cap \<and> need_spec rate (cap - toks) \<le> now - since")
  case True
  have "0 < need_spec rate (cap - toks)"
    using need_spec_upper [OF assms(1), of "cap - toks"] True nsec_pos
    by (cases "need_spec rate (cap - toks)") (auto simp del: nsec_pos)
  then have "(cap - toks) * token_ns rate + since \<le> now"
    using token_ns_need [OF assms(1), of "cap - toks"] True by linarith
  moreover have "(cap - toks) * token_ns rate + toks * token_ns rate = cap * token_ns rate"
    using True by (simp flip: add_mult_distrib)
  moreover have eq: "toks' = cap" "since' = now" using assms(2) True by (simp_all add: refill_spec_def)
  ultimately show ?thesis unfolding eq by linarith
next
  case False
  with assms(2) token_ns_le [OF assms(1), of "(now - since) * rate div nsec"]
  show ?thesis by (auto simp: refill_spec_def add_mult_distrib split: if_splits)
qed

lemma unat_NSEC [simp]: "unat NSEC_PER_SEC = nsec"
  by (simp add: NSEC_PER_SEC_def nsec_def)

lemma u64_bound: "unat (x::u64) < 2 ^ 64"
proof -
  have "(unsigned x :: nat) < 2 ^ LENGTH(64)" by (rule unsigned_less)
  then show ?thesis by simp
qed

lemma unat_mult_fits: "unat (a::u64) * unat b < 2 ^ 64 \<Longrightarrow> unat (a * b) = unat a * unat b"
  by (subst unat_mult_lem [symmetric]) simp_all

lemma unat_add_fits: "unat (a::u64) + unat b < 2 ^ 64 \<Longrightarrow> unat (a + b) = unat a + unat b"
  by (subst unat_add_lem [symmetric]) simp_all

lemma elapsed_word: "unat (if (now::u64) > t then now - t else 0) = unat now - unat t"
  by (auto simp: unat_sub word_less_nat_alt word_le_nat_alt)

text \<open>The words of the refill computation, each under the bound that keeps it from wrapping.\<close>

lemma need_ns_word:
  assumes pos: "rate \<noteq> 0" "missing \<noteq> 0"
    and fits: "unat missing * nsec + unat rate \<le> 2 ^ 64"
  shows "unat ((missing * NSEC_PER_SEC + rate - 1) div rate) = need_spec (unat rate) (unat missing)"
proof -
  have r0: "0 < unat rate" using pos(1) by (simp add: unat_gt_0)
  with fits have lt: "unat missing * nsec < 2 ^ 64" by linarith
  then have m: "unat (missing * NSEC_PER_SEC) = unat missing * nsec"
    by (simp add: unat_mult_fits)
  have r1: "unat (rate - 1) = unat rate - 1" using pos(1) by (rule unat_minus_one)
  have "unat (missing * NSEC_PER_SEC + (rate - 1)) = unat missing * nsec + (unat rate - 1)"
    using fits r0 by (subst unat_add_fits) (simp_all add: m r1)
  then show ?thesis
    using r0 by (simp add: need_spec_def unat_div_distrib add_diff_eq)
qed

lemma gain_word:
  assumes "unat delta * unat rate < 2 ^ 64"
  shows "unat (delta * rate div NSEC_PER_SEC) = unat delta * unat rate div nsec"
  using assms by (simp add: unat_div_distrib unat_mult_fits)

lemma advance_word:
  assumes "unat add * nsec < 2 ^ 64"
  shows "unat (add * NSEC_PER_SEC div rate) = unat add * nsec div unat rate"
  using assms by (simp add: unat_div_distrib unat_mult_fits)

text \<open>
  Configurations whose burst cannot overflow the refill arithmetic: \<open>burst\<close> seconds at one token a
  nanosecond, plus the rounding term, stay within 64 bits.
\<close>

definition tb_cfg_ok :: "rl_cfg_t \<Rightarrow> bool" where
  "tb_cfg_ok cfg \<longleftrightarrow> rate_pps cfg \<noteq> 0 \<and> burst cfg \<noteq> 0 \<and>
     unat (burst cfg) * nsec + unat (rate_pps cfg) \<le> 2 ^ 64"

lemma tb_cfg_okD:
  assumes "tb_cfg_ok cfg"
  shows "rate_pps cfg \<noteq> 0" "burst cfg \<noteq> 0" "0 < unat (rate_pps cfg)" "0 < unat (burst cfg)"
    "unat (burst cfg) * nsec + unat (rate_pps cfg) \<le> 2 ^ 64"
    "\<And>m. m \<le> unat (burst cfg) \<Longrightarrow> m * nsec + unat (rate_pps cfg) \<le> 2 ^ 64"
    "\<And>m. m \<le> unat (burst cfg) \<Longrightarrow> m * nsec < 2 ^ 64"
proof -
  show 1: "rate_pps cfg \<noteq> 0" "burst cfg \<noteq> 0" and 2: "0 < unat (rate_pps cfg)" "0 < unat (burst cfg)"
    and 3: "unat (burst cfg) * nsec + unat (rate_pps cfg) \<le> 2 ^ 64"
    using assms by (auto simp: tb_cfg_ok_def unat_gt_0)
  fix m assume "m \<le> unat (burst cfg)"
  then have "m * nsec \<le> unat (burst cfg) * nsec" by simp
  with 2(1) 3 show "m * nsec + unat (rate_pps cfg) \<le> 2 ^ 64" "m * nsec < 2 ^ 64" by linarith+
qed

lemma tb_refill_full:
  assumes "tb_cfg_ok cfg" and "\<not> tokens st < burst cfg"
  shows "tb_refill st cfg now = (tokens st, last_ns st)"
  using assms by (simp add: tb_refill_def)

text \<open>The partial refill: no wrap-around, the clamp to \<open>burst\<close> never fires.\<close>

lemma tb_refill_partial:
  fixes st cfg now
  defines "d \<equiv> unat now - unat (last_ns st)"
  defines "add \<equiv> d * unat (rate_pps cfg) div nsec"
  assumes ok: "tb_cfg_ok cfg" and low: "tokens st < burst cfg"
    and early: "d < need_spec (unat (rate_pps cfg)) (unat (burst cfg) - unat (tokens st))"
  shows "map_prod unat unat (tb_refill st cfg now) =
    (unat (tokens st) + add, unat (last_ns st) + add * nsec div unat (rate_pps cfg))"
proof -
  let ?R = "unat (rate_pps cfg)" and ?M = "unat (burst cfg) - unat (tokens st)"
  define D where "D = (if now > last_ns st then now - last_ns st else 0)"
  define A where "A = D * rate_pps cfg div NSEC_PER_SEC"
  note okD = tb_cfg_okD [OF ok]
  have miss: "unat (burst cfg - tokens st) = ?M" "burst cfg \<noteq> tokens st" "0 < ?M"
    using low by (auto simp: unat_sub word_less_nat_alt word_le_nat_alt)
  have delta: "unat D = d" unfolding d_def D_def by (rule elapsed_word)
  have need: "unat (((burst cfg - tokens st) * NSEC_PER_SEC + rate_pps cfg - 1) div rate_pps cfg)
      = need_spec ?R ?M"
    using okD(6) [of ?M] by (subst need_ns_word) (simp_all add: okD miss)
  have dr: "d * ?R < ?M * nsec" by (rule need_spec_lower [OF okD(3) early])
  have a: "unat A = add"
    using dr okD(7) [of ?M] gain_word [of D "rate_pps cfg"] by (simp add: A_def add_def delta)
  have a_lt: "add < ?M" unfolding add_def by (rule refill_gain_lt [OF okD(3) early])
  then have a_lt': "unat (tokens st) + add < unat (burst cfg)" by arith
  have t: "unat (tokens st + A) = unat (tokens st) + add"
  proof -
    have "unat (tokens st) + unat A < 2 ^ 64"
      using a a_lt' u64_bound [of "burst cfg"] by linarith
    then show ?thesis by (simp only: unat_add_fits a)
  qed
  have adv: "unat (A * NSEC_PER_SEC div rate_pps cfg) = add * nsec div ?R"
    using advance_word [of A "rate_pps cfg"] okD(7) [of add] a_lt' a by simp
  have adv_le: "add * nsec div ?R \<le> d"
    unfolding add_def by (rule refill_advance_le [OF okD(3)])
  have "unat (last_ns st) + add * nsec div ?R < 2 ^ 64"
    using adv_le u64_bound [of now] u64_bound [of "last_ns st"] unfolding d_def by linarith
  then have l: "unat (last_ns st + A * NSEC_PER_SEC div rate_pps cfg)
      = unat (last_ns st) + add * nsec div ?R"
    by (subst unat_add_fits) (simp_all only: adv)
  have noclamp: "\<not> tokens st + A > burst cfg"
    using a_lt' unfolding word_less_nat_alt t by linarith
  have late: "\<not> ((burst cfg - tokens st) * NSEC_PER_SEC + rate_pps cfg - 1) div rate_pps cfg \<le> D"
    using early unfolding word_le_nat_alt need delta by linarith
  have zero: "add = 0" if "\<not> A > 0" using that a by (simp add: word_less_nat_alt)
  show ?thesis
    using low late noclamp zero t l unfolding tb_refill_def Let_def D_def [symmetric] A_def [symmetric] by auto
qed

lemma tb_refill_refines:
  assumes ok: "tb_cfg_ok cfg"
  shows "map_prod unat unat (tb_refill st cfg now) =
    refill_spec (unat (rate_pps cfg)) (unat (burst cfg)) (unat (tokens st)) (unat (last_ns st)) (unat now)"
proof (cases "tokens st < burst cfg")
  case False
  then show ?thesis by (simp add: tb_refill_full [OF ok] refill_spec_def word_less_nat_alt)
next
  case low: True
  let ?R = "unat (rate_pps cfg)" and ?M = "unat (burst cfg) - unat (tokens st)"
  note okD = tb_cfg_okD [OF ok]
  have lt: "unat (tokens st) < unat (burst cfg)" using low by (simp add: word_less_nat_alt)
  show ?thesis
  proof (cases "need_spec ?R ?M \<le> unat now - unat (last_ns st)")
    case False
    with low lt show ?thesis
      by (subst tb_refill_partial [OF ok]) (auto simp: refill_spec_def)
  next
    case True
    have miss: "unat (burst cfg - tokens st) = ?M" "burst cfg \<noteq> tokens st"
      using low by (auto simp: unat_sub word_le_nat_alt word_less_nat_alt)
    have "unat (((burst cfg - tokens st) * NSEC_PER_SEC + rate_pps cfg - 1) div rate_pps cfg)
        = need_spec ?R ?M"
      using okD(6) [of ?M] by (subst need_ns_word) (simp_all add: okD miss)
    then have "((burst cfg - tokens st) * NSEC_PER_SEC + rate_pps cfg - 1) div rate_pps cfg
        \<le> (if now > last_ns st then now - last_ns st else 0)"
      using True by (simp only: word_le_nat_alt elapsed_word)
    then show ?thesis
      using low lt True unfolding tb_refill_def Let_def by (simp add: refill_spec_def)
  qed
qed

section \<open>Taking a token: refinement\<close>

definition take_spec :: "nat \<Rightarrow> nat \<Rightarrow> nat \<times> nat \<Rightarrow> nat \<Rightarrow> bool \<times> nat \<times> nat" where
  "take_spec rate cap b now =
     (let (toks, since) = refill_spec rate cap (fst b) (snd b) now
      in if toks = 0 then (False, 0, since) else (True, toks - 1, since))"

definition tb_abs :: "rl_state_t \<Rightarrow> nat \<times> nat" where
  "tb_abs st = (unat (tokens st), unat (last_ns st))"

lemma tb_take_refines:
  assumes "tb_cfg_ok cfg"
  shows "map_prod id tb_abs (tb_take st cfg now) =
    take_spec (unat (rate_pps cfg)) (unat (burst cfg)) (tb_abs st) (unat now)"
proof (cases "tb_refill st cfg now")
  case (Pair toks since)
  with tb_refill_refines [OF assms, of st now]
  have "refill_spec (unat (rate_pps cfg)) (unat (burst cfg)) (unat (tokens st)) (unat (last_ns st)) (unat now)
      = (unat toks, unat since)" by simp
  with Pair show ?thesis
    by (simp add: tb_take_def take_spec_def tb_abs_def unat_eq_0 unat_minus_one)
qed

lemma tb_take_lock [simp]: "lock (snd (tb_take st cfg now)) = lock st"
  by (simp add: tb_take_def Let_def split: prod.split)

lemma take_spec_denies:
  assumes "0 < rate" "0 < cap"
  shows "\<not> fst (take_spec rate cap (toks, since) now) \<longleftrightarrow> toks = 0 \<and> (now - since) * rate < nsec"
proof (cases "need_spec rate cap \<le> now - since")
  case True
  then have "cap * nsec \<le> (now - since) * rate"
    using need_spec_upper [OF assms(1), of cap] by (meson le_trans mult_le_mono1)
  then have "nsec \<le> (now - since) * rate" using assms(2) by (cases cap) auto
  with True assms show ?thesis by (auto simp: take_spec_def refill_spec_def)
next
  case False
  with assms show ?thesis by (auto simp: take_spec_def refill_spec_def div_eq_0_iff nsec_def)
qed

lemma take_spec_denied_state:
  assumes "take_spec rate cap (toks, since) now = (False, b)" and "0 < cap"
  shows "b = (toks, since)"
  using assms by (auto simp: take_spec_def refill_spec_def Let_def split: if_splits prod.splits)

lemma take_spec_bounded:
  assumes "0 < rate" "toks \<le> cap" "take_spec rate cap (toks, since) now = (ok, toks', since')"
  shows "toks' \<le> cap - (if ok then 1 else 0)" "since' \<le> max since now" "since \<le> since'"
proof -
  obtain t s where r: "refill_spec rate cap toks since now = (t, s)" by fastforce
  have "t \<le> cap" using refill_spec_le_cap [OF assms(1,2), of since now] r by simp
  with r assms(3) show "toks' \<le> cap - (if ok then 1 else 0)"
    by (auto simp: take_spec_def split: if_splits)
  have "since \<le> s \<and> s \<le> max since now"
  proof -
    have "0 < need_spec rate (cap - toks)" if "toks < cap"
      using need_spec_upper [OF assms(1), of "cap - toks"] that
      by (cases "need_spec rate (cap - toks)") (auto simp: nsec_def)
    moreover have "since + (now - since) * rate div nsec * nsec div rate \<le> max since now"
      using refill_advance_le [OF assms(1), of "now - since"] by (cases "since \<le> now") auto
    ultimately show ?thesis using r by (auto simp: refill_spec_def split: if_splits)
  qed
  with r assms(3) show "since' \<le> max since now" "since \<le> since'"
    by (auto simp: take_spec_def split: if_splits)
qed

text \<open>
  The accounting step: an admitted request is charged the price of a token, and the bucket gains no
  more than the time its clock moved on.
\<close>

lemma take_spec_potential:
  assumes "0 < rate" and "take_spec rate cap (toks, since) now = (ok, toks', since')"
  shows "toks' * token_ns rate + since + (if ok then token_ns rate else 0) \<le> toks * token_ns rate + since'"
proof -
  obtain t s where r: "refill_spec rate cap toks since now = (t, s)" by fastforce
  have "t * token_ns rate + since \<le> toks * token_ns rate + s"
    by (rule refill_spec_potential [OF assms(1) r])
  with r assms(2) show ?thesis by (cases t) (auto simp: take_spec_def)
qed

section \<open>Runs of the bucket\<close>

text \<open>
  A run is a sequence of requests at the given clock readings, decided by \<open>tb_take\<close>; it returns the
  decisions and the final bucket.
\<close>

fun tb_run :: "rl_cfg_t \<Rightarrow> rl_state_t \<Rightarrow> u64 list \<Rightarrow> bool list \<times> rl_state_t" where
  "tb_run cfg st [] = ([], st)"
| "tb_run cfg st (now # ts) =
     (let (ok, st') = tb_take st cfg now; (oks, st'') = tb_run cfg st' ts in (ok # oks, st''))"

fun run_spec :: "nat \<Rightarrow> nat \<Rightarrow> nat \<times> nat \<Rightarrow> nat list \<Rightarrow> bool list \<times> nat \<times> nat" where
  "run_spec rate cap b [] = ([], b)"
| "run_spec rate cap b (now # ts) =
     (let (ok, b') = take_spec rate cap b now; (oks, b'') = run_spec rate cap b' ts
      in (ok # oks, b''))"

lemma tb_run_refines:
  assumes "tb_cfg_ok cfg"
  shows "map_prod id tb_abs (tb_run cfg st ts) =
    run_spec (unat (rate_pps cfg)) (unat (burst cfg)) (tb_abs st) (map unat ts)"
proof (induction ts arbitrary: st)
  case Nil
  show ?case by simp
next
  case (Cons now ts)
  obtain ok st' where t: "tb_take st cfg now = (ok, st')" by fastforce
  have "take_spec (unat (rate_pps cfg)) (unat (burst cfg)) (tb_abs st) (unat now) = (ok, tb_abs st')"
    using tb_take_refines [OF assms, of st now] t by simp
  with t Cons.IH [of st', symmetric] show ?case by (simp split: prod.split)
qed

lemma run_spec_potential:
  assumes "0 < rate"
  shows "run_spec rate cap (toks, since) ts = (oks, toks', since') \<Longrightarrow>
    toks' * token_ns rate + since + count_list oks True * token_ns rate \<le> toks * token_ns rate + since'"
proof (induction ts arbitrary: toks since oks)
  case Nil
  then show ?case by simp
next
  case (Cons now ts)
  obtain ok t s where t: "take_spec rate cap (toks, since) now = (ok, t, s)" by (cases "take_spec rate cap (toks, since) now") auto
  obtain oks1 where r: "run_spec rate cap (t, s) ts = (oks1, toks', since')" and oks: "oks = ok # oks1"
    using Cons.prems t by (auto split: prod.splits)
  show ?case
    using Cons.IH [OF r] take_spec_potential [OF assms t]
    by (cases ok) (auto simp: oks algebra_simps)
qed

lemma run_spec_since:
  assumes "0 < rate"
  shows "run_spec rate cap (toks, since) ts = (oks, toks', since') \<Longrightarrow> toks \<le> cap \<Longrightarrow>
    (\<forall>t\<in>set ts. t \<le> T) \<Longrightarrow> since \<le> T \<Longrightarrow> since' \<le> T"
proof (induction ts arbitrary: toks since oks)
  case Nil
  then show ?case by simp
next
  case (Cons now ts)
  obtain ok t s where t: "take_spec rate cap (toks, since) now = (ok, t, s)" by (cases "take_spec rate cap (toks, since) now") auto
  obtain oks1 where r: "run_spec rate cap (t, s) ts = (oks1, toks', since')"
    using Cons.prems t by (auto split: prod.splits)
  have "t \<le> cap" "s \<le> T"
    using take_spec_bounded [OF assms Cons.prems(2) t] Cons.prems(3,4) by (auto split: if_splits)
  with Cons.IH [OF r] Cons.prems show ?case by simp
qed

text \<open>The conformance bound of a run: one token every \<open>token_ns\<close> nanoseconds.\<close>

lemma within_price:
  assumes "0 < w" "n * w \<le> m * w + (d :: nat)" shows "n \<le> m + d div w"
proof -
  have "n = n * w div w" using assms(1) by simp
  also have "\<dots> \<le> (m * w + d) div w" using assms(2) by (rule div_le_mono)
  finally show ?thesis using assms(1) by simp
qed

lemma run_spec_rate_bound:
  assumes rate: "0 < rate" and run: "run_spec rate cap (toks, since) ts = (oks, b)"
    and "toks \<le> cap" "\<forall>t\<in>set ts. t \<le> T" "since \<le> T"
  shows "count_list oks True * token_ns rate \<le> toks * token_ns rate + (T - since)"
proof -
  obtain toks' since' where b: "b = (toks', since')" by fastforce
  have "since' \<le> T" using run_spec_since [OF rate run [unfolded b]] assms by blast
  then show ?thesis using run_spec_potential [OF rate run [unfolded b]] assms(5) by linarith
qed

lemma tb_run_rate_bound:
  assumes ok: "tb_cfg_ok cfg" and slow: "unat (rate_pps cfg) \<le> nsec" and run: "tb_run cfg st ts = (oks, st')"
    and cap: "tokens st \<le> burst cfg" and le: "\<forall>t\<in>set ts. t \<le> T" "last_ns st \<le> T"
  shows "count_list oks True
    \<le> unat (tokens st) + (unat T - unat (last_ns st)) div token_ns (unat (rate_pps cfg))"
proof -
  note r = tb_cfg_okD(3) [OF ok]
  have "run_spec (unat (rate_pps cfg)) (unat (burst cfg)) (unat (tokens st), unat (last_ns st)) (map unat ts)
      = (oks, tb_abs st')"
    using tb_run_refines [OF ok, of st ts] run by (simp add: tb_abs_def)
  from run_spec_rate_bound [OF r this, of "unat T"] show ?thesis
    using cap le by (intro within_price token_ns_pos [OF r slow]) (auto simp: word_le_nat_alt)
qed

section \<open>The locked update\<close>

definition usable_cfg :: "rl_cfg_t \<Rightarrow> bool" where
  "usable_cfg c \<longleftrightarrow> rate_pps c \<noteq> 0 \<and> burst c \<noteq> 0"

lemma tb_cfg_usable: "tb_cfg_ok c \<Longrightarrow> usable_cfg c"
  by (simp add: tb_cfg_ok_def usable_cfg_def)

lemma tb_allow_and_update_free:
  assumes "val (lock st) = 0" "usable_cfg cfg"
  shows "tb_allow_and_update (Some st) (Some cfg) now =
    Some (fst (tb_take st cfg now), Some (snd (tb_take st cfg now)))"
proof -
  have lk: "lock st = \<lparr>val = 0\<rparr>" using assms(1) by simp
  have "snd (tb_take (st\<lparr>lock := \<lparr>val = 1\<rparr>\<rparr>) cfg now)\<lparr>lock := \<lparr>val = 0\<rparr>\<rparr> = snd (tb_take st cfg now)"
    and "fst (tb_take (st\<lparr>lock := \<lparr>val = 1\<rparr>\<rparr>) cfg now) = fst (tb_take st cfg now)"
    by (simp_all add: tb_take_def tb_refill_def Let_def split: prod.split) (auto simp: rl_state_t.equality lk)
  then show ?thesis
    using assms by (cases "tb_take (st\<lparr>lock := \<lparr>val = 1\<rparr>\<rparr>) cfg now")
      (simp add: tb_allow_and_update_def tb_allow_and_update_unlocked_def
        spin_lock_def spin_unlock_def usable_cfg_def)
qed

section \<open>Properties\<close>

text \<open>
  C6: Taking a token through the lock. For a configuration whose refill arithmetic fits 64 bits and
  a bucket whose lock is free, the locked update returns, releases the lock, and decides and updates
  exactly as the reference bucket over the naturals.
\<close>

theorem locked_update_refines_bucket:
  assumes "tb_cfg_ok cfg" "val (lock st) = 0"
  shows "\<exists>ok st'. tb_allow_and_update (Some st) (Some cfg) now = Some (ok, Some st') \<and> val (lock st') = 0 \<and>
    take_spec (unat (rate_pps cfg)) (unat (burst cfg)) (tb_abs st) (unat now) = (ok, tb_abs st')"
  using tb_allow_and_update_free [OF assms(2) tb_cfg_usable [OF assms(1)], of now]
    tb_take_refines [OF assms(1), of st now] assms(2)
  by (cases "tb_take st cfg now") (metis fst_conv id_apply map_prod_simp snd_conv tb_take_lock)

definition demo_limit :: rl_cfg_t where
  "demo_limit = \<lparr>rate_pps = 100, burst = 200\<rparr>"

definition empty_bucket :: "u64 \<Rightarrow> rl_state_t" where
  "empty_bucket t = \<lparr>lock = \<lparr>val = 0\<rparr>, last_ns = t, tokens = 0\<rparr>"

lemma demo_limit_ok [simp]: "tb_cfg_ok demo_limit"
  by (simp add: tb_cfg_ok_def demo_limit_def nsec_def)

theorem locked_update_refines_bucket_witness:
  "\<exists>ok st'. tb_allow_and_update (Some (empty_bucket 5)) (Some demo_limit) 25000005 = Some (ok, Some st') \<and>
    val (lock st') = 0 \<and> take_spec 100 200 (0, 5) 25000005 = (ok, tb_abs st')"
  using locked_update_refines_bucket [of demo_limit "empty_bucket 5" 25000005]
  by (simp add: empty_bucket_def demo_limit_def tb_abs_def tb_cfg_ok_def nsec_def)

text \<open>
  The rate bound of one bucket. However requests arrive up to time \<open>T\<close>, the number the bucket
  admits is at most the tokens it held plus one for every \<open>token_ns\<close> nanoseconds of the elapsed time.
\<close>

theorem bucket_rate_bound:
  assumes "tb_cfg_ok cfg" "unat (rate_pps cfg) \<le> nsec" "tokens st \<le> burst cfg"
    and "\<forall>t \<in> set ts. t \<le> T" "last_ns st \<le> T"
  shows "count_list (fst (tb_run cfg st ts)) True
    \<le> unat (tokens st) + (unat T - unat (last_ns st)) div token_ns (unat (rate_pps cfg))"
  by (rule tb_run_rate_bound [OF assms(1,2) prod.collapse [symmetric] assms(3-5)])

theorem bucket_rate_bound_witness:
  "count_list (fst (tb_run demo_limit (empty_bucket 0) [1000000, 20000000, 20000001])) True \<le> 2"
  using bucket_rate_bound [of demo_limit "empty_bucket 0" "[1000000, 20000000, 20000001]" 20000001]
  by (simp add: demo_limit_def empty_bucket_def tb_cfg_ok_def nsec_def token_ns_def)

text \<open>
  When a request is refused. The bucket refuses exactly when it is empty and the time since its
  last refill is not worth a token, and a refused request leaves it as it was.
\<close>

theorem bucket_refuses_iff:
  assumes "tb_cfg_ok cfg"
  shows "(fst (tb_take st cfg now) \<longleftrightarrow>
      \<not> (tokens st = 0 \<and> (unat now - unat (last_ns st)) * unat (rate_pps cfg) < nsec)) \<and>
    (fst (tb_take st cfg now) \<or> snd (tb_take st cfg now) = st)"
proof -
  obtain ok st' where t: "tb_take st cfg now = (ok, st')" by fastforce
  have spec: "take_spec (unat (rate_pps cfg)) (unat (burst cfg)) (unat (tokens st), unat (last_ns st)) (unat now)
      = (ok, unat (tokens st'), unat (last_ns st'))"
    using tb_take_refines [OF assms, of st now] t by (simp add: tb_abs_def)
  have "st' = st" if "\<not> ok"
  proof -
    have "take_spec (unat (rate_pps cfg)) (unat (burst cfg)) (unat (tokens st), unat (last_ns st)) (unat now)
        = (False, unat (tokens st'), unat (last_ns st'))" using spec that by simp
    from take_spec_denied_state [OF this tb_cfg_okD(4) [OF assms]]
    have "tokens st' = tokens st" "last_ns st' = last_ns st" by (simp_all add: word_unat_eq_iff)
    with tb_take_lock [of st cfg now] t show ?thesis by (auto intro!: rl_state_t.equality)
  qed
  with take_spec_denies [OF tb_cfg_okD(3,4) [OF assms], of "unat (tokens st)" "unat (last_ns st)" "unat now"]
  show ?thesis using t spec by (auto simp: unat_eq_0)
qed

theorem bucket_refuses_iff_witness:
  "\<not> fst (tb_take (empty_bucket 0) demo_limit 9999999) \<and> fst (tb_take (empty_bucket 0) demo_limit 10000000)"
  using bucket_refuses_iff [of demo_limit "empty_bucket 0" 9999999]
    bucket_refuses_iff [of demo_limit "empty_bucket 0" 10000000]
  by (simp add: demo_limit_def empty_bucket_def tb_cfg_ok_def nsec_def)

text \<open>
  A source is never locked out. Once the time one token takes has passed since the last
  refill, the next request is admitted.
\<close>

theorem bucket_recovers:
  assumes "tb_cfg_ok cfg" "need_spec (unat (rate_pps cfg)) 1 \<le> unat now - unat (last_ns st)"
  shows "fst (tb_take st cfg now)"
proof -
  let ?R = "unat (rate_pps cfg)"
  have "nsec \<le> need_spec ?R 1 * ?R" using need_spec_upper [OF tb_cfg_okD(3) [OF assms(1)], of 1] by simp
  also have "\<dots> \<le> (unat now - unat (last_ns st)) * ?R" using assms(2) by simp
  finally have "\<not> (unat now - unat (last_ns st)) * ?R < nsec" by simp
  with take_spec_denies [OF tb_cfg_okD(3,4) [OF assms(1)]] tb_take_refines [OF assms(1), of st now]
  show ?thesis by (cases "tb_take st cfg now") (metis fst_conv id_apply map_prod_simp tb_abs_def)
qed

theorem bucket_recovers_witness: "fst (tb_take (empty_bucket 0) demo_limit 10000000)"
  using bucket_recovers [of demo_limit 10000000 "empty_bucket 0"]
  by (simp add: demo_limit_def empty_bucket_def tb_cfg_ok_def nsec_def need_spec_def)

text \<open>
  The bucket stays within its burst and its clock moves forward, never past the later of its
  old value and now.
\<close>

theorem bucket_stays_in_bounds:
  assumes "tb_cfg_ok cfg" "tokens st \<le> burst cfg" "tb_take st cfg now = (ok, st')"
  shows "tokens st' \<le> burst cfg \<and> last_ns st \<le> last_ns st' \<and> last_ns st' \<le> max (last_ns st) now"
proof -
  have spec: "take_spec (unat (rate_pps cfg)) (unat (burst cfg)) (unat (tokens st), unat (last_ns st)) (unat now)
      = (ok, unat (tokens st'), unat (last_ns st'))"
    using tb_take_refines [OF assms(1), of st now] assms(3) by (simp add: tb_abs_def)
  show ?thesis
    using take_spec_bounded [OF tb_cfg_okD(3) [OF assms(1)] _ spec] assms(2)
    by (auto simp: word_le_nat_alt max_def split: if_splits)
qed

theorem bucket_stays_in_bounds_witness:
  "tokens (snd (tb_take (empty_bucket 0) demo_limit 50000000)) \<le> 200"
  using bucket_stays_in_bounds [of demo_limit "empty_bucket 0" 50000000]
  by (cases "tb_take (empty_bucket 0) demo_limit 50000000")
    (simp add: demo_limit_def empty_bucket_def tb_cfg_ok_def nsec_def)

text \<open>
  A bucket above its burst (the limit was lowered while it was full) is not clamped: it admits
  every request, whatever the time, until it has drained to the new burst, and its clock stands
  still meanwhile.
\<close>

theorem overfull_bucket_drains:
  assumes "usable_cfg cfg" "unat (burst cfg) + length ts \<le> unat (tokens st) + 1"
  shows "tb_run cfg st ts = (replicate (length ts) True, st\<lparr>tokens := tokens st - of_nat (length ts)\<rparr>)"
  using assms(2)
proof (induction ts arbitrary: st)
  case Nil
  then show ?case by simp
next
  case (Cons now ts)
  have full: "\<not> tokens st < burst cfg" "tokens st \<noteq> 0"
    using Cons.prems assms(1) by (auto simp: word_less_nat_alt usable_cfg_def unat_gt_0 unat_eq_0)
  then have t: "tb_take st cfg now = (True, st\<lparr>tokens := tokens st - 1\<rparr>)"
    by (simp add: tb_take_def tb_refill_def)
  have "unat (tokens st - 1) = unat (tokens st) - 1" using full(2) by (rule unat_minus_one)
  then have "unat (burst cfg) + length ts \<le> unat (tokens (st\<lparr>tokens := tokens st - 1\<rparr>)) + 1"
    using Cons.prems full(2) by (simp add: unat_gt_0)
  from Cons.IH [OF this] t show ?case by (simp add: algebra_simps)
qed

theorem overfull_bucket_drains_witness:
  "tb_run demo_limit \<lparr>lock = \<lparr>val = 0\<rparr>, last_ns = 0, tokens = 205\<rparr> [1, 2, 3] =
    ([True, True, True], \<lparr>lock = \<lparr>val = 0\<rparr>, last_ns = 0, tokens = 202\<rparr>)"
  using overfull_bucket_drains [of demo_limit "[1, 2, 3]" "\<lparr>lock = \<lparr>val = 0\<rparr>, last_ns = 0, tokens = 205\<rparr>"]
  by (simp add: demo_limit_def usable_cfg_def)

text \<open>When the rate does not divide a billion, a token costs less than its time.\<close>

lemma token_ns_round:
  assumes "0 < rate" "\<not> rate dvd nsec"
  shows "token_ns rate * rate < nsec" "nsec < (token_ns rate + 1) * rate"
proof -
  have "0 < nsec mod rate" using assms(2) by (simp add: mod_greater_zero_iff_not_dvd)
  then show "token_ns rate * rate < nsec" "nsec < (token_ns rate + 1) * rate"
    using div_mult_mod_eq [of nsec rate] mod_less_divisor [OF assms(1), of nsec]
    unfolding token_ns_def add_mult_distrib by linarith+
qed

lemma rounded_take:
  assumes "0 < rate" "rate < nsec" "\<not> rate dvd nsec" "2 \<le> cap"
  shows "take_spec rate cap (0, t) (t + token_ns rate + 1) = (True, 0, t + token_ns rate)"
proof -
  let ?w = "token_ns rate"
  note w = token_ns_round [OF assms(1,3)]
  have two: "(?w + 1) * rate < 2 * nsec" using w(1) assms(2) by simp
  have "2 * nsec \<le> cap * nsec" using assms(4) by (rule mult_le_mono1)
  with two need_spec_upper [OF assms(1), of cap] have "(?w + 1) * rate < need_spec rate cap * rate" by linarith
  then have early: "\<not> need_spec rate cap \<le> ?w + 1" by (meson mult_right_less_imp_less not_le zero_le)
  have "(?w + 1) * rate div nsec = 1" using w(2) two by (intro div_nat_eqI) simp_all
  with early assms(4) show ?thesis
    by (simp add: take_spec_def refill_spec_def token_ns_def)
qed

lemma rounded_run:
  assumes "0 < rate" "rate < nsec" "\<not> rate dvd nsec" "2 \<le> cap"
  shows "run_spec rate cap (0, t) (map (\<lambda>i. t + (i + 1) * token_ns rate + 1) [0..<n]) =
    (replicate n True, 0, t + n * token_ns rate)"
proof (induction n arbitrary: t)
  case (Suc n)
  have "map (\<lambda>i. t + (i + 1) * token_ns rate + 1) [0..<Suc n] =
      (t + token_ns rate + 1) # map (\<lambda>i. (t + token_ns rate) + (i + 1) * token_ns rate + 1) [0..<n]"
    by (simp add: upt_conv_Cons map_Suc_upt [symmetric] o_def algebra_simps del: upt_Suc)
  with Suc [of "t + token_ns rate"] rounded_take [OF assms, of t] show ?case
    by (simp add: algebra_simps)
qed simp

text \<open>
  C35: Rounding admits more than the configured rate. When the rate does not divide a billion, a source
  that sends every \<open>token_ns\<close> nanoseconds, which is faster than its rate, has all its packets
  admitted, for as long as it likes and from an empty bucket: the nanosecond that each refill rounds
  off the time it charges is kept for the next one.
\<close>

theorem rounding_admits_faster:
  assumes "tb_cfg_ok cfg" "unat (rate_pps cfg) < nsec" "\<not> unat (rate_pps cfg) dvd nsec" "2 \<le> unat (burst cfg)"
    and "0 < n" "tokens st = 0" "map unat ts = map (\<lambda>i. unat (last_ns st) + (i + 1) * token_ns (unat (rate_pps cfg)) + 1) [0..<n]"
  shows "fst (tb_run cfg st ts) = replicate n True \<and>
    n * token_ns (unat (rate_pps cfg)) * unat (rate_pps cfg) < n * nsec"
proof
  note r = tb_cfg_okD(3) [OF assms(1)]
  have "map_prod id tb_abs (tb_run cfg st ts) = (replicate n True, 0, unat (last_ns st) + n * token_ns (unat (rate_pps cfg)))"
    unfolding tb_run_refines [OF assms(1)] assms(7) tb_abs_def assms(6) unsigned_0
    by (rule rounded_run [OF r assms(2-4)])
  then show "fst (tb_run cfg st ts) = replicate n True" by (cases "tb_run cfg st ts") simp
  show "n * token_ns (unat (rate_pps cfg)) * unat (rate_pps cfg) < n * nsec"
    using token_ns_round(1) [OF r assms(3)] assms(5) by (simp add: mult.assoc)
qed

theorem rounding_admits_faster_witness:
  "fst (tb_run \<lparr>rate_pps = 600000000, burst = 2\<rparr> (empty_bucket 0) [2, 3, 4, 5]) = [True, True, True, True]"
proof -
  let ?c = "\<lparr>rate_pps = 600000000, burst = 2\<rparr>"
  have r: "unat (rate_pps ?c) = 600000000" "unat (burst ?c) = 2" by simp_all
  have ok: "tb_cfg_ok ?c" "unat (rate_pps ?c) < nsec" "\<not> unat (rate_pps ?c) dvd nsec" "2 \<le> unat (burst ?c)"
    by (simp_all add: tb_cfg_ok_def r nsec_def)
  have w: "token_ns (unat (rate_pps ?c)) = 1" by (simp add: r token_ns_def nsec_def)
  have "map unat [2, 3, 4, 5 :: u64] = map (\<lambda>i. unat (last_ns (empty_bucket 0)) + (i + 1) * token_ns (unat (rate_pps ?c)) + 1) [0..<Suc (Suc (Suc (Suc 0)))]"
    unfolding w by (simp add: empty_bucket_def)
  moreover have "tokens (empty_bucket 0) = 0" by (simp add: empty_bucket_def)
  ultimately have "fst (tb_run ?c (empty_bucket 0) [2, 3, 4, 5]) = replicate (Suc (Suc (Suc (Suc 0)))) True"
    by (rule rounding_admits_faster [OF ok zero_less_Suc _, THEN conjunct1, rotated])
  then show ?thesis by (simp only: replicate.simps)
qed

text \<open>
  C36: Outside the bounded configurations the refill shortcut wraps. When \<open>burst * NSEC_PER_SEC +
  rate_pps - 1\<close> is past 64 bits, the time the code computes for a full refill is that of the
  remainder: an empty bucket asked after this time, but before the time of one token, is full again,
  where the reference bucket refuses the request.
\<close>

theorem large_burst_wraps:
  assumes "usable_cfg cfg" "tokens st = 0"
    and "unat ((burst cfg * NSEC_PER_SEC + rate_pps cfg - 1) div rate_pps cfg) \<le> unat now - unat (last_ns st)"
    and "(unat now - unat (last_ns st)) * unat (rate_pps cfg) < nsec"
  shows "2 ^ 64 < unat (burst cfg) * nsec + unat (rate_pps cfg) \<and>
    tb_take st cfg now = (True, st\<lparr>tokens := burst cfg - 1, last_ns := now\<rparr>) \<and>
    take_spec (unat (rate_pps cfg)) (unat (burst cfg)) (tb_abs st) (unat now) = (False, tb_abs st)"
proof (intro conjI)
  let ?R = "unat (rate_pps cfg)" and ?B = "unat (burst cfg)" and ?d = "unat now - unat (last_ns st)"
  have cfg: "rate_pps cfg \<noteq> 0" "burst cfg \<noteq> 0" "0 < ?R" "0 < ?B"
    using assms(1) by (auto simp: usable_cfg_def unat_gt_0)
  have late: "\<not> need_spec ?R n \<le> ?d" if "0 < n" for n
  proof
    assume "need_spec ?R n \<le> ?d"
    then have "n * nsec \<le> ?d * ?R" using need_spec_upper [OF cfg(3), of n] by (meson le_trans mult_le_mono1)
    moreover have "1 * nsec \<le> n * nsec" using that by (intro mult_le_mono1) simp
    ultimately show False using assms(4) by linarith
  qed
  show "2 ^ 64 < ?B * nsec + ?R"
    using need_ns_word [OF cfg(1,2)] assms(3) late [OF cfg(4)] by (metis not_le)
  have "(burst cfg * NSEC_PER_SEC + rate_pps cfg - 1) div rate_pps cfg
      \<le> (if now > last_ns st then now - last_ns st else 0)"
    using assms(3) by (simp only: word_le_nat_alt elapsed_word)
  then show "tb_take st cfg now = (True, st\<lparr>tokens := burst cfg - 1, last_ns := now\<rparr>)"
    using assms(2) cfg(2) by (simp add: tb_take_def tb_refill_def word_gt_0)
  show "take_spec ?R ?B (tb_abs st) (unat now) = (False, tb_abs st)"
    using late [OF cfg(4)] assms(2,4) cfg(4) by (simp add: take_spec_def refill_spec_def tb_abs_def)
qed

theorem large_burst_wraps_witness:
  "tb_take (empty_bucket 0) \<lparr>rate_pps = 1, burst = 18446744074\<rparr> 300000000 =
     (True, \<lparr>lock = \<lparr>val = 0\<rparr>, last_ns = 300000000, tokens = 18446744073\<rparr>) \<and>
   take_spec 1 18446744074 (0, 0) 300000000 = (False, 0, 0)"
  using large_burst_wraps [of "\<lparr>rate_pps = 1, burst = 18446744074\<rparr>" "empty_bucket 0" 300000000]
  by (simp add: usable_cfg_def empty_bucket_def NSEC_PER_SEC_def nsec_def tb_abs_def)

end
