(* ===== verification/Headers.thy ===== *)
theory Headers
  imports Bpf_Maps
begin

text \<open>
  The packet headers of \<open>src/shield/bpf/include/vmlinux.h\<close> that the program reads, as records
  loaded from the packet bytes, and \<open>parse_eth\<close>, the VLAN-aware Ethernet parser. Pointers into the
  packet are offsets from \<open>data\<close>; \<open>data_end\<close> is the length of the packet. A load outside the packet
  is the fault value \<open>None\<close>; an error return of the code is a value of the sum type.
\<close>

section \<open>Header structures\<close>

record ethhdr =
  h_dest :: "u8 list"
  h_source :: "u8 list"
  h_proto :: u16

record vlan_hdr =
  h_vlan_TCI :: u16
  h_vlan_encapsulated_proto :: u16

record iphdr =
  ip_ihl :: u8
  ip_version :: u8
  ip_tos :: u8
  ip_tot_len :: u16
  ip_id :: u16
  ip_frag_off :: u16
  ip_ttl :: u8
  ip_protocol :: u8
  ip_check :: u16
  ip_saddr :: u32
  ip_daddr :: u32

record ipv6hdr =
  ip6_priority :: u8
  ip6_version :: u8
  ip6_flow_lbl :: "u8 list"
  ip6_payload_len :: u16
  ip6_nexthdr :: u8
  ip6_hop_limit :: u8
  ip6_saddr :: "u8 list"
  ip6_daddr :: "u8 list"

record tcphdr =
  th_source :: u16
  th_dest :: u16
  th_seq :: u32
  th_ack_seq :: u32
  th_res1 :: u16
  th_doff :: u16
  th_fin :: bool
  th_syn :: bool
  th_rst :: bool
  th_psh :: bool
  th_ack :: bool
  th_urg :: bool
  th_ece :: bool
  th_cwr :: bool
  th_window :: u16
  th_check :: u16
  th_urg_ptr :: u16

record udphdr =
  uh_source :: u16
  uh_dest :: u16
  uh_len :: u16
  uh_check :: u16

text \<open>The \<open>sizeof\<close> of each structure.\<close>

definition sizeof_ethhdr :: nat where "sizeof_ethhdr = 14"
definition sizeof_vlan_hdr :: nat where "sizeof_vlan_hdr = 4"
definition sizeof_iphdr :: nat where "sizeof_iphdr = 20"
definition sizeof_ipv6hdr :: nat where "sizeof_ipv6hdr = 40"
definition sizeof_tcphdr :: nat where "sizeof_tcphdr = 20"
definition sizeof_udphdr :: nat where "sizeof_udphdr = 8"

lemmas sizeofs =
  sizeof_ethhdr_def sizeof_vlan_hdr_def sizeof_iphdr_def sizeof_ipv6hdr_def
  sizeof_tcphdr_def sizeof_udphdr_def

definition load_ethhdr :: "packet \<Rightarrow> nat \<Rightarrow> ethhdr option" where
  "load_ethhdr p i =
     do {
       d \<leftarrow> load_bytes p i 6;
       s \<leftarrow> load_bytes p (i + 6) 6;
       t \<leftarrow> load16 p (i + 12);
       Some \<lparr>h_dest = d, h_source = s, h_proto = t\<rparr>
     }"

definition load_vlan_hdr :: "packet \<Rightarrow> nat \<Rightarrow> vlan_hdr option" where
  "load_vlan_hdr p i =
     do {
       tci \<leftarrow> load16 p i;
       t \<leftarrow> load16 p (i + 2);
       Some \<lparr>h_vlan_TCI = tci, h_vlan_encapsulated_proto = t\<rparr>
     }"

definition load_iphdr :: "packet \<Rightarrow> nat \<Rightarrow> iphdr option" where
  "load_iphdr p i =
     do {
       b0 \<leftarrow> load8 p i;
       tos \<leftarrow> load8 p (i + 1);
       len \<leftarrow> load16 p (i + 2);
       ident \<leftarrow> load16 p (i + 4);
       frag \<leftarrow> load16 p (i + 6);
       ttl \<leftarrow> load8 p (i + 8);
       proto \<leftarrow> load8 p (i + 9);
       chk \<leftarrow> load16 p (i + 10);
       saddr \<leftarrow> load32 p (i + 12);
       daddr \<leftarrow> load32 p (i + 16);
       Some \<lparr>ip_ihl = b0 AND 15, ip_version = drop_bit 4 b0, ip_tos = tos, ip_tot_len = len,
             ip_id = ident, ip_frag_off = frag, ip_ttl = ttl, ip_protocol = proto,
             ip_check = chk, ip_saddr = saddr, ip_daddr = daddr\<rparr>
     }"

definition load_ipv6hdr :: "packet \<Rightarrow> nat \<Rightarrow> ipv6hdr option" where
  "load_ipv6hdr p i =
     do {
       b0 \<leftarrow> load8 p i;
       flow \<leftarrow> load_bytes p (i + 1) 3;
       len \<leftarrow> load16 p (i + 4);
       nh \<leftarrow> load8 p (i + 6);
       hlim \<leftarrow> load8 p (i + 7);
       saddr \<leftarrow> load_bytes p (i + 8) 16;
       daddr \<leftarrow> load_bytes p (i + 24) 16;
       Some \<lparr>ip6_priority = b0 AND 15, ip6_version = drop_bit 4 b0, ip6_flow_lbl = flow,
             ip6_payload_len = len, ip6_nexthdr = nh, ip6_hop_limit = hlim,
             ip6_saddr = saddr, ip6_daddr = daddr\<rparr>
     }"

definition load_tcphdr :: "packet \<Rightarrow> nat \<Rightarrow> tcphdr option" where
  "load_tcphdr p i =
     do {
       src \<leftarrow> load16 p i;
       dst \<leftarrow> load16 p (i + 2);
       seq \<leftarrow> load32 p (i + 4);
       ackseq \<leftarrow> load32 p (i + 8);
       fl \<leftarrow> load16 p (i + 12);
       win \<leftarrow> load16 p (i + 14);
       chk \<leftarrow> load16 p (i + 16);
       urg \<leftarrow> load16 p (i + 18);
       Some \<lparr>th_source = src, th_dest = dst, th_seq = seq, th_ack_seq = ackseq,
             th_res1 = fl AND 15, th_doff = drop_bit 4 fl AND 15,
             th_fin = bit fl 8, th_syn = bit fl 9, th_rst = bit fl 10, th_psh = bit fl 11,
             th_ack = bit fl 12, th_urg = bit fl 13, th_ece = bit fl 14, th_cwr = bit fl 15,
             th_window = win, th_check = chk, th_urg_ptr = urg\<rparr>
     }"

definition load_udphdr :: "packet \<Rightarrow> nat \<Rightarrow> udphdr option" where
  "load_udphdr p i =
     do {
       src \<leftarrow> load16 p i;
       dst \<leftarrow> load16 p (i + 2);
       len \<leftarrow> load16 p (i + 4);
       chk \<leftarrow> load16 p (i + 6);
       Some \<lparr>uh_source = src, uh_dest = dst, uh_len = len, uh_check = chk\<rparr>
     }"

lemma load_headers_safe [load_simps]:
  "i + sizeof_ethhdr \<le> length p \<Longrightarrow> \<exists>h. load_ethhdr p i = Some h"
  "i + sizeof_vlan_hdr \<le> length p \<Longrightarrow> \<exists>h. load_vlan_hdr p i = Some h"
  "i + sizeof_iphdr \<le> length p \<Longrightarrow> \<exists>h. load_iphdr p i = Some h"
  "i + sizeof_ipv6hdr \<le> length p \<Longrightarrow> \<exists>h. load_ipv6hdr p i = Some h"
  "i + sizeof_tcphdr \<le> length p \<Longrightarrow> \<exists>h. load_tcphdr p i = Some h"
  "i + sizeof_udphdr \<le> length p \<Longrightarrow> \<exists>h. load_udphdr p i = Some h"
  by (simp_all add: load_ethhdr_def load_vlan_hdr_def load_iphdr_def load_ipv6hdr_def
      load_tcphdr_def load_udphdr_def sizeofs load8_Some load16_Some load32_Some load_bytes_Some)

lemma load_ipv6hdr_saddr: "load_ipv6hdr p i = Some h \<Longrightarrow> length (ip6_saddr h) = 16"
  by (auto simp: load_ipv6hdr_def load_bytes_length split: Option.bind_splits)

section \<open>The Ethernet parser\<close>

datatype parse_error = Truncated

text \<open>
  The loop over at most two VLAN tags (unrolled in the code). \<open>off\<close> is the 64-bit offset of the
  code; the bounds checks compare pointers, which are offsets here.
\<close>

fun parse_vlan_tags :: "nat \<Rightarrow> packet \<Rightarrow> u16 \<Rightarrow> u64 \<Rightarrow> (parse_error + u16 \<times> u64) option" where
  "parse_vlan_tags 0 pkt proto off = Some (Inr (proto, off))"
| "parse_vlan_tags (Suc n) pkt proto off =
     (if proto = 0x8100 \<or> proto = 0x88a8 then
        if unat off + sizeof_vlan_hdr > length pkt then Some (Inl Truncated)
        else do {
          vh \<leftarrow> load_vlan_hdr pkt (unat off);
          parse_vlan_tags n pkt (bpf_ntohs (h_vlan_encapsulated_proto vh)) (off + 4)
        }
      else parse_vlan_tags n pkt proto off)"

definition parse_eth :: "packet \<Rightarrow> (parse_error + u16 \<times> u64) option" where
  "parse_eth pkt =
     (if sizeof_ethhdr > length pkt then Some (Inl Truncated)
      else do {
        eth \<leftarrow> load_ethhdr pkt 0;
        parse_vlan_tags 2 pkt (bpf_ntohs (h_proto eth)) 14
      })"

lemma parse_vlan_tags_safe: "\<exists>r. parse_vlan_tags n pkt proto off = Some r"
proof (induction n pkt proto off rule: parse_vlan_tags.induct)
  case (1 pkt proto off)
  show ?case by simp
next
  case (2 n pkt proto off)
  show ?case
  proof (cases "(proto = 0x8100 \<or> proto = 0x88a8) \<and> unat off + sizeof_vlan_hdr \<le> length pkt")
    case True
    then obtain vh where "load_vlan_hdr pkt (unat off) = Some vh"
      using load_headers_safe(2) by blast
    with True "2.IH"(1) show ?thesis by simp
  next
    case False
    with "2.IH"(2) show ?thesis by (auto simp: not_le)
  qed
qed

lemma parse_vlan_tags_bounds:
  assumes "parse_vlan_tags n pkt proto off = Some (Inr (proto', off'))"
    and "unat off \<le> length pkt" "unat off + 4 * n < 2 ^ 64"
  shows "unat off' \<le> length pkt \<and> unat off \<le> unat off' \<and> unat off' \<le> unat off + 4 * n"
  using assms
proof (induction n pkt proto off rule: parse_vlan_tags.induct)
  case (1 pkt proto off)
  then show ?case by simp
next
  case (2 n pkt proto off)
  show ?case
  proof (cases "proto = 0x8100 \<or> proto = 0x88a8")
    case True
    with "2.prems"(1) obtain vh where le: "unat off + 4 \<le> length pkt"
      and vh: "load_vlan_hdr pkt (unat off) = Some vh"
      and r: "parse_vlan_tags n pkt (bpf_ntohs (h_vlan_encapsulated_proto vh)) (off + 4) = Some (Inr (proto', off'))"
      by (auto simp: sizeof_vlan_hdr_def split: if_splits Option.bind_splits)
    have off4: "unat (off + 4) = unat off + 4"
      using "2.prems"(3) by (subst unat_add_lem [THEN iffD1]) simp_all
    have "\<not> unat off + sizeof_vlan_hdr > length pkt" using le by (simp add: sizeof_vlan_hdr_def)
    from "2.IH"(1) [OF True this vh r] le "2.prems"(3) show ?thesis by (simp add: off4)
  next
    case False
    with 2 show ?thesis by simp
  qed
qed

lemma parse_eth_safe: "\<exists>r. parse_eth pkt = Some r"
proof (cases "sizeof_ethhdr > length pkt")
  case False
  then obtain eth where "load_ethhdr pkt 0 = Some eth" using load_headers_safe(1) [of 0 pkt] by auto
  with False show ?thesis using parse_vlan_tags_safe by (simp add: parse_eth_def)
qed (simp add: parse_eth_def)

lemma parse_eth_bounds:
  assumes "parse_eth pkt = Some (Inr (proto, off))"
  shows "unat off \<le> length pkt" "14 \<le> unat off" "unat off \<le> 22"
proof -
  obtain p where le: "14 \<le> length pkt" and p: "parse_vlan_tags 2 pkt p 14 = Some (Inr (proto, off))"
    using assms by (auto simp: parse_eth_def sizeof_ethhdr_def not_less split: if_splits Option.bind_splits)
  show "unat off \<le> length pkt" "14 \<le> unat off" "unat off \<le> 22"
    using parse_vlan_tags_bounds [OF p] le by simp_all
qed

section \<open>Frames\<close>

text \<open>
  A frame with a list of VLAN tags (tag protocol identifier and tag control information), the
  EtherType of its payload and the payload, as bytes on the wire.
\<close>

fun tagged_payload :: "(u16 \<times> u16) list \<Rightarrow> u16 \<Rightarrow> u8 list \<Rightarrow> u8 list" where
  "tagged_payload [] proto payload = be16_bytes proto @ payload"
| "tagged_payload ((tpid, tci) # tags) proto payload =
     be16_bytes tpid @ be16_bytes tci @ tagged_payload tags proto payload"

definition eth_frame :: "u8 list \<Rightarrow> u8 list \<Rightarrow> (u16 \<times> u16) list \<Rightarrow> u16 \<Rightarrow> u8 list \<Rightarrow> packet" where
  "eth_frame dst src tags proto payload = dst @ src @ tagged_payload tags proto payload"

definition vlan_tpid :: "u16 \<Rightarrow> bool" where
  "vlan_tpid t \<longleftrightarrow> t = 0x8100 \<or> t = 0x88a8"

fun outer_proto :: "(u16 \<times> u16) list \<Rightarrow> u16 \<Rightarrow> u16" where
  "outer_proto [] proto = proto"
| "outer_proto ((tpid, tci) # tags) proto = tpid"

lemma load16_append: "length xs = i \<Longrightarrow> load16 (xs @ be16_bytes x @ ys) i = Some (le16 (ucast (drop_bit 8 x)) (ucast x))"
  by (simp add: load16_def be16_bytes_def nth_append)

lemma tagged_payload_head: "\<exists>rest. tagged_payload tags proto payload = be16_bytes (outer_proto tags proto) @ rest"
  by (cases tags rule: list.exhaust) auto

lemma load_vlan_hdr_tag:
  assumes "length pre = i"
  shows "\<exists>vh. load_vlan_hdr (pre @ be16_bytes tci @ tagged_payload tags proto payload) i = Some vh \<and>
    bpf_ntohs (h_vlan_encapsulated_proto vh) = outer_proto tags proto"
proof -
  obtain rest where r: "tagged_payload tags proto payload = be16_bytes (outer_proto tags proto) @ rest"
    using tagged_payload_head by blast
  have "load16 ((pre @ be16_bytes tci) @ be16_bytes (outer_proto tags proto) @ rest) (i + 2)
      = Some (le16 (ucast (drop_bit 8 (outer_proto tags proto))) (ucast (outer_proto tags proto)))"
    by (rule load16_append) (simp add: assms)
  then show ?thesis using load16_append [OF assms, of tci]
    by (simp add: load_vlan_hdr_def r)
qed

lemma parse_vlan_tags_frame:
  assumes "\<forall>(t, c) \<in> set tags. vlan_tpid t"
    and "n \<le> length tags \<or> \<not> vlan_tpid proto"
    and "pre @ be16_bytes (outer_proto tags proto) @ drop 2 (tagged_payload tags proto payload) = pkt"
    and "unat off = length pre + 2" "length pre + 4 * n + 2 < 2 ^ 64"
  shows "parse_vlan_tags n pkt (outer_proto tags proto) off =
    Some (Inr (outer_proto (drop n tags) proto, off + of_nat (4 * min n (length tags))))"
  using assms
proof (induction n arbitrary: tags off pre)
  case 0
  then show ?case by simp
next
  case (Suc n)
  show ?case
  proof (cases tags)
    case Nil
    with Suc.prems have "\<not> vlan_tpid proto" by simp
    moreover from this Suc.prems Nil have "parse_vlan_tags n pkt (outer_proto [] proto) off = Some (Inr (proto, off))"
      using Suc.IH [of "[]" pre off] by auto
    ultimately show ?thesis using Nil by (simp add: vlan_tpid_def)
  next
    case (Cons tag rest)
    obtain tpid tci where tag: "tag = (tpid, tci)" by fastforce
    have pkt: "pkt = (pre @ be16_bytes tpid) @ be16_bytes tci @ tagged_payload rest proto payload"
      unfolding Suc.prems(3) [symmetric] by (simp add: Cons tag be16_bytes_def)
    obtain vh where vh: "load_vlan_hdr pkt (unat off) = Some vh"
        "bpf_ntohs (h_vlan_encapsulated_proto vh) = outer_proto rest proto"
      using load_vlan_hdr_tag [of "pre @ be16_bytes tpid" "unat off" tci rest proto payload] Suc.prems(4)
      by (auto simp only: pkt length_append length_be16_bytes)
    obtain more where more: "tagged_payload rest proto payload = be16_bytes (outer_proto rest proto) @ more"
      using tagged_payload_head by blast
    have off4: "unat (off + 4) = unat off + 4"
      using Suc.prems(4,5) by (subst unat_add_lem [THEN iffD1]) simp_all
    have "parse_vlan_tags n pkt (outer_proto rest proto) (off + 4) =
        Some (Inr (outer_proto (drop n rest) proto, (off + 4) + of_nat (4 * min n (length rest))))"
      by (rule Suc.IH [where pre = "pre @ be16_bytes tpid @ be16_bytes tci"])
        (use Suc.prems(1,2,4,5) Cons off4 in \<open>auto simp: pkt more be16_bytes_def\<close>)
    moreover have "vlan_tpid tpid" "\<not> unat off + sizeof_vlan_hdr > length pkt"
      using Suc.prems(1,4) Cons tag pkt more by (auto simp: sizeof_vlan_hdr_def)
    ultimately show ?thesis using vh Cons tag by (simp add: vlan_tpid_def algebra_simps)
  qed
qed

lemma parse_eth_frame:
  assumes mac: "length dst = 6" "length src = 6"
    and "\<forall>(t, c) \<in> set tags. vlan_tpid t"
    and "2 \<le> length tags \<or> \<not> vlan_tpid proto"
  shows "parse_eth (eth_frame dst src tags proto payload) =
    Some (Inr (outer_proto (drop 2 tags) proto, 14 + of_nat (4 * min 2 (length tags))))"
proof -
  obtain rest where r: "tagged_payload tags proto payload = be16_bytes (outer_proto tags proto) @ rest"
    using tagged_payload_head by blast
  let ?p = "eth_frame dst src tags proto payload"
  have "load16 ((dst @ src) @ be16_bytes (outer_proto tags proto) @ rest) 12
      = Some (le16 (ucast (drop_bit 8 (outer_proto tags proto))) (ucast (outer_proto tags proto)))"
    by (rule load16_append) (simp add: mac)
  then obtain eth where eth: "load_ethhdr ?p 0 = Some eth" "bpf_ntohs (h_proto eth) = outer_proto tags proto"
    by (auto simp: load_ethhdr_def eth_frame_def r load_bytes_Some mac)
  have "parse_vlan_tags 2 ?p (outer_proto tags proto) 14 =
      Some (Inr (outer_proto (drop 2 tags) proto, 14 + of_nat (4 * min 2 (length tags))))"
    by (rule parse_vlan_tags_frame [where pre = "dst @ src" and payload = payload])
      (use assms r in \<open>auto simp: eth_frame_def be16_bytes_def\<close>)
  then show ?thesis using eth mac r by (simp add: parse_eth_def sizeof_ethhdr_def eth_frame_def)
qed

section \<open>Reads are local\<close>

text \<open>Two packets of the same length that agree on a range of bytes; the loads of that range agree.\<close>

definition agree :: "packet \<Rightarrow> packet \<Rightarrow> nat \<Rightarrow> nat \<Rightarrow> bool" where
  "agree p q i n \<longleftrightarrow> length p = length q \<and> (\<forall>j. i \<le> j \<longrightarrow> j < i + n \<longrightarrow> p ! j = q ! j)"

lemma agree_part: "agree p q i n \<Longrightarrow> i \<le> j \<Longrightarrow> j + m \<le> i + n \<Longrightarrow> agree p q j m"
  by (simp add: agree_def)

lemma load_agree:
  "agree p q i 1 \<Longrightarrow> load8 p i = load8 q i"
  "agree p q i 2 \<Longrightarrow> load16 p i = load16 q i"
  "agree p q i 4 \<Longrightarrow> load32 p i = load32 q i"
  "agree p q i n \<Longrightarrow> load_bytes p i n = load_bytes q i n"
proof -
  show "agree p q i n \<Longrightarrow> load_bytes p i n = load_bytes q i n"
    by (auto simp: agree_def load_bytes_def intro!: nth_equalityI)
qed (simp_all add: agree_def load8_def load16_def load32_def)

lemma load_headers_agree:
  "agree p q i 14 \<Longrightarrow> load_ethhdr p i = load_ethhdr q i"
  "agree p q i 4 \<Longrightarrow> load_vlan_hdr p i = load_vlan_hdr q i"
proof -
  assume a: "agree p q i 14"
  show "load_ethhdr p i = load_ethhdr q i"
    unfolding load_ethhdr_def
    using load_agree(4) [OF agree_part [OF a, of i 6]] load_agree(4) [OF agree_part [OF a, of "i + 6" 6]]
      load_agree(2) [OF agree_part [OF a, of "i + 12"]] by simp
next
  assume a: "agree p q i 4"
  show "load_vlan_hdr p i = load_vlan_hdr q i"
    unfolding load_vlan_hdr_def
    using load_agree(2) [OF agree_part [OF a, of i]] load_agree(2) [OF agree_part [OF a, of "i + 2"]] by simp
qed

lemma parse_vlan_tags_agree:
  assumes "parse_vlan_tags n pkt proto off = Some (Inr (proto', off'))" "unat off + 4 * n < 2 ^ 64"
    and "agree pkt' pkt 0 (unat off')"
  shows "parse_vlan_tags n pkt' proto off = Some (Inr (proto', off'))"
  using assms
proof (induction n pkt proto off rule: parse_vlan_tags.induct)
  case (1 pkt proto off)
  then show ?case by simp
next
  case (2 n pkt proto off)
  show ?case
  proof (cases "proto = 0x8100 \<or> proto = 0x88a8")
    case True
    with "2.prems"(1) obtain vh where le: "\<not> unat off + sizeof_vlan_hdr > length pkt"
      and vh: "load_vlan_hdr pkt (unat off) = Some vh"
      and r: "parse_vlan_tags n pkt (bpf_ntohs (h_vlan_encapsulated_proto vh)) (off + 4) = Some (Inr (proto', off'))"
      by (auto split: if_splits Option.bind_splits)
    have off4: "unat (off + 4) = unat off + 4"
      using "2.prems"(2) by (subst unat_add_lem [THEN iffD1]) simp_all
    have "unat (off + 4) \<le> unat off'"
      using parse_vlan_tags_bounds [OF r] le "2.prems"(2) by (simp add: off4 sizeof_vlan_hdr_def)
    then have "load_vlan_hdr pkt' (unat off) = Some vh"
      using vh load_headers_agree(2) [OF agree_part [OF "2.prems"(3)]] by (simp add: off4)
    moreover have "parse_vlan_tags n pkt' (bpf_ntohs (h_vlan_encapsulated_proto vh)) (off + 4) = Some (Inr (proto', off'))"
      using "2.IH"(1) [OF True le vh r] "2.prems"(2,3) le by (simp add: off4 sizeof_vlan_hdr_def)
    moreover have "length pkt' = length pkt" using "2.prems"(3) by (simp add: agree_def)
    ultimately show ?thesis using True le by simp
  next
    case False
    with "2.IH"(2) "2.prems" show ?thesis by auto
  qed
qed

lemma parse_eth_agree:
  assumes "parse_eth pkt = Some (Inr (proto, off))"
    and "agree pkt' pkt 0 (unat off)"
  shows "parse_eth pkt' = Some (Inr (proto, off))"
proof -
  obtain eth where eth: "load_ethhdr pkt 0 = Some eth" "\<not> sizeof_ethhdr > length pkt"
    and r: "parse_vlan_tags 2 pkt (bpf_ntohs (h_proto eth)) 14 = Some (Inr (proto, off))"
    using assms(1) by (auto simp: parse_eth_def split: if_splits Option.bind_splits)
  have off: "14 \<le> unat off" using parse_eth_bounds [OF assms(1)] by simp
  have "load_ethhdr pkt' 0 = Some eth"
    using eth(1) load_headers_agree(1) [OF agree_part [OF assms(2)]] off by simp
  moreover have "parse_vlan_tags 2 pkt' (bpf_ntohs (h_proto eth)) 14 = Some (Inr (proto, off))"
    by (rule parse_vlan_tags_agree [OF r _ assms(2)]) simp
  moreover have "length pkt' = length pkt" using assms(2) by (simp add: agree_def)
  ultimately show ?thesis using eth(2) by (simp add: parse_eth_def)
qed

lemma load_iphdr_frag:
  fixes x y :: u8
  assumes "load_iphdr pkt u = Some iph" "u + 20 \<le> length pkt"
  shows "load_iphdr (pkt[u + 6 := x, u + 7 := y]) u = Some (iph\<lparr>ip_frag_off := le16 x y\<rparr>)"
proof -
  let ?q = "pkt[u + 6 := x, u + 7 := y]"
  have a: "agree ?q pkt u 6" "agree ?q pkt (u + 8) 12" by (simp_all add: agree_def)
  have "load16 ?q (u + 6) = Some (le16 x y)"
    using assms(2) by (simp add: load16_def) (simp add: nth_list_update)
  moreover have "load8 ?q u = load8 pkt u" "load8 ?q (u + 1) = load8 pkt (u + 1)"
    "load16 ?q (u + 2) = load16 pkt (u + 2)" "load16 ?q (u + 4) = load16 pkt (u + 4)"
    by (rule load_agree, rule agree_part [OF a(1)]; simp)+
  moreover have "load8 ?q (u + 8) = load8 pkt (u + 8)" "load8 ?q (u + 9) = load8 pkt (u + 9)"
    "load16 ?q (u + 10) = load16 pkt (u + 10)" "load32 ?q (u + 12) = load32 pkt (u + 12)"
    "load32 ?q (u + 16) = load32 pkt (u + 16)"
    by (rule load_agree, rule agree_part [OF a(2)]; simp)+
  ultimately show ?thesis
    using assms(1) by (auto simp: load_iphdr_def split: Option.bind_splits)
qed

section \<open>Properties\<close>

text \<open>
  Ethernet round trip. The parser recovers the EtherType and the payload offset of every frame
  with at most two VLAN tags, whatever the addresses, the tags' control words and the payload.
\<close>

theorem vlan_frame_roundtrip:
  assumes "length dst = 6" "length src = 6" "length tags \<le> 2"
    and "\<forall>(t, c) \<in> set tags. vlan_tpid t" "\<not> vlan_tpid proto"
  shows "parse_eth (eth_frame dst src tags proto payload) = Some (Inr (proto, 14 + 4 * of_nat (length tags))) \<and>
    drop (14 + 4 * length tags) (eth_frame dst src tags proto payload) = payload"
proof
  have "outer_proto (drop 2 tags) proto = proto" using assms(3) by simp
  then show "parse_eth (eth_frame dst src tags proto payload) = Some (Inr (proto, 14 + 4 * of_nat (length tags)))"
    using parse_eth_frame [OF assms(1,2,4)] assms(3,5) by (simp add: min_absorb2)
  have "drop (2 + 4 * length ts) (tagged_payload ts proto payload) = payload" for ts
    by (induction ts) (auto simp: be16_bytes_def numeral_eq_Suc)
  then show "drop (14 + 4 * length tags) (eth_frame dst src tags proto payload) = payload"
    using assms(1,2) by (simp add: eth_frame_def)
qed

theorem vlan_frame_roundtrip_witness:
  "parse_eth (eth_frame [0, 1, 2, 3, 4, 5] [6, 7, 8, 9, 10, 11] [(0x88a8, 7), (0x8100, 9)] 0x86DD [96]) =
    Some (Inr (0x86DD, 22))"
  using vlan_frame_roundtrip [where dst = "[0, 1, 2, 3, 4, 5]" and src = "[6, 7, 8, 9, 10, 11]"
      and tags = "[(0x88a8, 7), (0x8100, 9)]" and proto = "0x86DD" and payload = "[96]"]
  by (simp add: vlan_tpid_def)

text \<open>
  The Ethernet parser on arbitrary bytes. It never reads outside the packet, and it either
  reports a truncated frame or yields an offset between 14 and 22 that lies within the packet.
\<close>

theorem parse_eth_total:
  "parse_eth pkt = Some (Inl Truncated) \<or>
    (\<exists>proto off. parse_eth pkt = Some (Inr (proto, off)) \<and> 14 \<le> unat off \<and> unat off \<le> 22 \<and>
      unat off \<le> length pkt)"
proof -
  obtain r where r: "parse_eth pkt = Some r" using parse_eth_safe by blast
  show ?thesis
  proof (cases r)
    case (Inl e)
    with r show ?thesis by (cases e) simp
  next
    case (Inr x)
    with r parse_eth_bounds [of pkt "fst x" "snd x"] show ?thesis by (cases x) auto
  qed
qed

end
