(* ===== verification/Telemetry.thy ===== *)
theory Telemetry
  imports Headers
begin

text \<open>
  The telemetry of the program: the per-CPU totals, the packet-length and port histograms, the
  per-source statistics for IPv4 and IPv6, the per-flow counters and the sampled ring-buffer
  events. All counters are 64-bit words and wrap. The locale \<open>source_telemetry\<close> states what the
  two per-source updates have in common; \<open>src4_update\<close> and \<open>src6_update\<close> both provide it.
\<close>

section \<open>Classification of a packet\<close>

text \<open>The layer-4 facts the program extracts; ports in network byte order.\<close>

record l4_info =
  is_tcp :: bool
  is_udp :: bool
  is_icmp :: bool
  syn :: bool
  synack :: bool
  rst :: bool
  ack :: bool
  dport :: u16
  sport :: u16
  tcp_flags :: u8

definition no_l4 :: l4_info where
  "no_l4 = \<lparr>is_tcp = False, is_udp = False, is_icmp = False, syn = False, synack = False,
     rst = False, ack = False, dport = 0, sport = 0, tcp_flags = 0\<rparr>"

record drops =
  drop_allow :: bool
  drop_deny :: bool
  drop_rl :: bool

definition no_drop :: drops where
  "no_drop = \<lparr>drop_allow = False, drop_deny = False, drop_rl = False\<rparr>"

definition dropped :: "drops \<Rightarrow> bool" where
  "dropped d \<longleftrightarrow> drop_allow d \<or> drop_deny d \<or> drop_rl d"

text \<open>At most one reason to drop.\<close>

definition one_reason :: "drops \<Rightarrow> bool" where
  "one_reason d \<longleftrightarrow> \<not> (drop_allow d \<and> drop_deny d) \<and> \<not> (drop_allow d \<and> drop_rl d) \<and>
     \<not> (drop_deny d \<and> drop_rl d)"

section \<open>Totals\<close>

record xdp_totals_t =
  t_pkts :: u64
  t_bytes :: u64
  t_pass :: u64
  t_drop_allow :: u64
  t_drop_deny :: u64
  t_drop_rl :: u64
  t_v4 :: u64
  t_v6 :: u64
  t_tcp :: u64
  t_udp :: u64
  t_icmp :: u64
  t_syn :: u64
  t_synack :: u64
  t_rst :: u64
  t_ack :: u64
  t_ipv4_frags :: u64
  t_dport_changes :: u64
  t_new_sources :: u64
  t_allow_hits :: u64
  t_deny_hits :: u64
  t_rl_hits :: u64

text \<open>
  A pointer into the totals array is the index of the element it points to, or \<open>None\<close> for NULL;
  \<open>on_totals t f\<close> is the statement \<open>if (t) f(t);\<close>.
\<close>

type_synonym totals_map = "u32 \<rightharpoonup> xdp_totals_t"

definition totals_get :: "totals_map \<Rightarrow> u32 option" where
  "totals_get m = (if m 0 = None then None else Some 0)"

definition on_totals :: "u32 option \<Rightarrow> (xdp_totals_t \<Rightarrow> xdp_totals_t) \<Rightarrow> totals_map \<Rightarrow> totals_map" where
  "on_totals t f m =
     (case t of None \<Rightarrow> m
      | Some k \<Rightarrow> (case m k of None \<Rightarrow> m | Some v \<Rightarrow> m(k \<mapsto> f v)))"

definition totals_add_basic :: "u32 option \<Rightarrow> u64 \<Rightarrow> totals_map \<Rightarrow> totals_map" where
  "totals_add_basic t len m =
     on_totals t (\<lambda>v. v\<lparr>t_pkts := t_pkts v + 1, t_bytes := t_bytes v + len\<rparr>) m"

section \<open>Histograms\<close>

record port_hist_v =
  ph_pkts :: u64
  ph_bytes :: u64
  ph_drops :: u64

record len_hist_v =
  lh_pkts :: u64
  lh_bytes :: u64

definition hist_len_bin :: "u64 \<Rightarrow> u32" where
  "hist_len_bin pkt_len =
     (if pkt_len < 64 then 0
      else if pkt_len < 128 then 1
      else if pkt_len < 256 then 2
      else if pkt_len < 512 then 3
      else if pkt_len < 1024 then 4
      else if pkt_len < 1518 then 5
      else if pkt_len < 2048 then 6
      else if pkt_len < 4096 then 7
      else if pkt_len < 8192 then 8
      else 15)"

definition hist_len_add :: "u64 \<Rightarrow> (u32 \<rightharpoonup> len_hist_v) \<Rightarrow> (u32 \<rightharpoonup> len_hist_v)" where
  "hist_len_add pkt_len m =
     (let bin = hist_len_bin pkt_len
      in case m bin of
           None \<Rightarrow> m
         | Some v \<Rightarrow> m(bin \<mapsto> v\<lparr>lh_pkts := lh_pkts v + 1, lh_bytes := lh_bytes v + pkt_len\<rparr>))"

definition hist_port_add ::
    "u16 \<Rightarrow> u64 \<Rightarrow> bool \<Rightarrow> (u32 \<rightharpoonup> port_hist_v) \<Rightarrow> (u32 \<rightharpoonup> port_hist_v)" where
  "hist_port_add dport_net pkt_len is_dropped m =
     (if dport_net = 0 then m
      else let p = (ucast (bpf_ntohs dport_net) :: u32)
      in if p \<ge> 1024 then m
      else case m p of
             None \<Rightarrow> m
           | Some v \<Rightarrow>
               (let v1 = v\<lparr>ph_pkts := ph_pkts v + 1, ph_bytes := ph_bytes v + pkt_len\<rparr>
                in m(p \<mapsto> (if is_dropped then v1\<lparr>ph_drops := ph_drops v1 + 1\<rparr> else v1))))"

section \<open>Per-source statistics\<close>

record xdp_src_stats_v4_t =
  s4_pkts :: u64
  s4_bytes :: u64
  s4_tcp :: u64
  s4_udp :: u64
  s4_icmp :: u64
  s4_syn :: u64
  s4_synack :: u64
  s4_rst :: u64
  s4_ack :: u64
  s4_pass :: u64
  s4_drop_allow :: u64
  s4_drop_deny :: u64
  s4_drop_rl :: u64
  s4_first_seen_ns :: u64
  s4_last_seen_ns :: u64
  s4_last_sport :: u16
  s4_last_dport :: u16
  s4_dport_changes :: u64
  s4_last_ttl :: u8
  s4_last_tcp_flags :: u8
  s4_pad :: u16

record xdp_src_stats_v6_t =
  s6_pkts :: u64
  s6_bytes :: u64
  s6_tcp :: u64
  s6_udp :: u64
  s6_icmp :: u64
  s6_syn :: u64
  s6_synack :: u64
  s6_rst :: u64
  s6_ack :: u64
  s6_pass :: u64
  s6_drop_allow :: u64
  s6_drop_deny :: u64
  s6_drop_rl :: u64
  s6_first_seen_ns :: u64
  s6_last_seen_ns :: u64
  s6_last_sport :: u16
  s6_last_dport :: u16
  s6_dport_changes :: u64
  s6_last_hlim :: u8
  s6_last_tcp_flags :: u8
  s6_pad :: u16

record src6_key =
  src6_ip :: "u8 list"

text \<open>The arguments of the per-source updates after the address.\<close>

record sample =
  sm_len :: u64
  sm_now :: u64
  sm_l4 :: l4_info
  sm_ttl :: u8
  sm_pass :: bool
  sm_drops :: drops

abbreviation flag :: "bool \<Rightarrow> u64" where
  "flag b \<equiv> (if b then 1 else 0)"

definition src4_init :: "sample \<Rightarrow> xdp_src_stats_v4_t" where
  "src4_init x =
     \<lparr>s4_pkts = 1, s4_bytes = sm_len x,
      s4_tcp = flag (is_tcp (sm_l4 x)), s4_udp = flag (is_udp (sm_l4 x)),
      s4_icmp = flag (is_icmp (sm_l4 x)),
      s4_syn = flag (syn (sm_l4 x)), s4_synack = flag (synack (sm_l4 x)),
      s4_rst = flag (rst (sm_l4 x)), s4_ack = flag (ack (sm_l4 x)),
      s4_pass = flag (sm_pass x), s4_drop_allow = flag (drop_allow (sm_drops x)),
      s4_drop_deny = flag (drop_deny (sm_drops x)), s4_drop_rl = flag (drop_rl (sm_drops x)),
      s4_first_seen_ns = sm_now x, s4_last_seen_ns = sm_now x,
      s4_last_sport = sport (sm_l4 x), s4_last_dport = dport (sm_l4 x),
      s4_dport_changes = 0,
      s4_last_ttl = sm_ttl x, s4_last_tcp_flags = tcp_flags (sm_l4 x), s4_pad = 0\<rparr>"

definition src4_dport_changed :: "sample \<Rightarrow> xdp_src_stats_v4_t \<Rightarrow> bool" where
  "src4_dport_changed x st \<longleftrightarrow> dport (sm_l4 x) \<noteq> 0 \<and> s4_last_dport st \<noteq> dport (sm_l4 x)"

text \<open>
  The update of an existing entry. Each statement of the code changes one field from its own old
  value (\<open>if (c) st->x++\<close> adds \<open>flag c\<close>), so the statements are one record update.
\<close>

definition src4_touch :: "sample \<Rightarrow> xdp_src_stats_v4_t \<Rightarrow> xdp_src_stats_v4_t" where
  "src4_touch x st =
     st\<lparr>s4_pkts := s4_pkts st + 1,
        s4_bytes := s4_bytes st + sm_len x,
        s4_tcp := s4_tcp st + flag (is_tcp (sm_l4 x)),
        s4_udp := s4_udp st + flag (is_udp (sm_l4 x)),
        s4_icmp := s4_icmp st + flag (is_icmp (sm_l4 x)),
        s4_syn := s4_syn st + flag (syn (sm_l4 x)),
        s4_synack := s4_synack st + flag (synack (sm_l4 x)),
        s4_rst := s4_rst st + flag (rst (sm_l4 x)),
        s4_ack := s4_ack st + flag (ack (sm_l4 x)),
        s4_pass := s4_pass st + flag (sm_pass x),
        s4_drop_allow := s4_drop_allow st + flag (drop_allow (sm_drops x)),
        s4_drop_deny := s4_drop_deny st + flag (drop_deny (sm_drops x)),
        s4_drop_rl := s4_drop_rl st + flag (drop_rl (sm_drops x)),
        s4_last_seen_ns := sm_now x,
        s4_last_sport := (if sport (sm_l4 x) \<noteq> 0 then sport (sm_l4 x) else s4_last_sport st),
        s4_dport_changes := s4_dport_changes st + flag (src4_dport_changed x st),
        s4_last_dport := (if src4_dport_changed x st then dport (sm_l4 x) else s4_last_dport st),
        s4_last_ttl := (if sm_ttl x \<noteq> 0 then sm_ttl x else s4_last_ttl st),
        s4_last_tcp_flags :=
          (if tcp_flags (sm_l4 x) \<noteq> 0 then tcp_flags (sm_l4 x) else s4_last_tcp_flags st)\<rparr>"

text \<open>The result is the bit mask of the code: bit 0, destination port changed; bit 1, new source.\<close>

definition src4_update ::
    "(u32, xdp_src_stats_v4_t) map_update \<Rightarrow> u32 \<Rightarrow> sample \<Rightarrow> (u32 \<rightharpoonup> xdp_src_stats_v4_t)
     \<Rightarrow> u32 \<times> (u32 \<rightharpoonup> xdp_src_stats_v4_t)" where
  "src4_update upd saddr x m =
     (case m saddr of
        None \<Rightarrow> (2, upd BPF_ANY saddr (src4_init x) m)
      | Some st \<Rightarrow> (if src4_dport_changed x st then 1 else 0, m(saddr \<mapsto> src4_touch x st)))"

definition src6_init :: "sample \<Rightarrow> xdp_src_stats_v6_t" where
  "src6_init x =
     \<lparr>s6_pkts = 1, s6_bytes = sm_len x,
      s6_tcp = flag (is_tcp (sm_l4 x)), s6_udp = flag (is_udp (sm_l4 x)),
      s6_icmp = flag (is_icmp (sm_l4 x)),
      s6_syn = flag (syn (sm_l4 x)), s6_synack = flag (synack (sm_l4 x)),
      s6_rst = flag (rst (sm_l4 x)), s6_ack = flag (ack (sm_l4 x)),
      s6_pass = flag (sm_pass x), s6_drop_allow = flag (drop_allow (sm_drops x)),
      s6_drop_deny = flag (drop_deny (sm_drops x)), s6_drop_rl = flag (drop_rl (sm_drops x)),
      s6_first_seen_ns = sm_now x, s6_last_seen_ns = sm_now x,
      s6_last_sport = sport (sm_l4 x), s6_last_dport = dport (sm_l4 x),
      s6_dport_changes = 0,
      s6_last_hlim = sm_ttl x, s6_last_tcp_flags = tcp_flags (sm_l4 x), s6_pad = 0\<rparr>"

definition src6_dport_changed :: "sample \<Rightarrow> xdp_src_stats_v6_t \<Rightarrow> bool" where
  "src6_dport_changed x st \<longleftrightarrow> dport (sm_l4 x) \<noteq> 0 \<and> s6_last_dport st \<noteq> dport (sm_l4 x)"

definition src6_touch :: "sample \<Rightarrow> xdp_src_stats_v6_t \<Rightarrow> xdp_src_stats_v6_t" where
  "src6_touch x st =
     st\<lparr>s6_pkts := s6_pkts st + 1,
        s6_bytes := s6_bytes st + sm_len x,
        s6_tcp := s6_tcp st + flag (is_tcp (sm_l4 x)),
        s6_udp := s6_udp st + flag (is_udp (sm_l4 x)),
        s6_icmp := s6_icmp st + flag (is_icmp (sm_l4 x)),
        s6_syn := s6_syn st + flag (syn (sm_l4 x)),
        s6_synack := s6_synack st + flag (synack (sm_l4 x)),
        s6_rst := s6_rst st + flag (rst (sm_l4 x)),
        s6_ack := s6_ack st + flag (ack (sm_l4 x)),
        s6_pass := s6_pass st + flag (sm_pass x),
        s6_drop_allow := s6_drop_allow st + flag (drop_allow (sm_drops x)),
        s6_drop_deny := s6_drop_deny st + flag (drop_deny (sm_drops x)),
        s6_drop_rl := s6_drop_rl st + flag (drop_rl (sm_drops x)),
        s6_last_seen_ns := sm_now x,
        s6_last_sport := (if sport (sm_l4 x) \<noteq> 0 then sport (sm_l4 x) else s6_last_sport st),
        s6_dport_changes := s6_dport_changes st + flag (src6_dport_changed x st),
        s6_last_dport := (if src6_dport_changed x st then dport (sm_l4 x) else s6_last_dport st),
        s6_last_hlim := (if sm_ttl x \<noteq> 0 then sm_ttl x else s6_last_hlim st),
        s6_last_tcp_flags :=
          (if tcp_flags (sm_l4 x) \<noteq> 0 then tcp_flags (sm_l4 x) else s6_last_tcp_flags st)\<rparr>"

definition src6_update ::
    "(src6_key, xdp_src_stats_v6_t) map_update \<Rightarrow> u8 list \<Rightarrow> sample
     \<Rightarrow> (src6_key \<rightharpoonup> xdp_src_stats_v6_t) \<Rightarrow> u32 \<times> (src6_key \<rightharpoonup> xdp_src_stats_v6_t)" where
  "src6_update upd saddr16 x m =
     (let k = \<lparr>src6_ip = saddr16\<rparr>
      in case m k of
           None \<Rightarrow> (2, upd BPF_ANY k (src6_init x) m)
         | Some st \<Rightarrow> (if src6_dport_changed x st then 1 else 0, m(k \<mapsto> src6_touch x st)))"

section \<open>Per-flow counters\<close>

record flow4_key =
  fk_src_ip :: u32
  fk_dst_port :: u16
  fk_proto :: u8
  fk_pad :: u8

record flow4_stats =
  f4_pkts :: u64
  f4_bytes :: u64
  f4_syn :: u64

definition flow4_key_of :: "u32 \<Rightarrow> u16 \<Rightarrow> u8 \<Rightarrow> flow4_key" where
  "flow4_key_of saddr dport_net proto =
     \<lparr>fk_src_ip = saddr, fk_dst_port = bpf_ntohs dport_net, fk_proto = proto, fk_pad = 0\<rparr>"

definition flow4_update ::
    "(flow4_key, flow4_stats) map_update \<Rightarrow> u32 \<Rightarrow> u16 \<Rightarrow> u8 \<Rightarrow> u64 \<Rightarrow> bool
     \<Rightarrow> (flow4_key \<rightharpoonup> flow4_stats) \<Rightarrow> (flow4_key \<rightharpoonup> flow4_stats)" where
  "flow4_update upd saddr dport_net proto len is_syn m =
     (let fk = flow4_key_of saddr dport_net proto
      in case m fk of
           Some fv \<Rightarrow>
             (let fv = fv\<lparr>f4_pkts := f4_pkts fv + 1, f4_bytes := f4_bytes fv + len\<rparr>
              in m(fk \<mapsto> (if is_syn then fv\<lparr>f4_syn := f4_syn fv + 1\<rparr> else fv)))
         | None \<Rightarrow>
             upd BPF_NOEXIST fk \<lparr>f4_pkts = 1, f4_bytes = len, f4_syn = flag is_syn\<rparr> m)"

section \<open>Ring-buffer events\<close>

definition EV_DROP_ALLOW :: u32 where "EV_DROP_ALLOW = 1"
definition EV_DROP_DENY :: u32 where "EV_DROP_DENY = 2"
definition EV_DROP_RL :: u32 where "EV_DROP_RL = 3"
definition EV_SCAN_HINT :: u32 where "EV_SCAN_HINT = 4"

lemmas event_reasons = EV_DROP_ALLOW_def EV_DROP_DENY_def EV_DROP_RL_def EV_SCAN_HINT_def

record xdp_event_t =
  ev_ts_ns :: u64
  ev_reason :: u32
  ev_ipver :: u8
  ev_l4proto :: u8
  ev_dport :: u16
  ev_saddr_v4 :: u32
  ev_saddr_v6 :: "u8 list"
  ev_pkt_len :: u32
  ev_aux :: u32

text \<open>
  What one call of the emission code gets from the kernel: a random number, the clock, and whether
  the ring buffer has room. The ring buffer is the list of the events submitted to it.
\<close>

record event_env =
  prandom_u32 :: u32
  event_ktime :: u64
  ringbuf_room :: bool

definition maybe_emit_event_v4 ::
    "event_env \<Rightarrow> u32 \<Rightarrow> u32 \<Rightarrow> u32 \<Rightarrow> u8 \<Rightarrow> u16 \<Rightarrow> u32 \<Rightarrow> u32 \<Rightarrow> xdp_event_t list \<Rightarrow> xdp_event_t list" where
  "maybe_emit_event_v4 e reason sample_mask saddr l4proto dp pkt_len aux ring =
     (if sample_mask = 0 then ring
      else if prandom_u32 e AND sample_mask \<noteq> 0 then ring
      else if \<not> ringbuf_room e then ring
      else ring @ [\<lparr>ev_ts_ns = event_ktime e, ev_reason = reason, ev_ipver = 4,
                    ev_l4proto = l4proto, ev_dport = dp, ev_saddr_v4 = saddr,
                    ev_saddr_v6 = replicate 16 0, ev_pkt_len = pkt_len, ev_aux = aux\<rparr>])"

definition maybe_emit_event_v6 ::
    "event_env \<Rightarrow> u32 \<Rightarrow> u32 \<Rightarrow> u8 list \<Rightarrow> u8 \<Rightarrow> u16 \<Rightarrow> u32 \<Rightarrow> u32 \<Rightarrow> xdp_event_t list \<Rightarrow> xdp_event_t list" where
  "maybe_emit_event_v6 e reason sample_mask saddr16 l4proto dp pkt_len aux ring =
     (if sample_mask = 0 then ring
      else if prandom_u32 e AND sample_mask \<noteq> 0 then ring
      else if \<not> ringbuf_room e then ring
      else ring @ [\<lparr>ev_ts_ns = event_ktime e, ev_reason = reason, ev_ipver = 6,
                    ev_l4proto = l4proto, ev_dport = dp, ev_saddr_v4 = 0,
                    ev_saddr_v6 = saddr16, ev_pkt_len = pkt_len, ev_aux = aux\<rparr>])"

section \<open>Laws of the totals\<close>

lemma on_totals_None [simp]: "on_totals None f m = m"
  by (simp add: on_totals_def)

lemma on_totals_Some [simp]: "m k = Some v \<Longrightarrow> on_totals (Some k) f m = m(k \<mapsto> f v)"
  by (simp add: on_totals_def)

lemma on_totals_comp: "on_totals t f (on_totals t g m) = on_totals t (f \<circ> g) m"
  by (auto simp: on_totals_def split: option.splits)

lemma on_totals_dom: "on_totals t f m k = None \<longleftrightarrow> m k = None"
  by (auto simp: on_totals_def split: option.splits)

lemma on_totals_array_wf: "array_wf d (on_totals t f m) \<longleftrightarrow> array_wf d m"
  by (simp add: array_wf_def on_totals_dom)

lemma totals_get_Some: "array_wf xdp_totals_map m \<Longrightarrow> totals_get m = Some 0"
  by (auto simp: totals_get_def array_wf_def xdp_totals_map_def)

section \<open>Laws of the histograms\<close>

lemma hist_len_bin_bound: "unat (hist_len_bin len) < max_entries xdp_len_hist_map"
  by (simp add: hist_len_bin_def xdp_len_hist_map_def)

lemma hist_len_add_wf: "array_wf d m \<Longrightarrow> array_wf d (hist_len_add len m)"
  by (auto simp: hist_len_add_def Let_def array_wf_def split: option.splits)

lemma hist_port_add_wf: "array_wf d m \<Longrightarrow> array_wf d (hist_port_add dp len b m)"
  by (auto simp: hist_port_add_def Let_def array_wf_def split: option.splits)

section \<open>The contract of the per-source updates\<close>

text \<open>
  A per-source table keeps, for every source, as many packets as it has verdicts. \<open>balance\<close> adds up
  the four verdict counters.
\<close>

definition fair_sample :: "sample \<Rightarrow> bool" where
  "fair_sample x \<longleftrightarrow> sm_pass x = (\<not> dropped (sm_drops x)) \<and> one_reason (sm_drops x)"

locale source_telemetry =
  fixes update :: "('k, 'v) map_update \<Rightarrow> 'a \<Rightarrow> sample \<Rightarrow> ('k \<rightharpoonup> 'v) \<Rightarrow> u32 \<times> ('k \<rightharpoonup> 'v)"
    and key :: "'a \<Rightarrow> 'k"
    and init :: "sample \<Rightarrow> 'v"
    and touch :: "sample \<Rightarrow> 'v \<Rightarrow> 'v"
    and changed :: "sample \<Rightarrow> 'v \<Rightarrow> bool"
    and packets :: "'v \<Rightarrow> u64"
    and balance :: "'v \<Rightarrow> u64"
  assumes update_miss: "m (key a) = None \<Longrightarrow> update upd a x m = (2, upd BPF_ANY (key a) (init x) m)"
    and update_hit: "m (key a) = Some st \<Longrightarrow>
      update upd a x m = (if changed x st then 1 else 0, m(key a \<mapsto> touch x st))"
    and balance_init: "fair_sample x \<Longrightarrow> packets (init x) = balance (init x)"
    and balance_touch: "fair_sample x \<Longrightarrow> packets st = balance st \<Longrightarrow>
      packets (touch x st) = balance (touch x st)"
begin

lemma update_entry:
  assumes "bpf_lru upd" and "snd (update upd a x m) k = Some w"
  shows "m k = Some w \<or> (k = key a \<and> (w = init x \<or> (\<exists>st. m k = Some st \<and> w = touch x st)))"
proof (cases "m (key a)")
  case None
  then show ?thesis
    using bpf_lru.upd_entry [OF assms(1)] assms(2) by (fastforce simp: update_miss)
next
  case (Some st)
  then show ?thesis using assms(2) by (auto simp: update_hit split: if_splits)
qed

lemma update_balanced:
  assumes "bpf_lru upd" "fair_sample x"
    and "\<And>k w. m k = Some w \<Longrightarrow> packets w = balance w"
    and "snd (update upd a x m) k = Some w"
  shows "packets w = balance w"
  using update_entry [OF assms(1,4)] assms(2,3) balance_init balance_touch by metis

lemma update_new_iff: "fst (update upd a x m) AND 2 \<noteq> 0 \<longleftrightarrow> m (key a) = None"
  by (cases "m (key a)") (auto simp: update_miss update_hit)

lemma update_changed_iff:
  "fst (update upd a x m) AND 1 \<noteq> 0 \<longleftrightarrow> (\<exists>st. m (key a) = Some st \<and> changed x st)"
  by (cases "m (key a)") (auto simp: update_miss update_hit)

lemma update_frame:
  assumes "bpf_lru upd" "k \<noteq> key a"
  shows "snd (update upd a x m) k = m k \<or> snd (update upd a x m) k = None"
  using bpf_lru.upd_other [OF assms] assms(2)
  by (cases "m (key a)") (auto simp: update_miss update_hit)

lemma update_seen:
  assumes "bpf_lru upd" "m (key a) \<noteq> None"
  shows "snd (update upd a x m) (key a) \<noteq> None"
  using assms(2) by (auto simp: update_hit)

end

definition balance4 :: "xdp_src_stats_v4_t \<Rightarrow> u64" where
  "balance4 st = s4_pass st + s4_drop_allow st + s4_drop_deny st + s4_drop_rl st"

definition balance6 :: "xdp_src_stats_v6_t \<Rightarrow> u64" where
  "balance6 st = s6_pass st + s6_drop_allow st + s6_drop_deny st + s6_drop_rl st"

lemma src4_touch_counters:
  "s4_pkts (src4_touch x st) = s4_pkts st + 1"
  "s4_pass (src4_touch x st) = s4_pass st + flag (sm_pass x)"
  "s4_drop_allow (src4_touch x st) = s4_drop_allow st + flag (drop_allow (sm_drops x))"
  "s4_drop_deny (src4_touch x st) = s4_drop_deny st + flag (drop_deny (sm_drops x))"
  "s4_drop_rl (src4_touch x st) = s4_drop_rl st + flag (drop_rl (sm_drops x))"
  by (simp_all add: src4_touch_def Let_def)

lemma src6_touch_counters:
  "s6_pkts (src6_touch x st) = s6_pkts st + 1"
  "s6_pass (src6_touch x st) = s6_pass st + flag (sm_pass x)"
  "s6_drop_allow (src6_touch x st) = s6_drop_allow st + flag (drop_allow (sm_drops x))"
  "s6_drop_deny (src6_touch x st) = s6_drop_deny st + flag (drop_deny (sm_drops x))"
  "s6_drop_rl (src6_touch x st) = s6_drop_rl st + flag (drop_rl (sm_drops x))"
  by (simp_all add: src6_touch_def Let_def)

lemmas verdict_defs = fair_sample_def dropped_def one_reason_def

lemma balance4_touch: "fair_sample x \<Longrightarrow> balance4 (src4_touch x st) = balance4 st + 1"
  unfolding balance4_def src4_touch_counters verdict_defs
  by (cases "drop_allow (sm_drops x)"; cases "drop_deny (sm_drops x)"; cases "drop_rl (sm_drops x)") simp_all

lemma balance6_touch: "fair_sample x \<Longrightarrow> balance6 (src6_touch x st) = balance6 st + 1"
  unfolding balance6_def src6_touch_counters verdict_defs
  by (cases "drop_allow (sm_drops x)"; cases "drop_deny (sm_drops x)"; cases "drop_rl (sm_drops x)") simp_all

lemma balance4_init: "fair_sample x \<Longrightarrow> balance4 (src4_init x) = 1"
  by (auto simp: balance4_def src4_init_def verdict_defs)

lemma balance6_init: "fair_sample x \<Longrightarrow> balance6 (src6_init x) = 1"
  by (auto simp: balance6_def src6_init_def verdict_defs)

interpretation src4: source_telemetry src4_update "\<lambda>a. a" src4_init src4_touch src4_dport_changed
    s4_pkts balance4
  by unfold_locales
    (simp_all add: src4_update_def balance4_init balance4_touch src4_touch_counters, simp add: src4_init_def)

interpretation src6: source_telemetry src6_update "\<lambda>a. \<lparr>src6_ip = a\<rparr>" src6_init src6_touch
    src6_dport_changed s6_pkts balance6
  by unfold_locales
    (simp_all add: src6_update_def balance6_init balance6_touch src6_touch_counters, simp add: src6_init_def)

section \<open>Laws of the flow counters and the events\<close>

lemma flow4_update_frame:
  assumes "bpf_lru upd" "k \<noteq> flow4_key_of saddr dp proto"
  shows "flow4_update upd saddr dp proto len sy m k = m k \<or> flow4_update upd saddr dp proto len sy m k = None"
proof (cases "m (flow4_key_of saddr dp proto)")
  case None
  then show ?thesis using bpf_lru.upd_other [OF assms] by (simp add: flow4_update_def Let_def)
next
  case (Some fv)
  then show ?thesis using assms(2) by (simp add: flow4_update_def Let_def)
qed

lemma flow4_update_hit:
  assumes "m (flow4_key_of saddr dp proto) = Some fv"
  shows "flow4_update upd saddr dp proto len sy m (flow4_key_of saddr dp proto) =
    Some \<lparr>f4_pkts = f4_pkts fv + 1, f4_bytes = f4_bytes fv + len, f4_syn = f4_syn fv + flag sy\<rparr>"
  using assms by (simp add: flow4_update_def Let_def)

lemma flow4_update_miss:
  assumes "bpf_lru upd" "m (flow4_key_of saddr dp proto) = None"
  shows "flow4_update upd saddr dp proto len sy m (flow4_key_of saddr dp proto)
    \<in> {None, Some \<lparr>f4_pkts = 1, f4_bytes = len, f4_syn = flag sy\<rparr>}"
  using assms bpf_lru.upd_new [OF assms(1), of m, OF assms(2)] by (simp add: flow4_update_def Let_def)

lemma emit_v4_prefix: "\<exists>es. maybe_emit_event_v4 e r smask sa p dp len aux ring = ring @ es \<and> length es \<le> 1"
  by (simp add: maybe_emit_event_v4_def)

lemma emit_v6_prefix: "\<exists>es. maybe_emit_event_v6 e r smask sa p dp len aux ring = ring @ es \<and> length es \<le> 1"
  by (simp add: maybe_emit_event_v6_def)

lemma emit_off:
  "maybe_emit_event_v4 e r 0 sa p dp len aux ring = ring" "maybe_emit_event_v6 e r 0 sb p dp len aux ring = ring"
  by (simp_all add: maybe_emit_event_v4_def maybe_emit_event_v6_def)

section \<open>Properties\<close>

text \<open>
  The per-source update of a known source. It reports a changed destination port exactly when
  the packet has a port and the entry's last port is another one, and counts the change; the entry
  keeps its first-seen time and gains one packet, the packet's bytes and one verdict, and no other
  entry changes.
\<close>

theorem src4_update_reports:
  assumes "m a = Some st" "fair_sample x"
  shows "\<exists>st'. src4_update upd a x m =
      (if dport (sm_l4 x) \<noteq> 0 \<and> dport (sm_l4 x) \<noteq> s4_last_dport st then 1 else 0, m(a \<mapsto> st')) \<and>
    s4_first_seen_ns st' = s4_first_seen_ns st \<and> s4_last_seen_ns st' = sm_now x \<and>
    s4_pkts st' = s4_pkts st + 1 \<and> s4_bytes st' = s4_bytes st + sm_len x \<and>
    balance4 st' = balance4 st + 1 \<and>
    (s4_dport_changes st' = s4_dport_changes st \<longleftrightarrow> dport (sm_l4 x) = 0 \<or> dport (sm_l4 x) = s4_last_dport st)"
proof -
  have "s4_first_seen_ns (src4_touch x st) = s4_first_seen_ns st" "s4_last_seen_ns (src4_touch x st) = sm_now x"
    "s4_bytes (src4_touch x st) = s4_bytes st + sm_len x"
    "s4_dport_changes (src4_touch x st) = s4_dport_changes st + flag (src4_dport_changed x st)"
    by (simp_all add: src4_touch_def)
  with assms balance4_touch [OF assms(2), of st] src4_touch_counters(1) [of x st]
  show ?thesis
    by (intro exI [of _ "src4_touch x st"]) (auto simp: src4_update_def src4_dport_changed_def)
qed

definition demo_sample :: sample where
  "demo_sample = \<lparr>sm_len = 60, sm_now = 9, sm_l4 = no_l4\<lparr>dport := 53\<rparr>, sm_ttl = 64, sm_pass = True, sm_drops = no_drop\<rparr>"

lemma demo_sample_fair: "fair_sample demo_sample"
  by (simp add: demo_sample_def fair_sample_def dropped_def one_reason_def no_drop_def)

theorem src4_update_reports_witness:
  "fst (src4_update (lru_update (\<lambda>_. 0) xdp_src4_stats_map) 7 demo_sample
     [7 \<mapsto> src4_init (demo_sample\<lparr>sm_l4 := no_l4\<rparr>)]) = 1"
proof -
  have "[7 :: u32 \<mapsto> src4_init (demo_sample\<lparr>sm_l4 := no_l4\<rparr>)] 7 = Some (src4_init (demo_sample\<lparr>sm_l4 := no_l4\<rparr>))"
    by simp
  from src4_update_reports [where upd = "lru_update (\<lambda>_. 0) xdp_src4_stats_map" and a = 7
      and m = "[7 \<mapsto> src4_init (demo_sample\<lparr>sm_l4 := no_l4\<rparr>)]", OF this demo_sample_fair] show ?thesis
    by (elim exE conjE) (simp add: demo_sample_def src4_init_def no_l4_def)
qed

text \<open>
  The packet-length histogram. On a well-formed array every packet is counted in exactly one
  bin, so the sum over the sixteen bins goes up by one.
\<close>

definition len_hist_pkts :: "(u32 \<rightharpoonup> len_hist_v) \<Rightarrow> u64" where
  "len_hist_pkts m = (\<Sum>i<16. case m (of_nat i) of None \<Rightarrow> 0 | Some v \<Rightarrow> lh_pkts v)"

theorem len_hist_counts_once:
  assumes "array_wf xdp_len_hist_map m"
  shows "len_hist_pkts (hist_len_add len m) = len_hist_pkts m + 1"
proof -
  let ?b = "hist_len_bin len" and ?f = "\<lambda>m i. case m (of_nat i :: u32) of None \<Rightarrow> 0 | Some v \<Rightarrow> lh_pkts v"
  have b: "unat ?b < 16" using hist_len_bin_bound [of len] by (simp add: xdp_len_hist_map_def)
  obtain v where v: "m ?b = Some v"
    using array_wf_lookup [OF assms hist_len_bin_bound] by blast
  have ne: "of_nat i \<noteq> ?b" if "i < 16" "i \<noteq> unat ?b" for i
  proof -
    have "unat (of_nat i :: u32) = i" using that(1) by (simp add: unat_of_nat take_bit_nat_eq_self)
    with that(2) show ?thesis by metis
  qed
  have "len_hist_pkts (hist_len_add len m) = ?f (hist_len_add len m) (unat ?b)
      + sum (?f (hist_len_add len m)) ({..<16} - {unat ?b})"
    unfolding len_hist_pkts_def by (rule sum.remove) (use b in auto)
  also have "sum (?f (hist_len_add len m)) ({..<16} - {unat ?b}) = sum (?f m) ({..<16} - {unat ?b})"
    by (rule sum.cong) (auto simp: hist_len_add_def v Let_def ne)
  also have "?f (hist_len_add len m) (unat ?b) = ?f m (unat ?b) + 1"
    by (simp add: hist_len_add_def v Let_def)
  finally have A: "len_hist_pkts (hist_len_add len m) = ?f m (unat ?b) + 1 + sum (?f m) ({..<16} - {unat ?b})" .
  have "len_hist_pkts m = ?f m (unat ?b) + sum (?f m) ({..<16} - {unat ?b})"
    unfolding len_hist_pkts_def by (rule sum.remove) (use b in auto)
  with A show ?thesis by simp
qed

theorem len_hist_counts_once_witness:
  "len_hist_pkts (hist_len_add 1500
      (\<lambda>k. if unat k < max_entries xdp_len_hist_map then Some \<lparr>lh_pkts = 0, lh_bytes = 0\<rparr> else None)) =
   len_hist_pkts (\<lambda>k. if unat k < max_entries xdp_len_hist_map then Some \<lparr>lh_pkts = 0, lh_bytes = 0\<rparr> else None) + 1"
  using len_hist_counts_once [OF array_wf_restrict, where len = 1500 and v1 = "\<lparr>lh_pkts = 0, lh_bytes = 0\<rparr>"]
  by (simp add: xdp_len_hist_map_def)

text \<open>
  Flow accounting. The packet is counted in the entry of its (source, port, protocol), created
  if the table takes it; every other flow keeps its counters or is evicted, none is altered.
\<close>

theorem flow4_counts_own_flow:
  fixes a :: u32 and dp :: u16 and p :: u8
  assumes "bpf_lru upd"
  defines "fk \<equiv> \<lparr>fk_src_ip = a, fk_dst_port = bpf_ntohs dp, fk_proto = p, fk_pad = 0\<rparr>"
  shows "(case m fk of
      Some fv \<Rightarrow> flow4_update upd a dp p len sy m fk =
        Some \<lparr>f4_pkts = f4_pkts fv + 1, f4_bytes = f4_bytes fv + len, f4_syn = f4_syn fv + flag sy\<rparr>
    | None \<Rightarrow> flow4_update upd a dp p len sy m fk \<in> {None, Some \<lparr>f4_pkts = 1, f4_bytes = len, f4_syn = flag sy\<rparr>}) \<and>
    (k \<noteq> fk \<longrightarrow> flow4_update upd a dp p len sy m k \<in> {m k, None})"
proof -
  have fk: "fk = flow4_key_of a dp p" by (simp add: fk_def flow4_key_of_def)
  have other: "k \<noteq> fk \<longrightarrow> flow4_update upd a dp p len sy m k \<in> {m k, None}"
    using flow4_update_frame [OF assms(1), of k a dp p] unfolding fk by auto
  show ?thesis
  proof (cases "m fk")
    case None
    with flow4_update_miss [OF assms(1), of m a dp p len sy] other show ?thesis unfolding fk by simp
  next
    case (Some fv)
    with flow4_update_hit [of m a dp p fv upd len sy] other show ?thesis unfolding fk by simp
  qed
qed

theorem flow4_counts_own_flow_witness:
  "flow4_update (hash_update xdp_flow4_stats_map) 1 (bpf_ntohs 53) 17 60 False
     (\<lambda>_. Some \<lparr>f4_pkts = 4, f4_bytes = 100, f4_syn = 0\<rparr>)
     \<lparr>fk_src_ip = 1, fk_dst_port = 53, fk_proto = 17, fk_pad = 0\<rparr> =
   Some \<lparr>f4_pkts = 5, f4_bytes = 160, f4_syn = 0\<rparr>"
  using flow4_counts_own_flow [OF hash.bpf_lru_axioms [of xdp_flow4_stats_map], where m = "\<lambda>_. Some \<lparr>f4_pkts = 4, f4_bytes = 100, f4_syn = 0\<rparr>"
      and a = 1 and dp = "bpf_ntohs 53" and p = 17 and len = 60 and sy = False]
  by simp

end
