(* ===== verification/Classify.thy ===== *)
theory Classify
  imports Telemetry
begin

text \<open>
  The layer-4 classification of \<open>xdp_klshield\<close>: TCP, UDP and ICMP headers behind the IP header,
  with the totals they bump. The IPv4 and the IPv6 path of the code have the same text up to the
  number of the ICMP protocol, which is an argument here.
\<close>

section \<open>Protocol numbers and TCP flag bits\<close>

definition IPPROTO_TCP :: u8 where "IPPROTO_TCP = 6"
definition IPPROTO_UDP :: u8 where "IPPROTO_UDP = 17"
definition IPPROTO_ICMP :: u8 where "IPPROTO_ICMP = 1"
definition IPPROTO_ICMPV6 :: u8 where "IPPROTO_ICMPV6 = 58"

lemmas ipprotos = IPPROTO_TCP_def IPPROTO_UDP_def IPPROTO_ICMP_def IPPROTO_ICMPV6_def

definition TCP_F_FIN :: u8 where "TCP_F_FIN = 0x01"
definition TCP_F_SYN :: u8 where "TCP_F_SYN = 0x02"
definition TCP_F_RST :: u8 where "TCP_F_RST = 0x04"
definition TCP_F_PSH :: u8 where "TCP_F_PSH = 0x08"
definition TCP_F_ACK :: u8 where "TCP_F_ACK = 0x10"
definition TCP_F_URG :: u8 where "TCP_F_URG = 0x20"
definition TCP_F_ECE :: u8 where "TCP_F_ECE = 0x40"
definition TCP_F_CWR :: u8 where "TCP_F_CWR = 0x80"

lemmas tcp_flag_bits =
  TCP_F_FIN_def TCP_F_SYN_def TCP_F_RST_def TCP_F_PSH_def
  TCP_F_ACK_def TCP_F_URG_def TCP_F_ECE_def TCP_F_CWR_def

text \<open>The chain \<open>if (th->fin) tcp_flags |= TCP_F_FIN; ...\<close>.\<close>

definition tcp_flags_of :: "tcphdr \<Rightarrow> u8" where
  "tcp_flags_of th =
     (if th_fin th then TCP_F_FIN else 0) OR
     (if th_syn th then TCP_F_SYN else 0) OR
     (if th_rst th then TCP_F_RST else 0) OR
     (if th_psh th then TCP_F_PSH else 0) OR
     (if th_ack th then TCP_F_ACK else 0) OR
     (if th_urg th then TCP_F_URG else 0) OR
     (if th_ece th then TCP_F_ECE else 0) OR
     (if th_cwr th then TCP_F_CWR else 0)"

section \<open>The classification\<close>

definition tcp_info :: "tcphdr \<Rightarrow> l4_info" where
  "tcp_info th =
     \<lparr>is_tcp = True, is_udp = False, is_icmp = False,
      syn = th_syn th, synack = (th_syn th \<and> th_ack th), rst = th_rst th, ack = th_ack th,
      dport = th_dest th, sport = th_source th, tcp_flags = tcp_flags_of th\<rparr>"

definition count_tcp :: "l4_info \<Rightarrow> xdp_totals_t \<Rightarrow> xdp_totals_t" where
  "count_tcp l v =
     v\<lparr>t_syn := t_syn v + flag (syn l), t_synack := t_synack v + flag (synack l),
       t_rst := t_rst v + flag (rst l), t_ack := t_ack v + flag (ack l)\<rparr>"

definition l4_parse ::
    "u8 \<Rightarrow> packet \<Rightarrow> u64 \<Rightarrow> u8 \<Rightarrow> u32 option \<Rightarrow> totals_map \<Rightarrow> (l4_info \<times> totals_map) option" where
  "l4_parse icmp_proto pkt l4off l4proto t tm =
     (if l4proto = IPPROTO_TCP then
        let tm = on_totals t (\<lambda>v. v\<lparr>t_tcp := t_tcp v + 1\<rparr>) tm
        in if unat l4off + sizeof_tcphdr \<le> length pkt then
             do {
               th \<leftarrow> load_tcphdr pkt (unat l4off);
               Some (tcp_info th, on_totals t (count_tcp (tcp_info th)) tm)
             }
           else Some (no_l4\<lparr>is_tcp := True\<rparr>, tm)
      else if l4proto = IPPROTO_UDP then
        let tm = on_totals t (\<lambda>v. v\<lparr>t_udp := t_udp v + 1\<rparr>) tm
        in if unat l4off + sizeof_udphdr \<le> length pkt then
             do {
               uh \<leftarrow> load_udphdr pkt (unat l4off);
               Some (no_l4\<lparr>is_udp := True, dport := uh_dest uh, sport := uh_source uh\<rparr>, tm)
             }
           else Some (no_l4\<lparr>is_udp := True\<rparr>, tm)
      else if l4proto = icmp_proto then
        Some (no_l4\<lparr>is_icmp := True\<rparr>, on_totals t (\<lambda>v. v\<lparr>t_icmp := t_icmp v + 1\<rparr>) tm)
      else Some (no_l4, tm))"

lemma bit_le16_high:
  "bit (le16 a b) 8 = bit b 0" "bit (le16 a b) 9 = bit b 1" "bit (le16 a b) 10 = bit b 2"
  "bit (le16 a b) 11 = bit b 3" "bit (le16 a b) 12 = bit b 4" "bit (le16 a b) 13 = bit b 5"
  "bit (le16 a b) 14 = bit b 6" "bit (le16 a b) 15 = bit b 7"
  by (auto simp: le16_def bit_simps dest: bit_imp_le_length)

lemma bit_flag_mask: "bit (if c then x else 0) n \<longleftrightarrow> c \<and> bit x n"
  by simp

text \<open>The flag mask the code assembles is the flag byte of the TCP header.\<close>

lemma tcp_flags_of_load:
  assumes "load_tcphdr p i = Some th"
  shows "tcp_flags_of th = p ! (i + 13)"
proof -
  from assms have fl:
    "th_fin th = bit (p ! (i + 13)) 0" "th_syn th = bit (p ! (i + 13)) 1"
    "th_rst th = bit (p ! (i + 13)) 2" "th_psh th = bit (p ! (i + 13)) 3"
    "th_ack th = bit (p ! (i + 13)) 4" "th_urg th = bit (p ! (i + 13)) 5"
    "th_ece th = bit (p ! (i + 13)) 6" "th_cwr th = bit (p ! (i + 13)) 7"
    by (auto simp: load_tcphdr_def load16_def bit_le16_high add.commute
        split: if_splits Option.bind_splits)
  have "bit (tcp_flags_of th) n = bit (p ! (i + 13)) n" if "n \<in> {0, 1, 2, 3, 4, 5, 6, 7}" for n
    using that by (elim insertE)
      (simp_all add: tcp_flags_of_def fl tcp_flag_bits bit_or_iff bit_flag_mask)
  moreover have "n \<in> {0, 1, 2, 3, 4, 5, 6, 7}" if "n < 8" for n :: nat
    using that by auto
  ultimately show ?thesis by (intro bit_word_eqI) simp
qed

section \<open>Safety and effect on the totals\<close>

lemma l4_parse_safe: "\<exists>r. l4_parse icmp_proto pkt l4off l4proto t tm = Some r"
  using load_headers_safe(5,6) [of "unat l4off" pkt] by (auto simp: l4_parse_def Let_def)

text \<open>Updates that leave the packet and verdict counters alone.\<close>

definition verdict_counts :: "xdp_totals_t \<Rightarrow> u64 \<times> u64 \<times> u64 \<times> u64 \<times> u64 \<times> u64" where
  "verdict_counts v =
     (t_pkts v, t_bytes v, t_pass v, t_drop_allow v, t_drop_deny v, t_drop_rl v)"

definition same_verdicts :: "totals_map \<Rightarrow> totals_map \<Rightarrow> bool" where
  "same_verdicts m m' \<longleftrightarrow> (\<forall>k. map_option verdict_counts (m k) = map_option verdict_counts (m' k))"

lemma same_verdicts_refl [simp]: "same_verdicts m m"
  by (simp add: same_verdicts_def)

lemma same_verdicts_trans [trans]: "same_verdicts a b \<Longrightarrow> same_verdicts b c \<Longrightarrow> same_verdicts a c"
  by (simp add: same_verdicts_def)

lemma same_verdicts_on_totals:
  assumes "\<And>v. verdict_counts (f v) = verdict_counts v" and "same_verdicts m0 m"
  shows "same_verdicts m0 (on_totals t f m)"
  using assms by (auto simp: same_verdicts_def on_totals_def split: option.splits)

lemma l4_parse_same_verdicts:
  assumes "l4_parse icmp_proto pkt l4off l4proto t tm = Some (l, tm')"
  shows "same_verdicts tm tm'"
  using assms
  by (auto simp: l4_parse_def Let_def count_tcp_def verdict_counts_def split: if_splits Option.bind_splits
      intro!: same_verdicts_on_totals)

lemma l4_parse_totals_dom:
  assumes "l4_parse icmp_proto pkt l4off l4proto t tm = Some (l, tm')"
  shows "tm' k = None \<longleftrightarrow> tm k = None"
  using assms by (auto simp: l4_parse_def Let_def on_totals_dom split: if_splits Option.bind_splits)

text \<open>Only TCP and UDP packets have ports.\<close>

lemma l4_parse_no_port:
  assumes "l4_parse icmp_proto pkt l4off l4proto t tm = Some (l, tm')"
    and "l4proto \<noteq> IPPROTO_TCP" "l4proto \<noteq> IPPROTO_UDP"
  shows "dport l = 0" "sport l = 0"
  using assms by (auto simp: l4_parse_def no_l4_def split: if_splits)

section \<open>Properties\<close>

lemma tcp_flag_fields:
  assumes "load_tcphdr p i = Some th"
  shows "th_syn th = bit (p ! (i + 13)) 1" "th_rst th = bit (p ! (i + 13)) 2" "th_ack th = bit (p ! (i + 13)) 4"
  using assms by (auto simp: load_tcphdr_def load16_def bit_le16_high add.commute
      split: if_splits Option.bind_splits)

text \<open>
  The TCP flag byte. The mask assembled from the eight flag bits of a TCP header is byte 13 of
  that header, as on the wire.
\<close>

theorem tcp_flags_on_the_wire:
  assumes "load_tcphdr p i = Some th"
  shows "tcp_flags (tcp_info th) = p ! (i + 13) \<and>
    (syn (tcp_info th) \<longleftrightarrow> bit (p ! (i + 13)) 1) \<and> (ack (tcp_info th) \<longleftrightarrow> bit (p ! (i + 13)) 4) \<and>
    (rst (tcp_info th) \<longleftrightarrow> bit (p ! (i + 13)) 2) \<and>
    (synack (tcp_info th) \<longleftrightarrow> bit (p ! (i + 13)) 1 \<and> bit (p ! (i + 13)) 4)"
  using assms tcp_flags_of_load [OF assms]
  by (simp add: tcp_info_def tcp_flag_fields [OF assms])

lemma bit_0x12: "bit (0x12 :: u8) 1" "bit (0x12 :: u8) 4"
  by (simp_all add: bit_iff_odd)

theorem tcp_flags_on_the_wire_witness:
  "\<exists>th. load_tcphdr [0, 0, 0, 0, 0, 0, 0, 0, 0, 0, 0, 0, 0, 0x12, 0, 0, 0, 0, 0, 0] 0 = Some th \<and> tcp_flags (tcp_info th) = 0x12 \<and>
    synack (tcp_info th)"
proof -
  let ?p = "[0, 0, 0, 0, 0, 0, 0, 0, 0, 0, 0, 0, 0, 0x12, 0, 0, 0, 0, 0, 0] :: u8 list"
  obtain th where th: "load_tcphdr ?p 0 = Some th"
    using load_headers_safe(5) [of 0 ?p] by (auto simp: sizeof_tcphdr_def)
  have "?p ! (0 + 13) = 0x12" by simp
  with tcp_flags_on_the_wire [OF th] th show ?thesis by (simp only: bit_0x12) simp
qed

end
