(* ===== verification/Policy.thy ===== *)
theory Policy
  imports Token_Bucket Classify
begin

text \<open>
  The policy part of the program: allow and deny lookups, the choice of a rate-limit configuration,
  the rate-limit gate over a table of token buckets (three tables share it) and the tuple (edge)
  enforcement. The longest-prefix-match lookup is kernel code: a parameter with the contract of
  the locale \<open>lpm\<close>.
\<close>

section \<open>Keys and configuration values\<close>

record lpm_key_v4 =
  lpm4_prefixlen :: u32
  lpm4_data :: "u8 list"

record lpm_key_v6 =
  lpm6_prefixlen :: u32
  lpm6_data :: "u8 list"

record key4_bytes =
  k4_ip :: "u8 list"

record key6_bytes =
  k6_ip :: "u8 list"

record xdp_cfg_t =
  enforce_allow :: u32
  event_sample_mask :: u32

record edge4_key =
  ek_src_ip :: u32
  ek_dst_port :: u16
  ek_proto :: u8
  ek_pad :: u8

record edge4_cfg_t =
  edge_mode :: u32
  edge_pad :: u32

section \<open>Longest-prefix match\<close>

text \<open>The bits of an address, most significant first, and the prefixes that cover a key.\<close>

definition byte_bits :: "u8 \<Rightarrow> bool list" where
  "byte_bits b = [bit b 7, bit b 6, bit b 5, bit b 4, bit b 3, bit b 2, bit b 1, bit b 0]"

definition addr_bits :: "u8 list \<Rightarrow> bool list" where
  "addr_bits bs = concat (map byte_bits bs)"

definition prefix_covers :: "nat \<times> u8 list \<Rightarrow> nat \<times> u8 list \<Rightarrow> bool" where
  "prefix_covers e k \<longleftrightarrow>
     fst e \<le> fst k \<and> take (fst e) (addr_bits (snd e)) = take (fst e) (addr_bits (snd k))"

type_synonym 'k lpm_trie = "('k \<times> u8) list"
type_synonym 'k lpm_lookup = "'k lpm_trie \<Rightarrow> 'k \<Rightarrow> u8 option"

definition prefix4 :: "lpm_key_v4 \<Rightarrow> nat \<times> u8 list" where
  "prefix4 k = (unat (lpm4_prefixlen k), lpm4_data k)"

definition prefix6 :: "lpm_key_v6 \<Rightarrow> nat \<times> u8 list" where
  "prefix6 k = (unat (lpm6_prefixlen k), lpm6_data k)"

locale lpm =
  fixes prefix :: "'k \<Rightarrow> nat \<times> u8 list"
    and lookup :: "'k lpm_lookup"
  assumes lookup_None: "lookup T k = None \<longleftrightarrow> (\<forall>(e, v) \<in> set T. \<not> prefix_covers (prefix e) (prefix k))"
    and lookup_longest: "lookup T k = Some v \<Longrightarrow>
      \<exists>e. (e, v) \<in> set T \<and> prefix_covers (prefix e) (prefix k) \<and>
        (\<forall>(e', v') \<in> set T. prefix_covers (prefix e') (prefix k) \<longrightarrow> fst (prefix e') \<le> fst (prefix e))"
begin

lemma lookup_hit: "lookup T k \<noteq> None \<longleftrightarrow> (\<exists>(e, v) \<in> set T. prefix_covers (prefix e) (prefix k))"
  by (auto simp: lookup_None)

lemma lookup_default_route:
  "(e, v) \<in> set T \<Longrightarrow> fst (prefix e) = 0 \<Longrightarrow> lookup T k \<noteq> None"
  unfolding lookup_hit by (rule bexI [of _ "(e, v)"]) (simp_all add: prefix_covers_def)

lemma lookup_empty: "lookup [] k = None"
  by (simp add: lookup_None)

end

text \<open>A concrete lookup that meets the contract.\<close>

fun lpm_best :: "('k \<Rightarrow> nat \<times> u8 list) \<Rightarrow> 'k \<Rightarrow> 'k lpm_trie \<Rightarrow> ('k \<times> u8) option" where
  "lpm_best pre k [] = None"
| "lpm_best pre k ((e, v) # T) =
     (if prefix_covers (pre e) (pre k) then
        (case lpm_best pre k T of
           None \<Rightarrow> Some (e, v)
         | Some (e', v') \<Rightarrow> if fst (pre e) < fst (pre e') then Some (e', v') else Some (e, v))
      else lpm_best pre k T)"

definition lpm_search :: "('k \<Rightarrow> nat \<times> u8 list) \<Rightarrow> 'k lpm_lookup" where
  "lpm_search pre T k = map_option snd (lpm_best pre k T)"

lemma lpm_best_None:
  "lpm_best pre k T = None \<longleftrightarrow> (\<forall>(e, v) \<in> set T. \<not> prefix_covers (pre e) (pre k))"
  by (induction pre k T rule: lpm_best.induct) (auto split: option.splits)

lemma lpm_best_Some:
  "lpm_best pre k T = Some (e, v) \<Longrightarrow> (e, v) \<in> set T \<and> prefix_covers (pre e) (pre k) \<and>
     (\<forall>(e', v') \<in> set T. prefix_covers (pre e') (pre k) \<longrightarrow> fst (pre e') \<le> fst (pre e))"
proof (induction pre k T arbitrary: e v rule: lpm_best.induct)
  case (1 pre k)
  then show ?case by simp
next
  case (2 pre k e1 v1 T)
  show ?case
  proof (cases "lpm_best pre k T")
    case None
    then have "\<forall>(e', v') \<in> set T. \<not> prefix_covers (pre e') (pre k)" by (simp add: lpm_best_None)
    with None 2 show ?thesis by (auto split: if_splits)
  next
    case (Some p)
    obtain e2 v2 where p: "p = (e2, v2)" by fastforce
    show ?thesis
    proof (cases "prefix_covers (pre e1) (pre k)")
      case True
      have IH: "(e2, v2) \<in> set T \<and> prefix_covers (pre e2) (pre k) \<and>
          (\<forall>(e', v') \<in> set T. prefix_covers (pre e') (pre k) \<longrightarrow> fst (pre e') \<le> fst (pre e2))"
        using "2.IH"(1) [OF True] Some p by simp
      show ?thesis
      proof (cases "fst (pre e1) < fst (pre e2)")
        case True
        with "2.prems" \<open>prefix_covers (pre e1) (pre k)\<close> Some p have "e = e2" "v = v2" by simp_all
        with IH True show ?thesis by auto
      next
        case False
        with "2.prems" \<open>prefix_covers (pre e1) (pre k)\<close> Some p have ev: "e = e1" "v = v1" by simp_all
        have "fst (pre e') \<le> fst (pre e1)" if "(e', v') \<in> set T" "prefix_covers (pre e') (pre k)" for e' v'
          using IH that False by fastforce
        with ev \<open>prefix_covers (pre e1) (pre k)\<close> show ?thesis by auto
      qed
    next
      case False
      with "2.prems" have "lpm_best pre k T = Some (e, v)" by simp
      with "2.IH"(2) [OF False] False show ?thesis by auto
    qed
  qed
qed

interpretation lpm_search: lpm pre "lpm_search pre" for pre
proof
  fix T :: "'a lpm_trie" and k v
  show "lpm_search pre T k = None \<longleftrightarrow> (\<forall>(e, v) \<in> set T. \<not> prefix_covers (pre e) (pre k))"
    by (simp add: lpm_search_def lpm_best_None)
  assume "lpm_search pre T k = Some v"
  then obtain e where "lpm_best pre k T = Some (e, v)" by (auto simp: lpm_search_def)
  from lpm_best_Some [OF this] show "\<exists>e. (e, v) \<in> set T \<and> prefix_covers (pre e) (pre k) \<and>
      (\<forall>(e', v') \<in> set T. prefix_covers (pre e') (pre k) \<longrightarrow> fst (pre e') \<le> fst (pre e))" by blast
qed

section \<open>Allow and deny lookups\<close>

definition in_allow_v4 :: "lpm_key_v4 lpm_lookup \<Rightarrow> lpm_key_v4 lpm_trie \<Rightarrow> u32 \<Rightarrow> bool" where
  "in_allow_v4 lookup xdp_allow_lpm saddr \<longleftrightarrow>
     lookup xdp_allow_lpm \<lparr>lpm4_prefixlen = 32, lpm4_data = bytes_of_u32 saddr\<rparr> \<noteq> None"

definition in_deny_v4 :: "(key4_bytes \<rightharpoonup> u8) \<Rightarrow> u32 \<Rightarrow> bool" where
  "in_deny_v4 xdp_deny_hash saddr \<longleftrightarrow> xdp_deny_hash \<lparr>k4_ip = bytes_of_u32 saddr\<rparr> \<noteq> None"

definition in_allow_v6 :: "lpm_key_v6 lpm_lookup \<Rightarrow> lpm_key_v6 lpm_trie \<Rightarrow> u8 list \<Rightarrow> bool" where
  "in_allow_v6 lookup xdp_allow6_lpm saddr16 \<longleftrightarrow>
     lookup xdp_allow6_lpm \<lparr>lpm6_prefixlen = 128, lpm6_data = saddr16\<rparr> \<noteq> None"

definition in_deny_v6 :: "(key6_bytes \<rightharpoonup> u8) \<Rightarrow> u8 list \<Rightarrow> bool" where
  "in_deny_v6 xdp_deny6_hash saddr16 \<longleftrightarrow> xdp_deny6_hash \<lparr>k6_ip = saddr16\<rparr> \<noteq> None"

text \<open>
  The allow/deny block, with the results of the two lookups: allow is consulted only when it is
  enforced, deny only when allow did not drop.
\<close>

definition acl_check ::
    "u32 \<Rightarrow> bool \<Rightarrow> bool \<Rightarrow> u32 option \<Rightarrow> totals_map \<Rightarrow> drops \<times> totals_map" where
  "acl_check enforce allowed denied t tm =
     (let (d, tm) =
            (if enforce \<noteq> 0 then
               if \<not> allowed then (no_drop\<lparr>drop_allow := True\<rparr>, tm)
               else (no_drop, on_totals t (\<lambda>v. v\<lparr>t_allow_hits := t_allow_hits v + 1\<rparr>) tm)
             else (no_drop, tm))
      in if \<not> drop_allow d then
           if denied then
             (d\<lparr>drop_deny := True\<rparr>, on_totals t (\<lambda>v. v\<lparr>t_deny_hits := t_deny_hits v + 1\<rparr>) tm)
           else (d, tm)
         else (d, tm))"

section \<open>Choice of the rate limit\<close>

definition usable :: "rl_cfg_t option \<Rightarrow> rl_cfg_t option" where
  "usable p = (case p of None \<Rightarrow> None
     | Some c \<Rightarrow> if rate_pps c \<noteq> 0 \<and> burst c \<noteq> 0 then Some c else None)"

definition select_rl_v4 ::
    "(u32 \<rightharpoonup> rl_cfg_t) \<Rightarrow> (key4_bytes \<rightharpoonup> rl_cfg_t) \<Rightarrow> u32 \<Rightarrow> rl_cfg_t option" where
  "select_rl_v4 xdp_rl_cfg xdp_rl_policy4 saddr =
     (let use = usable (xdp_rl_cfg 0);
          ovr = xdp_rl_policy4 \<lparr>k4_ip = bytes_of_u32 saddr\<rparr>
      in case ovr of
           None \<Rightarrow> use
         | Some c \<Rightarrow> if rate_pps c \<noteq> 0 \<and> burst c \<noteq> 0 then Some c else use)"

definition select_rl_v6 ::
    "(u32 \<rightharpoonup> rl_cfg_t) \<Rightarrow> (src6_key \<rightharpoonup> rl_cfg_t) \<Rightarrow> u8 list \<Rightarrow> rl_cfg_t option" where
  "select_rl_v6 xdp_rl_cfg xdp_rl_policy6 saddr16 =
     (let use = usable (xdp_rl_cfg 0);
          ovr = xdp_rl_policy6 \<lparr>src6_ip = saddr16\<rparr>
      in case ovr of
           None \<Rightarrow> use
         | Some c \<Rightarrow> if rate_pps c \<noteq> 0 \<and> burst c \<noteq> 0 then Some c else use)"

definition edge_key :: "u32 \<Rightarrow> u16 \<Rightarrow> u8 \<Rightarrow> edge4_key" where
  "edge_key saddr dst_port_host proto =
     \<lparr>ek_src_ip = saddr, ek_dst_port = dst_port_host, ek_proto = proto, ek_pad = 0\<rparr>"

definition select_edge_rl_v4 ::
    "(edge4_key \<rightharpoonup> rl_cfg_t) \<Rightarrow> u32 \<Rightarrow> u16 \<Rightarrow> u8 \<Rightarrow> rl_cfg_t option" where
  "select_edge_rl_v4 edge4_rl_policy saddr dst_port_host proto =
     edge4_rl_policy (edge_key saddr dst_port_host proto)"

section \<open>The rate-limit gate\<close>

text \<open>The first packet of a key creates its bucket and takes a token from it.\<close>

definition rl_init :: "rl_cfg_t \<Rightarrow> u64 \<Rightarrow> rl_state_t" where
  "rl_init use now =
     \<lparr>lock = \<lparr>val = 0\<rparr>, last_ns = now, tokens = (if burst use > 0 then burst use - 1 else 0)\<rparr>"

text \<open>
  Look the bucket up; create it, or take a token from it under its lock. The boolean is
  \<open>drop_rl\<close>; \<open>None\<close> is a lock that never becomes free.
\<close>

definition rl_check ::
    "('k, rl_state_t) map_update \<Rightarrow> 'k \<Rightarrow> rl_cfg_t \<Rightarrow> u64 \<Rightarrow> ('k \<rightharpoonup> rl_state_t)
     \<Rightarrow> (bool \<times> ('k \<rightharpoonup> rl_state_t)) option" where
  "rl_check upd k use now m =
     (case m k of
        None \<Rightarrow> Some (False, upd BPF_ANY k (rl_init use now) m)
      | Some st \<Rightarrow>
          do {
            (allowed, st') \<leftarrow> tb_allow_and_update (Some st) (Some use) now;
            Some (\<not> allowed, (case st' of None \<Rightarrow> m | Some s \<Rightarrow> m(k \<mapsto> s)))
          })"

definition rl_gate ::
    "('k, rl_state_t) map_update \<Rightarrow> rl_cfg_t option \<Rightarrow> 'k \<Rightarrow> u64 \<Rightarrow> u32 option
     \<Rightarrow> drops \<Rightarrow> totals_map \<Rightarrow> ('k \<rightharpoonup> rl_state_t)
     \<Rightarrow> (drops \<times> totals_map \<times> ('k \<rightharpoonup> rl_state_t)) option" where
  "rl_gate upd use_ptr k now t d tm m =
     (case use_ptr of
        None \<Rightarrow> Some (d, tm, m)
      | Some use \<Rightarrow>
          do {
            let tm = on_totals t (\<lambda>v. v\<lparr>t_rl_hits := t_rl_hits v + 1\<rparr>) tm;
            (over, m) \<leftarrow> rl_check upd k use now m;
            Some (if over then d\<lparr>drop_rl := True\<rparr> else d, tm, m)
          })"

section \<open>Tuple enforcement\<close>

text \<open>
  The block runs for packets with a destination port that nothing has dropped so far; the mode is
  read from \<open>edge4_cfg\<close> (0 off, 2 default-deny, any other value deny list).
\<close>

definition edge_gate ::
    "(edge4_key, rl_state_t) map_update \<Rightarrow> (u32 \<rightharpoonup> edge4_cfg_t) \<Rightarrow> (edge4_key \<rightharpoonup> u8)
     \<Rightarrow> (edge4_key \<rightharpoonup> u8) \<Rightarrow> (edge4_key \<rightharpoonup> rl_cfg_t) \<Rightarrow> u32 \<Rightarrow> u16 \<Rightarrow> u8 \<Rightarrow> u64
     \<Rightarrow> u32 option \<Rightarrow> drops \<Rightarrow> totals_map \<Rightarrow> (edge4_key \<rightharpoonup> rl_state_t)
     \<Rightarrow> (drops \<times> totals_map \<times> (edge4_key \<rightharpoonup> rl_state_t)) option" where
  "edge_gate upd edge4_cfg edge4_allow edge4_deny edge4_rl_policy saddr dp l4proto now t d tm m =
     (if \<not> dropped d \<and> dp \<noteq> 0 then
        case edge4_cfg 0 of
          None \<Rightarrow> Some (d, tm, m)
        | Some ecfg \<Rightarrow>
            if edge_mode ecfg \<noteq> 0 then
              let ek = edge_key saddr (bpf_ntohs dp) l4proto;
                  deny = (if edge_mode ecfg = 2 then edge4_allow ek = None
                          else edge4_deny ek \<noteq> None);
                  (d, tm) =
                    (if deny then
                       (d\<lparr>drop_deny := True\<rparr>,
                        on_totals t (\<lambda>v. v\<lparr>t_deny_hits := t_deny_hits v + 1\<rparr>) tm)
                     else (d, tm))
              in if \<not> drop_deny d
                 then rl_gate upd (usable (select_edge_rl_v4 edge4_rl_policy saddr (ek_dst_port ek) l4proto))
                        ek now t d tm m
                 else Some (d, tm, m)
            else Some (d, tm, m)
      else Some (d, tm, m))"

text \<open>The counters of the verdict: one of the four, by precedence.\<close>

definition count_verdict :: "u32 option \<Rightarrow> drops \<Rightarrow> totals_map \<Rightarrow> totals_map" where
  "count_verdict t d tm =
     on_totals t (\<lambda>v.
       if \<not> dropped d then v\<lparr>t_pass := t_pass v + 1\<rparr>
       else if drop_allow d then v\<lparr>t_drop_allow := t_drop_allow v + 1\<rparr>
       else if drop_deny d then v\<lparr>t_drop_deny := t_drop_deny v + 1\<rparr>
       else v\<lparr>t_drop_rl := t_drop_rl v + 1\<rparr>) tm"

section \<open>Laws of the allow/deny block\<close>

definition acl_drops :: "u32 \<Rightarrow> bool \<Rightarrow> bool \<Rightarrow> drops" where
  "acl_drops enforce allowed denied =
     (if enforce \<noteq> 0 \<and> \<not> allowed then no_drop\<lparr>drop_allow := True\<rparr>
      else if denied then no_drop\<lparr>drop_deny := True\<rparr>
      else no_drop)"

lemma fst_acl_check [simp]: "fst (acl_check enforce allowed denied t tm) = acl_drops enforce allowed denied"
  by (simp add: acl_check_def acl_drops_def no_drop_def)

lemma acl_check_same_verdicts: "same_verdicts tm (snd (acl_check enforce allowed denied t tm))"
  by (auto simp: acl_check_def verdict_counts_def intro!: same_verdicts_on_totals)

lemma acl_check_dom: "snd (acl_check enforce allowed denied t tm) k = None \<longleftrightarrow> tm k = None"
  by (simp add: acl_check_def on_totals_dom)

lemma acl_drops_fields [simp]:
  "drop_allow (acl_drops e a dn) \<longleftrightarrow> e \<noteq> 0 \<and> \<not> a"
  "drop_deny (acl_drops e a dn) \<longleftrightarrow> \<not> (e \<noteq> 0 \<and> \<not> a) \<and> dn"
  "\<not> drop_rl (acl_drops e a dn)"
  "one_reason (acl_drops e a dn)"
  by (auto simp: acl_drops_def no_drop_def one_reason_def)

section \<open>Laws of the rate limit\<close>

lemma usable_Some: "usable p = Some c \<longleftrightarrow> p = Some c \<and> usable_cfg c"
  by (auto simp: usable_def usable_cfg_def split: option.splits if_splits)

lemma select_rl_v4_usable: "select_rl_v4 g pol a = Some c \<Longrightarrow> usable_cfg c"
  by (auto simp: select_rl_v4_def Let_def usable_cfg_def usable_Some split: option.splits if_splits)

lemma select_rl_v6_usable: "select_rl_v6 g pol a = Some c \<Longrightarrow> usable_cfg c"
  by (auto simp: select_rl_v6_def Let_def usable_cfg_def usable_Some split: option.splits if_splits)

definition locks_free :: "('k \<rightharpoonup> rl_state_t) \<Rightarrow> bool" where
  "locks_free m \<longleftrightarrow> (\<forall>k st. m k = Some st \<longrightarrow> val (lock st) = 0)"

lemma locks_freeD: "locks_free m \<Longrightarrow> m k = Some st \<Longrightarrow> val (lock st) = 0"
  by (auto simp: locks_free_def)

lemma rl_check_hit:
  assumes "m k = Some st" "val (lock st) = 0" "usable_cfg cfg"
  shows "rl_check upd k cfg now m =
    Some (\<not> fst (tb_take st cfg now), m(k \<mapsto> snd (tb_take st cfg now)))"
  using assms by (simp add: rl_check_def tb_allow_and_update_free)

lemma rl_check_miss:
  "m k = None \<Longrightarrow> rl_check upd k cfg now m = Some (False, upd BPF_ANY k (rl_init cfg now) m)"
  by (simp add: rl_check_def)

lemma rl_check_safe:
  assumes "locks_free m" "usable_cfg cfg"
  shows "\<exists>over m'. rl_check upd k cfg now m = Some (over, m')"
proof (cases "m k")
  case None
  then show ?thesis by (auto simp: rl_check_miss)
next
  case (Some st)
  then show ?thesis using rl_check_hit [where m = m and k = k] locks_freeD [OF assms(1)] assms(2) by simp
qed

lemma rl_check_locks_free:
  assumes "bpf_lru upd" "locks_free m" "usable_cfg cfg" "rl_check upd k cfg now m = Some (over, m')"
  shows "locks_free m'"
proof (cases "m k")
  case None
  then have "m' = upd BPF_ANY k (rl_init cfg now) m" using assms(4) by (simp add: rl_check_miss)
  then show ?thesis
    using bpf_lru.upd_entry [OF assms(1)] assms(2) by (fastforce simp: locks_free_def rl_init_def)
next
  case (Some st)
  then have "m' = m(k \<mapsto> snd (tb_take st cfg now))"
    using assms(3,4) rl_check_hit [where m = m and k = k and st = st] locks_freeD [OF assms(2)] by simp
  then show ?thesis using assms(2) Some by (auto simp: locks_free_def)
qed

text \<open>Keys are isolated in a plain hash map: the traffic of one key never touches the bucket of another.\<close>

lemma rl_check_isolated:
  assumes "bpf_hash upd cap" "rl_check upd k cfg now m = Some (over, m')" "k' \<noteq> k"
  shows "m' k' = m k'"
  using assms bpf_hash.upd_frame [OF assms(1,3)]
  by (auto simp: rl_check_def split: option.splits Option.bind_splits)

section \<open>Laws of the gates\<close>

lemma rl_gate_None [simp]: "rl_gate upd None k now t d tm m = Some (d, tm, m)"
  by (simp add: rl_gate_def)

lemma rl_gate_safe:
  assumes "locks_free m" "\<And>c. use = Some c \<Longrightarrow> usable_cfg c"
  shows "\<exists>r. rl_gate upd use k now t d tm m = Some r"
proof (cases use)
  case (Some c)
  then obtain over m' where "rl_check upd k c now m = Some (over, m')"
    using rl_check_safe [OF assms(1)] assms(2) by blast
  with Some show ?thesis by (simp add: rl_gate_def)
qed simp

lemma rl_gate_result:
  assumes "rl_gate upd use k now t d tm m = Some (d', tm', m')"
  shows "d' = d \<or> d' = d\<lparr>drop_rl := True\<rparr>" "same_verdicts tm tm'" "tm' i = None \<longleftrightarrow> tm i = None"
proof -
  show "d' = d \<or> d' = d\<lparr>drop_rl := True\<rparr>" "tm' i = None \<longleftrightarrow> tm i = None"
    using assms by (auto simp: rl_gate_def on_totals_dom split: option.splits Option.bind_splits)
  show "same_verdicts tm tm'"
    using assms by (auto simp: rl_gate_def verdict_counts_def split: option.splits Option.bind_splits
        intro!: same_verdicts_on_totals)
qed

lemma rl_gate_locks_free:
  assumes "bpf_lru upd" "locks_free m" "\<And>c. use = Some c \<Longrightarrow> usable_cfg c"
    and "rl_gate upd use k now t d tm m = Some (d', tm', m')"
  shows "locks_free m'"
  using assms(2,4) rl_check_locks_free [OF assms(1,2) assms(3)]
  by (cases use) (auto simp: rl_gate_def split: Option.bind_splits)

text \<open>A full table admits keys it has no bucket for, and stays as it is.\<close>

lemma rl_gate_full:
  assumes "bpf_hash upd cap" "\<not> card (dom m) < cap" "m k = None"
  shows "rl_gate upd (Some c) k now t d tm m =
    Some (d, on_totals t (\<lambda>v. v\<lparr>t_rl_hits := t_rl_hits v + 1\<rparr>) tm, m)"
  using bpf_hash.upd_full [OF assms(1,3,2)] by (simp add: rl_gate_def rl_check_miss assms(3))

lemma rl_gate_full_dom:
  assumes "bpf_hash upd cap" "\<not> card (dom m) < cap" "rl_gate upd lim k now t d tm m = Some (d', tm', m')"
  shows "dom m' = dom m"
proof (cases "lim = None \<or> m k = None")
  case True
  then show ?thesis using assms(3) rl_gate_full [where k = k, OF assms(1,2)] by (cases lim) auto
next
  case False
  then obtain c st where "lim = Some c" "m k = Some st" by auto
  with assms(3) show ?thesis
    by (auto simp: rl_gate_def rl_check_def split: option.splits Option.bind_splits if_splits)
qed

text \<open>The tuple decision of the block, before the edge rate limit.\<close>

definition tuple_denied ::
    "(u32 \<rightharpoonup> edge4_cfg_t) \<Rightarrow> (edge4_key \<rightharpoonup> u8) \<Rightarrow> (edge4_key \<rightharpoonup> u8) \<Rightarrow> edge4_key \<Rightarrow> bool" where
  "tuple_denied ec ea ed ek =
     (case ec 0 of None \<Rightarrow> False
      | Some c \<Rightarrow> edge_mode c \<noteq> 0 \<and> (if edge_mode c = 2 then ea ek = None else ed ek \<noteq> None))"

definition tuple_mode_on :: "(u32 \<rightharpoonup> edge4_cfg_t) \<Rightarrow> bool" where
  "tuple_mode_on ec = (case ec 0 of None \<Rightarrow> False | Some c \<Rightarrow> edge_mode c \<noteq> 0)"

lemma edge_gate_skip:
  "dropped d \<or> dp = 0 \<or> \<not> tuple_mode_on ec \<Longrightarrow>
     edge_gate upd ec ea ed ep sa dp p now t d tm m = Some (d, tm, m)"
  by (auto simp: edge_gate_def tuple_mode_on_def split: option.splits)

lemma edge_gate_denies:
  assumes "\<not> dropped d" "dp \<noteq> 0" "tuple_denied ec ea ed (edge_key sa (bpf_ntohs dp) p)"
  shows "edge_gate upd ec ea ed ep sa dp p now t d tm m =
    Some (d\<lparr>drop_deny := True\<rparr>, on_totals t (\<lambda>v. v\<lparr>t_deny_hits := t_deny_hits v + 1\<rparr>) tm, m)"
  using assms by (auto simp: edge_gate_def tuple_denied_def Let_def split: option.splits)

lemma edge_gate_limits:
  assumes "\<not> dropped d" "dp \<noteq> 0" "tuple_mode_on ec" "\<not> tuple_denied ec ea ed (edge_key sa (bpf_ntohs dp) p)"
  shows "edge_gate upd ec ea ed ep sa dp p now t d tm m =
    rl_gate upd (usable (ep (edge_key sa (bpf_ntohs dp) p))) (edge_key sa (bpf_ntohs dp) p) now t d tm m"
  using assms
  by (auto simp: edge_gate_def tuple_denied_def tuple_mode_on_def Let_def edge_key_def
      select_edge_rl_v4_def dropped_def split: option.splits)

text \<open>The four ways the block can go.\<close>

lemma edge_gate_cases [consumes 1, case_names skip deny limit]:
  assumes "edge_gate upd ec ea ed ep sa dp p now t d tm m = Some (d', tm', m')"
  obtains "d' = d" "tm' = tm" "m' = m" "dropped d \<or> dp = 0 \<or> \<not> tuple_mode_on ec"
  | "\<not> dropped d" "dp \<noteq> 0" "tuple_denied ec ea ed (edge_key sa (bpf_ntohs dp) p)"
    "d' = d\<lparr>drop_deny := True\<rparr>" "m' = m"
    "tm' = on_totals t (\<lambda>v. v\<lparr>t_deny_hits := t_deny_hits v + 1\<rparr>) tm"
  | "\<not> dropped d" "dp \<noteq> 0" "tuple_mode_on ec"
    "\<not> tuple_denied ec ea ed (edge_key sa (bpf_ntohs dp) p)"
    "rl_gate upd (usable (ep (edge_key sa (bpf_ntohs dp) p))) (edge_key sa (bpf_ntohs dp) p) now t d tm m
      = Some (d', tm', m')"
proof (cases "dropped d \<or> dp = 0 \<or> \<not> tuple_mode_on ec")
  case True
  then have "edge_gate upd ec ea ed ep sa dp p now t d tm m = Some (d, tm, m)"
    by (rule edge_gate_skip)
  with assms True that(1) show ?thesis by simp
next
  case False
  then show ?thesis
    using assms that(2,3) edge_gate_denies edge_gate_limits
    by (cases "tuple_denied ec ea ed (edge_key sa (bpf_ntohs dp) p)") simp_all
qed

lemma edge_gate_safe:
  assumes "locks_free m"
  shows "\<exists>r. edge_gate upd ec ea ed ep sa dp p now t d tm m = Some r"
proof (cases "dropped d \<or> dp = 0 \<or> \<not> tuple_mode_on ec")
  case True
  then show ?thesis by (simp add: edge_gate_skip)
next
  case False
  moreover have "\<exists>r. rl_gate upd (usable (ep ek)) ek now t d tm m = Some r" for ek
    by (rule rl_gate_safe [OF assms]) (simp add: usable_Some)
  ultimately show ?thesis
    by (cases "tuple_denied ec ea ed (edge_key sa (bpf_ntohs dp) p)")
      (simp_all add: edge_gate_denies edge_gate_limits)
qed

lemma edge_gate_result:
  assumes "edge_gate upd ec ea ed ep sa dp p now t d tm m = Some (d', tm', m')"
  shows "same_verdicts tm tm'" "tm' i = None \<longleftrightarrow> tm i = None"
    "one_reason d \<Longrightarrow> one_reason d'" "drop_allow d' = drop_allow d"
    "dropped d \<Longrightarrow> d' = d"
  using assms
  by (cases rule: edge_gate_cases; auto simp: on_totals_dom verdict_counts_def one_reason_def dropped_def
      intro!: same_verdicts_on_totals dest: rl_gate_result)+

lemma edge_gate_locks_free:
  assumes "bpf_lru upd" "locks_free m" "edge_gate upd ec ea ed ep sa dp p now t d tm m = Some (d', tm', m')"
  shows "locks_free m'"
  using assms(3)
proof (cases rule: edge_gate_cases)
  case limit
  from rl_gate_locks_free [OF assms(1,2) _ limit(5)] show ?thesis by (auto simp: usable_Some)
qed (use assms(2) in auto)

section \<open>Laws of the verdict counters\<close>

lemma on_totals_cong:
  assumes "\<And>v w. verdict_counts v = verdict_counts w \<Longrightarrow> verdict_counts (f v) = verdict_counts (f w)"
    and "same_verdicts a b"
  shows "same_verdicts (on_totals t f a) (on_totals t f b)"
  unfolding same_verdicts_def
proof
  fix k
  have eq: "map_option verdict_counts (a i) = map_option verdict_counts (b i)" for i
    using assms(2) by (simp add: same_verdicts_def)
  show "map_option verdict_counts (on_totals t f a k) = map_option verdict_counts (on_totals t f b k)"
  proof (cases t)
    case None
    then show ?thesis using eq [of k] by simp
  next
    case (Some i)
    show ?thesis
    proof (cases "a i")
      case None
      with eq [of i] have "b i = None" by simp
      with None Some eq [of k] show ?thesis by (simp add: on_totals_def)
    next
      case a: (Some v)
      with eq [of i] obtain w where b: "b i = Some w" "verdict_counts v = verdict_counts w"
        by (cases "b i") auto
      from assms(1) [OF b(2)] show ?thesis using Some a b(1) eq [of k] by (simp add: on_totals_def)
    qed
  qed
qed

lemma count_verdict_cong: "same_verdicts a b \<Longrightarrow> same_verdicts (count_verdict t d a) (count_verdict t d b)"
  unfolding count_verdict_def by (rule on_totals_cong) (auto simp: verdict_counts_def)

section \<open>Properties\<close>

text \<open>
  The allow list. A source is on the IPv4 allow list exactly when some prefix of the trie
  covers its address: the first bits of the address, in network order, are those of the prefix.
\<close>

theorem allow_list_matches_prefixes:
  assumes "lpm prefix4 lookup" "\<forall>(e, v) \<in> set T. unat (lpm4_prefixlen e) \<le> 32"
  shows "in_allow_v4 lookup T a \<longleftrightarrow>
    (\<exists>(e, v) \<in> set T. take (unat (lpm4_prefixlen e)) (addr_bits (lpm4_data e)) =
      take (unat (lpm4_prefixlen e)) (addr_bits (bytes_of_u32 a)))"
proof -
  have "prefix_covers (prefix4 e) (prefix4 \<lparr>lpm4_prefixlen = 32, lpm4_data = bytes_of_u32 a\<rparr>) \<longleftrightarrow>
      take (unat (lpm4_prefixlen e)) (addr_bits (lpm4_data e)) =
      take (unat (lpm4_prefixlen e)) (addr_bits (bytes_of_u32 a))" if "(e, v) \<in> set T" for e v
    using assms(2) that by (auto simp: prefix_covers_def prefix4_def)
  then show ?thesis unfolding in_allow_v4_def lpm.lookup_hit [OF assms(1)] by fast
qed

theorem allow_list_matches_prefixes_witness:
  "in_allow_v4 (lpm_search prefix4) [(\<lparr>lpm4_prefixlen = 8, lpm4_data = [10, 0, 0, 0]\<rparr>, 1)] (le32 10 1 2 3) \<and>
   \<not> in_allow_v4 (lpm_search prefix4) [(\<lparr>lpm4_prefixlen = 8, lpm4_data = [10, 0, 0, 0]\<rparr>, 1)] (le32 11 1 2 3)"
proof -
  have "addr_bits (10 # bs) = byte_bits 10 @ addr_bits bs" "addr_bits (11 # bs) = byte_bits 11 @ addr_bits bs" for bs
    by (simp_all add: addr_bits_def)
  moreover have "byte_bits 10 = [False, False, False, False, True, False, True, False]"
    "byte_bits 11 = [False, False, False, False, True, False, True, True]"
    by (simp_all add: byte_bits_def bit_iff_odd)
  ultimately show ?thesis
    using allow_list_matches_prefixes [OF lpm_search.lpm_axioms,
        of "[(\<lparr>lpm4_prefixlen = 8, lpm4_data = [10, 0, 0, 0]\<rparr>, 1)]"] by simp
qed

text \<open>
  The choice of a limit. A per-source entry with a non-zero rate and burst wins; otherwise the
  global limit applies if its rate and burst are non-zero; otherwise the source is not limited. IPv4
  and IPv6 agree.
\<close>

theorem limit_selection:
  "select_rl_v4 glob pol4 a =
     (case usable (pol4 \<lparr>k4_ip = bytes_of_u32 a\<rparr>) of Some c \<Rightarrow> Some c | None \<Rightarrow> usable (glob 0)) \<and>
   select_rl_v6 glob pol6 b =
     (case usable (pol6 \<lparr>src6_ip = b\<rparr>) of Some c \<Rightarrow> Some c | None \<Rightarrow> usable (glob 0))"
  by (auto simp: select_rl_v4_def select_rl_v6_def usable_def split: option.splits)

text \<open>
  The tuple decision. For a packet that nothing has dropped, the tuple block denies exactly
  when the packet has a destination port, the mode is on, and the tuple is missing from the allow
  map (mode 2) or present in the deny map (every other mode); otherwise only the tuple's rate limit
  can drop it.
\<close>

theorem tuple_decision:
  assumes "edge_gate upd ec ea ed ep a dp p now t no_drop tm m = Some (d, tm', m')"
    and "ec 0 = Some c"
  shows "(drop_deny d \<longleftrightarrow> dp \<noteq> 0 \<and> edge_mode c \<noteq> 0 \<and>
      (if edge_mode c = 2 then ea (edge_key a (bpf_ntohs dp) p) = None
       else ed (edge_key a (bpf_ntohs dp) p) \<noteq> None)) \<and>
    \<not> drop_allow d \<and>
    (\<not> drop_rl d \<or> dp \<noteq> 0 \<and> edge_mode c \<noteq> 0 \<and> usable (ep (edge_key a (bpf_ntohs dp) p)) \<noteq> None)"
  using assms(1)
proof (cases rule: edge_gate_cases)
  case skip
  then show ?thesis
    using assms(2) by (auto simp: no_drop_def dropped_def tuple_mode_on_def tuple_denied_def)
next
  case deny
  then show ?thesis using assms(2) by (auto simp: no_drop_def tuple_denied_def)
next
  case limit
  have "d = no_drop \<or> d = no_drop\<lparr>drop_rl := True\<rparr>" by (rule rl_gate_result(1) [OF limit(5)])
  moreover have "d = no_drop" if "usable (ep (edge_key a (bpf_ntohs dp) p)) = None"
    using limit(5) that by simp
  ultimately show ?thesis
    using limit(2-4) assms(2) by (auto simp: no_drop_def tuple_denied_def tuple_mode_on_def)
qed

theorem tuple_decision_witness:
  "\<exists>d tm' m'. edge_gate (hash_update edge4_rl_state_map) [0 \<mapsto> \<lparr>edge_mode = 2, edge_pad = 0\<rparr>] (\<lambda>_. None) (\<lambda>_. None)
     (\<lambda>_. None) 7 (bpf_ntohs 53) 17 0 None no_drop (\<lambda>_. None) (\<lambda>_. None) = Some (d, tm', m') \<and> drop_deny d"
proof -
  obtain d tm' m' where g: "edge_gate (hash_update edge4_rl_state_map) [0 \<mapsto> \<lparr>edge_mode = 2, edge_pad = 0\<rparr>]
      (\<lambda>_. None) (\<lambda>_. None) (\<lambda>_. None) 7 (bpf_ntohs 53) 17 0 None no_drop (\<lambda>_. None) (\<lambda>_. None) = Some (d, tm', m')"
    using edge_gate_safe [of "\<lambda>_. None"] by (force simp: locks_free_def)
  from tuple_decision [OF g] have "drop_deny d" by simp
  with g show ?thesis by blast
qed

end
