(* ===== verification/Xdp_Program.thy ===== *)
theory Xdp_Program
  imports Policy
begin

text \<open>
  The XDP program \<open>xdp_klshield\<close>: the maps it works on as one record, the kernel services it calls
  as a parameter, and the whole packet path as one function from a packet and the maps to the
  verdict and the new maps. \<open>None\<close> is a read outside the packet or a lock that is never released;
  neither happens (theory \<open>Xdp_Run\<close>).
\<close>

section \<open>Verdicts, kernel services, maps\<close>

datatype xdp_action = XDP_ABORTED | XDP_DROP | XDP_PASS | XDP_TX | XDP_REDIRECT

text \<open>
  What one invocation gets from the kernel: the clock, the services behind the emission of an event
  (one environment per emission call of the invocation), the longest-prefix-match lookups and the
  outcome of map updates.
\<close>

record kernel =
  k_now :: u64
  k_event :: "nat \<Rightarrow> event_env"
  k_lpm4 :: "lpm_key_v4 lpm_lookup"
  k_lpm6 :: "lpm_key_v6 lpm_lookup"
  k_src4_update :: "(u32, xdp_src_stats_v4_t) map_update"
  k_src6_update :: "(src6_key, xdp_src_stats_v6_t) map_update"
  k_flow4_update :: "(flow4_key, flow4_stats) map_update"
  k_rl4_update :: "(u32, rl_state_t) map_update"
  k_rl6_update :: "(src6_key, rl_state_t) map_update"
  k_edge_rl_update :: "(edge4_key, rl_state_t) map_update"

text \<open>The maps, under the names of the code. Per-CPU arrays are functions of the CPU.\<close>

record shield =
  xdp_totals :: "nat \<Rightarrow> totals_map"
  xdp_src4_stats :: "u32 \<rightharpoonup> xdp_src_stats_v4_t"
  xdp_src6_stats :: "src6_key \<rightharpoonup> xdp_src_stats_v6_t"
  xdp_flow4_stats :: "flow4_key \<rightharpoonup> flow4_stats"
  xdp_allow_lpm :: "lpm_key_v4 lpm_trie"
  xdp_deny_hash :: "key4_bytes \<rightharpoonup> u8"
  xdp_allow6_lpm :: "lpm_key_v6 lpm_trie"
  xdp_deny6_hash :: "key6_bytes \<rightharpoonup> u8"
  xdp_cfg :: "u32 \<rightharpoonup> xdp_cfg_t"
  edge4_deny :: "edge4_key \<rightharpoonup> u8"
  edge4_allow :: "edge4_key \<rightharpoonup> u8"
  edge4_rl_policy :: "edge4_key \<rightharpoonup> rl_cfg_t"
  edge4_rl_state :: "edge4_key \<rightharpoonup> rl_state_t"
  edge4_cfg :: "u32 \<rightharpoonup> edge4_cfg_t"
  xdp_rl_cfg :: "u32 \<rightharpoonup> rl_cfg_t"
  xdp_rl_policy4 :: "key4_bytes \<rightharpoonup> rl_cfg_t"
  xdp_rl_policy6 :: "src6_key \<rightharpoonup> rl_cfg_t"
  xdp_rl_state4 :: "u32 \<rightharpoonup> rl_state_t"
  xdp_rl_state6 :: "src6_key \<rightharpoonup> rl_state_t"
  xdp_port_hist :: "nat \<Rightarrow> u32 \<rightharpoonup> port_hist_v"
  xdp_len_hist :: "nat \<Rightarrow> u32 \<rightharpoonup> len_hist_v"
  xdp_events :: "xdp_event_t list"

definition set_totals :: "nat \<Rightarrow> totals_map \<Rightarrow> shield \<Rightarrow> shield" where
  "set_totals cpu tm s = s\<lparr>xdp_totals := (xdp_totals s)(cpu := tm)\<rparr>"

text \<open>\<open>if (t) t->pass++; return XDP_PASS;\<close>, the early exits.\<close>

definition early_pass :: "nat \<Rightarrow> u32 option \<Rightarrow> shield \<Rightarrow> xdp_action \<times> shield" where
  "early_pass cpu t s =
     (XDP_PASS, set_totals cpu (on_totals t (\<lambda>v. v\<lparr>t_pass := t_pass v + 1\<rparr>) (xdp_totals s cpu)) s)"

definition verdict :: "drops \<Rightarrow> xdp_action" where
  "verdict d = (if dropped d then XDP_DROP else XDP_PASS)"

section \<open>The IPv4 path\<close>

definition is_fragment :: "iphdr \<Rightarrow> bool" where
  "is_fragment iph \<longleftrightarrow>
     (let fo = bpf_ntohs (ip_frag_off iph) in fo AND 0x1FFF \<noteq> 0 \<or> fo AND 0x2000 \<noteq> 0)"

text \<open>
  Classification and decision: the layer-4 facts, the drop flags, the totals and the two bucket
  tables.
\<close>

definition decide_v4 ::
    "kernel \<Rightarrow> packet \<Rightarrow> u64 \<Rightarrow> iphdr \<Rightarrow> u64 \<Rightarrow> u32 \<Rightarrow> u32 option \<Rightarrow> shield \<Rightarrow> totals_map
     \<Rightarrow> (l4_info \<times> drops \<times> totals_map \<times> (u32 \<rightharpoonup> rl_state_t) \<times> (edge4_key \<rightharpoonup> rl_state_t)) option" where
  "decide_v4 K pkt l4off iph now enforce t s tm =
     do {
       let saddr = ip_saddr iph;
       let l4proto = ip_protocol iph;
       let tm = (if is_fragment iph
                 then on_totals t (\<lambda>v. v\<lparr>t_ipv4_frags := t_ipv4_frags v + 1\<rparr>) tm else tm);
       (l4, tm) \<leftarrow> l4_parse IPPROTO_ICMP pkt l4off l4proto t tm;
       let (d, tm) = acl_check enforce (in_allow_v4 (k_lpm4 K) (xdp_allow_lpm s) saddr)
                       (in_deny_v4 (xdp_deny_hash s) saddr) t tm;
       (d, tm, rl) \<leftarrow>
         (if \<not> drop_allow d \<and> \<not> drop_deny d then
            rl_gate (k_rl4_update K) (select_rl_v4 (xdp_rl_cfg s) (xdp_rl_policy4 s) saddr)
              saddr now t d tm (xdp_rl_state4 s)
          else Some (d, tm, xdp_rl_state4 s));
       (d, tm, erl) \<leftarrow>
         edge_gate (k_edge_rl_update K) (edge4_cfg s) (edge4_allow s) (edge4_deny s)
           (edge4_rl_policy s) saddr (dport l4) l4proto now t d tm (edge4_rl_state s);
       Some (l4, d, tm, rl, erl)
     }"

text \<open>What is recorded once the verdict is known: histogram, per-source and flow counters, events.\<close>

definition record_v4 ::
    "kernel \<Rightarrow> nat \<Rightarrow> iphdr \<Rightarrow> u64 \<Rightarrow> u64 \<Rightarrow> u32 \<Rightarrow> u32 option \<Rightarrow> l4_info \<Rightarrow> drops \<Rightarrow> shield \<Rightarrow> shield" where
  "record_v4 K cpu iph pkt_len now sample_mask t l4 d s =
     (let saddr = ip_saddr iph;
          l4proto = ip_protocol iph;
          tm = xdp_totals s cpu;
          ports = hist_port_add (dport l4) pkt_len (dropped d) (xdp_port_hist s cpu);
          x = \<lparr>sm_len = pkt_len, sm_now = now, sm_l4 = l4, sm_ttl = ip_ttl iph,
               sm_pass = \<not> dropped d, sm_drops = d\<rparr>;
          (upd, src4) = src4_update (k_src4_update K) saddr x (xdp_src4_stats s);
          tm = (if upd AND 2 \<noteq> 0
                then on_totals t (\<lambda>v. v\<lparr>t_new_sources := t_new_sources v + 1\<rparr>) tm else tm);
          (tm, ring) =
            (if upd AND 1 \<noteq> 0 \<and> t \<noteq> None then
               (on_totals t (\<lambda>v. v\<lparr>t_dport_changes := t_dport_changes v + 1\<rparr>) tm,
                maybe_emit_event_v4 (k_event K 0) EV_SCAN_HINT sample_mask saddr l4proto (dport l4)
                  (ucast pkt_len) 1 (xdp_events s))
             else (tm, xdp_events s));
          flows = flow4_update (k_flow4_update K) saddr (dport l4) l4proto pkt_len (syn l4)
                    (xdp_flow4_stats s);
          ring =
            (if drop_allow d then
               maybe_emit_event_v4 (k_event K 1) EV_DROP_ALLOW sample_mask saddr l4proto (dport l4)
                 (ucast pkt_len) 0 ring
             else if drop_deny d then
               maybe_emit_event_v4 (k_event K 1) EV_DROP_DENY sample_mask saddr l4proto (dport l4)
                 (ucast pkt_len) 0 ring
             else if drop_rl d then
               maybe_emit_event_v4 (k_event K 1) EV_DROP_RL sample_mask saddr l4proto (dport l4)
                 (ucast pkt_len) 0 ring
             else ring)
      in s\<lparr>xdp_totals := (xdp_totals s)(cpu := tm),
           xdp_port_hist := (xdp_port_hist s)(cpu := ports),
           xdp_src4_stats := src4,
           xdp_flow4_stats := flows,
           xdp_events := ring\<rparr>)"

definition xdp_ipv4 ::
    "kernel \<Rightarrow> nat \<Rightarrow> packet \<Rightarrow> u64 \<Rightarrow> u64 \<Rightarrow> u64 \<Rightarrow> u32 \<Rightarrow> u32 \<Rightarrow> u32 option \<Rightarrow> shield
     \<Rightarrow> (xdp_action \<times> shield) option" where
  "xdp_ipv4 K cpu pkt off pkt_len now enforce sample_mask t s =
     (if unat off + sizeof_iphdr > length pkt then Some (early_pass cpu t s)
      else do {
        iph \<leftarrow> load_iphdr pkt (unat off);
        if ip_version iph \<noteq> 4 then Some (early_pass cpu t s)
        else
          let ihl_bytes = (ucast (ip_ihl iph) :: u64) * 4
          in if unat ihl_bytes < sizeof_iphdr then Some (early_pass cpu t s)
             else if unat off + unat ihl_bytes > length pkt then Some (early_pass cpu t s)
             else do {
               let tm = on_totals t (\<lambda>v. v\<lparr>t_v4 := t_v4 v + 1\<rparr>) (xdp_totals s cpu);
               (l4, d, tm, rl, erl) \<leftarrow> decide_v4 K pkt (off + ihl_bytes) iph now enforce t s tm;
               let s = s\<lparr>xdp_totals := (xdp_totals s)(cpu := count_verdict t d tm),
                         xdp_rl_state4 := rl, edge4_rl_state := erl\<rparr>;
               Some (verdict d, record_v4 K cpu iph pkt_len now sample_mask t l4 d s)
             }
      })"

section \<open>The IPv6 path\<close>

definition decide_v6 ::
    "kernel \<Rightarrow> packet \<Rightarrow> u64 \<Rightarrow> ipv6hdr \<Rightarrow> u64 \<Rightarrow> u32 \<Rightarrow> u32 option \<Rightarrow> shield \<Rightarrow> totals_map
     \<Rightarrow> (l4_info \<times> drops \<times> totals_map \<times> (src6_key \<rightharpoonup> rl_state_t)) option" where
  "decide_v6 K pkt l4off ip6 now enforce t s tm =
     do {
       let saddr6 = ip6_saddr ip6;
       (l4, tm) \<leftarrow> l4_parse IPPROTO_ICMPV6 pkt l4off (ip6_nexthdr ip6) t tm;
       let (d, tm) = acl_check enforce (in_allow_v6 (k_lpm6 K) (xdp_allow6_lpm s) saddr6)
                       (in_deny_v6 (xdp_deny6_hash s) saddr6) t tm;
       (d, tm, rl) \<leftarrow>
         (if \<not> drop_allow d \<and> \<not> drop_deny d then
            rl_gate (k_rl6_update K) (select_rl_v6 (xdp_rl_cfg s) (xdp_rl_policy6 s) saddr6)
              \<lparr>src6_ip = saddr6\<rparr> now t d tm (xdp_rl_state6 s)
          else Some (d, tm, xdp_rl_state6 s));
       Some (l4, d, tm, rl)
     }"

definition record_v6 ::
    "kernel \<Rightarrow> nat \<Rightarrow> ipv6hdr \<Rightarrow> u64 \<Rightarrow> u64 \<Rightarrow> u32 \<Rightarrow> u32 option \<Rightarrow> l4_info \<Rightarrow> drops \<Rightarrow> shield \<Rightarrow> shield" where
  "record_v6 K cpu ip6 pkt_len now sample_mask t l4 d s =
     (let saddr6 = ip6_saddr ip6;
          nh = ip6_nexthdr ip6;
          tm = xdp_totals s cpu;
          ports = hist_port_add (dport l4) pkt_len (dropped d) (xdp_port_hist s cpu);
          x = \<lparr>sm_len = pkt_len, sm_now = now, sm_l4 = l4, sm_ttl = ip6_hop_limit ip6,
               sm_pass = \<not> dropped d, sm_drops = d\<rparr>;
          (upd, src6) = src6_update (k_src6_update K) saddr6 x (xdp_src6_stats s);
          tm = (if upd AND 2 \<noteq> 0
                then on_totals t (\<lambda>v. v\<lparr>t_new_sources := t_new_sources v + 1\<rparr>) tm else tm);
          (tm, ring) =
            (if upd AND 1 \<noteq> 0 \<and> t \<noteq> None then
               (on_totals t (\<lambda>v. v\<lparr>t_dport_changes := t_dport_changes v + 1\<rparr>) tm,
                maybe_emit_event_v6 (k_event K 0) EV_SCAN_HINT sample_mask saddr6 nh (dport l4)
                  (ucast pkt_len) 1 (xdp_events s))
             else (tm, xdp_events s));
          ring =
            (if drop_allow d then
               maybe_emit_event_v6 (k_event K 1) EV_DROP_ALLOW sample_mask saddr6 nh (dport l4)
                 (ucast pkt_len) 0 ring
             else if drop_deny d then
               maybe_emit_event_v6 (k_event K 1) EV_DROP_DENY sample_mask saddr6 nh (dport l4)
                 (ucast pkt_len) 0 ring
             else if drop_rl d then
               maybe_emit_event_v6 (k_event K 1) EV_DROP_RL sample_mask saddr6 nh (dport l4)
                 (ucast pkt_len) 0 ring
             else ring)
      in s\<lparr>xdp_totals := (xdp_totals s)(cpu := tm),
           xdp_port_hist := (xdp_port_hist s)(cpu := ports),
           xdp_src6_stats := src6,
           xdp_events := ring\<rparr>)"

definition xdp_ipv6 ::
    "kernel \<Rightarrow> nat \<Rightarrow> packet \<Rightarrow> u64 \<Rightarrow> u64 \<Rightarrow> u64 \<Rightarrow> u32 \<Rightarrow> u32 \<Rightarrow> u32 option \<Rightarrow> shield
     \<Rightarrow> (xdp_action \<times> shield) option" where
  "xdp_ipv6 K cpu pkt off pkt_len now enforce sample_mask t s =
     (if unat off + sizeof_ipv6hdr > length pkt then Some (early_pass cpu t s)
      else do {
        ip6 \<leftarrow> load_ipv6hdr pkt (unat off);
        if ip6_version ip6 \<noteq> 6 then Some (early_pass cpu t s)
        else do {
          let tm = on_totals t (\<lambda>v. v\<lparr>t_v6 := t_v6 v + 1\<rparr>) (xdp_totals s cpu);
          (l4, d, tm, rl) \<leftarrow> decide_v6 K pkt (off + 40) ip6 now enforce t s tm;
          let s = s\<lparr>xdp_totals := (xdp_totals s)(cpu := count_verdict t d tm),
                    xdp_rl_state6 := rl\<rparr>;
          Some (verdict d, record_v6 K cpu ip6 pkt_len now sample_mask t l4 d s)
        }
      })"

section \<open>The program\<close>

text \<open>The counters every packet bumps on entry, and the two words of the configuration.\<close>

definition count_packet :: "nat \<Rightarrow> u32 option \<Rightarrow> u64 \<Rightarrow> shield \<Rightarrow> shield" where
  "count_packet cpu t pkt_len s =
     s\<lparr>xdp_totals := (xdp_totals s)(cpu := totals_add_basic t pkt_len (xdp_totals s cpu)),
       xdp_len_hist := (xdp_len_hist s)(cpu := hist_len_add pkt_len (xdp_len_hist s cpu))\<rparr>"

definition cfg_enforce :: "shield \<Rightarrow> u32" where
  "cfg_enforce s = (case xdp_cfg s 0 of None \<Rightarrow> 0 | Some c \<Rightarrow> enforce_allow c)"

definition cfg_sample_mask :: "shield \<Rightarrow> u32" where
  "cfg_sample_mask s = (case xdp_cfg s 0 of None \<Rightarrow> 0 | Some c \<Rightarrow> event_sample_mask c)"

definition xdp_klshield :: "kernel \<Rightarrow> nat \<Rightarrow> packet \<Rightarrow> shield \<Rightarrow> (xdp_action \<times> shield) option" where
  "xdp_klshield K cpu pkt s =
     do {
       let pkt_len = (of_nat (length pkt) :: u64);
       let now = k_now K;
       let t = totals_get (xdp_totals s cpu);
       let s = count_packet cpu t pkt_len s;
       r \<leftarrow> parse_eth pkt;
       case r of
         Inl Truncated \<Rightarrow> Some (early_pass cpu t s)
       | Inr (proto, off) \<Rightarrow>
           (if proto = 0x0800 then
              xdp_ipv4 K cpu pkt off pkt_len now (cfg_enforce s) (cfg_sample_mask s) t s
            else if proto = 0x86DD then
              xdp_ipv6 K cpu pkt off pkt_len now (cfg_enforce s) (cfg_sample_mask s) t s
            else Some (early_pass cpu t s))
     }"

section \<open>The shape of a run\<close>

definition ipv4_header :: "packet \<Rightarrow> u64 \<Rightarrow> iphdr \<Rightarrow> bool" where
  "ipv4_header pkt off iph \<longleftrightarrow>
     unat off + sizeof_iphdr \<le> length pkt \<and> load_iphdr pkt (unat off) = Some iph \<and>
     ip_version iph = 4 \<and> sizeof_iphdr \<le> unat ((ucast (ip_ihl iph) :: u64) * 4) \<and>
     unat off + unat ((ucast (ip_ihl iph) :: u64) * 4) \<le> length pkt"

definition ipv6_header :: "packet \<Rightarrow> u64 \<Rightarrow> ipv6hdr \<Rightarrow> bool" where
  "ipv6_header pkt off ip6 \<longleftrightarrow>
     unat off + sizeof_ipv6hdr \<le> length pkt \<and> load_ipv6hdr pkt (unat off) = Some ip6 \<and>
     ip6_version ip6 = 6"

definition l4_offset :: "u64 \<Rightarrow> iphdr \<Rightarrow> u64" where
  "l4_offset off iph = off + (ucast (ip_ihl iph) :: u64) * 4"

definition bump_v4 :: "nat \<Rightarrow> u32 option \<Rightarrow> shield \<Rightarrow> totals_map" where
  "bump_v4 cpu t s = on_totals t (\<lambda>v. v\<lparr>t_v4 := t_v4 v + 1\<rparr>) (xdp_totals s cpu)"

definition bump_v6 :: "nat \<Rightarrow> u32 option \<Rightarrow> shield \<Rightarrow> totals_map" where
  "bump_v6 cpu t s = on_totals t (\<lambda>v. v\<lparr>t_v6 := t_v6 v + 1\<rparr>) (xdp_totals s cpu)"

lemma xdp_ipv4_header:
  assumes "ipv4_header pkt off iph"
  shows "xdp_ipv4 K cpu pkt off len now enf sm t s =
    do {
      (l4, d, tm, rl, erl) \<leftarrow> decide_v4 K pkt (l4_offset off iph) iph now enf t s (bump_v4 cpu t s);
      Some (verdict d, record_v4 K cpu iph len now sm t l4 d
        (s\<lparr>xdp_totals := (xdp_totals s)(cpu := count_verdict t d tm),
           xdp_rl_state4 := rl, edge4_rl_state := erl\<rparr>))
    }"
  using assms by (simp add: xdp_ipv4_def ipv4_header_def l4_offset_def bump_v4_def Let_def not_less)

lemma xdp_ipv4_other:
  assumes "\<And>iph. \<not> ipv4_header pkt off iph"
  shows "xdp_ipv4 K cpu pkt off len now enf sm t s = Some (early_pass cpu t s)"
proof (cases "unat off + sizeof_iphdr \<le> length pkt")
  case True
  then obtain iph where "load_iphdr pkt (unat off) = Some iph" using load_headers_safe(3) by blast
  with True assms [of iph] show ?thesis
    by (auto simp: xdp_ipv4_def ipv4_header_def Let_def not_less)
qed (simp add: xdp_ipv4_def)

lemma xdp_ipv6_header:
  assumes "ipv6_header pkt off ip6"
  shows "xdp_ipv6 K cpu pkt off len now enf sm t s =
    do {
      (l4, d, tm, rl) \<leftarrow> decide_v6 K pkt (off + 40) ip6 now enf t s (bump_v6 cpu t s);
      Some (verdict d, record_v6 K cpu ip6 len now sm t l4 d
        (s\<lparr>xdp_totals := (xdp_totals s)(cpu := count_verdict t d tm), xdp_rl_state6 := rl\<rparr>))
    }"
  using assms by (simp add: xdp_ipv6_def ipv6_header_def bump_v6_def Let_def not_less)

lemma xdp_ipv6_other:
  assumes "\<And>ip6. \<not> ipv6_header pkt off ip6"
  shows "xdp_ipv6 K cpu pkt off len now enf sm t s = Some (early_pass cpu t s)"
proof (cases "unat off + sizeof_ipv6hdr \<le> length pkt")
  case True
  then obtain ip6 where "load_ipv6hdr pkt (unat off) = Some ip6" using load_headers_safe(4) by blast
  with True assms [of ip6] show ?thesis by (auto simp: xdp_ipv6_def ipv6_header_def)
qed (simp add: xdp_ipv6_def)

text \<open>The state after the entry counters, and the pointer to the totals.\<close>

definition entered :: "nat \<Rightarrow> packet \<Rightarrow> shield \<Rightarrow> shield" where
  "entered cpu pkt s = count_packet cpu (totals_get (xdp_totals s cpu)) (of_nat (length pkt)) s"

definition frame_kind :: "packet \<Rightarrow> (iphdr \<times> u64) + (ipv6hdr \<times> u64) + unit" where
  "frame_kind pkt =
     (case parse_eth pkt of
        Some (Inr (proto, off)) \<Rightarrow>
          if proto = 0x0800 then
            (case load_iphdr pkt (unat off) of
               Some iph \<Rightarrow> if ipv4_header pkt off iph then Inl (iph, off) else Inr (Inr ())
             | None \<Rightarrow> Inr (Inr ()))
          else if proto = 0x86DD then
            (case load_ipv6hdr pkt (unat off) of
               Some ip6 \<Rightarrow> if ipv6_header pkt off ip6 then Inr (Inl (ip6, off)) else Inr (Inr ())
             | None \<Rightarrow> Inr (Inr ()))
          else Inr (Inr ())
      | _ \<Rightarrow> Inr (Inr ()))"

lemma frame_kind_v4:
  "frame_kind pkt = Inl (iph, off) \<longleftrightarrow> parse_eth pkt = Some (Inr (0x0800, off)) \<and> ipv4_header pkt off iph"
  by (auto simp: frame_kind_def ipv4_header_def split: option.splits sum.splits if_splits)

lemma frame_kind_v6:
  "frame_kind pkt = Inr (Inl (ip6, off)) \<longleftrightarrow> parse_eth pkt = Some (Inr (0x86DD, off)) \<and> ipv6_header pkt off ip6"
  by (auto simp: frame_kind_def ipv6_header_def split: option.splits sum.splits if_splits)

lemma xdp_klshield_v4:
  fixes s :: shield and cpu :: nat
  assumes "frame_kind pkt = Inl (iph, off)"
  defines "t \<equiv> totals_get (xdp_totals s cpu)" and "s1 \<equiv> entered cpu pkt s"
  shows "xdp_klshield K cpu pkt s =
    do {
      (l4, d, tm, rl, erl) \<leftarrow>
        decide_v4 K pkt (l4_offset off iph) iph (k_now K) (cfg_enforce s) t s1 (bump_v4 cpu t s1);
      Some (verdict d, record_v4 K cpu iph (of_nat (length pkt)) (k_now K) (cfg_sample_mask s) t l4 d
        (s1\<lparr>xdp_totals := (xdp_totals s1)(cpu := count_verdict t d tm),
            xdp_rl_state4 := rl, edge4_rl_state := erl\<rparr>))
    }"
proof -
  have k: "parse_eth pkt = Some (Inr (0x0800, off))" and h: "ipv4_header pkt off iph"
    using assms(1) by (simp_all add: frame_kind_v4)
  have c: "cfg_enforce s1 = cfg_enforce s" "cfg_sample_mask s1 = cfg_sample_mask s"
    by (simp_all add: s1_def entered_def count_packet_def cfg_enforce_def cfg_sample_mask_def)
  have e: "count_packet cpu t (of_nat (length pkt)) s = s1"
    by (simp add: s1_def entered_def t_def)
  show ?thesis
    using k c by (simp add: xdp_klshield_def Let_def xdp_ipv4_header [OF h] e flip: t_def)
qed

lemma xdp_klshield_v6:
  fixes s :: shield and cpu :: nat
  assumes "frame_kind pkt = Inr (Inl (ip6, off))"
  defines "t \<equiv> totals_get (xdp_totals s cpu)" and "s1 \<equiv> entered cpu pkt s"
  shows "xdp_klshield K cpu pkt s =
    do {
      (l4, d, tm, rl) \<leftarrow> decide_v6 K pkt (off + 40) ip6 (k_now K) (cfg_enforce s) t s1 (bump_v6 cpu t s1);
      Some (verdict d, record_v6 K cpu ip6 (of_nat (length pkt)) (k_now K) (cfg_sample_mask s) t l4 d
        (s1\<lparr>xdp_totals := (xdp_totals s1)(cpu := count_verdict t d tm), xdp_rl_state6 := rl\<rparr>))
    }"
proof -
  have k: "parse_eth pkt = Some (Inr (0x86DD, off))" and h: "ipv6_header pkt off ip6"
    using assms(1) by (simp_all add: frame_kind_v6)
  have c: "cfg_enforce s1 = cfg_enforce s" "cfg_sample_mask s1 = cfg_sample_mask s"
    by (simp_all add: s1_def entered_def count_packet_def cfg_enforce_def cfg_sample_mask_def)
  have e: "count_packet cpu t (of_nat (length pkt)) s = s1"
    by (simp add: s1_def entered_def t_def)
  show ?thesis
    using k c by (simp add: xdp_klshield_def Let_def xdp_ipv6_header [OF h] e flip: t_def)
qed

lemma xdp_klshield_other:
  assumes "frame_kind pkt = Inr (Inr ())"
  shows "xdp_klshield K cpu pkt s =
    Some (early_pass cpu (totals_get (xdp_totals s cpu)) (entered cpu pkt s))"
proof -
  obtain r where r: "parse_eth pkt = Some r" using parse_eth_safe by blast
  show ?thesis
  proof (cases r)
    case (Inl e)
    with r show ?thesis by (cases e) (simp add: xdp_klshield_def Let_def entered_def)
  next
    case (Inr p)
    obtain proto off where p: "p = (proto, off)" by fastforce
    have no4: "\<not> ipv4_header pkt off iph" if "proto = 0x0800" for iph
      using assms r Inr p that frame_kind_v4 [of pkt iph off] by auto
    have no6: "\<not> ipv6_header pkt off ip6" if "proto = 0x86DD" for ip6
      using assms r Inr p that frame_kind_v6 [of pkt ip6 off] by auto
    show ?thesis
      using r Inr p no4 no6
      by (auto simp: xdp_klshield_def Let_def entered_def xdp_ipv4_other xdp_ipv6_other)
  qed
qed

end
