(* ===== verification/Xdp_Laws.thy ===== *)
theory Xdp_Laws
  imports Xdp_Program
begin

text \<open>
  The laws of the packet path: the kernel contract \<open>kernel_ok\<close>, the state invariants, what the
  decision does to the totals, the drop flags and the bucket tables, what recording changes, and
  the case analysis of a whole run that the properties use.
\<close>

section \<open>The kernel contract and the state invariant\<close>

definition kernel_ok :: "kernel \<Rightarrow> bool" where
  "kernel_ok K \<longleftrightarrow>
     lpm prefix4 (k_lpm4 K) \<and> lpm prefix6 (k_lpm6 K) \<and>
     bpf_lru (k_src4_update K) \<and> bpf_lru (k_src6_update K) \<and> bpf_lru (k_flow4_update K) \<and>
     bpf_hash (k_rl4_update K) (max_entries xdp_rl_state4_map) \<and>
     bpf_hash (k_rl6_update K) (max_entries xdp_rl_state6_map) \<and>
     bpf_hash (k_edge_rl_update K) (max_entries edge4_rl_state_map)"

lemma kernel_okD:
  assumes "kernel_ok K"
  shows "lpm prefix4 (k_lpm4 K)" "lpm prefix6 (k_lpm6 K)"
    "bpf_lru (k_src4_update K)" "bpf_lru (k_src6_update K)" "bpf_lru (k_flow4_update K)"
    "bpf_hash (k_rl4_update K) (max_entries xdp_rl_state4_map)"
    "bpf_hash (k_rl6_update K) (max_entries xdp_rl_state6_map)"
    "bpf_hash (k_edge_rl_update K) (max_entries edge4_rl_state_map)"
    "bpf_lru (k_rl4_update K)" "bpf_lru (k_rl6_update K)" "bpf_lru (k_edge_rl_update K)"
  using assms by (auto simp: kernel_ok_def bpf_hash_def)

definition buckets_free :: "shield \<Rightarrow> bool" where
  "buckets_free s \<longleftrightarrow>
     locks_free (xdp_rl_state4 s) \<and> locks_free (xdp_rl_state6 s) \<and> locks_free (edge4_rl_state s)"

definition arrays_wf :: "shield \<Rightarrow> bool" where
  "arrays_wf s \<longleftrightarrow>
     (\<forall>cpu. array_wf xdp_totals_map (xdp_totals s cpu) \<and>
            array_wf xdp_len_hist_map (xdp_len_hist s cpu) \<and>
            array_wf xdp_port_hist_map (xdp_port_hist s cpu)) \<and>
     array_wf xdp_cfg_map (xdp_cfg s) \<and> array_wf xdp_rl_cfg_map (xdp_rl_cfg s) \<and>
     array_wf edge4_cfg_map (edge4_cfg s)"

section \<open>The decision\<close>

text \<open>The source-level decision before the buckets, and what a run of the decision went through.\<close>

definition acl_v4 :: "kernel \<Rightarrow> shield \<Rightarrow> u32 \<Rightarrow> u32 \<Rightarrow> drops" where
  "acl_v4 K s enf saddr =
     acl_drops enf (in_allow_v4 (k_lpm4 K) (xdp_allow_lpm s) saddr) (in_deny_v4 (xdp_deny_hash s) saddr)"

definition acl_v6 :: "kernel \<Rightarrow> shield \<Rightarrow> u32 \<Rightarrow> u8 list \<Rightarrow> drops" where
  "acl_v6 K s enf saddr =
     acl_drops enf (in_allow_v6 (k_lpm6 K) (xdp_allow6_lpm s) saddr) (in_deny_v6 (xdp_deny6_hash s) saddr)"

definition source_gate_v4 ::
    "kernel \<Rightarrow> shield \<Rightarrow> u32 \<Rightarrow> u64 \<Rightarrow> u32 option \<Rightarrow> drops \<Rightarrow> totals_map
     \<Rightarrow> (drops \<times> totals_map \<times> (u32 \<rightharpoonup> rl_state_t)) option" where
  "source_gate_v4 K s saddr now t d tm =
     (if \<not> drop_allow d \<and> \<not> drop_deny d then
        rl_gate (k_rl4_update K) (select_rl_v4 (xdp_rl_cfg s) (xdp_rl_policy4 s) saddr)
          saddr now t d tm (xdp_rl_state4 s)
      else Some (d, tm, xdp_rl_state4 s))"

definition source_gate_v6 ::
    "kernel \<Rightarrow> shield \<Rightarrow> u8 list \<Rightarrow> u64 \<Rightarrow> u32 option \<Rightarrow> drops \<Rightarrow> totals_map
     \<Rightarrow> (drops \<times> totals_map \<times> (src6_key \<rightharpoonup> rl_state_t)) option" where
  "source_gate_v6 K s saddr now t d tm =
     (if \<not> drop_allow d \<and> \<not> drop_deny d then
        rl_gate (k_rl6_update K) (select_rl_v6 (xdp_rl_cfg s) (xdp_rl_policy6 s) saddr)
          \<lparr>src6_ip = saddr\<rparr> now t d tm (xdp_rl_state6 s)
      else Some (d, tm, xdp_rl_state6 s))"

definition tuple_gate ::
    "kernel \<Rightarrow> shield \<Rightarrow> u32 \<Rightarrow> u16 \<Rightarrow> u8 \<Rightarrow> u64 \<Rightarrow> u32 option \<Rightarrow> drops \<Rightarrow> totals_map
     \<Rightarrow> (drops \<times> totals_map \<times> (edge4_key \<rightharpoonup> rl_state_t)) option" where
  "tuple_gate K s saddr dp p now t d tm =
     edge_gate (k_edge_rl_update K) (edge4_cfg s) (edge4_allow s) (edge4_deny s)
       (edge4_rl_policy s) saddr dp p now t d tm (edge4_rl_state s)"

definition frag_totals :: "u32 option \<Rightarrow> iphdr \<Rightarrow> totals_map \<Rightarrow> totals_map" where
  "frag_totals t iph tm =
     (if is_fragment iph then on_totals t (\<lambda>v. v\<lparr>t_ipv4_frags := t_ipv4_frags v + 1\<rparr>) tm else tm)"

lemma acl_check_acl_v4:
  "acl_check enf (in_allow_v4 (k_lpm4 K) (xdp_allow_lpm s) saddr) (in_deny_v4 (xdp_deny_hash s) saddr) t tm =
    (acl_v4 K s enf saddr,
     snd (acl_check enf (in_allow_v4 (k_lpm4 K) (xdp_allow_lpm s) saddr)
       (in_deny_v4 (xdp_deny_hash s) saddr) t tm))"
  unfolding acl_v4_def by (metis fst_acl_check prod.collapse)

lemma acl_check_acl_v6:
  "acl_check enf (in_allow_v6 (k_lpm6 K) (xdp_allow6_lpm s) saddr) (in_deny_v6 (xdp_deny6_hash s) saddr) t tm =
    (acl_v6 K s enf saddr,
     snd (acl_check enf (in_allow_v6 (k_lpm6 K) (xdp_allow6_lpm s) saddr)
       (in_deny_v6 (xdp_deny6_hash s) saddr) t tm))"
  unfolding acl_v6_def by (metis fst_acl_check prod.collapse)

lemma decide_v4_eq:
  "decide_v4 K pkt l4off iph now enf t s tm =
    do {
      (l4, tm1) \<leftarrow> l4_parse IPPROTO_ICMP pkt l4off (ip_protocol iph) t (frag_totals t iph tm);
      (d2, tm3, rl) \<leftarrow> source_gate_v4 K s (ip_saddr iph) now t (acl_v4 K s enf (ip_saddr iph))
        (snd (acl_check enf (in_allow_v4 (k_lpm4 K) (xdp_allow_lpm s) (ip_saddr iph))
          (in_deny_v4 (xdp_deny_hash s) (ip_saddr iph)) t tm1));
      (d3, tm4, erl) \<leftarrow> tuple_gate K s (ip_saddr iph) (dport l4) (ip_protocol iph) now t d2 tm3;
      Some (l4, d3, tm4, rl, erl)
    }"
  unfolding decide_v4_def Let_def source_gate_v4_def tuple_gate_def frag_totals_def
  by (subst acl_check_acl_v4) simp

lemma decide_v6_eq:
  "decide_v6 K pkt l4off ip6 now enf t s tm =
    do {
      (l4, tm1) \<leftarrow> l4_parse IPPROTO_ICMPV6 pkt l4off (ip6_nexthdr ip6) t tm;
      (d2, tm3, rl) \<leftarrow> source_gate_v6 K s (ip6_saddr ip6) now t (acl_v6 K s enf (ip6_saddr ip6))
        (snd (acl_check enf (in_allow_v6 (k_lpm6 K) (xdp_allow6_lpm s) (ip6_saddr ip6))
          (in_deny_v6 (xdp_deny6_hash s) (ip6_saddr ip6)) t tm1));
      Some (l4, d2, tm3, rl)
    }"
  unfolding decide_v6_def Let_def source_gate_v6_def
  by (subst acl_check_acl_v6) simp

lemma decide_v4_Some:
  "decide_v4 K pkt l4off iph now enf t s tm = Some (l4, d, tm', rl, erl) \<longleftrightarrow>
    (\<exists>tm1 d2 tm3.
       l4_parse IPPROTO_ICMP pkt l4off (ip_protocol iph) t (frag_totals t iph tm) = Some (l4, tm1) \<and>
       source_gate_v4 K s (ip_saddr iph) now t (acl_v4 K s enf (ip_saddr iph))
        (snd (acl_check enf (in_allow_v4 (k_lpm4 K) (xdp_allow_lpm s) (ip_saddr iph))
          (in_deny_v4 (xdp_deny_hash s) (ip_saddr iph)) t tm1)) = Some (d2, tm3, rl) \<and>
       tuple_gate K s (ip_saddr iph) (dport l4) (ip_protocol iph) now t d2 tm3 = Some (d, tm', erl))"
  by (fastforce simp: decide_v4_eq Option.bind_eq_Some_conv)

lemma decide_v6_Some:
  "decide_v6 K pkt l4off ip6 now enf t s tm = Some (l4, d, tm', rl) \<longleftrightarrow>
    (\<exists>tm1.
       l4_parse IPPROTO_ICMPV6 pkt l4off (ip6_nexthdr ip6) t tm = Some (l4, tm1) \<and>
       source_gate_v6 K s (ip6_saddr ip6) now t (acl_v6 K s enf (ip6_saddr ip6))
        (snd (acl_check enf (in_allow_v6 (k_lpm6 K) (xdp_allow6_lpm s) (ip6_saddr ip6))
          (in_deny_v6 (xdp_deny6_hash s) (ip6_saddr ip6)) t tm1)) = Some (d, tm', rl))"
  by (fastforce simp: decide_v6_eq Option.bind_eq_Some_conv)

section \<open>Laws of the gates of a packet\<close>

lemma source_gate_v4_result:
  assumes "source_gate_v4 K s saddr now t d tm = Some (d', tm', rl)"
  shows "d' = d \<or> \<not> drop_allow d \<and> \<not> drop_deny d \<and> d' = d\<lparr>drop_rl := True\<rparr>"
    "same_verdicts tm tm'" "tm' i = None \<longleftrightarrow> tm i = None"
  using assms by (auto simp: source_gate_v4_def split: if_splits dest: rl_gate_result)

lemma source_gate_v6_result:
  assumes "source_gate_v6 K s saddr now t d tm = Some (d', tm', rl)"
  shows "d' = d \<or> \<not> drop_allow d \<and> \<not> drop_deny d \<and> d' = d\<lparr>drop_rl := True\<rparr>"
    "same_verdicts tm tm'" "tm' i = None \<longleftrightarrow> tm i = None"
  using assms by (auto simp: source_gate_v6_def split: if_splits dest: rl_gate_result)

lemma source_gate_v4_safe:
  "locks_free (xdp_rl_state4 s) \<Longrightarrow> \<exists>r. source_gate_v4 K s saddr now t d tm = Some r"
proof -
  assume free: "locks_free (xdp_rl_state4 s)"
  have "\<exists>r. rl_gate (k_rl4_update K) (select_rl_v4 (xdp_rl_cfg s) (xdp_rl_policy4 s) saddr)
      k now t d tm (xdp_rl_state4 s) = Some r" for k
    by (rule rl_gate_safe [OF free]) (rule select_rl_v4_usable)
  then show ?thesis by (simp add: source_gate_v4_def)
qed

lemma source_gate_v6_safe:
  "locks_free (xdp_rl_state6 s) \<Longrightarrow> \<exists>r. source_gate_v6 K s saddr now t d tm = Some r"
proof -
  assume free: "locks_free (xdp_rl_state6 s)"
  have "\<exists>r. rl_gate (k_rl6_update K) (select_rl_v6 (xdp_rl_cfg s) (xdp_rl_policy6 s) saddr)
      k now t d tm (xdp_rl_state6 s) = Some r" for k
    by (rule rl_gate_safe [OF free]) (rule select_rl_v6_usable)
  then show ?thesis by (simp add: source_gate_v6_def)
qed

lemma source_gate_v4_locks:
  assumes "bpf_lru (k_rl4_update K)" "locks_free (xdp_rl_state4 s)"
    "source_gate_v4 K s saddr now t d tm = Some (d', tm', rl)"
  shows "locks_free rl"
  using assms rl_gate_locks_free [OF assms(1,2) select_rl_v4_usable]
  by (auto simp: source_gate_v4_def split: if_splits)

lemma source_gate_v6_locks:
  assumes "bpf_lru (k_rl6_update K)" "locks_free (xdp_rl_state6 s)"
    "source_gate_v6 K s saddr now t d tm = Some (d', tm', rl)"
  shows "locks_free rl"
  using assms rl_gate_locks_free [OF assms(1,2) select_rl_v6_usable]
  by (auto simp: source_gate_v6_def split: if_splits)

lemma frag_totals_same: "same_verdicts tm (frag_totals t iph tm)"
  by (auto simp: frag_totals_def verdict_counts_def intro!: same_verdicts_on_totals)

lemma frag_totals_dom: "frag_totals t iph tm i = None \<longleftrightarrow> tm i = None"
  by (simp add: frag_totals_def on_totals_dom)

section \<open>The decision: safety, one reason, totals and locks\<close>

lemma decide_v4_safe:
  assumes "locks_free (xdp_rl_state4 s)" "locks_free (edge4_rl_state s)"
  shows "\<exists>l4 d tm' rl erl. decide_v4 K pkt l4off iph now enf t s tm = Some (l4, d, tm', rl, erl)"
proof -
  obtain l4 tm1 where l4: "l4_parse IPPROTO_ICMP pkt l4off (ip_protocol iph) t (frag_totals t iph tm) = Some (l4, tm1)"
    using l4_parse_safe by fastforce
  obtain d2 tm3 rl where r: "source_gate_v4 K s (ip_saddr iph) now t (acl_v4 K s enf (ip_saddr iph))
        (snd (acl_check enf (in_allow_v4 (k_lpm4 K) (xdp_allow_lpm s) (ip_saddr iph))
          (in_deny_v4 (xdp_deny_hash s) (ip_saddr iph)) t tm1)) = Some (d2, tm3, rl)"
    using source_gate_v4_safe [OF assms(1)] by (metis prod.exhaust)
  obtain d3 tm4 erl where "tuple_gate K s (ip_saddr iph) (dport l4) (ip_protocol iph) now t d2 tm3 = Some (d3, tm4, erl)"
    using edge_gate_safe [OF assms(2)] unfolding tuple_gate_def by (metis prod.exhaust)
  with l4 r show ?thesis unfolding decide_v4_Some by blast
qed

lemma decide_v6_safe:
  assumes "locks_free (xdp_rl_state6 s)"
  shows "\<exists>l4 d tm' rl. decide_v6 K pkt l4off ip6 now enf t s tm = Some (l4, d, tm', rl)"
proof -
  obtain l4 tm1 where l4: "l4_parse IPPROTO_ICMPV6 pkt l4off (ip6_nexthdr ip6) t tm = Some (l4, tm1)"
    using l4_parse_safe by fastforce
  obtain d2 tm3 rl where r: "source_gate_v6 K s (ip6_saddr ip6) now t (acl_v6 K s enf (ip6_saddr ip6))
        (snd (acl_check enf (in_allow_v6 (k_lpm6 K) (xdp_allow6_lpm s) (ip6_saddr ip6))
          (in_deny_v6 (xdp_deny6_hash s) (ip6_saddr ip6)) t tm1)) = Some (d2, tm3, rl)"
    using source_gate_v6_safe [OF assms(1)] by (metis prod.exhaust)
  with l4 show ?thesis unfolding decide_v6_Some by blast
qed

lemma one_reason_rl: "one_reason d \<Longrightarrow> \<not> drop_allow d \<Longrightarrow> \<not> drop_deny d \<Longrightarrow> one_reason (d\<lparr>drop_rl := True\<rparr>)"
  by (simp add: one_reason_def)

lemma acl_one_reason [simp]: "one_reason (acl_v4 K s enf a)" "one_reason (acl_v6 K s enf a6)"
  by (simp_all add: acl_v4_def acl_v6_def)

lemma decide_v4_result:
  assumes "decide_v4 K pkt l4off iph now enf t s tm = Some (l4, d, tm', rl, erl)"
  shows "one_reason d" "same_verdicts tm tm'" "tm' i = None \<longleftrightarrow> tm i = None"
proof -
  obtain tm1 d2 tm3 where
    l4: "l4_parse IPPROTO_ICMP pkt l4off (ip_protocol iph) t (frag_totals t iph tm) = Some (l4, tm1)"
    and r: "source_gate_v4 K s (ip_saddr iph) now t (acl_v4 K s enf (ip_saddr iph))
        (snd (acl_check enf (in_allow_v4 (k_lpm4 K) (xdp_allow_lpm s) (ip_saddr iph))
          (in_deny_v4 (xdp_deny_hash s) (ip_saddr iph)) t tm1)) = Some (d2, tm3, rl)"
    and e: "tuple_gate K s (ip_saddr iph) (dport l4) (ip_protocol iph) now t d2 tm3 = Some (d, tm', erl)"
    using assms unfolding decide_v4_Some by blast
  note e' = edge_gate_result [OF e [unfolded tuple_gate_def]]
  have "one_reason d2" using source_gate_v4_result(1) [OF r] one_reason_rl by auto
  then show "one_reason d" by (rule e'(3))
  show "same_verdicts tm tm'"
    using frag_totals_same l4_parse_same_verdicts [OF l4] acl_check_same_verdicts
      source_gate_v4_result(2) [OF r] e'(1) by (meson same_verdicts_trans)
  show "tm' i = None \<longleftrightarrow> tm i = None"
    using frag_totals_dom l4_parse_totals_dom [OF l4] acl_check_dom source_gate_v4_result(3) [OF r] e'(2)
    by metis
qed

lemma decide_v6_result:
  assumes "decide_v6 K pkt l4off ip6 now enf t s tm = Some (l4, d, tm', rl)"
  shows "one_reason d" "same_verdicts tm tm'" "tm' i = None \<longleftrightarrow> tm i = None"
proof -
  obtain tm1 where
    l4: "l4_parse IPPROTO_ICMPV6 pkt l4off (ip6_nexthdr ip6) t tm = Some (l4, tm1)"
    and r: "source_gate_v6 K s (ip6_saddr ip6) now t (acl_v6 K s enf (ip6_saddr ip6))
        (snd (acl_check enf (in_allow_v6 (k_lpm6 K) (xdp_allow6_lpm s) (ip6_saddr ip6))
          (in_deny_v6 (xdp_deny6_hash s) (ip6_saddr ip6)) t tm1)) = Some (d, tm', rl)"
    using assms unfolding decide_v6_Some by blast
  show "one_reason d" using source_gate_v6_result(1) [OF r] one_reason_rl by auto
  show "same_verdicts tm tm'"
    using l4_parse_same_verdicts [OF l4] acl_check_same_verdicts source_gate_v6_result(2) [OF r]
    by (meson same_verdicts_trans)
  show "tm' i = None \<longleftrightarrow> tm i = None"
    using l4_parse_totals_dom [OF l4] acl_check_dom source_gate_v6_result(3) [OF r] by metis
qed

lemma decide_v4_locks:
  assumes "bpf_lru (k_rl4_update K)" "bpf_lru (k_edge_rl_update K)"
    and "locks_free (xdp_rl_state4 s)" "locks_free (edge4_rl_state s)"
    and "decide_v4 K pkt l4off iph now enf t s tm = Some (l4, d, tm', rl, erl)"
  shows "locks_free rl" "locks_free erl"
proof -
  from assms(5) show "locks_free rl"
    unfolding decide_v4_Some by (elim exE conjE) (rule source_gate_v4_locks [OF assms(1,3)])
  from assms(5) show "locks_free erl"
    unfolding decide_v4_Some tuple_gate_def
    by (elim exE conjE) (rule edge_gate_locks_free [OF assms(2,4)])
qed

lemma decide_v6_locks:
  assumes "bpf_lru (k_rl6_update K)" "locks_free (xdp_rl_state6 s)"
    and "decide_v6 K pkt l4off ip6 now enf t s tm = Some (l4, d, tm', rl)"
  shows "locks_free rl"
  using assms(3) source_gate_v6_locks [OF assms(1,2)] unfolding decide_v6_Some by blast

section \<open>Recording\<close>

text \<open>The maps that hold policy; the packet path only reads them.\<close>

definition policy_view where
  "policy_view s =
     (xdp_allow_lpm s, xdp_deny_hash s, xdp_allow6_lpm s, xdp_deny6_hash s, xdp_cfg s,
      edge4_deny s, edge4_allow s, edge4_rl_policy s, edge4_cfg s,
      xdp_rl_cfg s, xdp_rl_policy4 s, xdp_rl_policy6 s)"

lemma record_v4_frame [simp]:
  "policy_view (record_v4 K cpu iph len now sm t l4 d s) = policy_view s"
  "xdp_rl_state4 (record_v4 K cpu iph len now sm t l4 d s) = xdp_rl_state4 s"
  "xdp_rl_state6 (record_v4 K cpu iph len now sm t l4 d s) = xdp_rl_state6 s"
  "edge4_rl_state (record_v4 K cpu iph len now sm t l4 d s) = edge4_rl_state s"
  "xdp_src6_stats (record_v4 K cpu iph len now sm t l4 d s) = xdp_src6_stats s"
  "xdp_len_hist (record_v4 K cpu iph len now sm t l4 d s) = xdp_len_hist s"
  "c \<noteq> cpu \<Longrightarrow> xdp_totals (record_v4 K cpu iph len now sm t l4 d s) c = xdp_totals s c"
  by (simp_all add: record_v4_def policy_view_def Let_def case_prod_beta)

lemma record_v6_frame [simp]:
  "policy_view (record_v6 K cpu ip6 len now sm t l4 d s) = policy_view s"
  "xdp_rl_state4 (record_v6 K cpu ip6 len now sm t l4 d s) = xdp_rl_state4 s"
  "xdp_rl_state6 (record_v6 K cpu ip6 len now sm t l4 d s) = xdp_rl_state6 s"
  "edge4_rl_state (record_v6 K cpu ip6 len now sm t l4 d s) = edge4_rl_state s"
  "xdp_src4_stats (record_v6 K cpu ip6 len now sm t l4 d s) = xdp_src4_stats s"
  "xdp_flow4_stats (record_v6 K cpu ip6 len now sm t l4 d s) = xdp_flow4_stats s"
  "xdp_len_hist (record_v6 K cpu ip6 len now sm t l4 d s) = xdp_len_hist s"
  "c \<noteq> cpu \<Longrightarrow> xdp_totals (record_v6 K cpu ip6 len now sm t l4 d s) c = xdp_totals s c"
  by (simp_all add: record_v6_def policy_view_def Let_def case_prod_beta)

text \<open>The sample a packet contributes to the per-source table.\<close>

definition sample_v4 :: "iphdr \<Rightarrow> u64 \<Rightarrow> u64 \<Rightarrow> l4_info \<Rightarrow> drops \<Rightarrow> sample" where
  "sample_v4 iph len now l4 d =
     \<lparr>sm_len = len, sm_now = now, sm_l4 = l4, sm_ttl = ip_ttl iph, sm_pass = \<not> dropped d, sm_drops = d\<rparr>"

definition sample_v6 :: "ipv6hdr \<Rightarrow> u64 \<Rightarrow> u64 \<Rightarrow> l4_info \<Rightarrow> drops \<Rightarrow> sample" where
  "sample_v6 ip6 len now l4 d =
     \<lparr>sm_len = len, sm_now = now, sm_l4 = l4, sm_ttl = ip6_hop_limit ip6, sm_pass = \<not> dropped d,
      sm_drops = d\<rparr>"

lemma fair_samples:
  "one_reason d \<Longrightarrow> fair_sample (sample_v4 iph len now l4 d)"
  "one_reason d \<Longrightarrow> fair_sample (sample_v6 ip6 len now l4 d)"
  by (simp_all add: fair_sample_def sample_v4_def sample_v6_def)

lemma record_v4_src4:
  "xdp_src4_stats (record_v4 K cpu iph len now sm t l4 d s) =
    snd (src4_update (k_src4_update K) (ip_saddr iph) (sample_v4 iph len now l4 d) (xdp_src4_stats s))"
  by (simp add: record_v4_def sample_v4_def Let_def case_prod_beta)

lemma record_v6_src6:
  "xdp_src6_stats (record_v6 K cpu ip6 len now sm t l4 d s) =
    snd (src6_update (k_src6_update K) (ip6_saddr ip6) (sample_v6 ip6 len now l4 d) (xdp_src6_stats s))"
  by (simp add: record_v6_def sample_v6_def Let_def case_prod_beta)

lemma record_v4_flow4:
  "xdp_flow4_stats (record_v4 K cpu iph len now sm t l4 d s) =
    flow4_update (k_flow4_update K) (ip_saddr iph) (dport l4) (ip_protocol iph) len (syn l4) (xdp_flow4_stats s)"
  by (simp add: record_v4_def Let_def case_prod_beta)

lemma record_v4_ports:
  "xdp_port_hist (record_v4 K cpu iph len now sm t l4 d s) =
    (xdp_port_hist s)(cpu := hist_port_add (dport l4) len (dropped d) (xdp_port_hist s cpu))"
  by (simp add: record_v4_def Let_def case_prod_beta)

lemma record_v6_ports:
  "xdp_port_hist (record_v6 K cpu ip6 len now sm t l4 d s) =
    (xdp_port_hist s)(cpu := hist_port_add (dport l4) len (dropped d) (xdp_port_hist s cpu))"
  by (simp add: record_v6_def Let_def case_prod_beta)

lemma record_v4_totals:
  "same_verdicts (xdp_totals s cpu) (xdp_totals (record_v4 K cpu iph len now sm t l4 d s) cpu)"
  "xdp_totals (record_v4 K cpu iph len now sm t l4 d s) cpu i = None \<longleftrightarrow> xdp_totals s cpu i = None"
  by (auto simp: record_v4_def Let_def case_prod_beta on_totals_dom verdict_counts_def
      intro!: same_verdicts_on_totals)

lemma record_v6_totals:
  "same_verdicts (xdp_totals s cpu) (xdp_totals (record_v6 K cpu ip6 len now sm t l4 d s) cpu)"
  "xdp_totals (record_v6 K cpu ip6 len now sm t l4 d s) cpu i = None \<longleftrightarrow> xdp_totals s cpu i = None"
  by (auto simp: record_v6_def Let_def case_prod_beta on_totals_dom verdict_counts_def
      intro!: same_verdicts_on_totals)

lemma record_v4_events:
  "\<exists>es. xdp_events (record_v4 K cpu iph len now sm t l4 d s) = xdp_events s @ es \<and> length es \<le> 2"
proof -
  obtain es1 where e1: "maybe_emit_event_v4 (k_event K 0) EV_SCAN_HINT sm (ip_saddr iph) (ip_protocol iph)
      (dport l4) (ucast len) 1 (xdp_events s) = xdp_events s @ es1" "length es1 \<le> 1"
    using emit_v4_prefix by blast
  have e2: "\<exists>es. maybe_emit_event_v4 (k_event K 1) r sm (ip_saddr iph) (ip_protocol iph)
      (dport l4) (ucast len) 0 (xdp_events s @ es0) = xdp_events s @ es \<and> length es \<le> 2"
    if "length es0 \<le> 1" for es0 r
    using emit_v4_prefix [of "k_event K 1" r sm "ip_saddr iph" "ip_protocol iph" "dport l4" "ucast len" 0
        "xdp_events s @ es0"] that by fastforce
  show ?thesis
    using e1 e2 [of es1] e2 [of "[]"]
    by (auto simp: record_v4_def Let_def case_prod_beta intro: exI [of _ es1] exI [of _ "[]"])
qed

lemma record_v6_events:
  "\<exists>es. xdp_events (record_v6 K cpu ip6 len now sm t l4 d s) = xdp_events s @ es \<and> length es \<le> 2"
proof -
  obtain es1 where e1: "maybe_emit_event_v6 (k_event K 0) EV_SCAN_HINT sm (ip6_saddr ip6) (ip6_nexthdr ip6)
      (dport l4) (ucast len) 1 (xdp_events s) = xdp_events s @ es1" "length es1 \<le> 1"
    using emit_v6_prefix by blast
  have e2: "\<exists>es. maybe_emit_event_v6 (k_event K 1) r sm (ip6_saddr ip6) (ip6_nexthdr ip6)
      (dport l4) (ucast len) 0 (xdp_events s @ es0) = xdp_events s @ es \<and> length es \<le> 2"
    if "length es0 \<le> 1" for es0 r
    using emit_v6_prefix [of "k_event K 1" r sm "ip6_saddr ip6" "ip6_nexthdr ip6" "dport l4" "ucast len" 0
        "xdp_events s @ es0"] that by fastforce
  show ?thesis
    using e1 e2 [of es1] e2 [of "[]"]
    by (auto simp: record_v6_def Let_def case_prod_beta intro: exI [of _ es1] exI [of _ "[]"])
qed

lemma record_events_off:
  "xdp_events (record_v4 K cpu iph len now 0 t l4 d s) = xdp_events s"
  "xdp_events (record_v6 K cpu ip6 len now 0 t l4 d s) = xdp_events s"
  by (simp_all add: record_v4_def record_v6_def Let_def case_prod_beta emit_off)

section \<open>The entry counters\<close>

lemma entered_frame [simp]:
  "policy_view (entered cpu pkt s) = policy_view s"
  "xdp_rl_state4 (entered cpu pkt s) = xdp_rl_state4 s"
  "xdp_rl_state6 (entered cpu pkt s) = xdp_rl_state6 s"
  "edge4_rl_state (entered cpu pkt s) = edge4_rl_state s"
  "xdp_src4_stats (entered cpu pkt s) = xdp_src4_stats s"
  "xdp_src6_stats (entered cpu pkt s) = xdp_src6_stats s"
  "xdp_flow4_stats (entered cpu pkt s) = xdp_flow4_stats s"
  "xdp_events (entered cpu pkt s) = xdp_events s"
  "xdp_port_hist (entered cpu pkt s) = xdp_port_hist s"
  "c \<noteq> cpu \<Longrightarrow> xdp_totals (entered cpu pkt s) c = xdp_totals s c"
  "xdp_totals (entered cpu pkt s) cpu =
     totals_add_basic (totals_get (xdp_totals s cpu)) (of_nat (length pkt)) (xdp_totals s cpu)"
  by (simp_all add: entered_def count_packet_def policy_view_def)

lemma early_pass_frame [simp]:
  "fst (early_pass cpu t s) = XDP_PASS"
  "policy_view (snd (early_pass cpu t s)) = policy_view s"
  "xdp_rl_state4 (snd (early_pass cpu t s)) = xdp_rl_state4 s"
  "xdp_rl_state6 (snd (early_pass cpu t s)) = xdp_rl_state6 s"
  "edge4_rl_state (snd (early_pass cpu t s)) = edge4_rl_state s"
  "xdp_src4_stats (snd (early_pass cpu t s)) = xdp_src4_stats s"
  "xdp_src6_stats (snd (early_pass cpu t s)) = xdp_src6_stats s"
  "xdp_flow4_stats (snd (early_pass cpu t s)) = xdp_flow4_stats s"
  "xdp_events (snd (early_pass cpu t s)) = xdp_events s"
  "xdp_port_hist (snd (early_pass cpu t s)) = xdp_port_hist s"
  "xdp_len_hist (snd (early_pass cpu t s)) = xdp_len_hist s"
  "c \<noteq> cpu \<Longrightarrow> xdp_totals (snd (early_pass cpu t s)) c = xdp_totals s c"
  "xdp_totals (snd (early_pass cpu t s)) cpu = count_verdict t no_drop (xdp_totals s cpu)"
  by (simp_all add: early_pass_def set_totals_def policy_view_def count_verdict_def dropped_def no_drop_def)

section \<open>The cases of a run\<close>

lemma xdp_klshield_cases [consumes 1, case_names early v4 v6]:
  assumes "xdp_klshield K cpu pkt s = Some (a, s')"
  obtains "frame_kind pkt = Inr (Inr ())" "a = XDP_PASS"
    "s' = snd (early_pass cpu (totals_get (xdp_totals s cpu)) (entered cpu pkt s))"
  | iph off l4 d tm rl erl where "frame_kind pkt = Inl (iph, off)"
    "decide_v4 K pkt (l4_offset off iph) iph (k_now K) (cfg_enforce s) (totals_get (xdp_totals s cpu))
       (entered cpu pkt s) (bump_v4 cpu (totals_get (xdp_totals s cpu)) (entered cpu pkt s))
     = Some (l4, d, tm, rl, erl)"
    "a = verdict d"
    "s' = record_v4 K cpu iph (of_nat (length pkt)) (k_now K) (cfg_sample_mask s)
       (totals_get (xdp_totals s cpu)) l4 d
       ((entered cpu pkt s)\<lparr>xdp_totals := (xdp_totals (entered cpu pkt s))
            (cpu := count_verdict (totals_get (xdp_totals s cpu)) d tm),
            xdp_rl_state4 := rl, edge4_rl_state := erl\<rparr>)"
  | ip6 off l4 d tm rl where "frame_kind pkt = Inr (Inl (ip6, off))"
    "decide_v6 K pkt (off + 40) ip6 (k_now K) (cfg_enforce s) (totals_get (xdp_totals s cpu))
       (entered cpu pkt s) (bump_v6 cpu (totals_get (xdp_totals s cpu)) (entered cpu pkt s))
     = Some (l4, d, tm, rl)"
    "a = verdict d"
    "s' = record_v6 K cpu ip6 (of_nat (length pkt)) (k_now K) (cfg_sample_mask s)
       (totals_get (xdp_totals s cpu)) l4 d
       ((entered cpu pkt s)\<lparr>xdp_totals := (xdp_totals (entered cpu pkt s))
            (cpu := count_verdict (totals_get (xdp_totals s cpu)) d tm), xdp_rl_state6 := rl\<rparr>)"
proof (cases "frame_kind pkt")
  case (Inl p)
  then obtain iph off where k: "frame_kind pkt = Inl (iph, off)" by (cases p) auto
  show ?thesis
    using assms unfolding xdp_klshield_v4 [OF k]
    by (clarsimp simp: Option.bind_eq_Some_conv) (rule that(2) [OF k]; simp)
next
  case (Inr q)
  show ?thesis
  proof (cases q)
    case (Inl p)
    then obtain ip6 off where k: "frame_kind pkt = Inr (Inl (ip6, off))" using Inr by (cases p) auto
    show ?thesis
      using assms unfolding xdp_klshield_v6 [OF k]
      by (clarsimp simp: Option.bind_eq_Some_conv) (rule that(3) [OF k]; simp)
  next
    case (Inr u)
    with \<open>frame_kind pkt = Inr q\<close> have k: "frame_kind pkt = Inr (Inr ())" by simp
    show ?thesis
      using assms unfolding xdp_klshield_other [OF k] by (intro that(1) [OF k]) (auto simp: early_pass_def)
  qed
qed

end
