(* ===== verification/Xdp_Run.thy ===== *)
theory Xdp_Run
  imports Xdp_Laws
begin

text \<open>
  Laws of a whole invocation of \<open>xdp_klshield\<close>: it always returns, keeps the locks free and the
  arrays total, never writes policy, counts every packet once and keeps the per-CPU totals and the
  per-source counters balanced; and runs of the program over sequences of packets.
\<close>

section \<open>Laws of a run\<close>

lemma run_total:
  assumes "buckets_free s"
  shows "\<exists>a s'. xdp_klshield K cpu pkt s = Some (a, s')"
proof -
  have free: "locks_free (xdp_rl_state4 (entered cpu pkt s))" "locks_free (xdp_rl_state6 (entered cpu pkt s))"
    "locks_free (edge4_rl_state (entered cpu pkt s))"
    using assms by (simp_all add: buckets_free_def)
  consider iph off where "frame_kind pkt = Inl (iph, off)"
    | ip6 off where "frame_kind pkt = Inr (Inl (ip6, off))" | "frame_kind pkt = Inr (Inr ())"
    by (cases "frame_kind pkt") (auto split: sum.splits, metis old.unit.exhaust sum.exhaust surj_pair)
  then show ?thesis
  proof cases
    case 1
    obtain l4 d tm rl erl where "decide_v4 K pkt (l4_offset off iph) iph (k_now K)
        (cfg_enforce s) (totals_get (xdp_totals s cpu)) (entered cpu pkt s)
        (bump_v4 cpu (totals_get (xdp_totals s cpu)) (entered cpu pkt s)) = Some (l4, d, tm, rl, erl)"
      using decide_v4_safe [OF free(1,3)] by blast
    then show ?thesis by (simp add: xdp_klshield_v4 [OF 1] Let_def)
  next
    case 2
    obtain l4 d tm rl where "decide_v6 K pkt (off + 40) ip6 (k_now K)
        (cfg_enforce s) (totals_get (xdp_totals s cpu)) (entered cpu pkt s)
        (bump_v6 cpu (totals_get (xdp_totals s cpu)) (entered cpu pkt s)) = Some (l4, d, tm, rl)"
      using decide_v6_safe [OF free(2)] by blast
    then show ?thesis by (simp add: xdp_klshield_v6 [OF 2] Let_def)
  next
    case 3
    show ?thesis by (simp add: xdp_klshield_other [OF 3] early_pass_def)
  qed
qed

lemma run_buckets_free:
  assumes "kernel_ok K" "buckets_free s" "xdp_klshield K cpu pkt s = Some (a, s')"
  shows "buckets_free s'"
  using assms(3)
proof (cases rule: xdp_klshield_cases)
  case early
  with assms(2) show ?thesis by (simp add: buckets_free_def)
next
  case (v4 iph off l4 d tm rl erl)
  then show ?thesis
    using assms(2) decide_v4_locks [OF kernel_okD(9,11) [OF assms(1)] _ _ v4(2)]
    by (simp add: buckets_free_def)
next
  case (v6 ip6 off l4 d tm rl)
  then show ?thesis
    using assms(2) decide_v6_locks [OF kernel_okD(10) [OF assms(1)] _ v6(2)]
    by (simp add: buckets_free_def)
qed

lemma policy_view_more [simp]:
  "policy_view (s\<lparr>xdp_totals := x\<rparr>) = policy_view s"
  "policy_view (s\<lparr>xdp_rl_state4 := y\<rparr>) = policy_view s"
  "policy_view (s\<lparr>xdp_rl_state6 := z\<rparr>) = policy_view s"
  "policy_view (s\<lparr>edge4_rl_state := w\<rparr>) = policy_view s"
  by (simp_all add: policy_view_def)

lemma run_policy:
  assumes "xdp_klshield K cpu pkt s = Some (a, s')"
  shows "policy_view s' = policy_view s"
  using assms by (cases rule: xdp_klshield_cases) simp_all

lemma bump_totals:
  "same_verdicts (xdp_totals s cpu) (bump_v4 cpu t s)" "bump_v4 cpu t s i = None \<longleftrightarrow> xdp_totals s cpu i = None"
  "same_verdicts (xdp_totals s cpu) (bump_v6 cpu t s)" "bump_v6 cpu t s i = None \<longleftrightarrow> xdp_totals s cpu i = None"
  by (auto simp: bump_v4_def bump_v6_def verdict_counts_def on_totals_dom intro!: same_verdicts_on_totals)

text \<open>
  The totals of one invocation: the packet is counted once, exactly one verdict counter follows
  the verdict, and no other CPU is touched.
\<close>

lemma run_totals:
  assumes "xdp_klshield K cpu pkt s = Some (a, s')"
  defines "t \<equiv> totals_get (xdp_totals s cpu)"
  shows "\<exists>d. one_reason d \<and> a = verdict d \<and>
    same_verdicts (count_verdict t d (totals_add_basic t (of_nat (length pkt)) (xdp_totals s cpu)))
      (xdp_totals s' cpu) \<and> (\<forall>c. c \<noteq> cpu \<longrightarrow> xdp_totals s' c = xdp_totals s c) \<and>
    (\<forall>i. xdp_totals s' cpu i = None \<longleftrightarrow> xdp_totals s cpu i = None)"
  using assms(1)
proof (cases rule: xdp_klshield_cases)
  case early
  then show ?thesis
    by (intro exI [of _ no_drop])
      (simp add: t_def verdict_def no_drop_def dropped_def one_reason_def count_verdict_def totals_add_basic_def
        on_totals_dom)
next
  case (v4 iph off l4 d tm rl erl)
  note r = decide_v4_result [OF v4(2)]
  have "same_verdicts (totals_add_basic t (of_nat (length pkt)) (xdp_totals s cpu)) tm"
    using same_verdicts_trans [OF bump_totals(1) r(2)] by (simp add: t_def)
  from same_verdicts_trans [OF count_verdict_cong [OF this]] show ?thesis
    using v4(3,4) r record_v4_totals(1) [of "(entered cpu pkt s)\<lparr>xdp_totals := (xdp_totals (entered cpu pkt s))
            (cpu := count_verdict t d tm), xdp_rl_state4 := rl, edge4_rl_state := erl\<rparr>" cpu]
    by (intro exI [of _ d]) (auto simp: t_def record_v4_totals(2) bump_totals count_verdict_def
        totals_add_basic_def on_totals_dom)
next
  case (v6 ip6 off l4 d tm rl)
  note r = decide_v6_result [OF v6(2)]
  have "same_verdicts (totals_add_basic t (of_nat (length pkt)) (xdp_totals s cpu)) tm"
    using same_verdicts_trans [OF bump_totals(3) r(2)] by (simp add: t_def)
  from same_verdicts_trans [OF count_verdict_cong [OF this]] show ?thesis
    using v6(3,4) r record_v6_totals(1) [of "(entered cpu pkt s)\<lparr>xdp_totals := (xdp_totals (entered cpu pkt s))
            (cpu := count_verdict t d tm), xdp_rl_state6 := rl\<rparr>" cpu]
    by (intro exI [of _ d]) (auto simp: t_def record_v6_totals(2) bump_totals count_verdict_def
        totals_add_basic_def on_totals_dom)
qed

lemma run_action:
  assumes "xdp_klshield K cpu pkt s = Some (a, s')"
  shows "a = XDP_PASS \<or> a = XDP_DROP"
  using run_totals [OF assms] by (auto simp: verdict_def)

text \<open>The totals of the CPU a packet arrived on, and of the others.\<close>

lemma run_counts_once:
  assumes "xdp_totals s cpu 0 = Some v" "xdp_klshield K cpu pkt s = Some (a, s')"
  shows "\<exists>w. xdp_totals s' cpu 0 = Some w \<and> t_pkts w = t_pkts v + 1 \<and>
    t_bytes w = t_bytes v + of_nat (length pkt) \<and>
    (t_pass w, t_drop_allow w, t_drop_deny w, t_drop_rl w) \<in>
      (if a = XDP_PASS then {(t_pass v + 1, t_drop_allow v, t_drop_deny v, t_drop_rl v)}
       else {(t_pass v, t_drop_allow v + 1, t_drop_deny v, t_drop_rl v),
             (t_pass v, t_drop_allow v, t_drop_deny v + 1, t_drop_rl v),
             (t_pass v, t_drop_allow v, t_drop_deny v, t_drop_rl v + 1)}) \<and>
    (\<forall>c. c \<noteq> cpu \<longrightarrow> xdp_totals s' c = xdp_totals s c)"
proof -
  have t: "totals_get (xdp_totals s cpu) = Some 0" using assms(1) by (simp add: totals_get_def)
  obtain d where a: "a = verdict d" and other: "\<forall>c. c \<noteq> cpu \<longrightarrow> xdp_totals s' c = xdp_totals s c"
    and same: "same_verdicts (count_verdict (Some 0) d (totals_add_basic (Some 0) (of_nat (length pkt)) (xdp_totals s cpu)))
      (xdp_totals s' cpu)"
    using run_totals [OF assms(2)] unfolding t by blast
  define u where "u = v\<lparr>t_pkts := t_pkts v + 1, t_bytes := t_bytes v + of_nat (length pkt)\<rparr>"
  define u' where "u' = (if \<not> dropped d then u\<lparr>t_pass := t_pass u + 1\<rparr>
       else if drop_allow d then u\<lparr>t_drop_allow := t_drop_allow u + 1\<rparr>
       else if drop_deny d then u\<lparr>t_drop_deny := t_drop_deny u + 1\<rparr>
       else u\<lparr>t_drop_rl := t_drop_rl u + 1\<rparr>)"
  have "count_verdict (Some 0) d (totals_add_basic (Some 0) (of_nat (length pkt)) (xdp_totals s cpu)) 0 = Some u'"
    by (simp add: count_verdict_def totals_add_basic_def assms(1) u_def u'_def)
  with same obtain w where w: "xdp_totals s' cpu 0 = Some w" "verdict_counts w = verdict_counts u'"
    unfolding same_verdicts_def by (metis (no_types, lifting) map_option_eq_Some)
  have "t_pkts w = t_pkts u'" "t_bytes w = t_bytes u'" "t_pass w = t_pass u'" "t_drop_allow w = t_drop_allow u'"
    "t_drop_deny w = t_drop_deny u'" "t_drop_rl w = t_drop_rl u'"
    using w(2) by (simp_all add: verdict_counts_def)
  then show ?thesis using w(1) other by (simp add: u'_def u_def a verdict_def)
qed

section \<open>Balanced counters\<close>

definition totals_balanced :: "xdp_totals_t \<Rightarrow> bool" where
  "totals_balanced v \<longleftrightarrow> t_pkts v = t_pass v + t_drop_allow v + t_drop_deny v + t_drop_rl v"

lemma balanced_verdict_counts:
  "verdict_counts v = verdict_counts w \<Longrightarrow> totals_balanced v \<longleftrightarrow> totals_balanced w"
  by (simp add: verdict_counts_def totals_balanced_def)

lemma same_verdicts_balanced:
  assumes "same_verdicts m m'" "\<And>k v. m k = Some v \<Longrightarrow> totals_balanced v" "m' k = Some w"
  shows "totals_balanced w"
proof -
  from assms(1,3) obtain v where "m k = Some v" "verdict_counts v = verdict_counts w"
    unfolding same_verdicts_def by (metis map_option_eq_Some option.simps(9))
  then show ?thesis using assms(2) balanced_verdict_counts by blast
qed

text \<open>Counting a packet and its verdict keeps the books balanced, wrap-around included.\<close>

lemma counted_balanced:
  assumes "\<And>k v. m k = Some v \<Longrightarrow> totals_balanced v"
    and "count_verdict t d (totals_add_basic t len m) k = Some w"
  shows "totals_balanced w"
  using assms(2) assms(1) [of k]
  by (auto simp: count_verdict_def totals_add_basic_def on_totals_def totals_balanced_def
      split: option.splits if_splits)

definition sources_balanced :: "shield \<Rightarrow> bool" where
  "sources_balanced s \<longleftrightarrow>
     (\<forall>k w. xdp_src4_stats s k = Some w \<longrightarrow> s4_pkts w = balance4 w) \<and>
     (\<forall>k w. xdp_src6_stats s k = Some w \<longrightarrow> s6_pkts w = balance6 w)"

definition cpus_balanced :: "shield \<Rightarrow> bool" where
  "cpus_balanced s \<longleftrightarrow> (\<forall>cpu k v. xdp_totals s cpu k = Some v \<longrightarrow> totals_balanced v)"

lemma run_cpus_balanced:
  assumes "cpus_balanced s" "xdp_klshield K cpu pkt s = Some (a, s')"
  shows "cpus_balanced s'"
  unfolding cpus_balanced_def
proof (intro allI impI)
  fix c k v assume v: "xdp_totals s' c k = Some v"
  obtain d where same: "same_verdicts (count_verdict (totals_get (xdp_totals s cpu)) d
        (totals_add_basic (totals_get (xdp_totals s cpu)) (of_nat (length pkt)) (xdp_totals s cpu)))
      (xdp_totals s' cpu)" and other: "\<forall>c. c \<noteq> cpu \<longrightarrow> xdp_totals s' c = xdp_totals s c"
    using run_totals [OF assms(2)] by blast
  show "totals_balanced v"
  proof (cases "c = cpu")
    case True
    from same_verdicts_balanced [OF same _ v [unfolded True]] counted_balanced assms(1)
    show ?thesis unfolding cpus_balanced_def by blast
  next
    case False
    with v other assms(1) show ?thesis by (auto simp: cpus_balanced_def)
  qed
qed

lemma run_sources_balanced:
  assumes "kernel_ok K" "sources_balanced s" "xdp_klshield K cpu pkt s = Some (a, s')"
  shows "sources_balanced s'"
  using assms(3)
proof (cases rule: xdp_klshield_cases)
  case early
  with assms(2) show ?thesis by (simp add: sources_balanced_def)
next
  case (v4 iph off l4 d tm rl erl)
  have fair: "fair_sample (sample_v4 iph len now l4 d)" for len now
    using decide_v4_result(1) [OF v4(2)] by (rule fair_samples)
  show ?thesis
    using assms(2) src4.update_balanced [OF kernel_okD(3) [OF assms(1)] fair] v4(4)
    by (simp add: sources_balanced_def record_v4_src4) blast
next
  case (v6 ip6 off l4 d tm rl)
  have fair: "fair_sample (sample_v6 ip6 len now l4 d)" for len now
    using decide_v6_result(1) [OF v6(2)] by (rule fair_samples)
  show ?thesis
    using assms(2) src6.update_balanced [OF kernel_okD(4) [OF assms(1)] fair] v6(4)
    by (simp add: sources_balanced_def record_v6_src6) blast
qed

section \<open>Array maps stay total\<close>

lemma totals_add_basic_wf: "array_wf d m \<Longrightarrow> array_wf d (totals_add_basic t len m)"
  by (simp add: totals_add_basic_def on_totals_array_wf)

lemma array_wf_dom: "(\<And>i. m i = None \<longleftrightarrow> m' i = None) \<Longrightarrow> array_wf d m \<longleftrightarrow> array_wf d m'"
  by (simp add: array_wf_def)

lemma early_pass_arrays: "arrays_wf s \<Longrightarrow> arrays_wf (snd (early_pass cpu t s))"
  by (simp add: early_pass_def set_totals_def arrays_wf_def on_totals_array_wf)

lemma entered_arrays: "arrays_wf s \<Longrightarrow> arrays_wf (entered cpu pkt s)"
  by (simp add: entered_def count_packet_def arrays_wf_def totals_add_basic_wf hist_len_add_wf)

lemma entered_totals_dom: "xdp_totals (entered cpu pkt s) c i = None \<longleftrightarrow> xdp_totals s c i = None"
  by (simp add: entered_def count_packet_def totals_add_basic_def on_totals_dom)

lemma arrays_wf_view:
  assumes "arrays_wf s" "policy_view s' = policy_view s" "xdp_len_hist s' = xdp_len_hist s"
    "\<And>c i. xdp_totals s' c i = None \<longleftrightarrow> xdp_totals s c i = None"
    "\<And>c i. xdp_port_hist s' c i = None \<longleftrightarrow> xdp_port_hist s c i = None"
  shows "arrays_wf s'"
  using assms by (simp add: arrays_wf_def policy_view_def array_wf_def)

lemma hist_port_add_dom: "hist_port_add dp len b m i = None \<longleftrightarrow> m i = None"
  by (auto simp: hist_port_add_def Let_def split: option.splits)

lemma run_arrays_wf:
  assumes "arrays_wf s" "xdp_klshield K cpu pkt s = Some (a, s')"
  shows "arrays_wf s'"
  using assms(2)
proof (cases rule: xdp_klshield_cases)
  case early
  with assms(1) show ?thesis by (simp add: early_pass_arrays entered_arrays)
next
  case (v4 iph off l4 d tm rl erl)
  have dom: "xdp_totals s' c i = None \<longleftrightarrow> xdp_totals s c i = None" for c i
    using run_totals [OF assms(2)] by (cases "c = cpu") auto
  show ?thesis
    by (rule arrays_wf_view [OF entered_arrays [OF assms(1), of cpu pkt]])
      (use dom in \<open>auto simp: v4(4) record_v4_ports hist_port_add_dom entered_totals_dom\<close>)
next
  case (v6 ip6 off l4 d tm rl)
  have dom: "xdp_totals s' c i = None \<longleftrightarrow> xdp_totals s c i = None" for c i
    using run_totals [OF assms(2)] by (cases "c = cpu") auto
  show ?thesis
    by (rule arrays_wf_view [OF entered_arrays [OF assms(1), of cpu pkt]])
      (use dom in \<open>auto simp: v6(4) record_v6_ports hist_port_add_dom entered_totals_dom\<close>)
qed

section \<open>Runs over a sequence of packets\<close>

text \<open>
  A packet arrives on a CPU with what the kernel provides at that moment; a run processes packets
  in order and returns the verdicts.
\<close>

type_synonym arrival = "kernel \<times> nat \<times> packet"

fun xdp_run :: "arrival list \<Rightarrow> shield \<Rightarrow> (xdp_action list \<times> shield) option" where
  "xdp_run [] s = Some ([], s)"
| "xdp_run ((K, cpu, pkt) # xs) s =
     do {
       (a, s1) \<leftarrow> xdp_klshield K cpu pkt s;
       (as, s2) \<leftarrow> xdp_run xs s1;
       Some (a # as, s2)
     }"

lemma xdp_run_Cons:
  "xdp_run ((K, cpu, pkt) # xs) s = Some (as, s') \<longleftrightarrow>
    (\<exists>a s1 as1. xdp_klshield K cpu pkt s = Some (a, s1) \<and> xdp_run xs s1 = Some (as1, s') \<and> as = a # as1)"
  by (fastforce simp: Option.bind_eq_Some_conv)

text \<open>The invariant of the program, and its preservation along runs.\<close>

definition shield_inv :: "shield \<Rightarrow> bool" where
  "shield_inv s \<longleftrightarrow> buckets_free s \<and> arrays_wf s \<and> cpus_balanced s \<and> sources_balanced s"

lemma run_shield_inv:
  assumes "kernel_ok K" "shield_inv s" "xdp_klshield K cpu pkt s = Some (a, s')"
  shows "shield_inv s'"
  using assms(2) run_buckets_free [OF assms(1) _ assms(3)] run_arrays_wf [OF _ assms(3)]
    run_cpus_balanced [OF _ assms(3)] run_sources_balanced [OF assms(1) _ assms(3)]
  by (simp add: shield_inv_def)

lemma xdp_run_invariant:
  assumes "\<And>K cpu pkt s a s'. (K, cpu, pkt) \<in> set xs \<Longrightarrow> P s \<Longrightarrow>
      xdp_klshield K cpu pkt s = Some (a, s') \<Longrightarrow> P s'"
    and "P s" "xdp_run xs s = Some (as, s')"
  shows "P s'"
  using assms
proof (induction xs arbitrary: s as)
  case Nil
  then show ?case by simp
next
  case (Cons x xs)
  obtain K cpu pkt where x: "x = (K, cpu, pkt)" by (cases x)
  obtain a s1 as1 where s1: "xdp_klshield K cpu pkt s = Some (a, s1)" "xdp_run xs s1 = Some (as1, s')"
    using Cons.prems(3) unfolding x xdp_run_Cons by blast
  have P: "P s1" by (rule Cons.prems(1) [OF _ Cons.prems(2) s1(1)]) (simp add: x)
  show ?case by (rule Cons.IH [OF _ P s1(2)]) (rule Cons.prems(1), auto)
qed

lemma xdp_run_total:
  assumes "\<forall>(K, cpu, pkt) \<in> set xs. kernel_ok K" "buckets_free s"
  shows "\<exists>as s'. xdp_run xs s = Some (as, s')"
  using assms
proof (induction xs arbitrary: s)
  case Nil
  then show ?case by simp
next
  case (Cons x xs)
  obtain K cpu pkt where x: "x = (K, cpu, pkt)" by (cases x)
  obtain a s1 where s1: "xdp_klshield K cpu pkt s = Some (a, s1)"
    using run_total [OF Cons.prems(2)] by blast
  have "buckets_free s1" using run_buckets_free [OF _ Cons.prems(2) s1] Cons.prems(1) x by simp
  with Cons.IH [of s1] Cons.prems(1) obtain as s2 where "xdp_run xs s1 = Some (as, s2)" by auto
  with s1 x show ?case by simp
qed

end
