(* ===== verification/Firewall_Spec.thy ===== *)
theory Firewall_Spec
  imports Xdp_Run
begin

text \<open>
  The contract of the packet path: a reference firewall whose judgement of a packet is one function
  of the policy, the packet's source, port and protocol, and token buckets over the naturals, and
  the proof that \<open>xdp_klshield\<close> refines it (\<open>run_refines\<close>): same verdict, same buckets. The bound on
  what one source can get through in a run of packets follows.
\<close>

section \<open>Facts of a packet\<close>

text \<open>
  The destination port in host order, read off the wire: bytes 2 and 3 of the layer-4 header, when
  the header fits; 0 for everything else.
\<close>

definition dest_port :: "packet \<Rightarrow> nat \<Rightarrow> u8 \<Rightarrow> u16" where
  "dest_port pkt i p =
     (if p = 6 \<and> i + 20 \<le> length pkt \<or> p = 17 \<and> i + 8 \<le> length pkt
      then ucast (pkt ! (i + 2)) * 256 + ucast (pkt ! (i + 3)) else 0)"

lemma ntohs_le16: "bpf_ntohs (le16 a b) = ucast a * 256 + ucast b"
proof -
  have "bpf_ntohs (le16 a b) = push_bit 8 (ucast a) OR ucast b"
    by (rule bit_word_eqI) (auto simp: bpf_ntohs_def le16_def bit_simps dest: bit_imp_le_length)
  also have "\<dots> = push_bit 8 (ucast a) + ucast b"
    by (rule disjunctive_add [symmetric]) (auto simp: bit_simps dest: bit_imp_le_length)
  also have "push_bit 8 (ucast a :: u16) = ucast a * 256"
    by (simp add: push_bit_eq_mult)
  finally show ?thesis .
qed

lemma load_tcphdr_dest: "load_tcphdr p i = Some th \<Longrightarrow> th_dest th = le16 (p ! (i + 2)) (p ! (i + 3))"
  by (auto simp: load_tcphdr_def load16_def numeral_3_eq_3 split: if_splits Option.bind_splits)

lemma load_udphdr_dest: "load_udphdr p i = Some uh \<Longrightarrow> uh_dest uh = le16 (p ! (i + 2)) (p ! (i + 3))"
  by (auto simp: load_udphdr_def load16_def numeral_3_eq_3 split: if_splits Option.bind_splits)

lemma l4_parse_dport:
  assumes "l4_parse icmp_proto pkt l4off p t tm = Some (l4, tm')"
  shows "bpf_ntohs (dport l4) = dest_port pkt (unat l4off) p"
  using assms
  by (auto simp: l4_parse_def Let_def dest_port_def ipprotos sizeofs tcp_info_def no_l4_def ntohs_le16
      load_tcphdr_dest load_udphdr_dest split: if_splits Option.bind_splits)

section \<open>Buckets over the naturals\<close>

type_synonym bucket = "nat \<times> nat"

definition abs_buckets :: "('k \<rightharpoonup> rl_state_t) \<Rightarrow> ('k \<rightharpoonup> bucket)" where
  "abs_buckets m = (\<lambda>k. map_option tb_abs (m k))"

text \<open>
  A request against the bucket of a key under an optional limit: no limit admits and changes
  nothing; the first request opens the bucket with one token spent; later ones follow \<open>take_spec\<close>.
\<close>

definition spec_gate :: "rl_cfg_t option \<Rightarrow> 'k \<Rightarrow> nat \<Rightarrow> ('k \<rightharpoonup> bucket) \<Rightarrow> bool \<times> ('k \<rightharpoonup> bucket)" where
  "spec_gate lim k now B =
     (case lim of
        None \<Rightarrow> (True, B)
      | Some c \<Rightarrow>
          (case B k of
             None \<Rightarrow> (True, B(k \<mapsto> (unat (burst c) - 1, now)))
           | Some b \<Rightarrow>
               (let (ok, b') = take_spec (unat (rate_pps c)) (unat (burst c)) b now
                in (ok, B(k \<mapsto> b')))))"

definition has_room :: "nat \<Rightarrow> ('k \<rightharpoonup> 'v) \<Rightarrow> bool" where
  "has_room cap m \<longleftrightarrow> finite (dom m) \<and> card (dom m) < cap"

lemma abs_buckets_upd: "abs_buckets (m(k \<mapsto> st)) = (abs_buckets m)(k \<mapsto> tb_abs st)"
  by (auto simp: abs_buckets_def)

lemma rl_init_abs: "usable_cfg c \<Longrightarrow> tb_abs (rl_init c now) = (unat (burst c) - 1, unat now)"
  by (simp add: tb_abs_def rl_init_def usable_cfg_def unat_minus_one word_neq_0_conv)

lemma rl_check_refines:
  assumes hash: "bpf_hash upd cap" and room: "has_room cap m" and free: "locks_free m"
    and ok: "tb_cfg_ok c" and run: "rl_check upd k c now m = Some (over, m')"
  shows "spec_gate (Some c) k (unat now) (abs_buckets m) = (\<not> over, abs_buckets m')"
proof (cases "m k")
  case None
  then have "m' = m(k \<mapsto> rl_init c now)" "\<not> over"
    using run bpf_hash.upd_eq_room [OF hash] room by (auto simp: rl_check_miss has_room_def)
  with None show ?thesis
    using rl_init_abs [OF tb_cfg_usable [OF ok]] by (simp add: spec_gate_def abs_buckets_upd) (simp add: abs_buckets_def)
next
  case (Some st)
  have hit: "over = (\<not> fst (tb_take st c now))" "m' = m(k \<mapsto> snd (tb_take st c now))"
    using run rl_check_hit [where m = m and k = k, OF Some locks_freeD [OF free Some] tb_cfg_usable [OF ok], of upd now] by auto
  have "take_spec (unat (rate_pps c)) (unat (burst c)) (tb_abs st) (unat now)
      = (fst (tb_take st c now), tb_abs (snd (tb_take st c now)))"
    using tb_take_refines [OF ok, of st now] by (cases "tb_take st c now") simp
  moreover have "abs_buckets m k = Some (tb_abs st)" by (simp add: abs_buckets_def Some)
  ultimately show ?thesis by (simp add: spec_gate_def hit abs_buckets_upd)
qed

lemma rl_gate_refines:
  assumes hash: "bpf_hash upd cap" and room: "has_room cap m" and free: "locks_free m"
    and ok: "\<And>c. lim = Some c \<Longrightarrow> tb_cfg_ok c"
    and run: "rl_gate upd lim k now t d tm m = Some (d', tm', m')"
  shows "\<exists>adm. spec_gate lim k (unat now) (abs_buckets m) = (adm, abs_buckets m') \<and>
    d' = (if adm then d else d\<lparr>drop_rl := True\<rparr>)"
proof (cases lim)
  case None
  with run show ?thesis by (intro exI [of _ True]) (simp add: spec_gate_def)
next
  case (Some c)
  with run obtain over where "rl_check upd k c now m = Some (over, m')" "d' = (if over then d\<lparr>drop_rl := True\<rparr> else d)"
    by (auto simp: rl_gate_def split: Option.bind_splits)
  with rl_check_refines [OF hash room free ok [OF Some]] Some show ?thesis by fastforce
qed


section \<open>The reference firewall\<close>

datatype outcome =
    Accept
  | Not_allowed
  | Source_denied
  | Source_over_limit
  | Tuple_denied
  | Tuple_over_limit

record firewall =
  fw_sources :: "u32 \<rightharpoonup> bucket"
  fw_sources6 :: "src6_key \<rightharpoonup> bucket"
  fw_tuples :: "edge4_key \<rightharpoonup> bucket"

definition abs_firewall :: "shield \<Rightarrow> firewall" where
  "abs_firewall s =
     \<lparr>fw_sources = abs_buckets (xdp_rl_state4 s), fw_sources6 = abs_buckets (xdp_rl_state6 s),
      fw_tuples = abs_buckets (edge4_rl_state s)\<rparr>"

text \<open>The policy, read from the maps: who is allowed, who is denied, and the limits.\<close>

definition allowed_v4 :: "shield \<Rightarrow> u32 \<Rightarrow> bool" where
  "allowed_v4 s a \<longleftrightarrow> (\<exists>(e, v) \<in> set (xdp_allow_lpm s). prefix_covers (prefix4 e) (32, bytes_of_u32 a))"

definition allowed_v6 :: "shield \<Rightarrow> u8 list \<Rightarrow> bool" where
  "allowed_v6 s a \<longleftrightarrow> (\<exists>(e, v) \<in> set (xdp_allow6_lpm s). prefix_covers (prefix6 e) (128, a))"

definition override :: "rl_cfg_t option \<Rightarrow> rl_cfg_t option \<Rightarrow> rl_cfg_t option" where
  "override own glob = (case usable own of None \<Rightarrow> usable glob | Some c \<Rightarrow> Some c)"

definition source_limit :: "shield \<Rightarrow> u32 \<Rightarrow> rl_cfg_t option" where
  "source_limit s a = override (xdp_rl_policy4 s \<lparr>k4_ip = bytes_of_u32 a\<rparr>) (xdp_rl_cfg s 0)"

definition source_limit6 :: "shield \<Rightarrow> u8 list \<Rightarrow> rl_cfg_t option" where
  "source_limit6 s a = override (xdp_rl_policy6 s \<lparr>src6_ip = a\<rparr>) (xdp_rl_cfg s 0)"

definition tuple_limit :: "shield \<Rightarrow> edge4_key \<Rightarrow> rl_cfg_t option" where
  "tuple_limit s ek = usable (edge4_rl_policy s ek)"

text \<open>The judgement of an IPv4 packet from its source, destination port and protocol.\<close>

definition judge_v4 :: "shield \<Rightarrow> u32 \<Rightarrow> u16 \<Rightarrow> u8 \<Rightarrow> nat \<Rightarrow> firewall \<Rightarrow> outcome \<times> firewall" where
  "judge_v4 s src port p now fw =
     (if cfg_enforce s \<noteq> 0 \<and> \<not> allowed_v4 s src then (Not_allowed, fw)
      else if in_deny_v4 (xdp_deny_hash s) src then (Source_denied, fw)
      else
        let (ok, B) = spec_gate (source_limit s src) src now (fw_sources fw);
            fw = fw\<lparr>fw_sources := B\<rparr>
        in if \<not> ok then (Source_over_limit, fw)
           else if port = 0 \<or> \<not> tuple_mode_on (edge4_cfg s) then (Accept, fw)
           else
             let ek = edge_key src port p
             in if tuple_denied (edge4_cfg s) (edge4_allow s) (edge4_deny s) ek then (Tuple_denied, fw)
                else
                  let (ok, E) = spec_gate (tuple_limit s ek) ek now (fw_tuples fw)
                  in (if ok then Accept else Tuple_over_limit, fw\<lparr>fw_tuples := E\<rparr>))"

definition judge_v6 :: "shield \<Rightarrow> u8 list \<Rightarrow> nat \<Rightarrow> firewall \<Rightarrow> outcome \<times> firewall" where
  "judge_v6 s src now fw =
     (if cfg_enforce s \<noteq> 0 \<and> \<not> allowed_v6 s src then (Not_allowed, fw)
      else if in_deny_v6 (xdp_deny6_hash s) src then (Source_denied, fw)
      else
        let (ok, B) = spec_gate (source_limit6 s src) \<lparr>src6_ip = src\<rparr> now (fw_sources6 fw)
        in (if ok then Accept else Source_over_limit, fw\<lparr>fw_sources6 := B\<rparr>))"

text \<open>The drop flags and the verdict of an outcome.\<close>

fun outcome_drops :: "outcome \<Rightarrow> drops" where
  "outcome_drops Accept = no_drop"
| "outcome_drops Not_allowed = no_drop\<lparr>drop_allow := True\<rparr>"
| "outcome_drops Source_denied = no_drop\<lparr>drop_deny := True\<rparr>"
| "outcome_drops Source_over_limit = no_drop\<lparr>drop_rl := True\<rparr>"
| "outcome_drops Tuple_denied = no_drop\<lparr>drop_deny := True\<rparr>"
| "outcome_drops Tuple_over_limit = no_drop\<lparr>drop_rl := True\<rparr>"

definition outcome_action :: "outcome \<Rightarrow> xdp_action" where
  "outcome_action out = (if out = Accept then XDP_PASS else XDP_DROP)"

lemma verdict_outcome [simp]: "verdict (outcome_drops out) = outcome_action out"
  by (cases out) (simp_all add: verdict_def outcome_action_def dropped_def no_drop_def)

lemma outcome_dropped [simp]: "dropped (outcome_drops out) \<longleftrightarrow> out \<noteq> Accept"
  by (cases out) (simp_all add: dropped_def no_drop_def)

lemma in_allow_v4_allowed: "lpm prefix4 lookup \<Longrightarrow> in_allow_v4 lookup (xdp_allow_lpm s) a \<longleftrightarrow> allowed_v4 s a"
  using lpm.lookup_hit [of prefix4 lookup "xdp_allow_lpm s" "\<lparr>lpm4_prefixlen = 32, lpm4_data = bytes_of_u32 a\<rparr>"]
  unfolding in_allow_v4_def allowed_v4_def prefix4_def [of "\<lparr>lpm4_prefixlen = _, lpm4_data = _\<rparr>"] by simp

lemma in_allow_v6_allowed: "lpm prefix6 lookup \<Longrightarrow> in_allow_v6 lookup (xdp_allow6_lpm s) a \<longleftrightarrow> allowed_v6 s a"
  using lpm.lookup_hit [of prefix6 lookup "xdp_allow6_lpm s" "\<lparr>lpm6_prefixlen = 128, lpm6_data = a\<rparr>"]
  unfolding in_allow_v6_def allowed_v6_def prefix6_def [of "\<lparr>lpm6_prefixlen = _, lpm6_data = _\<rparr>"] by simp

lemma select_rl_v4_limit: "select_rl_v4 (xdp_rl_cfg s) (xdp_rl_policy4 s) a = source_limit s a"
  by (simp add: select_rl_v4_def source_limit_def override_def usable_def split: option.splits)

lemma select_rl_v6_limit: "select_rl_v6 (xdp_rl_cfg s) (xdp_rl_policy6 s) a = source_limit6 s a"
  by (simp add: select_rl_v6_def source_limit6_def override_def usable_def split: option.splits)


section \<open>The decision refines the judgement\<close>

definition limits_ok :: "shield \<Rightarrow> bool" where
  "limits_ok s \<longleftrightarrow>
     (\<forall>c \<in> ran (xdp_rl_cfg s) \<union> ran (xdp_rl_policy4 s) \<union> ran (xdp_rl_policy6 s) \<union> ran (edge4_rl_policy s).
        usable_cfg c \<longrightarrow> tb_cfg_ok c)"

definition tables_room :: "shield \<Rightarrow> bool" where
  "tables_room s \<longleftrightarrow>
     has_room (max_entries xdp_rl_state4_map) (xdp_rl_state4 s) \<and>
     has_room (max_entries xdp_rl_state6_map) (xdp_rl_state6 s) \<and>
     has_room (max_entries edge4_rl_state_map) (edge4_rl_state s)"

lemma usable_ok:
  assumes "limits_ok s"
  shows "usable (xdp_rl_cfg s i) = Some c \<Longrightarrow> tb_cfg_ok c" "usable (xdp_rl_policy4 s k) = Some c \<Longrightarrow> tb_cfg_ok c"
    "usable (xdp_rl_policy6 s k6) = Some c \<Longrightarrow> tb_cfg_ok c" "usable (edge4_rl_policy s ek) = Some c \<Longrightarrow> tb_cfg_ok c"
  using assms by (auto simp: limits_ok_def usable_Some intro: ranI)

lemma limits_okD:
  assumes "limits_ok s"
  shows "source_limit s a = Some c \<Longrightarrow> tb_cfg_ok c" "source_limit6 s b = Some c \<Longrightarrow> tb_cfg_ok c"
    "tuple_limit s ek = Some c \<Longrightarrow> tb_cfg_ok c"
  using usable_ok [OF assms]
  by (auto simp: source_limit_def source_limit6_def tuple_limit_def override_def split: option.splits)

lemma source_gate_v4_refines:
  assumes K: "kernel_ok K" and s: "buckets_free s" "tables_room s" "limits_ok s"
    and d: "\<not> drop_allow d" "\<not> drop_deny d"
    and run: "source_gate_v4 K s a now t d tm = Some (d', tm', rl)"
  shows "\<exists>ok. spec_gate (source_limit s a) a (unat now) (abs_buckets (xdp_rl_state4 s)) = (ok, abs_buckets rl) \<and>
    d' = (if ok then d else d\<lparr>drop_rl := True\<rparr>)"
proof (rule rl_gate_refines [OF kernel_okD(6) [OF K]])
  show "has_room (max_entries xdp_rl_state4_map) (xdp_rl_state4 s)" "locks_free (xdp_rl_state4 s)"
    using s by (simp_all add: tables_room_def buckets_free_def)
  show "rl_gate (k_rl4_update K) (source_limit s a) a now t d tm (xdp_rl_state4 s) = Some (d', tm', rl)"
    using run d by (simp add: source_gate_v4_def select_rl_v4_limit)
qed (rule limits_okD(1) [OF s(3)])

lemma source_gate_v6_refines:
  assumes K: "kernel_ok K" and s: "buckets_free s" "tables_room s" "limits_ok s"
    and d: "\<not> drop_allow d" "\<not> drop_deny d"
    and run: "source_gate_v6 K s a now t d tm = Some (d', tm', rl)"
  shows "\<exists>ok. spec_gate (source_limit6 s a) \<lparr>src6_ip = a\<rparr> (unat now) (abs_buckets (xdp_rl_state6 s)) = (ok, abs_buckets rl) \<and>
    d' = (if ok then d else d\<lparr>drop_rl := True\<rparr>)"
proof (rule rl_gate_refines [OF kernel_okD(7) [OF K]])
  show "has_room (max_entries xdp_rl_state6_map) (xdp_rl_state6 s)" "locks_free (xdp_rl_state6 s)"
    using s by (simp_all add: tables_room_def buckets_free_def)
  show "rl_gate (k_rl6_update K) (source_limit6 s a) \<lparr>src6_ip = a\<rparr> now t d tm (xdp_rl_state6 s) = Some (d', tm', rl)"
    using run d by (simp add: source_gate_v6_def select_rl_v6_limit)
qed (rule limits_okD(2) [OF s(3)])

text \<open>The tuple block from a packet that is still accepted.\<close>

lemma tuple_gate_refines:
  assumes K: "kernel_ok K" and s: "buckets_free s" "tables_room s" "limits_ok s"
    and run: "tuple_gate K s a dp p now t no_drop tm = Some (d', tm', erl)"
  defines "ek \<equiv> edge_key a (bpf_ntohs dp) p" and "E \<equiv> abs_buckets (edge4_rl_state s)"
  shows "\<exists>out. (if dp = 0 \<or> \<not> tuple_mode_on (edge4_cfg s) then (Accept, E)
      else if tuple_denied (edge4_cfg s) (edge4_allow s) (edge4_deny s) ek then (Tuple_denied, E)
      else case spec_gate (tuple_limit s ek) ek (unat now) E of (ok, E') \<Rightarrow> (if ok then Accept else Tuple_over_limit, E'))
    = (out, abs_buckets erl) \<and> d' = outcome_drops out"
  using run unfolding tuple_gate_def
proof (cases rule: edge_gate_cases)
  case skip
  then show ?thesis by (auto simp: E_def dropped_def no_drop_def)
next
  case deny
  moreover from deny(3) have "tuple_mode_on (edge4_cfg s)"
    by (auto simp: tuple_denied_def tuple_mode_on_def split: option.splits)
  ultimately show ?thesis by (auto simp: E_def ek_def)
next
  case limit
  have "\<exists>ok. spec_gate (tuple_limit s ek) ek (unat now) E = (ok, abs_buckets erl) \<and>
      d' = (if ok then no_drop else no_drop\<lparr>drop_rl := True\<rparr>)"
    unfolding E_def
  proof (rule rl_gate_refines [OF kernel_okD(8) [OF K]])
    show "has_room (max_entries edge4_rl_state_map) (edge4_rl_state s)" "locks_free (edge4_rl_state s)"
      using s by (simp_all add: tables_room_def buckets_free_def)
    show "rl_gate (k_edge_rl_update K) (tuple_limit s ek) ek now t no_drop tm (edge4_rl_state s) = Some (d', tm', erl)"
      using limit(5) by (simp add: tuple_limit_def ek_def)
  qed (rule limits_okD(3) [OF s(3)])
  then obtain ok where "spec_gate (tuple_limit s ek) ek (unat now) E = (ok, abs_buckets erl)"
      "d' = (if ok then no_drop else no_drop\<lparr>drop_rl := True\<rparr>)" by blast
  then show ?thesis using limit(2-4) by (auto simp: ek_def)
qed


lemma decide_v4_refines:
  assumes K: "kernel_ok K" and s: "buckets_free s" "tables_room s" "limits_ok s"
    and run: "decide_v4 K pkt l4off iph now (cfg_enforce s) t s tm = Some (l4, d, tm', rl, erl)"
  shows "\<exists>out. judge_v4 s (ip_saddr iph) (dest_port pkt (unat l4off) (ip_protocol iph)) (ip_protocol iph)
      (unat now) (abs_firewall s) = (out, (abs_firewall s)\<lparr>fw_sources := abs_buckets rl, fw_tuples := abs_buckets erl\<rparr>) \<and>
    d = outcome_drops out"
proof -
  let ?a = "ip_saddr iph" and ?E = "abs_buckets (edge4_rl_state s)"
  obtain tm1 d2 tm3 where
    l4: "l4_parse IPPROTO_ICMP pkt l4off (ip_protocol iph) t (frag_totals t iph tm) = Some (l4, tm1)"
    and r: "source_gate_v4 K s ?a now t (acl_v4 K s (cfg_enforce s) ?a)
        (snd (acl_check (cfg_enforce s) (in_allow_v4 (k_lpm4 K) (xdp_allow_lpm s) ?a)
          (in_deny_v4 (xdp_deny_hash s) ?a) t tm1)) = Some (d2, tm3, rl)"
    and e: "tuple_gate K s ?a (dport l4) (ip_protocol iph) now t d2 tm3 = Some (d, tm', erl)"
    using run unfolding decide_v4_Some by blast
  have acl: "acl_v4 K s (cfg_enforce s) ?a =
      acl_drops (cfg_enforce s) (allowed_v4 s ?a) (in_deny_v4 (xdp_deny_hash s) ?a)"
    by (simp add: acl_v4_def in_allow_v4_allowed [OF kernel_okD(1) [OF K]])
  have dropped: "d = d2" "erl = edge4_rl_state s" if "dropped d2"
    using edge_gate_skip [of d2] e that unfolding tuple_gate_def by auto
  note port = l4_parse_dport [OF l4, symmetric]
  show ?thesis
  proof (cases "dropped (acl_v4 K s (cfg_enforce s) ?a)")
    case True
    then have "drop_allow (acl_v4 K s (cfg_enforce s) ?a) \<or> drop_deny (acl_v4 K s (cfg_enforce s) ?a)"
      by (auto simp: acl dropped_def)
    with r have d2: "d2 = acl_v4 K s (cfg_enforce s) ?a" "rl = xdp_rl_state4 s"
      by (auto simp: source_gate_v4_def)
    with True dropped show ?thesis
      by (auto simp: judge_v4_def abs_firewall_def acl acl_drops_def dropped_def no_drop_def)
  next
    case False
    then have none: "acl_v4 K s (cfg_enforce s) ?a = no_drop" and nd: "\<not> drop_allow no_drop" "\<not> drop_deny no_drop"
      and pass: "\<not> (cfg_enforce s \<noteq> 0 \<and> \<not> allowed_v4 s ?a)" "\<not> in_deny_v4 (xdp_deny_hash s) ?a"
      by (auto simp: acl acl_drops_def dropped_def no_drop_def split: if_splits)
    obtain ok where g: "spec_gate (source_limit s ?a) ?a (unat now) (abs_buckets (xdp_rl_state4 s)) = (ok, abs_buckets rl)"
      and d2: "d2 = (if ok then no_drop else no_drop\<lparr>drop_rl := True\<rparr>)"
      using source_gate_v4_refines [OF K s nd] r none by metis
    show ?thesis
    proof (cases ok)
      case False
      with g d2 pass dropped show ?thesis by (auto simp: judge_v4_def abs_firewall_def dropped_def no_drop_def)
    next
      case True
      with d2 e have "tuple_gate K s ?a (dport l4) (ip_protocol iph) now t no_drop tm3 = Some (d, tm', erl)" by simp
      from tuple_gate_refines [OF K s this] g True pass show ?thesis
        by (auto simp: judge_v4_def abs_firewall_def port Let_def split: if_splits prod.splits)
    qed
  qed
qed

lemma decide_v6_refines:
  assumes K: "kernel_ok K" and s: "buckets_free s" "tables_room s" "limits_ok s"
    and run: "decide_v6 K pkt l4off ip6 now (cfg_enforce s) t s tm = Some (l4, d, tm', rl)"
  shows "\<exists>out. judge_v6 s (ip6_saddr ip6) (unat now) (abs_firewall s) =
      (out, (abs_firewall s)\<lparr>fw_sources6 := abs_buckets rl\<rparr>) \<and> d = outcome_drops out"
proof -
  let ?a = "ip6_saddr ip6"
  obtain tm1 where r: "source_gate_v6 K s ?a now t (acl_v6 K s (cfg_enforce s) ?a)
        (snd (acl_check (cfg_enforce s) (in_allow_v6 (k_lpm6 K) (xdp_allow6_lpm s) ?a)
          (in_deny_v6 (xdp_deny6_hash s) ?a) t tm1)) = Some (d, tm', rl)"
    using run unfolding decide_v6_Some by blast
  have acl: "acl_v6 K s (cfg_enforce s) ?a =
      acl_drops (cfg_enforce s) (allowed_v6 s ?a) (in_deny_v6 (xdp_deny6_hash s) ?a)"
    by (simp add: acl_v6_def in_allow_v6_allowed [OF kernel_okD(2) [OF K]])
  show ?thesis
  proof (cases "dropped (acl_v6 K s (cfg_enforce s) ?a)")
    case True
    then have "drop_allow (acl_v6 K s (cfg_enforce s) ?a) \<or> drop_deny (acl_v6 K s (cfg_enforce s) ?a)"
      by (auto simp: acl dropped_def)
    with r have "d = acl_v6 K s (cfg_enforce s) ?a" "rl = xdp_rl_state6 s"
      by (auto simp: source_gate_v6_def)
    with True show ?thesis
      by (auto simp: judge_v6_def abs_firewall_def acl acl_drops_def dropped_def no_drop_def)
  next
    case False
    then have none: "acl_v6 K s (cfg_enforce s) ?a = no_drop" and nd: "\<not> drop_allow no_drop" "\<not> drop_deny no_drop"
      and pass: "\<not> (cfg_enforce s \<noteq> 0 \<and> \<not> allowed_v6 s ?a)" "\<not> in_deny_v6 (xdp_deny6_hash s) ?a"
      by (auto simp: acl acl_drops_def dropped_def no_drop_def split: if_splits)
    obtain ok where "spec_gate (source_limit6 s ?a) \<lparr>src6_ip = ?a\<rparr> (unat now) (abs_buckets (xdp_rl_state6 s))
        = (ok, abs_buckets rl)" "d = (if ok then no_drop else no_drop\<lparr>drop_rl := True\<rparr>)"
      using source_gate_v6_refines [OF K s nd] r none by metis
    with pass show ?thesis by (cases ok) (auto simp: judge_v6_def abs_firewall_def)
  qed
qed


section \<open>The program refines the reference firewall\<close>

lemma judge_policy:
  assumes "policy_view s' = policy_view s"
  shows "judge_v4 s' = judge_v4 s" "judge_v6 s' = judge_v6 s" "cfg_enforce s' = cfg_enforce s"
    "limits_ok s' = limits_ok s"
proof -
  have eq: "xdp_allow_lpm s' = xdp_allow_lpm s" "xdp_allow6_lpm s' = xdp_allow6_lpm s"
    "xdp_deny_hash s' = xdp_deny_hash s" "xdp_deny6_hash s' = xdp_deny6_hash s" "xdp_cfg s' = xdp_cfg s"
    "edge4_deny s' = edge4_deny s" "edge4_allow s' = edge4_allow s" "edge4_cfg s' = edge4_cfg s"
    "edge4_rl_policy s' = edge4_rl_policy s" "xdp_rl_cfg s' = xdp_rl_cfg s"
    "xdp_rl_policy4 s' = xdp_rl_policy4 s" "xdp_rl_policy6 s' = xdp_rl_policy6 s"
    using assms by (simp_all add: policy_view_def)
  then have read: "allowed_v4 s' = allowed_v4 s" "allowed_v6 s' = allowed_v6 s" "source_limit s' = source_limit s"
    "source_limit6 s' = source_limit6 s" "tuple_limit s' = tuple_limit s"
    by (auto simp: allowed_v4_def allowed_v6_def source_limit_def source_limit6_def tuple_limit_def)
  show "cfg_enforce s' = cfg_enforce s" "limits_ok s' = limits_ok s"
    by (simp_all only: cfg_enforce_def limits_ok_def eq)
  then show "judge_v4 s' = judge_v4 s" "judge_v6 s' = judge_v6 s"
    by (intro ext; simp only: judge_v4_def judge_v6_def eq read)+
qed

lemma entered_ok:
  "buckets_free (entered cpu pkt s) = buckets_free s" "tables_room (entered cpu pkt s) = tables_room s"
  "abs_firewall (entered cpu pkt s) = abs_firewall s"
  by (simp_all add: buckets_free_def tables_room_def abs_firewall_def)

text \<open>The judgement of a frame: what is not an IPv4 or IPv6 packet is accepted.\<close>

definition judge :: "shield \<Rightarrow> packet \<Rightarrow> nat \<Rightarrow> firewall \<Rightarrow> outcome \<times> firewall" where
  "judge s pkt now fw =
     (case frame_kind pkt of
        Inl (iph, off) \<Rightarrow>
          judge_v4 s (ip_saddr iph) (dest_port pkt (unat (l4_offset off iph)) (ip_protocol iph))
            (ip_protocol iph) now fw
      | Inr (Inl (ip6, off)) \<Rightarrow> judge_v6 s (ip6_saddr ip6) now fw
      | Inr (Inr _) \<Rightarrow> (Accept, fw))"

lemma run_refines:
  assumes K: "kernel_ok K" and s: "buckets_free s" "tables_room s" "limits_ok s"
    and run: "xdp_klshield K cpu pkt s = Some (a, s')"
  shows "\<exists>out. judge s pkt (unat (k_now K)) (abs_firewall s) = (out, abs_firewall s') \<and> a = outcome_action out"
  using run
proof (cases rule: xdp_klshield_cases)
  case early
  then show ?thesis by (simp add: judge_def outcome_action_def abs_firewall_def)
next
  case (v4 iph off l4 d tm rl erl)
  let ?e = "entered cpu pkt s"
  have e: "buckets_free ?e" "tables_room ?e" "limits_ok ?e" "cfg_enforce s = cfg_enforce ?e"
    using s judge_policy(3,4) [of ?e s] by (simp_all add: entered_ok)
  obtain out where out: "judge_v4 ?e (ip_saddr iph) (dest_port pkt (unat (l4_offset off iph)) (ip_protocol iph))
      (ip_protocol iph) (unat (k_now K)) (abs_firewall ?e)
    = (out, (abs_firewall ?e)\<lparr>fw_sources := abs_buckets rl, fw_tuples := abs_buckets erl\<rparr>)" "d = outcome_drops out"
    using decide_v4_refines [OF K e(1-3) v4(2) [unfolded e(4)]] by blast
  have "abs_firewall s' = (abs_firewall ?e)\<lparr>fw_sources := abs_buckets rl, fw_tuples := abs_buckets erl\<rparr>"
    unfolding v4(4) by (simp add: abs_firewall_def)
  moreover have "judge_v4 ?e = judge_v4 s" by (rule judge_policy(1)) simp
  ultimately show ?thesis
    using out v4(1,3) by (intro exI [of _ out]) (simp add: judge_def entered_ok)
next
  case (v6 ip6 off l4 d tm rl)
  let ?e = "entered cpu pkt s"
  have e: "buckets_free ?e" "tables_room ?e" "limits_ok ?e" "cfg_enforce s = cfg_enforce ?e"
    using s judge_policy(3,4) [of ?e s] by (simp_all add: entered_ok)
  obtain out where out: "judge_v6 ?e (ip6_saddr ip6) (unat (k_now K)) (abs_firewall ?e)
    = (out, (abs_firewall ?e)\<lparr>fw_sources6 := abs_buckets rl\<rparr>)" "d = outcome_drops out"
    using decide_v6_refines [OF K e(1-3) v6(2) [unfolded e(4)]] by blast
  have "abs_firewall s' = (abs_firewall ?e)\<lparr>fw_sources6 := abs_buckets rl\<rparr>"
    unfolding v6(4) by (simp add: abs_firewall_def)
  moreover have "judge_v6 ?e = judge_v6 s" by (rule judge_policy(2)) simp
  ultimately show ?thesis
    using out v6(1,3) by (intro exI [of _ out]) (simp add: judge_def entered_ok)
qed

section \<open>The bucket of a source in a run\<close>

definition source_v4 :: "packet \<Rightarrow> u32 option" where
  "source_v4 pkt = (case frame_kind pkt of Inl (iph, off) \<Rightarrow> Some (ip_saddr iph) | Inr _ \<Rightarrow> None)"

lemma source_gate_v4_hit:
  assumes "xdp_rl_state4 s a = Some st" "val (lock st) = 0" "source_limit s a = Some c" "usable_cfg c"
    and "\<not> drop_allow d" "\<not> drop_deny d"
    and "source_gate_v4 K s a now t d tm = Some (d', tm', rl)"
  shows "rl = (xdp_rl_state4 s)(a \<mapsto> snd (tb_take st c now))"
    "drop_rl d' \<longleftrightarrow> drop_rl d \<or> \<not> fst (tb_take st c now)"
  using assms rl_check_hit [where m = "xdp_rl_state4 s" and k = a, OF assms(1,2,4)]
  by (auto simp: source_gate_v4_def select_rl_v4_limit rl_gate_def)

lemma edge_gate_keeps_rl:
  assumes "edge_gate upd ec ea ed ep sa dp p now t d tm m = Some (d', tm', m')" "drop_rl d"
  shows "drop_rl d'"
  using assms edge_gate_result(5) [OF assms(1)] by (auto simp: dropped_def)

text \<open>
  A packet either leaves the bucket of a source alone and, if it is from that source, is dropped,
  or it is a request of that source against its bucket, and only an admitted request can pass.
\<close>

lemma run_source_bucket:
  assumes K: "kernel_ok K" and free: "buckets_free s"
    and st: "xdp_rl_state4 s a = Some st" and c: "source_limit s a = Some c" "usable_cfg c"
    and run: "xdp_klshield K cpu pkt s = Some (act, s')"
  shows "(xdp_rl_state4 s' a = Some st \<and> (source_v4 pkt = Some a \<longrightarrow> act = XDP_DROP)) \<or>
    (source_v4 pkt = Some a \<and> xdp_rl_state4 s' a = Some (snd (tb_take st c (k_now K))) \<and>
     (act = XDP_PASS \<longrightarrow> fst (tb_take st c (k_now K))))"
  using run
proof (cases rule: xdp_klshield_cases)
  case early
  then show ?thesis using st by (simp add: source_v4_def)
next
  case (v6 ip6 off l4 d tm rl)
  then show ?thesis using st by (simp add: source_v4_def)
next
  case (v4 iph off l4 d tm rl erl)
  let ?e = "entered cpu pkt s"
  have src: "source_v4 pkt = Some (ip_saddr iph)" using v4(1) by (simp add: source_v4_def)
  have e: "xdp_rl_state4 ?e = xdp_rl_state4 s" "source_limit ?e = source_limit s"
    "policy_view ?e = policy_view s"
    by (auto simp: source_limit_def entered_def count_packet_def policy_view_def)
  obtain tm1 d1 d2 tm3 where
    r: "source_gate_v4 K ?e (ip_saddr iph) (k_now K) (totals_get (xdp_totals s cpu)) d1 tm1 = Some (d2, tm3, rl)"
    and d1: "d1 = acl_v4 K ?e (cfg_enforce s) (ip_saddr iph)"
    and t: "tuple_gate K ?e (ip_saddr iph) (dport l4) (ip_protocol iph) (k_now K)
      (totals_get (xdp_totals s cpu)) d2 tm3 = Some (d, tm, erl)"
    using v4(2) unfolding decide_v4_Some by blast
  have rl: "xdp_rl_state4 s' = rl" using v4(4) by simp
  have lk: "val (lock st) = 0" using free st locks_freeD by (auto simp: buckets_free_def)
  show ?thesis
  proof (cases "ip_saddr iph = a")
    case other: False
    have "rl a = xdp_rl_state4 s a"
    proof (cases "\<not> drop_allow d1 \<and> \<not> drop_deny d1")
      case True
      with r have "rl_gate (k_rl4_update K) (source_limit s (ip_saddr iph)) (ip_saddr iph) (k_now K)
          (totals_get (xdp_totals s cpu)) d1 tm1 (xdp_rl_state4 s) = Some (d2, tm3, rl)"
        by (simp add: source_gate_v4_def select_rl_v4_limit e)
      then show ?thesis
        using rl_check_isolated [OF kernel_okD(6) [OF K] _ other [symmetric]]
        by (auto simp: rl_gate_def split: option.splits Option.bind_splits)
    next
      case False
      with r show ?thesis by (auto simp: source_gate_v4_def)
    qed
    then show ?thesis using st src other rl by auto
  next
    case same: True
    show ?thesis
    proof (cases "\<not> drop_allow d1 \<and> \<not> drop_deny d1")
      case True
      have hit: "rl = (xdp_rl_state4 s)(a \<mapsto> snd (tb_take st c (k_now K)))"
        "drop_rl d2 \<longleftrightarrow> drop_rl d1 \<or> \<not> fst (tb_take st c (k_now K))"
        using source_gate_v4_hit [OF _ lk _ c(2) _ _ r [unfolded same]] True st c(1)
        by (simp_all add: e)
      have "drop_rl d" if "drop_rl d2"
        using edge_gate_keeps_rl [OF t [unfolded tuple_gate_def] that] .
      then show ?thesis
        using hit src same rl v4(3) by (auto simp: verdict_def dropped_def)
    next
      case False
      then have "d2 = d1" "rl = xdp_rl_state4 s" "dropped d1"
        using r by (auto simp: source_gate_v4_def e dropped_def)
      moreover from this have "d = d1" using edge_gate_result(5) [OF t [unfolded tuple_gate_def]] by simp
      ultimately show ?thesis using st rl v4(3) by (simp add: verdict_def)
    qed
  qed
qed

lemma policy_source_limit: "policy_view s' = policy_view s \<Longrightarrow> source_limit s' = source_limit s"
  by (auto simp: source_limit_def policy_view_def)

text \<open>The packets of a source that a run let through.\<close>

definition passes_of :: "u32 \<Rightarrow> arrival list \<Rightarrow> xdp_action list \<Rightarrow> nat" where
  "passes_of a xs as =
     length (filter (\<lambda>((K, cpu, pkt), act). source_v4 pkt = Some a \<and> act = XDP_PASS) (zip xs as))"

lemma passes_of_Cons:
  "passes_of a ((K, cpu, pkt) # xs) (act # as) =
    (if source_v4 pkt = Some a \<and> act = XDP_PASS then 1 else 0) + passes_of a xs as"
  by (simp add: passes_of_def)

text \<open>The accounting along a run, in nanoseconds.\<close>

lemma xdp_run_source_potential:
  assumes rate: "tb_cfg_ok c"
  shows "\<forall>(K, cpu, pkt) \<in> set xs. kernel_ok K \<and> k_now K \<le> T \<Longrightarrow> buckets_free s \<Longrightarrow>
    source_limit s a = Some c \<Longrightarrow> xdp_rl_state4 s a = Some st \<Longrightarrow> tokens st \<le> burst c \<Longrightarrow>
    last_ns st \<le> T \<Longrightarrow> xdp_run xs s = Some (as, s') \<Longrightarrow>
    passes_of a xs as * token_ns (unat (rate_pps c))
      \<le> unat (tokens st) * token_ns (unat (rate_pps c)) + (unat T - unat (last_ns st))"
proof (induction xs arbitrary: s st as)
  case Nil
  then show ?case by (simp add: passes_of_def)
next
  case (Cons x xs)
  note r = tb_cfg_okD(3) [OF rate]
  obtain K cpu pkt where x: "x = (K, cpu, pkt)" by (cases x)
  obtain act s1 as1 where s1: "xdp_klshield K cpu pkt s = Some (act, s1)" "xdp_run xs s1 = Some (as1, s')"
    and as: "as = act # as1"
    using Cons.prems(7) unfolding x xdp_run_Cons by blast
  have K: "kernel_ok K" "k_now K \<le> T" using Cons.prems(1) x by auto
  have free: "buckets_free s1" by (rule run_buckets_free [OF K(1) Cons.prems(2) s1(1)])
  have lim: "source_limit s1 a = Some c"
    using Cons.prems(3) policy_source_limit [OF run_policy [OF s1(1)]] by simp
  have IH: "passes_of a xs as1 * token_ns (unat (rate_pps c))
      \<le> unat (tokens st1) * token_ns (unat (rate_pps c)) + (unat T - unat (last_ns st1))"
    if "xdp_rl_state4 s1 a = Some st1" "tokens st1 \<le> burst c" "last_ns st1 \<le> T" for st1
    using Cons.IH [OF _ free lim that s1(2)] Cons.prems(1) by auto
  from run_source_bucket [OF K(1) Cons.prems(2,4,3) tb_cfg_usable [OF rate] s1(1)]
  show ?case
  proof (elim disjE conjE)
    assume keep: "xdp_rl_state4 s1 a = Some st" "source_v4 pkt = Some a \<longrightarrow> act = XDP_DROP"
    then have "passes_of a (x # xs) as = passes_of a xs as1" by (simp add: x as passes_of_Cons)
    with IH [OF keep(1) Cons.prems(5,6)] show ?thesis by simp
  next
    assume src: "source_v4 pkt = Some a" and new: "xdp_rl_state4 s1 a = Some (snd (tb_take st c (k_now K)))"
      and adm: "act = XDP_PASS \<longrightarrow> fst (tb_take st c (k_now K))"
    define p where "p = passes_of a xs as1"
    define st1 where "st1 = snd (tb_take st c (k_now K))"
    obtain ok where ok: "take_spec (unat (rate_pps c)) (unat (burst c)) (unat (tokens st), unat (last_ns st)) (unat (k_now K))
        = (ok, unat (tokens st1), unat (last_ns st1))" "ok = fst (tb_take st c (k_now K))"
      using tb_take_refines [OF rate, of st "k_now K"] by (cases "tb_take st c (k_now K)") (simp add: tb_abs_def st1_def)
    have b: "unat (tokens st1) \<le> unat (burst c)" "unat (last_ns st1) \<le> unat T" "unat (last_ns st) \<le> unat (last_ns st1)"
      using take_spec_bounded [OF r _ ok(1)] Cons.prems(5,6) K(2) by (auto simp: word_le_nat_alt split: if_splits)
    have IH1: "p * token_ns (unat (rate_pps c)) \<le> unat (tokens st1) * token_ns (unat (rate_pps c)) + (unat T - unat (last_ns st1))"
      using IH [OF new] b unfolding st1_def p_def by (simp add: word_le_nat_alt)
    note IH1 take_spec_potential [OF r ok(1)] b
    moreover have "passes_of a (x # xs) as = (if act = XDP_PASS then Suc p else p)"
      by (simp add: x as passes_of_Cons src p_def)
    moreover have "act = XDP_PASS \<Longrightarrow> ok" using adm ok(2) by simp
    ultimately show ?thesis by (cases "act = XDP_PASS"; cases ok) auto
  qed
qed

section \<open>The steps of a run\<close>

lemma gates_entered [simp]:
  "source_gate_v4 K (entered cpu pkt s) = source_gate_v4 K s"
  "source_gate_v6 K (entered cpu pkt s) = source_gate_v6 K s"
  "tuple_gate K (entered cpu pkt s) = tuple_gate K s"
  "acl_v4 K (entered cpu pkt s) = acl_v4 K s" "acl_v6 K (entered cpu pkt s) = acl_v6 K s"
  by (intro ext; simp add: source_gate_v4_def source_gate_v6_def tuple_gate_def acl_v4_def acl_v6_def
      entered_def count_packet_def)+

lemma run_v4_steps:
  assumes kind: "frame_kind pkt = Inl (iph, off)" and run: "xdp_klshield K cpu pkt s = Some (a, s')"
  obtains l4 :: l4_info and d2 d tm1 tm3 tm where
    "source_gate_v4 K s (ip_saddr iph) (k_now K) (totals_get (xdp_totals s cpu))
       (acl_v4 K s (cfg_enforce s) (ip_saddr iph)) tm1 = Some (d2, tm3, xdp_rl_state4 s')"
    "tuple_gate K s (ip_saddr iph) (dport l4) (ip_protocol iph) (k_now K) (totals_get (xdp_totals s cpu)) d2 tm3
       = Some (d, tm, edge4_rl_state s')"
    "bpf_ntohs (dport l4) = dest_port pkt (unat (l4_offset off iph)) (ip_protocol iph)"
    "a = verdict d" "xdp_rl_state6 s' = xdp_rl_state6 s"
  using run
proof (cases rule: xdp_klshield_cases)
  case (v4 iph' off' l4 d tm rl erl)
  have same: "iph' = iph" "off' = off" using v4(1) kind by simp_all
  obtain tm0 tm1 d2 tm3 where
    l4: "l4_parse IPPROTO_ICMP pkt (l4_offset off iph) (ip_protocol iph) (totals_get (xdp_totals s cpu)) tm0 = Some (l4, tm1)"
    and r: "\<exists>tm1. source_gate_v4 K (entered cpu pkt s) (ip_saddr iph) (k_now K) (totals_get (xdp_totals s cpu))
        (acl_v4 K (entered cpu pkt s) (cfg_enforce s) (ip_saddr iph)) tm1 = Some (d2, tm3, rl)"
    and t: "tuple_gate K (entered cpu pkt s) (ip_saddr iph) (dport l4) (ip_protocol iph) (k_now K)
      (totals_get (xdp_totals s cpu)) d2 tm3 = Some (d, tm, erl)"
    using v4(2) unfolding decide_v4_Some same by blast
  from r obtain tm1' where "source_gate_v4 K s (ip_saddr iph) (k_now K) (totals_get (xdp_totals s cpu))
        (acl_v4 K s (cfg_enforce s) (ip_saddr iph)) tm1' = Some (d2, tm3, rl)" by auto
  with t l4_parse_dport [OF l4] v4(3,4) show ?thesis by (intro that [of tm1' d2 tm3 l4 d tm]) simp_all
qed (use kind in simp_all)

lemma run_v6_steps:
  assumes kind: "frame_kind pkt = Inr (Inl (ip6, off))" and run: "xdp_klshield K cpu pkt s = Some (a, s')"
  obtains d tm1 tm where
    "source_gate_v6 K s (ip6_saddr ip6) (k_now K) (totals_get (xdp_totals s cpu))
       (acl_v6 K s (cfg_enforce s) (ip6_saddr ip6)) tm1 = Some (d, tm, xdp_rl_state6 s')"
    "a = verdict d" "xdp_rl_state4 s' = xdp_rl_state4 s" "edge4_rl_state s' = edge4_rl_state s"
  using run
proof (cases rule: xdp_klshield_cases)
  case (v6 ip6' off' l4 d tm rl)
  have same: "ip6' = ip6" "off' = off" using v6(1) kind by simp_all
  from v6(2) obtain tm1 where "source_gate_v6 K s (ip6_saddr ip6) (k_now K) (totals_get (xdp_totals s cpu))
        (acl_v6 K s (cfg_enforce s) (ip6_saddr ip6)) tm1 = Some (d, tm, rl)"
    unfolding decide_v6_Some same by auto
  with v6(3,4) show ?thesis by (intro that [of tm1 d tm]) simp_all
qed (use kind in simp_all)

lemma dropped_gates:
  assumes "dropped d"
  shows "drop_allow d \<or> drop_deny d \<Longrightarrow> source_gate_v4 K s a now t d tm = Some (d, tm, xdp_rl_state4 s)"
    "drop_allow d \<or> drop_deny d \<Longrightarrow> source_gate_v6 K s b now t d tm = Some (d, tm, xdp_rl_state6 s)"
    "tuple_gate K s a dp p now t d tm = Some (d, tm, edge4_rl_state s)"
  using assms by (auto simp: source_gate_v4_def source_gate_v6_def tuple_gate_def edge_gate_skip)

lemma acl_dropped:
  "dropped (acl_v4 K s enf a) \<longleftrightarrow> enf \<noteq> 0 \<and> \<not> in_allow_v4 (k_lpm4 K) (xdp_allow_lpm s) a \<or> in_deny_v4 (xdp_deny_hash s) a"
  "dropped (acl_v6 K s enf b) \<longleftrightarrow> enf \<noteq> 0 \<and> \<not> in_allow_v6 (k_lpm6 K) (xdp_allow6_lpm s) b \<or> in_deny_v6 (xdp_deny6_hash s) b"
  "dropped (acl_v4 K s enf a) \<longleftrightarrow> drop_allow (acl_v4 K s enf a) \<or> drop_deny (acl_v4 K s enf a)"
  "dropped (acl_v6 K s enf b) \<longleftrightarrow> drop_allow (acl_v6 K s enf b) \<or> drop_deny (acl_v6 K s enf b)"
  by (auto simp: acl_v4_def acl_v6_def dropped_def)

lemma acl_passed: "\<not> dropped (acl_v4 K s enf a) \<Longrightarrow> acl_v4 K s enf a = no_drop"
  by (auto simp: acl_v4_def acl_drops_def dropped_def no_drop_def)

lemma usable_cases [simp]:
  "usable None = None" "usable (Some c) = (if rate_pps c \<noteq> 0 \<and> burst c \<noteq> 0 then Some c else None)"
  by (simp_all add: usable_def)

definition source_v6 :: "packet \<Rightarrow> u8 list option" where
  "source_v6 pkt = (case frame_kind pkt of Inr (Inl (ip6, off)) \<Rightarrow> Some (ip6_saddr ip6) | _ \<Rightarrow> None)"

section \<open>Frames the firewall cannot tell apart\<close>

lemma other_frame_state:
  assumes "frame_kind pkt = Inr (Inr ())"
  shows "\<exists>T L. xdp_klshield K cpu pkt s = Some (XDP_PASS, s\<lparr>xdp_totals := T, xdp_len_hist := L\<rparr>)"
proof -
  have last_write: "s\<lparr>xdp_totals := A, xdp_len_hist := B, xdp_totals := C\<rparr> = s\<lparr>xdp_totals := C, xdp_len_hist := B\<rparr>"
    for A B C by simp
  show ?thesis
    unfolding xdp_klshield_other [OF assms] early_pass_def set_totals_def entered_def count_packet_def last_write
    by blast
qed

lemma frame_kind_frag:
  fixes x y :: u8
  assumes "frame_kind pkt = Inl (iph, off)"
  shows "frame_kind (pkt[unat off + 6 := x, unat off + 7 := y]) = Inl (iph\<lparr>ip_frag_off := le16 x y\<rparr>, off)"
proof -
  let ?q = "pkt[unat off + 6 := x, unat off + 7 := y]"
  have eth: "parse_eth pkt = Some (Inr (0x0800, off))" and h: "ipv4_header pkt off iph"
    using assms by (simp_all add: frame_kind_v4)
  have "agree ?q pkt 0 (unat off)" by (simp add: agree_def)
  with eth have "parse_eth ?q = Some (Inr (0x0800, off))" by (rule parse_eth_agree)
  moreover have "ipv4_header ?q off (iph\<lparr>ip_frag_off := le16 x y\<rparr>)"
    using h load_iphdr_frag [of pkt "unat off" iph x y] by (simp add: ipv4_header_def sizeof_iphdr_def)
  ultimately show ?thesis by (simp add: frame_kind_v4)
qed

lemma judge_frag:
  fixes x y :: u8
  assumes "frame_kind pkt = Inl (iph, off)"
  shows "judge s (pkt[unat off + 6 := x, unat off + 7 := y]) now fw = judge s pkt now fw"
proof -
  have h: "ipv4_header pkt off iph" and e: "parse_eth pkt = Some (Inr (0x0800, off))"
    using assms by (simp_all add: frame_kind_v4)
  have "unat (l4_offset off iph) = unat off + unat ((ucast (ip_ihl iph) :: u64) * 4)"
  proof -
    have "unat (ucast (ip_ihl iph) :: u64) = unat (ip_ihl iph)" by (rule unat_ucast_u8)
    moreover have "unat (ip_ihl iph) < 2 ^ LENGTH(8)" by (rule unsigned_less)
    ultimately have "unat (ucast (ip_ihl iph) :: u64) \<le> 255" by simp
    moreover from this have "unat ((ucast (ip_ihl iph) :: u64) * 4) = unat (ucast (ip_ihl iph) :: u64) * unat (4 :: u64)"
      by (intro unat_mult_fits) simp
    ultimately have "unat ((ucast (ip_ihl iph) :: u64) * 4) \<le> 1020" by simp
    with parse_eth_bounds(3) [OF e] have "unat off + unat ((ucast (ip_ihl iph) :: u64) * 4) < 2 ^ 64" by simp
    then show ?thesis unfolding l4_offset_def by (rule unat_add_fits)
  qed
  with h have "unat off + 20 \<le> unat (l4_offset off iph)" by (simp add: ipv4_header_def sizeof_iphdr_def)
  then have "dest_port (pkt[unat off + 6 := x, unat off + 7 := y]) (unat (l4_offset off iph)) p
      = dest_port pkt (unat (l4_offset off iph)) p" for p
    by (simp add: dest_port_def)
  moreover have "l4_offset off (iph\<lparr>ip_frag_off := f\<rparr>) = l4_offset off iph" for f by (simp add: l4_offset_def)
  ultimately show ?thesis using frame_kind_frag [OF assms, of x y] assms by (simp add: judge_def)
qed

section \<open>A full bucket table\<close>

lemma run_full_table:
  assumes K: "kernel_ok K" and full: "\<not> card (dom (xdp_rl_state4 s)) < max_entries xdp_rl_state4_map"
    and run: "xdp_klshield K cpu pkt s = Some (act, s')"
  shows "dom (xdp_rl_state4 s') = dom (xdp_rl_state4 s)"
proof (cases "source_v4 pkt")
  case None
  from run show ?thesis using None
    by (cases rule: xdp_klshield_cases) (simp_all add: source_v4_def)
next
  case (Some a)
  then obtain iph off where kind: "frame_kind pkt = Inl (iph, off)" by (auto simp: source_v4_def split: sum.splits)
  obtain d1 tm1 d2 tm3 where
    "source_gate_v4 K s (ip_saddr iph) (k_now K) (totals_get (xdp_totals s cpu)) d1 tm1 = Some (d2, tm3, xdp_rl_state4 s')"
    using run_v4_steps [OF kind run] by metis
  then show ?thesis
    using rl_gate_full_dom [OF kernel_okD(6) [OF K] full] by (auto simp: source_gate_v4_def split: if_splits)
qed

lemma run_full_table_pass:
  assumes K: "kernel_ok K" and full: "\<not> card (dom (xdp_rl_state4 s)) < max_entries xdp_rl_state4_map"
    and src: "source_v4 pkt = Some a" and new: "xdp_rl_state4 s a = None"
    and acl: "cfg_enforce s = 0 \<or> allowed_v4 s a" "\<not> in_deny_v4 (xdp_deny_hash s) a"
    and off: "\<not> tuple_mode_on (edge4_cfg s)"
    and run: "xdp_klshield K cpu pkt s = Some (act, s')"
  shows "act = XDP_PASS"
proof -
  obtain iph off where kind: "frame_kind pkt = Inl (iph, off)" and a: "ip_saddr iph = a"
    using src by (auto simp: source_v4_def split: sum.splits)
  have acl: "acl_v4 K s (cfg_enforce s) a = no_drop"
    using acl by (intro acl_passed) (simp add: acl_dropped in_allow_v4_allowed [OF kernel_okD(1) [OF K]])
  show ?thesis
    using run
  proof (rule run_v4_steps [OF kind])
    fix l4 :: l4_info and d2 d tm1 tm3 tm
    assume g: "source_gate_v4 K s (ip_saddr iph) (k_now K) (totals_get (xdp_totals s cpu))
       (acl_v4 K s (cfg_enforce s) (ip_saddr iph)) tm1 = Some (d2, tm3, xdp_rl_state4 s')"
      and t: "tuple_gate K s (ip_saddr iph) (dport l4) (ip_protocol iph) (k_now K) (totals_get (xdp_totals s cpu)) d2 tm3
       = Some (d, tm, edge4_rl_state s')" and v: "act = verdict d"
    have "d2 = no_drop"
      using g rl_gate_full [where k = a, OF kernel_okD(6) [OF K] full new]
      by (cases "source_limit s a") (auto simp: a acl source_gate_v4_def select_rl_v4_limit no_drop_def)
    with t off have "d = no_drop" by (simp add: tuple_gate_def edge_gate_skip)
    with v show "act = XDP_PASS" by (simp add: verdict_def dropped_def no_drop_def)
  qed
qed

section \<open>Packets that policy refuses\<close>

lemma run_acl_v4_drop:
  assumes "kernel_ok K" "buckets_free s" "source_v4 pkt = Some a"
    and "cfg_enforce s \<noteq> 0 \<and> \<not> allowed_v4 s a \<or> in_deny_v4 (xdp_deny_hash s) a"
  shows "\<exists>s'. xdp_klshield K cpu pkt s = Some (XDP_DROP, s') \<and> abs_firewall s' = abs_firewall s"
proof -
  obtain act s' where run: "xdp_klshield K cpu pkt s = Some (act, s')" using run_total [OF assms(2)] by blast
  obtain iph off where kind: "frame_kind pkt = Inl (iph, off)" and a: "a = ip_saddr iph"
    using assms(3) by (auto simp: source_v4_def split: sum.splits)
  have acl: "dropped (acl_v4 K s (cfg_enforce s) a)"
    using assms(4) by (simp add: acl_dropped in_allow_v4_allowed [OF kernel_okD(1) [OF assms(1)]])
  show ?thesis
    using run
    by (rule run_v4_steps [OF kind])
      (use acl run in \<open>auto simp: dropped_gates acl_dropped(3) verdict_def abs_firewall_def simp flip: a\<close>)
qed

lemma run_tuple_denied:
  assumes "buckets_free s" "frame_kind pkt = Inl (iph, off)"
    and "port = dest_port pkt (unat (l4_offset off iph)) (ip_protocol iph)" "port \<noteq> 0"
    and "tuple_denied (edge4_cfg s) (edge4_allow s) (edge4_deny s)
      (edge_key (ip_saddr iph) port (ip_protocol iph))"
  shows "\<exists>s'. xdp_klshield K cpu pkt s = Some (XDP_DROP, s')"
proof -
  obtain a s' where run: "xdp_klshield K cpu pkt s = Some (a, s')" using run_total [OF assms(1)] by blast
  have "a = XDP_DROP"
    using run
  proof (rule run_v4_steps [OF assms(2)])
    fix l4 :: l4_info and d2 d tm3 tm
    assume t: "tuple_gate K s (ip_saddr iph) (dport l4) (ip_protocol iph) (k_now K) (totals_get (xdp_totals s cpu)) d2 tm3
       = Some (d, tm, edge4_rl_state s')"
      and p: "bpf_ntohs (dport l4) = dest_port pkt (unat (l4_offset off iph)) (ip_protocol iph)" and a: "a = verdict d"
    have dp: "dport l4 \<noteq> 0" using assms(3,4) p by (metis bpf_ntohs_0)
    show "a = XDP_DROP"
    proof (cases "dropped d2")
      case True
      then show ?thesis using dropped_gates(3) [of d2] t a by (simp add: verdict_def)
    next
      case False
      have "d = d2\<lparr>drop_deny := True\<rparr>"
        using edge_gate_denies [OF False dp] t assms(3,5) p by (simp add: tuple_gate_def)
      then show ?thesis using a by (simp add: verdict_def dropped_def)
    qed
  qed
  with run show ?thesis by blast
qed

end
