(* ===== verification/Scenario.thy ===== *)
theory Scenario
  imports Firewall_Spec
begin

text \<open>
  A concrete setting: a kernel whose map operations and prefix lookups are the concrete functions
  of the development, the maps as they are after loading, and UDP frames as bytes on the wire. It
  shows that the kernel contract and the state invariants can hold, and the instances of the
  properties are stated over it.
\<close>

section \<open>A kernel\<close>

definition demo_kernel :: "u64 \<Rightarrow> kernel" where
  "demo_kernel now =
     \<lparr>k_now = now,
      k_event = (\<lambda>_. \<lparr>prandom_u32 = 0, event_ktime = now, ringbuf_room = True\<rparr>),
      k_lpm4 = lpm_search prefix4, k_lpm6 = lpm_search prefix6,
      k_src4_update = lru_update (\<lambda>_. 0) xdp_src4_stats_map,
      k_src6_update = lru_update (\<lambda>_. \<lparr>src6_ip = []\<rparr>) xdp_src6_stats_map,
      k_flow4_update = lru_update (\<lambda>_. flow4_key_of 0 0 0) xdp_flow4_stats_map,
      k_rl4_update = hash_update xdp_rl_state4_map,
      k_rl6_update = hash_update xdp_rl_state6_map,
      k_edge_rl_update = hash_update edge4_rl_state_map\<rparr>"

lemma demo_kernel_now [simp]: "k_now (demo_kernel now) = now"
  by (simp add: demo_kernel_def)

lemma demo_kernel_ok [simp]: "kernel_ok (demo_kernel now)"
  unfolding kernel_ok_def demo_kernel_def
  by (simp add: lpm_search.lpm_axioms hash.bpf_hash_axioms lru.bpf_lru_axioms)

section \<open>A state of the maps\<close>

definition zero_totals :: xdp_totals_t where
  "zero_totals =
     \<lparr>t_pkts = 0, t_bytes = 0, t_pass = 0, t_drop_allow = 0, t_drop_deny = 0, t_drop_rl = 0,
      t_v4 = 0, t_v6 = 0, t_tcp = 0, t_udp = 0, t_icmp = 0, t_syn = 0, t_synack = 0, t_rst = 0,
      t_ack = 0, t_ipv4_frags = 0, t_dport_changes = 0, t_new_sources = 0, t_allow_hits = 0,
      t_deny_hits = 0, t_rl_hits = 0\<rparr>"

definition filled :: "bpf_map_def \<Rightarrow> 'v \<Rightarrow> (u32 \<rightharpoonup> 'v)" where
  "filled d v = (\<lambda>k. if unat k < max_entries d then Some v else None)"

lemma filled_wf [simp]: "max_entries d < 2 ^ 32 \<Longrightarrow> array_wf d (filled d v)"
  unfolding filled_def by (rule array_wf_restrict)

text \<open>
  Freshly loaded maps: the arrays hold zeroed elements, every hash map is empty, nothing is
  enforced and nothing is limited.
\<close>

definition fresh_shield :: shield where
  "fresh_shield =
     \<lparr>xdp_totals = (\<lambda>_. filled xdp_totals_map zero_totals),
      xdp_src4_stats = (\<lambda>_. None), xdp_src6_stats = (\<lambda>_. None), xdp_flow4_stats = (\<lambda>_. None),
      xdp_allow_lpm = [], xdp_deny_hash = (\<lambda>_. None),
      xdp_allow6_lpm = [], xdp_deny6_hash = (\<lambda>_. None),
      xdp_cfg = filled xdp_cfg_map \<lparr>enforce_allow = 0, event_sample_mask = 0\<rparr>,
      edge4_deny = (\<lambda>_. None), edge4_allow = (\<lambda>_. None), edge4_rl_policy = (\<lambda>_. None),
      edge4_rl_state = (\<lambda>_. None), edge4_cfg = filled edge4_cfg_map \<lparr>edge_mode = 0, edge_pad = 0\<rparr>,
      xdp_rl_cfg = filled xdp_rl_cfg_map \<lparr>rate_pps = 0, burst = 0\<rparr>,
      xdp_rl_policy4 = (\<lambda>_. None), xdp_rl_policy6 = (\<lambda>_. None),
      xdp_rl_state4 = (\<lambda>_. None), xdp_rl_state6 = (\<lambda>_. None),
      xdp_port_hist = (\<lambda>_. filled xdp_port_hist_map \<lparr>ph_pkts = 0, ph_bytes = 0, ph_drops = 0\<rparr>),
      xdp_len_hist = (\<lambda>_. filled xdp_len_hist_map \<lparr>lh_pkts = 0, lh_bytes = 0\<rparr>),
      xdp_events = []\<rparr>"

lemma fresh_frame [simp]:
  "buckets_free fresh_shield" "tables_room fresh_shield" "limits_ok fresh_shield"
  "xdp_rl_state4 fresh_shield = (\<lambda>_. None)" "xdp_rl_state6 fresh_shield = (\<lambda>_. None)"
  "edge4_rl_state fresh_shield = (\<lambda>_. None)"
  by (auto simp: fresh_shield_def buckets_free_def locks_free_def tables_room_def has_room_def
      xdp_rl_state4_map_def xdp_rl_state6_map_def edge4_rl_state_map_def limits_ok_def usable_cfg_def
      filled_def ran_def split: if_splits)

lemma fresh_arrays: "arrays_wf fresh_shield"
  unfolding arrays_wf_def fresh_shield_def
  by (simp add: xdp_totals_map_def xdp_len_hist_map_def xdp_port_hist_map_def xdp_cfg_map_def
      xdp_rl_cfg_map_def edge4_cfg_map_def)

lemma fresh_balanced: "cpus_balanced fresh_shield" "sources_balanced fresh_shield"
  by (auto simp: cpus_balanced_def sources_balanced_def totals_balanced_def fresh_shield_def filled_def
      zero_totals_def split: if_splits)

lemma fresh_inv [simp]: "shield_inv fresh_shield"
  unfolding shield_inv_def using fresh_arrays fresh_balanced by simp

section \<open>Frames\<close>

definition ipv4_bytes :: "u8 \<Rightarrow> u8 list \<Rightarrow> u8 list \<Rightarrow> u8 list \<Rightarrow> u8 list" where
  "ipv4_bytes proto src dst payload =
     [0x45, 0, 0, 0, 0, 0, 0, 0, 64, proto, 0, 0] @ src @ dst @ payload"

definition udp_bytes :: "u16 \<Rightarrow> u16 \<Rightarrow> u8 list" where
  "udp_bytes sp dp = be16_bytes sp @ be16_bytes dp @ [0, 8, 0, 0]"

definition udp_frame :: "u8 list \<Rightarrow> u16 \<Rightarrow> packet" where
  "udp_frame src dp =
     eth_frame [1, 2, 3, 4, 5, 6] [7, 8, 9, 10, 11, 12] [] 0x0800
       (ipv4_bytes 17 src [192, 168, 0, 1] (udp_bytes 40000 dp))"

lemma udp_frame_kind:
  "\<exists>iph. frame_kind (udp_frame [a, b, c, d] dp) = Inl (iph, 14) \<and> ip_saddr iph = le32 a b c d \<and>
     ip_protocol iph = 17 \<and> ip_ihl iph = 5 \<and> ip_frag_off iph = 0 \<and> ip_ttl iph = 64"
proof -
  let ?p = "udp_frame [a, b, c, d] dp"
  have eth: "parse_eth ?p = Some (Inr (0x0800, 14))"
    unfolding udp_frame_def by (subst parse_eth_frame) (simp_all add: vlan_tpid_def)
  have len: "length ?p = 42"
    by (simp add: udp_frame_def eth_frame_def ipv4_bytes_def udp_bytes_def)
  obtain iph where iph: "load_iphdr ?p 14 = Some iph" "ip_saddr iph = le32 a b c d" "ip_protocol iph = 17"
      "ip_ihl iph = 5" "ip_version iph = 4" "ip_frag_off iph = 0" "ip_ttl iph = 64"
    by (simp add: load_iphdr_def load8_def load16_def load32_def udp_frame_def eth_frame_def
        ipv4_bytes_def udp_bytes_def be16_bytes_def le16_def)
  then have "ipv4_header ?p 14 iph" by (simp add: ipv4_header_def len sizeof_iphdr_def)
  with eth iph show ?thesis by (intro exI [of _ iph]) (simp add: frame_kind_v4)
qed


lemma udp_frame_length [simp]: "length (udp_frame [a, b, c, d] dp) = 42"
  by (simp add: udp_frame_def eth_frame_def ipv4_bytes_def udp_bytes_def)

lemma udp_frame_port: "dest_port (udp_frame [a, b, c, d] dp) 34 17 = dp"
proof -
  have "dest_port (udp_frame [a, b, c, d] dp) 34 17 = ucast (ucast (drop_bit 8 dp) :: u8) * 256 + ucast (ucast dp :: u8)"
    by (simp add: dest_port_def udp_frame_def eth_frame_def ipv4_bytes_def udp_bytes_def be16_bytes_def)
  also have "\<dots> = dp" by (simp flip: ntohs_le16)
  finally show ?thesis .
qed

lemma udp_frame_judge:
  "judge s (udp_frame [a, b, c, d] dp) now fw = judge_v4 s (le32 a b c d) dp 17 now fw"
proof -
  obtain iph where iph: "frame_kind (udp_frame [a, b, c, d] dp) = Inl (iph, 14)" "ip_saddr iph = le32 a b c d"
     "ip_protocol iph = 17" "ip_ihl iph = 5"
    using udp_frame_kind by blast
  then have "l4_offset 14 iph = 34" by (simp add: l4_offset_def)
  then show ?thesis using iph by (simp add: judge_def udp_frame_port)
qed

lemma udp_frame_source: "source_v4 (udp_frame [a, b, c, d] dp) = Some (le32 a b c d)"
  using udp_frame_kind [of a b c d dp] by (auto simp: source_v4_def)

definition ipv6_frame :: "u8 list \<Rightarrow> packet" where
  "ipv6_frame src = eth_frame [1, 2, 3, 4, 5, 6] [7, 8, 9, 10, 11, 12] [] 0x86DD
     ([0x60, 0, 0, 0, 0, 0, 59, 64] @ src @ replicate 16 0)"

lemma ipv6_frame_source:
  assumes "length src = 16"
  shows "source_v6 (ipv6_frame src) = Some src"
proof -
  let ?p = "ipv6_frame src"
  have eth: "parse_eth ?p = Some (Inr (0x86DD, 14))"
    unfolding ipv6_frame_def by (subst parse_eth_frame) (simp_all add: vlan_tpid_def)
  have len: "length ?p = 54" by (simp add: ipv6_frame_def eth_frame_def assms)
  obtain ip6 where ip6: "load_ipv6hdr ?p 14 = Some ip6" using load_headers_safe(4) [of 14 ?p] by (auto simp: len sizeof_ipv6hdr_def)
  have "load_bytes ?p 22 16 = Some src"
    by (simp add: load_bytes_def len) (simp add: ipv6_frame_def eth_frame_def be16_bytes_def assms)
  moreover have "load8 ?p 14 = Some 0x60"
    by (simp add: load8_def len) (simp add: ipv6_frame_def eth_frame_def be16_bytes_def)
  ultimately have "ip6_saddr ip6 = src" "ip6_version ip6 = 6"
    using ip6 by (auto simp: load_ipv6hdr_def split: Option.bind_splits)
  moreover from this have "frame_kind ?p = Inr (Inl (ip6, 14))"
    using eth ip6 by (simp add: frame_kind_v6 ipv6_header_def len sizeof_ipv6hdr_def)
  ultimately show ?thesis by (simp add: source_v6_def)
qed

lemma short_frame: "length pkt < 14 \<Longrightarrow> frame_kind pkt = Inr (Inr ())"
  by (simp add: frame_kind_def parse_eth_def sizeof_ethhdr_def)

section \<open>Policies\<close>

definition allow_dns :: shield where
  "allow_dns = fresh_shield\<lparr>edge4_cfg := (\<lambda>_. Some \<lparr>edge_mode = 2, edge_pad = 0\<rparr>),
     edge4_allow := [edge_key (le32 10 0 0 1) 53 17 \<mapsto> 1]\<rparr>"

lemma allow_dns_ok [simp]:
  "buckets_free allow_dns" "tables_room allow_dns" "limits_ok allow_dns" "cfg_enforce allow_dns = 0"
  "xdp_deny_hash allow_dns = (\<lambda>_. None)" "source_limit allow_dns = (\<lambda>_. None)"
  "edge4_cfg allow_dns = (\<lambda>_. Some \<lparr>edge_mode = 2, edge_pad = 0\<rparr>)"
  "edge4_allow allow_dns = [edge_key (le32 10 0 0 1) 53 17 \<mapsto> 1]"
  "tuple_limit allow_dns = (\<lambda>_. None)"
  using fresh_frame(1-3)
  by (simp_all add: allow_dns_def buckets_free_def tables_room_def limits_ok_def cfg_enforce_def fun_eq_iff
      source_limit_def tuple_limit_def override_def)
    (simp_all add: fresh_shield_def filled_def xdp_cfg_map_def xdp_rl_cfg_map_def)

definition limited :: shield where
  "limited = fresh_shield\<lparr>xdp_rl_cfg := (\<lambda>_. Some demo_limit), xdp_rl_state4 := [le32 10 0 0 1 \<mapsto> empty_bucket 0]\<rparr>"

lemma limited_ok [simp]: "buckets_free limited" "source_limit limited a = Some demo_limit"
    "xdp_rl_state4 limited = [le32 10 0 0 1 \<mapsto> empty_bucket 0]" "xdp_deny_hash limited = (\<lambda>_. None)"
    "cfg_enforce limited = 0" "edge4_cfg limited = edge4_cfg fresh_shield"
  using fresh_frame(1)
  by (auto simp: limited_def buckets_free_def locks_free_def source_limit_def override_def demo_limit_def
      empty_bucket_def cfg_enforce_def) (simp_all add: fresh_shield_def filled_def xdp_cfg_map_def)

lemma fresh_totals: "xdp_totals fresh_shield cpu 0 = Some zero_totals"
  by (simp add: fresh_shield_def filled_def xdp_totals_map_def)

definition blocked :: shield where
  "blocked = fresh_shield\<lparr>xdp_deny_hash := [\<lparr>k4_ip = [10, 0, 0, 1]\<rparr> \<mapsto> 1]\<rparr>"

lemma blocked_ok [simp]: "buckets_free blocked" "in_deny_v4 (xdp_deny_hash blocked) (le32 10 0 0 1)"
  using fresh_frame(1) by (simp_all add: blocked_def buckets_free_def in_deny_v4_def)

definition allow_none :: shield where
  "allow_none = fresh_shield\<lparr>xdp_cfg := (\<lambda>_. Some \<lparr>enforce_allow = 1, event_sample_mask = 0\<rparr>)\<rparr>"

definition crowded :: shield where
  "crowded = fresh_shield\<lparr>xdp_rl_cfg := (\<lambda>_. Some demo_limit),
     xdp_rl_state4 := filled xdp_rl_state4_map (empty_bucket 0)\<rparr>"

lemma crowded_full: "\<not> card (dom (xdp_rl_state4 crowded)) < max_entries xdp_rl_state4_map"
proof -
  have dom: "dom (xdp_rl_state4 crowded) = {k. unat k < 262144}"
    by (auto simp: crowded_def filled_def xdp_rl_state4_map_def split: if_splits)
  have u: "unat (of_nat i :: u32) = i" if "i < 262144" for i
    using that by (simp add: unat_of_nat take_bit_nat_eq_self)
  then have "inj_on (of_nat :: nat \<Rightarrow> u32) {..<262144}"
    by (intro inj_onI) (metis lessThan_iff)
  then have "262144 = card ((of_nat :: nat \<Rightarrow> u32) ` {..<262144})" by (simp add: card_image)
  also have "\<dots> \<le> card {k :: u32. unat k < 262144}"
    by (rule card_mono) (auto simp: u)
  finally show ?thesis by (simp add: dom xdp_rl_state4_map_def)
qed

end
