(* ===== verification/C_Layout.thy ===== *)
theory C_Layout
  imports Shield_Prelude
begin

text \<open>
  The data layout of C declarations, as clang computes it for the 64-bit little-endian BPF target:
  the size and alignment of a type and the place of every member of a structure or union, bit
  fields included. The kernel types of \<open>src/shield/bpf/include/vmlinux.h\<close> and the structures of
  \<open>src/shield/bpf/xdp_kernloom_shield.bpf.c\<close> are values of \<open>ctype\<close>; places and widths are counted
  in bits. The header has no packed or over-aligned type among those modelled.
\<close>

section \<open>C types\<close>

datatype cbase =
    C_bool | C_char | C_schar | C_uchar | C_short | C_ushort | C_int | C_uint
  | C_long | C_ulong | C_llong | C_ullong

text \<open>
  A member is its name (empty for an unnamed one), the width of a bit field, and its declared
  type. A pointer keeps the text of its declaration; a flexible array is an array of length 0.
\<close>

datatype ctype =
    Base cbase
  | Enum "(string \<times> int) list"
  | Ptr string
  | Arr nat ctype
  | Struct "(string \<times> nat option \<times> ctype) list"
  | Union "(string \<times> nat option \<times> ctype) list"

type_synonym cmember = "string \<times> nat option \<times> ctype"

abbreviation fld :: "string \<Rightarrow> ctype \<Rightarrow> cmember" where
  "fld n t \<equiv> (n, None, t)"

abbreviation bitfld :: "string \<Rightarrow> nat \<Rightarrow> ctype \<Rightarrow> cmember" where
  "bitfld n w t \<equiv> (n, Some w, t)"

section \<open>Sizes, alignments and places\<close>

fun base_size :: "cbase \<Rightarrow> nat" where
  "base_size C_bool = 1"
| "base_size C_char = 1"
| "base_size C_schar = 1"
| "base_size C_uchar = 1"
| "base_size C_short = 2"
| "base_size C_ushort = 2"
| "base_size C_int = 4"
| "base_size C_uint = 4"
| "base_size C_long = 8"
| "base_size C_ulong = 8"
| "base_size C_llong = 8"
| "base_size C_ullong = 8"

text \<open>An enumeration is an \<open>int\<close> or \<open>unsigned int\<close> unless an enumerator needs 64 bits.\<close>

definition enum_size :: "(string \<times> int) list \<Rightarrow> nat" where
  "enum_size es =
     (if list_all (\<lambda>e. - (2 ^ 31) \<le> snd e \<and> snd e < 2 ^ 31) es \<or>
         list_all (\<lambda>e. 0 \<le> snd e \<and> snd e < 2 ^ 32) es then 4 else 8)"

definition round_up :: "nat \<Rightarrow> nat \<Rightarrow> nat" where
  "round_up a n = (n + a - 1) div a * a"

text \<open>
  A measured member: whether it is unnamed, its bit-field width, and the size and alignment (bytes)
  of its type. A bit
  field starts at the next free bit unless it would cross a storage unit of its type; width 0
  closes the unit.
\<close>

type_synonym measured = "bool \<times> nat option \<times> nat \<times> nat"

fun place :: "nat \<Rightarrow> measured \<Rightarrow> nat" where
  "place pos (n, None, s, a) = round_up (8 * a) pos"
| "place pos (n, Some w, s, a) =
     (if w = 0 \<or> pos mod (8 * a) + w > 8 * s then round_up (8 * a) pos else pos)"

fun extent :: "measured \<Rightarrow> nat" where
  "extent (n, None, s, a) = 8 * s"
| "extent (n, Some w, s, a) = w"

text \<open>Unnamed bit fields do not contribute to the alignment of the structure.\<close>

fun member_align :: "measured \<Rightarrow> nat" where
  "member_align (n, w, s, a) = (if n \<and> w \<noteq> None then 1 else a)"

fun struct_walk :: "nat \<Rightarrow> nat \<Rightarrow> measured list \<Rightarrow> nat \<times> nat" where
  "struct_walk pos al [] = (pos, al)"
| "struct_walk pos al (m # ms) =
     struct_walk (place pos m + extent m) (max al (member_align m)) ms"

fun union_walk :: "nat \<Rightarrow> nat \<Rightarrow> measured list \<Rightarrow> nat \<times> nat" where
  "union_walk sz al [] = (sz, al)"
| "union_walk sz al (m # ms) =
     union_walk (max sz (extent m)) (max al (member_align m)) ms"

definition close_walk :: "nat \<times> nat \<Rightarrow> nat \<times> nat" where
  "close_walk r = (round_up (8 * snd r) (fst r) div 8, snd r)"

text \<open>\<open>dims t\<close> is \<open>sizeof(t)\<close> and \<open>_Alignof(t)\<close>.\<close>

fun dims :: "ctype \<Rightarrow> nat \<times> nat" where
  "dims (Base b) = (base_size b, base_size b)"
| "dims (Enum es) = (enum_size es, enum_size es)"
| "dims (Ptr d) = (8, 8)"
| "dims (Arr n t) = (n * fst (dims t), snd (dims t))"
| "dims (Struct ms) = close_walk (struct_walk 0 1 (map (\<lambda>(n, w, t). (n = [], w, dims t)) ms))"
| "dims (Union ms) = close_walk (union_walk 0 1 (map (\<lambda>(n, w, t). (n = [], w, dims t)) ms))"

definition sizeof :: "ctype \<Rightarrow> nat" where
  "sizeof t = fst (dims t)"

definition alignof :: "ctype \<Rightarrow> nat" where
  "alignof t = snd (dims t)"

text \<open>
  The place of each member: name, first bit, width in bits. The members of an unnamed structure
  or union belong to the enclosing type, as in C.
\<close>

type_synonym slot = "string \<times> nat \<times> nat"

definition shift_slots :: "nat \<Rightarrow> slot list \<Rightarrow> slot list" where
  "shift_slots p = map (\<lambda>(n, s, w). (n, p + s, w))"

definition member_slots :: "nat \<Rightarrow> string \<Rightarrow> measured \<Rightarrow> slot list \<Rightarrow> slot list" where
  "member_slots p n m inner =
     (if fst m \<and> fst (snd m) = None then shift_slots p inner else [(n, p, extent m)])"

fun struct_slots :: "nat \<Rightarrow> (string \<times> measured \<times> slot list) list \<Rightarrow> slot list" where
  "struct_slots pos [] = []"
| "struct_slots pos ((n, m, inner) # ms) =
     member_slots (place pos m) n m inner @ struct_slots (place pos m + extent m) ms"

fun union_slots :: "(string \<times> measured \<times> slot list) list \<Rightarrow> slot list" where
  "union_slots [] = []"
| "union_slots ((n, m, inner) # ms) = member_slots 0 n m inner @ union_slots ms"

fun slots :: "ctype \<Rightarrow> slot list" where
  "slots (Struct ms) = struct_slots 0 (map (\<lambda>(n, w, t). (n, (n = [], w, dims t), slots t)) ms)"
| "slots (Union ms) = union_slots (map (\<lambda>(n, w, t). (n, (n = [], w, dims t), slots t)) ms)"
| "slots t = []"

text \<open>Where a member is, in bits (the first member of that name), and \<open>offsetof\<close> in bytes.\<close>

definition slot_of :: "ctype \<Rightarrow> string \<Rightarrow> (nat \<times> nat) option" where
  "slot_of t n = map_of (slots t) n"

definition offset_of :: "ctype \<Rightarrow> string \<Rightarrow> nat option" where
  "offset_of t n = map_option (\<lambda>(s, w). s div 8) (slot_of t n)"

named_theorems c_dims \<open>the size and alignment of a declared type\<close>

lemma close_walk_simp: "close_walk (p, a) = ((p + 8 * a - 1) div (8 * a) * (8 * a) div 8, a)"
  by (simp add: close_walk_def round_up_def)

lemmas [c_dims] = close_walk_simp round_up_def enum_size_def [of "e # es" for e es]

lemmas slot_simps = slot_of_def member_slots_def shift_slots_def

section \<open>Soundness of the layout\<close>

lemma round_up_ge: "0 < a \<Longrightarrow> n \<le> round_up a n"
  using div_mult_mod_eq [of "n + a - 1" a] mod_less_divisor [of a "n + a - 1"]
  unfolding round_up_def by linarith

lemma round_up_dvd: "a dvd round_up a n"
  by (simp add: round_up_def)

lemma base_size_pos: "0 < base_size b"
  by (cases b) simp_all

lemma struct_walk_align: "al \<le> snd (struct_walk pos al ms)"
  by (induction ms arbitrary: pos al)
    (auto intro: order_trans [OF max.cobounded1])

lemma union_walk_align: "al \<le> snd (union_walk pos al ms)"
  by (induction ms arbitrary: pos al)
    (auto intro: order_trans [OF max.cobounded1])

lemma dims_align_pos: "0 < snd (dims t)"
proof (induction t rule: dims.induct)
  case (5 ms)
  show ?case using struct_walk_align [of 1 0] by (simp add: close_walk_def Suc_le_lessD)
next
  case (6 ms)
  show ?case using union_walk_align [of 1 0] by (simp add: close_walk_def Suc_le_lessD)
qed (simp_all add: base_size_pos enum_size_def)

abbreviation measure_members :: "cmember list \<Rightarrow> measured list" where
  "measure_members ms \<equiv> map (\<lambda>(n, w, t). (n = [], w, dims t)) ms"

definition measured_ok :: "measured \<Rightarrow> bool" where
  "measured_ok m \<longleftrightarrow> 0 < snd (snd (snd m))"

lemma measured_ok_dims: "list_all measured_ok (measure_members ms)"
  by (auto simp: list_all_iff measured_ok_def dims_align_pos)

lemma place_ge: "measured_ok m \<Longrightarrow> pos \<le> place pos m"
  by (cases "(pos, m)" rule: place.cases) (simp_all add: measured_ok_def round_up_ge)

lemma place_aligned: "fst (snd m) = None \<Longrightarrow> 8 * snd (snd (snd m)) dvd place pos m"
  by (cases "(pos, m)" rule: place.cases) (simp_all add: round_up_dvd)

lemma place_bits_unit:
  assumes "fst (snd m) = Some w" "w \<le> 8 * fst (snd (snd m))"
  shows "place pos m mod (8 * snd (snd (snd m))) + w \<le> 8 * fst (snd (snd m))"
  using assms by (cases "(pos, m)" rule: place.cases) (auto simp: round_up_def)

text \<open>The members of a structure lie one behind the other, inside the structure.\<close>

fun struct_places :: "nat \<Rightarrow> measured list \<Rightarrow> (nat \<times> nat) list" where
  "struct_places pos [] = []"
| "struct_places pos (m # ms) =
     (place pos m, extent m) # struct_places (place pos m + extent m) ms"

fun in_order :: "nat \<Rightarrow> (nat \<times> nat) list \<Rightarrow> nat \<Rightarrow> bool" where
  "in_order pos [] e \<longleftrightarrow> pos \<le> e"
| "in_order pos ((s, w) # ps) e \<longleftrightarrow> pos \<le> s \<and> in_order (s + w) ps e"

lemma struct_places_in_order:
  "list_all measured_ok ms \<Longrightarrow> in_order pos (struct_places pos ms) (fst (struct_walk pos al ms))"
  by (induction ms arbitrary: pos al) (auto simp: place_ge)

lemma in_order_mono: "in_order pos ps e \<Longrightarrow> e \<le> e' \<Longrightarrow> in_order pos ps e'"
  by (induction pos ps e rule: in_order.induct) auto

lemma in_order_le: "in_order pos ps e \<Longrightarrow> pos \<le> e"
  by (induction pos ps e rule: in_order.induct) auto

lemma in_order_bounds: "in_order pos ps e \<Longrightarrow> (s, w) \<in> set ps \<Longrightarrow> pos \<le> s \<and> s + w \<le> e"
  by (induction pos ps e rule: in_order.induct) (auto dest: in_order_le)

lemma close_walk_ge: "0 < snd r \<Longrightarrow> fst r \<le> 8 * fst (close_walk r)"
  using round_up_ge [of "8 * snd r" "fst r"] by (simp add: close_walk_def round_up_def)

lemma struct_members_in_order:
  "in_order 0 (struct_places 0 (measure_members ms)) (8 * sizeof (Struct ms))"
proof -
  let ?r = "struct_walk 0 1 (measure_members ms)"
  have "fst ?r \<le> 8 * sizeof (Struct ms)"
    using close_walk_ge [of ?r] struct_walk_align [of 1 0 "measure_members ms"]
    by (simp add: sizeof_def)
  then show ?thesis
    using in_order_mono [OF struct_places_in_order [OF measured_ok_dims, where pos = 0 and al = 1]] by blast
qed

text \<open>Every named member, those of unnamed inner types included, lies inside its type.\<close>

definition slots_within :: "slot list \<Rightarrow> nat \<Rightarrow> bool" where
  "slots_within sl e \<longleftrightarrow> (\<forall>(n, s, w) \<in> set sl. s + w \<le> e)"

lemma slots_within_simps [simp]:
  "slots_within [] e"
  "slots_within ((n, s, w) # sl) e \<longleftrightarrow> s + w \<le> e \<and> slots_within sl e"
  "slots_within (sl @ sl') e \<longleftrightarrow> slots_within sl e \<and> slots_within sl' e"
  by (simp_all add: slots_within_def ball_Un)

lemma slots_within_mono: "slots_within sl e \<Longrightarrow> e \<le> e' \<Longrightarrow> slots_within sl e'"
  by (fastforce simp: slots_within_def)

definition inner_ok :: "string \<times> measured \<times> slot list \<Rightarrow> bool" where
  "inner_ok mi \<longleftrightarrow>
     measured_ok (fst (snd mi)) \<and>
     slots_within (snd (snd mi)) (8 * fst (snd (snd (fst (snd mi)))))"

abbreviation measures :: "(string \<times> measured \<times> slot list) list \<Rightarrow> measured list" where
  "measures ms \<equiv> map (\<lambda>mi. fst (snd mi)) ms"

lemma member_slots_within:
  assumes "inner_ok (n, m, inner)"
  shows "slots_within (member_slots p n m inner) (p + extent m)"
proof (cases "fst m \<and> fst (snd m) = None")
  case True
  then have "extent m = 8 * fst (snd (snd m))" by (cases m rule: extent.cases) simp_all
  with True assms show ?thesis
    by (fastforce simp: member_slots_def inner_ok_def slots_within_def shift_slots_def)
qed (auto simp: member_slots_def slots_within_def)

lemma struct_slots_within:
  "list_all inner_ok ms \<Longrightarrow>
     slots_within (struct_slots pos ms) (fst (struct_walk pos al (measures ms)))"
proof (induction pos ms arbitrary: al rule: struct_slots.induct)
  case (2 pos n m inner ms)
  then have ok: "list_all measured_ok (measures ms)" by (auto simp: list_all_iff inner_ok_def)
  have "place pos m + extent m
      \<le> fst (struct_walk (place pos m + extent m) (max al (member_align m)) (measures ms))"
    using in_order_le [OF struct_places_in_order [OF ok]] by blast
  with 2 show ?case by (auto intro: slots_within_mono [OF member_slots_within])
qed simp

lemma union_walk_ge: "sz \<le> fst (union_walk sz al ms)"
  by (induction ms arbitrary: sz al) (auto intro: order_trans [OF max.cobounded1])

lemma union_slots_within:
  "list_all inner_ok ms \<Longrightarrow> slots_within (union_slots ms) (fst (union_walk sz al (measures ms)))"
proof (induction ms arbitrary: sz al rule: union_slots.induct)
  case (2 n m inner ms)
  have "0 + extent m \<le> fst (union_walk (max sz (extent m)) (max al (member_align m)) (measures ms))"
    using union_walk_ge [of "max sz (extent m)"] by (metis add_0 max.bounded_iff)
  with 2 show ?case by (auto intro: slots_within_mono [OF member_slots_within, of n m inner 0])
qed simp

abbreviation measure_all :: "cmember list \<Rightarrow> (string \<times> measured \<times> slot list) list" where
  "measure_all ms \<equiv> map (\<lambda>(n, w, t). (n, (n = [], w, dims t), slots t)) ms"

lemma measures_measure_all: "measures (measure_all ms) = measure_members ms"
  by (induction ms) auto

lemma slots_within_type: "slots_within (slots t) (8 * sizeof t)"
proof (induction t rule: slots.induct)
  case (1 ms)
  have "list_all inner_ok (measure_all ms)"
    using 1 by (force simp: list_all_iff inner_ok_def measured_ok_def dims_align_pos sizeof_def)
  then have "slots_within (struct_slots 0 (measure_all ms))
      (fst (struct_walk 0 1 (measure_members ms)))"
    unfolding measures_measure_all [symmetric]
    by (rule struct_slots_within)
  then show ?case
    using close_walk_ge [of "struct_walk 0 1 (measure_members ms)"]
      struct_walk_align [of 1 0 "measure_members ms"]
    by (simp add: sizeof_def slots_within_mono)
next
  case (2 ms)
  have "list_all inner_ok (measure_all ms)"
    using 2 by (force simp: list_all_iff inner_ok_def measured_ok_def dims_align_pos sizeof_def)
  then have "slots_within (union_slots (measure_all ms))
      (fst (union_walk 0 1 (measure_members ms)))"
    unfolding measures_measure_all [symmetric]
    by (rule union_slots_within)
  then show ?case
    using close_walk_ge [of "union_walk 0 1 (measure_members ms)"]
      union_walk_align [of 1 0 "measure_members ms"]
    by (simp add: sizeof_def slots_within_mono)
qed simp_all

lemma offset_within: "slot_of t n = Some (s, w) \<Longrightarrow> s + w \<le> 8 * sizeof t"
  using slots_within_type [of t] by (force simp: slot_of_def slots_within_def dest: map_of_SomeD)

section \<open>Runs of padding\<close>

text \<open>The header pads with runs of \<open>long: 64;\<close>, which the layout steps over as a whole.\<close>

abbreviation padding :: measured where
  "padding \<equiv> (True, Some 64, 8, 8)"

lemma round_up_id:
  assumes "0 < a" "a dvd n"
  shows "round_up a n = n"
proof -
  from assms(2) obtain k where "n = k * a" by (metis dvdE mult.commute)
  moreover have "k * a + a - 1 = (a - 1) + k * a" using assms(1) by simp
  moreover have "((a - 1) + k * a) div a = k"
    using assms(1) div_mult_self1 [of a "a - 1" k] div_less [of "a - 1" a] by linarith
  ultimately show ?thesis unfolding round_up_def by metis
qed

lemma place_padding: "place pos padding = round_up 64 pos"
  using round_up_id [of 64 pos] by (auto simp: dvd_eq_mod_eq_0)

lemma round_up_64_again: "round_up 64 (64 + round_up 64 pos) = 64 + round_up 64 pos"
  by (intro round_up_id) (simp_all add: round_up_dvd)

lemma struct_walk_padding:
  "0 < k \<Longrightarrow> 1 \<le> al \<Longrightarrow>
     struct_walk pos al (replicate k padding @ ms) = struct_walk (round_up 64 pos + 64 * k) al ms"
proof (induction k arbitrary: pos)
  case (Suc k)
  then show ?case
    using Suc.IH [of "round_up 64 pos + 64"]
    by (cases k) (simp_all del: place.simps add: place_padding round_up_64_again algebra_simps max_absorb1)
qed simp

lemma slots_padding:
  "0 < k \<Longrightarrow> n \<noteq> n' \<Longrightarrow>
     map_of (struct_slots pos (replicate k (n', padding, []) @ ms)) n =
     map_of (struct_slots (round_up 64 pos + 64 * k) ms) n"
proof (induction k arbitrary: pos)
  case (Suc k)
  then show ?case
    using Suc.IH [of "round_up 64 pos + 64"]
    by (cases k)
      (simp_all del: place.simps add: place_padding round_up_64_again member_slots_def algebra_simps)
qed simp

lemma struct_slots_Cons:
  "map_of (struct_slots pos ((n', m, inner) # ms)) n =
     (case map_of (member_slots (place pos m) n' m inner) n of
        None \<Rightarrow> map_of (struct_slots (place pos m + extent m) ms) n
      | Some sw \<Rightarrow> Some sw)"
  by (simp add: map_add_def)

end
