(* ===== verification/C_Memory.thy ===== *)
theory C_Memory
  imports C_Layout
begin

text \<open>
  Values of C structures as bytes in memory on the little-endian target: storing the members of a
  structure at the places of \<open>C_Layout\<close> and loading them back. The two are inverse on the members,
  and on the bytes as well when the structure has no padding, which is what makes a structure
  usable as the key of a hash map (the kernel hashes and compares the bytes).
\<close>

section \<open>Numbers as little-endian bytes\<close>

fun le_nat :: "u8 list \<Rightarrow> nat" where
  "le_nat [] = 0"
| "le_nat (b # bs) = unat b + 256 * le_nat bs"

fun nat_bytes :: "nat \<Rightarrow> nat \<Rightarrow> u8 list" where
  "nat_bytes 0 x = []"
| "nat_bytes (Suc n) x = of_nat x # nat_bytes n (x div 256)"

lemma length_nat_bytes [simp]: "length (nat_bytes n x) = n"
  by (induction n arbitrary: x) simp_all

lemma unat_u8_less: "unat (b :: u8) < 256"
  using unsigned_less [of b] by simp

lemma le_nat_less: "le_nat bs < 256 ^ length bs"
proof (induction bs)
  case (Cons b bs)
  then have "le_nat bs + 1 \<le> 256 ^ length bs" by simp
  then have "256 * le_nat bs + 256 \<le> 256 * 256 ^ length bs" by (metis distrib_left mult.right_neutral mult_le_mono2)
  with unat_u8_less [of b] show ?case by simp
qed simp

lemma le_nat_nat_bytes: "le_nat (nat_bytes n x) = x mod 256 ^ n"
proof (induction n arbitrary: x)
  case (Suc n)
  have "x mod (256 * 256 ^ n) = 256 * (x div 256 mod 256 ^ n) + x mod 256" by (rule mod_mult2_eq)
  with Suc show ?case by (simp add: unat_of_nat)
qed simp

lemma nat_bytes_le_nat: "nat_bytes (length bs) (le_nat bs) = bs"
proof (induction bs)
  case (Cons b bs)
  have "(unat b + 256 * le_nat bs) div 256 = le_nat bs" using unat_u8_less [of b] by simp
  moreover have "(of_nat (unat b + 256 * le_nat bs) :: u8) = b"
    unfolding word_unat_eq_iff unat_of_nat using unat_u8_less [of b] by simp
  ultimately show ?case using Cons by simp
qed simp

lemma le_nat_drop: "le_nat bs div 256 ^ k = le_nat (drop k bs)"
proof (induction k arbitrary: bs)
  case (Suc k)
  show ?case
  proof (cases bs)
    case (Cons b bs')
    have "(unat b + 256 * le_nat bs') div 256 = le_nat bs'" using unat_u8_less [of b] by simp
    then have "le_nat bs div 256 ^ Suc k = le_nat bs' div 256 ^ k"
      by (simp add: Cons div_mult2_eq)
    with Suc Cons show ?thesis by simp
  qed simp
qed simp

lemma le_nat_take: "le_nat bs mod 256 ^ k = le_nat (take k bs)"
proof (induction k arbitrary: bs)
  case (Suc k)
  show ?case
  proof (cases bs)
    case (Cons b bs')
    have "le_nat bs mod (256 * 256 ^ k) = 256 * (le_nat bs div 256 mod 256 ^ k) + le_nat bs mod 256"
      by (rule mod_mult2_eq)
    moreover have "le_nat bs div 256 = le_nat bs'" "le_nat bs mod 256 = unat b"
      using unat_u8_less [of b] by (simp_all add: Cons)
    ultimately show ?thesis using Suc by (simp add: Cons)
  qed simp
qed simp

section \<open>Members packed into a number\<close>

definition get_bits :: "nat \<Rightarrow> nat \<times> nat \<Rightarrow> nat" where
  "get_bits x p = x div 2 ^ fst p mod 2 ^ snd p"

fun pack :: "(nat \<times> nat) list \<Rightarrow> nat list \<Rightarrow> nat" where
  "pack ((s, w) # ps) (v # vs) = v * 2 ^ s + pack ps vs"
| "pack ps vs = 0"

definition unpack :: "(nat \<times> nat) list \<Rightarrow> nat \<Rightarrow> nat list" where
  "unpack ps x = map (get_bits x) ps"

definition fits :: "(nat \<times> nat) list \<Rightarrow> nat list \<Rightarrow> bool" where
  "fits ps vs \<longleftrightarrow> list_all2 (\<lambda>p v. v < 2 ^ snd p) ps vs"

lemma fits_simps [simp]:
  "fits [] []" "fits ((s, w) # ps) (v # vs) \<longleftrightarrow> v < 2 ^ w \<and> fits ps vs"
  "\<not> fits [] (v # vs)" "\<not> fits (p # ps) []"
  by (simp_all add: fits_def)

lemma pack_dvd: "in_order pos ps e \<Longrightarrow> 2 ^ pos dvd pack ps vs"
proof (induction ps vs arbitrary: pos rule: pack.induct)
  case (1 s w ps v vs)
  then have d: "2 ^ (s + w) dvd pack ps vs" and le: "pos \<le> s" by auto
  have "(2 :: nat) ^ pos dvd 2 ^ (s + w)" "(2 :: nat) ^ pos dvd 2 ^ s"
    using le by (simp_all add: le_imp_power_dvd)
  with d show ?case
    unfolding pack.simps by (metis dvd_add dvd_mult dvd_trans)
qed simp_all

lemma bits_step:
  assumes "r < 2 ^ pos" "pos \<le> s" "v < (2 :: nat) ^ w"
  shows "r + v * 2 ^ s < 2 ^ (s + w)"
proof -
  have "r < 2 ^ s" using assms(1,2) by (meson less_le_trans one_le_numeral power_increasing)
  moreover have "(v + 1) * 2 ^ s \<le> 2 ^ w * (2 :: nat) ^ s" using assms(3) by (intro mult_le_mono1) simp
  ultimately show ?thesis by (simp add: power_add mult.commute)
qed

lemma unpack_pack_from:
  "in_order pos ps e \<Longrightarrow> fits ps vs \<Longrightarrow> r < 2 ^ pos \<Longrightarrow> unpack ps (r + pack ps vs) = vs"
proof (induction ps vs arbitrary: pos r rule: pack.induct)
  case (1 s w ps v vs)
  then have le: "pos \<le> s" and ord: "in_order (s + w) ps e" and v: "v < 2 ^ w" and fits: "fits ps vs"
    by auto
  obtain k where k: "pack ps vs = 2 ^ (s + w) * k" using pack_dvd [OF ord] by (auto elim: dvdE)
  have r: "r < 2 ^ s" using 1(4) le by (meson less_le_trans one_le_numeral power_increasing)
  have "(r + (v * 2 ^ s + pack ps vs)) div 2 ^ s = v + 2 ^ w * k"
  proof -
    have "r + (v * 2 ^ s + pack ps vs) = r + (v + 2 ^ w * k) * 2 ^ s"
      by (simp add: k power_add algebra_simps)
    with r show ?thesis by simp
  qed
  then have "get_bits (r + (v * 2 ^ s + pack ps vs)) (s, w) = v" using v by (simp add: get_bits_def)
  moreover have "unpack ps ((r + v * 2 ^ s) + pack ps vs) = vs"
    using 1(1) [OF ord fits] bits_step [OF 1(4) le v] .
  ultimately show ?case by (simp add: unpack_def add.assoc)
qed (simp_all add: unpack_def fits_def)

lemma less_power_mono: "r < 2 ^ a \<Longrightarrow> a \<le> b \<Longrightarrow> r < (2 :: nat) ^ b"
  by (meson less_le_trans one_le_numeral power_increasing)

lemma pack_less_from:
  "in_order pos ps e \<Longrightarrow> fits ps vs \<Longrightarrow> r < 2 ^ pos \<Longrightarrow> r + pack ps vs < 2 ^ e"
proof (induction ps vs arbitrary: pos r rule: pack.induct)
  case (1 s w ps v vs)
  then have "(r + v * 2 ^ s) + pack ps vs < 2 ^ e"
    using 1(1) [of "s + w" "r + v * 2 ^ s"] bits_step [of r pos s v w] by auto
  then show ?case by (simp add: add.assoc)
qed (auto simp: fits_def intro: less_power_mono)

lemmas unpack_pack = unpack_pack_from [where r = 0 and pos = 0, simplified]
lemmas pack_less = pack_less_from [where r = 0 and pos = 0, simplified]

text \<open>No bit of the structure is outside its members.\<close>

fun no_holes :: "nat \<Rightarrow> (nat \<times> nat) list \<Rightarrow> nat \<Rightarrow> bool" where
  "no_holes pos [] e \<longleftrightarrow> pos = e"
| "no_holes pos ((s, w) # ps) e \<longleftrightarrow> pos = s \<and> no_holes (s + w) ps e"

lemma pack_unpack_from:
  "no_holes pos ps e \<Longrightarrow> x < 2 ^ e \<Longrightarrow> pack ps (unpack ps x) = x div 2 ^ pos * 2 ^ pos"
proof (induction pos ps e rule: no_holes.induct)
  case (2 pos s w ps e)
  then have ih: "pack ps (unpack ps x) = x div 2 ^ (s + w) * 2 ^ (s + w)" and s: "pos = s" by auto
  have "x div 2 ^ s mod 2 ^ w + x div 2 ^ (s + w) * 2 ^ w = x div 2 ^ s"
    using div_mult_mod_eq [of "x div 2 ^ s" "2 ^ w"] by (simp add: power_add div_mult2_eq)
  then have "(x div 2 ^ s mod 2 ^ w + x div 2 ^ (s + w) * 2 ^ w) * 2 ^ s = x div 2 ^ s * 2 ^ s"
    by simp
  with ih s show ?case
    by (simp add: unpack_def get_bits_def power_add algebra_simps)
qed (simp add: unpack_def)

lemma no_holes_in_order: "no_holes pos ps e \<Longrightarrow> in_order pos ps e"
  by (induction pos ps e rule: no_holes.induct) auto

lemma unpack_fits: "fits ps (unpack ps x)"
  by (auto simp: fits_def unpack_def get_bits_def list_all2_map2 intro: list.rel_refl)

section \<open>Structures in memory\<close>

text \<open>The members of a structure, each one number; a value of any other type is one number.\<close>

fun places :: "ctype \<Rightarrow> (nat \<times> nat) list" where
  "places (Struct ms) = struct_places 0 (measure_members ms)"
| "places t = [(0, 8 * sizeof t)]"

definition store :: "ctype \<Rightarrow> nat list \<Rightarrow> u8 list" where
  "store t vs = nat_bytes (sizeof t) (pack (places t) vs)"

definition fetch :: "ctype \<Rightarrow> u8 list \<Rightarrow> nat list" where
  "fetch t bs = unpack (places t) (le_nat bs)"

definition padding_free :: "ctype \<Rightarrow> bool" where
  "padding_free t \<longleftrightarrow> no_holes 0 (places t) (8 * sizeof t)"

lemma length_store [simp]: "length (store t vs) = sizeof t"
  by (simp add: store_def)

lemma places_in_order: "in_order 0 (places t) (8 * sizeof t)"
  by (cases t) (simp_all add: struct_members_in_order)

lemma pow256: "(256 :: nat) ^ n = 2 ^ (8 * n)"
  by (simp add: power_mult)

lemma fetch_store: "fits (places t) vs \<Longrightarrow> fetch t (store t vs) = vs"
  using unpack_pack [OF places_in_order] pack_less [OF places_in_order]
  by (simp add: fetch_def store_def le_nat_nat_bytes pow256)

lemma store_fetch:
  assumes "padding_free t" "length bs = sizeof t"
  shows "store t (fetch t bs) = bs"
proof -
  have "le_nat bs < 2 ^ (8 * sizeof t)" using le_nat_less [of bs] assms(2) by (simp add: pow256)
  with assms(1) have "pack (places t) (unpack (places t) (le_nat bs)) = le_nat bs"
    using pack_unpack_from [of 0 "places t" "8 * sizeof t" "le_nat bs"]
    by (simp add: padding_free_def)
  with assms(2) show ?thesis
    by (simp add: store_def fetch_def) (metis nat_bytes_le_nat)
qed

lemma fetch_fits: "fits (places t) (fetch t bs)"
  by (simp add: fetch_def unpack_fits)

text \<open>
  A record of the model and the C structure it stands for: \<open>vals\<close> lists the members of a record in
  the order of the structure, \<open>mk\<close> builds the record from them, \<open>ok\<close> says which records are values
  of the structure (a byte array has its length).
\<close>

locale c_record =
  fixes t :: ctype and ok :: "'r \<Rightarrow> bool" and vals :: "'r \<Rightarrow> nat list" and mk :: "nat list \<Rightarrow> 'r"
  assumes vals_fit: "ok r \<Longrightarrow> fits (places t) (vals r)"
    and mk_vals: "ok r \<Longrightarrow> mk (vals r) = r"
    and mk_ok: "fits (places t) vs \<Longrightarrow> ok (mk vs)"
    and vals_mk: "fits (places t) vs \<Longrightarrow> vals (mk vs) = vs"
begin

lemma fetch_vals: "ok r \<Longrightarrow> fetch t (store t (vals r)) = vals r"
  by (rule fetch_store) (rule vals_fit)

lemma read_written: "ok r \<Longrightarrow> mk (fetch t (store t (vals r))) = r"
  by (simp add: fetch_vals mk_vals)

lemma bytes_inject: "ok r \<Longrightarrow> ok r' \<Longrightarrow> store t (vals r) = store t (vals r') \<longleftrightarrow> r = r'"
  by (metis read_written)

lemma bytes_bij:
  assumes "padding_free t"
  shows "bij_betw (\<lambda>r. store t (vals r)) {r. ok r} {bs. length bs = sizeof t}"
proof (rule bij_betw_byWitness [where f' = "\<lambda>bs. mk (fetch t bs)"])
  show "\<forall>r \<in> {r. ok r}. mk (fetch t (store t (vals r))) = r" by (simp add: read_written)
  show "\<forall>bs \<in> {bs. length bs = sizeof t}. store t (vals (mk (fetch t bs))) = bs"
    using assms by (simp add: vals_mk fetch_fits store_fetch)
qed (auto simp: mk_ok fetch_fits)

end

section \<open>Members of a structure in a packet\<close>

text \<open>
  The member \<open>n\<close> of a structure that starts at byte \<open>i\<close>, as a number or, for an array of bytes, as
  its bytes; no value if the structure does not fit in the packet.
\<close>

definition c_member :: "ctype \<Rightarrow> string \<Rightarrow> packet \<Rightarrow> nat \<Rightarrow> nat option" where
  "c_member t n p i =
     (if i + sizeof t \<le> length p
      then map_option (get_bits (le_nat (drop i p))) (slot_of t n) else None)"

definition c_bytes :: "ctype \<Rightarrow> string \<Rightarrow> packet \<Rightarrow> nat \<Rightarrow> u8 list option" where
  "c_bytes t n p i =
     (if i + sizeof t \<le> length p
      then map_option (\<lambda>(s, w). take (w div 8) (drop (i + s div 8) p)) (slot_of t n) else None)"

lemma get_bits_bytes: "get_bits (le_nat bs) (8 * k, 8 * n) = le_nat (take n (drop k bs))"
  by (simp add: get_bits_def flip: pow256 le_nat_drop le_nat_take)

lemma get_bits_inside:
  assumes "r + w \<le> v"
  shows "get_bits x (s + r, w) = get_bits x (s, v) div 2 ^ r mod 2 ^ w"
proof -
  obtain d where v: "v = r + (w + d)" using assms by (metis add.assoc le_Suc_ex)
  have "x div 2 ^ s mod 2 ^ v div 2 ^ r = x div 2 ^ s div 2 ^ r mod 2 ^ (w + d)"
    by (simp add: v power_add mod_mult2_eq)
  moreover have "x div 2 ^ s div 2 ^ r mod 2 ^ (w + d) mod 2 ^ w = x div 2 ^ s div 2 ^ r mod 2 ^ w"
    by (simp add: mod_mod_cancel le_imp_power_dvd)
  ultimately show ?thesis by (simp add: get_bits_def power_add div_mult2_eq)
qed

end
