(* ===== verification/Kernel_Types.thy ===== *)
theory Kernel_Types
  imports C_Memory
begin

text \<open>
  The types of \<open>src/shield/bpf/include/vmlinux.h\<close> that the program itself uses: the XDP context,
  the packet headers, the spin lock in a bucket and the verdicts, with every typedef and structure
  they contain. Each definition is one declaration of the header, member by member; the lemma after
  it is its size and alignment.
\<close>

definition ty___u32 :: ctype where
  "ty___u32 = Base C_uint"

lemma dims_ty___u32 [c_dims]: "dims ty___u32 = (4, 4)"
  by (simp add: ty___u32_def c_dims)

definition struct_xdp_md :: ctype where
  "struct_xdp_md = Struct
    [fld ''data'' ty___u32,
     fld ''data_end'' ty___u32,
     fld ''data_meta'' ty___u32,
     fld ''ingress_ifindex'' ty___u32,
     fld ''rx_queue_index'' ty___u32,
     fld ''egress_ifindex'' ty___u32]"

lemma dims_struct_xdp_md [c_dims]: "dims struct_xdp_md = (24, 4)"
  by (simp add: struct_xdp_md_def c_dims)

definition ty_u32 :: ctype where
  "ty_u32 = ty___u32"

lemma dims_ty_u32 [c_dims]: "dims ty_u32 = (4, 4)"
  by (simp add: ty_u32_def c_dims)

definition struct_xdp_buff :: ctype where
  "struct_xdp_buff = Struct
    [fld ''data'' (Ptr ''void *''),
     fld ''data_end'' (Ptr ''void *''),
     fld ''data_meta'' (Ptr ''void *''),
     fld ''data_hard_start'' (Ptr ''void *''),
     fld ''rxq'' (Ptr ''struct xdp_rxq_info *''),
     fld ''txq'' (Ptr ''struct xdp_txq_info *''),
     fld ''frame_sz'' ty_u32,
     fld ''flags'' ty_u32]"

lemma dims_struct_xdp_buff [c_dims]: "dims struct_xdp_buff = (56, 8)"
  by (simp add: struct_xdp_buff_def c_dims)

definition ty___u16 :: ctype where
  "ty___u16 = Base C_ushort"

lemma dims_ty___u16 [c_dims]: "dims ty___u16 = (2, 2)"
  by (simp add: ty___u16_def c_dims)

definition ty_u16 :: ctype where
  "ty_u16 = ty___u16"

lemma dims_ty_u16 [c_dims]: "dims ty_u16 = (2, 2)"
  by (simp add: ty_u16_def c_dims)

definition struct_xdp_mem_info :: ctype where
  "struct_xdp_mem_info = Struct
    [fld ''type'' ty_u32,
     fld ''id'' ty_u32]"

lemma dims_struct_xdp_mem_info [c_dims]: "dims struct_xdp_mem_info = (8, 4)"
  by (simp add: struct_xdp_mem_info_def c_dims)

definition struct_xdp_frame :: ctype where
  "struct_xdp_frame = Struct
    [fld ''data'' (Ptr ''void *''),
     fld ''len'' ty_u16,
     fld ''headroom'' ty_u16,
     fld ''metasize'' ty_u32,
     fld ''mem'' struct_xdp_mem_info,
     fld ''dev_rx'' (Ptr ''struct net_device *''),
     fld ''frame_sz'' ty_u32,
     fld ''flags'' ty_u32]"

lemma dims_struct_xdp_frame [c_dims]: "dims struct_xdp_frame = (40, 8)"
  by (simp add: struct_xdp_frame_def c_dims)

definition struct_xdp_rxq_info :: ctype where
  "struct_xdp_rxq_info = Struct
    [fld ''dev'' (Ptr ''struct net_device *''),
     fld ''queue_index'' ty_u32,
     fld ''reg_state'' ty_u32,
     fld ''mem'' struct_xdp_mem_info,
     fld ''napi_id'' (Base C_uint),
     fld ''frag_size'' ty_u32,
     bitfld '''' 64 (Base C_long),
     bitfld '''' 64 (Base C_long),
     bitfld '''' 64 (Base C_long),
     bitfld '''' 64 (Base C_long)]"

lemma dims_struct_xdp_rxq_info [c_dims]: "dims struct_xdp_rxq_info = (64, 8)"
  by (simp add: struct_xdp_rxq_info_def c_dims)

definition ty___be16 :: ctype where
  "ty___be16 = ty___u16"

lemma dims_ty___be16 [c_dims]: "dims ty___be16 = (2, 2)"
  by (simp add: ty___be16_def c_dims)

definition struct_ethhdr :: ctype where
  "struct_ethhdr = Struct
    [fld ''h_dest'' (Arr 6 (Base C_uchar)),
     fld ''h_source'' (Arr 6 (Base C_uchar)),
     fld ''h_proto'' ty___be16]"

lemma dims_struct_ethhdr [c_dims]: "dims struct_ethhdr = (14, 2)"
  by (simp add: struct_ethhdr_def c_dims)

definition struct_vlan_hdr :: ctype where
  "struct_vlan_hdr = Struct
    [fld ''h_vlan_TCI'' ty___be16,
     fld ''h_vlan_encapsulated_proto'' ty___be16]"

lemma dims_struct_vlan_hdr [c_dims]: "dims struct_vlan_hdr = (4, 2)"
  by (simp add: struct_vlan_hdr_def c_dims)

definition ty___u8 :: ctype where
  "ty___u8 = Base C_uchar"

lemma dims_ty___u8 [c_dims]: "dims ty___u8 = (1, 1)"
  by (simp add: ty___u8_def c_dims)

definition ty___sum16 :: ctype where
  "ty___sum16 = ty___u16"

lemma dims_ty___sum16 [c_dims]: "dims ty___sum16 = (2, 2)"
  by (simp add: ty___sum16_def c_dims)

definition ty___be32 :: ctype where
  "ty___be32 = ty___u32"

lemma dims_ty___be32 [c_dims]: "dims ty___be32 = (4, 4)"
  by (simp add: ty___be32_def c_dims)

definition struct_iphdr :: ctype where
  "struct_iphdr = Struct
    [bitfld ''ihl'' 4 ty___u8,
     bitfld ''version'' 4 ty___u8,
     fld ''tos'' ty___u8,
     fld ''tot_len'' ty___be16,
     fld ''id'' ty___be16,
     fld ''frag_off'' ty___be16,
     fld ''ttl'' ty___u8,
     fld ''protocol'' ty___u8,
     fld ''check'' ty___sum16,
     fld '''' (Union
       [fld '''' (Struct
          [fld ''saddr'' ty___be32,
           fld ''daddr'' ty___be32]),
        fld ''addrs'' (Struct
          [fld ''saddr'' ty___be32,
           fld ''daddr'' ty___be32])])]"

lemma dims_struct_iphdr [c_dims]: "dims struct_iphdr = (20, 4)"
  by (simp add: struct_iphdr_def c_dims)

definition struct_in6_addr :: ctype where
  "struct_in6_addr = Struct
    [fld ''in6_u'' (Union
       [fld ''u6_addr8'' (Arr 16 ty___u8),
        fld ''u6_addr16'' (Arr 8 ty___be16),
        fld ''u6_addr32'' (Arr 4 ty___be32)])]"

lemma dims_struct_in6_addr [c_dims]: "dims struct_in6_addr = (16, 4)"
  by (simp add: struct_in6_addr_def c_dims)

definition struct_ipv6hdr :: ctype where
  "struct_ipv6hdr = Struct
    [bitfld ''priority'' 4 ty___u8,
     bitfld ''version'' 4 ty___u8,
     fld ''flow_lbl'' (Arr 3 ty___u8),
     fld ''payload_len'' ty___be16,
     fld ''nexthdr'' ty___u8,
     fld ''hop_limit'' ty___u8,
     fld '''' (Union
       [fld '''' (Struct
          [fld ''saddr'' struct_in6_addr,
           fld ''daddr'' struct_in6_addr]),
        fld ''addrs'' (Struct
          [fld ''saddr'' struct_in6_addr,
           fld ''daddr'' struct_in6_addr])])]"

lemma dims_struct_ipv6hdr [c_dims]: "dims struct_ipv6hdr = (40, 4)"
  by (simp add: struct_ipv6hdr_def c_dims)

definition struct_tcphdr :: ctype where
  "struct_tcphdr = Struct
    [fld ''source'' ty___be16,
     fld ''dest'' ty___be16,
     fld ''seq'' ty___be32,
     fld ''ack_seq'' ty___be32,
     bitfld ''res1'' 4 ty___u16,
     bitfld ''doff'' 4 ty___u16,
     bitfld ''fin'' 1 ty___u16,
     bitfld ''syn'' 1 ty___u16,
     bitfld ''rst'' 1 ty___u16,
     bitfld ''psh'' 1 ty___u16,
     bitfld ''ack'' 1 ty___u16,
     bitfld ''urg'' 1 ty___u16,
     bitfld ''ece'' 1 ty___u16,
     bitfld ''cwr'' 1 ty___u16,
     fld ''window'' ty___be16,
     fld ''check'' ty___sum16,
     fld ''urg_ptr'' ty___be16]"

lemma dims_struct_tcphdr [c_dims]: "dims struct_tcphdr = (20, 4)"
  by (simp add: struct_tcphdr_def c_dims)

definition struct_udphdr :: ctype where
  "struct_udphdr = Struct
    [fld ''source'' ty___be16,
     fld ''dest'' ty___be16,
     fld ''len'' ty___be16,
     fld ''check'' ty___sum16]"

lemma dims_struct_udphdr [c_dims]: "dims struct_udphdr = (8, 2)"
  by (simp add: struct_udphdr_def c_dims)

definition struct_bpf_spin_lock :: ctype where
  "struct_bpf_spin_lock = Struct
    [fld ''val'' ty___u32]"

lemma dims_struct_bpf_spin_lock [c_dims]: "dims struct_bpf_spin_lock = (4, 4)"
  by (simp add: struct_bpf_spin_lock_def c_dims)

definition enum_xdp_action :: "(string \<times> int) list" where
  "enum_xdp_action =
    [(''XDP_ABORTED'', 0),
     (''XDP_DROP'', 1),
     (''XDP_PASS'', 2),
     (''XDP_TX'', 3),
     (''XDP_REDIRECT'', 4)]"

lemma size_enum_xdp_action [c_dims]: "enum_size enum_xdp_action = 4"
  by (simp add: enum_size_def enum_xdp_action_def)

end
