(* ===== verification/Kernel_Maps.thy ===== *)
theory Kernel_Maps
  imports Kernel_Types
begin

text \<open>
  The kernel objects behind the program's maps, from \<open>src/shield/bpf/include/vmlinux.h\<close>: the generic
  map with its operations, arrays, hash tables and their elements, the LRU list, the LPM trie and
  the ring buffer, with every typedef and structure they contain.
\<close>

definition struct_bpf_map_ops :: ctype where
  "struct_bpf_map_ops = Struct
    [fld ''map_alloc_check'' (Ptr ''int (*)(union bpf_attr *)''),
     fld ''map_alloc'' (Ptr ''struct bpf_map *(*)(union bpf_attr *)''),
     fld ''map_release'' (Ptr ''void (*)(struct bpf_map *, struct file *)''),
     fld ''map_free'' (Ptr ''void (*)(struct bpf_map *)''),
     fld ''map_get_next_key'' (Ptr ''int (*)(struct bpf_map *, void *, void *)''),
     fld ''map_release_uref'' (Ptr ''void (*)(struct bpf_map *)''),
     fld ''map_lookup_elem_sys_only'' (Ptr ''void *(*)(struct bpf_map *, void *)''),
     fld ''map_lookup_batch'' (Ptr ''int (*)(struct bpf_map *, const union bpf_attr *, union bpf_attr *)''),
     fld ''map_lookup_and_delete_elem'' (Ptr ''int (*)(struct bpf_map *, void *, void *, u64)''),
     fld ''map_lookup_and_delete_batch'' (Ptr ''int (*)(struct bpf_map *, const union bpf_attr *, union bpf_attr *)''),
     fld ''map_update_batch'' (Ptr ''int (*)(struct bpf_map *, const union bpf_attr *, union bpf_attr *)''),
     fld ''map_delete_batch'' (Ptr ''int (*)(struct bpf_map *, const union bpf_attr *, union bpf_attr *)''),
     fld ''map_lookup_elem'' (Ptr ''void *(*)(struct bpf_map *, void *)''),
     fld ''map_update_elem'' (Ptr ''int (*)(struct bpf_map *, void *, void *, u64)''),
     fld ''map_delete_elem'' (Ptr ''int (*)(struct bpf_map *, void *)''),
     fld ''map_push_elem'' (Ptr ''int (*)(struct bpf_map *, void *, u64)''),
     fld ''map_pop_elem'' (Ptr ''int (*)(struct bpf_map *, void *)''),
     fld ''map_peek_elem'' (Ptr ''int (*)(struct bpf_map *, void *)''),
     fld ''map_lookup_percpu_elem'' (Ptr ''void *(*)(struct bpf_map *, void *, u32)''),
     fld ''map_fd_get_ptr'' (Ptr ''void *(*)(struct bpf_map *, struct file *, int)''),
     fld ''map_fd_put_ptr'' (Ptr ''void (*)(struct bpf_map *, void *, bool)''),
     fld ''map_gen_lookup'' (Ptr ''int (*)(struct bpf_map *, struct bpf_insn *)''),
     fld ''map_fd_sys_lookup_elem'' (Ptr ''u32 (*)(void *)''),
     fld ''map_seq_show_elem'' (Ptr ''void (*)(struct bpf_map *, void *, struct seq_file *)''),
     fld ''map_check_btf'' (Ptr ''int (*)(const struct bpf_map *, const struct btf *, const struct btf_type *, const struct btf_type *)''),
     fld ''map_poke_track'' (Ptr ''int (*)(struct bpf_map *, struct bpf_prog_aux *)''),
     fld ''map_poke_untrack'' (Ptr ''void (*)(struct bpf_map *, struct bpf_prog_aux *)''),
     fld ''map_poke_run'' (Ptr ''void (*)(struct bpf_map *, u32, struct bpf_prog *, struct bpf_prog *)''),
     fld ''map_direct_value_addr'' (Ptr ''int (*)(const struct bpf_map *, u64 *, u32)''),
     fld ''map_direct_value_meta'' (Ptr ''int (*)(const struct bpf_map *, u64, u32 *)''),
     fld ''map_mmap'' (Ptr ''int (*)(struct bpf_map *, struct vm_area_struct *)''),
     fld ''map_poll'' (Ptr ''__poll_t (*)(struct bpf_map *, struct file *, struct poll_table_struct *)''),
     fld ''map_local_storage_charge'' (Ptr ''int (*)(struct bpf_local_storage_map *, void *, u32)''),
     fld ''map_local_storage_uncharge'' (Ptr ''void (*)(struct bpf_local_storage_map *, void *, u32)''),
     fld ''map_owner_storage_ptr'' (Ptr ''struct bpf_local_storage **(*)(void *)''),
     fld ''map_redirect'' (Ptr ''int (*)(struct bpf_map *, u32, u64)''),
     fld ''map_meta_equal'' (Ptr ''bool (*)(const struct bpf_map *, const struct bpf_map *)''),
     fld ''map_set_for_each_callback_args'' (Ptr ''int (*)(struct bpf_verifier_env *, struct bpf_func_state *, struct bpf_func_state *)''),
     fld ''map_for_each_callback'' (Ptr ''int (*)(struct bpf_map *, bpf_callback_t, void *, u64)''),
     fld ''map_btf_id'' (Ptr ''int *''),
     fld ''iter_seq_info'' (Ptr ''const struct bpf_iter_seq_info *'')]"

lemma dims_struct_bpf_map_ops [c_dims]: "dims struct_bpf_map_ops = (328, 8)"
  by (simp add: struct_bpf_map_ops_def c_dims)

definition enum_bpf_map_type :: "(string \<times> int) list" where
  "enum_bpf_map_type =
    [(''BPF_MAP_TYPE_UNSPEC'', 0),
     (''BPF_MAP_TYPE_HASH'', 1),
     (''BPF_MAP_TYPE_ARRAY'', 2),
     (''BPF_MAP_TYPE_PROG_ARRAY'', 3),
     (''BPF_MAP_TYPE_PERF_EVENT_ARRAY'', 4),
     (''BPF_MAP_TYPE_PERCPU_HASH'', 5),
     (''BPF_MAP_TYPE_PERCPU_ARRAY'', 6),
     (''BPF_MAP_TYPE_STACK_TRACE'', 7),
     (''BPF_MAP_TYPE_CGROUP_ARRAY'', 8),
     (''BPF_MAP_TYPE_LRU_HASH'', 9),
     (''BPF_MAP_TYPE_LRU_PERCPU_HASH'', 10),
     (''BPF_MAP_TYPE_LPM_TRIE'', 11),
     (''BPF_MAP_TYPE_ARRAY_OF_MAPS'', 12),
     (''BPF_MAP_TYPE_HASH_OF_MAPS'', 13),
     (''BPF_MAP_TYPE_DEVMAP'', 14),
     (''BPF_MAP_TYPE_SOCKMAP'', 15),
     (''BPF_MAP_TYPE_CPUMAP'', 16),
     (''BPF_MAP_TYPE_XSKMAP'', 17),
     (''BPF_MAP_TYPE_SOCKHASH'', 18),
     (''BPF_MAP_TYPE_CGROUP_STORAGE'', 19),
     (''BPF_MAP_TYPE_REUSEPORT_SOCKARRAY'', 20),
     (''BPF_MAP_TYPE_PERCPU_CGROUP_STORAGE'', 21),
     (''BPF_MAP_TYPE_QUEUE'', 22),
     (''BPF_MAP_TYPE_STACK'', 23),
     (''BPF_MAP_TYPE_SK_STORAGE'', 24),
     (''BPF_MAP_TYPE_DEVMAP_HASH'', 25),
     (''BPF_MAP_TYPE_STRUCT_OPS'', 26),
     (''BPF_MAP_TYPE_RINGBUF'', 27),
     (''BPF_MAP_TYPE_INODE_STORAGE'', 28),
     (''BPF_MAP_TYPE_TASK_STORAGE'', 29),
     (''BPF_MAP_TYPE_BLOOM_FILTER'', 30),
     (''BPF_MAP_TYPE_USER_RINGBUF'', 31)]"

lemma size_enum_bpf_map_type [c_dims]: "enum_size enum_bpf_map_type = 4"
  by (simp add: enum_size_def enum_bpf_map_type_def)

definition ty___u64 :: ctype where
  "ty___u64 = Base C_ullong"

lemma dims_ty___u64 [c_dims]: "dims ty___u64 = (8, 8)"
  by (simp add: ty___u64_def c_dims)

definition ty_u64 :: ctype where
  "ty_u64 = ty___u64"

lemma dims_ty_u64 [c_dims]: "dims ty_u64 = (8, 8)"
  by (simp add: ty_u64_def c_dims)

definition ty___s64 :: ctype where
  "ty___s64 = Base C_llong"

lemma dims_ty___s64 [c_dims]: "dims ty___s64 = (8, 8)"
  by (simp add: ty___s64_def c_dims)

definition ty_s64 :: ctype where
  "ty_s64 = ty___s64"

lemma dims_ty_s64 [c_dims]: "dims ty_s64 = (8, 8)"
  by (simp add: ty_s64_def c_dims)

definition ty_atomic64_t :: ctype where
  "ty_atomic64_t = Struct
    [fld ''counter'' ty_s64]"

lemma dims_ty_atomic64_t [c_dims]: "dims ty_atomic64_t = (8, 8)"
  by (simp add: ty_atomic64_t_def c_dims)

definition ty_atomic_long_t :: ctype where
  "ty_atomic_long_t = ty_atomic64_t"

lemma dims_ty_atomic_long_t [c_dims]: "dims ty_atomic_long_t = (8, 8)"
  by (simp add: ty_atomic_long_t_def c_dims)

definition struct_list_head :: ctype where
  "struct_list_head = Struct
    [fld ''next'' (Ptr ''struct list_head *''),
     fld ''prev'' (Ptr ''struct list_head *'')]"

lemma dims_struct_list_head [c_dims]: "dims struct_list_head = (16, 8)"
  by (simp add: struct_list_head_def c_dims)

definition ty_work_func_t :: ctype where
  "ty_work_func_t = Ptr ''void (*)(struct work_struct *)''"

lemma dims_ty_work_func_t [c_dims]: "dims ty_work_func_t = (8, 8)"
  by (simp add: ty_work_func_t_def c_dims)

definition struct_work_struct :: ctype where
  "struct_work_struct = Struct
    [fld ''data'' ty_atomic_long_t,
     fld ''entry'' struct_list_head,
     fld ''func'' ty_work_func_t]"

lemma dims_struct_work_struct [c_dims]: "dims struct_work_struct = (32, 8)"
  by (simp add: struct_work_struct_def c_dims)

definition struct_callback_head :: ctype where
  "struct_callback_head = Struct
    [fld ''next'' (Ptr ''struct callback_head *''),
     fld ''func'' (Ptr ''void (*)(struct callback_head *)'')]"

lemma dims_struct_callback_head [c_dims]: "dims struct_callback_head = (16, 8)"
  by (simp add: struct_callback_head_def c_dims)

definition ty_atomic_t :: ctype where
  "ty_atomic_t = Struct
    [fld ''counter'' (Base C_int)]"

lemma dims_ty_atomic_t [c_dims]: "dims ty_atomic_t = (4, 4)"
  by (simp add: ty_atomic_t_def c_dims)

definition ty_u8 :: ctype where
  "ty_u8 = ty___u8"

lemma dims_ty_u8 [c_dims]: "dims ty_u8 = (1, 1)"
  by (simp add: ty_u8_def c_dims)

definition struct_qspinlock :: ctype where
  "struct_qspinlock = Struct
    [fld '''' (Union
       [fld ''val'' ty_atomic_t,
        fld '''' (Struct
          [fld ''locked'' ty_u8,
           fld ''pending'' ty_u8]),
        fld '''' (Struct
          [fld ''locked_pending'' ty_u16,
           fld ''tail'' ty_u16])])]"

lemma dims_struct_qspinlock [c_dims]: "dims struct_qspinlock = (4, 4)"
  by (simp add: struct_qspinlock_def c_dims)

definition ty_arch_spinlock_t :: ctype where
  "ty_arch_spinlock_t = struct_qspinlock"

lemma dims_ty_arch_spinlock_t [c_dims]: "dims ty_arch_spinlock_t = (4, 4)"
  by (simp add: ty_arch_spinlock_t_def c_dims)

definition struct_raw_spinlock :: ctype where
  "struct_raw_spinlock = Struct
    [fld ''raw_lock'' ty_arch_spinlock_t]"

lemma dims_struct_raw_spinlock [c_dims]: "dims struct_raw_spinlock = (4, 4)"
  by (simp add: struct_raw_spinlock_def c_dims)

definition ty_raw_spinlock_t :: ctype where
  "ty_raw_spinlock_t = struct_raw_spinlock"

lemma dims_ty_raw_spinlock_t [c_dims]: "dims ty_raw_spinlock_t = (4, 4)"
  by (simp add: ty_raw_spinlock_t_def c_dims)

definition struct_optimistic_spin_queue :: ctype where
  "struct_optimistic_spin_queue = Struct
    [fld ''tail'' ty_atomic_t]"

lemma dims_struct_optimistic_spin_queue [c_dims]: "dims struct_optimistic_spin_queue = (4, 4)"
  by (simp add: struct_optimistic_spin_queue_def c_dims)

definition struct_mutex :: ctype where
  "struct_mutex = Struct
    [fld ''owner'' ty_atomic_long_t,
     fld ''wait_lock'' ty_raw_spinlock_t,
     fld ''osq'' struct_optimistic_spin_queue,
     fld ''wait_list'' struct_list_head]"

lemma dims_struct_mutex [c_dims]: "dims struct_mutex = (32, 8)"
  by (simp add: struct_mutex_def c_dims)

definition struct_spinlock :: ctype where
  "struct_spinlock = Struct
    [fld '''' (Union
       [fld ''rlock'' struct_raw_spinlock])]"

lemma dims_struct_spinlock [c_dims]: "dims struct_spinlock = (4, 4)"
  by (simp add: struct_spinlock_def c_dims)

definition ty_spinlock_t :: ctype where
  "ty_spinlock_t = struct_spinlock"

lemma dims_ty_spinlock_t [c_dims]: "dims ty_spinlock_t = (4, 4)"
  by (simp add: ty_spinlock_t_def c_dims)

definition ty_bool :: ctype where
  "ty_bool = Base C_bool"

lemma dims_ty_bool [c_dims]: "dims ty_bool = (1, 1)"
  by (simp add: ty_bool_def c_dims)

definition struct_bpf_map :: ctype where
  "struct_bpf_map = Struct
    [fld ''ops'' (Ptr ''const struct bpf_map_ops *''),
     fld ''inner_map_meta'' (Ptr ''struct bpf_map *''),
     fld ''security'' (Ptr ''void *''),
     fld ''map_type'' (Enum enum_bpf_map_type),
     fld ''key_size'' ty_u32,
     fld ''value_size'' ty_u32,
     fld ''max_entries'' ty_u32,
     fld ''map_extra'' ty_u64,
     fld ''map_flags'' ty_u32,
     fld ''spin_lock_off'' (Base C_int),
     fld ''kptr_off_tab'' (Ptr ''struct bpf_map_value_off *''),
     fld ''timer_off'' (Base C_int),
     fld ''id'' ty_u32,
     fld ''numa_node'' (Base C_int),
     fld ''btf_key_type_id'' ty_u32,
     fld ''btf_value_type_id'' ty_u32,
     fld ''btf_vmlinux_value_type_id'' ty_u32,
     fld ''btf'' (Ptr ''struct btf *''),
     fld ''objcg'' (Ptr ''struct obj_cgroup *''),
     fld ''name'' (Arr 16 (Base C_char)),
     fld ''off_arr'' (Ptr ''struct bpf_map_off_arr *''),
     fld ''refcnt'' ty_atomic64_t,
     fld ''usercnt'' ty_atomic64_t,
     fld '''' (Union
       [fld ''work'' struct_work_struct,
        fld ''rcu'' struct_callback_head]),
     fld ''freeze_mutex'' struct_mutex,
     fld ''writecnt'' ty_atomic64_t,
     fld ''owner_lock'' ty_spinlock_t,
     fld ''owner'' (Ptr ''struct bpf_map_owner *''),
     fld ''bypass_spec_v1'' ty_bool,
     fld ''frozen'' ty_bool,
     fld ''free_after_mult_rcu_gp'' ty_bool,
     fld ''elem_count'' (Ptr ''s64 *''),
     fld ''cookie'' ty_u64]"

lemma dims_struct_bpf_map [c_dims]: "dims struct_bpf_map = (256, 8)"
  by (simp add: struct_bpf_map_def c_dims)

definition struct_bpf_array :: ctype where
  "struct_bpf_array = Struct
    [fld ''map'' struct_bpf_map,
     fld ''elem_size'' ty_u32,
     fld ''index_mask'' ty_u32,
     fld ''aux'' (Ptr ''struct bpf_array_aux *''),
     fld '''' (Union
       [fld ''value'' (Arr 0 (Base C_char)),
        fld ''ptrs'' (Arr 0 (Ptr ''void *'')),
        fld ''pptrs'' (Arr 0 (Ptr ''void *''))]),
     bitfld '''' 64 (Base C_long),
     bitfld '''' 64 (Base C_long),
     bitfld '''' 64 (Base C_long),
     bitfld '''' 64 (Base C_long),
     bitfld '''' 64 (Base C_long),
     bitfld '''' 64 (Base C_long)]"

lemma dims_struct_bpf_array [c_dims]: "dims struct_bpf_array = (320, 8)"
  by (simp add: struct_bpf_array_def c_dims)

definition struct_bpf_lru_list :: ctype where
  "struct_bpf_lru_list = Struct
    [fld ''lists'' (Arr 3 struct_list_head),
     fld ''counts'' (Arr 2 (Base C_uint)),
     fld ''next_inactive_rotation'' (Ptr ''struct list_head *''),
     fld ''lock'' ty_raw_spinlock_t,
     bitfld '''' 64 (Base C_long),
     bitfld '''' 64 (Base C_long),
     bitfld '''' 64 (Base C_long),
     bitfld '''' 64 (Base C_long),
     bitfld '''' 64 (Base C_long),
     bitfld '''' 64 (Base C_long),
     bitfld '''' 64 (Base C_long)]"

lemma dims_struct_bpf_lru_list [c_dims]: "dims struct_bpf_lru_list = (128, 8)"
  by (simp add: struct_bpf_lru_list_def c_dims)

definition struct_bpf_mem_alloc :: ctype where
  "struct_bpf_mem_alloc = Struct
    [fld ''caches'' (Ptr ''struct bpf_mem_caches *''),
     fld ''cache'' (Ptr ''struct bpf_mem_cache *''),
     fld ''work'' struct_work_struct]"

lemma dims_struct_bpf_mem_alloc [c_dims]: "dims struct_bpf_mem_alloc = (48, 8)"
  by (simp add: struct_bpf_mem_alloc_def c_dims)

definition struct_pcpu_freelist_head :: ctype where
  "struct_pcpu_freelist_head = Struct
    [fld ''first'' (Ptr ''struct pcpu_freelist_node *''),
     fld ''lock'' ty_raw_spinlock_t]"

lemma dims_struct_pcpu_freelist_head [c_dims]: "dims struct_pcpu_freelist_head = (16, 8)"
  by (simp add: struct_pcpu_freelist_head_def c_dims)

definition struct_pcpu_freelist :: ctype where
  "struct_pcpu_freelist = Struct
    [fld ''freelist'' (Ptr ''struct pcpu_freelist_head *''),
     fld ''extralist'' struct_pcpu_freelist_head]"

lemma dims_struct_pcpu_freelist [c_dims]: "dims struct_pcpu_freelist = (24, 8)"
  by (simp add: struct_pcpu_freelist_def c_dims)

definition struct_bpf_common_lru :: ctype where
  "struct_bpf_common_lru = Struct
    [fld ''lru_list'' struct_bpf_lru_list,
     fld ''local_list'' (Ptr ''struct bpf_lru_locallist *''),
     bitfld '''' 64 (Base C_long),
     bitfld '''' 64 (Base C_long),
     bitfld '''' 64 (Base C_long),
     bitfld '''' 64 (Base C_long),
     bitfld '''' 64 (Base C_long),
     bitfld '''' 64 (Base C_long),
     bitfld '''' 64 (Base C_long)]"

lemma dims_struct_bpf_common_lru [c_dims]: "dims struct_bpf_common_lru = (192, 8)"
  by (simp add: struct_bpf_common_lru_def c_dims)

definition ty_del_from_htab_func :: ctype where
  "ty_del_from_htab_func = Ptr ''bool (*)(void *, struct bpf_lru_node *)''"

lemma dims_ty_del_from_htab_func [c_dims]: "dims ty_del_from_htab_func = (8, 8)"
  by (simp add: ty_del_from_htab_func_def c_dims)

definition struct_bpf_lru :: ctype where
  "struct_bpf_lru = Struct
    [fld '''' (Union
       [fld ''common_lru'' struct_bpf_common_lru,
        fld ''percpu_lru'' (Ptr ''struct bpf_lru_list *'')]),
     fld ''del_from_htab'' ty_del_from_htab_func,
     fld ''del_arg'' (Ptr ''void *''),
     fld ''hash_offset'' (Base C_uint),
     fld ''nr_scans'' (Base C_uint),
     fld ''percpu'' ty_bool,
     bitfld '''' 64 (Base C_long),
     bitfld '''' 64 (Base C_long),
     bitfld '''' 64 (Base C_long),
     bitfld '''' 64 (Base C_long)]"

lemma dims_struct_bpf_lru [c_dims]: "dims struct_bpf_lru = (256, 8)"
  by (simp add: struct_bpf_lru_def c_dims)

definition struct_percpu_counter :: ctype where
  "struct_percpu_counter = Struct
    [fld ''lock'' ty_raw_spinlock_t,
     fld ''count'' ty_s64,
     fld ''list'' struct_list_head,
     fld ''counters'' (Ptr ''s32 *'')]"

lemma dims_struct_percpu_counter [c_dims]: "dims struct_percpu_counter = (40, 8)"
  by (simp add: struct_percpu_counter_def c_dims)

definition struct_lock_class_key :: ctype where
  "struct_lock_class_key = Struct []"

lemma dims_struct_lock_class_key [c_dims]: "dims struct_lock_class_key = (0, 1)"
  by (simp add: struct_lock_class_key_def c_dims)

definition struct_bpf_htab :: ctype where
  "struct_bpf_htab = Struct
    [fld ''map'' struct_bpf_map,
     fld ''ma'' struct_bpf_mem_alloc,
     fld ''pcpu_ma'' struct_bpf_mem_alloc,
     fld ''buckets'' (Ptr ''struct bucket *''),
     fld ''elems'' (Ptr ''void *''),
     bitfld '''' 64 (Base C_long),
     bitfld '''' 64 (Base C_long),
     fld '''' (Union
       [fld ''freelist'' struct_pcpu_freelist,
        fld ''lru'' struct_bpf_lru]),
     fld ''extra_elems'' (Ptr ''struct htab_elem **''),
     fld ''pcount'' struct_percpu_counter,
     fld ''count'' ty_atomic_t,
     fld ''use_percpu_counter'' ty_bool,
     fld ''n_buckets'' ty_u32,
     fld ''elem_size'' ty_u32,
     fld ''hashrnd'' ty_u32,
     fld ''lockdep_key'' struct_lock_class_key,
     fld ''map_locked'' (Arr 8 (Ptr ''int *'')),
     bitfld '''' 64 (Base C_long),
     bitfld '''' 64 (Base C_long),
     bitfld '''' 64 (Base C_long),
     bitfld '''' 64 (Base C_long),
     bitfld '''' 64 (Base C_long),
     bitfld '''' 64 (Base C_long),
     bitfld '''' 64 (Base C_long)]"

lemma dims_struct_bpf_htab [c_dims]: "dims struct_bpf_htab = (832, 8)"
  by (simp add: struct_bpf_htab_def c_dims)

definition struct_hlist_nulls_node :: ctype where
  "struct_hlist_nulls_node = Struct
    [fld ''next'' (Ptr ''struct hlist_nulls_node *''),
     fld ''pprev'' (Ptr ''struct hlist_nulls_node **'')]"

lemma dims_struct_hlist_nulls_node [c_dims]: "dims struct_hlist_nulls_node = (16, 8)"
  by (simp add: struct_hlist_nulls_node_def c_dims)

definition struct_pcpu_freelist_node :: ctype where
  "struct_pcpu_freelist_node = Struct
    [fld ''next'' (Ptr ''struct pcpu_freelist_node *'')]"

lemma dims_struct_pcpu_freelist_node [c_dims]: "dims struct_pcpu_freelist_node = (8, 8)"
  by (simp add: struct_pcpu_freelist_node_def c_dims)

definition struct_bpf_lru_node :: ctype where
  "struct_bpf_lru_node = Struct
    [fld ''list'' struct_list_head,
     fld ''cpu'' ty_u16,
     fld ''type'' ty_u8,
     fld ''ref'' ty_u8]"

lemma dims_struct_bpf_lru_node [c_dims]: "dims struct_bpf_lru_node = (24, 8)"
  by (simp add: struct_bpf_lru_node_def c_dims)

definition struct_htab_elem :: ctype where
  "struct_htab_elem = Struct
    [fld '''' (Union
       [fld ''hash_node'' struct_hlist_nulls_node,
        fld '''' (Struct
          [fld ''padding'' (Ptr ''void *''),
           fld '''' (Union
             [fld ''fnode'' struct_pcpu_freelist_node,
              fld ''batch_flink'' (Ptr ''struct htab_elem *'')])])]),
     fld '''' (Union
       [fld ''ptr_to_pptr'' (Ptr ''void *''),
        fld ''lru_node'' struct_bpf_lru_node]),
     fld ''hash'' ty_u32,
     bitfld '''' 0 (Base C_long),
     fld ''key'' (Arr 0 (Base C_char))]"

lemma dims_struct_htab_elem [c_dims]: "dims struct_htab_elem = (48, 8)"
  by (simp add: struct_htab_elem_def c_dims)

definition struct_bpf_lpm_trie_key_hdr :: ctype where
  "struct_bpf_lpm_trie_key_hdr = Struct
    [fld ''prefixlen'' ty___u32]"

lemma dims_struct_bpf_lpm_trie_key_hdr [c_dims]: "dims struct_bpf_lpm_trie_key_hdr = (4, 4)"
  by (simp add: struct_bpf_lpm_trie_key_hdr_def c_dims)

definition struct_bpf_lpm_trie_key_u8 :: ctype where
  "struct_bpf_lpm_trie_key_u8 = Struct
    [fld '''' (Union
       [fld ''hdr'' struct_bpf_lpm_trie_key_hdr,
        fld ''prefixlen'' ty___u32]),
     fld ''data'' (Arr 0 ty___u8)]"

lemma dims_struct_bpf_lpm_trie_key_u8 [c_dims]: "dims struct_bpf_lpm_trie_key_u8 = (4, 4)"
  by (simp add: struct_bpf_lpm_trie_key_u8_def c_dims)

definition struct_lpm_trie_node :: ctype where
  "struct_lpm_trie_node = Struct
    [fld ''rcu'' struct_callback_head,
     fld ''child'' (Arr 2 (Ptr ''struct lpm_trie_node *'')),
     fld ''prefixlen'' ty_u32,
     fld ''flags'' ty_u32,
     fld ''data'' (Arr 0 ty_u8)]"

lemma dims_struct_lpm_trie_node [c_dims]: "dims struct_lpm_trie_node = (40, 8)"
  by (simp add: struct_lpm_trie_node_def c_dims)

definition ty___kernel_ulong_t :: ctype where
  "ty___kernel_ulong_t = Base C_ulong"

lemma dims_ty___kernel_ulong_t [c_dims]: "dims ty___kernel_ulong_t = (8, 8)"
  by (simp add: ty___kernel_ulong_t_def c_dims)

definition ty___kernel_size_t :: ctype where
  "ty___kernel_size_t = ty___kernel_ulong_t"

lemma dims_ty___kernel_size_t [c_dims]: "dims ty___kernel_size_t = (8, 8)"
  by (simp add: ty___kernel_size_t_def c_dims)

definition ty_size_t :: ctype where
  "ty_size_t = ty___kernel_size_t"

lemma dims_ty_size_t [c_dims]: "dims ty_size_t = (8, 8)"
  by (simp add: ty_size_t_def c_dims)

definition struct_lpm_trie :: ctype where
  "struct_lpm_trie = Struct
    [fld ''map'' struct_bpf_map,
     fld ''root'' (Ptr ''struct lpm_trie_node *''),
     fld ''n_entries'' ty_size_t,
     fld ''max_prefixlen'' ty_size_t,
     fld ''data_size'' ty_size_t,
     fld ''lock'' ty_spinlock_t,
     bitfld '''' 64 (Base C_long),
     bitfld '''' 64 (Base C_long),
     bitfld '''' 64 (Base C_long)]"

lemma dims_struct_lpm_trie [c_dims]: "dims struct_lpm_trie = (320, 8)"
  by (simp add: struct_lpm_trie_def c_dims)

definition struct_bpf_ringbuf_hdr :: ctype where
  "struct_bpf_ringbuf_hdr = Struct
    [fld ''len'' ty_u32,
     fld ''pg_off'' ty_u32]"

lemma dims_struct_bpf_ringbuf_hdr [c_dims]: "dims struct_bpf_ringbuf_hdr = (8, 4)"
  by (simp add: struct_bpf_ringbuf_hdr_def c_dims)

definition struct_wait_queue_head :: ctype where
  "struct_wait_queue_head = Struct
    [fld ''lock'' ty_spinlock_t,
     fld ''head'' struct_list_head]"

lemma dims_struct_wait_queue_head [c_dims]: "dims struct_wait_queue_head = (24, 8)"
  by (simp add: struct_wait_queue_head_def c_dims)

definition ty_wait_queue_head_t :: ctype where
  "ty_wait_queue_head_t = struct_wait_queue_head"

lemma dims_ty_wait_queue_head_t [c_dims]: "dims ty_wait_queue_head_t = (24, 8)"
  by (simp add: ty_wait_queue_head_t_def c_dims)

definition struct_llist_node :: ctype where
  "struct_llist_node = Struct
    [fld ''next'' (Ptr ''struct llist_node *'')]"

lemma dims_struct_llist_node [c_dims]: "dims struct_llist_node = (8, 8)"
  by (simp add: struct_llist_node_def c_dims)

definition struct___call_single_node :: ctype where
  "struct___call_single_node = Struct
    [fld ''llist'' struct_llist_node,
     fld '''' (Union
       [fld ''u_flags'' (Base C_uint),
        fld ''a_flags'' ty_atomic_t]),
     fld ''src'' ty_u16,
     fld ''dst'' ty_u16]"

lemma dims_struct___call_single_node [c_dims]: "dims struct___call_single_node = (16, 8)"
  by (simp add: struct___call_single_node_def c_dims)

definition struct_rcuwait :: ctype where
  "struct_rcuwait = Struct
    [fld ''task'' (Ptr ''struct task_struct *'')]"

lemma dims_struct_rcuwait [c_dims]: "dims struct_rcuwait = (8, 8)"
  by (simp add: struct_rcuwait_def c_dims)

definition struct_irq_work :: ctype where
  "struct_irq_work = Struct
    [fld ''node'' struct___call_single_node,
     fld ''func'' (Ptr ''void (*)(struct irq_work *)''),
     fld ''irqwait'' struct_rcuwait]"

lemma dims_struct_irq_work [c_dims]: "dims struct_irq_work = (32, 8)"
  by (simp add: struct_irq_work_def c_dims)

definition bpf_ringbuf_head :: "cmember list" where
  "bpf_ringbuf_head =
    [fld ''waitq'' ty_wait_queue_head_t,
     fld ''work'' struct_irq_work,
     fld ''mask'' ty_u64,
     fld ''pages'' (Ptr ''struct page **''),
     fld ''nr_pages'' (Base C_int),
     bitfld '''' 64 (Base C_long),
     bitfld '''' 64 (Base C_long),
     bitfld '''' 64 (Base C_long),
     bitfld '''' 64 (Base C_long),
     bitfld '''' 64 (Base C_long),
     bitfld '''' 64 (Base C_long),
     fld ''spinlock'' ty_raw_spinlock_t,
     bitfld '''' 64 (Base C_long),
     bitfld '''' 64 (Base C_long),
     bitfld '''' 64 (Base C_long),
     bitfld '''' 64 (Base C_long),
     bitfld '''' 64 (Base C_long),
     bitfld '''' 64 (Base C_long),
     bitfld '''' 64 (Base C_long)]"

definition bpf_ringbuf_busy :: "cmember list" where
  "bpf_ringbuf_busy =
    [fld ''busy'' ty_atomic_t] @
     replicate 487 (bitfld '''' 64 (Base C_long))"

definition bpf_ringbuf_consumer :: "cmember list" where
  "bpf_ringbuf_consumer =
    [fld ''consumer_pos'' (Base C_ulong)] @
     replicate 511 (bitfld '''' 64 (Base C_long))"

definition bpf_ringbuf_producer :: "cmember list" where
  "bpf_ringbuf_producer =
    [fld ''producer_pos'' (Base C_ulong),
     fld ''pending_pos'' (Base C_ulong)] @
     replicate 510 (bitfld '''' 64 (Base C_long))"

definition bpf_ringbuf_data :: "cmember list" where
  "bpf_ringbuf_data =
    [fld ''data'' (Arr 0 (Base C_char))]"

definition struct_bpf_ringbuf :: ctype where
  "struct_bpf_ringbuf = Struct
    (bpf_ringbuf_head @ bpf_ringbuf_busy @ bpf_ringbuf_consumer @
     bpf_ringbuf_producer @ bpf_ringbuf_data)"

lemmas bpf_ringbuf_regions =
  bpf_ringbuf_head_def bpf_ringbuf_busy_def bpf_ringbuf_consumer_def bpf_ringbuf_producer_def
  bpf_ringbuf_data_def

lemma dims_struct_bpf_ringbuf [c_dims]: "dims struct_bpf_ringbuf = (12288, 8)"
  by (simp add: struct_bpf_ringbuf_def bpf_ringbuf_regions c_dims struct_walk_padding)

lemma bpf_ringbuf_slots:
  "slot_of struct_bpf_ringbuf ''consumer_pos'' = Some (8 * 4096, 64)"
  "slot_of struct_bpf_ringbuf ''producer_pos'' = Some (8 * 8192, 64)"
  "slot_of struct_bpf_ringbuf ''pending_pos'' = Some (8 * 8200, 64)"
  "slot_of struct_bpf_ringbuf ''data'' = Some (8 * 12288, 0)"
  by (simp_all add: struct_bpf_ringbuf_def bpf_ringbuf_regions slot_simps c_dims
      struct_slots_Cons slots_padding del: struct_slots.simps)

definition struct_bpf_ringbuf_map :: ctype where
  "struct_bpf_ringbuf_map = Struct
    [fld ''map'' struct_bpf_map,
     fld ''rb'' (Ptr ''struct bpf_ringbuf *''),
     bitfld '''' 64 (Base C_long),
     bitfld '''' 64 (Base C_long),
     bitfld '''' 64 (Base C_long),
     bitfld '''' 64 (Base C_long),
     bitfld '''' 64 (Base C_long),
     bitfld '''' 64 (Base C_long),
     bitfld '''' 64 (Base C_long)]"

lemma dims_struct_bpf_ringbuf_map [c_dims]: "dims struct_bpf_ringbuf_map = (320, 8)"
  by (simp add: struct_bpf_ringbuf_map_def c_dims)

definition struct_bpf_map_info :: ctype where
  "struct_bpf_map_info = Struct
    [fld ''type'' ty___u32,
     fld ''id'' ty___u32,
     fld ''key_size'' ty___u32,
     fld ''value_size'' ty___u32,
     fld ''max_entries'' ty___u32,
     fld ''map_flags'' ty___u32,
     fld ''name'' (Arr 16 (Base C_char)),
     fld ''ifindex'' ty___u32,
     fld ''btf_vmlinux_value_type_id'' ty___u32,
     fld ''netns_dev'' ty___u64,
     fld ''netns_ino'' ty___u64,
     fld ''btf_id'' ty___u32,
     fld ''btf_key_type_id'' ty___u32,
     fld ''btf_value_type_id'' ty___u32,
     fld ''map_extra'' ty___u64]"

lemma dims_struct_bpf_map_info [c_dims]: "dims struct_bpf_map_info = (88, 8)"
  by (simp add: struct_bpf_map_info_def c_dims)

end
