(* ===== verification/Kernel_Prog.thy ===== *)
theory Kernel_Prog
  imports Kernel_Maps
begin

text \<open>
  The kernel's view of a loaded program, from \<open>src/shield/bpf/include/vmlinux.h\<close>: instructions, the
  program object, the argument of the \<open>bpf\<close> system call with its commands, the helper numbers and
  the verifier's state.
\<close>

definition ty___s16 :: ctype where
  "ty___s16 = Base C_short"

lemma dims_ty___s16 [c_dims]: "dims ty___s16 = (2, 2)"
  by (simp add: ty___s16_def c_dims)

definition ty___s32 :: ctype where
  "ty___s32 = Base C_int"

lemma dims_ty___s32 [c_dims]: "dims ty___s32 = (4, 4)"
  by (simp add: ty___s32_def c_dims)

definition struct_bpf_insn :: ctype where
  "struct_bpf_insn = Struct
    [fld ''code'' ty___u8,
     bitfld ''dst_reg'' 4 ty___u8,
     bitfld ''src_reg'' 4 ty___u8,
     fld ''off'' ty___s16,
     fld ''imm'' ty___s32]"

lemma dims_struct_bpf_insn [c_dims]: "dims struct_bpf_insn = (8, 4)"
  by (simp add: struct_bpf_insn_def c_dims)

definition enum_bpf_prog_type :: "(string \<times> int) list" where
  "enum_bpf_prog_type =
    [(''BPF_PROG_TYPE_UNSPEC'', 0),
     (''BPF_PROG_TYPE_SOCKET_FILTER'', 1),
     (''BPF_PROG_TYPE_KPROBE'', 2),
     (''BPF_PROG_TYPE_SCHED_CLS'', 3),
     (''BPF_PROG_TYPE_SCHED_ACT'', 4),
     (''BPF_PROG_TYPE_TRACEPOINT'', 5),
     (''BPF_PROG_TYPE_XDP'', 6),
     (''BPF_PROG_TYPE_PERF_EVENT'', 7),
     (''BPF_PROG_TYPE_CGROUP_SKB'', 8),
     (''BPF_PROG_TYPE_CGROUP_SOCK'', 9),
     (''BPF_PROG_TYPE_LWT_IN'', 10),
     (''BPF_PROG_TYPE_LWT_OUT'', 11),
     (''BPF_PROG_TYPE_LWT_XMIT'', 12),
     (''BPF_PROG_TYPE_SOCK_OPS'', 13),
     (''BPF_PROG_TYPE_SK_SKB'', 14),
     (''BPF_PROG_TYPE_CGROUP_DEVICE'', 15),
     (''BPF_PROG_TYPE_SK_MSG'', 16),
     (''BPF_PROG_TYPE_RAW_TRACEPOINT'', 17),
     (''BPF_PROG_TYPE_CGROUP_SOCK_ADDR'', 18),
     (''BPF_PROG_TYPE_LWT_SEG6LOCAL'', 19),
     (''BPF_PROG_TYPE_LIRC_MODE2'', 20),
     (''BPF_PROG_TYPE_SK_REUSEPORT'', 21),
     (''BPF_PROG_TYPE_FLOW_DISSECTOR'', 22),
     (''BPF_PROG_TYPE_CGROUP_SYSCTL'', 23),
     (''BPF_PROG_TYPE_RAW_TRACEPOINT_WRITABLE'', 24),
     (''BPF_PROG_TYPE_CGROUP_SOCKOPT'', 25),
     (''BPF_PROG_TYPE_TRACING'', 26),
     (''BPF_PROG_TYPE_STRUCT_OPS'', 27),
     (''BPF_PROG_TYPE_EXT'', 28),
     (''BPF_PROG_TYPE_LSM'', 29),
     (''BPF_PROG_TYPE_SK_LOOKUP'', 30),
     (''BPF_PROG_TYPE_SYSCALL'', 31)]"

lemma size_enum_bpf_prog_type [c_dims]: "enum_size enum_bpf_prog_type = 4"
  by (simp add: enum_size_def enum_bpf_prog_type_def)

definition enum_bpf_attach_type :: "(string \<times> int) list" where
  "enum_bpf_attach_type =
    [(''BPF_CGROUP_INET_INGRESS'', 0),
     (''BPF_CGROUP_INET_EGRESS'', 1),
     (''BPF_CGROUP_INET_SOCK_CREATE'', 2),
     (''BPF_CGROUP_SOCK_OPS'', 3),
     (''BPF_SK_SKB_STREAM_PARSER'', 4),
     (''BPF_SK_SKB_STREAM_VERDICT'', 5),
     (''BPF_CGROUP_DEVICE'', 6),
     (''BPF_SK_MSG_VERDICT'', 7),
     (''BPF_CGROUP_INET4_BIND'', 8),
     (''BPF_CGROUP_INET6_BIND'', 9),
     (''BPF_CGROUP_INET4_CONNECT'', 10),
     (''BPF_CGROUP_INET6_CONNECT'', 11),
     (''BPF_CGROUP_INET4_POST_BIND'', 12),
     (''BPF_CGROUP_INET6_POST_BIND'', 13),
     (''BPF_CGROUP_UDP4_SENDMSG'', 14),
     (''BPF_CGROUP_UDP6_SENDMSG'', 15),
     (''BPF_LIRC_MODE2'', 16),
     (''BPF_FLOW_DISSECTOR'', 17),
     (''BPF_CGROUP_SYSCTL'', 18),
     (''BPF_CGROUP_UDP4_RECVMSG'', 19),
     (''BPF_CGROUP_UDP6_RECVMSG'', 20),
     (''BPF_CGROUP_GETSOCKOPT'', 21),
     (''BPF_CGROUP_SETSOCKOPT'', 22),
     (''BPF_TRACE_RAW_TP'', 23),
     (''BPF_TRACE_FENTRY'', 24),
     (''BPF_TRACE_FEXIT'', 25),
     (''BPF_MODIFY_RETURN'', 26),
     (''BPF_LSM_MAC'', 27),
     (''BPF_TRACE_ITER'', 28),
     (''BPF_CGROUP_INET4_GETPEERNAME'', 29),
     (''BPF_CGROUP_INET6_GETPEERNAME'', 30),
     (''BPF_CGROUP_INET4_GETSOCKNAME'', 31),
     (''BPF_CGROUP_INET6_GETSOCKNAME'', 32),
     (''BPF_XDP_DEVMAP'', 33),
     (''BPF_CGROUP_INET_SOCK_RELEASE'', 34),
     (''BPF_XDP_CPUMAP'', 35),
     (''BPF_SK_LOOKUP'', 36),
     (''BPF_XDP'', 37),
     (''BPF_SK_SKB_VERDICT'', 38),
     (''BPF_SK_REUSEPORT_SELECT'', 39),
     (''BPF_SK_REUSEPORT_SELECT_OR_MIGRATE'', 40),
     (''BPF_PERF_EVENT'', 41),
     (''BPF_TRACE_KPROBE_MULTI'', 42),
     (''BPF_LSM_CGROUP'', 43),
     (''__MAX_BPF_ATTACH_TYPE'', 44)]"

lemma size_enum_bpf_attach_type [c_dims]: "enum_size enum_bpf_attach_type = 4"
  by (simp add: enum_size_def enum_bpf_attach_type_def)

definition struct_sock_filter :: ctype where
  "struct_sock_filter = Struct
    [fld ''code'' ty___u16,
     fld ''jt'' ty___u8,
     fld ''jf'' ty___u8,
     fld ''k'' ty___u32]"

lemma dims_struct_sock_filter [c_dims]: "dims struct_sock_filter = (8, 4)"
  by (simp add: struct_sock_filter_def c_dims)

definition struct_bpf_prog :: ctype where
  "struct_bpf_prog = Struct
    [fld ''pages'' ty_u16,
     bitfld ''jited'' 1 ty_u16,
     bitfld ''jit_requested'' 1 ty_u16,
     bitfld ''gpl_compatible'' 1 ty_u16,
     bitfld ''cb_access'' 1 ty_u16,
     bitfld ''dst_needed'' 1 ty_u16,
     bitfld ''blinding_requested'' 1 ty_u16,
     bitfld ''blinded'' 1 ty_u16,
     bitfld ''is_func'' 1 ty_u16,
     bitfld ''kprobe_override'' 1 ty_u16,
     bitfld ''has_callchain_buf'' 1 ty_u16,
     bitfld ''enforce_expected_attach_type'' 1 ty_u16,
     bitfld ''call_get_stack'' 1 ty_u16,
     bitfld ''call_get_func_ip'' 1 ty_u16,
     bitfld ''tstamp_type_access'' 1 ty_u16,
     fld ''type'' (Enum enum_bpf_prog_type),
     fld ''expected_attach_type'' (Enum enum_bpf_attach_type),
     fld ''len'' ty_u32,
     fld ''jited_len'' ty_u32,
     fld ''tag'' (Arr 8 ty_u8),
     fld ''stats'' (Ptr ''struct bpf_prog_stats *''),
     fld ''active'' (Ptr ''int *''),
     fld ''bpf_func'' (Ptr ''unsigned int (*)(const void *, const struct bpf_insn *)''),
     fld ''aux'' (Ptr ''struct bpf_prog_aux *''),
     fld ''orig_prog'' (Ptr ''struct sock_fprog_kern *''),
     fld '''' (Union
       [fld '''' (Struct
          [fld ''__empty_insns'' (Struct []),
           fld ''insns'' (Arr 0 struct_sock_filter)]),
        fld '''' (Struct
          [fld ''__empty_insnsi'' (Struct []),
           fld ''insnsi'' (Arr 0 struct_bpf_insn)])])]"

lemma dims_struct_bpf_prog [c_dims]: "dims struct_bpf_prog = (72, 8)"
  by (simp add: struct_bpf_prog_def c_dims)

definition struct_rb_node :: ctype where
  "struct_rb_node = Struct
    [fld ''__rb_parent_color'' (Base C_ulong),
     fld ''rb_right'' (Ptr ''struct rb_node *''),
     fld ''rb_left'' (Ptr ''struct rb_node *'')]"

lemma dims_struct_rb_node [c_dims]: "dims struct_rb_node = (24, 8)"
  by (simp add: struct_rb_node_def c_dims)

definition struct_latch_tree_node :: ctype where
  "struct_latch_tree_node = Struct
    [fld ''node'' (Arr 2 struct_rb_node)]"

lemma dims_struct_latch_tree_node [c_dims]: "dims struct_latch_tree_node = (48, 8)"
  by (simp add: struct_latch_tree_node_def c_dims)

definition struct_bpf_ksym :: ctype where
  "struct_bpf_ksym = Struct
    [fld ''start'' (Base C_ulong),
     fld ''end'' (Base C_ulong),
     fld ''name'' (Arr 512 (Base C_char)),
     fld ''lnode'' struct_list_head,
     fld ''tnode'' struct_latch_tree_node,
     fld ''prog'' ty_bool]"

lemma dims_struct_bpf_ksym [c_dims]: "dims struct_bpf_ksym = (600, 8)"
  by (simp add: struct_bpf_ksym_def c_dims)

definition struct_bpf_prog_aux :: ctype where
  "struct_bpf_prog_aux = Struct
    [fld ''refcnt'' ty_atomic64_t,
     fld ''used_map_cnt'' ty_u32,
     fld ''used_btf_cnt'' ty_u32,
     fld ''max_ctx_offset'' ty_u32,
     fld ''max_pkt_offset'' ty_u32,
     fld ''max_tp_access'' ty_u32,
     fld ''stack_depth'' ty_u32,
     fld ''id'' ty_u32,
     fld ''func_cnt'' ty_u32,
     fld ''func_idx'' ty_u32,
     fld ''attach_btf_id'' ty_u32,
     fld ''ctx_arg_info_size'' ty_u32,
     fld ''max_rdonly_access'' ty_u32,
     fld ''max_rdwr_access'' ty_u32,
     fld ''attach_btf'' (Ptr ''struct btf *''),
     fld ''ctx_arg_info'' (Ptr ''const struct bpf_ctx_arg_aux *''),
     fld ''dst_mutex'' struct_mutex,
     fld ''dst_prog'' (Ptr ''struct bpf_prog *''),
     fld ''dst_trampoline'' (Ptr ''struct bpf_trampoline *''),
     fld ''saved_dst_prog_type'' (Enum enum_bpf_prog_type),
     fld ''saved_dst_attach_type'' (Enum enum_bpf_attach_type),
     fld ''verifier_zext'' ty_bool,
     fld ''offload_requested'' ty_bool,
     fld ''attach_btf_trace'' ty_bool,
     fld ''func_proto_unreliable'' ty_bool,
     fld ''sleepable'' ty_bool,
     fld ''tail_call_reachable'' ty_bool,
     fld ''xdp_has_frags'' ty_bool,
     fld ''attach_func_proto'' (Ptr ''const struct btf_type *''),
     fld ''attach_func_name'' (Ptr ''const char *''),
     fld ''func'' (Ptr ''struct bpf_prog **''),
     fld ''jit_data'' (Ptr ''void *''),
     fld ''poke_tab'' (Ptr ''struct bpf_jit_poke_descriptor *''),
     fld ''kfunc_tab'' (Ptr ''struct bpf_kfunc_desc_tab *''),
     fld ''kfunc_btf_tab'' (Ptr ''struct bpf_kfunc_btf_tab *''),
     fld ''size_poke_tab'' ty_u32,
     fld ''ksym'' struct_bpf_ksym,
     fld ''ops'' (Ptr ''const struct bpf_prog_ops *''),
     fld ''used_maps'' (Ptr ''struct bpf_map **''),
     fld ''used_maps_mutex'' struct_mutex,
     fld ''used_btfs'' (Ptr ''struct btf_mod_pair *''),
     fld ''prog'' (Ptr ''struct bpf_prog *''),
     fld ''user'' (Ptr ''struct user_struct *''),
     fld ''load_time'' ty_u64,
     fld ''verified_insns'' ty_u32,
     fld ''cgroup_atype'' (Base C_int),
     fld ''cgroup_storage'' (Arr 2 (Ptr ''struct bpf_map *'')),
     fld ''name'' (Arr 16 (Base C_char)),
     fld ''security'' (Ptr ''void *''),
     fld ''offload'' (Ptr ''struct bpf_prog_offload *''),
     fld ''btf'' (Ptr ''struct btf *''),
     fld ''func_info'' (Ptr ''struct bpf_func_info *''),
     fld ''func_info_aux'' (Ptr ''struct bpf_func_info_aux *''),
     fld ''linfo'' (Ptr ''struct bpf_line_info *''),
     fld ''jited_linfo'' (Ptr ''void **''),
     fld ''func_info_cnt'' ty_u32,
     fld ''nr_linfo'' ty_u32,
     fld ''linfo_idx'' ty_u32,
     fld ''num_exentries'' ty_u32,
     fld ''extable'' (Ptr ''struct exception_table_entry *''),
     fld '''' (Union
       [fld ''work'' struct_work_struct,
        fld ''rcu'' struct_callback_head])]"

lemma dims_struct_bpf_prog_aux [c_dims]: "dims struct_bpf_prog_aux = (1040, 8)"
  by (simp add: struct_bpf_prog_aux_def c_dims)

definition enum_bpf_return_type :: "(string \<times> int) list" where
  "enum_bpf_return_type =
    [(''RET_INTEGER'', 0),
     (''RET_VOID'', 1),
     (''RET_PTR_TO_MAP_VALUE'', 2),
     (''RET_PTR_TO_SOCKET'', 3),
     (''RET_PTR_TO_TCP_SOCK'', 4),
     (''RET_PTR_TO_SOCK_COMMON'', 5),
     (''RET_PTR_TO_ALLOC_MEM'', 6),
     (''RET_PTR_TO_MEM_OR_BTF_ID'', 7),
     (''RET_PTR_TO_BTF_ID'', 8),
     (''__BPF_RET_TYPE_MAX'', 9),
     (''RET_PTR_TO_MAP_VALUE_OR_NULL'', 258),
     (''RET_PTR_TO_SOCKET_OR_NULL'', 259),
     (''RET_PTR_TO_TCP_SOCK_OR_NULL'', 260),
     (''RET_PTR_TO_SOCK_COMMON_OR_NULL'', 261),
     (''RET_PTR_TO_ALLOC_MEM_OR_NULL'', 1286),
     (''RET_PTR_TO_DYNPTR_MEM_OR_NULL'', 262),
     (''RET_PTR_TO_BTF_ID_OR_NULL'', 264),
     (''__BPF_RET_TYPE_LIMIT'', 134217727)]"

lemma size_enum_bpf_return_type [c_dims]: "enum_size enum_bpf_return_type = 4"
  by (simp add: enum_size_def enum_bpf_return_type_def)

definition enum_bpf_arg_type :: "(string \<times> int) list" where
  "enum_bpf_arg_type =
    [(''ARG_DONTCARE'', 0),
     (''ARG_CONST_MAP_PTR'', 1),
     (''ARG_PTR_TO_MAP_KEY'', 2),
     (''ARG_PTR_TO_MAP_VALUE'', 3),
     (''ARG_PTR_TO_MEM'', 4),
     (''ARG_CONST_SIZE'', 5),
     (''ARG_CONST_SIZE_OR_ZERO'', 6),
     (''ARG_PTR_TO_CTX'', 7),
     (''ARG_ANYTHING'', 8),
     (''ARG_PTR_TO_SPIN_LOCK'', 9),
     (''ARG_PTR_TO_SOCK_COMMON'', 10),
     (''ARG_PTR_TO_SOCKET'', 11),
     (''ARG_PTR_TO_BTF_ID'', 12),
     (''ARG_PTR_TO_ALLOC_MEM'', 13),
     (''ARG_CONST_ALLOC_SIZE_OR_ZERO'', 14),
     (''ARG_PTR_TO_BTF_ID_SOCK_COMMON'', 15),
     (''ARG_PTR_TO_PERCPU_BTF_ID'', 16),
     (''ARG_PTR_TO_FUNC'', 17),
     (''ARG_PTR_TO_STACK'', 18),
     (''ARG_PTR_TO_CONST_STR'', 19),
     (''ARG_PTR_TO_TIMER'', 20),
     (''ARG_PTR_TO_KPTR'', 21),
     (''ARG_PTR_TO_DYNPTR'', 22),
     (''__BPF_ARG_TYPE_MAX'', 23),
     (''ARG_PTR_TO_MAP_VALUE_OR_NULL'', 259),
     (''ARG_PTR_TO_MEM_OR_NULL'', 260),
     (''ARG_PTR_TO_CTX_OR_NULL'', 263),
     (''ARG_PTR_TO_SOCKET_OR_NULL'', 267),
     (''ARG_PTR_TO_ALLOC_MEM_OR_NULL'', 269),
     (''ARG_PTR_TO_STACK_OR_NULL'', 274),
     (''ARG_PTR_TO_BTF_ID_OR_NULL'', 268),
     (''ARG_PTR_TO_UNINIT_MEM'', 67141636),
     (''ARG_PTR_TO_FIXED_SIZE_MEM'', 262148),
     (''__BPF_ARG_TYPE_LIMIT'', 134217727)]"

lemma size_enum_bpf_arg_type [c_dims]: "enum_size enum_bpf_arg_type = 4"
  by (simp add: enum_size_def enum_bpf_arg_type_def)

definition struct_bpf_func_proto :: ctype where
  "struct_bpf_func_proto = Struct
    [fld ''func'' (Ptr ''u64 (*)(u64, u64, u64, u64, u64)''),
     fld ''gpl_only'' ty_bool,
     fld ''pkt_access'' ty_bool,
     fld ''ret_type'' (Enum enum_bpf_return_type),
     fld '''' (Union
       [fld '''' (Struct
          [fld ''arg1_type'' (Enum enum_bpf_arg_type),
           fld ''arg2_type'' (Enum enum_bpf_arg_type),
           fld ''arg3_type'' (Enum enum_bpf_arg_type),
           fld ''arg4_type'' (Enum enum_bpf_arg_type),
           fld ''arg5_type'' (Enum enum_bpf_arg_type)]),
        fld ''arg_type'' (Arr 5 (Enum enum_bpf_arg_type))]),
     fld '''' (Union
       [fld '''' (Struct
          [fld ''arg1_btf_id'' (Ptr ''u32 *''),
           fld ''arg2_btf_id'' (Ptr ''u32 *''),
           fld ''arg3_btf_id'' (Ptr ''u32 *''),
           fld ''arg4_btf_id'' (Ptr ''u32 *''),
           fld ''arg5_btf_id'' (Ptr ''u32 *'')]),
        fld ''arg_btf_id'' (Arr 5 (Ptr ''u32 *'')),
        fld '''' (Struct
          [fld ''arg1_size'' ty_size_t,
           fld ''arg2_size'' ty_size_t,
           fld ''arg3_size'' ty_size_t,
           fld ''arg4_size'' ty_size_t,
           fld ''arg5_size'' ty_size_t]),
        fld ''arg_size'' (Arr 5 ty_size_t)]),
     fld ''ret_btf_id'' (Ptr ''int *''),
     fld ''allowed'' (Ptr ''bool (*)(const struct bpf_prog *)'')]"

lemma dims_struct_bpf_func_proto [c_dims]: "dims struct_bpf_func_proto = (96, 8)"
  by (simp add: struct_bpf_func_proto_def c_dims)

definition union_bpf_attr :: ctype where
  "union_bpf_attr = Union
    [fld '''' (Struct
       [fld ''map_type'' ty___u32,
        fld ''key_size'' ty___u32,
        fld ''value_size'' ty___u32,
        fld ''max_entries'' ty___u32,
        fld ''map_flags'' ty___u32,
        fld ''inner_map_fd'' ty___u32,
        fld ''numa_node'' ty___u32,
        fld ''map_name'' (Arr 16 (Base C_char)),
        fld ''map_ifindex'' ty___u32,
        fld ''btf_fd'' ty___u32,
        fld ''btf_key_type_id'' ty___u32,
        fld ''btf_value_type_id'' ty___u32,
        fld ''btf_vmlinux_value_type_id'' ty___u32,
        fld ''map_extra'' ty___u64]),
     fld '''' (Struct
       [fld ''map_fd'' ty___u32,
        fld ''key'' ty___u64,
        fld '''' (Union
          [fld ''value'' ty___u64,
           fld ''next_key'' ty___u64]),
        fld ''flags'' ty___u64]),
     fld ''batch'' (Struct
       [fld ''in_batch'' ty___u64,
        fld ''out_batch'' ty___u64,
        fld ''keys'' ty___u64,
        fld ''values'' ty___u64,
        fld ''count'' ty___u32,
        fld ''map_fd'' ty___u32,
        fld ''elem_flags'' ty___u64,
        fld ''flags'' ty___u64]),
     fld '''' (Struct
       [fld ''prog_type'' ty___u32,
        fld ''insn_cnt'' ty___u32,
        fld ''insns'' ty___u64,
        fld ''license'' ty___u64,
        fld ''log_level'' ty___u32,
        fld ''log_size'' ty___u32,
        fld ''log_buf'' ty___u64,
        fld ''kern_version'' ty___u32,
        fld ''prog_flags'' ty___u32,
        fld ''prog_name'' (Arr 16 (Base C_char)),
        fld ''prog_ifindex'' ty___u32,
        fld ''expected_attach_type'' ty___u32,
        fld ''prog_btf_fd'' ty___u32,
        fld ''func_info_rec_size'' ty___u32,
        fld ''func_info'' ty___u64,
        fld ''func_info_cnt'' ty___u32,
        fld ''line_info_rec_size'' ty___u32,
        fld ''line_info'' ty___u64,
        fld ''line_info_cnt'' ty___u32,
        fld ''attach_btf_id'' ty___u32,
        fld '''' (Union
          [fld ''attach_prog_fd'' ty___u32,
           fld ''attach_btf_obj_fd'' ty___u32]),
        fld ''core_relo_cnt'' ty___u32,
        fld ''fd_array'' ty___u64,
        fld ''core_relos'' ty___u64,
        fld ''core_relo_rec_size'' ty___u32]),
     fld '''' (Struct
       [fld ''pathname'' ty___u64,
        fld ''bpf_fd'' ty___u32,
        fld ''file_flags'' ty___u32]),
     fld '''' (Struct
       [fld ''target_fd'' ty___u32,
        fld ''attach_bpf_fd'' ty___u32,
        fld ''attach_type'' ty___u32,
        fld ''attach_flags'' ty___u32,
        fld ''replace_bpf_fd'' ty___u32]),
     fld ''test'' (Struct
       [fld ''prog_fd'' ty___u32,
        fld ''retval'' ty___u32,
        fld ''data_size_in'' ty___u32,
        fld ''data_size_out'' ty___u32,
        fld ''data_in'' ty___u64,
        fld ''data_out'' ty___u64,
        fld ''repeat'' ty___u32,
        fld ''duration'' ty___u32,
        fld ''ctx_size_in'' ty___u32,
        fld ''ctx_size_out'' ty___u32,
        fld ''ctx_in'' ty___u64,
        fld ''ctx_out'' ty___u64,
        fld ''flags'' ty___u32,
        fld ''cpu'' ty___u32,
        fld ''batch_size'' ty___u32]),
     fld '''' (Struct
       [fld '''' (Union
          [fld ''start_id'' ty___u32,
           fld ''prog_id'' ty___u32,
           fld ''map_id'' ty___u32,
           fld ''btf_id'' ty___u32,
           fld ''link_id'' ty___u32]),
        fld ''next_id'' ty___u32,
        fld ''open_flags'' ty___u32]),
     fld ''info'' (Struct
       [fld ''bpf_fd'' ty___u32,
        fld ''info_len'' ty___u32,
        fld ''info'' ty___u64]),
     fld ''query'' (Struct
       [fld ''target_fd'' ty___u32,
        fld ''attach_type'' ty___u32,
        fld ''query_flags'' ty___u32,
        fld ''attach_flags'' ty___u32,
        fld ''prog_ids'' ty___u64,
        fld ''prog_cnt'' ty___u32,
        fld ''prog_attach_flags'' ty___u64]),
     fld ''raw_tracepoint'' (Struct
       [fld ''name'' ty___u64,
        fld ''prog_fd'' ty___u32]),
     fld '''' (Struct
       [fld ''btf'' ty___u64,
        fld ''btf_log_buf'' ty___u64,
        fld ''btf_size'' ty___u32,
        fld ''btf_log_size'' ty___u32,
        fld ''btf_log_level'' ty___u32]),
     fld ''task_fd_query'' (Struct
       [fld ''pid'' ty___u32,
        fld ''fd'' ty___u32,
        fld ''flags'' ty___u32,
        fld ''buf_len'' ty___u32,
        fld ''buf'' ty___u64,
        fld ''prog_id'' ty___u32,
        fld ''fd_type'' ty___u32,
        fld ''probe_offset'' ty___u64,
        fld ''probe_addr'' ty___u64]),
     fld ''link_create'' (Struct
       [fld ''prog_fd'' ty___u32,
        fld '''' (Union
          [fld ''target_fd'' ty___u32,
           fld ''target_ifindex'' ty___u32]),
        fld ''attach_type'' ty___u32,
        fld ''flags'' ty___u32,
        fld '''' (Union
          [fld ''target_btf_id'' ty___u32,
           fld '''' (Struct
             [fld ''iter_info'' ty___u64,
              fld ''iter_info_len'' ty___u32]),
           fld ''perf_event'' (Struct
             [fld ''bpf_cookie'' ty___u64]),
           fld ''kprobe_multi'' (Struct
             [fld ''flags'' ty___u32,
              fld ''cnt'' ty___u32,
              fld ''syms'' ty___u64,
              fld ''addrs'' ty___u64,
              fld ''cookies'' ty___u64]),
           fld ''tracing'' (Struct
             [fld ''target_btf_id'' ty___u32,
              fld ''cookie'' ty___u64])])]),
     fld ''link_update'' (Struct
       [fld ''link_fd'' ty___u32,
        fld ''new_prog_fd'' ty___u32,
        fld ''flags'' ty___u32,
        fld ''old_prog_fd'' ty___u32]),
     fld ''link_detach'' (Struct
       [fld ''link_fd'' ty___u32]),
     fld ''enable_stats'' (Struct
       [fld ''type'' ty___u32]),
     fld ''iter_create'' (Struct
       [fld ''link_fd'' ty___u32,
        fld ''flags'' ty___u32]),
     fld ''prog_bind_map'' (Struct
       [fld ''prog_fd'' ty___u32,
        fld ''map_fd'' ty___u32,
        fld ''flags'' ty___u32])]"

lemma dims_union_bpf_attr [c_dims]: "dims union_bpf_attr = (144, 8)"
  by (simp add: union_bpf_attr_def c_dims)

definition struct_bpf_prog_info :: ctype where
  "struct_bpf_prog_info = Struct
    [fld ''type'' ty___u32,
     fld ''id'' ty___u32,
     fld ''tag'' (Arr 8 ty___u8),
     fld ''jited_prog_len'' ty___u32,
     fld ''xlated_prog_len'' ty___u32,
     fld ''jited_prog_insns'' ty___u64,
     fld ''xlated_prog_insns'' ty___u64,
     fld ''load_time'' ty___u64,
     fld ''created_by_uid'' ty___u32,
     fld ''nr_map_ids'' ty___u32,
     fld ''map_ids'' ty___u64,
     fld ''name'' (Arr 16 (Base C_char)),
     fld ''ifindex'' ty___u32,
     bitfld ''gpl_compatible'' 1 ty___u32,
     fld ''netns_dev'' ty___u64,
     fld ''netns_ino'' ty___u64,
     fld ''nr_jited_ksyms'' ty___u32,
     fld ''nr_jited_func_lens'' ty___u32,
     fld ''jited_ksyms'' ty___u64,
     fld ''jited_func_lens'' ty___u64,
     fld ''btf_id'' ty___u32,
     fld ''func_info_rec_size'' ty___u32,
     fld ''func_info'' ty___u64,
     fld ''nr_func_info'' ty___u32,
     fld ''nr_line_info'' ty___u32,
     fld ''line_info'' ty___u64,
     fld ''jited_line_info'' ty___u64,
     fld ''nr_jited_line_info'' ty___u32,
     fld ''line_info_rec_size'' ty___u32,
     fld ''jited_line_info_rec_size'' ty___u32,
     fld ''nr_prog_tags'' ty___u32,
     fld ''prog_tags'' ty___u64,
     fld ''run_time_ns'' ty___u64,
     fld ''run_cnt'' ty___u64,
     fld ''recursion_misses'' ty___u64,
     fld ''verified_insns'' ty___u32,
     fld ''attach_btf_obj_id'' ty___u32,
     fld ''attach_btf_id'' ty___u32]"

lemma dims_struct_bpf_prog_info [c_dims]: "dims struct_bpf_prog_info = (232, 8)"
  by (simp add: struct_bpf_prog_info_def c_dims)

definition struct_bpf_link_info :: ctype where
  "struct_bpf_link_info = Struct
    [fld ''type'' ty___u32,
     fld ''id'' ty___u32,
     fld ''prog_id'' ty___u32,
     fld '''' (Union
       [fld ''raw_tracepoint'' (Struct
          [fld ''tp_name'' ty___u64,
           fld ''tp_name_len'' ty___u32]),
        fld ''tracing'' (Struct
          [fld ''attach_type'' ty___u32,
           fld ''target_obj_id'' ty___u32,
           fld ''target_btf_id'' ty___u32]),
        fld ''cgroup'' (Struct
          [fld ''cgroup_id'' ty___u64,
           fld ''attach_type'' ty___u32]),
        fld ''iter'' (Struct
          [fld ''target_name'' ty___u64,
           fld ''target_name_len'' ty___u32,
           fld '''' (Union
             [fld ''map'' (Struct
                [fld ''map_id'' ty___u32])]),
           fld '''' (Union
             [fld ''cgroup'' (Struct
                [fld ''cgroup_id'' ty___u64,
                 fld ''order'' ty___u32]),
              fld ''task'' (Struct
                [fld ''tid'' ty___u32,
                 fld ''pid'' ty___u32])])]),
        fld ''netns'' (Struct
          [fld ''netns_ino'' ty___u32,
           fld ''attach_type'' ty___u32]),
        fld ''xdp'' (Struct
          [fld ''ifindex'' ty___u32])])]"

lemma dims_struct_bpf_link_info [c_dims]: "dims struct_bpf_link_info = (48, 8)"
  by (simp add: struct_bpf_link_info_def c_dims)

definition struct_refcount_struct :: ctype where
  "struct_refcount_struct = Struct
    [fld ''refs'' ty_atomic_t]"

lemma dims_struct_refcount_struct [c_dims]: "dims struct_refcount_struct = (4, 4)"
  by (simp add: struct_refcount_struct_def c_dims)

definition ty_refcount_t :: ctype where
  "ty_refcount_t = struct_refcount_struct"

lemma dims_ty_refcount_t [c_dims]: "dims ty_refcount_t = (4, 4)"
  by (simp add: ty_refcount_t_def c_dims)

definition struct_bpf_dispatcher_prog :: ctype where
  "struct_bpf_dispatcher_prog = Struct
    [fld ''prog'' (Ptr ''struct bpf_prog *''),
     fld ''users'' ty_refcount_t]"

lemma dims_struct_bpf_dispatcher_prog [c_dims]: "dims struct_bpf_dispatcher_prog = (16, 8)"
  by (simp add: struct_bpf_dispatcher_prog_def c_dims)

definition struct_bpf_dispatcher :: ctype where
  "struct_bpf_dispatcher = Struct
    [fld ''mutex'' struct_mutex,
     fld ''func'' (Ptr ''void *''),
     fld ''progs'' (Arr 48 struct_bpf_dispatcher_prog),
     fld ''num_progs'' (Base C_int),
     fld ''image'' (Ptr ''void *''),
     fld ''rw_image'' (Ptr ''void *''),
     fld ''image_off'' ty_u32,
     fld ''ksym'' struct_bpf_ksym,
     fld ''sc_key'' (Ptr ''struct static_call_key *''),
     fld ''sc_tramp'' (Ptr ''void *'')]"

lemma dims_struct_bpf_dispatcher [c_dims]: "dims struct_bpf_dispatcher = (1456, 8)"
  by (simp add: struct_bpf_dispatcher_def c_dims)

definition struct_bpf_call_arg_meta :: ctype where
  "struct_bpf_call_arg_meta = Struct
    [fld ''map_ptr'' (Ptr ''struct bpf_map *''),
     fld ''raw_mode'' ty_bool,
     fld ''pkt_access'' ty_bool,
     fld ''release_regno'' ty_u8,
     fld ''regno'' (Base C_int),
     fld ''access_size'' (Base C_int),
     fld ''mem_size'' (Base C_int),
     fld ''msize_max_value'' ty_u64,
     fld ''ref_obj_id'' (Base C_int),
     fld ''map_uid'' (Base C_int),
     fld ''func_id'' (Base C_int),
     fld ''btf'' (Ptr ''struct btf *''),
     fld ''btf_id'' ty_u32,
     fld ''ret_btf'' (Ptr ''struct btf *''),
     fld ''ret_btf_id'' ty_u32,
     fld ''subprogno'' ty_u32,
     fld ''kptr_off_desc'' (Ptr ''struct bpf_map_value_off_desc *''),
     fld ''uninit_dynptr_regno'' ty_u8]"

lemma dims_struct_bpf_call_arg_meta [c_dims]: "dims struct_bpf_call_arg_meta = (96, 8)"
  by (simp add: struct_bpf_call_arg_meta_def c_dims)

definition enum_bpf_reg_type :: "(string \<times> int) list" where
  "enum_bpf_reg_type =
    [(''NOT_INIT'', 0),
     (''SCALAR_VALUE'', 1),
     (''PTR_TO_CTX'', 2),
     (''CONST_PTR_TO_MAP'', 3),
     (''PTR_TO_MAP_VALUE'', 4),
     (''PTR_TO_MAP_KEY'', 5),
     (''PTR_TO_STACK'', 6),
     (''PTR_TO_PACKET_META'', 7),
     (''PTR_TO_PACKET'', 8),
     (''PTR_TO_PACKET_END'', 9),
     (''PTR_TO_FLOW_KEYS'', 10),
     (''PTR_TO_SOCKET'', 11),
     (''PTR_TO_SOCK_COMMON'', 12),
     (''PTR_TO_TCP_SOCK'', 13),
     (''PTR_TO_TP_BUFFER'', 14),
     (''PTR_TO_XDP_SOCK'', 15),
     (''PTR_TO_BTF_ID'', 16),
     (''PTR_TO_MEM'', 17),
     (''PTR_TO_BUF'', 18),
     (''PTR_TO_FUNC'', 19),
     (''PTR_TO_DYNPTR'', 20),
     (''__BPF_REG_TYPE_MAX'', 21),
     (''PTR_TO_MAP_VALUE_OR_NULL'', 260),
     (''PTR_TO_SOCKET_OR_NULL'', 267),
     (''PTR_TO_SOCK_COMMON_OR_NULL'', 268),
     (''PTR_TO_TCP_SOCK_OR_NULL'', 269),
     (''PTR_TO_BTF_ID_OR_NULL'', 272),
     (''__BPF_REG_TYPE_LIMIT'', 134217727)]"

lemma size_enum_bpf_reg_type [c_dims]: "enum_size enum_bpf_reg_type = 4"
  by (simp add: enum_size_def enum_bpf_reg_type_def)

definition ty_s32 :: ctype where
  "ty_s32 = ty___s32"

lemma dims_ty_s32 [c_dims]: "dims ty_s32 = (4, 4)"
  by (simp add: ty_s32_def c_dims)

definition struct_bpf_loop_inline_state :: ctype where
  "struct_bpf_loop_inline_state = Struct
    [bitfld ''initialized'' 1 (Base C_uint),
     bitfld ''fit_for_inline'' 1 (Base C_uint),
     fld ''callback_subprogno'' ty_u32]"

lemma dims_struct_bpf_loop_inline_state [c_dims]: "dims struct_bpf_loop_inline_state = (8, 4)"
  by (simp add: struct_bpf_loop_inline_state_def c_dims)

definition struct_bpf_insn_aux_data :: ctype where
  "struct_bpf_insn_aux_data = Struct
    [fld '''' (Union
       [fld ''ptr_type'' (Enum enum_bpf_reg_type),
        fld ''map_ptr_state'' (Base C_ulong),
        fld ''call_imm'' ty_s32,
        fld ''alu_limit'' ty_u32,
        fld '''' (Struct
          [fld ''map_index'' ty_u32,
           fld ''map_off'' ty_u32]),
        fld ''btf_var'' (Struct
          [fld ''reg_type'' (Enum enum_bpf_reg_type),
           fld '''' (Union
             [fld '''' (Struct
                [fld ''btf'' (Ptr ''struct btf *''),
                 fld ''btf_id'' ty_u32]),
              fld ''mem_size'' ty_u32])]),
        fld ''loop_inline_state'' struct_bpf_loop_inline_state]),
     fld ''map_key_state'' ty_u64,
     fld ''ctx_field_size'' (Base C_int),
     fld ''seen'' ty_u32,
     fld ''sanitize_stack_spill'' ty_bool,
     fld ''zext_dst'' ty_bool,
     fld ''alu_state'' ty_u8,
     fld ''orig_idx'' (Base C_uint),
     fld ''prune_point'' ty_bool,
     fld ''jmp_point'' ty_bool]"

lemma dims_struct_bpf_insn_aux_data [c_dims]: "dims struct_bpf_insn_aux_data = (56, 8)"
  by (simp add: struct_bpf_insn_aux_data_def c_dims)

definition enum_bpf_dynptr_type :: "(string \<times> int) list" where
  "enum_bpf_dynptr_type =
    [(''BPF_DYNPTR_TYPE_INVALID'', 0),
     (''BPF_DYNPTR_TYPE_LOCAL'', 1),
     (''BPF_DYNPTR_TYPE_RINGBUF'', 2)]"

lemma size_enum_bpf_dynptr_type [c_dims]: "enum_size enum_bpf_dynptr_type = 4"
  by (simp add: enum_size_def enum_bpf_dynptr_type_def)

definition struct_tnum :: ctype where
  "struct_tnum = Struct
    [fld ''value'' ty_u64,
     fld ''mask'' ty_u64]"

lemma dims_struct_tnum [c_dims]: "dims struct_tnum = (16, 8)"
  by (simp add: struct_tnum_def c_dims)

definition enum_bpf_reg_liveness :: "(string \<times> int) list" where
  "enum_bpf_reg_liveness =
    [(''REG_LIVE_NONE'', 0),
     (''REG_LIVE_READ32'', 1),
     (''REG_LIVE_READ64'', 2),
     (''REG_LIVE_READ'', 3),
     (''REG_LIVE_WRITTEN'', 4),
     (''REG_LIVE_DONE'', 8)]"

lemma size_enum_bpf_reg_liveness [c_dims]: "enum_size enum_bpf_reg_liveness = 4"
  by (simp add: enum_size_def enum_bpf_reg_liveness_def)

definition struct_bpf_reg_state :: ctype where
  "struct_bpf_reg_state = Struct
    [fld ''type'' (Enum enum_bpf_reg_type),
     fld ''off'' ty_s32,
     fld '''' (Union
       [fld ''range'' (Base C_int),
        fld '''' (Struct
          [fld ''map_ptr'' (Ptr ''struct bpf_map *''),
           fld ''map_uid'' ty_u32]),
        fld '''' (Struct
          [fld ''btf'' (Ptr ''struct btf *''),
           fld ''btf_id'' ty_u32]),
        fld ''mem_size'' ty_u32,
        fld ''dynptr'' (Struct
          [fld ''type'' (Enum enum_bpf_dynptr_type),
           fld ''first_slot'' ty_bool]),
        fld ''raw'' (Struct
          [fld ''raw1'' (Base C_ulong),
           fld ''raw2'' (Base C_ulong)]),
        fld ''subprogno'' ty_u32]),
     fld ''id'' ty_u32,
     fld ''ref_obj_id'' ty_u32,
     fld ''var_off'' struct_tnum,
     fld ''smin_value'' ty_s64,
     fld ''smax_value'' ty_s64,
     fld ''umin_value'' ty_u64,
     fld ''umax_value'' ty_u64,
     fld ''s32_min_value'' ty_s32,
     fld ''s32_max_value'' ty_s32,
     fld ''u32_min_value'' ty_u32,
     fld ''u32_max_value'' ty_u32,
     fld ''parent'' (Ptr ''struct bpf_reg_state *''),
     fld ''frameno'' ty_u32,
     fld ''subreg_def'' ty_s32,
     fld ''live'' (Enum enum_bpf_reg_liveness),
     fld ''precise'' ty_bool]"

lemma dims_struct_bpf_reg_state [c_dims]: "dims struct_bpf_reg_state = (120, 8)"
  by (simp add: struct_bpf_reg_state_def c_dims)

definition struct_bpf_func_state :: ctype where
  "struct_bpf_func_state = Struct
    [fld ''regs'' (Arr 11 struct_bpf_reg_state),
     fld ''callsite'' (Base C_int),
     fld ''frameno'' ty_u32,
     fld ''subprogno'' ty_u32,
     fld ''async_entry_cnt'' ty_u32,
     fld ''in_callback_fn'' ty_bool,
     fld ''callback_ret_range'' struct_tnum,
     fld ''in_async_callback_fn'' ty_bool,
     fld ''acquired_refs'' (Base C_int),
     fld ''refs'' (Ptr ''struct bpf_reference_state *''),
     fld ''allocated_stack'' (Base C_int),
     fld ''stack'' (Ptr ''struct bpf_stack_state *'')]"

lemma dims_struct_bpf_func_state [c_dims]: "dims struct_bpf_func_state = (1392, 8)"
  by (simp add: struct_bpf_func_state_def c_dims)

definition struct_bpf_verifier_state :: ctype where
  "struct_bpf_verifier_state = Struct
    [fld ''frame'' (Arr 8 (Ptr ''struct bpf_func_state *'')),
     fld ''parent'' (Ptr ''struct bpf_verifier_state *''),
     fld ''branches'' ty_u32,
     fld ''insn_idx'' ty_u32,
     fld ''curframe'' ty_u32,
     fld ''active_spin_lock'' ty_u32,
     fld ''speculative'' ty_bool,
     fld ''first_insn_idx'' ty_u32,
     fld ''last_insn_idx'' ty_u32,
     fld ''jmp_history'' (Ptr ''struct bpf_idx_pair *''),
     fld ''jmp_history_cnt'' ty_u32]"

lemma dims_struct_bpf_verifier_state [c_dims]: "dims struct_bpf_verifier_state = (120, 8)"
  by (simp add: struct_bpf_verifier_state_def c_dims)

definition struct_btf_mod_pair :: ctype where
  "struct_btf_mod_pair = Struct
    [fld ''btf'' (Ptr ''struct btf *''),
     fld ''module'' (Ptr ''struct module *'')]"

lemma dims_struct_btf_mod_pair [c_dims]: "dims struct_btf_mod_pair = (16, 8)"
  by (simp add: struct_btf_mod_pair_def c_dims)

definition struct_bpf_verifier_log :: ctype where
  "struct_bpf_verifier_log = Struct
    [fld ''level'' ty_u32,
     fld ''kbuf'' (Arr 1024 (Base C_char)),
     fld ''ubuf'' (Ptr ''char *''),
     fld ''len_used'' ty_u32,
     fld ''len_total'' ty_u32]"

lemma dims_struct_bpf_verifier_log [c_dims]: "dims struct_bpf_verifier_log = (1048, 8)"
  by (simp add: struct_bpf_verifier_log_def c_dims)

definition struct_bpf_subprog_info :: ctype where
  "struct_bpf_subprog_info = Struct
    [fld ''start'' ty_u32,
     fld ''linfo_idx'' ty_u32,
     fld ''stack_depth'' ty_u16,
     fld ''has_tail_call'' ty_bool,
     fld ''tail_call_reachable'' ty_bool,
     fld ''has_ld_abs'' ty_bool,
     fld ''is_async_cb'' ty_bool]"

lemma dims_struct_bpf_subprog_info [c_dims]: "dims struct_bpf_subprog_info = (16, 4)"
  by (simp add: struct_bpf_subprog_info_def c_dims)

definition struct_bpf_id_pair :: ctype where
  "struct_bpf_id_pair = Struct
    [fld ''old'' ty_u32,
     fld ''cur'' ty_u32]"

lemma dims_struct_bpf_id_pair [c_dims]: "dims struct_bpf_id_pair = (8, 4)"
  by (simp add: struct_bpf_id_pair_def c_dims)

definition ty_sockptr_t :: ctype where
  "ty_sockptr_t = Struct
    [fld '''' (Union
       [fld ''kernel'' (Ptr ''void *''),
        fld ''user'' (Ptr ''void *'')]),
     bitfld ''is_kernel'' 1 ty_bool]"

lemma dims_ty_sockptr_t [c_dims]: "dims ty_sockptr_t = (16, 8)"
  by (simp add: ty_sockptr_t_def c_dims)

definition ty_bpfptr_t :: ctype where
  "ty_bpfptr_t = ty_sockptr_t"

lemma dims_ty_bpfptr_t [c_dims]: "dims ty_bpfptr_t = (16, 8)"
  by (simp add: ty_bpfptr_t_def c_dims)

definition struct_bpf_verifier_env :: ctype where
  "struct_bpf_verifier_env = Struct
    [fld ''insn_idx'' ty_u32,
     fld ''prev_insn_idx'' ty_u32,
     fld ''prog'' (Ptr ''struct bpf_prog *''),
     fld ''ops'' (Ptr ''const struct bpf_verifier_ops *''),
     fld ''head'' (Ptr ''struct bpf_verifier_stack_elem *''),
     fld ''stack_size'' (Base C_int),
     fld ''strict_alignment'' ty_bool,
     fld ''test_state_freq'' ty_bool,
     fld ''cur_state'' (Ptr ''struct bpf_verifier_state *''),
     fld ''explored_states'' (Ptr ''struct bpf_verifier_state_list **''),
     fld ''free_list'' (Ptr ''struct bpf_verifier_state_list *''),
     fld ''used_maps'' (Arr 64 (Ptr ''struct bpf_map *'')),
     fld ''used_btfs'' (Arr 64 struct_btf_mod_pair),
     fld ''used_map_cnt'' ty_u32,
     fld ''used_btf_cnt'' ty_u32,
     fld ''id_gen'' ty_u32,
     fld ''explore_alu_limits'' ty_bool,
     fld ''allow_ptr_leaks'' ty_bool,
     fld ''allow_uninit_stack'' ty_bool,
     fld ''allow_ptr_to_map_access'' ty_bool,
     fld ''bpf_capable'' ty_bool,
     fld ''bypass_spec_v1'' ty_bool,
     fld ''bypass_spec_v4'' ty_bool,
     fld ''seen_direct_write'' ty_bool,
     fld ''insn_aux_data'' (Ptr ''struct bpf_insn_aux_data *''),
     fld ''prev_linfo'' (Ptr ''const struct bpf_line_info *''),
     fld ''log'' struct_bpf_verifier_log,
     fld ''subprog_info'' (Arr 257 struct_bpf_subprog_info),
     fld ''idmap_scratch'' (Arr 75 struct_bpf_id_pair),
     fld ''cfg'' (Struct
       [fld ''insn_state'' (Ptr ''int *''),
        fld ''insn_stack'' (Ptr ''int *''),
        fld ''cur_stack'' (Base C_int)]),
     fld ''pass_cnt'' ty_u32,
     fld ''subprog_cnt'' ty_u32,
     fld ''prev_insn_processed'' ty_u32,
     fld ''insn_processed'' ty_u32,
     fld ''prev_jmps_processed'' ty_u32,
     fld ''jmps_processed'' ty_u32,
     fld ''verification_time'' ty_u64,
     fld ''max_states_per_insn'' ty_u32,
     fld ''total_states'' ty_u32,
     fld ''peak_states'' ty_u32,
     fld ''longest_mark_read_walk'' ty_u32,
     fld ''fd_array'' ty_bpfptr_t,
     fld ''scratched_regs'' ty_u32,
     fld ''scratched_stack_slots'' ty_u64,
     fld ''prev_log_len'' ty_u32,
     fld ''prev_insn_print_len'' ty_u32,
     fld ''type_str_buf'' (Arr 64 (Base C_char))]"

lemma dims_struct_bpf_verifier_env [c_dims]: "dims struct_bpf_verifier_env = (7576, 8)"
  by (simp add: struct_bpf_verifier_env_def c_dims)

definition enum_bpf_cmd :: "(string \<times> int) list" where
  "enum_bpf_cmd =
    [(''BPF_MAP_CREATE'', 0),
     (''BPF_MAP_LOOKUP_ELEM'', 1),
     (''BPF_MAP_UPDATE_ELEM'', 2),
     (''BPF_MAP_DELETE_ELEM'', 3),
     (''BPF_MAP_GET_NEXT_KEY'', 4),
     (''BPF_PROG_LOAD'', 5),
     (''BPF_OBJ_PIN'', 6),
     (''BPF_OBJ_GET'', 7),
     (''BPF_PROG_ATTACH'', 8),
     (''BPF_PROG_DETACH'', 9),
     (''BPF_PROG_TEST_RUN'', 10),
     (''BPF_PROG_RUN'', 10),
     (''BPF_PROG_GET_NEXT_ID'', 11),
     (''BPF_MAP_GET_NEXT_ID'', 12),
     (''BPF_PROG_GET_FD_BY_ID'', 13),
     (''BPF_MAP_GET_FD_BY_ID'', 14),
     (''BPF_OBJ_GET_INFO_BY_FD'', 15),
     (''BPF_PROG_QUERY'', 16),
     (''BPF_RAW_TRACEPOINT_OPEN'', 17),
     (''BPF_BTF_LOAD'', 18),
     (''BPF_BTF_GET_FD_BY_ID'', 19),
     (''BPF_TASK_FD_QUERY'', 20),
     (''BPF_MAP_LOOKUP_AND_DELETE_ELEM'', 21),
     (''BPF_MAP_FREEZE'', 22),
     (''BPF_BTF_GET_NEXT_ID'', 23),
     (''BPF_MAP_LOOKUP_BATCH'', 24),
     (''BPF_MAP_LOOKUP_AND_DELETE_BATCH'', 25),
     (''BPF_MAP_UPDATE_BATCH'', 26),
     (''BPF_MAP_DELETE_BATCH'', 27),
     (''BPF_LINK_CREATE'', 28),
     (''BPF_LINK_UPDATE'', 29),
     (''BPF_LINK_GET_FD_BY_ID'', 30),
     (''BPF_LINK_GET_NEXT_ID'', 31),
     (''BPF_ENABLE_STATS'', 32),
     (''BPF_ITER_CREATE'', 33),
     (''BPF_LINK_DETACH'', 34),
     (''BPF_PROG_BIND_MAP'', 35)]"

lemma size_enum_bpf_cmd [c_dims]: "enum_size enum_bpf_cmd = 4"
  by (simp add: enum_size_def enum_bpf_cmd_def)

definition enum_bpf_func_id :: "(string \<times> int) list" where
  "enum_bpf_func_id =
    [(''BPF_FUNC_unspec'', 0),
     (''BPF_FUNC_map_lookup_elem'', 1),
     (''BPF_FUNC_map_update_elem'', 2),
     (''BPF_FUNC_map_delete_elem'', 3),
     (''BPF_FUNC_probe_read'', 4),
     (''BPF_FUNC_ktime_get_ns'', 5),
     (''BPF_FUNC_trace_printk'', 6),
     (''BPF_FUNC_get_prandom_u32'', 7),
     (''BPF_FUNC_get_smp_processor_id'', 8),
     (''BPF_FUNC_skb_store_bytes'', 9),
     (''BPF_FUNC_l3_csum_replace'', 10),
     (''BPF_FUNC_l4_csum_replace'', 11),
     (''BPF_FUNC_tail_call'', 12),
     (''BPF_FUNC_clone_redirect'', 13),
     (''BPF_FUNC_get_current_pid_tgid'', 14),
     (''BPF_FUNC_get_current_uid_gid'', 15),
     (''BPF_FUNC_get_current_comm'', 16),
     (''BPF_FUNC_get_cgroup_classid'', 17),
     (''BPF_FUNC_skb_vlan_push'', 18),
     (''BPF_FUNC_skb_vlan_pop'', 19),
     (''BPF_FUNC_skb_get_tunnel_key'', 20),
     (''BPF_FUNC_skb_set_tunnel_key'', 21),
     (''BPF_FUNC_perf_event_read'', 22),
     (''BPF_FUNC_redirect'', 23),
     (''BPF_FUNC_get_route_realm'', 24),
     (''BPF_FUNC_perf_event_output'', 25),
     (''BPF_FUNC_skb_load_bytes'', 26),
     (''BPF_FUNC_get_stackid'', 27),
     (''BPF_FUNC_csum_diff'', 28),
     (''BPF_FUNC_skb_get_tunnel_opt'', 29),
     (''BPF_FUNC_skb_set_tunnel_opt'', 30),
     (''BPF_FUNC_skb_change_proto'', 31),
     (''BPF_FUNC_skb_change_type'', 32),
     (''BPF_FUNC_skb_under_cgroup'', 33),
     (''BPF_FUNC_get_hash_recalc'', 34),
     (''BPF_FUNC_get_current_task'', 35),
     (''BPF_FUNC_probe_write_user'', 36),
     (''BPF_FUNC_current_task_under_cgroup'', 37),
     (''BPF_FUNC_skb_change_tail'', 38),
     (''BPF_FUNC_skb_pull_data'', 39),
     (''BPF_FUNC_csum_update'', 40),
     (''BPF_FUNC_set_hash_invalid'', 41),
     (''BPF_FUNC_get_numa_node_id'', 42),
     (''BPF_FUNC_skb_change_head'', 43),
     (''BPF_FUNC_xdp_adjust_head'', 44),
     (''BPF_FUNC_probe_read_str'', 45),
     (''BPF_FUNC_get_socket_cookie'', 46),
     (''BPF_FUNC_get_socket_uid'', 47),
     (''BPF_FUNC_set_hash'', 48),
     (''BPF_FUNC_setsockopt'', 49),
     (''BPF_FUNC_skb_adjust_room'', 50),
     (''BPF_FUNC_redirect_map'', 51),
     (''BPF_FUNC_sk_redirect_map'', 52),
     (''BPF_FUNC_sock_map_update'', 53),
     (''BPF_FUNC_xdp_adjust_meta'', 54),
     (''BPF_FUNC_perf_event_read_value'', 55),
     (''BPF_FUNC_perf_prog_read_value'', 56),
     (''BPF_FUNC_getsockopt'', 57),
     (''BPF_FUNC_override_return'', 58),
     (''BPF_FUNC_sock_ops_cb_flags_set'', 59),
     (''BPF_FUNC_msg_redirect_map'', 60),
     (''BPF_FUNC_msg_apply_bytes'', 61),
     (''BPF_FUNC_msg_cork_bytes'', 62),
     (''BPF_FUNC_msg_pull_data'', 63),
     (''BPF_FUNC_bind'', 64),
     (''BPF_FUNC_xdp_adjust_tail'', 65),
     (''BPF_FUNC_skb_get_xfrm_state'', 66),
     (''BPF_FUNC_get_stack'', 67),
     (''BPF_FUNC_skb_load_bytes_relative'', 68),
     (''BPF_FUNC_fib_lookup'', 69),
     (''BPF_FUNC_sock_hash_update'', 70),
     (''BPF_FUNC_msg_redirect_hash'', 71),
     (''BPF_FUNC_sk_redirect_hash'', 72),
     (''BPF_FUNC_lwt_push_encap'', 73),
     (''BPF_FUNC_lwt_seg6_store_bytes'', 74),
     (''BPF_FUNC_lwt_seg6_adjust_srh'', 75),
     (''BPF_FUNC_lwt_seg6_action'', 76),
     (''BPF_FUNC_rc_repeat'', 77),
     (''BPF_FUNC_rc_keydown'', 78),
     (''BPF_FUNC_skb_cgroup_id'', 79),
     (''BPF_FUNC_get_current_cgroup_id'', 80),
     (''BPF_FUNC_get_local_storage'', 81),
     (''BPF_FUNC_sk_select_reuseport'', 82),
     (''BPF_FUNC_skb_ancestor_cgroup_id'', 83),
     (''BPF_FUNC_sk_lookup_tcp'', 84),
     (''BPF_FUNC_sk_lookup_udp'', 85),
     (''BPF_FUNC_sk_release'', 86),
     (''BPF_FUNC_map_push_elem'', 87),
     (''BPF_FUNC_map_pop_elem'', 88),
     (''BPF_FUNC_map_peek_elem'', 89),
     (''BPF_FUNC_msg_push_data'', 90),
     (''BPF_FUNC_msg_pop_data'', 91),
     (''BPF_FUNC_rc_pointer_rel'', 92),
     (''BPF_FUNC_spin_lock'', 93),
     (''BPF_FUNC_spin_unlock'', 94),
     (''BPF_FUNC_sk_fullsock'', 95),
     (''BPF_FUNC_tcp_sock'', 96),
     (''BPF_FUNC_skb_ecn_set_ce'', 97),
     (''BPF_FUNC_get_listener_sock'', 98),
     (''BPF_FUNC_skc_lookup_tcp'', 99),
     (''BPF_FUNC_tcp_check_syncookie'', 100),
     (''BPF_FUNC_sysctl_get_name'', 101),
     (''BPF_FUNC_sysctl_get_current_value'', 102),
     (''BPF_FUNC_sysctl_get_new_value'', 103),
     (''BPF_FUNC_sysctl_set_new_value'', 104),
     (''BPF_FUNC_strtol'', 105),
     (''BPF_FUNC_strtoul'', 106),
     (''BPF_FUNC_sk_storage_get'', 107),
     (''BPF_FUNC_sk_storage_delete'', 108),
     (''BPF_FUNC_send_signal'', 109),
     (''BPF_FUNC_tcp_gen_syncookie'', 110),
     (''BPF_FUNC_skb_output'', 111),
     (''BPF_FUNC_probe_read_user'', 112),
     (''BPF_FUNC_probe_read_kernel'', 113),
     (''BPF_FUNC_probe_read_user_str'', 114),
     (''BPF_FUNC_probe_read_kernel_str'', 115),
     (''BPF_FUNC_tcp_send_ack'', 116),
     (''BPF_FUNC_send_signal_thread'', 117),
     (''BPF_FUNC_jiffies64'', 118),
     (''BPF_FUNC_read_branch_records'', 119),
     (''BPF_FUNC_get_ns_current_pid_tgid'', 120),
     (''BPF_FUNC_xdp_output'', 121),
     (''BPF_FUNC_get_netns_cookie'', 122),
     (''BPF_FUNC_get_current_ancestor_cgroup_id'', 123),
     (''BPF_FUNC_sk_assign'', 124),
     (''BPF_FUNC_ktime_get_boot_ns'', 125),
     (''BPF_FUNC_seq_printf'', 126),
     (''BPF_FUNC_seq_write'', 127),
     (''BPF_FUNC_sk_cgroup_id'', 128),
     (''BPF_FUNC_sk_ancestor_cgroup_id'', 129),
     (''BPF_FUNC_ringbuf_output'', 130),
     (''BPF_FUNC_ringbuf_reserve'', 131),
     (''BPF_FUNC_ringbuf_submit'', 132),
     (''BPF_FUNC_ringbuf_discard'', 133),
     (''BPF_FUNC_ringbuf_query'', 134),
     (''BPF_FUNC_csum_level'', 135),
     (''BPF_FUNC_skc_to_tcp6_sock'', 136),
     (''BPF_FUNC_skc_to_tcp_sock'', 137),
     (''BPF_FUNC_skc_to_tcp_timewait_sock'', 138),
     (''BPF_FUNC_skc_to_tcp_request_sock'', 139),
     (''BPF_FUNC_skc_to_udp6_sock'', 140),
     (''BPF_FUNC_get_task_stack'', 141),
     (''BPF_FUNC_load_hdr_opt'', 142),
     (''BPF_FUNC_store_hdr_opt'', 143),
     (''BPF_FUNC_reserve_hdr_opt'', 144),
     (''BPF_FUNC_inode_storage_get'', 145),
     (''BPF_FUNC_inode_storage_delete'', 146),
     (''BPF_FUNC_d_path'', 147),
     (''BPF_FUNC_copy_from_user'', 148),
     (''BPF_FUNC_snprintf_btf'', 149),
     (''BPF_FUNC_seq_printf_btf'', 150),
     (''BPF_FUNC_skb_cgroup_classid'', 151),
     (''BPF_FUNC_redirect_neigh'', 152),
     (''BPF_FUNC_per_cpu_ptr'', 153),
     (''BPF_FUNC_this_cpu_ptr'', 154),
     (''BPF_FUNC_redirect_peer'', 155),
     (''BPF_FUNC_task_storage_get'', 156),
     (''BPF_FUNC_task_storage_delete'', 157),
     (''BPF_FUNC_get_current_task_btf'', 158),
     (''BPF_FUNC_bprm_opts_set'', 159),
     (''BPF_FUNC_ktime_get_coarse_ns'', 160),
     (''BPF_FUNC_ima_inode_hash'', 161),
     (''BPF_FUNC_sock_from_file'', 162),
     (''BPF_FUNC_check_mtu'', 163),
     (''BPF_FUNC_for_each_map_elem'', 164),
     (''BPF_FUNC_snprintf'', 165),
     (''BPF_FUNC_sys_bpf'', 166),
     (''BPF_FUNC_btf_find_by_name_kind'', 167),
     (''BPF_FUNC_sys_close'', 168),
     (''BPF_FUNC_timer_init'', 169),
     (''BPF_FUNC_timer_set_callback'', 170),
     (''BPF_FUNC_timer_start'', 171),
     (''BPF_FUNC_timer_cancel'', 172),
     (''BPF_FUNC_get_func_ip'', 173),
     (''BPF_FUNC_get_attach_cookie'', 174),
     (''BPF_FUNC_task_pt_regs'', 175),
     (''BPF_FUNC_get_branch_snapshot'', 176),
     (''BPF_FUNC_trace_vprintk'', 177),
     (''BPF_FUNC_skc_to_unix_sock'', 178),
     (''BPF_FUNC_kallsyms_lookup_name'', 179),
     (''BPF_FUNC_find_vma'', 180),
     (''BPF_FUNC_loop'', 181),
     (''BPF_FUNC_strncmp'', 182),
     (''BPF_FUNC_get_func_arg'', 183),
     (''BPF_FUNC_get_func_ret'', 184),
     (''BPF_FUNC_get_func_arg_cnt'', 185),
     (''BPF_FUNC_get_retval'', 186),
     (''BPF_FUNC_set_retval'', 187),
     (''BPF_FUNC_xdp_get_buff_len'', 188),
     (''BPF_FUNC_xdp_load_bytes'', 189),
     (''BPF_FUNC_xdp_store_bytes'', 190),
     (''BPF_FUNC_copy_from_user_task'', 191),
     (''BPF_FUNC_skb_set_tstamp'', 192),
     (''BPF_FUNC_ima_file_hash'', 193),
     (''BPF_FUNC_kptr_xchg'', 194),
     (''BPF_FUNC_map_lookup_percpu_elem'', 195),
     (''BPF_FUNC_skc_to_mptcp_sock'', 196),
     (''BPF_FUNC_dynptr_from_mem'', 197),
     (''BPF_FUNC_ringbuf_reserve_dynptr'', 198),
     (''BPF_FUNC_ringbuf_submit_dynptr'', 199),
     (''BPF_FUNC_ringbuf_discard_dynptr'', 200),
     (''BPF_FUNC_dynptr_read'', 201),
     (''BPF_FUNC_dynptr_write'', 202),
     (''BPF_FUNC_dynptr_data'', 203),
     (''BPF_FUNC_tcp_raw_gen_syncookie_ipv4'', 204),
     (''BPF_FUNC_tcp_raw_gen_syncookie_ipv6'', 205),
     (''BPF_FUNC_tcp_raw_check_syncookie_ipv4'', 206),
     (''BPF_FUNC_tcp_raw_check_syncookie_ipv6'', 207),
     (''BPF_FUNC_ktime_get_tai_ns'', 208),
     (''BPF_FUNC_user_ringbuf_drain'', 209),
     (''__BPF_FUNC_MAX_ID'', 210)]"

lemma size_enum_bpf_func_id [c_dims]: "enum_size enum_bpf_func_id = 4"
  by (simp add: enum_size_def enum_bpf_func_id_def)

definition enum_bpf_link_type :: "(string \<times> int) list" where
  "enum_bpf_link_type =
    [(''BPF_LINK_TYPE_UNSPEC'', 0),
     (''BPF_LINK_TYPE_RAW_TRACEPOINT'', 1),
     (''BPF_LINK_TYPE_TRACING'', 2),
     (''BPF_LINK_TYPE_CGROUP'', 3),
     (''BPF_LINK_TYPE_ITER'', 4),
     (''BPF_LINK_TYPE_NETNS'', 5),
     (''BPF_LINK_TYPE_XDP'', 6),
     (''BPF_LINK_TYPE_PERF_EVENT'', 7),
     (''BPF_LINK_TYPE_KPROBE_MULTI'', 8),
     (''BPF_LINK_TYPE_STRUCT_OPS'', 9),
     (''MAX_BPF_LINK_TYPE'', 10)]"

lemma size_enum_bpf_link_type [c_dims]: "enum_size enum_bpf_link_type = 4"
  by (simp add: enum_size_def enum_bpf_link_type_def)

definition enum_bpf_core_relo_kind :: "(string \<times> int) list" where
  "enum_bpf_core_relo_kind =
    [(''BPF_CORE_FIELD_BYTE_OFFSET'', 0),
     (''BPF_CORE_FIELD_BYTE_SIZE'', 1),
     (''BPF_CORE_FIELD_EXISTS'', 2),
     (''BPF_CORE_FIELD_SIGNED'', 3),
     (''BPF_CORE_FIELD_LSHIFT_U64'', 4),
     (''BPF_CORE_FIELD_RSHIFT_U64'', 5),
     (''BPF_CORE_TYPE_ID_LOCAL'', 6),
     (''BPF_CORE_TYPE_ID_TARGET'', 7),
     (''BPF_CORE_TYPE_EXISTS'', 8),
     (''BPF_CORE_TYPE_SIZE'', 9),
     (''BPF_CORE_ENUMVAL_EXISTS'', 10),
     (''BPF_CORE_ENUMVAL_VALUE'', 11),
     (''BPF_CORE_TYPE_MATCHES'', 12)]"

lemma size_enum_bpf_core_relo_kind [c_dims]: "enum_size enum_bpf_core_relo_kind = 4"
  by (simp add: enum_size_def enum_bpf_core_relo_kind_def)

end
