(* ===== verification/Kernel_Net.thy ===== *)
theory Kernel_Net
  imports Kernel_Prog
begin

text \<open>
  The network objects around an XDP hook, from \<open>src/shield/bpf/include/vmlinux.h\<close>: the device that runs the
  program, its receive queue and page pool, and the socket buffer a passed packet becomes.
\<close>

definition ty_netdev_features_t :: ctype where
  "ty_netdev_features_t = ty_u64"

lemma dims_ty_netdev_features_t [c_dims]: "dims ty_netdev_features_t = (8, 8)"
  by (simp add: ty_netdev_features_t_def c_dims)

definition struct_net_device_stats :: ctype where
  "struct_net_device_stats = Struct
    [fld '''' (Union
       [fld ''rx_packets'' (Base C_ulong),
        fld ''__rx_packets'' ty_atomic_long_t]),
     fld '''' (Union
       [fld ''tx_packets'' (Base C_ulong),
        fld ''__tx_packets'' ty_atomic_long_t]),
     fld '''' (Union
       [fld ''rx_bytes'' (Base C_ulong),
        fld ''__rx_bytes'' ty_atomic_long_t]),
     fld '''' (Union
       [fld ''tx_bytes'' (Base C_ulong),
        fld ''__tx_bytes'' ty_atomic_long_t]),
     fld '''' (Union
       [fld ''rx_errors'' (Base C_ulong),
        fld ''__rx_errors'' ty_atomic_long_t]),
     fld '''' (Union
       [fld ''tx_errors'' (Base C_ulong),
        fld ''__tx_errors'' ty_atomic_long_t]),
     fld '''' (Union
       [fld ''rx_dropped'' (Base C_ulong),
        fld ''__rx_dropped'' ty_atomic_long_t]),
     fld '''' (Union
       [fld ''tx_dropped'' (Base C_ulong),
        fld ''__tx_dropped'' ty_atomic_long_t]),
     fld '''' (Union
       [fld ''multicast'' (Base C_ulong),
        fld ''__multicast'' ty_atomic_long_t]),
     fld '''' (Union
       [fld ''collisions'' (Base C_ulong),
        fld ''__collisions'' ty_atomic_long_t]),
     fld '''' (Union
       [fld ''rx_length_errors'' (Base C_ulong),
        fld ''__rx_length_errors'' ty_atomic_long_t]),
     fld '''' (Union
       [fld ''rx_over_errors'' (Base C_ulong),
        fld ''__rx_over_errors'' ty_atomic_long_t]),
     fld '''' (Union
       [fld ''rx_crc_errors'' (Base C_ulong),
        fld ''__rx_crc_errors'' ty_atomic_long_t]),
     fld '''' (Union
       [fld ''rx_frame_errors'' (Base C_ulong),
        fld ''__rx_frame_errors'' ty_atomic_long_t]),
     fld '''' (Union
       [fld ''rx_fifo_errors'' (Base C_ulong),
        fld ''__rx_fifo_errors'' ty_atomic_long_t]),
     fld '''' (Union
       [fld ''rx_missed_errors'' (Base C_ulong),
        fld ''__rx_missed_errors'' ty_atomic_long_t]),
     fld '''' (Union
       [fld ''tx_aborted_errors'' (Base C_ulong),
        fld ''__tx_aborted_errors'' ty_atomic_long_t]),
     fld '''' (Union
       [fld ''tx_carrier_errors'' (Base C_ulong),
        fld ''__tx_carrier_errors'' ty_atomic_long_t]),
     fld '''' (Union
       [fld ''tx_fifo_errors'' (Base C_ulong),
        fld ''__tx_fifo_errors'' ty_atomic_long_t]),
     fld '''' (Union
       [fld ''tx_heartbeat_errors'' (Base C_ulong),
        fld ''__tx_heartbeat_errors'' ty_atomic_long_t]),
     fld '''' (Union
       [fld ''tx_window_errors'' (Base C_ulong),
        fld ''__tx_window_errors'' ty_atomic_long_t]),
     fld '''' (Union
       [fld ''rx_compressed'' (Base C_ulong),
        fld ''__rx_compressed'' ty_atomic_long_t]),
     fld '''' (Union
       [fld ''tx_compressed'' (Base C_ulong),
        fld ''__tx_compressed'' ty_atomic_long_t])]"

lemma dims_struct_net_device_stats [c_dims]: "dims struct_net_device_stats = (184, 8)"
  by (simp add: struct_net_device_stats_def c_dims)

definition struct_rb_root :: ctype where
  "struct_rb_root = Struct
    [fld ''rb_node'' (Ptr ''struct rb_node *'')]"

lemma dims_struct_rb_root [c_dims]: "dims struct_rb_root = (8, 8)"
  by (simp add: struct_rb_root_def c_dims)

definition struct_netdev_hw_addr_list :: ctype where
  "struct_netdev_hw_addr_list = Struct
    [fld ''list'' struct_list_head,
     fld ''count'' (Base C_int),
     fld ''tree'' struct_rb_root]"

lemma dims_struct_netdev_hw_addr_list [c_dims]: "dims struct_netdev_hw_addr_list = (32, 8)"
  by (simp add: struct_netdev_hw_addr_list_def c_dims)

definition struct_hlist_node :: ctype where
  "struct_hlist_node = Struct
    [fld ''next'' (Ptr ''struct hlist_node *''),
     fld ''pprev'' (Ptr ''struct hlist_node **'')]"

lemma dims_struct_hlist_node [c_dims]: "dims struct_hlist_node = (16, 8)"
  by (simp add: struct_hlist_node_def c_dims)

definition struct_hlist_head :: ctype where
  "struct_hlist_head = Struct
    [fld ''first'' (Ptr ''struct hlist_node *'')]"

lemma dims_struct_hlist_head [c_dims]: "dims struct_hlist_head = (8, 8)"
  by (simp add: struct_hlist_head_def c_dims)

definition struct_timer_list :: ctype where
  "struct_timer_list = Struct
    [fld ''entry'' struct_hlist_node,
     fld ''expires'' (Base C_ulong),
     fld ''function'' (Ptr ''void (*)(struct timer_list *)''),
     fld ''flags'' ty_u32]"

lemma dims_struct_timer_list [c_dims]: "dims struct_timer_list = (40, 8)"
  by (simp add: struct_timer_list_def c_dims)

definition struct_ref_tracker_dir :: ctype where
  "struct_ref_tracker_dir = Struct []"

lemma dims_struct_ref_tracker_dir [c_dims]: "dims struct_ref_tracker_dir = (0, 1)"
  by (simp add: struct_ref_tracker_dir_def c_dims)

definition ty_possible_net_t :: ctype where
  "ty_possible_net_t = Struct
    [fld ''net'' (Ptr ''struct net *'')]"

lemma dims_ty_possible_net_t [c_dims]: "dims ty_possible_net_t = (8, 8)"
  by (simp add: ty_possible_net_t_def c_dims)

definition enum_netdev_ml_priv_type :: "(string \<times> int) list" where
  "enum_netdev_ml_priv_type =
    [(''ML_PRIV_NONE'', 0),
     (''ML_PRIV_CAN'', 1)]"

lemma size_enum_netdev_ml_priv_type [c_dims]: "enum_size enum_netdev_ml_priv_type = 4"
  by (simp add: enum_size_def enum_netdev_ml_priv_type_def)

definition enum_netdev_stat_type :: "(string \<times> int) list" where
  "enum_netdev_stat_type =
    [(''NETDEV_PCPU_STAT_NONE'', 0),
     (''NETDEV_PCPU_STAT_LSTATS'', 1),
     (''NETDEV_PCPU_STAT_TSTATS'', 2),
     (''NETDEV_PCPU_STAT_DSTATS'', 3)]"

lemma size_enum_netdev_stat_type [c_dims]: "enum_size enum_netdev_stat_type = 4"
  by (simp add: enum_size_def enum_netdev_stat_type_def)

definition struct_kref :: ctype where
  "struct_kref = Struct
    [fld ''refcount'' ty_refcount_t]"

lemma dims_struct_kref [c_dims]: "dims struct_kref = (4, 4)"
  by (simp add: struct_kref_def c_dims)

definition struct_kobject :: ctype where
  "struct_kobject = Struct
    [fld ''name'' (Ptr ''const char *''),
     fld ''entry'' struct_list_head,
     fld ''parent'' (Ptr ''struct kobject *''),
     fld ''kset'' (Ptr ''struct kset *''),
     fld ''ktype'' (Ptr ''const struct kobj_type *''),
     fld ''sd'' (Ptr ''struct kernfs_node *''),
     fld ''kref'' struct_kref,
     bitfld ''state_initialized'' 1 (Base C_uint),
     bitfld ''state_in_sysfs'' 1 (Base C_uint),
     bitfld ''state_add_uevent_sent'' 1 (Base C_uint),
     bitfld ''state_remove_uevent_sent'' 1 (Base C_uint),
     bitfld ''uevent_suppress'' 1 (Base C_uint)]"

lemma dims_struct_kobject [c_dims]: "dims struct_kobject = (64, 8)"
  by (simp add: struct_kobject_def c_dims)

definition enum_dl_dev_state :: "(string \<times> int) list" where
  "enum_dl_dev_state =
    [(''DL_DEV_NO_DRIVER'', 0),
     (''DL_DEV_PROBING'', 1),
     (''DL_DEV_DRIVER_BOUND'', 2),
     (''DL_DEV_UNBINDING'', 3)]"

lemma size_enum_dl_dev_state [c_dims]: "enum_size enum_dl_dev_state = 4"
  by (simp add: enum_size_def enum_dl_dev_state_def)

definition struct_dev_links_info :: ctype where
  "struct_dev_links_info = Struct
    [fld ''suppliers'' struct_list_head,
     fld ''consumers'' struct_list_head,
     fld ''defer_sync'' struct_list_head,
     fld ''status'' (Enum enum_dl_dev_state)]"

lemma dims_struct_dev_links_info [c_dims]: "dims struct_dev_links_info = (56, 8)"
  by (simp add: struct_dev_links_info_def c_dims)

definition struct_pm_message :: ctype where
  "struct_pm_message = Struct
    [fld ''event'' (Base C_int)]"

lemma dims_struct_pm_message [c_dims]: "dims struct_pm_message = (4, 4)"
  by (simp add: struct_pm_message_def c_dims)

definition ty_pm_message_t :: ctype where
  "ty_pm_message_t = struct_pm_message"

lemma dims_ty_pm_message_t [c_dims]: "dims ty_pm_message_t = (4, 4)"
  by (simp add: ty_pm_message_t_def c_dims)

definition struct_swait_queue_head :: ctype where
  "struct_swait_queue_head = Struct
    [fld ''lock'' ty_raw_spinlock_t,
     fld ''task_list'' struct_list_head]"

lemma dims_struct_swait_queue_head [c_dims]: "dims struct_swait_queue_head = (24, 8)"
  by (simp add: struct_swait_queue_head_def c_dims)

definition struct_completion :: ctype where
  "struct_completion = Struct
    [fld ''done'' (Base C_uint),
     fld ''wait'' struct_swait_queue_head]"

lemma dims_struct_completion [c_dims]: "dims struct_completion = (32, 8)"
  by (simp add: struct_completion_def c_dims)

definition ty_ktime_t :: ctype where
  "ty_ktime_t = ty_s64"

lemma dims_ty_ktime_t [c_dims]: "dims ty_ktime_t = (8, 8)"
  by (simp add: ty_ktime_t_def c_dims)

definition struct_timerqueue_node :: ctype where
  "struct_timerqueue_node = Struct
    [fld ''node'' struct_rb_node,
     fld ''expires'' ty_ktime_t]"

lemma dims_struct_timerqueue_node [c_dims]: "dims struct_timerqueue_node = (32, 8)"
  by (simp add: struct_timerqueue_node_def c_dims)

definition struct_hrtimer :: ctype where
  "struct_hrtimer = Struct
    [fld ''node'' struct_timerqueue_node,
     fld ''_softexpires'' ty_ktime_t,
     fld ''function'' (Ptr ''enum hrtimer_restart (*)(struct hrtimer *)''),
     fld ''base'' (Ptr ''struct hrtimer_clock_base *''),
     fld ''state'' ty_u8,
     fld ''is_rel'' ty_u8,
     fld ''is_soft'' ty_u8,
     fld ''is_hard'' ty_u8]"

lemma dims_struct_hrtimer [c_dims]: "dims struct_hrtimer = (64, 8)"
  by (simp add: struct_hrtimer_def c_dims)

definition enum_rpm_request :: "(string \<times> int) list" where
  "enum_rpm_request =
    [(''RPM_REQ_NONE'', 0),
     (''RPM_REQ_IDLE'', 1),
     (''RPM_REQ_SUSPEND'', 2),
     (''RPM_REQ_AUTOSUSPEND'', 3),
     (''RPM_REQ_RESUME'', 4)]"

lemma size_enum_rpm_request [c_dims]: "enum_size enum_rpm_request = 4"
  by (simp add: enum_size_def enum_rpm_request_def)

definition enum_rpm_status :: "(string \<times> int) list" where
  "enum_rpm_status =
    [(''RPM_INVALID'', -1),
     (''RPM_ACTIVE'', 0),
     (''RPM_RESUMING'', 1),
     (''RPM_SUSPENDED'', 2),
     (''RPM_SUSPENDING'', 3)]"

lemma size_enum_rpm_status [c_dims]: "enum_size enum_rpm_status = 4"
  by (simp add: enum_size_def enum_rpm_status_def)

definition struct_dev_pm_info :: ctype where
  "struct_dev_pm_info = Struct
    [fld ''power_state'' ty_pm_message_t,
     bitfld ''can_wakeup'' 1 (Base C_uint),
     bitfld ''async_suspend'' 1 (Base C_uint),
     bitfld ''in_dpm_list'' 1 ty_bool,
     bitfld ''is_prepared'' 1 ty_bool,
     bitfld ''is_suspended'' 1 ty_bool,
     bitfld ''is_noirq_suspended'' 1 ty_bool,
     bitfld ''is_late_suspended'' 1 ty_bool,
     bitfld ''no_pm'' 1 ty_bool,
     bitfld ''early_init'' 1 ty_bool,
     bitfld ''direct_complete'' 1 ty_bool,
     fld ''driver_flags'' ty_u32,
     fld ''lock'' ty_spinlock_t,
     fld ''entry'' struct_list_head,
     fld ''completion'' struct_completion,
     fld ''wakeup'' (Ptr ''struct wakeup_source *''),
     bitfld ''wakeup_path'' 1 ty_bool,
     bitfld ''syscore'' 1 ty_bool,
     bitfld ''no_pm_callbacks'' 1 ty_bool,
     bitfld ''must_resume'' 1 (Base C_uint),
     bitfld ''may_skip_resume'' 1 (Base C_uint),
     fld ''suspend_timer'' struct_hrtimer,
     fld ''timer_expires'' ty_u64,
     fld ''work'' struct_work_struct,
     fld ''wait_queue'' ty_wait_queue_head_t,
     fld ''wakeirq'' (Ptr ''struct wake_irq *''),
     fld ''usage_count'' ty_atomic_t,
     fld ''child_count'' ty_atomic_t,
     bitfld ''disable_depth'' 3 (Base C_uint),
     bitfld ''idle_notification'' 1 (Base C_uint),
     bitfld ''request_pending'' 1 (Base C_uint),
     bitfld ''deferred_resume'' 1 (Base C_uint),
     bitfld ''needs_force_resume'' 1 (Base C_uint),
     bitfld ''runtime_auto'' 1 (Base C_uint),
     bitfld ''ignore_children'' 1 ty_bool,
     bitfld ''no_callbacks'' 1 (Base C_uint),
     bitfld ''irq_safe'' 1 (Base C_uint),
     bitfld ''use_autosuspend'' 1 (Base C_uint),
     bitfld ''timer_autosuspends'' 1 (Base C_uint),
     bitfld ''memalloc_noio'' 1 (Base C_uint),
     fld ''links_count'' (Base C_uint),
     fld ''request'' (Enum enum_rpm_request),
     fld ''runtime_status'' (Enum enum_rpm_status),
     fld ''last_status'' (Enum enum_rpm_status),
     fld ''runtime_error'' (Base C_int),
     fld ''autosuspend_delay'' (Base C_int),
     fld ''last_busy'' ty_u64,
     fld ''active_time'' ty_u64,
     fld ''suspended_time'' ty_u64,
     fld ''accounting_timestamp'' ty_u64,
     fld ''subsys_data'' (Ptr ''struct pm_subsys_data *''),
     fld ''set_latency_tolerance'' (Ptr ''void (*)(struct device *, s32)''),
     fld ''qos'' (Ptr ''struct dev_pm_qos *'')]"

lemma dims_struct_dev_pm_info [c_dims]: "dims struct_dev_pm_info = (312, 8)"
  by (simp add: struct_dev_pm_info_def c_dims)

definition struct_dev_msi_info :: ctype where
  "struct_dev_msi_info = Struct
    [fld ''domain'' (Ptr ''struct irq_domain *''),
     fld ''data'' (Ptr ''struct msi_device_data *'')]"

lemma dims_struct_dev_msi_info [c_dims]: "dims struct_dev_msi_info = (16, 8)"
  by (simp add: struct_dev_msi_info_def c_dims)

definition struct_dev_archdata :: ctype where
  "struct_dev_archdata = Struct []"

lemma dims_struct_dev_archdata [c_dims]: "dims struct_dev_archdata = (0, 1)"
  by (simp add: struct_dev_archdata_def c_dims)

definition ty___kernel_dev_t :: ctype where
  "ty___kernel_dev_t = ty_u32"

lemma dims_ty___kernel_dev_t [c_dims]: "dims ty___kernel_dev_t = (4, 4)"
  by (simp add: ty___kernel_dev_t_def c_dims)

definition ty_dev_t :: ctype where
  "ty_dev_t = ty___kernel_dev_t"

lemma dims_ty_dev_t [c_dims]: "dims ty_dev_t = (4, 4)"
  by (simp add: ty_dev_t_def c_dims)

definition enum_device_removable :: "(string \<times> int) list" where
  "enum_device_removable =
    [(''DEVICE_REMOVABLE_NOT_SUPPORTED'', 0),
     (''DEVICE_REMOVABLE_UNKNOWN'', 1),
     (''DEVICE_FIXED'', 2),
     (''DEVICE_REMOVABLE'', 3)]"

lemma size_enum_device_removable [c_dims]: "enum_size enum_device_removable = 4"
  by (simp add: enum_size_def enum_device_removable_def)

definition struct_device :: ctype where
  "struct_device = Struct
    [fld ''kobj'' struct_kobject,
     fld ''parent'' (Ptr ''struct device *''),
     fld ''p'' (Ptr ''struct device_private *''),
     fld ''init_name'' (Ptr ''const char *''),
     fld ''type'' (Ptr ''const struct device_type *''),
     fld ''bus'' (Ptr ''struct bus_type *''),
     fld ''driver'' (Ptr ''struct device_driver *''),
     fld ''platform_data'' (Ptr ''void *''),
     fld ''driver_data'' (Ptr ''void *''),
     fld ''mutex'' struct_mutex,
     fld ''links'' struct_dev_links_info,
     fld ''power'' struct_dev_pm_info,
     fld ''pm_domain'' (Ptr ''struct dev_pm_domain *''),
     fld ''em_pd'' (Ptr ''struct em_perf_domain *''),
     fld ''pins'' (Ptr ''struct dev_pin_info *''),
     fld ''msi'' struct_dev_msi_info,
     fld ''dma_ops'' (Ptr ''const struct dma_map_ops *''),
     fld ''dma_mask'' (Ptr ''u64 *''),
     fld ''coherent_dma_mask'' ty_u64,
     fld ''bus_dma_limit'' ty_u64,
     fld ''dma_range_map'' (Ptr ''const struct bus_dma_region *''),
     fld ''dma_parms'' (Ptr ''struct device_dma_parameters *''),
     fld ''dma_pools'' struct_list_head,
     fld ''dma_io_tlb_mem'' (Ptr ''struct io_tlb_mem *''),
     fld ''archdata'' struct_dev_archdata,
     fld ''of_node'' (Ptr ''struct device_node *''),
     fld ''fwnode'' (Ptr ''struct fwnode_handle *''),
     fld ''numa_node'' (Base C_int),
     fld ''devt'' ty_dev_t,
     fld ''id'' ty_u32,
     fld ''devres_lock'' ty_spinlock_t,
     fld ''devres_head'' struct_list_head,
     fld ''class'' (Ptr ''struct class *''),
     fld ''groups'' (Ptr ''const struct attribute_group **''),
     fld ''release'' (Ptr ''void (*)(struct device *)''),
     fld ''iommu_group'' (Ptr ''struct iommu_group *''),
     fld ''iommu'' (Ptr ''struct dev_iommu *''),
     fld ''physical_location'' (Ptr ''struct device_physical_location *''),
     fld ''removable'' (Enum enum_device_removable),
     bitfld ''offline_disabled'' 1 ty_bool,
     bitfld ''offline'' 1 ty_bool,
     bitfld ''of_node_reused'' 1 ty_bool,
     bitfld ''state_synced'' 1 ty_bool,
     bitfld ''can_match'' 1 ty_bool]"

lemma dims_struct_device [c_dims]: "dims struct_device = (744, 8)"
  by (simp add: struct_device_def c_dims)

definition ty_s16 :: ctype where
  "ty_s16 = ty___s16"

lemma dims_ty_s16 [c_dims]: "dims ty_s16 = (2, 2)"
  by (simp add: ty_s16_def c_dims)

definition struct_netdev_tc_txq :: ctype where
  "struct_netdev_tc_txq = Struct
    [fld ''count'' ty_u16,
     fld ''offset'' ty_u16]"

lemma dims_struct_netdev_tc_txq [c_dims]: "dims struct_netdev_tc_txq = (4, 2)"
  by (simp add: struct_netdev_tc_txq_def c_dims)

definition struct_bpf_xdp_entity :: ctype where
  "struct_bpf_xdp_entity = Struct
    [fld ''prog'' (Ptr ''struct bpf_prog *''),
     fld ''link'' (Ptr ''struct bpf_xdp_link *'')]"

lemma dims_struct_bpf_xdp_entity [c_dims]: "dims struct_bpf_xdp_entity = (16, 8)"
  by (simp add: struct_bpf_xdp_entity_def c_dims)

definition ty_netdevice_tracker :: ctype where
  "ty_netdevice_tracker = Struct []"

lemma dims_ty_netdevice_tracker [c_dims]: "dims ty_netdevice_tracker = (0, 1)"
  by (simp add: ty_netdevice_tracker_def c_dims)

definition struct_net_device :: ctype where
  "struct_net_device = Struct
    [fld ''name'' (Arr 16 (Base C_char)),
     fld ''name_node'' (Ptr ''struct netdev_name_node *''),
     fld ''ifalias'' (Ptr ''struct dev_ifalias *''),
     fld ''mem_end'' (Base C_ulong),
     fld ''mem_start'' (Base C_ulong),
     fld ''base_addr'' (Base C_ulong),
     fld ''state'' (Base C_ulong),
     fld ''dev_list'' struct_list_head,
     fld ''napi_list'' struct_list_head,
     fld ''unreg_list'' struct_list_head,
     fld ''close_list'' struct_list_head,
     fld ''ptype_all'' struct_list_head,
     fld ''ptype_specific'' struct_list_head,
     fld ''adj_list'' (Struct
       [fld ''upper'' struct_list_head,
        fld ''lower'' struct_list_head]),
     fld ''flags'' (Base C_uint),
     fld ''priv_flags'' (Base C_ullong),
     fld ''netdev_ops'' (Ptr ''const struct net_device_ops *''),
     fld ''ifindex'' (Base C_int),
     fld ''gflags'' (Base C_ushort),
     fld ''hard_header_len'' (Base C_ushort),
     fld ''mtu'' (Base C_uint),
     fld ''needed_headroom'' (Base C_ushort),
     fld ''needed_tailroom'' (Base C_ushort),
     fld ''features'' ty_netdev_features_t,
     fld ''hw_features'' ty_netdev_features_t,
     fld ''wanted_features'' ty_netdev_features_t,
     fld ''vlan_features'' ty_netdev_features_t,
     fld ''hw_enc_features'' ty_netdev_features_t,
     fld ''mpls_features'' ty_netdev_features_t,
     fld ''gso_partial_features'' ty_netdev_features_t,
     fld ''min_mtu'' (Base C_uint),
     fld ''max_mtu'' (Base C_uint),
     fld ''type'' (Base C_ushort),
     fld ''min_header_len'' (Base C_uchar),
     fld ''name_assign_type'' (Base C_uchar),
     fld ''group'' (Base C_int),
     fld ''stats'' struct_net_device_stats,
     fld ''core_stats'' (Ptr ''struct net_device_core_stats *''),
     fld ''carrier_up_count'' ty_atomic_t,
     fld ''carrier_down_count'' ty_atomic_t,
     fld ''wireless_handlers'' (Ptr ''const struct iw_handler_def *''),
     fld ''wireless_data'' (Ptr ''struct iw_public_data *''),
     fld ''ethtool_ops'' (Ptr ''const struct ethtool_ops *''),
     fld ''l3mdev_ops'' (Ptr ''const struct l3mdev_ops *''),
     fld ''ndisc_ops'' (Ptr ''const struct ndisc_ops *''),
     fld ''xfrmdev_ops'' (Ptr ''const struct xfrmdev_ops *''),
     fld ''tlsdev_ops'' (Ptr ''const struct tlsdev_ops *''),
     fld ''header_ops'' (Ptr ''const struct header_ops *''),
     fld ''operstate'' (Base C_uchar),
     fld ''link_mode'' (Base C_uchar),
     fld ''if_port'' (Base C_uchar),
     fld ''dma'' (Base C_uchar),
     fld ''perm_addr'' (Arr 32 (Base C_uchar)),
     fld ''addr_assign_type'' (Base C_uchar),
     fld ''addr_len'' (Base C_uchar),
     fld ''upper_level'' (Base C_uchar),
     fld ''lower_level'' (Base C_uchar),
     fld ''neigh_priv_len'' (Base C_ushort),
     fld ''dev_id'' (Base C_ushort),
     fld ''dev_port'' (Base C_ushort),
     fld ''padded'' (Base C_ushort),
     fld ''addr_list_lock'' ty_spinlock_t,
     fld ''irq'' (Base C_int),
     fld ''uc'' struct_netdev_hw_addr_list,
     fld ''mc'' struct_netdev_hw_addr_list,
     fld ''dev_addrs'' struct_netdev_hw_addr_list,
     fld ''queues_kset'' (Ptr ''struct kset *''),
     fld ''promiscuity'' (Base C_uint),
     fld ''allmulti'' (Base C_uint),
     fld ''uc_promisc'' ty_bool,
     fld ''ip_ptr'' (Ptr ''struct in_device *''),
     fld ''ip6_ptr'' (Ptr ''struct inet6_dev *''),
     fld ''vlan_info'' (Ptr ''struct vlan_info *''),
     fld ''tipc_ptr'' (Ptr ''struct tipc_bearer *''),
     fld ''atalk_ptr'' (Ptr ''void *''),
     fld ''ax25_ptr'' (Ptr ''struct ax25_dev *''),
     fld ''ieee80211_ptr'' (Ptr ''struct wireless_dev *''),
     fld ''ieee802154_ptr'' (Ptr ''struct wpan_dev *''),
     fld ''mpls_ptr'' (Ptr ''struct mpls_dev *''),
     fld ''dev_addr'' (Ptr ''const unsigned char *''),
     fld ''_rx'' (Ptr ''struct netdev_rx_queue *''),
     fld ''num_rx_queues'' (Base C_uint),
     fld ''real_num_rx_queues'' (Base C_uint),
     fld ''xdp_prog'' (Ptr ''struct bpf_prog *''),
     fld ''gro_flush_timeout'' (Base C_ulong),
     fld ''napi_defer_hard_irqs'' (Base C_int),
     fld ''gro_max_size'' (Base C_uint),
     fld ''rx_handler'' (Ptr ''rx_handler_func_t *''),
     fld ''rx_handler_data'' (Ptr ''void *''),
     fld ''miniq_ingress'' (Ptr ''struct mini_Qdisc *''),
     fld ''ingress_queue'' (Ptr ''struct netdev_queue *''),
     fld ''nf_hooks_ingress'' (Ptr ''struct nf_hook_entries *''),
     fld ''broadcast'' (Arr 32 (Base C_uchar)),
     fld ''rx_cpu_rmap'' (Ptr ''struct cpu_rmap *''),
     fld ''index_hlist'' struct_hlist_node,
     fld ''_tx'' (Ptr ''struct netdev_queue *''),
     fld ''num_tx_queues'' (Base C_uint),
     fld ''real_num_tx_queues'' (Base C_uint),
     fld ''qdisc'' (Ptr ''struct Qdisc *''),
     fld ''tx_queue_len'' (Base C_uint),
     fld ''tx_global_lock'' ty_spinlock_t,
     fld ''xdp_bulkq'' (Ptr ''struct xdp_dev_bulk_queue *''),
     fld ''xps_maps'' (Arr 2 (Ptr ''struct xps_dev_maps *'')),
     fld ''miniq_egress'' (Ptr ''struct mini_Qdisc *''),
     fld ''nf_hooks_egress'' (Ptr ''struct nf_hook_entries *''),
     fld ''qdisc_hash'' (Arr 16 struct_hlist_head),
     fld ''watchdog_timer'' struct_timer_list,
     fld ''watchdog_timeo'' (Base C_int),
     fld ''proto_down_reason'' ty_u32,
     fld ''todo_list'' struct_list_head,
     fld ''pcpu_refcnt'' (Ptr ''int *''),
     fld ''refcnt_tracker'' struct_ref_tracker_dir,
     fld ''link_watch_list'' struct_list_head,
     bitfld ''reg_state'' 8 (Enum [(''NETREG_UNINITIALIZED'', 0), (''NETREG_REGISTERED'', 1), (''NETREG_UNREGISTERING'', 2), (''NETREG_UNREGISTERED'', 3), (''NETREG_RELEASED'', 4), (''NETREG_DUMMY'', 5)]),
     fld ''dismantle'' ty_bool,
     bitfld ''rtnl_link_state'' 16 (Enum [(''RTNL_LINK_INITIALIZED'', 0), (''RTNL_LINK_INITIALIZING'', 1)]),
     fld ''needs_free_netdev'' ty_bool,
     fld ''priv_destructor'' (Ptr ''void (*)(struct net_device *)''),
     fld ''npinfo'' (Ptr ''struct netpoll_info *''),
     fld ''nd_net'' ty_possible_net_t,
     fld ''ml_priv'' (Ptr ''void *''),
     fld ''ml_priv_type'' (Enum enum_netdev_ml_priv_type),
     bitfld ''pcpu_stat_type'' 8 (Enum enum_netdev_stat_type),
     fld '''' (Union
       [fld ''lstats'' (Ptr ''struct pcpu_lstats *''),
        fld ''tstats'' (Ptr ''struct pcpu_sw_netstats *''),
        fld ''dstats'' (Ptr ''struct pcpu_dstats *'')]),
     fld ''garp_port'' (Ptr ''struct garp_port *''),
     fld ''mrp_port'' (Ptr ''struct mrp_port *''),
     fld ''dm_private'' (Ptr ''struct dm_hw_stat_delta *''),
     fld ''dev'' struct_device,
     fld ''sysfs_groups'' (Arr 4 (Ptr ''const struct attribute_group *'')),
     fld ''sysfs_rx_queue_group'' (Ptr ''const struct attribute_group *''),
     fld ''rtnl_link_ops'' (Ptr ''const struct rtnl_link_ops *''),
     fld ''gso_max_size'' (Base C_uint),
     fld ''tso_max_size'' (Base C_uint),
     fld ''gso_max_segs'' ty_u16,
     fld ''tso_max_segs'' ty_u16,
     fld ''dcbnl_ops'' (Ptr ''const struct dcbnl_rtnl_ops *''),
     fld ''num_tc'' ty_s16,
     fld ''tc_to_txq'' (Arr 16 struct_netdev_tc_txq),
     fld ''prio_tc_map'' (Arr 16 ty_u8),
     fld ''fcoe_ddp_xid'' (Base C_uint),
     fld ''priomap'' (Ptr ''struct netprio_map *''),
     fld ''phydev'' (Ptr ''struct phy_device *''),
     fld ''sfp_bus'' (Ptr ''struct sfp_bus *''),
     fld ''qdisc_tx_busylock'' (Ptr ''struct lock_class_key *''),
     fld ''proto_down'' ty_bool,
     bitfld ''wol_enabled'' 1 (Base C_uint),
     bitfld ''threaded'' 1 (Base C_uint),
     fld ''net_notifier_list'' struct_list_head,
     fld ''macsec_ops'' (Ptr ''const struct macsec_ops *''),
     fld ''udp_tunnel_nic_info'' (Ptr ''const struct udp_tunnel_nic_info *''),
     fld ''udp_tunnel_nic'' (Ptr ''struct udp_tunnel_nic *''),
     fld ''xdp_state'' (Arr 3 struct_bpf_xdp_entity),
     fld ''dev_addr_shadow'' (Arr 32 ty_u8),
     fld ''linkwatch_dev_tracker'' ty_netdevice_tracker,
     fld ''watchdog_dev_tracker'' ty_netdevice_tracker,
     fld ''dev_registered_tracker'' ty_netdevice_tracker,
     fld ''offload_xstats_l3'' (Ptr ''struct rtnl_hw_stats64 *''),
     bitfld '''' 64 (Base C_long),
     bitfld '''' 64 (Base C_long),
     bitfld '''' 64 (Base C_long),
     bitfld '''' 64 (Base C_long)]"

lemma dims_struct_net_device [c_dims]: "dims struct_net_device = (2432, 8)"
  by (simp add: struct_net_device_def c_dims)

definition ty___wsum :: ctype where
  "ty___wsum = ty___u32"

lemma dims_ty___wsum [c_dims]: "dims ty___wsum = (4, 4)"
  by (simp add: ty___wsum_def c_dims)

definition ty_sk_buff_data_t :: ctype where
  "ty_sk_buff_data_t = Base C_uint"

lemma dims_ty_sk_buff_data_t [c_dims]: "dims ty_sk_buff_data_t = (4, 4)"
  by (simp add: ty_sk_buff_data_t_def c_dims)

definition struct_sk_buff :: ctype where
  "struct_sk_buff = Struct
    [fld '''' (Union
       [fld '''' (Struct
          [fld ''next'' (Ptr ''struct sk_buff *''),
           fld ''prev'' (Ptr ''struct sk_buff *''),
           fld '''' (Union
             [fld ''dev'' (Ptr ''struct net_device *''),
              fld ''dev_scratch'' (Base C_ulong)])]),
        fld ''rbnode'' struct_rb_node,
        fld ''list'' struct_list_head,
        fld ''ll_node'' struct_llist_node]),
     fld ''sk'' (Ptr ''struct sock *''),
     fld '''' (Union
       [fld ''tstamp'' ty_ktime_t,
        fld ''skb_mstamp_ns'' ty_u64]),
     fld ''cb'' (Arr 48 (Base C_char)),
     fld '''' (Union
       [fld '''' (Struct
          [fld ''_skb_refdst'' (Base C_ulong),
           fld ''destructor'' (Ptr ''void (*)(struct sk_buff *)'')]),
        fld ''tcp_tsorted_anchor'' struct_list_head,
        fld ''_sk_redir'' (Base C_ulong)]),
     fld ''_nfct'' (Base C_ulong),
     fld ''len'' (Base C_uint),
     fld ''data_len'' (Base C_uint),
     fld ''mac_len'' ty___u16,
     fld ''hdr_len'' ty___u16,
     fld ''queue_mapping'' ty___u16,
     fld ''__cloned_offset'' (Arr 0 ty___u8),
     bitfld ''cloned'' 1 ty___u8,
     bitfld ''nohdr'' 1 ty___u8,
     bitfld ''fclone'' 2 ty___u8,
     bitfld ''peeked'' 1 ty___u8,
     bitfld ''head_frag'' 1 ty___u8,
     bitfld ''pfmemalloc'' 1 ty___u8,
     bitfld ''pp_recycle'' 1 ty___u8,
     fld ''active_extensions'' ty___u8,
     fld '''' (Union
       [fld '''' (Struct
          [fld ''__pkt_type_offset'' (Arr 0 ty___u8),
           bitfld ''pkt_type'' 3 ty___u8,
           bitfld ''ignore_df'' 1 ty___u8,
           bitfld ''nf_trace'' 1 ty___u8,
           bitfld ''ip_summed'' 2 ty___u8,
           bitfld ''ooo_okay'' 1 ty___u8,
           bitfld ''l4_hash'' 1 ty___u8,
           bitfld ''sw_hash'' 1 ty___u8,
           bitfld ''wifi_acked_valid'' 1 ty___u8,
           bitfld ''wifi_acked'' 1 ty___u8,
           bitfld ''no_fcs'' 1 ty___u8,
           bitfld ''encapsulation'' 1 ty___u8,
           bitfld ''encap_hdr_csum'' 1 ty___u8,
           bitfld ''csum_valid'' 1 ty___u8,
           fld ''__pkt_vlan_present_offset'' (Arr 0 ty___u8),
           bitfld ''vlan_present'' 1 ty___u8,
           bitfld ''csum_complete_sw'' 1 ty___u8,
           bitfld ''csum_level'' 2 ty___u8,
           bitfld ''dst_pending_confirm'' 1 ty___u8,
           bitfld ''mono_delivery_time'' 1 ty___u8,
           bitfld ''tc_skip_classify'' 1 ty___u8,
           bitfld ''tc_at_ingress'' 1 ty___u8,
           bitfld ''ndisc_nodetype'' 2 ty___u8,
           bitfld ''ipvs_property'' 1 ty___u8,
           bitfld ''inner_protocol_type'' 1 ty___u8,
           bitfld ''remcsum_offload'' 1 ty___u8,
           bitfld ''offload_fwd_mark'' 1 ty___u8,
           bitfld ''offload_l3_fwd_mark'' 1 ty___u8,
           bitfld ''redirected'' 1 ty___u8,
           bitfld ''from_ingress'' 1 ty___u8,
           bitfld ''nf_skip_egress'' 1 ty___u8,
           bitfld ''decrypted'' 1 ty___u8,
           bitfld ''slow_gro'' 1 ty___u8,
           bitfld ''csum_not_inet'' 1 ty___u8,
           bitfld ''scm_io_uring'' 1 ty___u8,
           fld ''tc_index'' ty___u16,
           fld '''' (Union
             [fld ''csum'' ty___wsum,
              fld '''' (Struct
                [fld ''csum_start'' ty___u16,
                 fld ''csum_offset'' ty___u16])]),
           fld ''priority'' ty___u32,
           fld ''skb_iif'' (Base C_int),
           fld ''hash'' ty___u32,
           fld ''vlan_proto'' ty___be16,
           fld ''vlan_tci'' ty___u16,
           fld '''' (Union
             [fld ''napi_id'' (Base C_uint),
              fld ''sender_cpu'' (Base C_uint)]),
           fld ''alloc_cpu'' ty_u16,
           fld ''secmark'' ty___u32,
           fld '''' (Union
             [fld ''mark'' ty___u32,
              fld ''reserved_tailroom'' ty___u32]),
           fld '''' (Union
             [fld ''inner_protocol'' ty___be16,
              fld ''inner_ipproto'' ty___u8]),
           fld ''inner_transport_header'' ty___u16,
           fld ''inner_network_header'' ty___u16,
           fld ''inner_mac_header'' ty___u16,
           fld ''protocol'' ty___be16,
           fld ''transport_header'' ty___u16,
           fld ''network_header'' ty___u16,
           fld ''mac_header'' ty___u16]),
        fld ''headers'' (Struct
          [fld ''__pkt_type_offset'' (Arr 0 ty___u8),
           bitfld ''pkt_type'' 3 ty___u8,
           bitfld ''ignore_df'' 1 ty___u8,
           bitfld ''nf_trace'' 1 ty___u8,
           bitfld ''ip_summed'' 2 ty___u8,
           bitfld ''ooo_okay'' 1 ty___u8,
           bitfld ''l4_hash'' 1 ty___u8,
           bitfld ''sw_hash'' 1 ty___u8,
           bitfld ''wifi_acked_valid'' 1 ty___u8,
           bitfld ''wifi_acked'' 1 ty___u8,
           bitfld ''no_fcs'' 1 ty___u8,
           bitfld ''encapsulation'' 1 ty___u8,
           bitfld ''encap_hdr_csum'' 1 ty___u8,
           bitfld ''csum_valid'' 1 ty___u8,
           fld ''__pkt_vlan_present_offset'' (Arr 0 ty___u8),
           bitfld ''vlan_present'' 1 ty___u8,
           bitfld ''csum_complete_sw'' 1 ty___u8,
           bitfld ''csum_level'' 2 ty___u8,
           bitfld ''dst_pending_confirm'' 1 ty___u8,
           bitfld ''mono_delivery_time'' 1 ty___u8,
           bitfld ''tc_skip_classify'' 1 ty___u8,
           bitfld ''tc_at_ingress'' 1 ty___u8,
           bitfld ''ndisc_nodetype'' 2 ty___u8,
           bitfld ''ipvs_property'' 1 ty___u8,
           bitfld ''inner_protocol_type'' 1 ty___u8,
           bitfld ''remcsum_offload'' 1 ty___u8,
           bitfld ''offload_fwd_mark'' 1 ty___u8,
           bitfld ''offload_l3_fwd_mark'' 1 ty___u8,
           bitfld ''redirected'' 1 ty___u8,
           bitfld ''from_ingress'' 1 ty___u8,
           bitfld ''nf_skip_egress'' 1 ty___u8,
           bitfld ''decrypted'' 1 ty___u8,
           bitfld ''slow_gro'' 1 ty___u8,
           bitfld ''csum_not_inet'' 1 ty___u8,
           bitfld ''scm_io_uring'' 1 ty___u8,
           fld ''tc_index'' ty___u16,
           fld '''' (Union
             [fld ''csum'' ty___wsum,
              fld '''' (Struct
                [fld ''csum_start'' ty___u16,
                 fld ''csum_offset'' ty___u16])]),
           fld ''priority'' ty___u32,
           fld ''skb_iif'' (Base C_int),
           fld ''hash'' ty___u32,
           fld ''vlan_proto'' ty___be16,
           fld ''vlan_tci'' ty___u16,
           fld '''' (Union
             [fld ''napi_id'' (Base C_uint),
              fld ''sender_cpu'' (Base C_uint)]),
           fld ''alloc_cpu'' ty_u16,
           fld ''secmark'' ty___u32,
           fld '''' (Union
             [fld ''mark'' ty___u32,
              fld ''reserved_tailroom'' ty___u32]),
           fld '''' (Union
             [fld ''inner_protocol'' ty___be16,
              fld ''inner_ipproto'' ty___u8]),
           fld ''inner_transport_header'' ty___u16,
           fld ''inner_network_header'' ty___u16,
           fld ''inner_mac_header'' ty___u16,
           fld ''protocol'' ty___be16,
           fld ''transport_header'' ty___u16,
           fld ''network_header'' ty___u16,
           fld ''mac_header'' ty___u16])]),
     fld ''tail'' ty_sk_buff_data_t,
     fld ''end'' ty_sk_buff_data_t,
     fld ''head'' (Ptr ''unsigned char *''),
     fld ''data'' (Ptr ''unsigned char *''),
     fld ''truesize'' (Base C_uint),
     fld ''users'' ty_refcount_t,
     fld ''extensions'' (Ptr ''struct skb_ext *'')]"

lemma dims_struct_sk_buff [c_dims]: "dims struct_sk_buff = (232, 8)"
  by (simp add: struct_sk_buff_def c_dims)

definition struct_skb_shared_hwtstamps :: ctype where
  "struct_skb_shared_hwtstamps = Struct
    [fld '''' (Union
       [fld ''hwtstamp'' ty_ktime_t,
        fld ''netdev_data'' (Ptr ''void *'')])]"

lemma dims_struct_skb_shared_hwtstamps [c_dims]: "dims struct_skb_shared_hwtstamps = (8, 8)"
  by (simp add: struct_skb_shared_hwtstamps_def c_dims)

definition struct_bio_vec :: ctype where
  "struct_bio_vec = Struct
    [fld ''bv_page'' (Ptr ''struct page *''),
     fld ''bv_len'' (Base C_uint),
     fld ''bv_offset'' (Base C_uint)]"

lemma dims_struct_bio_vec [c_dims]: "dims struct_bio_vec = (16, 8)"
  by (simp add: struct_bio_vec_def c_dims)

definition ty_skb_frag_t :: ctype where
  "ty_skb_frag_t = struct_bio_vec"

lemma dims_ty_skb_frag_t [c_dims]: "dims ty_skb_frag_t = (16, 8)"
  by (simp add: ty_skb_frag_t_def c_dims)

definition struct_skb_shared_info :: ctype where
  "struct_skb_shared_info = Struct
    [fld ''flags'' ty___u8,
     fld ''meta_len'' ty___u8,
     fld ''nr_frags'' ty___u8,
     fld ''tx_flags'' ty___u8,
     fld ''gso_size'' (Base C_ushort),
     fld ''gso_segs'' (Base C_ushort),
     fld ''frag_list'' (Ptr ''struct sk_buff *''),
     fld ''hwtstamps'' struct_skb_shared_hwtstamps,
     fld ''gso_type'' (Base C_uint),
     fld ''tskey'' ty_u32,
     fld ''dataref'' ty_atomic_t,
     fld ''xdp_frags_size'' (Base C_uint),
     fld ''destructor_arg'' (Ptr ''void *''),
     fld ''frags'' (Arr 17 ty_skb_frag_t)]"

lemma dims_struct_skb_shared_info [c_dims]: "dims struct_skb_shared_info = (320, 8)"
  by (simp add: struct_skb_shared_info_def c_dims)

definition struct_netdev_rx_queue :: ctype where
  "struct_netdev_rx_queue = Struct
    [fld ''xdp_rxq'' struct_xdp_rxq_info,
     fld ''rps_map'' (Ptr ''struct rps_map *''),
     fld ''rps_flow_table'' (Ptr ''struct rps_dev_flow_table *''),
     fld ''kobj'' struct_kobject,
     fld ''dev'' (Ptr ''struct net_device *''),
     fld ''dev_tracker'' ty_netdevice_tracker,
     fld ''pool'' (Ptr ''struct xsk_buff_pool *''),
     bitfld '''' 64 (Base C_long),
     bitfld '''' 64 (Base C_long),
     bitfld '''' 64 (Base C_long),
     bitfld '''' 64 (Base C_long)]"

lemma dims_struct_netdev_rx_queue [c_dims]: "dims struct_netdev_rx_queue = (192, 8)"
  by (simp add: struct_netdev_rx_queue_def c_dims)

definition enum_dma_data_direction :: "(string \<times> int) list" where
  "enum_dma_data_direction =
    [(''DMA_BIDIRECTIONAL'', 0),
     (''DMA_TO_DEVICE'', 1),
     (''DMA_FROM_DEVICE'', 2),
     (''DMA_NONE'', 3)]"

lemma size_enum_dma_data_direction [c_dims]: "enum_size enum_dma_data_direction = 4"
  by (simp add: enum_size_def enum_dma_data_direction_def)

definition struct_page_pool_params :: ctype where
  "struct_page_pool_params = Struct
    [fld ''flags'' (Base C_uint),
     fld ''order'' (Base C_uint),
     fld ''pool_size'' (Base C_uint),
     fld ''nid'' (Base C_int),
     fld ''dev'' (Ptr ''struct device *''),
     fld ''dma_dir'' (Enum enum_dma_data_direction),
     fld ''max_len'' (Base C_uint),
     fld ''offset'' (Base C_uint),
     fld ''init_callback'' (Ptr ''void (*)(struct page *, void *)''),
     fld ''init_arg'' (Ptr ''void *'')]"

lemma dims_struct_page_pool_params [c_dims]: "dims struct_page_pool_params = (56, 8)"
  by (simp add: struct_page_pool_params_def c_dims)

definition struct_delayed_work :: ctype where
  "struct_delayed_work = Struct
    [fld ''work'' struct_work_struct,
     fld ''timer'' struct_timer_list,
     fld ''wq'' (Ptr ''struct workqueue_struct *''),
     fld ''cpu'' (Base C_int)]"

lemma dims_struct_delayed_work [c_dims]: "dims struct_delayed_work = (88, 8)"
  by (simp add: struct_delayed_work_def c_dims)

definition struct_pp_alloc_cache :: ctype where
  "struct_pp_alloc_cache = Struct
    [fld ''count'' ty_u32,
     fld ''cache'' (Arr 128 (Ptr ''struct page *''))]"

lemma dims_struct_pp_alloc_cache [c_dims]: "dims struct_pp_alloc_cache = (1032, 8)"
  by (simp add: struct_pp_alloc_cache_def c_dims)

definition struct_ptr_ring :: ctype where
  "struct_ptr_ring = Struct
    [fld ''producer'' (Base C_int),
     fld ''producer_lock'' ty_spinlock_t,
     bitfld '''' 64 (Base C_long),
     bitfld '''' 64 (Base C_long),
     bitfld '''' 64 (Base C_long),
     bitfld '''' 64 (Base C_long),
     bitfld '''' 64 (Base C_long),
     bitfld '''' 64 (Base C_long),
     bitfld '''' 64 (Base C_long),
     fld ''consumer_head'' (Base C_int),
     fld ''consumer_tail'' (Base C_int),
     fld ''consumer_lock'' ty_spinlock_t,
     bitfld '''' 64 (Base C_long),
     bitfld '''' 64 (Base C_long),
     bitfld '''' 64 (Base C_long),
     bitfld '''' 64 (Base C_long),
     bitfld '''' 64 (Base C_long),
     bitfld '''' 64 (Base C_long),
     fld ''size'' (Base C_int),
     fld ''batch'' (Base C_int),
     fld ''queue'' (Ptr ''void **''),
     bitfld '''' 64 (Base C_long),
     bitfld '''' 64 (Base C_long),
     bitfld '''' 64 (Base C_long),
     bitfld '''' 64 (Base C_long),
     bitfld '''' 64 (Base C_long),
     bitfld '''' 64 (Base C_long)]"

lemma dims_struct_ptr_ring [c_dims]: "dims struct_ptr_ring = (192, 8)"
  by (simp add: struct_ptr_ring_def c_dims)

definition struct_page_pool :: ctype where
  "struct_page_pool = Struct
    [fld ''p'' struct_page_pool_params,
     fld ''release_dw'' struct_delayed_work,
     fld ''disconnect'' (Ptr ''void (*)(void *)''),
     fld ''defer_start'' (Base C_ulong),
     fld ''defer_warn'' (Base C_ulong),
     fld ''pages_state_hold_cnt'' ty_u32,
     fld ''frag_offset'' (Base C_uint),
     fld ''frag_page'' (Ptr ''struct page *''),
     fld ''frag_users'' (Base C_long),
     fld ''xdp_mem_id'' ty_u32,
     bitfld '''' 64 (Base C_long),
     bitfld '''' 64 (Base C_long),
     bitfld '''' 64 (Base C_long),
     bitfld '''' 64 (Base C_long),
     bitfld '''' 64 (Base C_long),
     bitfld '''' 64 (Base C_long),
     bitfld '''' 64 (Base C_long),
     fld ''alloc'' struct_pp_alloc_cache,
     bitfld '''' 64 (Base C_long),
     bitfld '''' 64 (Base C_long),
     bitfld '''' 64 (Base C_long),
     bitfld '''' 64 (Base C_long),
     bitfld '''' 64 (Base C_long),
     bitfld '''' 64 (Base C_long),
     bitfld '''' 64 (Base C_long),
     fld ''ring'' struct_ptr_ring,
     fld ''pages_state_release_cnt'' ty_atomic_t,
     fld ''user_cnt'' ty_refcount_t,
     fld ''destroy_cnt'' ty_u64,
     bitfld '''' 64 (Base C_long),
     bitfld '''' 64 (Base C_long),
     bitfld '''' 64 (Base C_long),
     bitfld '''' 64 (Base C_long),
     bitfld '''' 64 (Base C_long),
     bitfld '''' 64 (Base C_long)]"

lemma dims_struct_page_pool [c_dims]: "dims struct_page_pool = (1600, 8)"
  by (simp add: struct_page_pool_def c_dims)

definition struct_gro_list :: ctype where
  "struct_gro_list = Struct
    [fld ''list'' struct_list_head,
     fld ''count'' (Base C_int)]"

lemma dims_struct_gro_list [c_dims]: "dims struct_gro_list = (24, 8)"
  by (simp add: struct_gro_list_def c_dims)

definition struct_napi_struct :: ctype where
  "struct_napi_struct = Struct
    [fld ''poll_list'' struct_list_head,
     fld ''state'' (Base C_ulong),
     fld ''weight'' (Base C_int),
     fld ''defer_hard_irqs_count'' (Base C_int),
     fld ''gro_bitmask'' (Base C_ulong),
     fld ''poll'' (Ptr ''int (*)(struct napi_struct *, int)''),
     fld ''poll_owner'' (Base C_int),
     fld ''dev'' (Ptr ''struct net_device *''),
     fld ''gro_hash'' (Arr 8 struct_gro_list),
     fld ''skb'' (Ptr ''struct sk_buff *''),
     fld ''rx_list'' struct_list_head,
     fld ''rx_count'' (Base C_int),
     fld ''timer'' struct_hrtimer,
     fld ''dev_list'' struct_list_head,
     fld ''napi_hash_node'' struct_hlist_node,
     fld ''napi_id'' (Base C_uint),
     fld ''thread'' (Ptr ''struct task_struct *'')]"

lemma dims_struct_napi_struct [c_dims]: "dims struct_napi_struct = (400, 8)"
  by (simp add: struct_napi_struct_def c_dims)

end
