(* ===== verification/Wire_Layout.thy ===== *)
theory Wire_Layout
  imports Headers Kernel_Types
begin

text \<open>
  The header loads of \<open>Headers\<close> against the declarations of the headers in \<open>vmlinux.h\<close>: every member
  is read at the place, and with the width, that the C layout gives it.
\<close>

section \<open>Words as little-endian numbers\<close>

lemma of_nat_unat_ucast: "of_nat (unat x) = ucast x"
  by (rule bit_word_eqI) (simp add: bit_simps)

lemma nat_bytes_numeral:
  "nat_bytes (numeral k) x = of_nat x # nat_bytes (pred_numeral k) (x div 256)"
  by (subst numeral_eq_Suc [of k]) (rule nat_bytes.simps)

lemma of_nat_div_ucast: "of_nat (unat x div 2 ^ k) = ucast (drop_bit k x)"
  by (simp only: drop_bit_eq_div [symmetric] unat_drop_bit_eq [symmetric] of_nat_unat_ucast)

lemma nat_bytes_u32: "nat_bytes 4 (unat x) = bytes_of_u32 x"
  using of_nat_div_ucast [of x 8] of_nat_div_ucast [of x 16] of_nat_div_ucast [of x 24]
  by (simp add: bytes_of_u32_def nat_bytes_numeral of_nat_unat_ucast div_mult2_eq [symmetric])

lemma le_nat_bytes_of_u32: "le_nat (bytes_of_u32 x) = unat x"
proof -
  have "unat x < 2 ^ 32" using unsigned_less [of x] by simp
  then show ?thesis by (simp add: le_nat_nat_bytes flip: nat_bytes_u32)
qed

lemma le_nat_4: "le_nat [a, b, c, d] = unat (le32 a b c d)"
  using le_nat_bytes_of_u32 [of "le32 a b c d"] by simp

lemma le_nat_2: "le_nat [a, b] = unat (le16 a b)"
proof -
  have "le_nat [a, b, 0, 0] = unat (le32 a b 0 0)" by (rule le_nat_4)
  moreover have "le32 a b 0 0 = ucast (le16 a b)"
    by (rule bit_word_eqI) (auto simp: le32_def le16_def bit_simps dest: bit_imp_le_length)
  moreover have "unat (ucast (le16 a b) :: u32) = unat (le16 a b)"
    by (rule bit_eqI) (auto simp: bit_simps dest: bit_imp_le_length)
  ultimately show ?thesis by simp
qed

lemma of_nat_bits:
  fixes x :: "'a :: len word"
  shows "of_nat (unat x div 2 ^ r mod 2 ^ w) = take_bit w (drop_bit r x)"
proof -
  have "unat x div 2 ^ r mod 2 ^ w = take_bit w (drop_bit r (unat x))"
    by (simp add: drop_bit_eq_div take_bit_eq_mod)
  also have "\<dots> = unat (take_bit w (drop_bit r x))"
    by (rule bit_eqI) (auto simp: bit_simps dest: bit_imp_le_length)
  finally show ?thesis by (simp only: of_nat_unat_ucast ucast_id)
qed

section \<open>Members of a packet\<close>

text \<open>Whole bytes and words, then the bits inside them.\<close>

lemma take_drop_Suc: "k < length p \<Longrightarrow> take (Suc n) (drop k p) = p ! k # take n (drop (Suc k) p)"
  by (simp add: Cons_nth_drop_Suc [symmetric])

lemma take_drop_numeral:
  "k < length p \<Longrightarrow>
     take (numeral n) (drop k p) = p ! k # take (pred_numeral n) (drop (Suc k) p)"
  by (simp add: numeral_eq_Suc take_drop_Suc)

lemma get_bits_8:
  assumes "s mod 8 = 0" "i + s div 8 < length p"
  shows "get_bits (le_nat (drop i p)) (s, 8) = unat (p ! (i + s div 8))"
proof -
  have "s = 8 * (s div 8)" using assms(1) by auto
  then show ?thesis
    using get_bits_bytes [of "drop i p" "s div 8" 1] assms(2)
    by (simp add: take_drop_Suc add.commute)
qed

lemma get_bits_16:
  assumes "s mod 8 = 0" "i + s div 8 + 1 < length p"
  shows "get_bits (le_nat (drop i p)) (s, 16) = unat (le16 (p ! (i + s div 8)) (p ! (i + s div 8 + 1)))"
proof -
  have "s = 8 * (s div 8)" using assms(1) by auto
  then show ?thesis
    using get_bits_bytes [of "drop i p" "s div 8" 2] assms(2) le_nat_2
    by (simp add: take_drop_Suc take_drop_numeral add.commute)
qed

lemma get_bits_32:
  assumes "s mod 8 = 0" "i + s div 8 + 3 < length p"
  shows "get_bits (le_nat (drop i p)) (s, 32) =
           unat (le32 (p ! (i + s div 8)) (p ! (i + s div 8 + 1))
                      (p ! (i + s div 8 + 2)) (p ! (i + s div 8 + 3)))"
proof -
  have "s = 8 * (s div 8)" using assms(1) by auto
  then show ?thesis
    using get_bits_bytes [of "drop i p" "s div 8" 4] assms(2) le_nat_4
    by (simp add: take_drop_Suc take_drop_numeral add.commute numeral_3_eq_3)
qed

text \<open>A bit field inside a byte or a 16-bit word, given the place of that unit.\<close>

lemma get_bits_in_8:
  assumes "s mod 8 + w \<le> 8" "i + s div 8 < length p"
  shows "get_bits (le_nat (drop i p)) (s, w) = unat (p ! (i + s div 8)) div 2 ^ (s mod 8) mod 2 ^ w"
proof -
  have "get_bits (le_nat (drop i p)) (8 * (s div 8) + s mod 8, w) =
      get_bits (le_nat (drop i p)) (8 * (s div 8), 8) div 2 ^ (s mod 8) mod 2 ^ w"
    using assms(1) by (rule get_bits_inside)
  then show ?thesis using get_bits_8 [of "8 * (s div 8)" i p] assms(2) by simp
qed

lemma get_bits_in_16:
  assumes "s mod 16 + w \<le> 16" "i + 2 * (s div 16) + 1 < length p"
  shows "get_bits (le_nat (drop i p)) (s, w) =
           unat (le16 (p ! (i + 2 * (s div 16))) (p ! (i + 2 * (s div 16) + 1)))
             div 2 ^ (s mod 16) mod 2 ^ w"
proof -
  have "get_bits (le_nat (drop i p)) (16 * (s div 16) + s mod 16, w) =
      get_bits (le_nat (drop i p)) (16 * (s div 16), 16) div 2 ^ (s mod 16) mod 2 ^ w"
    using assms(1) by (rule get_bits_inside)
  moreover have "16 * (s div 16) div 8 = 2 * (s div 16)" by presburger
  ultimately show ?thesis using get_bits_16 [of "16 * (s div 16)" i p] assms(2) by simp
qed

lemma bit_of_unat: "unat x div 2 ^ r mod 2 = 1 \<longleftrightarrow> bit x r"
proof -
  have "bit (unat x) r \<longleftrightarrow> bit x r" by (auto simp: bit_simps dest: bit_imp_le_length)
  then show ?thesis using bit_iff_odd [of "unat x" r] by (simp add: odd_iff_mod_2_eq_one)
qed

section \<open>Places of the header members\<close>

lemma header_slots:
  "slots struct_ethhdr = [(''h_dest'', 0, 48), (''h_source'', 48, 48), (''h_proto'', 96, 16)]"
  "slots struct_vlan_hdr = [(''h_vlan_TCI'', 0, 16), (''h_vlan_encapsulated_proto'', 16, 16)]"
  "slots struct_iphdr =
     [(''ihl'', 0, 4), (''version'', 4, 4), (''tos'', 8, 8), (''tot_len'', 16, 16), (''id'', 32, 16),
      (''frag_off'', 48, 16), (''ttl'', 64, 8), (''protocol'', 72, 8), (''check'', 80, 16),
      (''saddr'', 96, 32), (''daddr'', 128, 32), (''addrs'', 96, 64)]"
  "slots struct_ipv6hdr =
     [(''priority'', 0, 4), (''version'', 4, 4), (''flow_lbl'', 8, 24), (''payload_len'', 32, 16),
      (''nexthdr'', 48, 8), (''hop_limit'', 56, 8), (''saddr'', 64, 128), (''daddr'', 192, 128),
      (''addrs'', 64, 256)]"
  "slots struct_tcphdr =
     [(''source'', 0, 16), (''dest'', 16, 16), (''seq'', 32, 32), (''ack_seq'', 64, 32),
      (''res1'', 96, 4), (''doff'', 100, 4), (''fin'', 104, 1), (''syn'', 105, 1), (''rst'', 106, 1),
      (''psh'', 107, 1), (''ack'', 108, 1), (''urg'', 109, 1), (''ece'', 110, 1), (''cwr'', 111, 1),
      (''window'', 112, 16), (''check'', 128, 16), (''urg_ptr'', 144, 16)]"
  "slots struct_udphdr =
     [(''source'', 0, 16), (''dest'', 16, 16), (''len'', 32, 16), (''check'', 48, 16)]"
  by (simp_all add: struct_ethhdr_def struct_vlan_hdr_def struct_iphdr_def struct_ipv6hdr_def
      struct_tcphdr_def struct_udphdr_def member_slots_def shift_slots_def c_dims)

lemmas member_simps =
  c_member_def c_bytes_def slot_of_def header_slots sizeof_def c_dims
  get_bits_8 get_bits_16 get_bits_32 of_nat_unat_ucast

text \<open>A structure of the packet, as the C code reads it through its declaration.\<close>

definition c_ethhdr :: "packet \<Rightarrow> nat \<Rightarrow> ethhdr option" where
  "c_ethhdr p i =
     do {
       d \<leftarrow> c_bytes struct_ethhdr ''h_dest'' p i;
       s \<leftarrow> c_bytes struct_ethhdr ''h_source'' p i;
       t \<leftarrow> c_member struct_ethhdr ''h_proto'' p i;
       Some \<lparr>h_dest = d, h_source = s, h_proto = of_nat t\<rparr>
     }"

definition c_vlan_hdr :: "packet \<Rightarrow> nat \<Rightarrow> vlan_hdr option" where
  "c_vlan_hdr p i =
     do {
       tci \<leftarrow> c_member struct_vlan_hdr ''h_vlan_TCI'' p i;
       t \<leftarrow> c_member struct_vlan_hdr ''h_vlan_encapsulated_proto'' p i;
       Some \<lparr>h_vlan_TCI = of_nat tci, h_vlan_encapsulated_proto = of_nat t\<rparr>
     }"

definition c_iphdr :: "packet \<Rightarrow> nat \<Rightarrow> iphdr option" where
  "c_iphdr p i =
     do {
       ihl \<leftarrow> c_member struct_iphdr ''ihl'' p i;
       version \<leftarrow> c_member struct_iphdr ''version'' p i;
       tos \<leftarrow> c_member struct_iphdr ''tos'' p i;
       len \<leftarrow> c_member struct_iphdr ''tot_len'' p i;
       ident \<leftarrow> c_member struct_iphdr ''id'' p i;
       frag \<leftarrow> c_member struct_iphdr ''frag_off'' p i;
       ttl \<leftarrow> c_member struct_iphdr ''ttl'' p i;
       proto \<leftarrow> c_member struct_iphdr ''protocol'' p i;
       chk \<leftarrow> c_member struct_iphdr ''check'' p i;
       saddr \<leftarrow> c_member struct_iphdr ''saddr'' p i;
       daddr \<leftarrow> c_member struct_iphdr ''daddr'' p i;
       Some \<lparr>ip_ihl = of_nat ihl, ip_version = of_nat version, ip_tos = of_nat tos,
             ip_tot_len = of_nat len, ip_id = of_nat ident, ip_frag_off = of_nat frag,
             ip_ttl = of_nat ttl, ip_protocol = of_nat proto, ip_check = of_nat chk,
             ip_saddr = of_nat saddr, ip_daddr = of_nat daddr\<rparr>
     }"

definition c_ipv6hdr :: "packet \<Rightarrow> nat \<Rightarrow> ipv6hdr option" where
  "c_ipv6hdr p i =
     do {
       prio \<leftarrow> c_member struct_ipv6hdr ''priority'' p i;
       version \<leftarrow> c_member struct_ipv6hdr ''version'' p i;
       flow \<leftarrow> c_bytes struct_ipv6hdr ''flow_lbl'' p i;
       len \<leftarrow> c_member struct_ipv6hdr ''payload_len'' p i;
       nh \<leftarrow> c_member struct_ipv6hdr ''nexthdr'' p i;
       hlim \<leftarrow> c_member struct_ipv6hdr ''hop_limit'' p i;
       saddr \<leftarrow> c_bytes struct_ipv6hdr ''saddr'' p i;
       daddr \<leftarrow> c_bytes struct_ipv6hdr ''daddr'' p i;
       Some \<lparr>ip6_priority = of_nat prio, ip6_version = of_nat version, ip6_flow_lbl = flow,
             ip6_payload_len = of_nat len, ip6_nexthdr = of_nat nh, ip6_hop_limit = of_nat hlim,
             ip6_saddr = saddr, ip6_daddr = daddr\<rparr>
     }"

definition c_tcphdr :: "packet \<Rightarrow> nat \<Rightarrow> tcphdr option" where
  "c_tcphdr p i =
     do {
       src \<leftarrow> c_member struct_tcphdr ''source'' p i;
       dst \<leftarrow> c_member struct_tcphdr ''dest'' p i;
       seq \<leftarrow> c_member struct_tcphdr ''seq'' p i;
       ackseq \<leftarrow> c_member struct_tcphdr ''ack_seq'' p i;
       res1 \<leftarrow> c_member struct_tcphdr ''res1'' p i;
       doff \<leftarrow> c_member struct_tcphdr ''doff'' p i;
       fin \<leftarrow> c_member struct_tcphdr ''fin'' p i;
       syn \<leftarrow> c_member struct_tcphdr ''syn'' p i;
       rst \<leftarrow> c_member struct_tcphdr ''rst'' p i;
       psh \<leftarrow> c_member struct_tcphdr ''psh'' p i;
       ack \<leftarrow> c_member struct_tcphdr ''ack'' p i;
       urg \<leftarrow> c_member struct_tcphdr ''urg'' p i;
       ece \<leftarrow> c_member struct_tcphdr ''ece'' p i;
       cwr \<leftarrow> c_member struct_tcphdr ''cwr'' p i;
       win \<leftarrow> c_member struct_tcphdr ''window'' p i;
       chk \<leftarrow> c_member struct_tcphdr ''check'' p i;
       urgp \<leftarrow> c_member struct_tcphdr ''urg_ptr'' p i;
       Some \<lparr>th_source = of_nat src, th_dest = of_nat dst, th_seq = of_nat seq,
             th_ack_seq = of_nat ackseq, th_res1 = of_nat res1, th_doff = of_nat doff,
             th_fin = (fin = 1), th_syn = (syn = 1), th_rst = (rst = 1), th_psh = (psh = 1),
             th_ack = (ack = 1), th_urg = (urg = 1), th_ece = (ece = 1), th_cwr = (cwr = 1),
             th_window = of_nat win, th_check = of_nat chk, th_urg_ptr = of_nat urgp\<rparr>
     }"

definition c_udphdr :: "packet \<Rightarrow> nat \<Rightarrow> udphdr option" where
  "c_udphdr p i =
     do {
       src \<leftarrow> c_member struct_udphdr ''source'' p i;
       dst \<leftarrow> c_member struct_udphdr ''dest'' p i;
       len \<leftarrow> c_member struct_udphdr ''len'' p i;
       chk \<leftarrow> c_member struct_udphdr ''check'' p i;
       Some \<lparr>uh_source = of_nat src, uh_dest = of_nat dst, uh_len = of_nat len,
             uh_check = of_nat chk\<rparr>
     }"

lemma c_udphdr_load: "c_udphdr p i = load_udphdr p i"
  by (auto simp: c_udphdr_def load_udphdr_def load16_def member_simps)

lemma c_ethhdr_load: "c_ethhdr p i = load_ethhdr p i"
  by (auto simp: c_ethhdr_def load_ethhdr_def load16_def load_bytes_def member_simps)

lemma c_vlan_hdr_load: "c_vlan_hdr p i = load_vlan_hdr p i"
  by (auto simp: c_vlan_hdr_def load_vlan_hdr_def load16_def member_simps)

lemma nibbles:
  fixes b :: u8
  shows "of_nat (unat b mod 16) = b AND 15" "of_nat (unat b div 16 mod 16) = drop_bit 4 b"
proof -
  have "of_nat (unat b div 2 ^ 0 mod 2 ^ 4) = take_bit 4 (drop_bit 0 b)" by (rule of_nat_bits)
  then show "of_nat (unat b mod 16) = b AND 15" by (simp add: take_bit_eq_mask mask_eq_exp_minus_1)
  have "of_nat (unat b div 2 ^ 4 mod 2 ^ 4) = take_bit 4 (drop_bit 4 b)" by (rule of_nat_bits)
  also have "\<dots> = drop_bit 4 b"
    by (rule bit_word_eqI) (auto simp: bit_simps dest: bit_imp_le_length)
  finally show "of_nat (unat b div 16 mod 16) = drop_bit 4 b" by simp
qed

lemma unat_mods:
  "unat (b :: u8) mod 256 = unat b" "unat (x :: u16) mod 65536 = unat x"
proof -
  have "unat b < 2 ^ 8" "unat x < 2 ^ 16" using unsigned_less [of b] unsigned_less [of x] by simp_all
  then show "unat b mod 256 = unat b" "unat x mod 65536 = unat x" by simp_all
qed

lemma tcp_word:
  fixes x :: u16
  shows "of_nat (unat x mod 16) = x AND 15" "of_nat (unat x div 16 mod 16) = drop_bit 4 x AND 15"
  using of_nat_bits [of x 0 4] of_nat_bits [of x 4 4]
  by (simp_all add: take_bit_eq_mask mask_eq_exp_minus_1)

lemmas flag_bits_of_byte =
  bit_of_unat [of _ 8, simplified] bit_of_unat [of _ 9, simplified]
  bit_of_unat [of _ 10, simplified] bit_of_unat [of _ 11, simplified]
  bit_of_unat [of _ 12, simplified] bit_of_unat [of _ 13, simplified]
  bit_of_unat [of _ 14, simplified] bit_of_unat [of _ 15, simplified]

lemma c_iphdr_load: "c_iphdr p i = load_iphdr p i"
proof (cases "i + 20 \<le> length p")
  case True
  then show ?thesis
    by (simp add: c_iphdr_def load_iphdr_def load_simps member_simps get_bits_in_8 nibbles
        unat_mods)
next
  case False
  then show ?thesis by (simp add: c_iphdr_def load_iphdr_def load32_def member_simps)
qed

lemma c_ipv6hdr_load: "c_ipv6hdr p i = load_ipv6hdr p i"
proof (cases "i + 40 \<le> length p")
  case True
  then show ?thesis
    by (simp add: c_ipv6hdr_def load_ipv6hdr_def load_simps member_simps get_bits_in_8 nibbles
        unat_mods)
next
  case False
  then show ?thesis by (simp add: c_ipv6hdr_def load_ipv6hdr_def load_bytes_def member_simps)
qed

lemma c_tcphdr_load: "c_tcphdr p i = load_tcphdr p i"
proof (cases "i + 20 \<le> length p")
  case True
  then show ?thesis
    by (simp add: c_tcphdr_def load_tcphdr_def load_simps member_simps get_bits_in_16 tcp_word
        flag_bits_of_byte unat_mods)
next
  case False
  then show ?thesis by (simp add: c_tcphdr_def load_tcphdr_def load16_def member_simps)
qed

text \<open>
  C33: The header loads of the packet path are the reads the C declarations prescribe: loading an
  Ethernet, VLAN, IPv4, IPv6, TCP or UDP header at any position of any packet gives exactly the
  members at the offsets, widths and bit positions of the declarations in \<open>vmlinux.h\<close>, and no
  value exactly when \<open>sizeof\<close> bytes are not there.
\<close>

theorem headers_follow_layout:
  "load_ethhdr = c_ethhdr \<and> load_vlan_hdr = c_vlan_hdr \<and> load_iphdr = c_iphdr \<and>
   load_ipv6hdr = c_ipv6hdr \<and> load_tcphdr = c_tcphdr \<and> load_udphdr = c_udphdr"
  by (simp add: fun_eq_iff c_ethhdr_load c_vlan_hdr_load c_iphdr_load c_ipv6hdr_load
      c_tcphdr_load c_udphdr_load)

end
