(* ===== verification/Shield_Layout.thy ===== *)
theory Shield_Layout
  imports Scenario Kernel_Net Wire_Layout
begin

text \<open>
  The structures of \<open>xdp_kernloom_shield.bpf.c\<close> as C types, and what depends on their layout: the map
  keys, which the kernel compares as bytes; the events, which \<open>klshield\<close> decodes by byte offset; and
  the map values and keys that the Go tools exchange with the program as structures of their own.
\<close>

section \<open>The structures of the program\<close>

definition struct_xdp_totals_t :: ctype where
  "struct_xdp_totals_t = Struct
    [fld ''pkts'' ty___u64,
     fld ''bytes'' ty___u64,
     fld ''pass'' ty___u64,
     fld ''drop_allow'' ty___u64,
     fld ''drop_deny'' ty___u64,
     fld ''drop_rl'' ty___u64,
     fld ''v4'' ty___u64,
     fld ''v6'' ty___u64,
     fld ''tcp'' ty___u64,
     fld ''udp'' ty___u64,
     fld ''icmp'' ty___u64,
     fld ''syn'' ty___u64,
     fld ''synack'' ty___u64,
     fld ''rst'' ty___u64,
     fld ''ack'' ty___u64,
     fld ''ipv4_frags'' ty___u64,
     fld ''dport_changes'' ty___u64,
     fld ''new_sources'' ty___u64,
     fld ''allow_hits'' ty___u64,
     fld ''deny_hits'' ty___u64,
     fld ''rl_hits'' ty___u64]"

lemma dims_struct_xdp_totals_t [c_dims]: "dims struct_xdp_totals_t = (168, 8)"
  by (simp add: struct_xdp_totals_t_def c_dims)

definition struct_xdp_src_stats_v4_t :: ctype where
  "struct_xdp_src_stats_v4_t = Struct
    [fld ''pkts'' ty___u64,
     fld ''bytes'' ty___u64,
     fld ''tcp'' ty___u64,
     fld ''udp'' ty___u64,
     fld ''icmp'' ty___u64,
     fld ''syn'' ty___u64,
     fld ''synack'' ty___u64,
     fld ''rst'' ty___u64,
     fld ''ack'' ty___u64,
     fld ''pass'' ty___u64,
     fld ''drop_allow'' ty___u64,
     fld ''drop_deny'' ty___u64,
     fld ''drop_rl'' ty___u64,
     fld ''first_seen_ns'' ty___u64,
     fld ''last_seen_ns'' ty___u64,
     fld ''last_sport'' ty___u16,
     fld ''last_dport'' ty___u16,
     fld ''dport_changes'' ty___u64,
     fld ''last_ttl'' ty___u8,
     fld ''last_tcp_flags'' ty___u8,
     fld ''_pad'' ty___u16]"

lemma dims_struct_xdp_src_stats_v4_t [c_dims]: "dims struct_xdp_src_stats_v4_t = (144, 8)"
  by (simp add: struct_xdp_src_stats_v4_t_def c_dims)

definition struct_src6_key :: ctype where
  "struct_src6_key = Struct
    [fld ''ip'' (Arr 16 ty___u8)]"

lemma dims_struct_src6_key [c_dims]: "dims struct_src6_key = (16, 1)"
  by (simp add: struct_src6_key_def c_dims)

definition struct_xdp_src_stats_v6_t :: ctype where
  "struct_xdp_src_stats_v6_t = Struct
    [fld ''pkts'' ty___u64,
     fld ''bytes'' ty___u64,
     fld ''tcp'' ty___u64,
     fld ''udp'' ty___u64,
     fld ''icmp'' ty___u64,
     fld ''syn'' ty___u64,
     fld ''synack'' ty___u64,
     fld ''rst'' ty___u64,
     fld ''ack'' ty___u64,
     fld ''pass'' ty___u64,
     fld ''drop_allow'' ty___u64,
     fld ''drop_deny'' ty___u64,
     fld ''drop_rl'' ty___u64,
     fld ''first_seen_ns'' ty___u64,
     fld ''last_seen_ns'' ty___u64,
     fld ''last_sport'' ty___u16,
     fld ''last_dport'' ty___u16,
     fld ''dport_changes'' ty___u64,
     fld ''last_hlim'' ty___u8,
     fld ''last_tcp_flags'' ty___u8,
     fld ''_pad'' ty___u16]"

lemma dims_struct_xdp_src_stats_v6_t [c_dims]: "dims struct_xdp_src_stats_v6_t = (144, 8)"
  by (simp add: struct_xdp_src_stats_v6_t_def c_dims)

definition struct_flow4_key :: ctype where
  "struct_flow4_key = Struct
    [fld ''src_ip'' ty___u32,
     fld ''dst_port'' ty___u16,
     fld ''proto'' ty___u8,
     fld ''pad'' ty___u8]"

lemma dims_struct_flow4_key [c_dims]: "dims struct_flow4_key = (8, 4)"
  by (simp add: struct_flow4_key_def c_dims)

definition struct_flow4_stats :: ctype where
  "struct_flow4_stats = Struct
    [fld ''pkts'' ty___u64,
     fld ''bytes'' ty___u64,
     fld ''syn'' ty___u64]"

lemma dims_struct_flow4_stats [c_dims]: "dims struct_flow4_stats = (24, 8)"
  by (simp add: struct_flow4_stats_def c_dims)

definition struct_lpm_key_v4 :: ctype where
  "struct_lpm_key_v4 = Struct
    [fld ''prefixlen'' ty___u32,
     fld ''data'' (Arr 4 ty___u8)]"

lemma dims_struct_lpm_key_v4 [c_dims]: "dims struct_lpm_key_v4 = (8, 4)"
  by (simp add: struct_lpm_key_v4_def c_dims)

definition struct_key4_bytes :: ctype where
  "struct_key4_bytes = Struct
    [fld ''ip'' (Arr 4 ty___u8)]"

lemma dims_struct_key4_bytes [c_dims]: "dims struct_key4_bytes = (4, 1)"
  by (simp add: struct_key4_bytes_def c_dims)

definition struct_lpm_key_v6 :: ctype where
  "struct_lpm_key_v6 = Struct
    [fld ''prefixlen'' ty___u32,
     fld ''data'' (Arr 16 ty___u8)]"

lemma dims_struct_lpm_key_v6 [c_dims]: "dims struct_lpm_key_v6 = (20, 4)"
  by (simp add: struct_lpm_key_v6_def c_dims)

definition struct_key6_bytes :: ctype where
  "struct_key6_bytes = Struct
    [fld ''ip'' (Arr 16 ty___u8)]"

lemma dims_struct_key6_bytes [c_dims]: "dims struct_key6_bytes = (16, 1)"
  by (simp add: struct_key6_bytes_def c_dims)

definition struct_xdp_cfg_t :: ctype where
  "struct_xdp_cfg_t = Struct
    [fld ''enforce_allow'' ty___u32,
     fld ''event_sample_mask'' ty___u32]"

lemma dims_struct_xdp_cfg_t [c_dims]: "dims struct_xdp_cfg_t = (8, 4)"
  by (simp add: struct_xdp_cfg_t_def c_dims)

definition struct_edge4_key :: ctype where
  "struct_edge4_key = Struct
    [fld ''src_ip'' ty___u32,
     fld ''dst_port'' ty___u16,
     fld ''proto'' ty___u8,
     fld ''_pad'' ty___u8]"

lemma dims_struct_edge4_key [c_dims]: "dims struct_edge4_key = (8, 4)"
  by (simp add: struct_edge4_key_def c_dims)

definition struct_edge4_cfg_t :: ctype where
  "struct_edge4_cfg_t = Struct
    [fld ''mode'' ty___u32,
     fld ''_pad'' ty___u32]"

lemma dims_struct_edge4_cfg_t [c_dims]: "dims struct_edge4_cfg_t = (8, 4)"
  by (simp add: struct_edge4_cfg_t_def c_dims)

definition struct_rl_cfg_t :: ctype where
  "struct_rl_cfg_t = Struct
    [fld ''rate_pps'' ty___u64,
     fld ''burst'' ty___u64]"

lemma dims_struct_rl_cfg_t [c_dims]: "dims struct_rl_cfg_t = (16, 8)"
  by (simp add: struct_rl_cfg_t_def c_dims)

definition struct_rl_state_t :: ctype where
  "struct_rl_state_t = Struct
    [fld ''lock'' struct_bpf_spin_lock,
     fld ''last_ns'' ty___u64,
     fld ''tokens'' ty___u64]"

lemma dims_struct_rl_state_t [c_dims]: "dims struct_rl_state_t = (24, 8)"
  by (simp add: struct_rl_state_t_def c_dims)

definition struct_port_hist_v :: ctype where
  "struct_port_hist_v = Struct
    [fld ''pkts'' ty___u64,
     fld ''bytes'' ty___u64,
     fld ''drops'' ty___u64]"

lemma dims_struct_port_hist_v [c_dims]: "dims struct_port_hist_v = (24, 8)"
  by (simp add: struct_port_hist_v_def c_dims)

definition struct_len_hist_v :: ctype where
  "struct_len_hist_v = Struct
    [fld ''pkts'' ty___u64,
     fld ''bytes'' ty___u64]"

lemma dims_struct_len_hist_v [c_dims]: "dims struct_len_hist_v = (16, 8)"
  by (simp add: struct_len_hist_v_def c_dims)

definition struct_xdp_event_t :: ctype where
  "struct_xdp_event_t = Struct
    [fld ''ts_ns'' ty___u64,
     fld ''reason'' ty___u32,
     fld ''ipver'' ty___u8,
     fld ''l4proto'' ty___u8,
     fld ''dport'' ty___u16,
     fld ''saddr_v4'' ty___u32,
     fld ''saddr_v6'' (Arr 16 ty___u8),
     fld ''pkt_len'' ty___u32,
     fld ''aux'' ty___u32]"

lemma dims_struct_xdp_event_t [c_dims]: "dims struct_xdp_event_t = (48, 8)"
  by (simp add: struct_xdp_event_t_def c_dims)

section \<open>Records as values of the structures\<close>

lemma fits_Nil_iff: "fits [] vs \<longleftrightarrow> vs = []"
  by (cases vs) simp_all

lemma fits_Cons_iff:
  "fits ((s, w) # ps) vs \<longleftrightarrow> (\<exists>v vs'. vs = v # vs' \<and> v < 2 ^ w \<and> fits ps vs')"
  by (cases vs) auto

lemma word_bounds:
  "unat (a :: u8) < 256" "unat (b :: u16) < 65536" "unat (c :: u32) < 4294967296"
  "unat (d :: u64) < 18446744073709551616"
proof -
  have "unat a < 2 ^ 8" "unat b < 2 ^ 16" "unat c < 2 ^ 32" "unat d < 2 ^ 64"
    using unsigned_less [of a] unsigned_less [of b] unsigned_less [of c] unsigned_less [of d]
    by simp_all
  then show "unat a < 256" "unat b < 65536" "unat c < 4294967296" "unat d < 18446744073709551616"
    by simp_all
qed

lemma le_nat_bound: "length bs = n \<Longrightarrow> le_nat bs < 256 ^ n"
  using le_nat_less [of bs] by simp

lemma nat_bytes_of_le: "length bs = n \<Longrightarrow> nat_bytes n (le_nat bs) = bs"
  using nat_bytes_le_nat [of bs] by simp

lemma le_of_nat_bytes: "x < 256 ^ n \<Longrightarrow> le_nat (nat_bytes n x) = x"
  by (simp add: le_nat_nat_bytes)

definition edge4_vals :: "edge4_key \<Rightarrow> nat list" where
  "edge4_vals k =
     [unat (ek_src_ip k), unat (ek_dst_port k), unat (ek_proto k), unat (ek_pad k)]"

definition edge4_mk :: "nat list \<Rightarrow> edge4_key" where
  "edge4_mk vs =
     \<lparr>ek_src_ip = of_nat (vs ! 0), ek_dst_port = of_nat (vs ! 1), ek_proto = of_nat (vs ! 2),
      ek_pad = of_nat (vs ! 3)\<rparr>"

definition flow4_vals :: "flow4_key \<Rightarrow> nat list" where
  "flow4_vals k =
     [unat (fk_src_ip k), unat (fk_dst_port k), unat (fk_proto k), unat (fk_pad k)]"

definition flow4_mk :: "nat list \<Rightarrow> flow4_key" where
  "flow4_mk vs =
     \<lparr>fk_src_ip = of_nat (vs ! 0), fk_dst_port = of_nat (vs ! 1), fk_proto = of_nat (vs ! 2),
      fk_pad = of_nat (vs ! 3)\<rparr>"

definition lpm4_vals :: "lpm_key_v4 \<Rightarrow> nat list" where
  "lpm4_vals k = [unat (lpm4_prefixlen k), le_nat (lpm4_data k)]"

definition lpm4_mk :: "nat list \<Rightarrow> lpm_key_v4" where
  "lpm4_mk vs = \<lparr>lpm4_prefixlen = of_nat (vs ! 0), lpm4_data = nat_bytes 4 (vs ! 1)\<rparr>"

definition lpm6_vals :: "lpm_key_v6 \<Rightarrow> nat list" where
  "lpm6_vals k = [unat (lpm6_prefixlen k), le_nat (lpm6_data k)]"

definition lpm6_mk :: "nat list \<Rightarrow> lpm_key_v6" where
  "lpm6_mk vs = \<lparr>lpm6_prefixlen = of_nat (vs ! 0), lpm6_data = nat_bytes 16 (vs ! 1)\<rparr>"

lemma key_places:
  "places struct_edge4_key = [(0, 32), (32, 16), (48, 8), (56, 8)]"
  "places struct_flow4_key = [(0, 32), (32, 16), (48, 8), (56, 8)]"
  "places struct_lpm_key_v4 = [(0, 32), (32, 32)]"
  "places struct_lpm_key_v6 = [(0, 32), (32, 128)]"
  "places struct_key4_bytes = [(0, 32)]"
  "places struct_key6_bytes = [(0, 128)]"
  "places struct_src6_key = [(0, 128)]"
  by (simp_all add: struct_edge4_key_def struct_flow4_key_def struct_lpm_key_v4_def
      struct_lpm_key_v6_def struct_key4_bytes_def struct_key6_bytes_def struct_src6_key_def c_dims)

lemmas record_simps = fits_Nil_iff fits_Cons_iff word_bounds le_nat_bound nat_bytes_of_le
  le_of_nat_bytes unat_of_nat key_places

interpretation edge4: c_record struct_edge4_key "\<lambda>_. True" edge4_vals edge4_mk
  by unfold_locales (auto simp: edge4_vals_def edge4_mk_def record_simps)

interpretation flow4: c_record struct_flow4_key "\<lambda>_. True" flow4_vals flow4_mk
  by unfold_locales (auto simp: flow4_vals_def flow4_mk_def record_simps)

interpretation lpm4: c_record struct_lpm_key_v4 "\<lambda>k. length (lpm4_data k) = 4" lpm4_vals lpm4_mk
  using le_nat_bound [of _ 4]
  by unfold_locales (auto simp: lpm4_vals_def lpm4_mk_def record_simps)

interpretation lpm6: c_record struct_lpm_key_v6 "\<lambda>k. length (lpm6_data k) = 16" lpm6_vals lpm6_mk
  using le_nat_bound [of _ 16]
  by unfold_locales (auto simp: lpm6_vals_def lpm6_mk_def record_simps)

interpretation key4: c_record struct_key4_bytes "\<lambda>k. length (k4_ip k) = 4"
    "\<lambda>k. [le_nat (k4_ip k)]" "\<lambda>vs. \<lparr>k4_ip = nat_bytes 4 (vs ! 0)\<rparr>"
  using le_nat_bound [of _ 4] by unfold_locales (auto simp: record_simps)

interpretation key6: c_record struct_key6_bytes "\<lambda>k. length (k6_ip k) = 16"
    "\<lambda>k. [le_nat (k6_ip k)]" "\<lambda>vs. \<lparr>k6_ip = nat_bytes 16 (vs ! 0)\<rparr>"
  using le_nat_bound [of _ 16] by unfold_locales (auto simp: record_simps)

interpretation src6: c_record struct_src6_key "\<lambda>k. length (src6_ip k) = 16"
    "\<lambda>k. [le_nat (src6_ip k)]" "\<lambda>vs. \<lparr>src6_ip = nat_bytes 16 (vs ! 0)\<rparr>"
  using le_nat_bound [of _ 16] by unfold_locales (auto simp: record_simps)

text \<open>The keys as the kernel sees them: the bytes of the structure on the stack of the program.\<close>

definition edge4_key_bytes :: "edge4_key \<Rightarrow> u8 list" where
  "edge4_key_bytes k = store struct_edge4_key (edge4_vals k)"

definition flow4_key_bytes :: "flow4_key \<Rightarrow> u8 list" where
  "flow4_key_bytes k = store struct_flow4_key (flow4_vals k)"

definition lpm_key_v4_bytes :: "lpm_key_v4 \<Rightarrow> u8 list" where
  "lpm_key_v4_bytes k = store struct_lpm_key_v4 (lpm4_vals k)"

definition lpm_key_v6_bytes :: "lpm_key_v6 \<Rightarrow> u8 list" where
  "lpm_key_v6_bytes k = store struct_lpm_key_v6 (lpm6_vals k)"

definition key4_bytes_bytes :: "key4_bytes \<Rightarrow> u8 list" where
  "key4_bytes_bytes k = store struct_key4_bytes [le_nat (k4_ip k)]"

definition key6_bytes_bytes :: "key6_bytes \<Rightarrow> u8 list" where
  "key6_bytes_bytes k = store struct_key6_bytes [le_nat (k6_ip k)]"

definition src6_key_bytes :: "src6_key \<Rightarrow> u8 list" where
  "src6_key_bytes k = store struct_src6_key [le_nat (src6_ip k)]"

lemma keys_padding_free:
  "padding_free struct_edge4_key" "padding_free struct_flow4_key" "padding_free struct_lpm_key_v4"
  "padding_free struct_lpm_key_v6" "padding_free struct_key4_bytes"
  "padding_free struct_key6_bytes" "padding_free struct_src6_key"
  by (simp_all add: padding_free_def key_places sizeof_def c_dims)

text \<open>
  A map key and its bytes determine each other. For every key structure of the program the
  bytes of a key are a bijection from the records of the model onto the byte strings of the size
  of the structure, so comparing keys as records, as the model does, is comparing them as the
  kernel's hash tables and tries do, and no padding byte with stale stack contents takes part.
\<close>

theorem map_keys_are_their_bytes:
  "bij_betw edge4_key_bytes UNIV {bs. length bs = 8} \<and>
   bij_betw flow4_key_bytes UNIV {bs. length bs = 8} \<and>
   bij_betw lpm_key_v4_bytes {k. length (lpm4_data k) = 4} {bs. length bs = 8} \<and>
   bij_betw lpm_key_v6_bytes {k. length (lpm6_data k) = 16} {bs. length bs = 20} \<and>
   bij_betw key4_bytes_bytes {k. length (k4_ip k) = 4} {bs. length bs = 4} \<and>
   bij_betw key6_bytes_bytes {k. length (k6_ip k) = 16} {bs. length bs = 16} \<and>
   bij_betw src6_key_bytes {k. length (src6_ip k) = 16} {bs. length bs = 16}"
  using edge4.bytes_bij [OF keys_padding_free(1)] flow4.bytes_bij [OF keys_padding_free(2)]
    lpm4.bytes_bij [OF keys_padding_free(3)] lpm6.bytes_bij [OF keys_padding_free(4)]
    key4.bytes_bij [OF keys_padding_free(5)] key6.bytes_bij [OF keys_padding_free(6)]
    src6.bytes_bij [OF keys_padding_free(7)]
  by (simp add: sizeof_def c_dims edge4_key_bytes_def [abs_def] flow4_key_bytes_def [abs_def]
      lpm_key_v4_bytes_def [abs_def] lpm_key_v6_bytes_def [abs_def] key4_bytes_bytes_def [abs_def]
      key6_bytes_bytes_def [abs_def] src6_key_bytes_def [abs_def])

section \<open>Events on the ring buffer\<close>

definition event_vals :: "xdp_event_t \<Rightarrow> nat list" where
  "event_vals e =
     [unat (ev_ts_ns e), unat (ev_reason e), unat (ev_ipver e), unat (ev_l4proto e),
      unat (ev_dport e), unat (ev_saddr_v4 e), le_nat (ev_saddr_v6 e), unat (ev_pkt_len e),
      unat (ev_aux e)]"

definition event_mk :: "nat list \<Rightarrow> xdp_event_t" where
  "event_mk vs =
     \<lparr>ev_ts_ns = of_nat (vs ! 0), ev_reason = of_nat (vs ! 1), ev_ipver = of_nat (vs ! 2),
      ev_l4proto = of_nat (vs ! 3), ev_dport = of_nat (vs ! 4), ev_saddr_v4 = of_nat (vs ! 5),
      ev_saddr_v6 = nat_bytes 16 (vs ! 6), ev_pkt_len = of_nat (vs ! 7), ev_aux = of_nat (vs ! 8)\<rparr>"

lemma event_places:
  "places struct_xdp_event_t =
     [(0, 64), (64, 32), (96, 8), (104, 8), (112, 16), (128, 32), (160, 128), (288, 32), (320, 32)]"
  by (simp add: struct_xdp_event_t_def c_dims)

interpretation event: c_record struct_xdp_event_t "\<lambda>e. length (ev_saddr_v6 e) = 16"
    event_vals event_mk
  using le_nat_bound [of _ 16]
  by unfold_locales (auto simp: event_vals_def event_mk_def record_simps event_places)

text \<open>The sample a reader gets: the bytes reserved and filled by the program.\<close>

definition event_bytes :: "xdp_event_t \<Rightarrow> u8 list" where
  "event_bytes e = store struct_xdp_event_t (event_vals e)"

record xdpEvent =
  TsNs :: u64
  Reason :: u32
  IPVer :: u8
  L4Proto :: u8
  Dport :: u16
  SaddrV4 :: "u8 list"
  SaddrV6 :: "u8 list"
  PktLen :: u32
  Aux :: u32

definition buf_slice :: "nat \<Rightarrow> nat \<Rightarrow> u8 list \<Rightarrow> u8 list" where
  "buf_slice a b bs = take (b - a) (drop a bs)"

definition be_nat :: "u8 list \<Rightarrow> nat" where
  "be_nat bs = le_nat (rev bs)"

definition watch_event :: "u8 list \<Rightarrow> xdpEvent option" where
  "watch_event buf =
     (if length buf < 44 then None
      else Some \<lparr>TsNs = of_nat (le_nat (buf_slice 0 8 buf)), Reason = of_nat (le_nat (buf_slice 8 12 buf)),
                 IPVer = buf ! 12, L4Proto = buf ! 13, Dport = of_nat (be_nat (buf_slice 14 16 buf)),
                 SaddrV4 = buf_slice 16 20 buf, SaddrV6 = buf_slice 20 36 buf,
                 PktLen = of_nat (le_nat (buf_slice 36 40 buf)),
                 Aux = of_nat (le_nat (buf_slice 40 44 buf))\<rparr>)"

lemma get_bits_slice:
  assumes "s mod 8 = 0" "w mod 8 = 0"
  shows "get_bits (le_nat bs) (s, w) = le_nat (buf_slice (s div 8) ((s + w) div 8) bs)"
proof -
  from assms obtain k j where eq: "s = 8 * k" "w = 8 * j" by (metis mult_div_mod_eq add.right_neutral)
  then have "(s + w) div 8 = k + j" by simp
  then show ?thesis using get_bits_bytes [of bs k j] by (simp add: eq buf_slice_def)
qed

lemma length_slice: "b \<le> length bs \<Longrightarrow> length (buf_slice a b bs) = b - a"
  by (simp add: buf_slice_def)

lemma slice_nth: "k < length bs \<Longrightarrow> buf_slice k (Suc k) bs = [bs ! k]"
  by (simp add: buf_slice_def take_drop_Suc)

lemma le_nat_inject: "length as = length bs \<Longrightarrow> le_nat as = le_nat bs \<longleftrightarrow> as = bs"
  by (metis nat_bytes_le_nat)

lemma ntohs_swaps_le16: "bpf_ntohs (le16 a b) = le16 b a"
  by (rule bit_word_eqI) (auto simp: bpf_ntohs_def le16_def bit_simps dest: bit_imp_le_length)

lemma be_nat_16:
  assumes "length bs = 2" "le_nat bs = unat (x :: u16)"
  shows "of_nat (be_nat bs) = bpf_ntohs x"
proof -
  from assms(1) obtain a b where bs: "bs = [a, b]" by (auto simp: length_Suc_conv numeral_2_eq_2)
  then have "x = le16 a b" using assms(2) le_nat_2 [of a b] by (metis word_unat_eq_iff)
  then show ?thesis
    using le_nat_2 [of b a] by (simp add: bs be_nat_def ntohs_swaps_le16 del: le_nat.simps)
qed

lemma event_slices:
  assumes "length (ev_saddr_v6 e) = 16"
  shows
    "le_nat (buf_slice 0 8 (event_bytes e)) = unat (ev_ts_ns e)"
    "le_nat (buf_slice 8 12 (event_bytes e)) = unat (ev_reason e)"
    "le_nat (buf_slice 12 13 (event_bytes e)) = unat (ev_ipver e)"
    "le_nat (buf_slice 13 14 (event_bytes e)) = unat (ev_l4proto e)"
    "le_nat (buf_slice 14 16 (event_bytes e)) = unat (ev_dport e)"
    "le_nat (buf_slice 16 20 (event_bytes e)) = unat (ev_saddr_v4 e)"
    "le_nat (buf_slice 20 36 (event_bytes e)) = le_nat (ev_saddr_v6 e)"
    "le_nat (buf_slice 36 40 (event_bytes e)) = unat (ev_pkt_len e)"
    "le_nat (buf_slice 40 44 (event_bytes e)) = unat (ev_aux e)"
proof -
  have "map (get_bits (le_nat (event_bytes e))) (places struct_xdp_event_t) = event_vals e"
    using event.fetch_vals [of e] assms by (simp add: event_bytes_def fetch_def unpack_def)
  then show
    "le_nat (buf_slice 0 8 (event_bytes e)) = unat (ev_ts_ns e)"
    "le_nat (buf_slice 8 12 (event_bytes e)) = unat (ev_reason e)"
    "le_nat (buf_slice 12 13 (event_bytes e)) = unat (ev_ipver e)"
    "le_nat (buf_slice 13 14 (event_bytes e)) = unat (ev_l4proto e)"
    "le_nat (buf_slice 14 16 (event_bytes e)) = unat (ev_dport e)"
    "le_nat (buf_slice 16 20 (event_bytes e)) = unat (ev_saddr_v4 e)"
    "le_nat (buf_slice 20 36 (event_bytes e)) = le_nat (ev_saddr_v6 e)"
    "le_nat (buf_slice 36 40 (event_bytes e)) = unat (ev_pkt_len e)"
    "le_nat (buf_slice 40 44 (event_bytes e)) = unat (ev_aux e)"
    by (simp_all add: event_places event_vals_def get_bits_slice)
qed

text \<open>
  C32: What \<open>klshield\<close> prints of an event is the event the program wrote. Decoding the sample by
  the byte offsets of the reader recovers every field of the structure filled in the kernel, with
  the port turned to host order and the IPv4 source in its wire bytes, and never rejects a sample.
\<close>

theorem watch_event_reads_event:
  assumes "length (ev_saddr_v6 e) = 16"
  shows "watch_event (event_bytes e) =
    Some \<lparr>TsNs = ev_ts_ns e, Reason = ev_reason e, IPVer = ev_ipver e, L4Proto = ev_l4proto e,
          Dport = bpf_ntohs (ev_dport e), SaddrV4 = bytes_of_u32 (ev_saddr_v4 e),
          SaddrV6 = ev_saddr_v6 e, PktLen = ev_pkt_len e, Aux = ev_aux e\<rparr>"
proof -
  let ?b = "event_bytes e"
  note sl = event_slices [OF assms]
  have len: "length ?b = 48" by (simp add: event_bytes_def sizeof_def c_dims)
  have "?b ! 12 = ev_ipver e" "?b ! 13 = ev_l4proto e"
    using sl(3,4) slice_nth [of 12 ?b] slice_nth [of 13 ?b] len by (simp_all add: word_unat_eq_iff)
  moreover have "buf_slice 16 20 ?b = bytes_of_u32 (ev_saddr_v4 e)"
    using sl(6) le_nat_inject [of "buf_slice 16 20 ?b" "bytes_of_u32 (ev_saddr_v4 e)"] len
    by (simp add: length_slice le_nat_bytes_of_u32)
  moreover have "buf_slice 20 36 ?b = ev_saddr_v6 e"
    using sl(7) le_nat_inject [of "buf_slice 20 36 ?b" "ev_saddr_v6 e"] len assms
    by (simp add: length_slice)
  moreover have "of_nat (be_nat (buf_slice 14 16 ?b)) = bpf_ntohs (ev_dport e)"
    using be_nat_16 [OF _ sl(5)] len by (simp add: length_slice)
  ultimately show ?thesis by (simp add: watch_event_def len sl of_nat_unat_ucast)
qed

lemma watch_event_reads_event_witness:
  "watch_event (event_bytes
     \<lparr>ev_ts_ns = 7, ev_reason = EV_DROP_DENY, ev_ipver = 4, ev_l4proto = 6, ev_dport = 0xBB01,
      ev_saddr_v4 = 0x0100A8C0, ev_saddr_v6 = replicate 16 0, ev_pkt_len = 60, ev_aux = 0\<rparr>) =
   Some \<lparr>TsNs = 7, Reason = 2, IPVer = 4, L4Proto = 6, Dport = 443, SaddrV4 = [192, 168, 0, 1],
         SaddrV6 = replicate 16 0, PktLen = 60, Aux = 0\<rparr>"
  by (subst watch_event_reads_event)
    (simp_all add: EV_DROP_DENY_def bpf_ntohs_def bytes_of_u32_def push_bit_eq_mult drop_bit_eq_div)

end
