(* ===== verification/Go_Text.thy ===== *)
theory Go_Text
  imports Shield_Prelude
begin

text \<open>
  The functions of the Go packages \<open>strings\<close> and \<open>strconv\<close> that the Go programs use, on texts of
  ASCII characters.
\<close>

definition is_space :: "char \<Rightarrow> bool" where
  "is_space c \<longleftrightarrow> c \<in> {CHR '' '', CHR 0x09, CHR 0x0A, CHR 0x0B, CHR 0x0C, CHR 0x0D}"

definition TrimSpace :: "string \<Rightarrow> string" where
  "TrimSpace s = rev (dropWhile is_space (rev (dropWhile is_space s)))"

definition ReplaceAll :: "char \<Rightarrow> char \<Rightarrow> string \<Rightarrow> string" where
  "ReplaceAll a b s = map (\<lambda>c. if c = a then b else c) s"

definition ToLower :: "string \<Rightarrow> string" where
  "ToLower s = map (\<lambda>c. if 65 \<le> (of_char c :: nat) \<and> (of_char c :: nat) \<le> 90 then char_of (of_char c + 32 :: nat) else c) s"

text \<open>The fields between characters that satisfy \<open>f\<close>, without the empty ones.\<close>

fun fields_from :: "(char \<Rightarrow> bool) \<Rightarrow> string \<Rightarrow> string \<Rightarrow> string list" where
  "fields_from f acc [] = (if acc = [] then [] else [rev acc])"
| "fields_from f acc (c # cs) =
     (if f c then (if acc = [] then [] else [rev acc]) @ fields_from f [] cs else fields_from f (c # acc) cs)"

definition FieldsFunc :: "(char \<Rightarrow> bool) \<Rightarrow> string \<Rightarrow> string list" where
  "FieldsFunc f s = fields_from f [] s"

fun CutPrefix :: "string \<Rightarrow> string \<Rightarrow> string option" where
  "CutPrefix s [] = Some s"
| "CutPrefix [] (p # ps) = None"
| "CutPrefix (c # cs) (p # ps) = (if c = p then CutPrefix cs ps else None)"

definition HasPrefix :: "string \<Rightarrow> string \<Rightarrow> bool" where
  "HasPrefix s p \<longleftrightarrow> CutPrefix s p \<noteq> None"

text \<open>The parts before and after the first \<open>sep\<close>.\<close>

definition Cut :: "char \<Rightarrow> string \<Rightarrow> (string \<times> string) option" where
  "Cut sep s = (case dropWhile (\<lambda>c. c \<noteq> sep) s of [] \<Rightarrow> None | c # rest \<Rightarrow> Some (takeWhile (\<lambda>c. c \<noteq> sep) s, rest))"

text \<open>Numbers.\<close>

fun decimal_text :: "nat \<Rightarrow> string" where
  "decimal_text n = (if n < 10 then [] else decimal_text (n div 10)) @ [char_of (48 + n mod 10)]"

declare decimal_text.simps [simp del]

definition Itoa :: "int \<Rightarrow> string" where
  "Itoa n = (if n < 0 then CHR ''-'' # decimal_text (nat (- n)) else decimal_text (nat n))"

definition digit :: "char \<Rightarrow> bool" where
  "digit c \<longleftrightarrow> 48 \<le> (of_char c :: nat) \<and> (of_char c :: nat) \<le> 57"

definition decimal :: "string \<Rightarrow> nat" where
  "decimal ds = foldl (\<lambda>n c. 10 * n + (of_char c - 48)) 0 ds"

text \<open>\<open>strconv.Atoi\<close>: an optional sign and digits, within 64 bits.\<close>

definition Atoi :: "string \<Rightarrow> int option" where
  "Atoi s =
     (let (neg, ds) = (case s of [] \<Rightarrow> (False, []) | c # cs \<Rightarrow>
            if c = CHR ''-'' then (True, cs) else if c = CHR ''+'' then (False, cs) else (False, s));
          v = (if neg then - int (decimal ds) else int (decimal ds))
      in if ds \<noteq> [] \<and> list_all digit ds \<and> - (2 ^ 63) \<le> v \<and> v < 2 ^ 63 then Some v else None)"

text \<open>\<open>strconv.ParseBool\<close>.\<close>

definition ParseBool :: "string \<Rightarrow> bool option" where
  "ParseBool s =
     (if s \<in> {''1'', ''t'', ''T'', ''TRUE'', ''true'', ''True''} then Some True
      else if s \<in> {''0'', ''f'', ''F'', ''FALSE'', ''false'', ''False''} then Some False else None)"

text \<open>\<open>%q\<close> of a text without characters that need escaping.\<close>

definition quoted :: "string \<Rightarrow> string" where
  "quoted s = CHR 0x22 # s @ [CHR 0x22]"

section \<open>Facts\<close>

lemma decimal_snoc: "decimal (s @ [c]) = 10 * decimal s + (of_char c - 48)"
  by (simp add: decimal_def)

lemma decimal_empty: "decimal [] = 0"
  by (simp add: decimal_def)

lemma decimal_text_digits: "list_all digit (decimal_text n) \<and> decimal_text n \<noteq> []"
proof (induction n rule: decimal_text.induct)
  case (1 n)
  have "digit (char_of (48 + n mod 10))" by (simp add: digit_def of_char_of take_bit_eq_mod)
  with 1 show ?case by (subst (1 2) decimal_text.simps) auto
qed

lemma decimal_decimal_text [simp]: "decimal (decimal_text n) = n"
proof (induction n rule: decimal_text.induct)
  case (1 n)
  have "(48 + n mod 10) mod 256 = 48 + n mod 10" by simp
  with 1 show ?case
    by (subst decimal_text.simps) (auto simp: decimal_snoc decimal_empty of_char_of take_bit_eq_mod)
qed

lemma decimal_text_head:
  obtains c cs where "decimal_text n = c # cs" "digit c"
  using decimal_text_digits [of n] by (cases "decimal_text n") auto

text \<open>A number that was printed reads back.\<close>

lemma Atoi_Itoa:
  assumes "- (2 ^ 63) \<le> n" "n < 2 ^ 63"
  shows "Atoi (Itoa n) = Some n"
proof (cases "n < 0")
  case True
  with assms show ?thesis
    using decimal_text_digits [of "nat (- n)"] by (simp add: Atoi_def Itoa_def)
next
  case False
  obtain c cs where c: "decimal_text (nat n) = c # cs" "digit c" by (rule decimal_text_head)
  then have "c \<noteq> CHR ''-''" "c \<noteq> CHR ''+''" by (auto simp: digit_def)
  with c False assms show ?thesis
    using decimal_text_digits [of "nat n"] decimal_decimal_text [of "nat n"] by (simp add: Atoi_def Itoa_def)
qed

lemma TrimSpace_no_space:
  assumes "list_all (\<lambda>c. \<not> is_space c) s"
  shows "TrimSpace s = s"
proof -
  have keep: "list_all (\<lambda>c. \<not> is_space c) t \<Longrightarrow> dropWhile is_space t = t" for t by (cases t) auto
  have "dropWhile is_space s = s" "dropWhile is_space (rev s) = rev s"
    using assms keep [of s] keep [of "rev s"] by simp_all
  then show ?thesis by (simp add: TrimSpace_def)
qed

lemma digit_no_space: "digit c \<Longrightarrow> \<not> is_space c"
  by (auto simp: digit_def is_space_def)

lemma TrimSpace_Itoa: "0 \<le> n \<Longrightarrow> TrimSpace (Itoa n) = Itoa n"
  using decimal_text_digits [of "nat n"] digit_no_space
  by (intro TrimSpace_no_space) (auto simp: Itoa_def list_all_iff)

end
