(* ===== verification/Shield_Abi.thy ===== *)
theory Shield_Abi
  imports Shield_Layout Go_Text
begin

text \<open>
  The interfaces of the program to its surroundings that rest on the layout of its structures: the
  Go structures with which \<open>klshield\<close> and the adapter read and write the maps, and the map
  declarations with their key and value types.
\<close>

section \<open>The structures of the Go tools\<close>

text \<open>
  A Go structure is its fields with their sizes in bytes. \<open>cilium/ebpf\<close> encodes and decodes a map
  key or value field by field with no padding of its own, and refuses a structure whose size is
  not that of the map's key or value; fields named \<open>Pad\<close> carry no data.
\<close>

type_synonym go_struct = "(string \<times> nat) list"

definition go_size :: "go_struct \<Rightarrow> nat" where
  "go_size g = sum_list (map snd g)"

definition go_pad :: "string \<Rightarrow> bool" where
  "go_pad n \<longleftrightarrow> take 3 n = ''Pad''"

text \<open>
  Which C member a Go field stands for. The tools spell \<open>drop_allow\<close> as \<open>DropAllow\<close> and \<open>rl_hits\<close> as
  \<open>RLHits\<close>: the same letters without regard to case and underscores. Two fields are named otherwise: \<open>DportChg\<close>
  is \<open>dport_changes\<close>, and \<open>klshield\<close> calls the tuple \<open>mode\<close> \<open>Enforce\<close>.
\<close>

definition c_name :: "string \<Rightarrow> string" where
  "c_name n = ToLower (filter (\<lambda>c. c \<noteq> CHR ''_'') n)"

definition go_name :: "string \<Rightarrow> string" where
  "go_name n =
     (if n = ''DportChg'' then c_name ''dport_changes''
      else if n = ''Enforce'' then c_name ''mode''
      else c_name n)"

text \<open>The decoded fields, each with the name of what it holds.\<close>

fun go_fields :: "nat \<Rightarrow> go_struct \<Rightarrow> u8 list \<Rightarrow> (string \<times> nat) list" where
  "go_fields k [] bs = []"
| "go_fields k ((n, w) # g) bs =
     (if go_pad n then go_fields (k + w) g bs
      else (go_name n, le_nat (buf_slice k (k + w) bs)) # go_fields (k + w) g bs)"

definition go_decode :: "go_struct \<Rightarrow> u8 list \<Rightarrow> (string \<times> nat) list option" where
  "go_decode g bs = (if length bs = go_size g then Some (go_fields 0 g bs) else None)"

text \<open>The data members of a C structure, in order, each with its name.\<close>

definition c_members :: "ctype \<Rightarrow> (string \<times> nat \<times> nat) list" where
  "c_members t = map (\<lambda>(n, p). (c_name n, p)) (filter (\<lambda>(n, p). n \<noteq> ''_pad'' \<and> n \<noteq> ''pad'') (slots t))"

definition c_data :: "ctype \<Rightarrow> u8 list \<Rightarrow> (string \<times> nat) list" where
  "c_data t bs = map (\<lambda>(n, p). (n, get_bits (le_nat bs) p)) (c_members t)"

fun go_places :: "nat \<Rightarrow> go_struct \<Rightarrow> (string \<times> nat \<times> nat) list" where
  "go_places k [] = []"
| "go_places k ((n, w) # g) =
     (if go_pad n then go_places (k + w) g else (go_name n, 8 * k, 8 * w) # go_places (k + w) g)"

lemma go_fields_places: "go_fields k g bs = map (\<lambda>(n, p). (n, get_bits (le_nat bs) p)) (go_places k g)"
  by (induction k g bs rule: go_fields.induct) (simp_all add: get_bits_slice)

definition same_view :: "go_struct \<Rightarrow> ctype \<Rightarrow> bool" where
  "same_view g t \<longleftrightarrow> go_size g = sizeof t \<and> go_places 0 g = c_members t \<and> distinct (map fst (c_members t))"

lemma go_decode_view:
  "same_view g t \<Longrightarrow> go_decode g bs = (if length bs = sizeof t then Some (c_data t bs) else None)"
  by (simp add: same_view_def go_decode_def c_data_def go_fields_places)

lemma c_data_distinct: "same_view g t \<Longrightarrow> distinct (map fst (c_data t bs))"
  by (simp add: same_view_def c_data_def case_prod_beta' comp_def)

definition client_SrcStatsV4 :: go_struct where
  "client_SrcStatsV4 =
    [(''Pkts'', 8), (''Bytes'', 8), (''Tcp'', 8), (''Udp'', 8), (''Icmp'', 8), (''Syn'', 8),
     (''Synack'', 8), (''Rst'', 8), (''Ack'', 8), (''Pass'', 8), (''DropAllow'', 8),
     (''DropDeny'', 8), (''DropRL'', 8), (''FirstSeenNs'', 8), (''LastSeenNs'', 8),
     (''LastSport'', 2), (''LastDport'', 2), (''Pad0'', 4), (''DportChanges'', 8),
     (''LastTTL'', 1), (''LastTCPFlags'', 1), (''Pad1'', 2), (''Pad2'', 4)]"

definition client_SrcStatsV6 :: go_struct where
  "client_SrcStatsV6 =
    [(''Pkts'', 8), (''Bytes'', 8), (''Tcp'', 8), (''Udp'', 8), (''Icmp'', 8), (''Syn'', 8),
     (''Synack'', 8), (''Rst'', 8), (''Ack'', 8), (''Pass'', 8), (''DropAllow'', 8),
     (''DropDeny'', 8), (''DropRL'', 8), (''FirstSeenNs'', 8), (''LastSeenNs'', 8),
     (''LastSport'', 2), (''LastDport'', 2), (''Pad0'', 4), (''DportChanges'', 8),
     (''LastHLIM'', 1), (''LastTCPFlags'', 1), (''Pad1'', 2), (''Pad2'', 4)]"

definition client_Totals :: go_struct where
  "client_Totals =
    [(''Pkts'', 8), (''Bytes'', 8), (''Pass'', 8), (''DropAllow'', 8), (''DropDeny'', 8),
     (''DropRL'', 8), (''V4'', 8), (''V6'', 8), (''TCP'', 8), (''UDP'', 8), (''ICMP'', 8),
     (''SYN'', 8), (''SYNACK'', 8), (''RST'', 8), (''ACK'', 8), (''IPv4Frags'', 8),
     (''DportChg'', 8), (''NewSources'', 8), (''AllowHits'', 8), (''DenyHits'', 8),
     (''RLHits'', 8)]"

definition client_RLConfig :: go_struct where
  "client_RLConfig =
    [(''RatePPS'', 8), (''Burst'', 8)]"

definition client_Flow4Key :: go_struct where
  "client_Flow4Key =
    [(''SrcIP'', 4), (''DstPort'', 2), (''Proto'', 1), (''Pad'', 1)]"

definition client_Flow4Stats :: go_struct where
  "client_Flow4Stats =
    [(''Pkts'', 8), (''Bytes'', 8), (''Syn'', 8)]"

definition client_Src6Key :: go_struct where
  "client_Src6Key =
    [(''IP'', 16)]"

definition client_Key6Bytes :: go_struct where
  "client_Key6Bytes =
    [(''IP'', 16)]"

definition client_Edge4Key :: go_struct where
  "client_Edge4Key =
    [(''SrcIP'', 4), (''DstPort'', 2), (''Proto'', 1), (''Pad'', 1)]"

definition client_edge4CfgValue :: go_struct where
  "client_edge4CfgValue =
    [(''Mode'', 4), (''Pad'', 4)]"

definition klshield_xdpCfg :: go_struct where
  "klshield_xdpCfg =
    [(''EnforceAllow'', 4), (''EventSampleMask'', 4)]"

definition klshield_rlCfg :: go_struct where
  "klshield_rlCfg =
    [(''RatePPS'', 8), (''Burst'', 8)]"

definition klshield_lpmKey4 :: go_struct where
  "klshield_lpmKey4 =
    [(''Prefixlen'', 4), (''Data'', 4)]"

definition klshield_lpmKey6 :: go_struct where
  "klshield_lpmKey6 =
    [(''Prefixlen'', 4), (''Data'', 16)]"

definition klshield_key4Bytes :: go_struct where
  "klshield_key4Bytes =
    [(''IP'', 4)]"

definition klshield_key6Bytes :: go_struct where
  "klshield_key6Bytes =
    [(''IP'', 16)]"

definition klshield_src6Key :: go_struct where
  "klshield_src6Key =
    [(''IP'', 16)]"

definition klshield_edge4Key :: go_struct where
  "klshield_edge4Key =
    [(''SrcIP'', 4), (''DstPort'', 2), (''Proto'', 1), (''Pad'', 1)]"

definition klshield_edge4CfgValue :: go_struct where
  "klshield_edge4CfgValue =
    [(''Enforce'', 4), (''Pad'', 4)]"

definition klshield_src4Stats :: go_struct where
  "klshield_src4Stats =
    [(''Pkts'', 8), (''Bytes'', 8), (''TCP'', 8), (''UDP'', 8), (''ICMP'', 8), (''SYN'', 8),
     (''SYNACK'', 8), (''RST'', 8), (''ACK'', 8), (''Pass'', 8), (''DropAllow'', 8),
     (''DropDeny'', 8), (''DropRL'', 8), (''FirstSeenNs'', 8), (''LastSeenNs'', 8),
     (''LastSport'', 2), (''LastDport'', 2), (''Pad0'', 4), (''DportChanges'', 8),
     (''LastTTL'', 1), (''LastTCPFlags'', 1), (''Pad1'', 2), (''Pad2'', 4)]"

definition klshield_xdpTotals :: go_struct where
  "klshield_xdpTotals =
    [(''Pkts'', 8), (''Bytes'', 8), (''Pass'', 8), (''DropAllow'', 8), (''DropDeny'', 8),
     (''DropRL'', 8), (''V4'', 8), (''V6'', 8), (''TCP'', 8), (''UDP'', 8), (''ICMP'', 8),
     (''SYN'', 8), (''SYNACK'', 8), (''RST'', 8), (''ACK'', 8), (''IPv4Frags'', 8),
     (''DportChg'', 8), (''NewSources'', 8), (''AllowHits'', 8), (''DenyHits'', 8),
     (''RLHits'', 8)]"

definition go_views :: "(go_struct \<times> ctype) list" where
  "go_views =
    [(client_SrcStatsV4, struct_xdp_src_stats_v4_t),
     (client_SrcStatsV6, struct_xdp_src_stats_v6_t),
     (client_Totals, struct_xdp_totals_t),
     (client_RLConfig, struct_rl_cfg_t),
     (client_Flow4Key, struct_flow4_key),
     (client_Flow4Stats, struct_flow4_stats),
     (client_Src6Key, struct_src6_key),
     (client_Key6Bytes, struct_key6_bytes),
     (client_Edge4Key, struct_edge4_key),
     (client_edge4CfgValue, struct_edge4_cfg_t),
     (klshield_xdpCfg, struct_xdp_cfg_t),
     (klshield_rlCfg, struct_rl_cfg_t),
     (klshield_lpmKey4, struct_lpm_key_v4),
     (klshield_lpmKey6, struct_lpm_key_v6),
     (klshield_key4Bytes, struct_key4_bytes),
     (klshield_key6Bytes, struct_key6_bytes),
     (klshield_src6Key, struct_src6_key),
     (klshield_edge4Key, struct_edge4_key),
     (klshield_edge4CfgValue, struct_edge4_cfg_t),
     (klshield_src4Stats, struct_xdp_src_stats_v4_t),
     (klshield_xdpTotals, struct_xdp_totals_t)]"

lemmas go_defs =
  client_SrcStatsV4_def client_SrcStatsV6_def client_Totals_def client_RLConfig_def
  client_Flow4Key_def client_Flow4Stats_def client_Src6Key_def client_Key6Bytes_def
  client_Edge4Key_def client_edge4CfgValue_def klshield_xdpCfg_def klshield_rlCfg_def
  klshield_lpmKey4_def klshield_lpmKey6_def klshield_key4Bytes_def klshield_key6Bytes_def
  klshield_src6Key_def klshield_edge4Key_def klshield_edge4CfgValue_def klshield_src4Stats_def
  klshield_xdpTotals_def

lemmas struct_defs =
  struct_xdp_src_stats_v4_t_def struct_xdp_src_stats_v6_t_def struct_xdp_totals_t_def
  struct_rl_cfg_t_def struct_flow4_key_def struct_flow4_stats_def struct_src6_key_def
  struct_key6_bytes_def struct_edge4_key_def struct_edge4_cfg_t_def struct_xdp_cfg_t_def
  struct_lpm_key_v4_def struct_lpm_key_v6_def struct_key4_bytes_def

lemma c_names:
  "c_name ''ACK'' = ''ack''"
  "c_name ''Ack'' = ''ack''"
  "c_name ''AllowHits'' = ''allowhits''"
  "c_name ''Burst'' = ''burst''"
  "c_name ''Bytes'' = ''bytes''"
  "c_name ''Data'' = ''data''"
  "c_name ''DenyHits'' = ''denyhits''"
  "c_name ''DportChanges'' = ''dportchanges''"
  "c_name ''DropAllow'' = ''dropallow''"
  "c_name ''DropDeny'' = ''dropdeny''"
  "c_name ''DropRL'' = ''droprl''"
  "c_name ''DstPort'' = ''dstport''"
  "c_name ''EnforceAllow'' = ''enforceallow''"
  "c_name ''EventSampleMask'' = ''eventsamplemask''"
  "c_name ''FirstSeenNs'' = ''firstseenns''"
  "c_name ''ICMP'' = ''icmp''"
  "c_name ''IP'' = ''ip''"
  "c_name ''IPv4Frags'' = ''ipv4frags''"
  "c_name ''Icmp'' = ''icmp''"
  "c_name ''LastDport'' = ''lastdport''"
  "c_name ''LastHLIM'' = ''lasthlim''"
  "c_name ''LastSeenNs'' = ''lastseenns''"
  "c_name ''LastSport'' = ''lastsport''"
  "c_name ''LastTCPFlags'' = ''lasttcpflags''"
  "c_name ''LastTTL'' = ''lastttl''"
  "c_name ''Mode'' = ''mode''"
  "c_name ''NewSources'' = ''newsources''"
  "c_name ''Pass'' = ''pass''"
  "c_name ''Pkts'' = ''pkts''"
  "c_name ''Prefixlen'' = ''prefixlen''"
  "c_name ''Proto'' = ''proto''"
  "c_name ''RLHits'' = ''rlhits''"
  "c_name ''RST'' = ''rst''"
  "c_name ''RatePPS'' = ''ratepps''"
  "c_name ''Rst'' = ''rst''"
  "c_name ''SYN'' = ''syn''"
  "c_name ''SYNACK'' = ''synack''"
  "c_name ''SrcIP'' = ''srcip''"
  "c_name ''Syn'' = ''syn''"
  "c_name ''Synack'' = ''synack''"
  "c_name ''TCP'' = ''tcp''"
  "c_name ''Tcp'' = ''tcp''"
  "c_name ''UDP'' = ''udp''"
  "c_name ''Udp'' = ''udp''"
  "c_name ''V4'' = ''v4''"
  "c_name ''V6'' = ''v6''"
  "c_name ''ack'' = ''ack''"
  "c_name ''allow_hits'' = ''allowhits''"
  "c_name ''burst'' = ''burst''"
  "c_name ''bytes'' = ''bytes''"
  "c_name ''data'' = ''data''"
  "c_name ''deny_hits'' = ''denyhits''"
  "c_name ''dport_changes'' = ''dportchanges''"
  "c_name ''drop_allow'' = ''dropallow''"
  "c_name ''drop_deny'' = ''dropdeny''"
  "c_name ''drop_rl'' = ''droprl''"
  "c_name ''dst_port'' = ''dstport''"
  "c_name ''enforce_allow'' = ''enforceallow''"
  "c_name ''event_sample_mask'' = ''eventsamplemask''"
  "c_name ''first_seen_ns'' = ''firstseenns''"
  "c_name ''icmp'' = ''icmp''"
  "c_name ''ip'' = ''ip''"
  "c_name ''ipv4_frags'' = ''ipv4frags''"
  "c_name ''last_dport'' = ''lastdport''"
  "c_name ''last_hlim'' = ''lasthlim''"
  "c_name ''last_seen_ns'' = ''lastseenns''"
  "c_name ''last_sport'' = ''lastsport''"
  "c_name ''last_tcp_flags'' = ''lasttcpflags''"
  "c_name ''last_ttl'' = ''lastttl''"
  "c_name ''mode'' = ''mode''"
  "c_name ''new_sources'' = ''newsources''"
  "c_name ''pass'' = ''pass''"
  "c_name ''pkts'' = ''pkts''"
  "c_name ''prefixlen'' = ''prefixlen''"
  "c_name ''proto'' = ''proto''"
  "c_name ''rate_pps'' = ''ratepps''"
  "c_name ''rl_hits'' = ''rlhits''"
  "c_name ''rst'' = ''rst''"
  "c_name ''src_ip'' = ''srcip''"
  "c_name ''syn'' = ''syn''"
  "c_name ''synack'' = ''synack''"
  "c_name ''tcp'' = ''tcp''"
  "c_name ''udp'' = ''udp''"
  "c_name ''v4'' = ''v4''"
  "c_name ''v6'' = ''v6''"
  by code_simp+

lemma go_views_same: "list_all (\<lambda>(g, t). same_view g t) go_views"
  by (simp add: go_views_def same_view_def go_defs struct_defs go_size_def go_pad_def go_name_def c_members_def
      c_names sizeof_def member_slots_def c_dims)

text \<open>
  C26: The Go tools see what the program wrote. Each of their structures decodes exactly the byte
  strings of the size of the C structure it mirrors, and yields the data members of that structure: every
  field, under the name of its member and no name twice, from the member's place in the C layout, with the
  implicit padding of the C structure matched by explicit padding fields.
\<close>

theorem user_space_reads_maps:
  "list_all
     (\<lambda>(g, t). \<forall>bs. go_decode g bs = (if length bs = sizeof t then Some (c_data t bs) else None) \<and>
        distinct (map fst (c_data t bs)))
     go_views"
  using go_views_same by (rule list.pred_mono_strong) (use go_decode_view c_data_distinct in blast)

section \<open>Map declarations\<close>

text \<open>
  A map as the loader creates it: type and capacity, key and value types (a ring buffer has none)
  and whether elements are allocated on demand (\<open>BPF_F_NO_PREALLOC\<close>).
\<close>

record map_decl =
  decl_map :: bpf_map_def
  decl_key :: "ctype option"
  decl_value :: "ctype option"
  decl_no_prealloc :: bool

definition xdp_totals_decl :: map_decl where
  "xdp_totals_decl =
    \<lparr>decl_map = xdp_totals_map, decl_key = Some ty___u32, decl_value = Some struct_xdp_totals_t,
     decl_no_prealloc = False\<rparr>"

definition xdp_src4_stats_decl :: map_decl where
  "xdp_src4_stats_decl =
    \<lparr>decl_map = xdp_src4_stats_map, decl_key = Some ty___u32, decl_value = Some struct_xdp_src_stats_v4_t,
     decl_no_prealloc = False\<rparr>"

definition xdp_src6_stats_decl :: map_decl where
  "xdp_src6_stats_decl =
    \<lparr>decl_map = xdp_src6_stats_map, decl_key = Some struct_src6_key, decl_value = Some struct_xdp_src_stats_v6_t,
     decl_no_prealloc = False\<rparr>"

definition xdp_flow4_stats_decl :: map_decl where
  "xdp_flow4_stats_decl =
    \<lparr>decl_map = xdp_flow4_stats_map, decl_key = Some struct_flow4_key, decl_value = Some struct_flow4_stats,
     decl_no_prealloc = False\<rparr>"

definition xdp_allow_lpm_decl :: map_decl where
  "xdp_allow_lpm_decl =
    \<lparr>decl_map = xdp_allow_lpm_map, decl_key = Some struct_lpm_key_v4, decl_value = Some ty___u8,
     decl_no_prealloc = True\<rparr>"

definition xdp_deny_hash_decl :: map_decl where
  "xdp_deny_hash_decl =
    \<lparr>decl_map = xdp_deny_hash_map, decl_key = Some struct_key4_bytes, decl_value = Some ty___u8,
     decl_no_prealloc = False\<rparr>"

definition xdp_allow6_lpm_decl :: map_decl where
  "xdp_allow6_lpm_decl =
    \<lparr>decl_map = xdp_allow6_lpm_map, decl_key = Some struct_lpm_key_v6, decl_value = Some ty___u8,
     decl_no_prealloc = True\<rparr>"

definition xdp_deny6_hash_decl :: map_decl where
  "xdp_deny6_hash_decl =
    \<lparr>decl_map = xdp_deny6_hash_map, decl_key = Some struct_key6_bytes, decl_value = Some ty___u8,
     decl_no_prealloc = False\<rparr>"

definition xdp_cfg_decl :: map_decl where
  "xdp_cfg_decl =
    \<lparr>decl_map = xdp_cfg_map, decl_key = Some ty___u32, decl_value = Some struct_xdp_cfg_t,
     decl_no_prealloc = False\<rparr>"

definition edge4_deny_decl :: map_decl where
  "edge4_deny_decl =
    \<lparr>decl_map = edge4_deny_map, decl_key = Some struct_edge4_key, decl_value = Some ty___u8,
     decl_no_prealloc = False\<rparr>"

definition edge4_allow_decl :: map_decl where
  "edge4_allow_decl =
    \<lparr>decl_map = edge4_allow_map, decl_key = Some struct_edge4_key, decl_value = Some ty___u8,
     decl_no_prealloc = False\<rparr>"

definition edge4_rl_policy_decl :: map_decl where
  "edge4_rl_policy_decl =
    \<lparr>decl_map = edge4_rl_policy_map, decl_key = Some struct_edge4_key, decl_value = Some struct_rl_cfg_t,
     decl_no_prealloc = False\<rparr>"

definition edge4_rl_state_decl :: map_decl where
  "edge4_rl_state_decl =
    \<lparr>decl_map = edge4_rl_state_map, decl_key = Some struct_edge4_key, decl_value = Some struct_rl_state_t,
     decl_no_prealloc = False\<rparr>"

definition edge4_cfg_decl :: map_decl where
  "edge4_cfg_decl =
    \<lparr>decl_map = edge4_cfg_map, decl_key = Some ty___u32, decl_value = Some struct_edge4_cfg_t,
     decl_no_prealloc = False\<rparr>"

definition xdp_rl_cfg_decl :: map_decl where
  "xdp_rl_cfg_decl =
    \<lparr>decl_map = xdp_rl_cfg_map, decl_key = Some ty___u32, decl_value = Some struct_rl_cfg_t,
     decl_no_prealloc = False\<rparr>"

definition xdp_rl_policy4_decl :: map_decl where
  "xdp_rl_policy4_decl =
    \<lparr>decl_map = xdp_rl_policy4_map, decl_key = Some struct_key4_bytes, decl_value = Some struct_rl_cfg_t,
     decl_no_prealloc = False\<rparr>"

definition xdp_rl_policy6_decl :: map_decl where
  "xdp_rl_policy6_decl =
    \<lparr>decl_map = xdp_rl_policy6_map, decl_key = Some struct_src6_key, decl_value = Some struct_rl_cfg_t,
     decl_no_prealloc = False\<rparr>"

definition xdp_rl_state4_decl :: map_decl where
  "xdp_rl_state4_decl =
    \<lparr>decl_map = xdp_rl_state4_map, decl_key = Some ty___u32, decl_value = Some struct_rl_state_t,
     decl_no_prealloc = False\<rparr>"

definition xdp_rl_state6_decl :: map_decl where
  "xdp_rl_state6_decl =
    \<lparr>decl_map = xdp_rl_state6_map, decl_key = Some struct_src6_key, decl_value = Some struct_rl_state_t,
     decl_no_prealloc = False\<rparr>"

definition xdp_port_hist_decl :: map_decl where
  "xdp_port_hist_decl =
    \<lparr>decl_map = xdp_port_hist_map, decl_key = Some ty___u32, decl_value = Some struct_port_hist_v,
     decl_no_prealloc = False\<rparr>"

definition xdp_len_hist_decl :: map_decl where
  "xdp_len_hist_decl =
    \<lparr>decl_map = xdp_len_hist_map, decl_key = Some ty___u32, decl_value = Some struct_len_hist_v,
     decl_no_prealloc = False\<rparr>"

definition xdp_events_decl :: map_decl where
  "xdp_events_decl =
    \<lparr>decl_map = xdp_events_map, decl_key = None, decl_value = None,
     decl_no_prealloc = False\<rparr>"

definition shield_maps :: "map_decl list" where
  "shield_maps =
    [xdp_totals_decl, xdp_src4_stats_decl, xdp_src6_stats_decl, xdp_flow4_stats_decl,
     xdp_allow_lpm_decl, xdp_deny_hash_decl, xdp_allow6_lpm_decl, xdp_deny6_hash_decl,
     xdp_cfg_decl, edge4_deny_decl, edge4_allow_decl, edge4_rl_policy_decl, edge4_rl_state_decl,
     edge4_cfg_decl, xdp_rl_cfg_decl, xdp_rl_policy4_decl, xdp_rl_policy6_decl,
     xdp_rl_state4_decl, xdp_rl_state6_decl, xdp_port_hist_decl, xdp_len_hist_decl,
     xdp_events_decl]"

lemmas decl_defs =
  xdp_totals_decl_def xdp_src4_stats_decl_def xdp_src6_stats_decl_def
  xdp_flow4_stats_decl_def xdp_allow_lpm_decl_def xdp_deny_hash_decl_def
  xdp_allow6_lpm_decl_def xdp_deny6_hash_decl_def xdp_cfg_decl_def edge4_deny_decl_def
  edge4_allow_decl_def edge4_rl_policy_decl_def edge4_rl_state_decl_def edge4_cfg_decl_def
  xdp_rl_cfg_decl_def xdp_rl_policy4_decl_def xdp_rl_policy6_decl_def xdp_rl_state4_decl_def
  xdp_rl_state6_decl_def xdp_port_hist_decl_def xdp_len_hist_decl_def xdp_events_decl_def

lemmas map_defs =
  xdp_totals_map_def xdp_src4_stats_map_def xdp_src6_stats_map_def xdp_flow4_stats_map_def
  xdp_allow_lpm_map_def xdp_deny_hash_map_def xdp_allow6_lpm_map_def xdp_deny6_hash_map_def
  xdp_cfg_map_def edge4_deny_map_def edge4_allow_map_def edge4_rl_policy_map_def
  edge4_rl_state_map_def edge4_cfg_map_def xdp_rl_cfg_map_def xdp_rl_policy4_map_def
  xdp_rl_policy6_map_def xdp_rl_state4_map_def xdp_rl_state6_map_def xdp_port_hist_map_def
  xdp_len_hist_map_def xdp_events_map_def

definition size_of_opt :: "ctype option \<Rightarrow> nat" where
  "size_of_opt x = (case x of None \<Rightarrow> 0 | Some t \<Rightarrow> sizeof t)"

end
