(* ===== verification/Kernel_Laws.thy ===== *)
theory Kernel_Laws
  imports Shield_Abi
begin

text \<open>
  What the kernel objects of \<open>Kernel_Types\<close>, \<open>Kernel_Maps\<close>, \<open>Kernel_Prog\<close> and \<open>Kernel_Net\<close> promise the
  program: every type is laid out soundly, the object of every declared map starts with the generic
  map, the pages of the ring buffer that user space maps hold nothing but the position counters,
  instructions are 8-byte words without gaps, and the numbers of commands, helpers, map types and
  verifier types are as the kernel's tables need them.
\<close>

section \<open>Layout of the kernel types\<close>

definition member_aligned :: "measured \<Rightarrow> nat \<times> nat \<Rightarrow> bool" where
  "member_aligned m p \<longleftrightarrow> fst (snd m) = None \<longrightarrow> 8 * snd (snd (snd m)) dvd fst p"

fun members_aligned :: "ctype \<Rightarrow> bool" where
  "members_aligned (Struct ms) \<longleftrightarrow>
     list_all2 member_aligned (measure_members ms) (struct_places 0 (measure_members ms))"
| "members_aligned t \<longleftrightarrow> True"

text \<open>
  A sound layout: the members of a structure one behind the other and each at its alignment, all
  named members inside the type, and a size that keeps the elements of an array aligned.
\<close>

definition laid_out :: "ctype \<Rightarrow> bool" where
  "laid_out t \<longleftrightarrow>
     in_order 0 (places t) (8 * sizeof t) \<and> members_aligned t \<and>
     slots_within (slots t) (8 * sizeof t) \<and> alignof t dvd sizeof t"

lemma struct_places_aligned: "list_all2 member_aligned ms (struct_places pos ms)"
  by (induction ms arbitrary: pos) (auto simp: member_aligned_def place_aligned)

lemma members_aligned_all: "members_aligned t"
  by (cases t) (simp_all add: struct_places_aligned)

lemma close_walk_dvd: "snd (close_walk r) dvd fst (close_walk r)"
proof -
  have "round_up (8 * snd r) (fst r) = 8 * (snd r * ((fst r + 8 * snd r - 1) div (8 * snd r)))"
    by (simp add: round_up_def)
  then show ?thesis by (simp add: close_walk_def)
qed

lemma dims_dvd: "snd (dims t) dvd fst (dims t)"
  by (induction t rule: dims.induct) (simp_all add: close_walk_dvd dvd_mult)

lemma laid_out_all: "laid_out t"
  using places_in_order [of t] members_aligned_all [of t] slots_within_type [of t] dims_dvd [of t]
  by (simp add: laid_out_def sizeof_def alignof_def)

definition kernel_types :: "ctype list" where
  "kernel_types =
    [struct_xdp_md, struct_xdp_buff, struct_xdp_frame, struct_xdp_rxq_info, struct_ethhdr,
     struct_vlan_hdr, struct_iphdr, struct_ipv6hdr, struct_tcphdr, struct_udphdr,
     struct_bpf_spin_lock, struct_bpf_map_ops, struct_bpf_map, struct_bpf_array,
     struct_bpf_lru_list, struct_bpf_htab, struct_htab_elem, struct_bpf_lpm_trie_key_u8,
     struct_lpm_trie_node, struct_lpm_trie, struct_bpf_ringbuf_hdr, struct_bpf_ringbuf,
     struct_bpf_ringbuf_map, struct_bpf_map_info, struct_bpf_insn, struct_bpf_prog,
     struct_bpf_prog_aux, struct_bpf_func_proto, union_bpf_attr, struct_bpf_prog_info,
     struct_bpf_link_info, struct_bpf_dispatcher, struct_bpf_call_arg_meta,
     struct_bpf_insn_aux_data, struct_bpf_func_state, struct_bpf_verifier_state,
     struct_bpf_verifier_env, struct_net_device, struct_sk_buff, struct_skb_shared_info,
     struct_netdev_rx_queue, struct_page_pool, struct_napi_struct]"

text \<open>
  The kernel types the program meets are laid out soundly and have the sizes and alignments of
  the running kernel: no two members overlap, every member is inside its type and at its alignment,
  and every type has the size and alignment listed here, in bytes.
\<close>

theorem kernel_types_are_sound:
  "list_all laid_out kernel_types \<and>
   map dims kernel_types =
    [(24, 4), (56, 8), (40, 8), (64, 8), (14, 2), (4, 2), (20, 4), (40, 4), (20, 4), (8, 2),
     (4, 4), (328, 8), (256, 8), (320, 8), (128, 8), (832, 8), (48, 8), (4, 4), (40, 8), (320,
     8), (8, 4), (12288, 8), (320, 8), (88, 8), (8, 4), (72, 8), (1040, 8), (96, 8), (144, 8),
     (232, 8), (48, 8), (1456, 8), (96, 8), (56, 8), (1392, 8), (120, 8), (7576, 8), (2432,
     8), (232, 8), (320, 8), (192, 8), (1600, 8), (400, 8)]"
  by (simp add: kernel_types_def laid_out_all c_dims)

section \<open>The objects behind the maps\<close>

fun map_object :: "bpf_map_type \<Rightarrow> ctype" where
  "map_object BPF_MAP_TYPE_ARRAY = struct_bpf_array"
| "map_object BPF_MAP_TYPE_PERCPU_ARRAY = struct_bpf_array"
| "map_object BPF_MAP_TYPE_HASH = struct_bpf_htab"
| "map_object BPF_MAP_TYPE_LRU_HASH = struct_bpf_htab"
| "map_object BPF_MAP_TYPE_LPM_TRIE = struct_lpm_trie"
| "map_object BPF_MAP_TYPE_RINGBUF = struct_bpf_ringbuf_map"

lemma map_object_slots:
  "slot_of struct_bpf_array ''map'' = Some (0, 2048)"
  "slot_of struct_bpf_htab ''map'' = Some (0, 2048)"
  "slot_of struct_lpm_trie ''map'' = Some (0, 2048)"
  "slot_of struct_bpf_ringbuf_map ''map'' = Some (0, 2048)"
  by (simp_all add: struct_bpf_array_def struct_bpf_htab_def struct_lpm_trie_def
      struct_bpf_ringbuf_map_def slot_simps c_dims)

lemma map_object_slot: "slot_of (map_object k) ''map'' = Some (0, 2048)"
  by (cases k) (simp_all add: map_object_slots)

lemma htab_elem_slots:
  "slot_of struct_htab_elem ''hash_node'' = Some (0, 128)"
  "slot_of struct_htab_elem ''fnode'' = Some (64, 64)"
  "slot_of struct_hlist_nulls_node ''next'' = Some (0, 64)"
  "slot_of struct_hlist_nulls_node ''pprev'' = Some (64, 64)"
  by (simp_all add: struct_htab_elem_def struct_hlist_nulls_node_def slot_simps c_dims)

text \<open>
  Whatever its type, the kernel object of a declared map begins with the generic \<open>bpf_map\<close>, so
  the pointer the program passes to a helper is the same for the generic and the specific object.
  In an element of a hash table the link of the free list shares its word with the back pointer of
  the bucket list and leaves the forward pointer alone, so a reader that still walks the bucket
  while the element is freed follows an intact link.
\<close>

theorem map_objects_start_with_bpf_map:
  "list_all (\<lambda>d. slot_of (map_object (map_type (decl_map d))) ''map'' =
                 Some (0, 8 * sizeof struct_bpf_map)) shield_maps \<and>
   offset_of struct_htab_elem ''hash_node'' = offset_of struct_hlist_nulls_node ''next'' \<and>
   offset_of struct_htab_elem ''fnode'' = offset_of struct_hlist_nulls_node ''pprev''"
  by (simp add: list_all_iff map_object_slot sizeof_def c_dims offset_of_def htab_elem_slots)

section \<open>The ring buffer\<close>

lemma slots_all_Cons:
  "list_all P (struct_slots pos ((n, m, inner) # ms)) \<longleftrightarrow>
     list_all P (member_slots (place pos m) n m inner) \<and>
     list_all P (struct_slots (place pos m + extent m) ms)"
  by simp

lemma slots_all_padding:
  "0 < k \<Longrightarrow> (\<And>s. P (n, s, 64)) \<Longrightarrow>
     list_all P (struct_slots pos (replicate k (n, padding, []) @ ms)) \<longleftrightarrow>
     list_all P (struct_slots (round_up 64 pos + 64 * k) ms)"
proof (induction k arbitrary: pos)
  case (Suc k)
  then show ?case
    using Suc.IH [of "round_up 64 pos + 64"]
    by (cases k)
      (simp_all del: place.simps add: place_padding round_up_64_again member_slots_def algebra_simps)
qed simp

text \<open>The part of a structure in page \<open>k\<close> is made of the named members listed.\<close>

definition page_holds :: "nat \<Rightarrow> string list \<Rightarrow> slot \<Rightarrow> bool" where
  "page_holds k ns sl \<longleftrightarrow>
     (case sl of (n, s, w) \<Rightarrow>
        n = [] \<or> n \<in> set ns \<or> s + w \<le> 8 * 4096 * k \<or> 8 * 4096 * (k + 1) \<le> s)"

lemma page_holds_unnamed: "page_holds k ns ([], s, w)"
  by (simp add: page_holds_def)

lemma ringbuf_pages:
  "list_all (page_holds 1 [''consumer_pos'']) (slots struct_bpf_ringbuf)"
  "list_all (page_holds 2 [''producer_pos'', ''pending_pos'']) (slots struct_bpf_ringbuf)"
proof -
  show "list_all (page_holds 1 [''consumer_pos'']) (slots struct_bpf_ringbuf)"
    by (simp add: struct_bpf_ringbuf_def bpf_ringbuf_regions slots_all_Cons slots_all_padding
        page_holds_unnamed member_slots_def c_dims del: struct_slots.simps(2))
      (simp add: page_holds_def)
  show "list_all (page_holds 2 [''producer_pos'', ''pending_pos'']) (slots struct_bpf_ringbuf)"
    by (simp add: struct_bpf_ringbuf_def bpf_ringbuf_regions slots_all_Cons slots_all_padding
        page_holds_unnamed member_slots_def c_dims del: struct_slots.simps(2))
      (simp add: page_holds_def)
qed

text \<open>
  User space writes only where it may. The consumer position, the producer positions and the
  data of the ring buffer of events start on pages 1, 2 and 3; page 1, which the reader maps
  writable, holds no kernel field but the consumer position, and page 2, which it maps read-only,
  no field but the two producer positions, so the lock, the work item and the page table of the
  ring stay out of its reach.
\<close>

theorem ring_pages_hold_only_counters:
  "offset_of struct_bpf_ringbuf ''consumer_pos'' = Some (1 * 4096) \<and>
   offset_of struct_bpf_ringbuf ''producer_pos'' = Some (2 * 4096) \<and>
   offset_of struct_bpf_ringbuf ''data'' = Some (3 * 4096) \<and>
   list_all (page_holds 1 [''consumer_pos'']) (slots struct_bpf_ringbuf) \<and>
   list_all (page_holds 2 [''producer_pos'', ''pending_pos'']) (slots struct_bpf_ringbuf)"
  using ringbuf_pages by (simp add: offset_of_def bpf_ringbuf_slots)

section \<open>Instructions\<close>

lemma bpf_insn_places:
  "places struct_bpf_insn = [(0, 8), (8, 4), (12, 4), (16, 16), (32, 32)]"
  by (simp add: struct_bpf_insn_def c_dims)

lemma store_bij:
  "padding_free t \<Longrightarrow> bij_betw (store t) {vs. fits (places t) vs} {bs. length bs = sizeof t}"
  by (rule bij_betw_byWitness [where f' = "fetch t"])
    (auto simp: fetch_store store_fetch fetch_fits)

text \<open>Writing the members of a structure and reading them back, for every value of its members.\<close>

definition survives_memory :: "ctype \<Rightarrow> bool" where
  "survives_memory t \<longleftrightarrow> (\<forall>vs. fits (places t) vs \<longrightarrow> fetch t (store t vs) = vs)"

lemma survives_memory_all: "survives_memory t"
  by (simp add: survives_memory_def fetch_store)

lemma instructions_are_words:
  "bij_betw (\<lambda>(code, dst, src, off, imm). store struct_bpf_insn [code, dst, src, off, imm])
     ({..< 2 ^ 8} \<times> {..< 2 ^ 4} \<times> {..< 2 ^ 4} \<times> {..< 2 ^ 16} \<times> {..< 2 ^ 32})
     {bs. length bs = 8}"
proof -
  let ?l = "\<lambda>(code, dst, src, off, imm). [code, dst, src, off, imm] :: nat list"
  have "padding_free struct_bpf_insn"
    by (simp add: padding_free_def bpf_insn_places sizeof_def c_dims)
  then have "bij_betw (store struct_bpf_insn) {vs. fits (places struct_bpf_insn) vs} {bs. length bs = 8}"
    using store_bij [of struct_bpf_insn] by (simp add: sizeof_def c_dims)
  moreover have "bij_betw ?l
      ({..< 2 ^ 8} \<times> {..< 2 ^ 4} \<times> {..< 2 ^ 4} \<times> {..< 2 ^ 16} \<times> {..< 2 ^ 32})
      {vs. fits (places struct_bpf_insn) vs}"
    by (rule bij_betw_byWitness [where f' = "\<lambda>vs. (vs ! 0, vs ! 1, vs ! 2, vs ! 3, vs ! 4)"])
      (auto simp: bpf_insn_places fits_Cons_iff fits_Nil_iff)
  ultimately show ?thesis
    using bij_betw_trans [of ?l _ _ "store struct_bpf_insn"] by (auto simp: comp_def case_prod_beta')
qed

text \<open>
  Values of the kernel types survive memory: for every type modelled, storing any values of its
  members by the layout and loading them again gives the same values, bit fields included. For
  instructions the bytes determine the members as well: operation code, two 4-bit registers,
  16-bit offset and 32-bit immediate are in bijection with the words of 8 bytes.
\<close>

theorem kernel_values_survive_memory:
  "list_all survives_memory kernel_types \<and>
   bij_betw (\<lambda>(code, dst, src, off, imm). store struct_bpf_insn [code, dst, src, off, imm])
     ({..< 2 ^ 8} \<times> {..< 2 ^ 4} \<times> {..< 2 ^ 4} \<times> {..< 2 ^ 16} \<times> {..< 2 ^ 32})
     {bs. length bs = 8}"
  using instructions_are_words by (simp add: list_all_iff survives_memory_all)

section \<open>Numbers\<close>

text \<open>
  The kernel indexes tables by command, helper, map, program and link number, so these run from 0
  without gaps. A verifier type that may be null is its base type with the flag \<open>PTR_MAYBE_NULL\<close>.
\<close>

definition numbered :: "(string \<times> int) list \<Rightarrow> bool" where
  "numbered es \<longleftrightarrow> map snd es = map int [0 ..< length es]"

definition nullable_of_base :: "(string \<times> int) list \<Rightarrow> string \<times> int \<Rightarrow> bool" where
  "nullable_of_base es e \<longleftrightarrow>
     (let b = length (fst e) - 8
      in drop b (fst e) = ''_OR_NULL'' \<longrightarrow> map_of es (take b (fst e)) = Some (snd e - 256) \<and>
           0 \<le> snd e - 256 \<and> snd e - 256 < 256)"

lemma numbered_enums:
  "numbered enum_xdp_action" "numbered enum_bpf_map_type" "numbered enum_bpf_prog_type"
  "numbered enum_bpf_attach_type" "numbered enum_bpf_link_type" "numbered enum_bpf_func_id"
  by (simp_all add: numbered_def enum_xdp_action_def enum_bpf_map_type_def enum_bpf_prog_type_def
      enum_bpf_attach_type_def enum_bpf_link_type_def enum_bpf_func_id_def)

lemma nullable_enums:
  "list_all (nullable_of_base enum_bpf_reg_type) enum_bpf_reg_type"
  "list_all (nullable_of_base enum_bpf_arg_type) enum_bpf_arg_type"
  by (simp_all add: nullable_of_base_def enum_bpf_reg_type_def enum_bpf_arg_type_def Let_def)

text \<open>The numbers of the map types and verdicts of the model.\<close>

fun map_type_number :: "bpf_map_type \<Rightarrow> int option" where
  "map_type_number BPF_MAP_TYPE_HASH = map_of enum_bpf_map_type ''BPF_MAP_TYPE_HASH''"
| "map_type_number BPF_MAP_TYPE_ARRAY = map_of enum_bpf_map_type ''BPF_MAP_TYPE_ARRAY''"
| "map_type_number BPF_MAP_TYPE_PERCPU_ARRAY =
     map_of enum_bpf_map_type ''BPF_MAP_TYPE_PERCPU_ARRAY''"
| "map_type_number BPF_MAP_TYPE_LRU_HASH = map_of enum_bpf_map_type ''BPF_MAP_TYPE_LRU_HASH''"
| "map_type_number BPF_MAP_TYPE_LPM_TRIE = map_of enum_bpf_map_type ''BPF_MAP_TYPE_LPM_TRIE''"
| "map_type_number BPF_MAP_TYPE_RINGBUF = map_of enum_bpf_map_type ''BPF_MAP_TYPE_RINGBUF''"

fun action_number :: "xdp_action \<Rightarrow> int option" where
  "action_number XDP_ABORTED = map_of enum_xdp_action ''XDP_ABORTED''"
| "action_number XDP_DROP = map_of enum_xdp_action ''XDP_DROP''"
| "action_number XDP_PASS = map_of enum_xdp_action ''XDP_PASS''"
| "action_number XDP_TX = map_of enum_xdp_action ''XDP_TX''"
| "action_number XDP_REDIRECT = map_of enum_xdp_action ''XDP_REDIRECT''"

lemma model_numbers:
  "map_type_number BPF_MAP_TYPE_HASH = Some 1" "map_type_number BPF_MAP_TYPE_ARRAY = Some 2"
  "map_type_number BPF_MAP_TYPE_PERCPU_ARRAY = Some 6"
  "map_type_number BPF_MAP_TYPE_LRU_HASH = Some 9" "map_type_number BPF_MAP_TYPE_LPM_TRIE = Some 11"
  "map_type_number BPF_MAP_TYPE_RINGBUF = Some 27"
  "action_number XDP_ABORTED = Some 0" "action_number XDP_DROP = Some 1"
  "action_number XDP_PASS = Some 2" "action_number XDP_TX = Some 3"
  "action_number XDP_REDIRECT = Some 4"
  by (simp_all add: enum_bpf_map_type_def enum_xdp_action_def)

lemma numbers_inj: "inj map_type_number" "inj action_number"
proof -
  show "inj map_type_number"
  proof (rule injI)
    fix k k' :: bpf_map_type
    assume "map_type_number k = map_type_number k'"
    then show "k = k'" by (cases k; cases k') (simp_all only: model_numbers option.inject numeral_eq_iff num.simps one_eq_numeral_iff numeral_eq_one_iff simp_thms)
  qed
  show "inj action_number"
  proof (rule injI)
    fix a a' :: xdp_action
    assume "action_number a = action_number a'"
    then show "a = a'" by (cases a; cases a') (simp_all only: model_numbers option.inject numeral_eq_iff num.simps one_eq_numeral_iff numeral_eq_one_iff zero_neq_one zero_neq_numeral numeral_neq_zero one_neq_zero simp_thms)
  qed
qed

text \<open>
  The kernel's numbers fit the model and its tables. Verdicts, map types, program and attachment
  types, link types and helpers are numbered from 0 without gaps; different map types and verdicts
  of the model have different numbers; and every nullable argument or register type of the verifier
  is its base type with the null flag, the base being below that flag.
\<close>

theorem kernel_numbers:
  "list_all numbered
     [enum_xdp_action, enum_bpf_map_type, enum_bpf_prog_type, enum_bpf_attach_type,
      enum_bpf_link_type, enum_bpf_func_id] \<and>
   inj map_type_number \<and> inj action_number \<and>
   (\<forall>k. map_type_number k \<noteq> None) \<and> (\<forall>a. action_number a \<noteq> None) \<and>
   list_all (\<lambda>es. list_all (nullable_of_base es) es) [enum_bpf_reg_type, enum_bpf_arg_type]"
proof -
  have "map_type_number k \<noteq> None" for k by (cases k) (simp_all only: model_numbers option.distinct not_False_eq_True)
  moreover have "action_number a \<noteq> None" for a by (cases a) (simp_all only: model_numbers option.distinct not_False_eq_True)
  ultimately show ?thesis using numbered_enums nullable_enums numbers_inj by simp
qed

section \<open>Creating the maps\<close>

text \<open>
  The argument of the \<open>bpf\<close> system call that creates a map: the members the command uses, written
  at their places in the union, the rest zero.
\<close>

definition attr_of :: "(string \<times> nat) list \<Rightarrow> u8 list" where
  "attr_of nvs =
     nat_bytes (sizeof union_bpf_attr)
       (pack (map (\<lambda>(n, v). the (slot_of union_bpf_attr n)) nvs) (map snd nvs))"

definition map_create_args :: "map_decl \<Rightarrow> (string \<times> nat) list" where
  "map_create_args d =
     [(''map_type'', nat (the (map_type_number (map_type (decl_map d))))),
      (''key_size'', size_of_opt (decl_key d)), (''value_size'', size_of_opt (decl_value d)),
      (''max_entries'', max_entries (decl_map d)),
      (''map_flags'', if decl_no_prealloc d then 1 else 0)]"

definition attr_reads :: "u8 list \<Rightarrow> (string \<times> nat) list \<Rightarrow> bool" where
  "attr_reads bs nvs \<longleftrightarrow> list_all (\<lambda>(n, v). c_member union_bpf_attr n bs 0 = Some v) nvs"

lemma attr_slots:
  "slot_of union_bpf_attr ''map_type'' = Some (0, 32)"
  "slot_of union_bpf_attr ''key_size'' = Some (32, 32)"
  "slot_of union_bpf_attr ''value_size'' = Some (64, 32)"
  "slot_of union_bpf_attr ''max_entries'' = Some (96, 32)"
  "slot_of union_bpf_attr ''map_flags'' = Some (128, 32)"
  by (simp_all add: union_bpf_attr_def slot_simps c_dims)

lemma attr_roundtrip:
  assumes "a < 2 ^ 32" "b < 2 ^ 32" "c < 2 ^ 32" "d < 2 ^ 32" "e < 2 ^ 32"
  shows "attr_reads
      (attr_of [(''map_type'', a), (''key_size'', b), (''value_size'', c), (''max_entries'', d),
                (''map_flags'', e)])
      [(''map_type'', a), (''key_size'', b), (''value_size'', c), (''max_entries'', d),
       (''map_flags'', e)]"
proof -
  let ?ps = "[(0, 32), (32, 32), (64, 32), (96, 32), (128, 32)]" and ?vs = "[a, b, c, d, e]"
  have ord: "in_order 0 ?ps 160" by simp
  have fits: "fits ?ps ?vs" using assms by simp
  have "pack ?ps ?vs < 2 ^ 160" using pack_less [OF ord fits] .
  then have "pack ?ps ?vs < 256 ^ 144" by (rule order.strict_trans2) simp
  then have "le_nat (nat_bytes 144 (pack ?ps ?vs)) = pack ?ps ?vs" by (rule le_of_nat_bytes)
  moreover have "unpack ?ps (pack ?ps ?vs) = ?vs" using unpack_pack [OF ord fits] .
  ultimately show ?thesis
    by (simp add: attr_reads_def attr_of_def c_member_def attr_slots sizeof_def c_dims unpack_def
        del: pack.simps)
qed

text \<open>
  The system call that creates a map carries its declaration: for every map of the program the
  type number, the sizes of key and value, the capacity and the flags written into the argument of
  \<open>BPF_MAP_CREATE\<close> are what the kernel reads from the members of \<open>bpf_attr\<close>.
\<close>

theorem maps_are_created_as_declared:
  "list_all (\<lambda>d. attr_reads (attr_of (map_create_args d)) (map_create_args d)) shield_maps"
proof -
  have bounds: "list_all (\<lambda>d. size_of_opt (decl_key d) < 2 ^ 32 \<and> size_of_opt (decl_value d) < 2 ^ 32 \<and>
      max_entries (decl_map d) < 2 ^ 32) shield_maps"
    by (simp add: shield_maps_def decl_defs map_defs size_of_opt_def sizeof_def c_dims)
  have num: "nat (the (map_type_number k)) < 2 ^ 32" for k
    by (cases k) (simp_all only: model_numbers option.sel, simp_all)
  show ?thesis
    using bounds unfolding list_all_iff map_create_args_def
    by (intro ballI attr_roundtrip) (use num in simp_all)
qed

end
