(* ===== verification/Smp_Gate.thy ===== *)
theory Smp_Gate
  imports Scenario
begin

text \<open>
  The rate-limit gate of one source on several CPUs at once (lines 945 to 959 of
  \<open>src/shield/bpf/xdp_kernloom_shield.bpf.c\<close>, with \<open>tb_allow_and_update\<close>, 588 to 599). A step is one
  access to shared memory by one CPU: the lookup, the insertion of a new bucket, taking the lock,
  reading the bucket, writing it, releasing the lock. Buckets are objects at addresses, because the
  pointer that a lookup returned outlives a replacement of the table entry by another CPU: an update
  with \<open>BPF_ANY\<close> puts a new object in the place of the old one. A replaced object stays a bucket of
  its own here; that the kernel may hand its memory to another source later is not modelled.
\<close>

section \<open>The gate as a step relation\<close>

datatype pc =
    Idle
  | Looked u64 "nat option"
  | Holding u64 nat
  | Computed u64 nat bool rl_state_t
  | Written u64 nat

text \<open>
  \<open>table\<close> is the entry of the source in \<open>xdp_rl_state4\<close>, \<open>bucket\<close> the objects, those below \<open>fresh\<close> in use.
  Two fields only record: \<open>origin\<close> each bucket as it was created, \<open>takes\<close> the decisions taken under the
  lock in the order of their writes.
\<close>

record gate =
  table :: "nat option"
  bucket :: "nat \<Rightarrow> rl_state_t"
  fresh :: nat
  pcs :: "nat \<Rightarrow> pc"
  origin :: "nat \<Rightarrow> rl_state_t"
  takes :: "(nat \<times> u64 \<times> bool) list"

datatype gate_event =
    Lookup nat u64
  | Insert nat
  | No_room nat
  | Acquire nat
  | Spin nat
  | Load nat
  | Store nat
  | Release nat

definition goto :: "nat \<Rightarrow> pc \<Rightarrow> gate \<Rightarrow> gate" where
  "goto c p s = s\<lparr>pcs := (pcs s)(c := p)\<rparr>"

definition put_bucket :: "nat \<Rightarrow> rl_state_t \<Rightarrow> gate \<Rightarrow> gate" where
  "put_bucket r st s = s\<lparr>bucket := (bucket s)(r := st)\<rparr>"

inductive gate_step :: "rl_cfg_t \<Rightarrow> gate \<Rightarrow> gate_event \<Rightarrow> gate \<Rightarrow> bool" for cfg where
  lookup: "pcs s c = Idle \<Longrightarrow> gate_step cfg s (Lookup c now) (goto c (Looked now (table s)) s)"
| insert: "pcs s c = Looked now None \<Longrightarrow>
    gate_step cfg s (Insert c)
      (goto c Idle (put_bucket (fresh s) (rl_init cfg now)
        (s\<lparr>table := Some (fresh s), fresh := Suc (fresh s),
           origin := (origin s)(fresh s := rl_init cfg now)\<rparr>)))"
| no_room: "pcs s c = Looked now None \<Longrightarrow> gate_step cfg s (No_room c) (goto c Idle s)"
| acquire: "pcs s c = Looked now (Some r) \<Longrightarrow> spin_lock (bucket s r) = Some st \<Longrightarrow>
    gate_step cfg s (Acquire c) (goto c (Holding now r) (put_bucket r st s))"
| spin: "pcs s c = Looked now (Some r) \<Longrightarrow> spin_lock (bucket s r) = None \<Longrightarrow>
    gate_step cfg s (Spin c) s"
| load: "pcs s c = Holding now r \<Longrightarrow>
    tb_allow_and_update_unlocked (Some (bucket s r)) (Some cfg) now = (ok, Some st) \<Longrightarrow>
    gate_step cfg s (Load c) (goto c (Computed now r ok st) s)"
| store: "pcs s c = Computed now r ok st \<Longrightarrow>
    gate_step cfg s (Store c)
      (goto c (Written now r)
        (put_bucket r ((bucket s r)\<lparr>tokens := tokens st, last_ns := last_ns st\<rparr>)
          (s\<lparr>takes := takes s @ [(r, now, ok)]\<rparr>)))"
| release: "pcs s c = Written now r \<Longrightarrow>
    gate_step cfg s (Release c) (goto c Idle (put_bucket r (spin_unlock (bucket s r)) s))"

lemma gate_frame [simp]:
  "table (goto c p s) = table s" "bucket (goto c p s) = bucket s" "fresh (goto c p s) = fresh s"
  "origin (goto c p s) = origin s" "takes (goto c p s) = takes s"
  "pcs (goto c p s) = (pcs s)(c := p)"
  "table (put_bucket r st s) = table s" "bucket (put_bucket r st s) = (bucket s)(r := st)"
  "fresh (put_bucket r st s) = fresh s" "origin (put_bucket r st s) = origin s"
  "takes (put_bucket r st s) = takes s" "pcs (put_bucket r st s) = pcs s"
  by (simp_all add: goto_def put_bucket_def)

text \<open>The same steps as a function, to run schedules.\<close>

fun gate_next :: "rl_cfg_t \<Rightarrow> gate_event \<Rightarrow> gate \<Rightarrow> gate option" where
  "gate_next cfg (Lookup c now) s =
     (case pcs s c of Idle \<Rightarrow> Some (goto c (Looked now (table s)) s) | _ \<Rightarrow> None)"
| "gate_next cfg (Insert c) s =
     (case pcs s c of
        Looked now None \<Rightarrow>
          Some (goto c Idle (put_bucket (fresh s) (rl_init cfg now)
            (s\<lparr>table := Some (fresh s), fresh := Suc (fresh s),
               origin := (origin s)(fresh s := rl_init cfg now)\<rparr>)))
      | _ \<Rightarrow> None)"
| "gate_next cfg (No_room c) s =
     (case pcs s c of Looked now None \<Rightarrow> Some (goto c Idle s) | _ \<Rightarrow> None)"
| "gate_next cfg (Acquire c) s =
     (case pcs s c of
        Looked now (Some r) \<Rightarrow>
          map_option (\<lambda>st. goto c (Holding now r) (put_bucket r st s)) (spin_lock (bucket s r))
      | _ \<Rightarrow> None)"
| "gate_next cfg (Spin c) s =
     (case pcs s c of
        Looked now (Some r) \<Rightarrow> (if spin_lock (bucket s r) = None then Some s else None)
      | _ \<Rightarrow> None)"
| "gate_next cfg (Load c) s =
     (case pcs s c of
        Holding now r \<Rightarrow>
          (case tb_allow_and_update_unlocked (Some (bucket s r)) (Some cfg) now of
             (ok, Some st) \<Rightarrow> Some (goto c (Computed now r ok st) s)
           | (ok, None) \<Rightarrow> None)
      | _ \<Rightarrow> None)"
| "gate_next cfg (Store c) s =
     (case pcs s c of
        Computed now r ok st \<Rightarrow>
          Some (goto c (Written now r)
            (put_bucket r ((bucket s r)\<lparr>tokens := tokens st, last_ns := last_ns st\<rparr>)
              (s\<lparr>takes := takes s @ [(r, now, ok)]\<rparr>)))
      | _ \<Rightarrow> None)"
| "gate_next cfg (Release c) s =
     (case pcs s c of
        Written now r \<Rightarrow> Some (goto c Idle (put_bucket r (spin_unlock (bucket s r)) s))
      | _ \<Rightarrow> None)"

lemma gate_next_step: "gate_next cfg e s = Some s' \<Longrightarrow> gate_step cfg s e s'"
  by (cases e) (auto intro: gate_step.intros split: pc.splits option.splits prod.splits if_splits)

lemma gate_step_next: "gate_step cfg s e s' \<Longrightarrow> gate_next cfg e s = Some s'"
  by (induction rule: gate_step.induct) auto

fun gate_run :: "rl_cfg_t \<Rightarrow> gate_event list \<Rightarrow> gate \<Rightarrow> gate option" where
  "gate_run cfg [] s = Some s"
| "gate_run cfg (e # es) s = Option.bind (gate_next cfg e s) (gate_run cfg es)"

lemma gate_run_steps: "gate_run cfg es s = Some s' \<Longrightarrow> steps (gate_step cfg) s es s'"
proof (induction es arbitrary: s)
  case (Cons e es)
  then obtain s1 where s1: "gate_next cfg e s = Some s1" "gate_run cfg es s1 = Some s'"
    by (auto split: Option.bind_splits)
  from Cons.IH [OF s1(2)] gate_next_step [OF s1(1)] show ?case by (intro steps_Cons)
qed (simp add: steps.none)

section \<open>Mutual exclusion\<close>

text \<open>The bucket a CPU holds a pointer to, and the one whose lock it holds.\<close>

fun refers :: "pc \<Rightarrow> nat option" where
  "refers Idle = None"
| "refers (Looked now x) = x"
| "refers (Holding now r) = Some r"
| "refers (Computed now r ok st) = Some r"
| "refers (Written now r) = Some r"

fun section_of :: "pc \<Rightarrow> nat option" where
  "section_of Idle = None"
| "section_of (Looked now x) = None"
| "section_of (Holding now r) = Some r"
| "section_of (Computed now r ok st) = Some r"
| "section_of (Written now r) = Some r"

lemma section_refers: "section_of p = Some r \<Longrightarrow> refers p = Some r"
  by (cases p) auto

definition locked :: "gate \<Rightarrow> nat \<Rightarrow> bool" where
  "locked s r \<longleftrightarrow> val (lock (bucket s r)) \<noteq> 0"

definition lock_inv :: "gate \<Rightarrow> bool" where
  "lock_inv s \<longleftrightarrow>
     (\<forall>r. locked s r \<longleftrightarrow> (\<exists>c. section_of (pcs s c) = Some r)) \<and>
     (\<forall>c c' r. section_of (pcs s c) = Some r \<longrightarrow> section_of (pcs s c') = Some r \<longrightarrow> c = c') \<and>
     (\<forall>c r. refers (pcs s c) = Some r \<longrightarrow> r < fresh s) \<and>
     (\<forall>r. table s = Some r \<longrightarrow> r < fresh s)"

lemma lock_invD:
  assumes "lock_inv s"
  shows "locked s r \<longleftrightarrow> (\<exists>c. section_of (pcs s c) = Some r)"
    "section_of (pcs s c) = Some r \<Longrightarrow> section_of (pcs s c') = Some r \<Longrightarrow> c = c'"
    "refers (pcs s c) = Some r \<Longrightarrow> r < fresh s" "table s = Some r \<Longrightarrow> r < fresh s"
    "section_of (pcs s c) = Some r \<Longrightarrow> r < fresh s"
  using assms section_refers unfolding lock_inv_def by blast+

lemma spin_lock_Some: "spin_lock st = Some st' \<longleftrightarrow> val (lock st) = 0 \<and> st' = st\<lparr>lock := \<lparr>val = 1\<rparr>\<rparr>"
  by (auto simp: spin_lock_def)

lemma section_kept:
  "section_of p = section_of (f c) \<Longrightarrow> section_of ((f(c := p)) c') = section_of (f c')"
  by simp

lemma lock_inv_kept:
  assumes "lock_inv s" "\<And>c. section_of (pcs s' c) = section_of (pcs s c)"
    and "\<And>r. locked s' r = locked s r" "fresh s \<le> fresh s'"
    and "\<And>c r. refers (pcs s' c) = Some r \<Longrightarrow> r < fresh s'" "\<And>r. table s' = Some r \<Longrightarrow> r < fresh s'"
  shows "lock_inv s'"
  using assms by (simp add: lock_inv_def)

lemma gate_step_lock_inv: "gate_step cfg s e s' \<Longrightarrow> lock_inv s \<Longrightarrow> lock_inv s'"
proof (induction rule: gate_step.induct)
  case (lookup s c now)
  note d = lock_invD [OF lookup.prems]
  show ?case
    by (rule lock_inv_kept [OF lookup.prems]) (use lookup.hyps d in \<open>auto simp: locked_def split: if_splits\<close>)
next
  case (insert s c now)
  note d = lock_invD [OF insert.prems]
  have "\<not> locked s (fresh s)" using d(1,5) by blast
  then show ?case
    by (intro lock_inv_kept [OF insert.prems])
      (use insert.hyps d in \<open>auto simp: locked_def rl_init_def less_Suc_eq split: if_splits\<close>)
next
  case (no_room s c now)
  note d = lock_invD [OF no_room.prems]
  show ?case
    by (rule lock_inv_kept [OF no_room.prems]) (use no_room.hyps d in \<open>auto simp: locked_def split: if_splits\<close>)
next
  case (acquire s c now r st)
  note d = lock_invD [OF acquire.prems]
  have "section_of (pcs s c') \<noteq> Some r" for c' using d(1) [of r] acquire.hyps(2) by (auto simp: locked_def spin_lock_Some)
  moreover have "r < fresh s" using d(3) [of c r] acquire.hyps(1) by simp
  moreover have "section_of (pcs s c) = None" using acquire.hyps(1) by simp
  ultimately show ?case using acquire.prems acquire.hyps(2)
    by (auto simp: lock_inv_def locked_def spin_lock_Some) (metis option.distinct(1))
next
  case (spin s c now r)
  then show ?case by simp
next
  case (load s c now r ok st)
  note d = lock_invD [OF load.prems]
  show ?case
    by (rule lock_inv_kept [OF load.prems]) (use load.hyps d d(3) [of c] in \<open>auto simp: locked_def split: if_splits\<close>)
next
  case (store s c now r ok st)
  note d = lock_invD [OF store.prems]
  show ?case
    by (rule lock_inv_kept [OF store.prems]) (use store.hyps d d(3) [of c] in \<open>auto simp: locked_def split: if_splits\<close>)
next
  case (release s c now r)
  note d = lock_invD [OF release.prems]
  have c: "section_of (pcs s c) = Some r" using release.hyps by simp
  have "section_of (pcs s c') \<noteq> Some r" if "c' \<noteq> c" for c' using d(2) [OF c] that by blast
  with c show ?case using release.prems
    by (auto simp: lock_inv_def locked_def spin_unlock_def) (metis option.inject)
qed

section \<open>Decisions under the lock are sequential\<close>

text \<open>The requests decided on a bucket, in order, and the decisions.\<close>

definition times_of :: "gate \<Rightarrow> nat \<Rightarrow> u64 list" where
  "times_of s r = map (\<lambda>x. fst (snd x)) (filter (\<lambda>x. fst x = r) (takes s))"

definition oks_of :: "gate \<Rightarrow> nat \<Rightarrow> bool list" where
  "oks_of s r = map (\<lambda>x. snd (snd x)) (filter (\<lambda>x. fst x = r) (takes s))"

definition level :: "rl_state_t \<Rightarrow> u64 \<times> u64" where
  "level st = (tokens st, last_ns st)"

lemma tb_take_level:
  "level a = level b \<Longrightarrow> fst (tb_take a cfg now) = fst (tb_take b cfg now) \<and>
     level (snd (tb_take a cfg now)) = level (snd (tb_take b cfg now))"
  by (simp add: level_def tb_take_def tb_refill_def Let_def split: prod.split)

lemma tb_run_snoc:
  "tb_run cfg st (ts @ [now]) =
     (fst (tb_run cfg st ts) @ [fst (tb_take (snd (tb_run cfg st ts)) cfg now)],
      snd (tb_take (snd (tb_run cfg st ts)) cfg now))"
  by (induction ts arbitrary: st) (auto split: prod.splits)

lemma unlocked_take:
  "usable_cfg cfg \<Longrightarrow> tb_allow_and_update_unlocked (Some st) (Some cfg) now =
     (fst (tb_take st cfg now), Some (snd (tb_take st cfg now)))"
  by (simp add: tb_allow_and_update_unlocked_def usable_cfg_def split: prod.split)

definition data_inv :: "rl_cfg_t \<Rightarrow> gate \<Rightarrow> bool" where
  "data_inv cfg s \<longleftrightarrow>
     (\<forall>r. fst (tb_run cfg (origin s r) (times_of s r)) = oks_of s r \<and>
          level (snd (tb_run cfg (origin s r) (times_of s r))) = level (bucket s r)) \<and>
     (\<forall>c now r ok st. pcs s c = Computed now r ok st \<longrightarrow>
        ok = fst (tb_take (bucket s r) cfg now) \<and> level st = level (snd (tb_take (bucket s r) cfg now))) \<and>
     (\<forall>x \<in> set (takes s). fst x < fresh s)"

lemma times_of_frame [simp]:
  "times_of (goto c p s) = times_of s" "oks_of (goto c p s) = oks_of s"
  "times_of (put_bucket r st s) = times_of s" "oks_of (put_bucket r st s) = oks_of s"
  by (simp_all add: times_of_def oks_of_def fun_eq_iff)

lemma times_of_snoc:
  "takes s' = takes s @ [(r, now, ok)] \<Longrightarrow> times_of s' r' = times_of s r' @ (if r' = r then [now] else [])"
  "takes s' = takes s @ [(r, now, ok)] \<Longrightarrow> oks_of s' r' = oks_of s r' @ (if r' = r then [ok] else [])"
  by (simp_all add: times_of_def oks_of_def)

lemma times_of_unused: "\<forall>x \<in> set (takes s). fst x < fresh s \<Longrightarrow> times_of s (fresh s) = [] \<and> oks_of s (fresh s) = []"
  by (auto simp: times_of_def oks_of_def filter_empty_conv)

lemma data_invD:
  assumes "data_inv cfg s"
  shows "fst (tb_run cfg (origin s r) (times_of s r)) = oks_of s r"
    "level (snd (tb_run cfg (origin s r) (times_of s r))) = level (bucket s r)"
    "pcs s c = Computed now r ok st \<Longrightarrow> ok = fst (tb_take (bucket s r) cfg now)"
    "pcs s c = Computed now r ok st \<Longrightarrow> level st = level (snd (tb_take (bucket s r) cfg now))"
    "\<forall>x \<in> set (takes s). fst x < fresh s"
  using assms by (simp_all add: data_inv_def)

text \<open>A change of buckets that keeps the level of every one keeps the data invariant.\<close>

lemma data_inv_kept:
  assumes "data_inv cfg s" "origin s' = origin s" "takes s' = takes s" "fresh s' = fresh s"
    and level: "\<And>r. level (bucket s' r) = level (bucket s r)"
    and pc: "\<And>c now r ok st. pcs s' c = Computed now r ok st \<Longrightarrow>
      ok = fst (tb_take (bucket s r) cfg now) \<and> level st = level (snd (tb_take (bucket s r) cfg now))"
  shows "data_inv cfg s'"
proof -
  have "times_of s' = times_of s" "oks_of s' = oks_of s"
    using assms(3) by (simp_all add: times_of_def oks_of_def fun_eq_iff)
  then show ?thesis
    using assms pc tb_take_level [OF level] unfolding data_inv_def by simp
qed

lemma gate_step_data_inv:
  assumes cfg: "usable_cfg cfg"
  shows "gate_step cfg s e s' \<Longrightarrow> lock_inv s \<Longrightarrow> data_inv cfg s \<Longrightarrow> data_inv cfg s'"
proof (induction rule: gate_step.induct)
  case (lookup s c now)
  note d = data_invD [OF lookup.prems(2)]
  show ?case
    by (rule data_inv_kept [OF lookup.prems(2)]) (use d(3,4) in \<open>auto split: if_splits\<close>)
next
  case (insert s c now)
  note d = data_invD [OF insert.prems(2)]
  have "r \<noteq> fresh s" if "pcs s c' = Computed now' r ok st" for c' now' r ok st
    using lock_invD(3) [OF insert.prems(1), of c' r] that by auto
  then show ?case
    using d times_of_unused [OF d(5)] insert.prems(2) unfolding data_inv_def times_of_def oks_of_def
    by (auto simp: less_Suc_eq)
next
  case (no_room s c now)
  note d = data_invD [OF no_room.prems(2)]
  show ?case
    by (rule data_inv_kept [OF no_room.prems(2)]) (use d(3,4) in \<open>auto split: if_splits\<close>)
next
  case (acquire s c now r st)
  note d = data_invD [OF acquire.prems(2)]
  show ?case
    by (rule data_inv_kept [OF acquire.prems(2)])
      (use d(3,4) acquire.hyps(2) in \<open>auto simp: spin_lock_Some level_def split: if_splits\<close>)
next
  case (spin s c now r)
  then show ?case by simp
next
  case (load s c now r ok st)
  note d = data_invD [OF load.prems(2)]
  show ?case
    by (rule data_inv_kept [OF load.prems(2)])
      (use d(3,4) load.hyps(2) in \<open>auto simp: unlocked_take [OF cfg] split: if_splits\<close>)
next
  case (store s c now r ok st)
  note d = data_invD [OF store.prems(2)]
  let ?s = "goto c (Written now r) (put_bucket r ((bucket s r)\<lparr>tokens := tokens st, last_ns := last_ns st\<rparr>)
          (s\<lparr>takes := takes s @ [(r, now, ok)]\<rparr>))"
  have lv: "level st = level (snd (tb_take (snd (tb_run cfg (origin s r) (times_of s r))) cfg now))"
    and ok: "ok = fst (tb_take (snd (tb_run cfg (origin s r) (times_of s r))) cfg now)"
    using d(3,4) [OF store.hyps] tb_take_level [OF d(2) [of r], of cfg now] by simp_all
  have sec: "section_of (pcs s c) = Some r" using store.hyps by simp
  have other: "r' \<noteq> r" if "pcs s c' = Computed now' r' ok' st'" "c' \<noteq> c" for c' now' r' ok' st'
    using lock_invD(2) [OF store.prems(1) sec, of c'] that by auto
  have t: "times_of ?s r' = times_of s r' @ (if r' = r then [now] else [])"
    "oks_of ?s r' = oks_of s r' @ (if r' = r then [ok] else [])" for r'
    by (simp_all add: times_of_snoc [of _ s])
  have run: "fst (tb_run cfg (origin s r') (times_of ?s r')) = oks_of ?s r' \<and>
      level (snd (tb_run cfg (origin s r') (times_of ?s r'))) = level (bucket ?s r')" for r'
    using d(1,2) lv ok unfolding t by (cases "r' = r") (simp_all add: tb_run_snoc level_def)
  have "r < fresh s" using lock_invD(5) [OF store.prems(1) sec] .
  with run d(5) d(3,4) other show ?case unfolding data_inv_def
    by (auto split: if_splits)
next
  case (release s c now r)
  note d = data_invD [OF release.prems(2)]
  show ?case
    by (rule data_inv_kept [OF release.prems(2)])
      (use d(3,4) in \<open>auto simp: spin_unlock_def level_def split: if_splits\<close>)
qed

section \<open>Runs of the gate\<close>

text \<open>A start: no CPU is in the gate, no lock is taken, no decision has been made.\<close>

definition gate_start :: "gate \<Rightarrow> bool" where
  "gate_start s \<longleftrightarrow> (\<forall>c. pcs s c = Idle) \<and> takes s = [] \<and> origin s = bucket s \<and>
     (\<forall>r. lock (bucket s r) = \<lparr>val = 0\<rparr>) \<and> (\<forall>r. table s = Some r \<longrightarrow> r < fresh s)"

lemma gate_start_inv:
  assumes "gate_start s"
  shows "lock_inv s" "data_inv cfg s"
  using assms by (auto simp: gate_start_def lock_inv_def locked_def data_inv_def times_of_def oks_of_def)

lemma gate_run_inv:
  assumes "gate_start s0" "usable_cfg cfg" "steps (gate_step cfg) s0 es s"
  shows "lock_inv s" "data_inv cfg s"
proof -
  have "lock_inv s \<and> data_inv cfg s"
    by (rule steps_invariant [OF assms(3)])
      (use gate_start_inv [OF assms(1)] gate_step_lock_inv gate_step_data_inv [OF assms(2)] in blast)+
  then show "lock_inv s" "data_inv cfg s" by blast+
qed

text \<open>Objects are created with a free lock, and keep their origin.\<close>

lemma gate_step_origin:
  assumes "gate_step cfg s e s'"
  shows "fresh s \<le> fresh s'" "r < fresh s \<Longrightarrow> origin s' r = origin s r"
    "\<forall>r. lock (origin s r) = \<lparr>val = 0\<rparr> \<Longrightarrow> \<forall>r. lock (origin s' r) = \<lparr>val = 0\<rparr>"
  using assms by (induction rule: gate_step.induct) (auto simp: rl_init_def)

lemma gate_run_origin:
  assumes "steps (gate_step cfg) s0 es s" "r < fresh s0"
  shows "origin s r = origin s0 r"
proof -
  have "r < fresh s \<and> origin s r = origin s0 r"
  proof (rule steps_invariant [where P = "\<lambda>s. r < fresh s \<and> origin s r = origin s0 r", OF assms(1)])
    show "r < fresh s0 \<and> origin s0 r = origin s0 r" using assms(2) by simp
    fix s1 e s2
    assume "r < fresh s1 \<and> origin s1 r = origin s0 r" "gate_step cfg s1 e s2"
    then show "r < fresh s2 \<and> origin s2 r = origin s0 r"
      using gate_step_origin(1) [of cfg s1 e s2] gate_step_origin(2) [of cfg s1 e s2 r] by simp
  qed
  then show ?thesis by simp
qed

lemma tb_run_lock [simp]: "lock (snd (tb_run cfg st ts)) = lock st"
  by (induction ts arbitrary: st) (auto split: prod.splits, metis snd_conv tb_take_lock)

lemma gate_run_quiet_bucket:
  assumes "gate_start s0" "usable_cfg cfg" "steps (gate_step cfg) s0 es s"
    and "\<forall>c. section_of (pcs s c) \<noteq> Some r"
  shows "tb_run cfg (origin s r) (times_of s r) = (oks_of s r, bucket s r)"
proof -
  note inv = gate_run_inv [OF assms(1-3)]
  have "\<forall>r. lock (origin s r) = \<lparr>val = 0\<rparr>"
    by (rule steps_invariant [where P = "\<lambda>s. \<forall>r. lock (origin s r) = \<lparr>val = 0\<rparr>", OF assms(3)])
      (use assms(1) gate_step_origin(3) in \<open>auto simp: gate_start_def\<close>)
  moreover have "\<not> locked s r" using lock_invD(1) [OF inv(1)] assms(4) by blast
  ultimately have "lock (snd (tb_run cfg (origin s r) (times_of s r))) = lock (bucket s r)"
    by (simp add: locked_def)
  moreover have "tokens (snd (tb_run cfg (origin s r) (times_of s r))) = tokens (bucket s r)"
    "last_ns (snd (tb_run cfg (origin s r) (times_of s r))) = last_ns (bucket s r)"
    using data_invD(2) [OF inv(2), of r] by (simp_all add: level_def)
  ultimately have "snd (tb_run cfg (origin s r) (times_of s r)) = bucket s r" by simp
  then show ?thesis using data_invD(1) [OF inv(2), of r] by (metis prod.collapse)
qed

text \<open>
  C5: Concurrent updates are linearizable. Whatever the interleaving of CPUs in the gate of one
  source, at most one of them is inside the critical section of a bucket, and a bucket that none is inside holds
  what a single CPU would have made of the requests, in the order of their writes, with the same decisions.
\<close>

theorem gate_is_linearizable:
  assumes "gate_start s0" "usable_cfg cfg" "steps (gate_step cfg) s0 es s"
  shows "(\<forall>c c' r. section_of (pcs s c) = Some r \<longrightarrow> section_of (pcs s c') = Some r \<longrightarrow> c = c') \<and>
    (\<forall>r. (\<forall>c. section_of (pcs s c) \<noteq> Some r) \<longrightarrow>
       tb_run cfg (origin s r) (times_of s r) = (oks_of s r, bucket s r))"
  using gate_run_quiet_bucket [OF assms] lock_invD(2) [OF gate_run_inv(1) [OF assms]] by blast

section \<open>Instances\<close>

text \<open>A bucket with one token, and two CPUs that want it at once.\<close>

definition one_token :: gate where
  "one_token = \<lparr>table = Some 0, bucket = (\<lambda>_. (empty_bucket 0)\<lparr>tokens := 1\<rparr>), fresh = 1, pcs = (\<lambda>_. Idle),
     origin = (\<lambda>_. (empty_bucket 0)\<lparr>tokens := 1\<rparr>), takes = []\<rparr>"

definition contended :: "gate_event list" where
  "contended = [Lookup 0 5, Lookup 1 5, Acquire 0, Spin 1, Load 0, Store 0, Release 0, Acquire 1, Load 1, Store 1, Release 1]"

lemma one_token_start: "gate_start one_token"
  by (simp add: gate_start_def one_token_def empty_bucket_def)

lemma contended_run:
  "\<exists>s. gate_run demo_limit contended one_token = Some s \<and> takes s = [(0, 5, True), (0, 5, False)] \<and>
     (\<forall>c. section_of (pcs s c) = None)"
  by (simp add: contended_def one_token_def spin_lock_def spin_unlock_def empty_bucket_def demo_limit_def
      tb_allow_and_update_unlocked_def tb_take_def tb_refill_def NSEC_PER_SEC_def Let_def)

lemma demo_limit_usable: "usable_cfg demo_limit"
  by (rule tb_cfg_usable) simp

theorem gate_is_linearizable_witness:
  "\<exists>s. steps (gate_step demo_limit) one_token contended s \<and>
     tb_run demo_limit (origin s 0) [5, 5] = ([True, False], bucket s 0)"
proof -
  obtain s where s: "gate_run demo_limit contended one_token = Some s" "takes s = [(0, 5, True), (0, 5, False)]"
    "\<forall>c. section_of (pcs s c) = None"
    using contended_run by blast
  note run = gate_run_steps [OF s(1)]
  have "tb_run demo_limit (origin s 0) (times_of s 0) = (oks_of s 0, bucket s 0)"
    using gate_is_linearizable [OF one_token_start demo_limit_usable run] s(3) by simp
  with run s(2) show ?thesis by (auto simp: times_of_def oks_of_def)
qed

end
