(* ===== verification/Smp_Rate.thy ===== *)
theory Smp_Rate
  imports Smp_Gate
begin

text \<open>
  What a source gets through the rate-limit gate when its packets arrive on several CPUs at once: the
  bound of the token bucket while the source has a bucket, and the race for the first bucket.
\<close>

section \<open>A bucket that exists is never replaced\<close>

definition kept :: "nat \<Rightarrow> nat \<Rightarrow> gate \<Rightarrow> bool" where
  "kept r n s \<longleftrightarrow> table s = Some r \<and> fresh s = n \<and>
     (\<forall>c. refers (pcs s c) \<in> {None, Some r} \<and> (\<forall>now. pcs s c \<noteq> Looked now None)) \<and>
     (\<forall>x \<in> set (takes s). fst x = r)"

lemma gate_step_kept: "gate_step cfg s e s' \<Longrightarrow> kept r n s \<Longrightarrow> kept r n s'"
  by (induction rule: gate_step.induct) (auto simp: kept_def, (metis option.inject option.distinct(1) refers.simps)+)

text \<open>Every clock reading in use is one with which some packet entered.\<close>

fun time_of :: "pc \<Rightarrow> u64 option" where
  "time_of Idle = None"
| "time_of (Looked now x) = Some now"
| "time_of (Holding now r) = Some now"
| "time_of (Computed now r ok st) = Some now"
| "time_of (Written now r) = Some now"

definition clocked :: "u64 set \<Rightarrow> gate \<Rightarrow> bool" where
  "clocked X s \<longleftrightarrow> (\<forall>c t. time_of (pcs s c) = Some t \<longrightarrow> t \<in> X) \<and> (\<forall>x \<in> set (takes s). fst (snd x) \<in> X)"

lemma clocked_goto:
  "clocked X s \<Longrightarrow> takes s' = takes s \<Longrightarrow> pcs s' = (pcs s)(c := p) \<Longrightarrow>
     (\<And>t. time_of p = Some t \<Longrightarrow> t \<in> X) \<Longrightarrow> clocked X s'"
  by (auto simp: clocked_def)

lemma clockedD: "clocked X s \<Longrightarrow> time_of (pcs s c) = Some t \<Longrightarrow> t \<in> X"
  by (simp add: clocked_def)

lemma gate_step_clocked:
  "gate_step cfg s e s' \<Longrightarrow> (\<And>c t. e = Lookup c t \<Longrightarrow> t \<in> X) \<Longrightarrow> clocked X s \<Longrightarrow> clocked X s'"
proof (induction rule: gate_step.induct)
  case (store s c now r ok st)
  then show ?case using clockedD [OF store.prems(2), of c] by (auto simp: clocked_def)
next
  case (acquire s c now r st)
  then show ?case using clockedD [OF acquire.prems(2), of c] by (auto intro: clocked_goto)
next
  case (load s c now r ok st)
  then show ?case using clockedD [OF load.prems(2), of c] by (auto intro: clocked_goto)
qed (auto intro: clocked_goto dest: clockedD)

lemma gate_run_clocked:
  assumes "gate_start s0" "steps (gate_step cfg) s0 es s" "\<And>c t. Lookup c t \<in> set es \<Longrightarrow> t \<in> X"
  shows "\<forall>t \<in> set (times_of s r). t \<in> X"
proof -
  have "clocked X s0" using assms(1) by (simp add: gate_start_def clocked_def)
  then have "clocked X s"
    by (rule steps_invariant [where P = "clocked X", OF assms(2)]) (use assms(3) gate_step_clocked in blast)
  then show ?thesis by (auto simp: clocked_def times_of_def)
qed

definition admitted :: "gate \<Rightarrow> nat" where
  "admitted s = length (filter (\<lambda>x. snd (snd x)) (takes s))"

lemma admitted_one:
  assumes "\<forall>x \<in> set (takes s). fst x = r"
  shows "admitted s = count_list (oks_of s r) True"
proof -
  have "filter (\<lambda>x. fst x = r) (takes s) = takes s" using assms by (simp add: filter_id_conv)
  moreover have "length (filter (\<lambda>x. snd (snd x)) xs) = count_list (map (\<lambda>x. snd (snd x)) xs) True" for xs :: "(nat \<times> u64 \<times> bool) list"
    by (induction xs) auto
  ultimately show ?thesis by (simp add: admitted_def oks_of_def)
qed

lemma gate_run_bucket_bound:
  assumes "gate_start s0" "tb_cfg_ok cfg" "steps (gate_step cfg) s0 es s"
    and "\<And>c t. Lookup c t \<in> set es \<Longrightarrow> t \<le> T"
    and "tokens (origin s r) \<le> burst cfg" "last_ns (origin s r) \<le> T" "unat (rate_pps cfg) \<le> nsec"
  shows "count_list (oks_of s r) True
    \<le> unat (tokens (origin s r)) + (unat T - unat (last_ns (origin s r))) div token_ns (unat (rate_pps cfg))"
proof -
  have run: "tb_run cfg (origin s r) (times_of s r) = (oks_of s r, snd (tb_run cfg (origin s r) (times_of s r)))"
    using data_invD(1) [OF gate_run_inv(2) [OF assms(1) tb_cfg_usable [OF assms(2)] assms(3)]]
    by (metis prod.collapse)
  have "\<forall>t \<in> set (times_of s r). t \<le> T"
    using gate_run_clocked [OF assms(1,3), of "{t. t \<le> T}"] assms(4) by simp
  then show ?thesis by (rule tb_run_rate_bound [OF assms(2,7) run assms(5) _ assms(6)])
qed

text \<open>
  C7: Concurrency costs an existing bucket nothing. Once a source has a bucket, however many CPUs
  its packets arrive on and however they interleave, no second bucket is made and the packets admitted by
  time \<open>T\<close> are bounded as on one CPU: by the tokens the bucket held plus one for every \<open>token_ns\<close>
  nanoseconds (a billion over the rate, rounded down) since its clock.
\<close>

theorem smp_rate_bound:
  assumes "gate_start s0" "tb_cfg_ok cfg" "unat (rate_pps cfg) \<le> nsec" "steps (gate_step cfg) s0 es s"
    and "table s0 = Some r" "tokens (bucket s0 r) \<le> burst cfg"
    and "\<forall>c t. Lookup c t \<in> set es \<longrightarrow> t \<le> T" "last_ns (bucket s0 r) \<le> T"
  shows "fresh s = fresh s0 \<and>
    admitted s
      \<le> unat (tokens (bucket s0 r)) + (unat T - unat (last_ns (bucket s0 r))) div token_ns (unat (rate_pps cfg))"
proof -
  have "kept r (fresh s0) s0" using assms(1,5) by (simp add: gate_start_def kept_def)
  then have "kept r (fresh s0) s"
    by (rule steps_invariant [where P = "kept r (fresh s0)", OF assms(4)]) (rule gate_step_kept)
  then have kept: "fresh s = fresh s0" "\<forall>x \<in> set (takes s). fst x = r" by (simp_all add: kept_def)
  have "r < fresh s0" "origin s0 = bucket s0" using assms(1,5) by (auto simp: gate_start_def)
  then have "origin s r = bucket s0 r" using gate_run_origin [OF assms(4)] by simp
  then have o: "tokens (origin s r) \<le> burst cfg" "last_ns (origin s r) \<le> T" using assms(6,8) by simp_all
  have "count_list (oks_of s r) True
    \<le> unat (tokens (origin s r)) + (unat T - unat (last_ns (origin s r))) div token_ns (unat (rate_pps cfg))"
    using assms(7) by (intro gate_run_bucket_bound [OF assms(1,2,4) _ o assms(3)]) blast
  then show ?thesis unfolding admitted_one [OF kept(2)] \<open>origin s r = bucket s0 r\<close> using kept(1) by blast
qed

section \<open>The race for the first bucket\<close>

fun cpu_of :: "gate_event \<Rightarrow> nat" where
  "cpu_of (Lookup c now) = c"
| "cpu_of (Insert c) = c"
| "cpu_of (No_room c) = c"
| "cpu_of (Acquire c) = c"
| "cpu_of (Spin c) = c"
| "cpu_of (Load c) = c"
| "cpu_of (Store c) = c"
| "cpu_of (Release c) = c"

text \<open>The CPUs that have found no bucket and are about to insert one.\<close>

definition newcomers :: "nat \<Rightarrow> gate \<Rightarrow> nat set" where
  "newcomers N s = {c. c < N \<and> (\<exists>now. pcs s c = Looked now None)}"

lemma newcomers_finite [simp]: "finite (newcomers N s)"
  by (simp add: newcomers_def)

lemma newcomers_card: "card (newcomers N s) \<le> N"
  using card_mono [of "{..<N}" "newcomers N s"] by (auto simp: newcomers_def)

definition race_inv :: "nat \<Rightarrow> nat \<Rightarrow> gate \<Rightarrow> bool" where
  "race_inv N n s \<longleftrightarrow> n \<le> fresh s \<and> (table s = None \<longrightarrow> fresh s = n) \<and>
     fresh s + card (newcomers N s) \<le> n + N \<and>
     (\<forall>r. table s = Some r \<longrightarrow> n \<le> r) \<and> (\<forall>c r. refers (pcs s c) = Some r \<longrightarrow> n \<le> r) \<and>
     (\<forall>x \<in> set (takes s). n \<le> fst x)"

lemma race_inv_kept:
  assumes "race_inv N n s" "table s' = table s" "fresh s' = fresh s" "newcomers N s' \<subseteq> newcomers N s"
    and "\<And>c r. refers (pcs s' c) = Some r \<Longrightarrow> n \<le> r" "\<forall>x \<in> set (takes s'). n \<le> fst x"
  shows "race_inv N n s'"
  using assms card_mono [OF newcomers_finite assms(4)] by (auto simp: race_inv_def)

lemma race_invD:
  assumes "race_inv N n s"
  shows "refers (pcs s c) = Some r \<Longrightarrow> n \<le> r" "\<forall>x \<in> set (takes s). n \<le> fst x"
    "table s = Some r \<Longrightarrow> n \<le> r"
  using assms by (auto simp: race_inv_def)

lemma gate_step_race:
  "gate_step cfg s e s' \<Longrightarrow> cpu_of e < N \<Longrightarrow> race_inv N n s \<Longrightarrow> race_inv N n s'"
proof (induction rule: gate_step.induct)
  case (lookup s c now)
  let ?s = "goto c (Looked now (table s)) s"
  note d = race_invD [OF lookup.prems(2)]
  show ?case
  proof (cases "table s")
    case None
    then have "fresh s = n" using lookup.prems(2) by (simp add: race_inv_def)
    then show ?thesis using lookup.prems(2) newcomers_card [of N ?s] None by (auto simp: race_inv_def split: if_splits)
  next
    case (Some r)
    then show ?thesis
      by (intro race_inv_kept [OF lookup.prems(2)])
        (use d in \<open>auto simp: newcomers_def split: if_splits\<close>)
  qed
next
  case (insert s c now)
  let ?s = "goto c Idle (put_bucket (fresh s) (rl_init cfg now)
        (s\<lparr>table := Some (fresh s), fresh := Suc (fresh s), origin := (origin s)(fresh s := rl_init cfg now)\<rparr>))"
  have "newcomers N s = Set.insert c (newcomers N ?s)" "c \<notin> newcomers N ?s"
    using insert.hyps insert.prems(1) by (auto simp: newcomers_def)
  then have "card (newcomers N s) = Suc (card (newcomers N ?s))" by simp
  then show ?case using insert.prems(2) by (auto simp: race_inv_def split: if_splits)
next
  case (no_room s c now)
  note d = race_invD [OF no_room.prems(2)]
  show ?case
    by (rule race_inv_kept [OF no_room.prems(2)]) (use d in \<open>auto simp: newcomers_def split: if_splits\<close>)
next
  case (acquire s c now r st)
  note d = race_invD [OF acquire.prems(2)]
  show ?case
    by (rule race_inv_kept [OF acquire.prems(2)])
      (use d d(1) [of c] acquire.hyps in \<open>auto simp: newcomers_def split: if_splits\<close>)
next
  case (spin s c now r)
  then show ?case by simp
next
  case (load s c now r ok st)
  note d = race_invD [OF load.prems(2)]
  show ?case
    by (rule race_inv_kept [OF load.prems(2)])
      (use d d(1) [of c] load.hyps in \<open>auto simp: newcomers_def split: if_splits\<close>)
next
  case (store s c now r ok st)
  note d = race_invD [OF store.prems(2)]
  show ?case
    by (rule race_inv_kept [OF store.prems(2)])
      (use d d(1) [of c] store.hyps in \<open>auto simp: newcomers_def split: if_splits\<close>)
next
  case (release s c now r)
  note d = race_invD [OF release.prems(2)]
  show ?case
    by (rule race_inv_kept [OF release.prems(2)]) (use d in \<open>auto simp: newcomers_def split: if_splits\<close>)
qed

lemma gate_run_race:
  assumes "gate_start s0" "table s0 = None" "steps (gate_step cfg) s0 es s" "\<forall>e \<in> set es. cpu_of e < N"
  shows "race_inv N (fresh s0) s"
proof -
  have "newcomers N s0 = {}" using assms(1) by (simp add: gate_start_def newcomers_def)
  then have "race_inv N (fresh s0) s0" using assms(1,2) by (simp add: gate_start_def race_inv_def)
  then show ?thesis
    by (rule steps_invariant [where P = "race_inv N (fresh s0)", OF assms(3)])
      (use assms(4) gate_step_race in blast)
qed

text \<open>The buckets made during a run are first buckets, each made at a clock reading of the run.\<close>

definition first_buckets :: "rl_cfg_t \<Rightarrow> nat \<Rightarrow> u64 set \<Rightarrow> gate \<Rightarrow> bool" where
  "first_buckets cfg n X s \<longleftrightarrow> clocked X s \<and>
     (\<forall>r. n \<le> r \<and> r < fresh s \<longrightarrow> (\<exists>t \<in> X. origin s r = rl_init cfg t))"

lemma gate_step_first_buckets:
  assumes "gate_step cfg s e s'" "\<And>c t. e = Lookup c t \<Longrightarrow> t \<in> X" "first_buckets cfg n X s"
  shows "first_buckets cfg n X s'"
proof -
  have "clocked X s'" using gate_step_clocked [OF assms(1,2)] assms(3) by (simp add: first_buckets_def)
  moreover have "\<exists>t \<in> X. origin s' r = rl_init cfg t" if "n \<le> r" "r < fresh s'" for r
    using assms(1)
  proof (cases rule: gate_step.cases)
    case (insert c now)
    then have "now \<in> X" using assms(3) clockedD [of X s c now] by (simp add: first_buckets_def)
    then show ?thesis using insert that assms(3) by (auto simp: first_buckets_def less_Suc_eq)
  qed (use that assms(3) in \<open>auto simp: first_buckets_def\<close>)
  ultimately show ?thesis by (simp add: first_buckets_def)
qed

lemma gate_run_first_buckets:
  assumes "gate_start s0" "steps (gate_step cfg) s0 es s" "\<And>c t. Lookup c t \<in> set es \<Longrightarrow> t \<in> X"
  shows "first_buckets cfg (fresh s0) X s"
proof -
  have "first_buckets cfg (fresh s0) X s0" using assms(1) by (auto simp: gate_start_def first_buckets_def clocked_def)
  then show ?thesis
    by (rule steps_invariant [where P = "first_buckets cfg (fresh s0) X", OF assms(2)])
      (use assms(3) gate_step_first_buckets in blast)
qed

text \<open>What the buckets admitted adds up to what was admitted.\<close>

lemma split_by_bucket:
  fixes xs :: "(nat \<times> u64 \<times> bool) list"
  assumes "\<forall>x \<in> set xs. n \<le> fst x \<and> fst x < m"
  shows "length (filter (\<lambda>x. snd (snd x)) xs) =
    (\<Sum>r = n..<m. count_list (map (\<lambda>x. snd (snd x)) (filter (\<lambda>x. fst x = r) xs)) True)"
  using assms
proof (induction xs)
  case (Cons x xs)
  have "(\<Sum>r = n..<m. count_list (map (\<lambda>x. snd (snd x)) (filter (\<lambda>x. fst x = r) (x # xs))) True) =
    (\<Sum>r = n..<m. (if r = fst x then (if snd (snd x) then 1 else 0) else 0) +
       count_list (map (\<lambda>x. snd (snd x)) (filter (\<lambda>x. fst x = r) xs)) True)"
    by (rule sum.cong) auto
  also have "\<dots> = (if snd (snd x) then 1 else 0) + length (filter (\<lambda>x. snd (snd x)) xs)"
    using Cons by (simp add: sum.distrib)
  finally show ?case by simp
qed simp

lemma admitted_split:
  assumes "\<forall>x \<in> set (takes s). n \<le> fst x \<and> fst x < m"
  shows "admitted s = (\<Sum>r = n..<m. count_list (oks_of s r) True)"
  unfolding admitted_def oks_of_def by (rule split_by_bucket [OF assms])

text \<open>
  The race for the first bucket is bounded by the CPUs. A source without a bucket gets at most as
  many as there are CPUs, and all its packets up to then and later, those that made a bucket included,
  are bounded by that many times the burst and the rate over the time of the run.
\<close>

theorem first_contact_bound:
  assumes "gate_start s0" "table s0 = None" "tb_cfg_ok cfg" "unat (rate_pps cfg) \<le> nsec"
    and "steps (gate_step cfg) s0 es s" "\<forall>e \<in> set es. cpu_of e < N"
    and "\<forall>c t. Lookup c t \<in> set es \<longrightarrow> T0 \<le> t \<and> t \<le> T"
  shows "fresh s - fresh s0 \<le> N \<and>
    fresh s - fresh s0 + admitted s
      \<le> (fresh s - fresh s0) * (unat (burst cfg) + (unat T - unat T0) div token_ns (unat (rate_pps cfg)))"
proof -
  let ?n = "fresh s0" let ?m = "fresh s" let ?w = "token_ns (unat (rate_pps cfg))"
  let ?B = "unat (burst cfg) + (unat T - unat T0) div ?w"
  have race: "race_inv N ?n s" by (rule gate_run_race [OF assms(1,2,5,6)])
  then have N: "?m - ?n \<le> N" "?n \<le> ?m" by (auto simp: race_inv_def)
  have first: "first_buckets cfg ?n {t. T0 \<le> t \<and> t \<le> T} s"
    using assms(7) by (intro gate_run_first_buckets [OF assms(1,5)]) auto
  have range: "\<forall>x \<in> set (takes s). ?n \<le> fst x \<and> fst x < ?m"
    using race_invD(2) [OF race] data_invD(5) [OF gate_run_inv(2) [OF assms(1) tb_cfg_usable [OF assms(3)] assms(5)]]
    by blast
  have one: "1 + count_list (oks_of s r) True \<le> ?B" if r: "?n \<le> r" "r < ?m" for r
  proof -
    obtain t where t: "T0 \<le> t" "t \<le> T" and o: "origin s r = rl_init cfg t"
      using first r unfolding first_buckets_def by blast
    have b: "0 < unat (burst cfg)" using assms(3) by (rule tb_cfg_okD)
    have toks: "unat (tokens (origin s r)) = unat (burst cfg) - 1"
      using b by (simp add: o rl_init_def unat_minus_one word_gt_0 unat_gt_0)
    have "tokens (origin s r) \<le> burst cfg" unfolding word_le_nat_alt toks by simp
    moreover have "last_ns (origin s r) = t" by (simp add: o rl_init_def)
    ultimately have "count_list (oks_of s r) True \<le> (unat (burst cfg) - 1) + (unat T - unat t) div ?w"
      using gate_run_bucket_bound [OF assms(1,3,5) _ _ _ assms(4), of T r] assms(7) t(2) toks by simp
    moreover have "(unat T - unat t) div ?w \<le> (unat T - unat T0) div ?w"
      using t(1) by (intro div_le_mono) (auto simp: word_le_nat_alt)
    ultimately show ?thesis using b by linarith
  qed
  have "?m - ?n + admitted s = (\<Sum>r = ?n..<?m. 1 + count_list (oks_of s r) True)"
    unfolding admitted_split [OF range] sum.distrib by simp
  also have "\<dots> \<le> (\<Sum>r = ?n..<?m. ?B)" by (rule sum_mono) (use one in auto)
  also have "\<dots> = (?m - ?n) * ?B" by simp
  finally show ?thesis using N by blast
qed

text \<open>The bound on the buckets is reached: all CPUs look first, then all insert.\<close>

definition first_contact :: gate where
  "first_contact = \<lparr>table = None, bucket = (\<lambda>_. empty_bucket 0), fresh = 0, pcs = (\<lambda>_. Idle),
     origin = (\<lambda>_. empty_bucket 0), takes = []\<rparr>"

lemma all_look:
  "\<exists>s. steps (gate_step cfg) first_contact (map (\<lambda>c. Lookup c now) [0..<n]) s \<and> table s = None \<and>
     fresh s = 0 \<and> takes s = [] \<and> (\<forall>c. pcs s c = (if c < n then Looked now None else Idle))"
proof (induction n)
  case 0
  show ?case by (intro exI [of _ first_contact]) (simp add: steps.none first_contact_def)
next
  case (Suc n)
  then obtain s where s: "steps (gate_step cfg) first_contact (map (\<lambda>c. Lookup c now) [0..<n]) s" "table s = None"
    "fresh s = 0" "takes s = []" "\<forall>c. pcs s c = (if c < n then Looked now None else Idle)" by blast
  have "gate_step cfg s (Lookup n now) (goto n (Looked now (table s)) s)" using s(5) by (intro gate_step.lookup) simp
  from steps.step [OF s(1) this] s(2-5) show ?case
    by (intro exI [of _ "goto n (Looked now (table s)) s"]) auto
qed

lemma all_insert:
  assumes "steps (gate_step cfg) s0 es s" "\<forall>c < n. pcs s c = Looked now None" "takes s = []"
  shows "\<exists>s'. steps (gate_step cfg) s0 (es @ map Insert [0..<n]) s' \<and> fresh s' = fresh s + n \<and> takes s' = [] \<and>
    (\<forall>c. pcs s' c = (if c < n then Idle else pcs s c))"
  using assms(2)
proof (induction n)
  case 0
  show ?case using assms by (intro exI [of _ s]) simp
next
  case (Suc n)
  then obtain s' where s': "steps (gate_step cfg) s0 (es @ map Insert [0..<n]) s'" "fresh s' = fresh s + n"
    "takes s' = []" "\<forall>c. pcs s' c = (if c < n then Idle else pcs s c)" by auto
  have "pcs s' n = Looked now None" using s'(4) Suc.prems by simp
  from gate_step.insert [of s' n now cfg, OF this]
  obtain s'' where "gate_step cfg s' (Insert n) s''" "fresh s'' = Suc (fresh s')" "takes s'' = takes s'"
    "pcs s'' = (pcs s')(n := Idle)" by fastforce
  then show ?case using steps.step [OF s'(1), of "Insert n" s''] s'(2-4)
    by (intro exI [of _ s'']) auto
qed

lemma race_run:
  "\<exists>es s. steps (gate_step cfg) first_contact es s \<and> (\<forall>e \<in> set es. cpu_of e < N) \<and>
     (\<forall>c t. Lookup c t \<in> set es \<longrightarrow> t = now) \<and> length (filter (\<lambda>e. \<exists>c. e = Insert c) es) = N \<and>
     fresh s - fresh first_contact = N \<and> (\<forall>c. pcs s c = Idle)"
proof -
  obtain s where s: "steps (gate_step cfg) first_contact (map (\<lambda>c. Lookup c now) [0..<N]) s" "fresh s = 0"
    "takes s = []" "\<forall>c. pcs s c = (if c < N then Looked now None else Idle)"
    using all_look [of cfg now N] by blast
  then obtain s' where s': "steps (gate_step cfg) first_contact (map (\<lambda>c. Lookup c now) [0..<N] @ map Insert [0..<N]) s'"
    "fresh s' = N" "\<forall>c. pcs s' c = Idle"
    using all_insert [OF s(1), of N now] by auto
  have "filter (\<lambda>e. \<exists>c. e = Insert c) (map (\<lambda>c. Lookup c now) [0..<N] @ map Insert [0..<N]) = map Insert [0..<N]"
    by (auto simp: filter_empty_conv filter_id_conv)
  then show ?thesis using s' by (intro exI conjI) (auto simp: first_contact_def)
qed

text \<open>
  C37: The race admits a burst for every CPU. For any number of CPUs there is a run in which each of them
  admits a packet of a new source at the same instant, whatever the limit, also one of a single
  packet: every CPU finds no bucket and puts a new one in the place of the one before.
\<close>

theorem first_contact_race:
  "\<exists>es s. steps (gate_step cfg) first_contact es s \<and> (\<forall>e \<in> set es. cpu_of e < N) \<and>
     (\<forall>c t. Lookup c t \<in> set es \<longrightarrow> t = now) \<and> length (filter (\<lambda>e. \<exists>c. e = Insert c) es) = N \<and>
     fresh s - fresh first_contact = N \<and> (\<forall>c. pcs s c = Idle)"
  by (rule race_run)

section \<open>Instances\<close>

theorem smp_rate_bound_witness:
  "\<exists>s. steps (gate_step demo_limit) one_token contended s \<and> admitted s \<le> 1"
proof -
  obtain s where run: "steps (gate_step demo_limit) one_token contended s"
    using contended_run gate_run_steps by blast
  have t: "\<forall>c t. Lookup c t \<in> set contended \<longrightarrow> t \<le> 5" by (auto simp: contended_def)
  have "table one_token = Some 0" "bucket one_token 0 = (empty_bucket 0)\<lparr>tokens := 1\<rparr>" by (simp_all add: one_token_def)
  then show ?thesis
    using smp_rate_bound [OF one_token_start demo_limit_ok _ run _ _ t, of 0] run
    by (auto simp: demo_limit_def empty_bucket_def nsec_def token_ns_def)
qed

lemma first_contact_start: "gate_start first_contact"
  by (simp add: gate_start_def first_contact_def empty_bucket_def)

theorem first_contact_bound_witness:
  "\<exists>es s. steps (gate_step demo_limit) first_contact es s \<and> fresh s = 2 \<and>
     2 + admitted s \<le> 400"
proof -
  obtain es s where run: "steps (gate_step demo_limit) first_contact es s" "\<forall>e \<in> set es. cpu_of e < 2"
    "\<forall>c t. Lookup c t \<in> set es \<longrightarrow> t = 7" "fresh s - fresh first_contact = 2"
    using race_run [of demo_limit 2 7] by blast
  have f: "table first_contact = None" "fresh first_contact = 0" by (simp_all add: first_contact_def)
  have "\<forall>c t. Lookup c t \<in> set es \<longrightarrow> 7 \<le> t \<and> t \<le> 7" using run(3) by auto
  from first_contact_bound [OF first_contact_start f(1) demo_limit_ok _ run(1,2) this] run f(2)
  show ?thesis by (auto simp: demo_limit_def nsec_def token_ns_def)
qed

theorem first_contact_race_witness:
  "\<exists>es s. steps (gate_step demo_limit) first_contact es s \<and> fresh s = 3 \<and>
     length (filter (\<lambda>e. \<exists>c. e = Insert c) es) = 3"
proof -
  have "fresh first_contact = 0" by (simp add: first_contact_def)
  with first_contact_race [of demo_limit 3 7] show ?thesis by auto
qed

end
