(* ===== verification/Smp_Progress.thy ===== *)
theory Smp_Progress
  imports Smp_Rate
begin

text \<open>
  Progress of the rate-limit gate on several CPUs, bounds on the steps of a packet and the absence
  of deadlock; and its steps against the sequential gate of the program.
\<close>

section \<open>Every packet gets through the gate\<close>

fun work :: "pc \<Rightarrow> nat" where
  "work Idle = 0"
| "work (Looked now x) = (if x = None then 1 else 4)"
| "work (Holding now r) = 3"
| "work (Computed now r ok st) = 2"
| "work (Written now r) = 1"

fun is_lookup :: "gate_event \<Rightarrow> bool" where
  "is_lookup (Lookup c now) = True"
| "is_lookup _ = False"

fun is_spin :: "gate_event \<Rightarrow> bool" where
  "is_spin (Spin c) = True"
| "is_spin _ = False"

definition work_left :: "nat \<Rightarrow> gate \<Rightarrow> nat" where
  "work_left N s = (\<Sum>c < N. work (pcs s c))"

lemma work_left_goto:
  assumes "c < N" "pcs s' = (pcs s)(c := p)"
  shows "work_left N s' + work (pcs s c) = work_left N s + work p"
proof -
  have "work_left N s' = work p + (\<Sum>c' \<in> {..<N} - {c}. work (pcs s c'))"
    using assms by (simp add: work_left_def sum.remove [of "{..<N}" c])
  moreover have "work_left N s = work (pcs s c) + (\<Sum>c' \<in> {..<N} - {c}. work (pcs s c'))"
    using assms by (simp add: work_left_def sum.remove [of "{..<N}" c])
  ultimately show ?thesis by simp
qed

text \<open>Every step but entering and spinning brings some CPU nearer to leaving the gate.\<close>

lemma gate_step_work:
  assumes "gate_step cfg s e s'" "cpu_of e < N"
  shows "work_left N s' + (if is_lookup e \<or> is_spin e then 0 else 1) \<le> work_left N s + (if is_lookup e then 4 else 0)"
  using assms
proof (induction rule: gate_step.induct)
  case (lookup s c now)
  then show ?case using work_left_goto [of c N "goto c (Looked now (table s)) s" s "Looked now (table s)"] by (simp split: if_splits)
next
  case (insert s c now)
  then show ?case using work_left_goto [of c N "goto c Idle (put_bucket (fresh s) (rl_init cfg now)
        (s\<lparr>table := Some (fresh s), fresh := Suc (fresh s), origin := (origin s)(fresh s := rl_init cfg now)\<rparr>))" s Idle] by simp
next
  case (no_room s c now)
  then show ?case using work_left_goto [of c N "goto c Idle s" s Idle] by simp
next
  case (acquire s c now r st)
  then show ?case using work_left_goto [of c N "goto c (Holding now r) (put_bucket r st s)" s "Holding now r"] by simp
next
  case (load s c now r ok st)
  then show ?case using work_left_goto [of c N "goto c (Computed now r ok st) s" s "Computed now r ok st"] by simp
next
  case (store s c now r ok st)
  then show ?case
    using work_left_goto [of c N "goto c (Written now r) (put_bucket r ((bucket s r)\<lparr>tokens := tokens st, last_ns := last_ns st\<rparr>)
          (s\<lparr>takes := takes s @ [(r, now, ok)]\<rparr>))" s "Written now r"] by simp
next
  case (release s c now r)
  then show ?case using work_left_goto [of c N "goto c Idle (put_bucket r (spin_unlock (bucket s r)) s)" s Idle] by simp
qed simp

lemma gate_run_work:
  assumes "steps (gate_step cfg) s0 es s" "\<forall>e \<in> set es. cpu_of e < N"
  shows "work_left N s + length (filter (\<lambda>e. \<not> is_lookup e \<and> \<not> is_spin e) es)
    \<le> work_left N s0 + 4 * length (filter is_lookup es)"
  using assms
proof (induction rule: steps.induct)
  case (step es s' e s'')
  then show ?case using gate_step_work [OF step.hyps(2), of N] by (cases e) auto
qed simp

text \<open>No deadlock: a CPU waits only for one that is inside the critical section, and that one can move.\<close>

lemma gate_next_enabled:
  assumes inv: "lock_inv s" and cfg: "usable_cfg cfg" and busy: "pcs s c \<noteq> Idle"
  shows "\<exists>e s'. gate_step cfg s e s' \<and> \<not> is_lookup e \<and> \<not> is_spin e \<and> pcs s (cpu_of e) \<noteq> Idle"
proof -
  have inside: ?thesis if "section_of (pcs s c') = Some r" for c' r
  proof (cases "pcs s c'")
    case (Holding now r')
    then have "gate_step cfg s (Load c') (goto c' (Computed now r' (fst (tb_take (bucket s r') cfg now)) (snd (tb_take (bucket s r') cfg now))) s)"
      by (rule gate_step.load) (rule unlocked_take [OF cfg])
    with Holding show ?thesis by fastforce
  next
    case (Computed now r' ok st)
    from gate_step.store [OF this] this show ?thesis by fastforce
  next
    case (Written now r')
    from gate_step.release [OF this] this show ?thesis by fastforce
  qed (use that in auto)
  show ?thesis
  proof (cases "pcs s c")
    case (Looked now x)
    show ?thesis
    proof (cases x)
      case None
      with Looked have "pcs s c = Looked now None" by simp
      from gate_step.insert [OF this] this show ?thesis by fastforce
    next
      case (Some r)
      show ?thesis
      proof (cases "spin_lock (bucket s r)")
        case None
        then have "locked s r" by (auto simp: spin_lock_def locked_def split: if_splits)
        then show ?thesis using lock_invD(1) [OF inv] inside by blast
      next
        case (Some st)
        with Looked \<open>x = Some r\<close> have "pcs s c = Looked now (Some r)" "spin_lock (bucket s r) = Some st" by simp_all
        from gate_step.acquire [OF this] this show ?thesis by fastforce
      qed
    qed
  qed (use busy inside [of c] in auto)
qed

lemma gate_completes:
  assumes "lock_inv s" "usable_cfg cfg" "\<forall>c \<ge> N. pcs s c = Idle"
  shows "\<exists>es s'. steps (gate_step cfg) s es s' \<and> (\<forall>e \<in> set es. \<not> is_lookup e \<and> \<not> is_spin e) \<and>
    length es \<le> work_left N s \<and> (\<forall>c. pcs s' c = Idle)"
  using assms(1,3)
proof (induction "work_left N s" arbitrary: s rule: less_induct)
  case less
  show ?case
  proof (cases "\<forall>c. pcs s c = Idle")
    case True
    then show ?thesis by (intro exI [of _ "[]"] exI [of _ s]) (simp add: steps.none)
  next
    case False
    then obtain e s1 where e: "gate_step cfg s e s1" "\<not> is_lookup e" "\<not> is_spin e" "pcs s (cpu_of e) \<noteq> Idle"
      using gate_next_enabled [OF less.prems(1) assms(2)] by blast
    have c: "cpu_of e < N" using e(4) less.prems(2) by (metis not_le)
    have w: "work_left N s1 < work_left N s" using gate_step_work [OF e(1) c] e(2,3) by simp
    have i: "\<forall>c \<ge> N. pcs s1 c = Idle"
      using e(1) c less.prems(2) by (induction rule: gate_step.induct) auto
    obtain es s' where es: "steps (gate_step cfg) s1 es s'" "\<forall>e \<in> set es. \<not> is_lookup e \<and> \<not> is_spin e"
      "length es \<le> work_left N s1" "\<forall>c. pcs s' c = Idle"
      using less.hyps [OF w gate_step_lock_inv [OF e(1) less.prems(1)] i] by blast
    then show ?thesis using steps_Cons [of "gate_step cfg", OF e(1) es(1)] e(2,3) w
      by (intro exI [of _ "e # es"] exI [of _ s']) auto
  qed
qed

lemma gate_run_cpus:
  assumes "steps (gate_step cfg) s0 es s" "\<forall>e \<in> set es. cpu_of e < N" "\<forall>c \<ge> N. pcs s0 c = Idle"
  shows "\<forall>c \<ge> N. pcs s c = Idle"
proof (rule steps_invariant [where P = "\<lambda>s. \<forall>c \<ge> N. pcs s c = Idle", OF assms(1,3)])
  fix s1 e s2
  assume idle: "\<forall>c \<ge> N. pcs s1 c = Idle" and "e \<in> set es" and st: "gate_step cfg s1 e s2"
  then have "cpu_of e < N" using assms(2) by blast
  with st idle show "\<forall>c \<ge> N. pcs s2 c = Idle" by (induction rule: gate_step.induct) auto
qed

text \<open>
  C8: The gate terminates on every CPU. In any run a packet takes at most four steps of its own
  besides waiting for the lock, and from whatever state the CPUs have got to, the packets in the gate
  can be finished in at most four steps each: no schedule leads to a deadlock.
\<close>

theorem gate_terminates:
  assumes "gate_start s0" "usable_cfg cfg" "steps (gate_step cfg) s0 es s" "\<forall>e \<in> set es. cpu_of e < N"
  shows "length (filter (\<lambda>e. \<not> is_lookup e \<and> \<not> is_spin e) es) \<le> 4 * length (filter is_lookup es) \<and>
    (\<exists>es' s'. steps (gate_step cfg) s es' s' \<and> (\<forall>e \<in> set es'. \<not> is_lookup e \<and> \<not> is_spin e) \<and>
       length es' \<le> 4 * N \<and> (\<forall>c. pcs s' c = Idle))"
proof -
  have idle: "\<forall>c. pcs s0 c = Idle" using assms(1) by (simp add: gate_start_def)
  then have "work_left N s0 = 0" by (simp add: work_left_def)
  then have 1: "length (filter (\<lambda>e. \<not> is_lookup e \<and> \<not> is_spin e) es) \<le> 4 * length (filter is_lookup es)"
    using gate_run_work [OF assms(3,4)] by linarith
  have "work p \<le> 4" for p by (cases p) auto
  then have 2: "work_left N s \<le> 4 * N"
    using sum_bounded_above [of "{..<N}" "\<lambda>c. work (pcs s c)" 4] by (simp add: work_left_def)
  have "\<forall>c \<ge> N. pcs s c = Idle" using gate_run_cpus [OF assms(3,4)] idle by blast
  from gate_completes [OF gate_run_inv(1) [OF assms(1-3)] assms(2) this] obtain es' s' where
    "steps (gate_step cfg) s es' s'" "\<forall>e \<in> set es'. \<not> is_lookup e \<and> \<not> is_spin e"
    "length es' \<le> work_left N s" "\<forall>c. pcs s' c = Idle" by blast
  with 1 2 show ?thesis using order.trans by blast
qed

section \<open>One CPU alone\<close>

text \<open>The steps a packet takes when no other CPU interferes.\<close>

definition alone :: "nat \<Rightarrow> u64 \<Rightarrow> gate \<Rightarrow> gate_event list" where
  "alone c now s = (if table s = None then [Lookup c now, Insert c]
     else [Lookup c now, Acquire c, Load c, Store c, Release c])"

text \<open>
  The steps are those of the sequential gate. A CPU that runs without interference does to the
  entry of the source, and decides, what \<open>rl_check\<close> does in one step.
\<close>

theorem gate_alone_is_rl_check:
  assumes "pcs s c = Idle" "usable_cfg cfg" "\<forall>r. table s = Some r \<longrightarrow> lock (bucket s r) = \<lparr>val = 0\<rparr>"
    and "m k = map_option (bucket s) (table s)" "rl_check upd k cfg now m = Some (over, m')"
    and "\<forall>st. upd BPF_ANY k st m k = Some st"
  shows "\<exists>s'. gate_run cfg (alone c now s) s = Some s' \<and> pcs s' = pcs s \<and>
    m' k = map_option (bucket s') (table s') \<and>
    takes s' = takes s @ (case table s of None \<Rightarrow> [] | Some r \<Rightarrow> [(r, now, \<not> over)])"
proof (cases "table s")
  case None
  then have "m k = None" using assms(4) by simp
  then have "m' = upd BPF_ANY k (rl_init cfg now) m" using assms(5) by (simp add: rl_check_miss)
  with None assms(1,6) show ?thesis by (simp add: alone_def fun_eq_iff)
next
  case (Some r)
  let ?b = "bucket s r"
  have lk: "lock ?b = \<lparr>val = 0\<rparr>" using assms(3) Some by blast
  have mk: "m k = Some ?b" using assms(4) Some by simp
  have seq: "over = (\<not> fst (tb_take ?b cfg now))" "m' k = Some (snd (tb_take ?b cfg now))"
    using rl_check_hit [where m = m and k = k, OF mk _ assms(2), of upd now] lk assms(5) by auto
  let ?l = "?b\<lparr>lock := \<lparr>val = 1\<rparr>\<rparr>"
  have lv: "fst (tb_take ?l cfg now) = fst (tb_take ?b cfg now)"
    "level (snd (tb_take ?l cfg now)) = level (snd (tb_take ?b cfg now))"
    using tb_take_level [of ?l ?b cfg now] by (simp_all add: level_def)
  have eq: "snd (tb_take ?b cfg now) =
      ?b\<lparr>tokens := tokens (snd (tb_take ?l cfg now)), last_ns := last_ns (snd (tb_take ?l cfg now)), lock := \<lparr>val = 0\<rparr>\<rparr>"
    using lv(2) tb_take_lock [of ?b cfg now] by (simp add: level_def lk)
  show ?thesis
    using assms(1) Some lk seq lv(1) eq [symmetric]
    by (simp add: alone_def spin_lock_def spin_unlock_def unlocked_take [OF assms(2)] fun_eq_iff)
qed

section \<open>Instances\<close>

theorem gate_terminates_witness:
  "\<exists>s es' s'. steps (gate_step demo_limit) one_token [Lookup 0 5, Lookup 1 5, Acquire 0] s \<and>
     steps (gate_step demo_limit) s es' s' \<and> length es' \<le> 8 \<and> (\<forall>c. pcs s' c = Idle)"
proof -
  obtain s where "gate_run demo_limit [Lookup 0 5, Lookup 1 5, Acquire 0] one_token = Some s"
    by (simp add: one_token_def spin_lock_def empty_bucket_def)
  then have run: "steps (gate_step demo_limit) one_token [Lookup 0 5, Lookup 1 5, Acquire 0] s"
    by (rule gate_run_steps)
  have "\<forall>e \<in> set [Lookup 0 5, Lookup 1 5, Acquire 0]. cpu_of e < 2" by simp
  from gate_terminates [OF one_token_start demo_limit_usable run this] run show ?thesis by auto
qed

theorem gate_alone_is_rl_check_witness:
  "\<exists>s' over m'. rl_check (hash_update xdp_rl_state4_map) (1 :: u32) demo_limit 5
       [1 \<mapsto> (empty_bucket 0)\<lparr>tokens := 1\<rparr>] = Some (over, m') \<and>
     gate_run demo_limit (alone 3 5 one_token) one_token = Some s' \<and> m' 1 = map_option (bucket s') (table s') \<and>
     takes s' = [(0, 5, \<not> over)]"
proof -
  let ?m = "[1 \<mapsto> (empty_bucket 0)\<lparr>tokens := 1\<rparr>] :: u32 \<rightharpoonup> rl_state_t"
  let ?upd = "hash_update xdp_rl_state4_map :: (u32, rl_state_t) map_update"
  have "locks_free ?m" by (simp add: locks_free_def empty_bucket_def)
  from rl_check_safe [OF this demo_limit_usable, of ?upd 1 5]
  obtain over m' where rl: "rl_check ?upd 1 demo_limit 5 ?m = Some (over, m')" by blast
  have o: "table one_token = Some 0" "takes one_token = []" "pcs one_token 3 = Idle"
    "bucket one_token 0 = (empty_bucket 0)\<lparr>tokens := 1\<rparr>" by (simp_all add: one_token_def)
  have "\<forall>st. ?upd BPF_ANY 1 st ?m 1 = Some st" by (simp add: hash_update_def)
  moreover have "\<forall>r. table one_token = Some r \<longrightarrow> lock (bucket one_token r) = \<lparr>val = 0\<rparr>"
    using one_token_start by (simp add: gate_start_def)
  moreover have "?m 1 = map_option (bucket one_token) (table one_token)" by (simp add: o)
  ultimately obtain s' where "gate_run demo_limit (alone 3 5 one_token) one_token = Some s'"
    "m' 1 = map_option (bucket s') (table s')"
    "takes s' = takes one_token @ (case table one_token of None \<Rightarrow> [] | Some r \<Rightarrow> [(r, 5, \<not> over)])"
    using gate_alone_is_rl_check [where m = ?m and upd = ?upd, OF o(3) demo_limit_usable _ _ rl] by blast
  with rl show ?thesis unfolding o(1,2) by auto
qed

end
