(* ===== verification/Smp_Counters.thy ===== *)
theory Smp_Counters
  imports Scenario
begin

text \<open>
  The counters of one source updated by several CPUs at once: the statements \<open>st->pkts++\<close> to
  \<open>if (drop_rl) st->drop_rl++\<close> of \<open>src4_update\<close> (lines 692 to 711 of
  \<open>src/shield/bpf/xdp_kernloom_shield.bpf.c\<close>), which act on an entry that all CPUs share, without a
  lock and without atomic instructions. Each statement is a read of the counter and a later write.
\<close>

section \<open>The statements\<close>

datatype src4_field =
    F_pkts | F_bytes | F_tcp | F_udp | F_icmp | F_syn | F_synack | F_rst | F_ack
  | F_pass | F_drop_allow | F_drop_deny | F_drop_rl

fun counter :: "src4_field \<Rightarrow> xdp_src_stats_v4_t \<Rightarrow> u64" where
  "counter F_pkts = s4_pkts"
| "counter F_bytes = s4_bytes"
| "counter F_tcp = s4_tcp"
| "counter F_udp = s4_udp"
| "counter F_icmp = s4_icmp"
| "counter F_syn = s4_syn"
| "counter F_synack = s4_synack"
| "counter F_rst = s4_rst"
| "counter F_ack = s4_ack"
| "counter F_pass = s4_pass"
| "counter F_drop_allow = s4_drop_allow"
| "counter F_drop_deny = s4_drop_deny"
| "counter F_drop_rl = s4_drop_rl"

fun set_counter :: "src4_field \<Rightarrow> u64 \<Rightarrow> xdp_src_stats_v4_t \<Rightarrow> xdp_src_stats_v4_t" where
  "set_counter F_pkts v st = st\<lparr>s4_pkts := v\<rparr>"
| "set_counter F_bytes v st = st\<lparr>s4_bytes := v\<rparr>"
| "set_counter F_tcp v st = st\<lparr>s4_tcp := v\<rparr>"
| "set_counter F_udp v st = st\<lparr>s4_udp := v\<rparr>"
| "set_counter F_icmp v st = st\<lparr>s4_icmp := v\<rparr>"
| "set_counter F_syn v st = st\<lparr>s4_syn := v\<rparr>"
| "set_counter F_synack v st = st\<lparr>s4_synack := v\<rparr>"
| "set_counter F_rst v st = st\<lparr>s4_rst := v\<rparr>"
| "set_counter F_ack v st = st\<lparr>s4_ack := v\<rparr>"
| "set_counter F_pass v st = st\<lparr>s4_pass := v\<rparr>"
| "set_counter F_drop_allow v st = st\<lparr>s4_drop_allow := v\<rparr>"
| "set_counter F_drop_deny v st = st\<lparr>s4_drop_deny := v\<rparr>"
| "set_counter F_drop_rl v st = st\<lparr>s4_drop_rl := v\<rparr>"

lemma counter_set [simp]: "counter g (set_counter f v st) = (if g = f then v else counter g st)"
  by (cases f; cases g) simp_all

text \<open>What a packet adds, in the order of the statements.\<close>

definition on :: "bool \<Rightarrow> src4_field \<Rightarrow> (src4_field \<times> u64) list" where
  "on b f = (if b then [(f, 1)] else [])"

definition src4_jobs :: "sample \<Rightarrow> (src4_field \<times> u64) list" where
  "src4_jobs x =
     [(F_pkts, 1), (F_bytes, sm_len x)] @
     on (is_tcp (sm_l4 x)) F_tcp @ on (is_udp (sm_l4 x)) F_udp @ on (is_icmp (sm_l4 x)) F_icmp @
     on (syn (sm_l4 x)) F_syn @ on (synack (sm_l4 x)) F_synack @
     on (rst (sm_l4 x)) F_rst @ on (ack (sm_l4 x)) F_ack @
     on (sm_pass x) F_pass @ on (drop_allow (sm_drops x)) F_drop_allow @
     on (drop_deny (sm_drops x)) F_drop_deny @ on (drop_rl (sm_drops x)) F_drop_rl"

definition add_to :: "src4_field \<times> u64 \<Rightarrow> xdp_src_stats_v4_t \<Rightarrow> xdp_src_stats_v4_t" where
  "add_to j st = set_counter (fst j) (counter (fst j) st + snd j) st"

definition amount :: "src4_field \<Rightarrow> (src4_field \<times> u64) list \<Rightarrow> u64" where
  "amount f js = sum_list (map snd (filter (\<lambda>j. fst j = f) js))"

lemma counter_add_to: "counter f (add_to j st) = counter f st + (if fst j = f then snd j else 0)"
  by (simp add: add_to_def)

lemma counter_fold: "counter f (fold add_to js st) = counter f st + amount f js"
  by (induction js arbitrary: st) (simp_all add: amount_def counter_add_to)

lemma amount_append [simp]: "amount f (js @ js') = amount f js + amount f js'"
  by (simp add: amount_def)

lemma amount_on [simp]: "amount f (on b g) = (if b \<and> f = g then 1 else 0)"
  by (auto simp: amount_def on_def)

lemma amount_Cons [simp]: "amount f (j # js) = (if fst j = f then snd j else 0) + amount f js"
  by (simp add: amount_def)

lemma amount_Nil [simp]: "amount f [] = 0"
  by (simp add: amount_def)

text \<open>On one CPU the statements in a row are the update of the sequential model.\<close>

lemma src4_jobs_touch: "counter f (fold add_to (src4_jobs x) st) = counter f (src4_touch x st)"
  unfolding counter_fold by (cases f) (simp_all add: src4_jobs_def src4_touch_def)

section \<open>Several CPUs\<close>

text \<open>
  The shared entry, what each CPU still has to add, and what it has read of the counter it is at.
  \<open>written\<close> only records: the amounts written so far.
\<close>

record counters =
  shared :: xdp_src_stats_v4_t
  jobs :: "nat \<Rightarrow> (src4_field \<times> u64) list"
  reg :: "nat \<Rightarrow> u64 option"
  written :: "src4_field \<Rightarrow> nat"

datatype counter_event = Enter nat sample | Read nat | Write nat

inductive counter_step :: "counters \<Rightarrow> counter_event \<Rightarrow> counters \<Rightarrow> bool" where
  enter: "jobs s c = [] \<Longrightarrow> counter_step s (Enter c x) (s\<lparr>jobs := (jobs s)(c := src4_jobs x)\<rparr>)"
| fetch: "jobs s c = (f, a) # js \<Longrightarrow> reg s c = None \<Longrightarrow>
    counter_step s (Read c) (s\<lparr>reg := (reg s)(c \<mapsto> counter f (shared s))\<rparr>)"
| store: "jobs s c = (f, a) # js \<Longrightarrow> reg s c = Some v \<Longrightarrow>
    counter_step s (Write c)
      (s\<lparr>shared := set_counter f (v + a) (shared s), jobs := (jobs s)(c := js),
         reg := (reg s)(c := None), written := (written s)(f := written s f + unat a)\<rparr>)"

definition counter_start :: "counters \<Rightarrow> bool" where
  "counter_start s \<longleftrightarrow> (\<forall>c. jobs s c = [] \<and> reg s c = None) \<and> (\<forall>f. written s f = 0)"

section \<open>Nothing is counted twice\<close>

definition between :: "nat \<Rightarrow> nat \<Rightarrow> u64 \<Rightarrow> bool" where
  "between lo n v \<longleftrightarrow> lo \<le> unat v \<and> unat v \<le> lo + n"

definition counter_inv :: "xdp_src_stats_v4_t \<Rightarrow> counters \<Rightarrow> bool" where
  "counter_inv st0 s \<longleftrightarrow> (\<forall>f. unat (counter f st0) + written s f < 2 ^ 64 \<longrightarrow>
     between (unat (counter f st0)) (written s f) (counter f (shared s)) \<and>
     (\<forall>c v a js. reg s c = Some v \<longrightarrow> jobs s c = (f, a) # js \<longrightarrow>
        between (unat (counter f st0)) (written s f) v)) \<and>
   (\<forall>c. jobs s c = [] \<longrightarrow> reg s c = None)"

lemma between_mono: "between lo n v \<Longrightarrow> n \<le> m \<Longrightarrow> between lo m v"
  by (auto simp: between_def)

lemma between_add:
  assumes "between lo n v" "lo + (n + unat a) < 2 ^ 64"
  shows "between lo (n + unat a) (v + a)"
proof -
  have "unat v + unat a < 2 ^ 64" using assms by (simp add: between_def)
  then have "unat (v + a) = unat v + unat a" by (rule unat_add_fits)
  then show ?thesis using assms(1) by (simp add: between_def)
qed

lemma counter_step_inv: "counter_step s e s' \<Longrightarrow> counter_inv st0 s \<Longrightarrow> counter_inv st0 s'"
proof (induction rule: counter_step.induct)
  case (enter s c x)
  then show ?case by (auto simp: counter_inv_def)
next
  case (fetch s c f a js)
  then show ?case by (auto simp: counter_inv_def split: if_splits)
next
  case (store s c f a js v)
  have v: "between (unat (counter f st0)) (written s f + unat a) (v + a)"
    if "unat (counter f st0) + (written s f + unat a) < 2 ^ 64"
    using that store between_add [of "unat (counter f st0)" "written s f" v a] by (auto simp: counter_inv_def)
  have r: "between (unat (counter f st0)) (written s f + unat a) w"
    if "unat (counter f st0) + (written s f + unat a) < 2 ^ 64" "reg s c' = Some w" "jobs s c' = (f, b) # ks" for c' w b ks
    using that store.prems between_mono [of "unat (counter f st0)" "written s f" w] by (auto simp: counter_inv_def)
  show ?case using store.prems v r by (auto simp: counter_inv_def split: if_splits)
qed

text \<open>
  Shared counters never count too much. Whatever the interleaving of the CPUs, a counter of a source
  is, as long as it does not overflow, at least what it was and at most that plus all that has been
  added to it.
\<close>

theorem smp_counters_bounded:
  assumes "counter_start s0" "steps counter_step s0 es s"
    and "unat (counter f (shared s0)) + written s f < 2 ^ 64"
  shows "unat (counter f (shared s0)) \<le> unat (counter f (shared s)) \<and>
    unat (counter f (shared s)) \<le> unat (counter f (shared s0)) + written s f"
proof -
  have "counter_inv (shared s0) s0"
    using assms(1) by (auto simp: counter_start_def counter_inv_def between_def)
  then have "counter_inv (shared s0) s"
    by (rule steps_invariant [where P = "counter_inv (shared s0)", OF assms(2)]) (rule counter_step_inv)
  then show ?thesis using assms(3) by (auto simp: counter_inv_def between_def)
qed

section \<open>Updates are lost\<close>

lemmas counter_Cons = steps_Cons [of counter_step]

text \<open>A CPU that nobody disturbs adds all it has.\<close>

lemma undisturbed:
  assumes "jobs s c = js" "reg s c = None"
  shows "\<exists>es s'. steps counter_step s es s' \<and> shared s' = fold add_to js (shared s) \<and>
    jobs s' = (jobs s)(c := []) \<and> reg s' = reg s"
  using assms
proof (induction js arbitrary: s)
  case Nil
  then show ?case by (intro exI [of _ "[]"] exI [of _ s]) (auto simp: steps.none)
next
  case (Cons j js)
  obtain f a where j: "j = (f, a)" by fastforce
  let ?s1 = "s\<lparr>reg := (reg s)(c \<mapsto> counter f (shared s))\<rparr>"
  let ?s2 = "?s1\<lparr>shared := set_counter f (counter f (shared s) + a) (shared s), jobs := (jobs s)(c := js),
     reg := (reg s)(c := None), written := (written s)(f := written s f + unat a)\<rparr>"
  have 1: "counter_step s (Read c) ?s1" using counter_step.fetch [of s c f a js] Cons.prems j by simp
  have 2: "counter_step ?s1 (Write c) ?s2"
    using counter_step.store [of ?s1 c f a js "counter f (shared s)"] Cons.prems j by simp
  have "jobs ?s2 c = js" "reg ?s2 c = None" by simp_all
  from Cons.IH [OF this] obtain es s' where es: "steps counter_step ?s2 es s'" "shared s' = fold add_to js (shared ?s2)"
    "jobs s' = (jobs ?s2)(c := [])" "reg s' = reg ?s2"
    by blast
  have "steps counter_step s (Read c # Write c # es) s'" by (intro counter_Cons [OF 1] counter_Cons [OF 2] es(1))
  moreover have "shared s' = fold add_to (j # js) (shared s)" using es(2) by (simp add: j add_to_def)
  moreover have "reg s' = reg s" using es(4) Cons.prems(2) by (simp add: fun_upd_idem)
  ultimately show ?case using es(3) by fastforce
qed

lemma many_packets:
  assumes "jobs s c = []" "reg s c = None"
  shows "\<exists>es s'. steps counter_step s es s' \<and> jobs s' = jobs s \<and> reg s' = reg s \<and>
    (\<forall>f. counter f (shared s') = counter f (shared s) + of_nat n * amount f (src4_jobs x))"
proof (induction n)
  case 0
  show ?case by (intro exI [of _ "[]"] exI [of _ s]) (simp add: steps.none)
next
  case (Suc n)
  then obtain es s1 where s1: "steps counter_step s es s1" "jobs s1 = jobs s" "reg s1 = reg s"
    "\<forall>f. counter f (shared s1) = counter f (shared s) + of_nat n * amount f (src4_jobs x)" by blast
  let ?s2 = "s1\<lparr>jobs := (jobs s1)(c := src4_jobs x)\<rparr>"
  have 2: "counter_step s1 (Enter c x) ?s2" using s1(2) assms(1) by (intro counter_step.enter) simp
  have "jobs ?s2 c = src4_jobs x" "reg ?s2 c = None" using s1(3) assms(2) by simp_all
  from undisturbed [OF this] obtain es' s' where s': "steps counter_step ?s2 es' s'" "shared s' = fold add_to (src4_jobs x) (shared s1)"
    "jobs s' = (jobs s1)(c := [])" "reg s' = reg s1"
    by auto
  have "steps counter_step s (es @ Enter c x # es') s'"
    by (rule steps_append [of counter_step, OF s1(1)]) (rule counter_Cons [OF 2 s'(1)])
  moreover have "counter f (shared s') = counter f (shared s) + of_nat (Suc n) * amount f (src4_jobs x)" for f
    using s1(4) by (simp add: s'(2) counter_fold algebra_simps)
  ultimately show ?case using s'(3,4) s1(2,3) assms(1) by (metis fun_upd_idem)
qed

text \<open>
  C38: The packet counter of a source can run backwards. From any quiet state and for any number \<open>n\<close>
  there is a run on two CPUs in which the counter first shows \<open>n\<close> packets more and then only one more than at
  the start, while the pass counter has counted all the packets that passed: a CPU that read the
  counter before the others wrote it puts back what it read, plus one.
\<close>

theorem packet_counter_runs_backwards:
  assumes "counter_start s0" "sm_pass (x :: sample)"
  shows "\<exists>es1 s1 es2 s2. steps counter_step s0 es1 s1 \<and> steps counter_step s1 es2 s2 \<and>
    s4_pkts (shared s1) = s4_pkts (shared s0) + of_nat n \<and>
    s4_pkts (shared s2) = s4_pkts (shared s0) + 1 \<and>
    s4_pass (shared s2) = s4_pass (shared s0) + of_nat n + 1 \<and> (\<forall>c. jobs s2 c = [])"
proof -
  have q: "jobs s0 c = []" "reg s0 c = None" for c using assms(1) by (simp_all add: counter_start_def)
  let ?v = "s4_pkts (shared s0)"
  obtain js where js: "src4_jobs x = (F_pkts, 1) # js" by (simp add: src4_jobs_def)
  have amt: "amount F_pkts (src4_jobs x) = 1" "amount F_pass (src4_jobs x) = 1"
    using assms(2) by (simp_all add: src4_jobs_def)
  then have amt': "amount F_pkts js = 0" "amount F_pass js = 1" by (simp_all add: js)
  let ?a = "s0\<lparr>jobs := (jobs s0)(0 := src4_jobs x)\<rparr>"
  let ?b = "?a\<lparr>reg := (reg s0)(0 \<mapsto> ?v)\<rparr>"
  have a: "counter_step s0 (Enter 0 x) ?a" by (rule counter_step.enter) (rule q)
  have b: "counter_step ?a (Read 0) ?b" using counter_step.fetch [of ?a 0 F_pkts 1 js] js q by simp
  have "jobs ?b 1 = []" "reg ?b 1 = None" using q by simp_all
  from many_packets [OF this, of n x] obtain es s1 where s1: "steps counter_step ?b es s1" "jobs s1 = jobs ?b" "reg s1 = reg ?b"
    "\<forall>f. counter f (shared s1) = counter f (shared s0) + of_nat n * amount f (src4_jobs x)"
    by auto
  have run1: "steps counter_step s0 (Enter 0 x # Read 0 # es) s1"
    by (intro counter_Cons [OF a] counter_Cons [OF b] s1(1))
  let ?c = "s1\<lparr>shared := set_counter F_pkts (?v + 1) (shared s1), jobs := (jobs s1)(0 := js),
     reg := (reg s1)(0 := None), written := (written s1)(F_pkts := written s1 F_pkts + unat (1 :: u64))\<rparr>"
  have c: "counter_step s1 (Write 0) ?c"
    using counter_step.store [of s1 0 F_pkts 1 js ?v] s1(2,3) js by simp
  have "jobs ?c 0 = js" "reg ?c 0 = None" by simp_all
  from undisturbed [OF this] obtain es' s2 where s2: "steps counter_step ?c es' s2" "shared s2 = fold add_to js (shared ?c)"
    "jobs s2 = (jobs ?c)(0 := [])"
    by blast
  have run2: "steps counter_step s1 (Write 0 # es') s2" by (rule counter_Cons [OF c s2(1)])
  have f: "counter g (shared s2) = counter g (shared ?c) + amount g js" for g by (simp add: s2(2) counter_fold)
  have "s4_pkts (shared s1) = ?v + of_nat n" using s1(4) [rule_format, of F_pkts] amt by simp
  moreover have "s4_pkts (shared s2) = ?v + 1" using f [of F_pkts] amt' by simp
  moreover have "s4_pass (shared s2) = s4_pass (shared s0) + of_nat n + 1"
    using f [of F_pass] s1(4) [rule_format, of F_pass] amt amt' by simp
  moreover have "\<forall>c. jobs s2 c = []" using s2(3) s1(2) q by simp
  ultimately show ?thesis using run1 run2 by blast
qed

section \<open>Instances\<close>

definition quiet :: counters where
  "quiet = \<lparr>shared = src4_init demo_sample, jobs = (\<lambda>_. []), reg = (\<lambda>_. None), written = (\<lambda>_. 0)\<rparr>"

lemma quiet_start: "counter_start quiet"
  by (simp add: counter_start_def quiet_def)

text \<open>Two CPUs read the packet counter before either writes it: one of the two packets is lost.\<close>

lemma lost_update:
  "\<exists>s. steps counter_step quiet [Enter 0 demo_sample, Enter 1 demo_sample, Read 0, Read 1, Write 0, Write 1] s \<and>
     s4_pkts (shared s) = 2 \<and> written s F_pkts = 2"
proof -
  obtain js where js: "src4_jobs demo_sample = (F_pkts, 1) # js" by (simp add: src4_jobs_def)
  let ?p = "src4_jobs demo_sample"
  let ?v = "s4_pkts (shared quiet)"
  let ?s1 = "quiet\<lparr>jobs := (jobs quiet)(0 := ?p)\<rparr>" let ?s2 = "?s1\<lparr>jobs := (jobs ?s1)(1 := ?p)\<rparr>"
  let ?s3 = "?s2\<lparr>reg := (reg ?s2)(0 \<mapsto> ?v)\<rparr>" let ?s4 = "?s3\<lparr>reg := (reg ?s3)(1 \<mapsto> ?v)\<rparr>"
  let ?w = "\<lambda>c s. s\<lparr>shared := set_counter F_pkts (?v + 1) (shared s), jobs := (jobs s)(c := js),
     reg := (reg s)(c := None), written := (written s)(F_pkts := written s F_pkts + unat (1 :: u64))\<rparr>"
  have 1: "counter_step quiet (Enter 0 demo_sample) ?s1" by (rule counter_step.enter) (simp add: quiet_def)
  have 2: "counter_step ?s1 (Enter 1 demo_sample) ?s2" by (rule counter_step.enter) (simp add: quiet_def)
  have 3: "counter_step ?s2 (Read 0) ?s3"
    using counter_step.fetch [of ?s2 0 F_pkts 1 js] js by (simp add: quiet_def)
  have 4: "counter_step ?s3 (Read 1) ?s4"
    using counter_step.fetch [of ?s3 1 F_pkts 1 js] js by (simp add: quiet_def)
  have 5: "counter_step ?s4 (Write 0) (?w 0 ?s4)"
    using counter_step.store [of ?s4 0 F_pkts 1 js ?v] js by simp
  have 6: "counter_step (?w 0 ?s4) (Write 1) (?w 1 (?w 0 ?s4))"
    using counter_step.store [of "?w 0 ?s4" 1 F_pkts 1 js ?v] js by simp
  have run: "steps counter_step quiet [Enter 0 demo_sample, Enter 1 demo_sample, Read 0, Read 1, Write 0, Write 1] (?w 1 (?w 0 ?s4))"
    by (intro counter_Cons [OF 1] counter_Cons [OF 2] counter_Cons [OF 3] counter_Cons [OF 4] counter_Cons [OF 5] steps_one [of counter_step, OF 6])
  have "s4_pkts (shared (?w 1 (?w 0 ?s4))) = 2" "written (?w 1 (?w 0 ?s4)) F_pkts = 2"
    by (simp_all add: quiet_def src4_init_def)
  with run show ?thesis by blast
qed

theorem smp_counters_bounded_witness:
  "\<exists>es s. steps counter_step quiet es s \<and> s4_pkts (shared s) = 2 \<and> written s F_pkts = 2 \<and>
     unat (counter F_pkts (shared quiet)) \<le> 2"
proof -
  obtain es s where s: "steps counter_step quiet es s" "s4_pkts (shared s) = 2" "written s F_pkts = 2"
    using lost_update by blast
  have "unat (counter F_pkts (shared quiet)) + written s F_pkts < 2 ^ 64"
    using s(3) by (simp add: quiet_def src4_init_def)
  from smp_counters_bounded [OF quiet_start s(1) this] s show ?thesis by auto
qed

theorem packet_counter_runs_backwards_witness:
  "\<exists>es s. steps counter_step quiet es s \<and> s4_pkts (shared s) = 8"
proof -
  have "sm_pass demo_sample" by (simp add: demo_sample_def)
  from packet_counter_runs_backwards [OF quiet_start this, of 7] obtain es s where
    "steps counter_step quiet es s" "s4_pkts (shared s) = s4_pkts (shared quiet) + of_nat 7" by blast
  moreover have "s4_pkts (shared quiet) = 1" by (simp add: quiet_def src4_init_def)
  ultimately show ?thesis by auto
qed

end
