(* ===== verification/Telemetry_Poll.thy ===== *)
theory Telemetry_Poll
  imports Complex_Main Scenario
begin

text \<open>
  The reader of the telemetry maps (\<open>poll\<close> and \<open>pollFlow4\<close> of
  \<open>src/pkg/adapters/klshield/telemetry/adapter.go\<close>): counters of a source are compared with those of the
  poll before and become rates; flow counters are read and deleted. Differences are 64-bit words, as
  in the code, so they wrap; wall-clock times are nanoseconds, rates are real numbers, so the
  rounding of floating point is not modelled.
\<close>

section \<open>Rates of a source\<close>

record prevSnapshot =
  ps_pkts :: u64
  ps_bytes :: u64
  ps_syn :: u64
  ps_scan :: u64
  ps_pass :: u64
  ps_drop_allow :: u64
  ps_drop_deny :: u64
  ps_drop_rl :: u64
  last_wall :: int

record source_rates =
  pps :: real
  bps :: real
  syn_rate :: real
  scan_rate :: real
  pass_rate :: real
  drop_allow_rate :: real
  drop_deny_rate :: real
  drop_rl_rate :: real
  drop_total_rate :: real

definition snapshot4 :: "int \<Rightarrow> xdp_src_stats_v4_t \<Rightarrow> prevSnapshot" where
  "snapshot4 now v =
     \<lparr>ps_pkts = s4_pkts v, ps_bytes = s4_bytes v, ps_syn = s4_syn v, ps_scan = s4_dport_changes v,
      ps_pass = s4_pass v, ps_drop_allow = s4_drop_allow v, ps_drop_deny = s4_drop_deny v,
      ps_drop_rl = s4_drop_rl v, last_wall = now\<rparr>"

definition snapshot6 :: "int \<Rightarrow> xdp_src_stats_v6_t \<Rightarrow> prevSnapshot" where
  "snapshot6 now v =
     \<lparr>ps_pkts = s6_pkts v, ps_bytes = s6_bytes v, ps_syn = s6_syn v, ps_scan = s6_dport_changes v,
      ps_pass = s6_pass v, ps_drop_allow = s6_drop_allow v, ps_drop_deny = s6_drop_deny v,
      ps_drop_rl = s6_drop_rl v, last_wall = now\<rparr>"

definition seconds :: "int \<Rightarrow> real" where
  "seconds ns = real_of_int ns / 1000000000"

text \<open>The length of the window: since the last poll, or the interval, or one second.\<close>

definition window :: "int \<Rightarrow> int \<Rightarrow> int \<Rightarrow> real" where
  "window iv now before =
     (let sec = seconds (now - before)
      in if sec \<le> 0 then (if seconds iv \<le> 0 then 1 else seconds iv) else sec)"

definition rate :: "u64 \<Rightarrow> u64 \<Rightarrow> real \<Rightarrow> real" where
  "rate new old sec = real (unat (new - old)) / sec"

definition rates :: "int \<Rightarrow> prevSnapshot \<Rightarrow> prevSnapshot \<Rightarrow> source_rates" where
  "rates iv v pv =
     (let sec = window iv (last_wall v) (last_wall pv);
          da = rate (ps_drop_allow v) (ps_drop_allow pv) sec;
          dd = rate (ps_drop_deny v) (ps_drop_deny pv) sec;
          dr = rate (ps_drop_rl v) (ps_drop_rl pv) sec
      in \<lparr>pps = rate (ps_pkts v) (ps_pkts pv) sec, bps = rate (ps_bytes v) (ps_bytes pv) sec,
          syn_rate = rate (ps_syn v) (ps_syn pv) sec, scan_rate = rate (ps_scan v) (ps_scan pv) sec,
          pass_rate = rate (ps_pass v) (ps_pass pv) sec, drop_allow_rate = da, drop_deny_rate = dd,
          drop_rl_rate = dr, drop_total_rate = da + dd + dr\<rparr>)"

section \<open>A poll\<close>

record adapter =
  interval :: int
  prev_ttl :: int
  prev4 :: "u32 \<rightharpoonup> prevSnapshot"
  prev6 :: "src6_key \<rightharpoonup> prevSnapshot"
  last_flow4_clear :: "int option"
  src6_open :: bool
  flow4_open :: bool

text \<open>
  What a poll says of a source: nothing at the first sight of it, later its rates; the snapshot
  becomes the one to compare with. Sources not in the map keep theirs until it is too old. The maps of
  IPv6 sources and of flows are optional: an older program does not have them.
\<close>

definition observe :: "int \<Rightarrow> ('k \<rightharpoonup> prevSnapshot) \<Rightarrow> ('k \<rightharpoonup> prevSnapshot) \<Rightarrow> ('k \<rightharpoonup> source_rates)" where
  "observe iv cur prev k =
     (case (cur k, prev k) of (Some v, Some pv) \<Rightarrow> Some (rates iv v pv) | _ \<Rightarrow> None)"

definition housekeep :: "int \<Rightarrow> int \<Rightarrow> ('k \<rightharpoonup> prevSnapshot) \<Rightarrow> ('k \<rightharpoonup> prevSnapshot)" where
  "housekeep ttl now prev k =
     (case prev k of None \<Rightarrow> None | Some pv \<Rightarrow> if now - last_wall pv > ttl then None else Some pv)"

definition poll_sources ::
    "int \<Rightarrow> shield \<Rightarrow> adapter \<Rightarrow> (u32 \<rightharpoonup> source_rates) \<times> (src6_key \<rightharpoonup> source_rates) \<times> adapter" where
  "poll_sources now s A =
     (let cur4 = (\<lambda>k. map_option (snapshot4 now) (xdp_src4_stats s k));
          cur6 = (\<lambda>k. if src6_open A then map_option (snapshot6 now) (xdp_src6_stats s k) else None)
      in (observe (interval A) cur4 (prev4 A), observe (interval A) cur6 (prev6 A),
          A\<lparr>prev4 := housekeep (prev_ttl A) now (prev4 A ++ cur4),
            prev6 := housekeep (prev_ttl A) now (prev6 A ++ cur6)\<rparr>))"

text \<open>
  The flow poll publishes the entries that the iteration returned, \<open>batch\<close>, and deletes these keys from
  the map, as it then is.
\<close>

record flow_rates =
  fr_packets :: real
  fr_bytes :: real
  fr_pps :: real
  fr_bps :: real
  fr_syn_rate :: real

definition flow_publish :: "real \<Rightarrow> flow4_stats \<Rightarrow> flow_rates" where
  "flow_publish sec v =
     \<lparr>fr_packets = real (unat (f4_pkts v)), fr_bytes = real (unat (f4_bytes v)),
      fr_pps = real (unat (f4_pkts v)) / sec, fr_bps = real (unat (f4_bytes v)) / sec,
      fr_syn_rate = real (unat (f4_syn v)) / sec\<rparr>"

definition flow_delete :: "(flow4_key \<rightharpoonup> flow4_stats) \<Rightarrow> shield \<Rightarrow> shield" where
  "flow_delete batch s = s\<lparr>xdp_flow4_stats := (\<lambda>k. if batch k = None then xdp_flow4_stats s k else None)\<rparr>"

definition pollFlow4 ::
    "int \<Rightarrow> (flow4_key \<rightharpoonup> flow4_stats) \<Rightarrow> shield \<Rightarrow> adapter \<Rightarrow> (flow4_key \<rightharpoonup> flow_rates) \<times> shield \<times> adapter" where
  "pollFlow4 now batch s A =
     (let cleared = (case last_flow4_clear A of None \<Rightarrow> now | Some t \<Rightarrow> t);
          elapsed = window (interval A) now cleared
      in (\<lambda>k. map_option (flow_publish elapsed) (batch k),
          flow_delete batch s, A\<lparr>last_flow4_clear := Some now\<rparr>))"

text \<open>The whole poll, when no packet arrives meanwhile: what is observed of sources and of flows.\<close>

record observed =
  o_src4 :: "u32 \<rightharpoonup> source_rates"
  o_src6 :: "src6_key \<rightharpoonup> source_rates"
  o_flow4 :: "flow4_key \<rightharpoonup> flow_rates"

definition poll :: "int \<Rightarrow> shield \<Rightarrow> adapter \<Rightarrow> observed \<times> shield \<times> adapter" where
  "poll now s A =
     (let (o4, o6, A1) = poll_sources now s A;
          (fl, s2, A2) = (if flow4_open A1 then pollFlow4 now (xdp_flow4_stats s) s A1 else ((\<lambda>k. None), s, A1))
      in (\<lparr>o_src4 = o4, o_src6 = o6, o_flow4 = fl\<rparr>, s2, A2))"

lemma window_pos: "0 < window iv now before"
  by (simp add: window_def Let_def)

lemma poll_frame:
  assumes "poll now s A = (ob, s', A')"
  shows "xdp_src4_stats s' = xdp_src4_stats s" "interval A' = interval A" "prev_ttl A' = prev_ttl A"
    "o_src4 ob = observe (interval A) (\<lambda>k. map_option (snapshot4 now) (xdp_src4_stats s k)) (prev4 A)"
    "prev4 A' = housekeep (prev_ttl A) now (prev4 A ++ (\<lambda>k. map_option (snapshot4 now) (xdp_src4_stats s k)))"
  using assms by (auto simp: poll_def poll_sources_def pollFlow4_def flow_delete_def Let_def split: if_splits)

lemma poll_observes:
  assumes "poll now s A = (ob, s', A')" "xdp_src4_stats s a = Some v" "prev4 A a = Some pv"
  shows "o_src4 ob a = Some (rates (interval A) (snapshot4 now v) pv)"
  using poll_frame(4) [OF assms(1)] assms(2,3) by (simp add: observe_def)

lemma poll_remembers:
  assumes "poll now s A = (ob, s', A')" "xdp_src4_stats s a = Some v" "0 \<le> prev_ttl A"
  shows "prev4 A' a = Some (snapshot4 now v)"
  using poll_frame(5) [OF assms(1)] assms(2,3) by (simp add: housekeep_def map_add_def snapshot4_def)

section \<open>What a run does to the entry of a source\<close>

lemma src4_update_entry:
  assumes "m a = Some st"
  shows "snd (src4_update upd a x m) = m(a \<mapsto> src4_touch x st)"
  using assms by (simp add: src4_update_def)

text \<open>
  The sources of a sequence of packets. When they and the sources of the table fit the room below
  which the kernel evicts nothing, every source keeps its entry.
\<close>

definition sources_of :: "arrival list \<Rightarrow> u32 set" where
  "sources_of xs = {b. \<exists>(K, cpu, pkt) \<in> set xs. source_v4 pkt = Some b}"

definition src4_rooms :: "nat \<Rightarrow> arrival list \<Rightarrow> bool" where
  "src4_rooms room xs \<longleftrightarrow> (\<forall>(K, cpu, pkt) \<in> set xs. bpf_lru_room (k_src4_update K) room)"

definition src4_fits :: "nat \<Rightarrow> arrival list \<Rightarrow> shield \<Rightarrow> bool" where
  "src4_fits room xs s \<longleftrightarrow> finite (dom (xdp_src4_stats s)) \<and>
     card (dom (xdp_src4_stats s) \<union> sources_of xs) \<le> room"

lemma sources_of_Cons:
  "sources_of ((K, cpu, pkt) # xs) = set_option (source_v4 pkt) \<union> sources_of xs"
  by (auto simp: sources_of_def)

lemma sources_of_finite: "finite (sources_of xs)"
proof (induction xs)
  case (Cons x xs)
  then show ?case by (cases x) (simp add: sources_of_Cons)
qed (simp add: sources_of_def)

lemma run_src4_entry:
  assumes run: "xdp_klshield K cpu pkt s = Some (act, s')" and room: "bpf_lru_room (k_src4_update K) room"
    and fits: "finite A" "card A \<le> room" "dom (xdp_src4_stats s) \<subseteq> A" "set_option (source_v4 pkt) \<subseteq> A"
    and st: "xdp_src4_stats s a = Some st"
  shows "dom (xdp_src4_stats s') \<subseteq> A \<and> (\<exists>x. xdp_src4_stats s' a = Some (if source_v4 pkt = Some a then src4_touch x st else st) \<and>
    fair_sample x \<and> (sm_pass x \<longleftrightarrow> act = XDP_PASS) \<and> sm_len x = of_nat (length pkt))"
  using run
proof (cases rule: xdp_klshield_cases)
  case early
  let ?x = "demo_sample\<lparr>sm_len := of_nat (length pkt)\<rparr>"
  have "fair_sample ?x" using demo_sample_fair by (simp add: fair_sample_def)
  with early st fits(3) show ?thesis
    by (intro conjI exI [of _ ?x]) (simp_all add: source_v4_def demo_sample_def)
next
  case (v4 iph off l4 d tm rl erl)
  let ?x = "sample_v4 iph (of_nat (length pkt)) (k_now K) l4 d"
  have x: "fair_sample ?x" "sm_pass ?x \<longleftrightarrow> act = XDP_PASS" "sm_len ?x = of_nat (length pkt)"
    using decide_v4_result(1) [OF v4(2)] v4(3)
    by (simp_all add: fair_samples) (auto simp: sample_v4_def verdict_def)
  have src: "source_v4 pkt = Some (ip_saddr iph)" using v4(1) by (simp add: source_v4_def)
  have "xdp_src4_stats s' = snd (src4_update (k_src4_update K) (ip_saddr iph) ?x (xdp_src4_stats s))"
    using v4(4) by (simp add: record_v4_src4)
  also have "\<dots> = (xdp_src4_stats s)(ip_saddr iph \<mapsto> (case xdp_src4_stats s (ip_saddr iph) of
      None \<Rightarrow> src4_init ?x | Some w \<Rightarrow> src4_touch ?x w))"
    using bpf_lru_room.keeps_entries [OF room fits(1-3), of "ip_saddr iph"] fits(4) src
    by (simp add: src4_update_def split: option.split)
  finally show ?thesis using x src st fits(3,4) by (intro conjI exI [of _ ?x]) auto
next
  case (v6 ip6 off l4 d tm rl)
  let ?x = "sample_v6 ip6 (of_nat (length pkt)) (k_now K) l4 d"
  have x: "fair_sample ?x" "sm_pass ?x \<longleftrightarrow> act = XDP_PASS" "sm_len ?x = of_nat (length pkt)"
    using decide_v6_result(1) [OF v6(2)] v6(3)
    by (simp_all add: fair_samples) (auto simp: sample_v6_def verdict_def)
  have "source_v4 pkt = None" using v6(1) by (simp add: source_v4_def)
  moreover have "xdp_src4_stats s' a = Some st" using v6(4) st by simp
  moreover have "dom (xdp_src4_stats s') \<subseteq> A" using v6(4) fits(3) by simp
  ultimately show ?thesis using x by auto
qed

text \<open>The packets of a source in a sequence.\<close>

definition sent_by :: "u32 \<Rightarrow> arrival list \<Rightarrow> nat" where
  "sent_by a xs = length (filter (\<lambda>(K, cpu, pkt). source_v4 pkt = Some a) xs)"

text \<open>The counters of a source that passed and dropped \<open>n = (p, da, dd, dr)\<close> packets more.\<close>

definition counted_more :: "xdp_src_stats_v4_t \<Rightarrow> nat \<times> nat \<times> nat \<times> nat \<Rightarrow> xdp_src_stats_v4_t \<Rightarrow> bool" where
  "counted_more st n st' \<longleftrightarrow> (case n of (p, da, dd, dr) \<Rightarrow>
     s4_pkts st' = s4_pkts st + of_nat (p + da + dd + dr) \<and> s4_pass st' = s4_pass st + of_nat p \<and>
     s4_drop_allow st' = s4_drop_allow st + of_nat da \<and> s4_drop_deny st' = s4_drop_deny st + of_nat dd \<and>
     s4_drop_rl st' = s4_drop_rl st + of_nat dr)"

lemma counted_more_touch:
  assumes "fair_sample x"
  shows "\<exists>da dd dr. counted_more st (if sm_pass x then 1 else 0, da, dd, dr) (src4_touch x st) \<and>
    (if sm_pass x then 1 else 0) + da + dd + dr = 1"
  using assms unfolding fair_sample_def dropped_def one_reason_def
  by (intro exI [of _ "if drop_allow (sm_drops x) then 1 else 0"] exI [of _ "if drop_deny (sm_drops x) then 1 else 0"]
      exI [of _ "if drop_rl (sm_drops x) then 1 else 0"]) (auto simp: counted_more_def src4_touch_counters)

lemma counted_more_trans:
  "counted_more st (p, da, dd, dr) st1 \<Longrightarrow> counted_more st1 (p', da', dd', dr') st2 \<Longrightarrow>
     counted_more st (p + p', da + da', dd + dd', dr + dr') st2"
  by (simp add: counted_more_def)

lemma xdp_run_src4_entry:
  assumes "xdp_run xs s = Some (as, s')" "src4_rooms room xs"
    and "finite A" "card A \<le> room" "dom (xdp_src4_stats s) \<subseteq> A" "sources_of xs \<subseteq> A"
    and "xdp_src4_stats s a = Some st"
  shows "\<exists>st' da dd dr. xdp_src4_stats s' a = Some st' \<and> counted_more st (passes_of a xs as, da, dd, dr) st' \<and>
    passes_of a xs as + da + dd + dr = sent_by a xs"
  using assms
proof (induction xs arbitrary: s as st)
  case Nil
  then show ?case by (simp add: sent_by_def passes_of_def counted_more_def)
next
  case (Cons y xs)
  obtain K cpu pkt where y: "y = (K, cpu, pkt)" by (cases y)
  obtain act s1 as1 where run: "xdp_klshield K cpu pkt s = Some (act, s1)" "xdp_run xs s1 = Some (as1, s')" "as = act # as1"
    using Cons.prems(1) unfolding y xdp_run_Cons by blast
  have room: "bpf_lru_room (k_src4_update K) room" and src: "set_option (source_v4 pkt) \<subseteq> A" "sources_of xs \<subseteq> A"
    using Cons.prems(2,6) by (auto simp: y sources_of_Cons src4_rooms_def)
  from run_src4_entry [OF run(1) room Cons.prems(3-5) src(1) Cons.prems(7)] obtain x where x:
    "dom (xdp_src4_stats s1) \<subseteq> A"
    "xdp_src4_stats s1 a = Some (if source_v4 pkt = Some a then src4_touch x st else st)"
    "fair_sample x" "sm_pass x \<longleftrightarrow> act = XDP_PASS" by blast
  have rooms: "src4_rooms room xs" using Cons.prems(2) by (simp add: src4_rooms_def)
  from Cons.IH [OF run(2) rooms Cons.prems(3,4) x(1) src(2) x(2)] obtain st' da dd dr where st': "xdp_src4_stats s' a = Some st'"
    "counted_more (if source_v4 pkt = Some a then src4_touch x st else st) (passes_of a xs as1, da, dd, dr) st'"
    "passes_of a xs as1 + da + dd + dr = sent_by a xs"
    by blast
  show ?case
  proof (cases "source_v4 pkt = Some a")
    case False
    then show ?thesis using st' by (auto simp: y run(3) sent_by_def passes_of_Cons)
  next
    case True
    obtain da' dd' dr' where t: "counted_more st (if sm_pass x then 1 else 0, da', dd', dr') (src4_touch x st)"
      "(if sm_pass x then 1 else 0) + da' + dd' + dr' = (1 :: nat)"
      using counted_more_touch [OF x(3), of st] by blast
    have "counted_more (src4_touch x st) (passes_of a xs as1, da, dd, dr) st'" using st'(2) True by simp
    from counted_more_trans [OF t(1) this] t(2) st'(1,3) x(4) show ?thesis
      by (intro exI [of _ st'] exI [of _ "da' + da"] exI [of _ "dd' + dd"] exI [of _ "dr' + dr"])
        (simp add: y run(3) sent_by_def passes_of_Cons True split: if_splits)
  qed
qed

section \<open>What is observed of a source\<close>

lemma rate_counts:
  assumes "n < 2 ^ 64" "0 < sec"
  shows "rate (c + of_nat n) c sec * sec = real n"
  using assms by (simp add: rate_def unsigned_of_nat take_bit_nat_eq_self)

text \<open>
  C12: The rates are the packets. Let a poll see the entry of a source, then any packets run whose
  sources, with those of the table, fit the room of the table (the number of entries below which its
  least-recently-used map evicts none), and let a second poll follow. It publishes an observation of the
  source in which packets per second times the seconds between the polls is exactly the number of packets
  the source sent, pass rate times seconds the number that passed, and packet rate is the sum of
  pass rate and the three drop rates.
\<close>

theorem poll_reports_the_run:
  assumes "poll T1 s A = (ob1, s1, A1)" "xdp_run xs s1 = Some (as, s2)" "poll T2 s2 A1 = (ob2, s3, A2)"
    and "src4_rooms room xs" "src4_fits room xs s"
    and "xdp_src4_stats s a \<noteq> None" "0 \<le> prev_ttl A" "T1 < T2" "sent_by a xs < 2 ^ 64"
  shows "\<exists>r. o_src4 ob2 a = Some r \<and> pps r * seconds (T2 - T1) = real (sent_by a xs) \<and>
    pass_rate r * seconds (T2 - T1) = real (passes_of a xs as) \<and> pps r = pass_rate r + drop_total_rate r"
proof -
  obtain st where st: "xdp_src4_stats s a = Some st" using assms(6) by blast
  note same = poll_frame(1) [OF assms(1)]
  from st have s1: "xdp_src4_stats s1 a = Some st" by (simp add: same)
  let ?A = "dom (xdp_src4_stats s) \<union> sources_of xs"
  have "finite ?A" "card ?A \<le> room" "dom (xdp_src4_stats s1) \<subseteq> ?A" "sources_of xs \<subseteq> ?A"
    using assms(5) sources_of_finite [of xs] by (auto simp: src4_fits_def same)
  from xdp_run_src4_entry [OF assms(2,4) this s1] obtain st' da dd dr where st': "xdp_src4_stats s2 a = Some st'"
    "counted_more st (passes_of a xs as, da, dd, dr) st'" "passes_of a xs as + da + dd + dr = sent_by a xs"
    by blast
  have o2: "o_src4 ob2 a = Some (rates (interval A1) (snapshot4 T2 st') (snapshot4 T1 st))"
    by (rule poll_observes [OF assms(3) st'(1) poll_remembers [OF assms(1) st assms(7)]])
  define sec where "sec = seconds (T2 - T1)"
  have sec: "0 < sec" "window (interval A1) T2 T1 = sec"
    using assms(8) by (simp_all add: sec_def seconds_def window_def)
  let ?r = "rates (interval A1) (snapshot4 T2 st') (snapshot4 T1 st)"
  have c: "s4_pkts st' = s4_pkts st + of_nat (sent_by a xs)" "s4_pass st' = s4_pass st + of_nat (passes_of a xs as)"
    "s4_drop_allow st' = s4_drop_allow st + of_nat da" "s4_drop_deny st' = s4_drop_deny st + of_nat dd"
    "s4_drop_rl st' = s4_drop_rl st + of_nat dr"
    unfolding st'(3) [symmetric] using st'(2) by (simp_all add: counted_more_def)
  have b: "passes_of a xs as < 2 ^ 64" "da < 2 ^ 64" "dd < 2 ^ 64" "dr < 2 ^ 64" using st'(3) assms(9) by linarith+
  have f: "pps ?r * sec = real (sent_by a xs)" "pass_rate ?r * sec = real (passes_of a xs as)"
    "drop_allow_rate ?r * sec = real da" "drop_deny_rate ?r * sec = real dd" "drop_rl_rate ?r * sec = real dr"
    unfolding rates_def Let_def snapshot4_def
    by (simp_all add: sec(2) c rate_counts [OF assms(9) sec(1)] rate_counts [OF b(1) sec(1)]
        rate_counts [OF b(2) sec(1)] rate_counts [OF b(3) sec(1)] rate_counts [OF b(4) sec(1)])
  have "drop_total_rate ?r = drop_allow_rate ?r + drop_deny_rate ?r + drop_rl_rate ?r"
    by (simp add: rates_def Let_def)
  then have "(pass_rate ?r + drop_total_rate ?r) * sec = pps ?r * sec"
    using f st'(3) by (simp add: distrib_right)
  with sec(1) have "pps ?r = pass_rate ?r + drop_total_rate ?r" by simp
  with o2 f show ?thesis unfolding sec_def by blast
qed

text \<open>The first packet of a source makes a new entry, whichever the kernel drops for it.\<close>

lemma run_src4_new:
  assumes run: "xdp_klshield K cpu pkt s = Some (act, s')"
    and src: "source_v4 pkt = Some a" and new: "xdp_src4_stats s a = None"
  obtains x where "xdp_src4_stats s' = k_src4_update K BPF_ANY a (src4_init x) (xdp_src4_stats s)"
  using run
proof (cases rule: xdp_klshield_cases)
  case (v4 iph off l4 d tm rl erl)
  have "ip_saddr iph = a" using v4(1) src by (simp add: source_v4_def)
  moreover have "xdp_src4_stats s' = snd (src4_update (k_src4_update K) (ip_saddr iph)
      (sample_v4 iph (of_nat (length pkt)) (k_now K) l4 d) (xdp_src4_stats s))"
    using v4(4) by (simp add: record_v4_src4)
  ultimately show ?thesis using that new by (simp add: src4_update_def)
qed (use src in \<open>simp_all add: source_v4_def\<close>)

text \<open>
  A source that was evicted looks like a flood. When the least-recently-used map has evicted a source between two
  polls and the source sends one packet again, its counters restart from one; the adapter still compares them with the
  old ones, and the difference wraps: it publishes a rate of almost \<open>2 ^ 64\<close> packets for the window.
\<close>

theorem evicted_source_looks_like_a_flood:
  assumes "poll T1 s A = (ob1, s1, A1)" "xdp_src4_stats s a = Some st" "1 < s4_pkts st"
    and "xdp_run xs s1 = Some (as, s2)" "xdp_src4_stats s2 a = None"
    and "kernel_ok K" "xdp_klshield K cpu pkt s2 = Some (act, s3)" "source_v4 pkt = Some a" "xdp_src4_stats s3 a \<noteq> None"
    and "poll T2 s3 A1 = (ob2, s4, A2)" "0 \<le> prev_ttl A" "T1 < T2"
  shows "\<exists>r. o_src4 ob2 a = Some r \<and> pps r * seconds (T2 - T1) = 2 ^ 64 + 1 - real (unat (s4_pkts st))"
proof -
  obtain x where "xdp_src4_stats s3 = k_src4_update K BPF_ANY a (src4_init x) (xdp_src4_stats s2)"
    by (rule run_src4_new [OF assms(7,8,5)])
  moreover have "k_src4_update K BPF_ANY a (src4_init x) (xdp_src4_stats s2) a \<in> {None, Some (src4_init x)}"
    using bpf_lru.upd_new [OF kernel_okD(3) [OF assms(6)], of "xdp_src4_stats s2" a] assms(5) by blast
  ultimately have x: "xdp_src4_stats s3 a = Some (src4_init x)" using assms(9) by auto
  have prev: "prev4 A1 a = Some (snapshot4 T1 st)" by (rule poll_remembers [OF assms(1,2,11)])
  define sec where "sec = seconds (T2 - T1)"
  have sec: "0 < sec" "window (interval A1) T2 T1 = sec"
    using assms(12) by (simp_all add: sec_def seconds_def window_def)
  have n: "unat (1 - s4_pkts st) = 2 ^ 64 + 1 - unat (s4_pkts st)"
    using assms(3) unsigned_less [of "s4_pkts st", where 'a = nat] by (simp add: unat_sub_if' word_less_nat_alt)
  have le: "unat (s4_pkts st) \<le> 2 ^ 64 + 1" using unsigned_less [of "s4_pkts st", where 'a = nat] by simp
  have "pps (rates (interval A1) (snapshot4 T2 (src4_init x)) (snapshot4 T1 st)) * sec = 2 ^ 64 + 1 - real (unat (s4_pkts st))"
    using sec of_nat_diff [OF le, where 'a = real]
    by (simp add: rates_def rate_def Let_def snapshot4_def src4_init_def n)
  with poll_observes [OF assms(10) x prev] show ?thesis unfolding sec_def by blast
qed

section \<open>Instances\<close>

definition idle_adapter :: adapter where
  "idle_adapter = \<lparr>interval = 1000000000, prev_ttl = 600000000000, prev4 = (\<lambda>k. None), prev6 = (\<lambda>k. None),
     last_flow4_clear = None, src6_open = True, flow4_open = True\<rparr>"

definition dns_packets :: "nat \<Rightarrow> arrival list" where
  "dns_packets n = replicate n (demo_kernel 5, 0, udp_frame [10, 0, 0, 1] 53)"

lemma dns_packets_sent [simp]: "sent_by (le32 10 0 0 1) (dns_packets n) = n"
  by (simp add: dns_packets_def sent_by_def udp_frame_source)

lemma dns_packets_kernel:
  "y \<in> set (dns_packets n) \<Longrightarrow> kernel_ok (fst y)"
  "src4_rooms (max_entries xdp_src4_stats_map) (dns_packets n)"
  using demo_kernel_ok [of 5] by (auto simp: src4_rooms_def dns_packets_def demo_kernel_def lru.bpf_lru_room_axioms)

lemma dns_packets_sources: "sources_of (dns_packets n) \<subseteq> {le32 10 0 0 1}"
  by (auto simp: dns_packets_def sources_of_def udp_frame_source)

text \<open>A source that has been counted already.\<close>

definition seen :: "u64 \<Rightarrow> shield" where
  "seen n = fresh_shield\<lparr>xdp_src4_stats := [le32 10 0 0 1 \<mapsto> (src4_init demo_sample)\<lparr>s4_pkts := n\<rparr>]\<rparr>"

lemma seen_ok: "buckets_free (seen n)" "xdp_src4_stats (seen n) = [le32 10 0 0 1 \<mapsto> (src4_init demo_sample)\<lparr>s4_pkts := n\<rparr>]"
  using fresh_frame(1) by (simp_all add: seen_def buckets_free_def)

lemma poll_buckets_free: "poll T s A = (ob, s', A') \<Longrightarrow> buckets_free s' = buckets_free s"
  by (auto simp: poll_def poll_sources_def pollFlow4_def flow_delete_def buckets_free_def Let_def split: if_splits)

theorem poll_reports_the_run_witness:
  "\<exists>ob1 s1 A1 as s2 ob2 s3 A2 r. poll 0 (seen 1) idle_adapter = (ob1, s1, A1) \<and>
     xdp_run (dns_packets 3) s1 = Some (as, s2) \<and> poll 1000000000 s2 A1 = (ob2, s3, A2) \<and>
     o_src4 ob2 (le32 10 0 0 1) = Some r \<and> pps r = 3"
proof -
  obtain ob1 s1 A1 where p1: "poll 0 (seen 1) idle_adapter = (ob1, s1, A1)" by (metis prod_cases3)
  have "buckets_free s1" using poll_buckets_free [OF p1] seen_ok(1) by simp
  moreover have "\<forall>(K, cpu, pkt) \<in> set (dns_packets 3). kernel_ok K" using dns_packets_kernel(1) [of _ 3] by fastforce
  ultimately obtain as s2 where run: "xdp_run (dns_packets 3) s1 = Some (as, s2)" using xdp_run_total by blast
  obtain ob2 s3 A2 where p2: "poll 1000000000 s2 A1 = (ob2, s3, A2)" by (metis prod_cases3)
  have one: "dom (xdp_src4_stats (seen 1)) \<union> sources_of (dns_packets 3) = {le32 10 0 0 1}"
    using dns_packets_sources [of 3] by (auto simp: seen_ok)
  have fits: "src4_fits (max_entries xdp_src4_stats_map) (dns_packets 3) (seen 1)"
    unfolding src4_fits_def one by (simp add: seen_ok xdp_src4_stats_map_def)
  have "xdp_src4_stats (seen 1) (le32 10 0 0 1) \<noteq> None" "0 \<le> prev_ttl idle_adapter" by (simp_all add: seen_ok idle_adapter_def)
  from poll_reports_the_run [OF p1 run p2 dns_packets_kernel(2) fits this] obtain r where "o_src4 ob2 (le32 10 0 0 1) = Some r" "pps r = 3"
    by (auto simp: seconds_def)
  with p1 run p2 show ?thesis by blast
qed

text \<open>A table for one source: the packet of another source evicts the first.\<close>

definition narrow_kernel :: "u64 \<Rightarrow> kernel" where
  "narrow_kernel now = (demo_kernel now)\<lparr>k_src4_update :=
     lru_update (\<lambda>m. if m (le32 10 0 0 1) = None then le32 10 0 0 2 else le32 10 0 0 1) (xdp_src4_stats_map\<lparr>max_entries := 1\<rparr>)\<rparr>"

lemma narrow_kernel_ok: "kernel_ok (narrow_kernel now)"
  using demo_kernel_ok [of now] unfolding kernel_ok_def narrow_kernel_def
  by (simp add: lru.bpf_lru_axioms)

theorem evicted_source_looks_like_a_flood_witness:
  "\<exists>ob1 s1 A1 s2 s3 ob2 s4 A2 r as act. poll 0 (seen 5) idle_adapter = (ob1, s1, A1) \<and>
     xdp_run [(narrow_kernel 1, 0, udp_frame [10, 0, 0, 2] 53)] s1 = Some (as, s2) \<and>
     xdp_klshield (narrow_kernel 2) 0 (udp_frame [10, 0, 0, 1] 53) s2 = Some (act, s3) \<and>
     poll 1000000000 s3 A1 = (ob2, s4, A2) \<and> o_src4 ob2 (le32 10 0 0 1) = Some r \<and> pps r = 2 ^ 64 - 4"
proof -
  let ?a = "le32 10 0 0 1" and ?b = "le32 10 0 0 2"
  obtain ob1 s1 A1 where p1: "poll 0 (seen 5) idle_adapter = (ob1, s1, A1)" by (metis prod_cases3)
  have free: "buckets_free s1" using poll_buckets_free [OF p1] seen_ok(1) by simp
  have ab: "?a \<noteq> ?b" by (simp add: le32_def)
  have e1: "xdp_src4_stats s1 = [?a \<mapsto> (src4_init demo_sample)\<lparr>s4_pkts := 5\<rparr>]" using poll_frame(1) [OF p1] by (simp add: seen_ok)
  obtain act1 s2 where k1: "xdp_klshield (narrow_kernel 1) 0 (udp_frame [10, 0, 0, 2] 53) s1 = Some (act1, s2)"
    using run_total [OF free] by blast
  have "xdp_src4_stats s1 ?b = None" using e1 ab by auto
  from run_src4_new [OF k1 udp_frame_source this] obtain x where
    "xdp_src4_stats s2 = k_src4_update (narrow_kernel 1) BPF_ANY ?b (src4_init x) (xdp_src4_stats s1)" .
  then have e2: "xdp_src4_stats s2 = [?b \<mapsto> src4_init x]"
    using ab by (auto simp: e1 narrow_kernel_def lru_update_def fun_eq_iff)
  then have none: "xdp_src4_stats s2 ?a = None" using ab by simp
  have "buckets_free s2" by (rule run_buckets_free [OF narrow_kernel_ok free k1])
  then obtain act s3 where k2: "xdp_klshield (narrow_kernel 2) 0 (udp_frame [10, 0, 0, 1] 53) s2 = Some (act, s3)"
    using run_total by blast
  from run_src4_new [OF k2 udp_frame_source none] obtain y where
    "xdp_src4_stats s3 = k_src4_update (narrow_kernel 2) BPF_ANY ?a (src4_init y) (xdp_src4_stats s2)" .
  then have there: "xdp_src4_stats s3 ?a \<noteq> None" using ab by (simp add: e2 narrow_kernel_def lru_update_def)
  obtain ob2 s4 A2 where p2: "poll 1000000000 s3 A1 = (ob2, s4, A2)" by (metis prod_cases3)
  have run: "xdp_run [(narrow_kernel 1, 0, udp_frame [10, 0, 0, 2] 53)] s1 = Some ([act1], s2)" using k1 by simp
  have "xdp_src4_stats (seen 5) ?a = Some ((src4_init demo_sample)\<lparr>s4_pkts := 5\<rparr>)" by (simp add: seen_ok)
  from evicted_source_looks_like_a_flood [OF p1 this _ run none narrow_kernel_ok k2 udp_frame_source there p2]
  obtain r where "o_src4 ob2 ?a = Some r" "pps r = 2 ^ 64 - 4"
    by (auto simp: idle_adapter_def seconds_def)
  with p1 run k2 p2 show ?thesis by blast
qed

end
