(* ===== verification/Flow_Poll.thy ===== *)
theory Flow_Poll
  imports Telemetry_Poll
begin

text \<open>
  Read and clear of the flow counters, over several polls: \<open>pollFlow4\<close> of
  \<open>src/pkg/adapters/klshield/telemetry/adapter.go\<close> iterates over the map, then deletes what it has
  read, while packets keep coming.
\<close>

section \<open>What a run does to the entry of a flow\<close>

text \<open>The flow of a packet.\<close>

definition flow_of :: "packet \<Rightarrow> flow4_key option" where
  "flow_of pkt = (case frame_kind pkt of
     Inl (iph, off) \<Rightarrow>
       Some \<lparr>fk_src_ip = ip_saddr iph,
         fk_dst_port = dest_port pkt (unat (l4_offset off iph)) (ip_protocol iph),
         fk_proto = ip_protocol iph, fk_pad = 0\<rparr>
   | Inr _ \<Rightarrow> None)"

definition sent_flow :: "flow4_key \<Rightarrow> arrival list \<Rightarrow> nat" where
  "sent_flow k xs = length (filter (\<lambda>(K, cpu, pkt). flow_of pkt = Some k) xs)"

text \<open>The flows of a sequence of packets.\<close>

definition flows_of :: "arrival list \<Rightarrow> flow4_key set" where
  "flows_of xs = {k. \<exists>(K, cpu, pkt) \<in> set xs. flow_of pkt = Some k}"

lemma flows_of_Cons: "flows_of ((K, cpu, pkt) # xs) = set_option (flow_of pkt) \<union> flows_of xs"
  by (auto simp: flows_of_def)

lemma flows_of_append: "flows_of (xs @ ys) = flows_of xs \<union> flows_of ys"
  by (auto simp: flows_of_def)

lemma flows_of_finite: "finite (flows_of xs)"
proof (induction xs)
  case (Cons x xs)
  then show ?case by (cases x) (simp add: flows_of_Cons)
qed (simp add: flows_of_def)

definition left_in :: "flow4_key \<Rightarrow> (flow4_key \<rightharpoonup> flow4_stats) \<Rightarrow> u64" where
  "left_in k m = (case m k of None \<Rightarrow> 0 | Some v \<Rightarrow> f4_pkts v)"

lemma run_flow_entry:
  assumes run: "xdp_klshield K cpu pkt s = Some (act, s')" and room: "bpf_lru_room (k_flow4_update K) room"
    and fits: "finite F" "card F \<le> room" "dom (xdp_flow4_stats s) \<subseteq> F" "set_option (flow_of pkt) \<subseteq> F"
  shows "left_in k (xdp_flow4_stats s') = left_in k (xdp_flow4_stats s) + (if flow_of pkt = Some k then 1 else 0)"
    "xdp_flow4_stats s' k = None \<longleftrightarrow> xdp_flow4_stats s k = None \<and> flow_of pkt \<noteq> Some k"
    "dom (xdp_flow4_stats s') \<subseteq> F"
proof -
  have "left_in k (xdp_flow4_stats s') = left_in k (xdp_flow4_stats s) + (if flow_of pkt = Some k then 1 else 0) \<and>
    (xdp_flow4_stats s' k = None \<longleftrightarrow> xdp_flow4_stats s k = None \<and> flow_of pkt \<noteq> Some k) \<and>
    dom (xdp_flow4_stats s') \<subseteq> F"
    using run
  proof (cases rule: xdp_klshield_cases)
    case (v4 iph off l4 d tm rl erl)
    obtain tm0 tm1 where
      "l4_parse IPPROTO_ICMP pkt (l4_offset off iph) (ip_protocol iph) (totals_get (xdp_totals s cpu)) tm0 = Some (l4, tm1)"
      using v4(2) unfolding decide_v4_Some by blast
    note port = l4_parse_dport [OF this]
    let ?k = "flow4_key_of (ip_saddr iph) (dport l4) (ip_protocol iph)"
    have of: "flow_of pkt = Some ?k" using v4(1) by (simp add: flow_of_def flow4_key_of_def port)
    have up: "xdp_flow4_stats s' = flow4_update (k_flow4_update K) (ip_saddr iph) (dport l4) (ip_protocol iph)
        (of_nat (length pkt)) (syn l4) (xdp_flow4_stats s)"
      using v4(4) by (simp add: record_v4_flow4)
    have F: "?k \<in> F" using of fits(4) by simp
    show ?thesis
      using bpf_lru_room.keeps_entries [OF room fits(1-3) F] F of up fits(3)
      by (auto simp: flow4_update_def left_in_def Let_def split: option.splits if_splits)
  qed (use fits(3) in \<open>simp_all add: flow_of_def\<close>)
  then show "left_in k (xdp_flow4_stats s') = left_in k (xdp_flow4_stats s) + (if flow_of pkt = Some k then 1 else 0)"
    "xdp_flow4_stats s' k = None \<longleftrightarrow> xdp_flow4_stats s k = None \<and> flow_of pkt \<noteq> Some k"
    "dom (xdp_flow4_stats s') \<subseteq> F" by blast+
qed

definition flow_rooms :: "nat \<Rightarrow> arrival list \<Rightarrow> bool" where
  "flow_rooms room xs \<longleftrightarrow> (\<forall>(K, cpu, pkt) \<in> set xs. bpf_lru_room (k_flow4_update K) room)"

lemma xdp_run_flow_entry:
  assumes "xdp_run xs s = Some (as, s')" "flow_rooms room xs"
    and "finite F" "card F \<le> room" "dom (xdp_flow4_stats s) \<subseteq> F" "flows_of xs \<subseteq> F"
  shows "left_in k (xdp_flow4_stats s') = left_in k (xdp_flow4_stats s) + of_nat (sent_flow k xs) \<and>
    (xdp_flow4_stats s' k = None \<longleftrightarrow> xdp_flow4_stats s k = None \<and> sent_flow k xs = 0) \<and>
    dom (xdp_flow4_stats s') \<subseteq> F"
  using assms
proof (induction xs arbitrary: s as)
  case Nil
  then show ?case by (simp add: sent_flow_def)
next
  case (Cons y xs)
  obtain K cpu pkt where y: "y = (K, cpu, pkt)" by (cases y)
  obtain act s1 as1 where run: "xdp_klshield K cpu pkt s = Some (act, s1)" "xdp_run xs s1 = Some (as1, s')"
    using Cons.prems(1) unfolding y xdp_run_Cons by blast
  have keep: "bpf_lru_room (k_flow4_update K) room" "flow_rooms room xs" and
    fl: "set_option (flow_of pkt) \<subseteq> F" "flows_of xs \<subseteq> F"
    using Cons.prems(2,6) by (auto simp: y flow_rooms_def flows_of_Cons)
  note e = run_flow_entry [OF run(1) keep(1) Cons.prems(3-5) fl(1)]
  from Cons.IH [OF run(2) keep(2) Cons.prems(3,4) e(3) fl(2)] e(1,2) [of k] show ?case
    by (auto simp: y sent_flow_def)
qed

section \<open>Rounds of polling\<close>

text \<open>A round: packets arrive, the map is read, more packets arrive, what was read is deleted.\<close>

fun flow_rounds ::
    "(arrival list \<times> arrival list \<times> int) list \<Rightarrow> shield \<Rightarrow> adapter
     \<Rightarrow> ((flow4_key \<rightharpoonup> flow_rates) list \<times> shield \<times> adapter) option" where
  "flow_rounds [] s A = Some ([], s, A)"
| "flow_rounds ((xs, ys, now) # rs) s A =
     do {
       (as, s1) \<leftarrow> xdp_run xs s;
       (bs, s2) \<leftarrow> xdp_run ys s1;
       let (pub, s3, A1) = pollFlow4 now (xdp_flow4_stats s1) s2 A;
       (pubs, s4, A2) \<leftarrow> flow_rounds rs s3 A1;
       Some (pub # pubs, s4, A2)
     }"

definition published_by :: "flow4_key \<Rightarrow> (flow4_key \<rightharpoonup> flow_rates) \<Rightarrow> real" where
  "published_by k pub = (case pub k of None \<Rightarrow> 0 | Some r \<Rightarrow> fr_packets r)"

definition published :: "flow4_key \<Rightarrow> (flow4_key \<rightharpoonup> flow_rates) list \<Rightarrow> real" where
  "published k pubs = sum_list (map (published_by k) pubs)"

definition sent_total :: "flow4_key \<Rightarrow> (arrival list \<times> arrival list \<times> int) list \<Rightarrow> nat" where
  "sent_total k rs = (\<Sum>(xs, ys, now) \<leftarrow> rs. sent_flow k xs + sent_flow k ys)"

definition sent_in_gaps :: "flow4_key \<Rightarrow> (arrival list \<times> arrival list \<times> int) list \<Rightarrow> nat" where
  "sent_in_gaps k rs = (\<Sum>(xs, ys, now) \<leftarrow> rs. sent_flow k ys)"

lemma flow_rounds_Cons:
  assumes "flow_rounds ((xs, ys, now) # rs) s A = Some (pubs, s', A')"
  obtains as s1 bs s2 pub s3 A1 pubs' where "xdp_run xs s = Some (as, s1)" "xdp_run ys s1 = Some (bs, s2)"
    "pollFlow4 now (xdp_flow4_stats s1) s2 A = (pub, s3, A1)" "flow_rounds rs s3 A1 = Some (pubs', s', A')"
    "pubs = pub # pubs'"
  using assms by (auto split: Option.bind_splits prod.splits)

text \<open>One round: what is published, and what stays.\<close>

lemma poll_round:
  assumes run: "xdp_run xs s = Some (as, s1)" "xdp_run ys s1 = Some (bs, s2)"
    and poll: "pollFlow4 now (xdp_flow4_stats s1) s2 A = (pub, s3, A1)"
    and keep: "flow_rooms room (xs @ ys)" "finite F" "card F \<le> room" "dom (xdp_flow4_stats s) \<subseteq> F" "flows_of (xs @ ys) \<subseteq> F"
    and small: "unat (left_in k (xdp_flow4_stats s)) + sent_flow k xs + sent_flow k ys < 2 ^ 64"
  shows "dom (xdp_flow4_stats s3) \<subseteq> F"
    and "(published_by k pub = real (unat (left_in k (xdp_flow4_stats s)) + sent_flow k xs) \<and> xdp_flow4_stats s3 k = None) \<or>
    (published_by k pub = 0 \<and> xdp_flow4_stats s k = None \<and> sent_flow k xs = 0 \<and> left_in k (xdp_flow4_stats s3) = of_nat (sent_flow k ys))"
proof -
  have keeps: "flow_rooms room xs" "flow_rooms room ys" "flows_of xs \<subseteq> F" "flows_of ys \<subseteq> F"
    using keep(1,5) by (auto simp: flow_rooms_def flows_of_append)
  note e1 = xdp_run_flow_entry [OF run(1) keeps(1) keep(2-4) keeps(3), where k = k]
  note e2 = xdp_run_flow_entry [OF run(2) keeps(2) keep(2,3) _ keeps(4), where k = k, OF e1 [THEN conjunct2, THEN conjunct2]]
  have p: "pub k = map_option (flow_publish (window (interval A) now (case last_flow4_clear A of None \<Rightarrow> now | Some t \<Rightarrow> t))) (xdp_flow4_stats s1 k)"
    "xdp_flow4_stats s3 k = (if xdp_flow4_stats s1 k = None then xdp_flow4_stats s2 k else None)"
    using poll by (auto simp: pollFlow4_def flow_delete_def Let_def)
  have "dom (xdp_flow4_stats s3) \<subseteq> dom (xdp_flow4_stats s2)"
    using poll by (auto simp: pollFlow4_def flow_delete_def Let_def split: if_splits)
  then show "dom (xdp_flow4_stats s3) \<subseteq> F" using e2 by blast
  show "(published_by k pub = real (unat (left_in k (xdp_flow4_stats s)) + sent_flow k xs) \<and> xdp_flow4_stats s3 k = None) \<or>
    (published_by k pub = 0 \<and> xdp_flow4_stats s k = None \<and> sent_flow k xs = 0 \<and> left_in k (xdp_flow4_stats s3) = of_nat (sent_flow k ys))"
  proof (cases "xdp_flow4_stats s1 k")
    case None
    then show ?thesis using e1 e2 p by (auto simp: published_by_def left_in_def)
  next
    case (Some v)
    have "f4_pkts v = left_in k (xdp_flow4_stats s) + of_nat (sent_flow k xs)" using e1 Some by (simp add: left_in_def)
    moreover have "unat (left_in k (xdp_flow4_stats s) + of_nat (sent_flow k xs)) = unat (left_in k (xdp_flow4_stats s)) + sent_flow k xs"
      using small unat_add_fits [of "left_in k (xdp_flow4_stats s)" "of_nat (sent_flow k xs)"]
      by (simp add: unsigned_of_nat take_bit_nat_eq_self)
    ultimately show ?thesis using p Some by (simp add: published_by_def flow_publish_def)
  qed
qed

text \<open>The flows of all rounds and of the table fit the room below which the kernels evict nothing.\<close>

definition round_flows :: "(arrival list \<times> arrival list \<times> int) list \<Rightarrow> flow4_key set" where
  "round_flows rs = (\<Union>(xs, ys, now) \<in> set rs. flows_of (xs @ ys))"

definition flow_fits :: "nat \<Rightarrow> (arrival list \<times> arrival list \<times> int) list \<Rightarrow> shield \<Rightarrow> bool" where
  "flow_fits room rs s \<longleftrightarrow> (\<forall>(xs, ys, now) \<in> set rs. flow_rooms room (xs @ ys)) \<and>
     finite (dom (xdp_flow4_stats s)) \<and> card (dom (xdp_flow4_stats s) \<union> round_flows rs) \<le> room"

lemma flow_fitsD:
  assumes "flow_fits room rs s"
  shows "\<forall>(xs, ys, now) \<in> set rs. flow_rooms room (xs @ ys) \<and> flows_of (xs @ ys) \<subseteq> dom (xdp_flow4_stats s) \<union> round_flows rs"
    "finite (dom (xdp_flow4_stats s) \<union> round_flows rs)" "card (dom (xdp_flow4_stats s) \<union> round_flows rs) \<le> room"
    "dom (xdp_flow4_stats s) \<subseteq> dom (xdp_flow4_stats s) \<union> round_flows rs"
  using assms by (auto simp: flow_fits_def round_flows_def flows_of_finite)

lemma flow_rounds_conserve:
  assumes "flow_rounds rs s A = Some (pubs, s', A')"
    and "\<forall>(xs, ys, now) \<in> set rs. flow_rooms room (xs @ ys) \<and> flows_of (xs @ ys) \<subseteq> F"
    and "finite F" "card F \<le> room" "dom (xdp_flow4_stats s) \<subseteq> F"
    and "unat (left_in k (xdp_flow4_stats s)) + sent_total k rs < 2 ^ 64"
  shows "\<exists>lost. lost \<le> sent_in_gaps k rs \<and>
    published k pubs + real (unat (left_in k (xdp_flow4_stats s'))) + real lost =
      real (unat (left_in k (xdp_flow4_stats s))) + real (sent_total k rs)"
  using assms
proof (induction rs arbitrary: s A pubs)
  case Nil
  then show ?case by (simp add: published_def sent_total_def sent_in_gaps_def)
next
  case (Cons r rs)
  obtain xs ys now where r: "r = (xs, ys, now)" by (cases r)
  from Cons.prems(1) [unfolded r] obtain as s1 bs s2 pub s3 A1 pubs' where d:
    "xdp_run xs s = Some (as, s1)" "xdp_run ys s1 = Some (bs, s2)"
    "pollFlow4 now (xdp_flow4_stats s1) s2 A = (pub, s3, A1)" "flow_rounds rs s3 A1 = Some (pubs', s', A')"
    "pubs = pub # pubs'"
    by (rule flow_rounds_Cons)
  let ?l = "\<lambda>s. unat (left_in k (xdp_flow4_stats s))"
  have tot: "sent_total k (r # rs) = sent_flow k xs + sent_flow k ys + sent_total k rs"
    "sent_in_gaps k (r # rs) = sent_flow k ys + sent_in_gaps k rs" "published k pubs = published_by k pub + published k pubs'"
    by (simp_all add: r d(5) sent_total_def sent_in_gaps_def published_def)
  have keep: "flow_rooms room (xs @ ys)" "flows_of (xs @ ys) \<subseteq> F"
    "\<forall>(xs, ys, now) \<in> set rs. flow_rooms room (xs @ ys) \<and> flows_of (xs @ ys) \<subseteq> F"
    using Cons.prems(2) by (simp_all add: r)
  have small: "?l s + sent_flow k xs + sent_flow k ys < 2 ^ 64" using Cons.prems(6) tot(1) by linarith
  note round = poll_round [OF d(1-3) keep(1) Cons.prems(3-5) keep(2) small]
  note IH = Cons.IH [OF d(4) keep(3) Cons.prems(3,4) round(1)]
  from round(2) consider
      (read) "published_by k pub = real (?l s + sent_flow k xs)" "xdp_flow4_stats s3 k = None"
    | (unseen) "published_by k pub = 0" "xdp_flow4_stats s k = None" "sent_flow k xs = 0" "left_in k (xdp_flow4_stats s3) = of_nat (sent_flow k ys)"
    by (elim disjE) simp_all
  then show ?case
  proof cases
    case read
    then have l: "?l s3 = 0" by (simp add: left_in_def)
    with Cons.prems(6) tot(1) have "?l s3 + sent_total k rs < 2 ^ 64" by linarith
    from IH [OF this] obtain lost where "lost \<le> sent_in_gaps k rs"
      "published k pubs' + real (?l s') + real lost = real (?l s3) + real (sent_total k rs)" by blast
    then show ?thesis using read(1) l unfolding tot by (intro exI [of _ "sent_flow k ys + lost"]) simp
  next
    case unseen
    have l: "?l s3 = sent_flow k ys" using small unseen(4) by (simp add: unsigned_of_nat take_bit_nat_eq_self)
    with Cons.prems(6) tot(1) have "?l s3 + sent_total k rs < 2 ^ 64" by linarith
    from IH [OF this] obtain lost where "lost \<le> sent_in_gaps k rs"
      "published k pubs' + real (?l s') + real lost = real (?l s3) + real (sent_total k rs)" by blast
    moreover have "?l s = 0" using unseen(2) by (simp add: left_in_def)
    ultimately show ?thesis using unseen(1,3) l unfolding tot by (intro exI [of _ lost]) simp
  qed
qed

text \<open>
  C21: Nothing is published twice, and only the gap loses. Over any number of polls with packets before and
  during each, whose flows together with those of the table fit its room (the number of entries below
  which its least-recently-used map evicts none), the packets published for a flow and those left in its entry are never more than
  the packets of the flow, and fall short at most by those that arrived between a read and its
  delete.
\<close>

theorem flow_polls_count_once:
  assumes "flow_rounds rs s A = Some (pubs, s', A')"
    and "flow_fits room rs s" "xdp_flow4_stats s k = None" "sent_total k rs < 2 ^ 64"
  shows "published k pubs + real (unat (left_in k (xdp_flow4_stats s'))) \<le> real (sent_total k rs) \<and>
    real (sent_total k rs) \<le> published k pubs + real (unat (left_in k (xdp_flow4_stats s'))) + real (sent_in_gaps k rs)"
proof -
  have z: "left_in k (xdp_flow4_stats s) = 0" using assms(3) by (simp add: left_in_def)
  then have small: "unat (left_in k (xdp_flow4_stats s)) + sent_total k rs < 2 ^ 64" using assms(4) by simp
  from flow_rounds_conserve [OF assms(1) flow_fitsD [OF assms(2)] small] z show ?thesis by auto
qed

text \<open>
  Packets in the gap are lost. When a flow has an entry at the read, every packet of it that
  arrives before the delete appears in no observation, now or later: the poll publishes what was
  counted up to the read and the entry is gone.
\<close>

theorem gap_packets_are_lost:
  assumes "flow_rounds [(xs, ys, now)] s A = Some (pubs, s', A')"
    and "flow_fits room [(xs, ys, now)] s"
    and "xdp_flow4_stats s k = None" "0 < sent_flow k xs" "sent_flow k xs + sent_flow k ys < 2 ^ 64"
  shows "published k pubs = real (sent_flow k xs) \<and> xdp_flow4_stats s' k = None"
proof -
  from assms(1) obtain as s1 bs s2 pub s3 A1 pubs' where d:
    "xdp_run xs s = Some (as, s1)" "xdp_run ys s1 = Some (bs, s2)"
    "pollFlow4 now (xdp_flow4_stats s1) s2 A = (pub, s3, A1)" "flow_rounds [] s3 A1 = Some (pubs', s', A')"
    "pubs = pub # pubs'"
    by (rule flow_rounds_Cons)
  have z: "left_in k (xdp_flow4_stats s) = 0" using assms(3) by (simp add: left_in_def)
  then have "unat (left_in k (xdp_flow4_stats s)) + sent_flow k xs + sent_flow k ys < 2 ^ 64" using assms(5) by simp
  moreover have "flow_rooms room (xs @ ys)" "flows_of (xs @ ys) \<subseteq> dom (xdp_flow4_stats s) \<union> round_flows [(xs, ys, now)]"
    using flow_fitsD(1) [OF assms(2)] by simp_all
  ultimately show ?thesis
    using poll_round(2) [OF d(1-3) _ flow_fitsD(2-4) [OF assms(2)], of k] z assms(4) d(4,5)
    by (auto simp: published_def)
qed

section \<open>Instances\<close>

definition dns_flow :: flow4_key where
  "dns_flow = \<lparr>fk_src_ip = le32 10 0 0 1, fk_dst_port = 53, fk_proto = 17, fk_pad = 0\<rparr>"

lemma udp_frame_flow: "flow_of (udp_frame [10, 0, 0, 1] 53) = Some dns_flow"
proof -
  obtain iph where iph: "frame_kind (udp_frame [10, 0, 0, 1] 53) = Inl (iph, 14)" "ip_saddr iph = le32 10 0 0 1"
    "ip_protocol iph = 17" "ip_ihl iph = 5"
    using udp_frame_kind by blast
  have "l4_offset 14 iph = 34" using iph(4) by (simp add: l4_offset_def)
  with iph show ?thesis using udp_frame_port [of 10 0 0 1 53] by (simp add: flow_of_def dns_flow_def)
qed

lemma dns_packets_flow: "sent_flow dns_flow (dns_packets n) = n"
  by (simp add: dns_packets_def sent_flow_def udp_frame_flow)

lemma dns_packets_rooms: "flow_rooms (max_entries xdp_flow4_stats_map) (dns_packets m @ dns_packets n)"
  by (auto simp: flow_rooms_def dns_packets_def demo_kernel_def lru.bpf_lru_room_axioms)

lemma dns_packets_fit: "flow_fits (max_entries xdp_flow4_stats_map) [(dns_packets m, dns_packets n, T)] fresh_shield"
proof -
  have "round_flows [(dns_packets m, dns_packets n, T)] \<subseteq> {dns_flow}"
    by (auto simp: round_flows_def flows_of_def dns_packets_def udp_frame_flow)
  then have "card (dom (xdp_flow4_stats fresh_shield) \<union> round_flows [(dns_packets m, dns_packets n, T)]) \<le> card {dns_flow}"
    by (intro card_mono) (auto simp: fresh_shield_def)
  moreover have "card {dns_flow} \<le> max_entries xdp_flow4_stats_map" by (simp add: xdp_flow4_stats_map_def)
  moreover have "dom (xdp_flow4_stats fresh_shield) = {}" by (simp add: fresh_shield_def)
  ultimately show ?thesis using dns_packets_rooms [of m n] by (simp add: flow_fits_def)
qed

lemma one_round:
  assumes "buckets_free s"
  shows "\<exists>pubs s' A'. flow_rounds [(dns_packets m, dns_packets n, T)] s A = Some (pubs, s', A')"
proof -
  have K: "\<forall>(K, cpu, pkt) \<in> set (dns_packets n). kernel_ok K" for n using dns_packets_kernel(1) [of _ n] by fastforce
  obtain as s1 where 1: "xdp_run (dns_packets m) s = Some (as, s1)" using xdp_run_total [OF K assms] by blast
  have "buckets_free s1"
    by (rule xdp_run_invariant [where P = buckets_free, OF _ assms 1]) (use run_buckets_free K [of m] in blast)
  from xdp_run_total [OF K this, of n] obtain bs s2 where "xdp_run (dns_packets n) s1 = Some (bs, s2)" by blast
  with 1 show ?thesis by (auto split: prod.split)
qed

theorem flow_polls_count_once_witness:
  "\<exists>pubs s' A'. flow_rounds [(dns_packets 3, dns_packets 2, 7)] fresh_shield idle_adapter = Some (pubs, s', A') \<and>
     5 \<le> published dns_flow pubs + real (unat (left_in dns_flow (xdp_flow4_stats s'))) + 2"
proof -
  obtain pubs s' A' where run: "flow_rounds [(dns_packets 3, dns_packets 2, 7)] fresh_shield idle_adapter = Some (pubs, s', A')"
    using one_round [of fresh_shield 3 2 7 idle_adapter] by auto
  have e: "xdp_flow4_stats fresh_shield dns_flow = None" by (simp add: fresh_shield_def)
  have n: "sent_total dns_flow [(dns_packets 3, dns_packets 2, 7)] = 5" "sent_in_gaps dns_flow [(dns_packets 3, dns_packets 2, 7)] = 2"
    by (simp_all add: sent_total_def sent_in_gaps_def dns_packets_flow)
  from flow_polls_count_once [OF run dns_packets_fit e] n run show ?thesis by auto
qed

theorem gap_packets_are_lost_witness:
  "\<exists>pubs s' A'. flow_rounds [(dns_packets 3, dns_packets 2, 7)] fresh_shield idle_adapter = Some (pubs, s', A') \<and>
     published dns_flow pubs = 3 \<and> xdp_flow4_stats s' dns_flow = None"
proof -
  obtain pubs s' A' where run: "flow_rounds [(dns_packets 3, dns_packets 2, 7)] fresh_shield idle_adapter = Some (pubs, s', A')"
    using one_round [of fresh_shield 3 2 7 idle_adapter] by auto
  have e: "xdp_flow4_stats fresh_shield dns_flow = None" by (simp add: fresh_shield_def)
  from gap_packets_are_lost [OF run dns_packets_fit e] run show ?thesis by (auto simp: dns_packets_flow)
qed

end
