(* ===== verification/Source_Fsm.thy ===== *)
theory Source_Fsm
  imports Complex_Main Shield_Prelude
begin

text \<open>
  The state machine that decides how hard a source is treated (\<open>src/pkg/core/fsm/fsm.go\<close>): strikes and
  streaks move a source between observation, two rate limits and a block. Instants are nanoseconds of
  the Unix epoch, the zero value of \<open>time.Time\<close> is the start of year 1, and \<open>Sub\<close> saturates at the
  64-bit duration as in the Go library. Metrics are real numbers, so rounding and NaN are not
  modelled. The counters (strikes, streaks, ticks of non-compliance) are \<open>int\<close> values of Go, 64 bits wide, and
  integers here: a streak grows by one a tick and a strike count by at most a few, so they do not come near \<open>2 ^ 63\<close>
  in the life of a process. The transition that a tick performs is an argument, as in the code; the two that the code has
  are \<open>syntheticFSMTransition\<close> of \<open>src/iq/cmd/kliq/runtime_pdp_candidate.go\<close> and \<open>applyStateFields\<close> of
  \<open>src/pkg/adapters/klshield/pep/adapter.go\<close>.
\<close>

section \<open>Time\<close>

type_synonym instant = int
type_synonym duration = int

definition zero_time :: instant where
  "zero_time = -62135596800000000000"

definition Sub :: "instant \<Rightarrow> instant \<Rightarrow> duration" where
  "Sub t u = max (- (2 ^ 63)) (min (2 ^ 63 - 1) (t - u))"

section \<open>Levels, state, configuration\<close>

datatype fsm_level = LevelObserve | LevelSoft | LevelHard | LevelBlock

definition level_num :: "fsm_level \<Rightarrow> nat" where
  "level_num l = (case l of LevelObserve \<Rightarrow> 0 | LevelSoft \<Rightarrow> 1 | LevelHard \<Rightarrow> 2 | LevelBlock \<Rightarrow> 3)"

instantiation fsm_level :: linorder
begin

definition less_eq_fsm_level :: "fsm_level \<Rightarrow> fsm_level \<Rightarrow> bool" where
  "l \<le> l' \<longleftrightarrow> level_num l \<le> level_num l'"

definition less_fsm_level :: "fsm_level \<Rightarrow> fsm_level \<Rightarrow> bool" where
  "l < l' \<longleftrightarrow> level_num l < level_num l'"

instance
  by standard (auto simp: less_eq_fsm_level_def less_fsm_level_def level_num_def split: fsm_level.splits)

end

lemma level_order [simp]:
  "LevelObserve \<le> l" "l \<le> LevelBlock" "\<not> l < LevelObserve" "\<not> LevelBlock < l"
  "LevelSoft < LevelHard" "LevelHard < LevelBlock" "LevelSoft < LevelBlock" "LevelObserve < LevelSoft"
  "LevelObserve < LevelHard" "LevelObserve < LevelBlock"
  by (cases l; simp add: less_eq_fsm_level_def less_fsm_level_def level_num_def)+

record fsm_state =
  Level :: fsm_level
  Strikes :: int
  ExpiresAt :: instant
  CooldownUntil :: instant
  LastTrigger :: instant
  HighSevSince :: instant
  LastSeenWallTime :: instant
  UpStreak :: int
  DownStreak :: int
  NonCompTicks :: int
  ForceBlock :: bool

record fsm_metrics =
  PPS :: real
  Bps :: real
  SynRate :: real
  ScanRate :: real
  DropRLRate :: real
  Severity :: real

record fsm_config =
  SevStep1 :: real
  SevStep2 :: real
  SevStep3 :: real
  SevDelta1 :: int
  SevDelta2 :: int
  SevDelta3 :: int
  SevDecayBelow :: real
  SoftAt :: int
  HardAt :: int
  BlockAt :: int
  UpNeed :: int
  DownNeed :: int
  MinHoldSoft :: duration
  MinHoldHard :: duration
  BlockMinSev :: real
  BlockMinDur :: duration
  Cooldown :: duration
  SoftTTL :: duration
  HardTTL :: duration
  BlockTTL :: duration
  NonCompAt :: int
  NonCompDrop :: real
  NonCompSev :: real
  NonCompResetBelow :: real
  LearnMaxSev :: real

section \<open>One tick\<close>

definition highTick :: "fsm_metrics \<Rightarrow> fsm_config \<Rightarrow> bool" where
  "highTick m cfg \<longleftrightarrow> Severity m \<ge> SevStep1 cfg \<or> (NonCompDrop cfg > 0 \<and> DropRLRate m \<ge> NonCompDrop cfg)"

definition lowTick :: "fsm_metrics \<Rightarrow> fsm_config \<Rightarrow> bool" where
  "lowTick m cfg \<longleftrightarrow> Severity m < SevDecayBelow cfg \<and> DropRLRate m = 0"

definition track_severity :: "fsm_metrics \<Rightarrow> instant \<Rightarrow> fsm_config \<Rightarrow> 'a fsm_state_scheme \<Rightarrow> 'a fsm_state_scheme" where
  "track_severity m now cfg st =
     (if BlockMinSev cfg > 0 \<and> Severity m \<ge> BlockMinSev cfg
      then (if HighSevSince st = zero_time then st\<lparr>HighSevSince := now\<rparr> else st)
      else st\<lparr>HighSevSince := zero_time\<rparr>)"

definition count_streaks :: "fsm_metrics \<Rightarrow> fsm_config \<Rightarrow> 'a fsm_state_scheme \<Rightarrow> 'a fsm_state_scheme" where
  "count_streaks m cfg st =
     (if highTick m cfg then st\<lparr>UpStreak := UpStreak st + 1, DownStreak := 0\<rparr>
      else if lowTick m cfg then st\<lparr>DownStreak := DownStreak st + 1, UpStreak := 0\<rparr>
      else st\<lparr>UpStreak := (if UpStreak st > 0 then UpStreak st - 1 else UpStreak st),
              DownStreak := (if DownStreak st > 0 then DownStreak st - 1 else DownStreak st)\<rparr>)"

definition strikeDelta :: "fsm_metrics \<Rightarrow> fsm_config \<Rightarrow> int" where
  "strikeDelta m cfg =
     (if Severity m \<ge> SevStep3 cfg then SevDelta3 cfg
      else if Severity m \<ge> SevStep2 cfg then SevDelta2 cfg
      else if Severity m \<ge> SevStep1 cfg then SevDelta1 cfg
      else 0)"

definition count_strikes :: "fsm_metrics \<Rightarrow> instant \<Rightarrow> fsm_config \<Rightarrow> 'a fsm_state_scheme \<Rightarrow> 'a fsm_state_scheme" where
  "count_strikes m now cfg st =
     (if strikeDelta m cfg > 0 then st\<lparr>Strikes := Strikes st + strikeDelta m cfg, LastTrigger := now\<rparr>
      else if Strikes st > 0 \<and> lowTick m cfg \<and> DownStreak st \<ge> DownNeed cfg
      then st\<lparr>Strikes := Strikes st - 1\<rparr>
      else st)"

definition count_noncomp :: "fsm_metrics \<Rightarrow> fsm_config \<Rightarrow> 'a fsm_state_scheme \<Rightarrow> 'a fsm_state_scheme" where
  "count_noncomp m cfg st =
     (if Level st \<ge> LevelSoft \<and> NonCompAt cfg > 0
      then (if (NonCompDrop cfg > 0 \<and> DropRLRate m \<ge> NonCompDrop cfg) \<or>
               (NonCompSev cfg > 0 \<and> Severity m \<ge> NonCompSev cfg)
            then st\<lparr>NonCompTicks := NonCompTicks st + 1\<rparr>
            else if Severity m < NonCompResetBelow cfg \<and> DropRLRate m = 0
            then st\<lparr>NonCompTicks := 0\<rparr> else st)
      else st\<lparr>NonCompTicks := 0\<rparr>)"

text \<open>A step down when the time of a level is over: from one level to the next lower one.\<close>

type_synonym 'a transition = "'a fsm_state_scheme \<Rightarrow> fsm_level \<Rightarrow> 'a fsm_state_scheme"

definition stepdown ::
    "instant \<Rightarrow> fsm_config \<Rightarrow> 'a transition \<Rightarrow> fsm_level \<Rightarrow> duration \<Rightarrow> fsm_level \<Rightarrow> 'a fsm_state_scheme \<Rightarrow> 'a fsm_state_scheme" where
  "stepdown now cfg doTransition frm hold to st =
     (if Level st = frm \<and> ExpiresAt st \<noteq> zero_time \<and> now > ExpiresAt st \<and>
         DownStreak st \<ge> DownNeed cfg \<and> Sub now (LastTrigger st) \<ge> hold \<and> now > CooldownUntil st
      then doTransition st to else st)"

definition strike_level :: "fsm_config \<Rightarrow> 'a fsm_state_scheme \<Rightarrow> fsm_level" where
  "strike_level cfg st =
     (if Strikes st \<ge> BlockAt cfg then LevelBlock
      else if Strikes st \<ge> HardAt cfg then LevelHard
      else if Strikes st \<ge> SoftAt cfg then LevelSoft
      else LevelObserve)"

definition wanted_level :: "fsm_config \<Rightarrow> 'a fsm_state_scheme \<Rightarrow> fsm_level" where
  "wanted_level cfg st =
     (if Level st = LevelHard \<and> NonCompAt cfg > 0 \<and> NonCompTicks st \<ge> NonCompAt cfg then LevelBlock
      else if strike_level cfg st > Level st \<and> UpStreak st < UpNeed cfg \<and> \<not> ForceBlock st then Level st
      else strike_level cfg st)"

definition hold_block :: "instant \<Rightarrow> 'a fsm_state_scheme \<Rightarrow> fsm_level \<Rightarrow> fsm_level" where
  "hold_block now st target =
     (if Level st = LevelBlock \<and> ExpiresAt st \<noteq> zero_time \<and> now < ExpiresAt st \<and> target < Level st
      then Level st else target)"

definition gate_block :: "instant \<Rightarrow> fsm_config \<Rightarrow> 'a fsm_state_scheme \<Rightarrow> fsm_level \<Rightarrow> fsm_level" where
  "gate_block now cfg st target =
     (if target = LevelBlock \<and> target > Level st \<and> BlockMinSev cfg > 0 \<and> \<not> ForceBlock st \<and>
         (HighSevSince st = zero_time \<or>
          (BlockMinDur cfg > 0 \<and> Sub now (HighSevSince st) < BlockMinDur cfg))
      then LevelHard else target)"

definition target_level :: "instant \<Rightarrow> fsm_config \<Rightarrow> 'a fsm_state_scheme \<Rightarrow> fsm_level" where
  "target_level now cfg st = gate_block now cfg st (hold_block now st (wanted_level cfg st))"

definition counted :: "fsm_metrics \<Rightarrow> instant \<Rightarrow> fsm_config \<Rightarrow> 'a fsm_state_scheme \<Rightarrow> 'a fsm_state_scheme" where
  "counted m now cfg st =
     count_noncomp m cfg (count_strikes m now cfg (count_streaks m cfg (track_severity m now cfg st)))"

definition stepped_down :: "instant \<Rightarrow> fsm_config \<Rightarrow> 'a transition \<Rightarrow> 'a fsm_state_scheme \<Rightarrow> 'a fsm_state_scheme" where
  "stepped_down now cfg doTransition st =
     stepdown now cfg doTransition LevelHard (MinHoldHard cfg) LevelSoft
       (stepdown now cfg doTransition LevelSoft (MinHoldSoft cfg) LevelObserve
         (stepdown now cfg doTransition LevelBlock (MinHoldHard cfg) LevelHard st))"

definition Advance ::
    "fsm_metrics \<Rightarrow> 'a fsm_state_scheme \<Rightarrow> instant \<Rightarrow> fsm_config \<Rightarrow> 'a transition \<Rightarrow> 'a fsm_state_scheme \<times> bool" where
  "Advance m st now cfg doTransition =
     (let st = stepped_down now cfg doTransition (counted m now cfg st);
          target = target_level now cfg st
      in if target \<noteq> Level st \<and> now > CooldownUntil st
         then ((doTransition st target)\<lparr>ForceBlock := False\<rparr>, True)
         else (st, False))"

section \<open>Severity\<close>

definition CalcSeverity ::
    "real \<Rightarrow> real \<Rightarrow> real \<Rightarrow> real \<Rightarrow> real \<Rightarrow> real \<Rightarrow> real \<Rightarrow> real \<Rightarrow> real \<Rightarrow> real \<Rightarrow> real \<Rightarrow> real \<Rightarrow> real \<Rightarrow> real" where
  "CalcSeverity pps synps scanps bps trigPPS trigSyn trigScan trigBPS wPPS wSyn wScan wBps cap =
     (let n = (\<lambda>v trig. if trig > 0 then min (v / trig) cap else 0)
      in wPPS * n pps trigPPS + wSyn * n synps trigSyn + wScan * n scanps trigScan + wBps * n bps trigBPS)"

section \<open>The two transitions of the code\<close>

definition expiryTime :: "instant \<Rightarrow> duration \<Rightarrow> instant" where
  "expiryTime now ttl = (if ttl \<le> 0 then zero_time else now + ttl)"

definition syntheticFSMTransition :: "instant \<Rightarrow> fsm_config \<Rightarrow> 'a transition" where
  "syntheticFSMTransition now c st target =
     st\<lparr>Level := target, CooldownUntil := now + Cooldown c,
        ExpiresAt := (case target of
            LevelSoft \<Rightarrow> expiryTime now (SoftTTL c)
          | LevelHard \<Rightarrow> expiryTime now (HardTTL c)
          | LevelBlock \<Rightarrow> expiryTime now (BlockTTL c)
          | LevelObserve \<Rightarrow> zero_time)\<rparr>"

record enforcement_params =
  p_DryRun :: bool
  p_SoftRate :: u64
  p_SoftBurst :: u64
  p_SoftTTL :: duration
  p_HardRate :: u64
  p_HardBurst :: u64
  p_HardTTL :: duration
  p_BlockTTL :: duration
  p_Cooldown :: duration

definition applyStateFields :: "instant \<Rightarrow> enforcement_params \<Rightarrow> 'a transition" where
  "applyStateFields now p st target =
     st\<lparr>Level := target, CooldownUntil := now + p_Cooldown p,
        ExpiresAt := (case target of
            LevelObserve \<Rightarrow> zero_time
          | LevelSoft \<Rightarrow> now + p_SoftTTL p
          | LevelHard \<Rightarrow> now + p_HardTTL p
          | LevelBlock \<Rightarrow> now + p_BlockTTL p)\<rparr>"

record fsm_intent =
  SignalState :: fsm_state
  ProposedLevel :: fsm_level
  Transitioned :: bool

text \<open>The callback of \<open>evaluateFSMIntent\<close> also notes the target, here in a field that extends the state.\<close>

record fsm_noted = fsm_state +
  proposed :: fsm_level

definition note_transition :: "instant \<Rightarrow> fsm_config \<Rightarrow> fsm_noted \<Rightarrow> fsm_level \<Rightarrow> fsm_noted" where
  "note_transition now c st target = (syntheticFSMTransition now c st target)\<lparr>proposed := target\<rparr>"

definition evaluateFSMIntent :: "fsm_metrics \<Rightarrow> fsm_state \<Rightarrow> instant \<Rightarrow> fsm_config \<Rightarrow> fsm_intent" where
  "evaluateFSMIntent m st now c =
     (let (nxt, moved) = Advance m (fsm_state.extend st (fsm_noted.fields (Level st))) now c (note_transition now c)
      in \<lparr>SignalState = fsm_state.truncate nxt,
          ProposedLevel = (if moved then proposed nxt else Level nxt), Transitioned = moved\<rparr>)"

definition mergeFSMRuntimeState :: "fsm_state \<Rightarrow> fsm_state \<Rightarrow> fsm_state" where
  "mergeFSMRuntimeState actual sig =
     actual\<lparr>Strikes := Strikes sig, LastTrigger := LastTrigger sig, HighSevSince := HighSevSince sig,
       LastSeenWallTime := LastSeenWallTime sig, UpStreak := UpStreak sig, DownStreak := DownStreak sig,
       NonCompTicks := NonCompTicks sig, ForceBlock := ForceBlock sig\<rparr>"

section \<open>What a tick leaves alone\<close>

lemma count_frame [simp]:
  "Level (track_severity m now cfg st) = Level st" "ExpiresAt (track_severity m now cfg st) = ExpiresAt st"
  "CooldownUntil (track_severity m now cfg st) = CooldownUntil st"
  "ForceBlock (track_severity m now cfg st) = ForceBlock st"
  "Strikes (track_severity m now cfg st) = Strikes st" "DownStreak (track_severity m now cfg st) = DownStreak st"
  "Level (count_streaks m cfg st) = Level st" "ExpiresAt (count_streaks m cfg st) = ExpiresAt st"
  "CooldownUntil (count_streaks m cfg st) = CooldownUntil st" "ForceBlock (count_streaks m cfg st) = ForceBlock st"
  "Strikes (count_streaks m cfg st) = Strikes st" "HighSevSince (count_streaks m cfg st) = HighSevSince st"
  "Level (count_strikes m now cfg st) = Level st" "ExpiresAt (count_strikes m now cfg st) = ExpiresAt st"
  "CooldownUntil (count_strikes m now cfg st) = CooldownUntil st"
  "ForceBlock (count_strikes m now cfg st) = ForceBlock st" "DownStreak (count_strikes m now cfg st) = DownStreak st"
  "UpStreak (count_strikes m now cfg st) = UpStreak st" "HighSevSince (count_strikes m now cfg st) = HighSevSince st"
  "Level (count_noncomp m cfg st) = Level st" "ExpiresAt (count_noncomp m cfg st) = ExpiresAt st"
  "CooldownUntil (count_noncomp m cfg st) = CooldownUntil st" "ForceBlock (count_noncomp m cfg st) = ForceBlock st"
  "Strikes (count_noncomp m cfg st) = Strikes st" "DownStreak (count_noncomp m cfg st) = DownStreak st"
  "UpStreak (count_noncomp m cfg st) = UpStreak st" "HighSevSince (count_noncomp m cfg st) = HighSevSince st"
  unfolding track_severity_def count_streaks_def count_strikes_def count_noncomp_def
  by simp_all

lemma counted_frame [simp]:
  "Level (counted m now cfg st) = Level st" "ExpiresAt (counted m now cfg st) = ExpiresAt st"
  "CooldownUntil (counted m now cfg st) = CooldownUntil st" "ForceBlock (counted m now cfg st) = ForceBlock st"
  by (simp_all add: counted_def)

text \<open>
  What a transition must do: set the level it is called for and a cooldown from now, and leave the
  counters alone.
\<close>

locale fsm_transition =
  fixes tr :: "'a transition" and now :: instant and cooldown :: duration
  assumes tr_level: "Level (tr st l) = l"
    and tr_cooldown: "CooldownUntil (tr st l) = now + cooldown"
    and tr_counters: "Strikes (tr st l) = Strikes st" "UpStreak (tr st l) = UpStreak st"
      "DownStreak (tr st l) = DownStreak st" "NonCompTicks (tr st l) = NonCompTicks st"
      "HighSevSince (tr st l) = HighSevSince st" "ForceBlock (tr st l) = ForceBlock st"
      "LastTrigger (tr st l) = LastTrigger st"
begin

lemma stepdown_frame:
  "Strikes (stepdown now cfg tr a h b st) = Strikes st" "UpStreak (stepdown now cfg tr a h b st) = UpStreak st"
  "DownStreak (stepdown now cfg tr a h b st) = DownStreak st"
  "NonCompTicks (stepdown now cfg tr a h b st) = NonCompTicks st"
  "HighSevSince (stepdown now cfg tr a h b st) = HighSevSince st"
  "ForceBlock (stepdown now cfg tr a h b st) = ForceBlock st"
  by (simp_all add: stepdown_def tr_counters)

lemma stepped_down_frame:
  "Strikes (stepped_down now cfg tr st) = Strikes st" "UpStreak (stepped_down now cfg tr st) = UpStreak st"
  "DownStreak (stepped_down now cfg tr st) = DownStreak st"
  "NonCompTicks (stepped_down now cfg tr st) = NonCompTicks st"
  "HighSevSince (stepped_down now cfg tr st) = HighSevSince st"
  "ForceBlock (stepped_down now cfg tr st) = ForceBlock st"
  by (simp_all add: stepped_down_def stepdown_frame)

text \<open>At most one of the three steps down happens: the first one sets a cooldown.\<close>

lemma stepped_down_cases:
  assumes "0 \<le> cooldown"
  obtains "stepped_down now cfg tr st = st"
  | l where "stepped_down now cfg tr st = tr st l" "l < Level st" "now > CooldownUntil st"
      "ExpiresAt st \<noteq> zero_time" "now > ExpiresAt st" "DownStreak st \<ge> DownNeed cfg"
proof -
  have cd: "\<not> CooldownUntil (tr st l) < now" for l using tr_cooldown [of st l] assms by simp
  have "stepped_down now cfg tr st = st \<or> (\<exists>l. stepped_down now cfg tr st = tr st l \<and> l < Level st \<and>
      now > CooldownUntil st \<and> ExpiresAt st \<noteq> zero_time \<and> now > ExpiresAt st \<and> DownStreak st \<ge> DownNeed cfg)"
    by (auto simp: stepped_down_def stepdown_def tr_level cd)
  then show ?thesis using that by blast
qed

text \<open>A tick changes the level at most once, and only after the cooldown.\<close>

lemma Advance_cases:
  assumes "0 \<le> cooldown"
  obtains (same) "Advance m st now cfg tr = (counted m now cfg st, False)"
      "target_level now cfg (counted m now cfg st) = Level st \<or> now \<le> CooldownUntil st"
  | (down) l where "Advance m st now cfg tr = (tr (counted m now cfg st) l, False)" "l < Level st"
      "now > CooldownUntil st" "ExpiresAt st \<noteq> zero_time" "now > ExpiresAt st"
  | (move) "Advance m st now cfg tr =
        ((tr (counted m now cfg st) (target_level now cfg (counted m now cfg st)))\<lparr>ForceBlock := False\<rparr>, True)"
      "target_level now cfg (counted m now cfg st) \<noteq> Level st" "now > CooldownUntil st"
proof (cases rule: stepped_down_cases [of cfg "counted m now cfg st", OF assms])
  case 1
  then show ?thesis
    by (cases "target_level now cfg (counted m now cfg st) \<noteq> Level st \<and> now > CooldownUntil st")
      (intro move, simp_all add: Advance_def Let_def, rule same, auto simp: Advance_def Let_def)
next
  case (2 l)
  have "\<not> CooldownUntil (tr (counted m now cfg st) l) < now" using tr_cooldown assms by simp
  with 2 show ?thesis by (intro down [of l]) (simp_all add: Advance_def Let_def)
qed

lemma Advance_level:
  assumes "0 \<le> cooldown"
  shows "Level (fst (Advance m st now cfg tr)) = Level st \<or>
   (now > CooldownUntil st \<and> CooldownUntil (fst (Advance m st now cfg tr)) = now + cooldown)"
  using assms by (cases rule: Advance_cases [of m st cfg]) (simp_all add: tr_level tr_cooldown)

end

interpretation synthetic: fsm_transition "syntheticFSMTransition now c" now "Cooldown c" for now c
  by unfold_locales (simp_all add: syntheticFSMTransition_def)

interpretation applied: fsm_transition "applyStateFields now p" now "p_Cooldown p" for now p
  by unfold_locales (simp_all add: applyStateFields_def)

interpretation noted: fsm_transition "note_transition now c" now "Cooldown c" for now c
  by unfold_locales (simp_all add: note_transition_def synthetic.tr_level synthetic.tr_cooldown synthetic.tr_counters)

end
