(* ===== verification/Action_Resolver.thy ===== *)
theory Action_Resolver
  imports Go_Text Source_Fsm "HOL-Library.AList"
begin

text \<open>
  The last gate before an enforcement point is touched (\<open>src/iq/internal/actions/resolver.go\<close>, with the
  proposals and resolutions of \<open>types.go\<close>): it authorizes, downgrades or denies what the decision point
  proposes. Maps of Go are association lists; a missing key reads as the zero value. The policy
  records come from a contracts package and have the fields the resolver reads.
\<close>

section \<open>Proposals and resolutions\<close>

text \<open>
  A value of type \<open>any\<close>. \<open>Sprint\<close> prints it; how a number with a fraction or a composite value is printed
  is an argument.
\<close>

datatype go_any =
    Any_nil
  | Any_text string
  | Any_bool bool
  | Any_uint u64
  | Any_int int
  | Any_float real
  | Any_map "(string \<times> go_any) list"
  | Any_list "go_any list"
  | Any_maps "(string \<times> go_any) list list"
  | Any_text_maps "(string \<times> string) list list"

type_synonym printer = "go_any \<Rightarrow> string"

fun Sprint :: "printer \<Rightarrow> go_any \<Rightarrow> string" where
  "Sprint pr Any_nil = ''<nil>''"
| "Sprint pr (Any_text s) = s"
| "Sprint pr (Any_bool b) = (if b then ''true'' else ''false'')"
| "Sprint pr (Any_uint n) = Itoa (uint n)"
| "Sprint pr (Any_int n) = Itoa n"
| "Sprint pr v = pr v"

definition any_at :: "(string \<times> go_any) list \<Rightarrow> string \<Rightarrow> go_any" where
  "any_at m k = (case map_of m k of None \<Rightarrow> Any_nil | Some v \<Rightarrow> v)"

definition text_at :: "(string \<times> string) list \<Rightarrow> string \<Rightarrow> string" where
  "text_at m k = (case map_of m k of None \<Rightarrow> [] | Some v \<Rightarrow> v)"

record action_target =
  Granularity :: string
  Value :: string
  Attributes :: "(string \<times> string) list"

record action_proposal =
  pr_ID :: string
  pr_DesiredAction :: string
  pr_DesiredLevel :: string
  pr_Target :: action_target
  pr_Parameters :: "(string \<times> go_any) list"
  pr_TTL :: duration

record action_resolution =
  re_ProposalID :: string
  Allowed :: bool
  DenyReason :: string
  RequestedAction :: string
  RequestedLevel :: string
  ExecutableAction :: string
  ExecutableLevel :: string
  re_Target :: action_target
  re_Parameters :: "(string \<times> go_any) list"
  re_TTL :: duration
  re_PolicyID :: string
  re_DecisionID :: string

section \<open>The policy\<close>

record policy_subject =
  su_Type :: string
  su_Ref :: string

record guardrail =
  g_ID :: string
  g_Type :: string
  g_Subject :: policy_subject
  ForbiddenActions :: "string list"
  UnknownBehavior :: string

record autonomy_allowance =
  al_Action :: string
  al_Subject :: policy_subject
  RequiresPreviousAction :: string

record autonomy =
  Allow :: "autonomy_allowance list"
  ApprovalRequired :: "string list"
  MaxActionDuration :: "(string \<times> duration) list"
  RequiresAudit :: bool

record policy_resolver =
  Mode :: string
  HasPolicyPack :: bool
  PolicyMaxAction :: string
  CapabilitiesAllowed :: "(string \<times> bool) list"
  RuntimeGuardrails :: "guardrail list"
  RuntimeAutonomyLifecycle :: "autonomy option"

section \<open>Guardrails\<close>

definition normalizeGuardrailAction :: "string \<Rightarrow> string" where
  "normalizeGuardrailAction action =
     (let a = TrimSpace (ReplaceAll (CHR '' '') (CHR ''_'') action) in
      if a \<in> {''network.flow_deny'', ''network.block_source'', ''deny'', ''network_deny''} then ''enforce.access.deny''
      else if a = ''auto_block'' then ''auto_block''
      else if a \<in> {''block'', ''temporary_block''} then ''enforce.traffic.drop''
      else if a \<in> {''quarantine'', ''network_quarantine''} then ''enforce.network.quarantine''
      else if a \<in> {''disable_identity'', ''identity_disable'', ''identity.disable''} then ''enforce.identity.disable''
      else a)"

definition hard_actions :: "string set" where
  "hard_actions =
     {''enforce.access.deny'', ''enforce.traffic.drop'', ''enforce.network.quarantine'', ''enforce.identity.disable''}"

definition guardrailActionMatches :: "string \<Rightarrow> string \<Rightarrow> string \<Rightarrow> bool" where
  "guardrailActionMatches forbidden action level =
     (let forbidden = normalizeGuardrailAction forbidden; action = normalizeGuardrailAction action in
      if forbidden = [] then False
      else if forbidden = ''auto_block'' then level = ''block'' \<or> action \<in> hard_actions
      else forbidden = action)"

definition guardrailForbidsAction :: "guardrail \<Rightarrow> string \<Rightarrow> string \<Rightarrow> bool" where
  "guardrailForbidsAction g action level = list_ex (\<lambda>f. guardrailActionMatches f action level) (ForbiddenActions g)"

definition isHardRuntimeAction :: "string \<Rightarrow> string \<Rightarrow> bool" where
  "isHardRuntimeAction action level \<longleftrightarrow>
     level = ''hard'' \<or> level = ''block'' \<or> normalizeGuardrailAction action \<in> hard_actions"

fun firstAttr :: "(string \<times> string) list \<Rightarrow> string list \<Rightarrow> string" where
  "firstAttr attrs [] = []"
| "firstAttr attrs (k # ks) = (let v = TrimSpace (text_at attrs k) in if v \<noteq> [] then v else firstAttr attrs ks)"

definition listContains :: "string \<Rightarrow> string \<Rightarrow> bool" where
  "listContains values want =
     list_ex (\<lambda>part. TrimSpace part = want) (FieldsFunc (\<lambda>c. c \<in> {CHR '','', CHR '' '', CHR '';''}) values)"

text \<open>Matched, and unknown.\<close>

definition guardrailSubjectMatch :: "policy_subject \<Rightarrow> action_target \<Rightarrow> bool \<times> bool" where
  "guardrailSubjectMatch subject target =
     (if su_Type subject = [] \<or> su_Ref subject = [] then (False, False)
      else if Granularity target = ''subject'' \<and>
          (Value target = su_Ref subject \<or> Value target = su_Type subject @ '':'' @ su_Ref subject) then (True, False)
      else
        (let attrs = Attributes target;
             subjectType = firstAttr attrs [''subject_type'', ''subject.type'', ''subjectType''];
             subjectRef = firstAttr attrs [''subject_ref'', ''subject.ref'', ''subjectRef''];
             groups = firstAttr attrs [''subject.groups'', ''subject_groups'', ''subjectGroups'', ''group'']
         in if subjectType \<noteq> [] \<or> subjectRef \<noteq> []
            then (subjectType = su_Type subject \<and> subjectRef = su_Ref subject, False)
            else if su_Type subject = ''group'' \<and> groups \<noteq> [] then (listContains groups (su_Ref subject), False)
            else (False, True)))"

definition guardrailUnknownRejectsHardAction :: "guardrail \<Rightarrow> string \<Rightarrow> string \<Rightarrow> bool" where
  "guardrailUnknownRejectsHardAction g action level =
     (let behavior = (if UnknownBehavior g = [] then ''reject_hard_action'' else UnknownBehavior g) in
      behavior = ''reject_action'' \<or> (behavior = ''reject_hard_action'' \<and> isHardRuntimeAction action level))"

fun first_guardrail :: "guardrail list \<Rightarrow> string \<Rightarrow> string \<Rightarrow> action_target \<Rightarrow> string" where
  "first_guardrail [] action level target = []"
| "first_guardrail (g # gs) action level target =
     (let (matched, unknown) = guardrailSubjectMatch (g_Subject g) target in
      if TrimSpace (g_Type g) \<noteq> ''never'' \<or> \<not> guardrailForbidsAction g action level
      then first_guardrail gs action level target
      else if matched then ''guardrail_violation('' @ g_ID g @ '')''
      else if unknown \<and> guardrailUnknownRejectsHardAction g action level
      then ''guardrail_unknown_match_for_hard_action('' @ g_ID g @ '')''
      else first_guardrail gs action level target)"

definition guardrailDenyReason :: "policy_resolver \<Rightarrow> string \<Rightarrow> string \<Rightarrow> action_target \<Rightarrow> string" where
  "guardrailDenyReason R action level target =
     (if action = [] \<or> level = ''observe'' then [] else first_guardrail (RuntimeGuardrails R) action level target)"

section \<open>Blast radius\<close>

definition any_subject :: "printer \<Rightarrow> (string \<times> go_any) list \<Rightarrow> policy_subject" where
  "any_subject pr item = \<lparr>su_Type = Sprint pr (any_at item ''type''), su_Ref = Sprint pr (any_at item ''ref'')\<rparr>"

definition trimmed_subject :: "policy_subject \<Rightarrow> policy_subject" where
  "trimmed_subject s = \<lparr>su_Type = TrimSpace (su_Type s), su_Ref = TrimSpace (su_Ref s)\<rparr>"

definition actionBlastRadiusSubjectList :: "printer \<Rightarrow> go_any \<Rightarrow> policy_subject list" where
  "actionBlastRadiusSubjectList pr raw =
     filter (\<lambda>s. su_Type s \<noteq> [] \<and> su_Ref s \<noteq> [])
       (map trimmed_subject
         (case raw of
            Any_text_maps ms \<Rightarrow> map (\<lambda>m. \<lparr>su_Type = text_at m ''type'', su_Ref = text_at m ''ref''\<rparr>) ms
          | Any_maps ms \<Rightarrow> map (any_subject pr) ms
          | Any_list vs \<Rightarrow> concat (map (\<lambda>v. case v of Any_map m \<Rightarrow> [any_subject pr m] | _ \<Rightarrow> []) vs)
          | _ \<Rightarrow> []))"

definition actionBlastRadiusSubjects :: "printer \<Rightarrow> (string \<times> go_any) list \<Rightarrow> policy_subject list \<times> string" where
  "actionBlastRadiusSubjects pr params =
     (let (subjects, behavior) = (case map_of params ''blast_radius'' of
            Some (Any_map m) \<Rightarrow> (actionBlastRadiusSubjectList pr (any_at m ''excludes''),
                TrimSpace (Sprint pr (any_at m ''unknown_behavior'')))
          | _ \<Rightarrow> ([], []));
          group = TrimSpace (Sprint pr (any_at params ''requires_target_excludes_group''))
      in if group \<noteq> [] \<and> group \<noteq> ''<nil>''
         then (subjects @ [\<lparr>su_Type = ''group'', su_Ref = group\<rparr>], if behavior = [] then ''reject_hard_action'' else behavior)
         else (subjects, behavior))"

definition blastRadiusUnknownRejects :: "string \<Rightarrow> string \<Rightarrow> string \<Rightarrow> bool" where
  "blastRadiusUnknownRejects behavior action level =
     (let behavior = (if behavior = [] then ''reject_hard_action'' else behavior);
          behavior = ReplaceAll (CHR ''-'') (CHR ''_'') (ToLower (TrimSpace behavior))
      in behavior = ''reject_action'' \<or> (behavior = ''reject_hard_action'' \<and> isHardRuntimeAction action level))"

fun first_blast :: "policy_subject list \<Rightarrow> string \<Rightarrow> string \<Rightarrow> string \<Rightarrow> action_target \<Rightarrow> string" where
  "first_blast [] behavior action level target = []"
| "first_blast (s # ss) behavior action level target =
     (let (matched, unknown) = guardrailSubjectMatch s target in
      if matched then ''blast_radius_protected_subject''
      else if unknown \<and> blastRadiusUnknownRejects behavior action level then ''blast_radius_unknown_target''
      else first_blast ss behavior action level target)"

definition actionBlastRadiusDenyReason ::
    "printer \<Rightarrow> (string \<times> go_any) list \<Rightarrow> string \<Rightarrow> string \<Rightarrow> action_target \<Rightarrow> string" where
  "actionBlastRadiusDenyReason pr params action level target =
     (let (subjects, behavior) = actionBlastRadiusSubjects pr params
      in first_blast subjects behavior action level target)"

section \<open>Autonomy\<close>

definition sourceClassifiesAsUnknown :: "printer \<Rightarrow> action_proposal \<Rightarrow> bool" where
  "sourceClassifiesAsUnknown pr p =
     list_ex (\<lambda>raw. TrimSpace (Sprint pr raw) \<in> {''unknown'', ''unknown_source''})
       (map (any_at (pr_Parameters p)) [''source_class'', ''source_selector'', ''selector''] @
        map (\<lambda>k. Any_text (text_at (Attributes (pr_Target p)) k)) [''source_class'', ''source_selector'', ''selector''])"

text \<open>The first allowance for unknown sources decides.\<close>

definition autonomySubjectAllowanceDenyReason :: "printer \<Rightarrow> policy_resolver \<Rightarrow> string \<Rightarrow> action_proposal \<Rightarrow> string" where
  "autonomySubjectAllowanceDenyReason pr R action p =
     (case RuntimeAutonomyLifecycle R of
        None \<Rightarrow> []
      | Some a \<Rightarrow>
          if action \<noteq> [] \<and>
             list_ex (\<lambda>al. TrimSpace (al_Action al) = action \<and>
               su_Type (al_Subject al) = ''source'' \<and> su_Ref (al_Subject al) = ''unknown'') (Allow a) \<and>
             \<not> sourceClassifiesAsUnknown pr p
          then ''autonomy_subject_not_allowed(source:unknown)'' else [])"

fun boolAny :: "go_any \<Rightarrow> bool" where
  "boolAny (Any_bool b) = b"
| "boolAny (Any_text s) = (ParseBool (TrimSpace s) = Some True)"
| "boolAny v = False"

definition approvalGranted :: "(string \<times> go_any) list \<Rightarrow> bool" where
  "approvalGranted params =
     list_ex (\<lambda>k. boolAny (any_at params k)) [''approval_granted'', ''operator_approved'', ''approved'']"

definition autonomyApprovalDenyReason :: "policy_resolver \<Rightarrow> string \<Rightarrow> (string \<times> go_any) list \<Rightarrow> string" where
  "autonomyApprovalDenyReason R action params =
     (case RuntimeAutonomyLifecycle R of
        None \<Rightarrow> []
      | Some a \<Rightarrow>
          if action \<noteq> [] \<and> list_ex (\<lambda>q. TrimSpace q = action) (ApprovalRequired a) \<and> \<not> approvalGranted params
          then ''autonomy_approval_required('' @ action @ '')'' else [])"

definition autonomyMaxActionDuration :: "policy_resolver \<Rightarrow> string \<Rightarrow> duration" where
  "autonomyMaxActionDuration R action =
     (case RuntimeAutonomyLifecycle R of
        None \<Rightarrow> 0
      | Some a \<Rightarrow>
          if action = [] then 0
          else case find (\<lambda>(q, limit). TrimSpace q = action \<and> limit > 0) (MaxActionDuration a) of
                 None \<Rightarrow> 0 | Some (q, limit) \<Rightarrow> limit)"

definition autonomyRequiresAudit :: "policy_resolver \<Rightarrow> bool" where
  "autonomyRequiresAudit R = (case RuntimeAutonomyLifecycle R of None \<Rightarrow> False | Some a \<Rightarrow> RequiresAudit a)"

definition appendResolutionReason :: "string \<Rightarrow> string \<Rightarrow> string" where
  "appendResolutionReason existing reason = (if existing = [] then reason else existing @ '','' @ reason)"

section \<open>The resolver\<close>

text \<open>The ceiling of the policy: the action, the level and the reason of a downgrade.\<close>

definition ceiling_of :: "policy_resolver \<Rightarrow> action_proposal \<Rightarrow> string \<times> string \<times> string" where
  "ceiling_of R p =
     (if PolicyMaxAction R = ''rate_limit'' \<and> (pr_DesiredLevel p = ''block'' \<or> pr_DesiredLevel p = ''hard'')
      then (''enforce.traffic.rate_limit'', ''soft'', ''policy_max_action_ceiling'')
      else if PolicyMaxAction R = ''rate_limit_hard'' \<and> pr_DesiredLevel p = ''block''
      then (''enforce.traffic.rate_limit'', ''hard'', ''policy_max_action_ceiling'')
      else (pr_DesiredAction p, pr_DesiredLevel p, []))"

definition capability_reason :: "policy_resolver \<Rightarrow> string \<Rightarrow> string" where
  "capability_reason R action =
     (if CapabilitiesAllowed R \<noteq> [] \<and> action \<noteq> [] \<and> map_of (CapabilitiesAllowed R) action \<noteq> Some True
      then ''capability_not_in_policy_pack('' @ action @ '')'' else [])"

fun first_reason :: "string list \<Rightarrow> string" where
  "first_reason [] = []"
| "first_reason (r # rs) = (if r \<noteq> [] then r else first_reason rs)"

definition deny_reason :: "printer \<Rightarrow> policy_resolver \<Rightarrow> action_proposal \<Rightarrow> string \<Rightarrow> string \<Rightarrow> string" where
  "deny_reason pr R p action level =
     first_reason
       [capability_reason R action,
        guardrailDenyReason R action level (pr_Target p),
        actionBlastRadiusDenyReason pr (pr_Parameters p) action level (pr_Target p),
        autonomySubjectAllowanceDenyReason pr R action p,
        autonomyApprovalDenyReason R action (pr_Parameters p)]"

definition base_resolution :: "action_proposal \<Rightarrow> action_resolution" where
  "base_resolution p =
     \<lparr>re_ProposalID = pr_ID p, Allowed = False, DenyReason = [], RequestedAction = pr_DesiredAction p,
      RequestedLevel = pr_DesiredLevel p, ExecutableAction = [], ExecutableLevel = [], re_Target = pr_Target p,
      re_Parameters = pr_Parameters p, re_TTL = pr_TTL p, re_PolicyID = [], re_DecisionID = []\<rparr>"

definition Resolve :: "printer \<Rightarrow> policy_resolver \<Rightarrow> action_proposal \<Rightarrow> action_resolution" where
  "Resolve pr R p =
     (let base = base_resolution p in
      if Mode R \<noteq> ''managed'' then
        base\<lparr>Allowed := True, ExecutableAction := pr_DesiredAction p, ExecutableLevel := pr_DesiredLevel p\<rparr>
      else if \<not> HasPolicyPack R then
        base\<lparr>Allowed := True, ExecutableLevel := ''observe'', DenyReason := ''managed_no_policy_pack''\<rparr>
      else if PolicyMaxAction R = ''observe'' then
        base\<lparr>Allowed := True, ExecutableLevel := ''observe'',
          DenyReason := (if pr_DesiredLevel p \<noteq> ''observe'' then ''policy_max_action_observe'' else [])\<rparr>
      else
        (let (execAction, execLevel, downgradeReason) = ceiling_of R p;
             reason = deny_reason pr R p execAction execLevel
         in if reason \<noteq> [] then base\<lparr>DenyReason := reason, ExecutableLevel := ''observe''\<rparr>
            else
              (let maxDuration = autonomyMaxActionDuration R execAction;
                   clamped = maxDuration > 0 \<and> re_TTL base > maxDuration
               in base\<lparr>re_TTL := (if clamped then maxDuration else re_TTL base),
                    re_Parameters := (if autonomyRequiresAudit R
                       then AList.update ''requires_audit_receipt'' (Any_bool True) (re_Parameters base) else re_Parameters base),
                    Allowed := True, ExecutableAction := execAction, ExecutableLevel := execLevel,
                    DenyReason := (if clamped
                       then appendResolutionReason downgradeReason ''autonomy_max_action_duration_clamped''
                       else downgradeReason)\<rparr>)))"

section \<open>Levels and their names\<close>

fun FsmLevelName :: "fsm_level \<Rightarrow> string" where
  "FsmLevelName LevelSoft = ''soft''"
| "FsmLevelName LevelHard = ''hard''"
| "FsmLevelName LevelBlock = ''block''"
| "FsmLevelName LevelObserve = ''observe''"

fun FsmLevelToCapability :: "fsm_level \<Rightarrow> string" where
  "FsmLevelToCapability LevelSoft = ''enforce.traffic.rate_limit''"
| "FsmLevelToCapability LevelHard = ''enforce.traffic.rate_limit''"
| "FsmLevelToCapability LevelBlock = ''enforce.access.deny''"
| "FsmLevelToCapability LevelObserve = []"

definition ParseFSMLevel :: "string \<Rightarrow> fsm_level" where
  "ParseFSMLevel s =
     (if s = ''soft'' then LevelSoft else if s = ''hard'' then LevelHard
      else if s = ''block'' then LevelBlock else LevelObserve)"

lemma ParseFSMLevel_name [simp]: "ParseFSMLevel (FsmLevelName l) = l"
  by (cases l) (simp_all add: ParseFSMLevel_def)

end
