(* ===== verification/Resolver_Laws.thy ===== *)
theory Resolver_Laws
  imports Action_Resolver
begin

text \<open>
  What the resolver guarantees: ceilings and guardrails hold, denials observe. And three ways around it.
\<close>

section \<open>Reasons\<close>

lemma first_reason_none: "first_reason rs = [] \<longleftrightarrow> (\<forall>r \<in> set rs. r = [])"
  by (induction rs) auto

lemma first_guardrail_none:
  assumes "first_guardrail gs action level target = []" "g \<in> set gs"
    and "TrimSpace (g_Type g) = ''never''" "guardrailForbidsAction g action level"
  shows "\<not> fst (guardrailSubjectMatch (g_Subject g) target) \<and>
    (snd (guardrailSubjectMatch (g_Subject g) target) \<longrightarrow> \<not> guardrailUnknownRejectsHardAction g action level)"
  using assms by (induction gs) (auto split: prod.splits if_splits)

lemma Resolve_cases:
  assumes "Mode R = ''managed''"
  obtains (observed) "\<not> HasPolicyPack R \<or> PolicyMaxAction R = ''observe''" "Allowed (Resolve pr R p)"
      "ExecutableLevel (Resolve pr R p) = ''observe''" "re_TTL (Resolve pr R p) = pr_TTL p"
    | (denied) "HasPolicyPack R" "PolicyMaxAction R \<noteq> ''observe''" "\<not> Allowed (Resolve pr R p)"
      "ExecutableLevel (Resolve pr R p) = ''observe''" "re_TTL (Resolve pr R p) = pr_TTL p"
    | (passed) action level why where "HasPolicyPack R" "PolicyMaxAction R \<noteq> ''observe''"
      "ceiling_of R p = (action, level, why)" "deny_reason pr R p action level = []" "Allowed (Resolve pr R p)"
      "ExecutableAction (Resolve pr R p) = action" "ExecutableLevel (Resolve pr R p) = level"
      "re_TTL (Resolve pr R p) = (if autonomyMaxActionDuration R action > 0 \<and> pr_TTL p > autonomyMaxActionDuration R action
         then autonomyMaxActionDuration R action else pr_TTL p)"
proof (cases "\<not> HasPolicyPack R \<or> PolicyMaxAction R = ''observe''")
  case True
  with assms observed show thesis by (auto simp: Resolve_def Let_def base_resolution_def)
next
  case False
  obtain action level why where c: "ceiling_of R p = (action, level, why)" by (rule prod_cases3)
  show thesis
  proof (cases "deny_reason pr R p action level = []")
    case True
    with assms False c show thesis
      by (intro passed [of action level why]) (simp_all add: Resolve_def Let_def base_resolution_def)
  next
    case nope: False
    with assms False c show thesis
      by (intro denied) (simp_all add: Resolve_def Let_def base_resolution_def)
  qed
qed

text \<open>The strongest level a policy allows.\<close>

definition policy_cap :: "policy_resolver \<Rightarrow> fsm_level" where
  "policy_cap R =
     (if Mode R \<noteq> ''managed'' then LevelBlock
      else if \<not> HasPolicyPack R \<or> PolicyMaxAction R = ''observe'' then LevelObserve
      else if PolicyMaxAction R = ''rate_limit'' then LevelSoft
      else if PolicyMaxAction R = ''rate_limit_hard'' then LevelHard else LevelBlock)"

lemma trim_nil [simp]: "TrimSpace ''<nil>'' = ''<nil>''"
  by (simp add: TrimSpace_def is_space_def)

lemma ceiling_level:
  assumes "ceiling_of R p = (action, level, why)" "HasPolicyPack R" "PolicyMaxAction R \<noteq> ''observe''"
  shows "ParseFSMLevel level \<le> policy_cap R \<and> ParseFSMLevel level \<le> ParseFSMLevel (pr_DesiredLevel p)"
proof -
  have le: "LevelSoft \<le> LevelHard" by (rule less_imp_le) simp
  show ?thesis
    using assms le
    by (simp add: ceiling_of_def policy_cap_def split: if_splits) (auto simp: ParseFSMLevel_def)
qed

text \<open>
  What a guardrail of kind \<open>never\<close> forbids, as the policies state it: on its subject, and on a target whose
  subject is not known when it rejects those, the actions it lists, in any of their spellings; one that
  lists \<open>auto_block\<close> forbids the level block and the four hard actions.
\<close>

definition lists_action :: "guardrail \<Rightarrow> string \<Rightarrow> string \<Rightarrow> bool" where
  "lists_action g action level \<longleftrightarrow>
     (normalizeGuardrailAction action \<noteq> [] \<and>
        normalizeGuardrailAction action \<noteq> ''auto_block'' \<and>
        normalizeGuardrailAction action \<in> normalizeGuardrailAction ` set (ForbiddenActions g)) \<or>
     (''auto_block'' \<in> normalizeGuardrailAction ` set (ForbiddenActions g) \<and>
        (level = ''block'' \<or> normalizeGuardrailAction action \<in> hard_actions))"

definition concerns :: "guardrail \<Rightarrow> action_target \<Rightarrow> string \<Rightarrow> string \<Rightarrow> bool" where
  "concerns g target action level \<longleftrightarrow>
     (case guardrailSubjectMatch (g_Subject g) target of (matched, unknown) \<Rightarrow>
        matched \<or> unknown \<and> guardrailUnknownRejectsHardAction g action level)"

definition forbidden_by :: "guardrail \<Rightarrow> action_target \<Rightarrow> string \<Rightarrow> string \<Rightarrow> bool" where
  "forbidden_by g target action level \<longleftrightarrow>
     TrimSpace (g_Type g) = ''never'' \<and> lists_action g action level \<and> concerns g target action level"

lemma lists_action_forbids: "lists_action g action level \<Longrightarrow> guardrailForbidsAction g action level"
  unfolding lists_action_def guardrailForbidsAction_def list_ex_iff
  by (elim disjE conjE imageE) (auto simp: guardrailActionMatches_def Let_def)

lemma forbidden_denied:
  assumes "g \<in> set (RuntimeGuardrails R)" "forbidden_by g (pr_Target p) action level" "action \<noteq> []" "level \<noteq> ''observe''"
  shows "deny_reason pr R p action level \<noteq> []"
proof
  assume "deny_reason pr R p action level = []"
  then have "guardrailDenyReason R action level (pr_Target p) = []"
    unfolding deny_reason_def first_reason_none by simp
  then have "first_guardrail (RuntimeGuardrails R) action level (pr_Target p) = []"
    using assms(3,4) by (simp add: guardrailDenyReason_def)
  from first_guardrail_none [OF this assms(1)] assms(2) lists_action_forbids [of g action level] show False
    by (auto simp: forbidden_by_def concerns_def split: prod.splits)
qed

lemma passed_capability:
  "deny_reason pr R p action level = [] \<Longrightarrow> action \<noteq> [] \<Longrightarrow> CapabilitiesAllowed R \<noteq> [] \<Longrightarrow>
     map_of (CapabilitiesAllowed R) action = Some True"
  unfolding deny_reason_def first_reason_none by (simp add: capability_reason_def split: if_splits)

text \<open>
  C18: The resolver keeps the policy. In managed mode, whatever is proposed, the level that may be
  executed is at most the level proposed and at most the ceiling of the policy; what is not allowed is
  observed; and the time is not longer than proposed. When the proposal names an action, what may be
  executed beyond observing is an action the policy grants, and no guardrail of kind \<open>never\<close> forbids it,
  at the level it is executed, on the target.
\<close>

theorem resolver_keeps_policy:
  assumes "Mode R = ''managed''"
  shows "ParseFSMLevel (ExecutableLevel (Resolve pr R p)) \<le> policy_cap R \<and>
    ParseFSMLevel (ExecutableLevel (Resolve pr R p)) \<le> ParseFSMLevel (pr_DesiredLevel p) \<and>
    (Allowed (Resolve pr R p) \<or> ExecutableLevel (Resolve pr R p) = ''observe'') \<and>
    re_TTL (Resolve pr R p) \<le> pr_TTL p \<and>
    (pr_DesiredAction p \<noteq> [] \<and> ExecutableLevel (Resolve pr R p) \<noteq> ''observe'' \<longrightarrow>
      (CapabilitiesAllowed R \<noteq> [] \<longrightarrow> map_of (CapabilitiesAllowed R) (ExecutableAction (Resolve pr R p)) = Some True) \<and>
      (\<forall>g \<in> set (RuntimeGuardrails R).
        \<not> forbidden_by g (pr_Target p) (ExecutableAction (Resolve pr R p)) (ExecutableLevel (Resolve pr R p))))"
  using assms
proof (cases rule: Resolve_cases [of R pr p])
  case (passed action level why)
  have "pr_DesiredAction p \<noteq> [] \<longrightarrow> action \<noteq> []" using passed(3) by (auto simp: ceiling_of_def split: if_splits)
  with passed ceiling_level [OF passed(3,1,2)] forbidden_denied [of _ R p action level pr]
    passed_capability [OF passed(4)] show ?thesis by auto
qed (simp_all add: ParseFSMLevel_def)

section \<open>Around the resolver\<close>

text \<open>
  Capabilities do not bound the level. A policy that allows nothing but rate limits, with no ceiling,
  lets a proposal pass whose capability is the rate limit and whose level is the block.
\<close>

theorem capability_does_not_bound_level:
  assumes "Mode R = ''managed''" "HasPolicyPack R" "PolicyMaxAction R = []" "RuntimeGuardrails R = []"
    and "RuntimeAutonomyLifecycle R = None" "CapabilitiesAllowed R = [(''enforce.traffic.rate_limit'', True)]"
    and "pr_DesiredAction p = ''enforce.traffic.rate_limit''" "pr_DesiredLevel p = ''block''" "pr_Parameters p = []"
  shows "Allowed (Resolve pr R p) \<and> ParseFSMLevel (ExecutableLevel (Resolve pr R p)) = LevelBlock"
  using assms
  by (simp add: Resolve_def Let_def base_resolution_def ceiling_of_def deny_reason_def capability_reason_def
      guardrailDenyReason_def actionBlastRadiusDenyReason_def actionBlastRadiusSubjects_def any_at_def
      autonomySubjectAllowanceDenyReason_def autonomyApprovalDenyReason_def autonomyMaxActionDuration_def
      autonomyRequiresAudit_def ParseFSMLevel_def)

text \<open>A target nothing is known about.\<close>

definition bare_target :: "string \<Rightarrow> action_target" where
  "bare_target v = \<lparr>Granularity = ''source'', Value = v, Attributes = []\<rparr>"

lemma bare_target_unknown:
  "su_Type s \<noteq> [] \<Longrightarrow> su_Ref s \<noteq> [] \<Longrightarrow> guardrailSubjectMatch s (bare_target v) = (False, True)"
  by (simp add: guardrailSubjectMatch_def bare_target_def text_at_def TrimSpace_def Let_def)

text \<open>
  The default of the blast radius is lost. Excluded groups protect an unknown target from hard actions
  when the behavior for unknown targets is the empty text; when it is left out, which the code means
  to treat alike, its printed form is \<open><nil>\<close>, and the block passes.
\<close>

definition excluding :: "(string \<times> go_any) list \<Rightarrow> action_proposal" where
  "excluding behavior =
     \<lparr>pr_ID = ''p'', pr_DesiredAction = ''enforce.traffic.drop'', pr_DesiredLevel = ''block'',
      pr_Target = bare_target ''10.0.0.1'',
      pr_Parameters = [(''blast_radius'', Any_map ((''excludes'',
          Any_maps [[(''type'', Any_text ''group''), (''ref'', Any_text ''admins'')]]) # behavior))],
      pr_TTL = 60000000000\<rparr>"

definition open_policy :: policy_resolver where
  "open_policy = \<lparr>Mode = ''managed'', HasPolicyPack = True, PolicyMaxAction = [], CapabilitiesAllowed = [],
     RuntimeGuardrails = [], RuntimeAutonomyLifecycle = None\<rparr>"

lemma excluding_subjects:
  "actionBlastRadiusSubjects pr (pr_Parameters (excluding behavior)) =
     ([\<lparr>su_Type = ''group'', su_Ref = ''admins''\<rparr>],
      TrimSpace (Sprint pr (any_at ((''excludes'',
        Any_maps [[(''type'', Any_text ''group''), (''ref'', Any_text ''admins'')]]) # behavior) ''unknown_behavior'')))"
  by (simp add: excluding_def actionBlastRadiusSubjects_def actionBlastRadiusSubjectList_def any_at_def any_subject_def
      trimmed_subject_def TrimSpace_def is_space_def Let_def)

theorem blast_radius_default_is_lost:
  "ExecutableLevel (Resolve pr open_policy (excluding [(''unknown_behavior'', Any_text [])])) = ''observe'' \<and>
   ExecutableLevel (Resolve pr open_policy (excluding [])) = ''block''"
proof -
  have t: "guardrailSubjectMatch \<lparr>su_Type = ''group'', su_Ref = ''admins''\<rparr> (pr_Target (excluding b)) = (False, True)" for b
    by (simp add: excluding_def bare_target_unknown)
  have a: "pr_DesiredAction (excluding b) = ''enforce.traffic.drop''" "pr_DesiredLevel (excluding b) = ''block''" for b
    by (simp_all add: excluding_def)
  have 1: "actionBlastRadiusDenyReason pr (pr_Parameters (excluding [(''unknown_behavior'', Any_text [])]))
      ''enforce.traffic.drop'' ''block'' (pr_Target (excluding [(''unknown_behavior'', Any_text [])])) \<noteq> []"
    by (simp add: actionBlastRadiusDenyReason_def excluding_subjects t any_at_def TrimSpace_def is_space_def
        blastRadiusUnknownRejects_def ToLower_def ReplaceAll_def isHardRuntimeAction_def)
  have 2: "actionBlastRadiusDenyReason pr (pr_Parameters (excluding [])) ''enforce.traffic.drop'' ''block'' (pr_Target (excluding [])) = []"
    by (simp add: actionBlastRadiusDenyReason_def excluding_subjects t any_at_def TrimSpace_def is_space_def
        blastRadiusUnknownRejects_def ToLower_def ReplaceAll_def)
  have "deny_reason pr open_policy (excluding [(''unknown_behavior'', Any_text [])]) ''enforce.traffic.drop'' ''block'' \<noteq> []"
    using 1 unfolding deny_reason_def first_reason_none by simp
  moreover have "deny_reason pr open_policy (excluding []) ''enforce.traffic.drop'' ''block'' = []"
    using 2 by (simp add: deny_reason_def open_policy_def capability_reason_def guardrailDenyReason_def
        autonomySubjectAllowanceDenyReason_def autonomyApprovalDenyReason_def)
  ultimately show ?thesis
    by (simp add: Resolve_def Let_def a ceiling_of_def base_resolution_def) (simp add: open_policy_def)
qed

text \<open>
  A guardrail that lists actions does not bound the level. The \<open>never\<close> guardrails of the policies list the
  actions that block; a proposal of the rate limit at the level block is none of them and
  passes, although the level is what is executed.
\<close>

theorem listed_actions_do_not_bound_level:
  assumes "Mode R = ''managed''" "HasPolicyPack R" "PolicyMaxAction R = []" "CapabilitiesAllowed R = []"
    and "RuntimeAutonomyLifecycle R = None"
    and "\<forall>g \<in> set (RuntimeGuardrails R). set (ForbiddenActions g) \<subseteq> hard_actions"
    and "pr_DesiredAction p = ''enforce.traffic.rate_limit''" "pr_DesiredLevel p = ''block''" "pr_Parameters p = []"
  shows "Allowed (Resolve pr R p) \<and> ParseFSMLevel (ExecutableLevel (Resolve pr R p)) = LevelBlock"
proof -
  have rl: "normalizeGuardrailAction ''enforce.traffic.rate_limit'' = ''enforce.traffic.rate_limit''"
    by (simp add: normalizeGuardrailAction_def ReplaceAll_def TrimSpace_def is_space_def)
  have hard: "normalizeGuardrailAction h = h" if "h \<in> hard_actions" for h
    using that unfolding hard_actions_def
    by (elim insertE emptyE) (simp_all add: normalizeGuardrailAction_def ReplaceAll_def TrimSpace_def is_space_def)
  have "h \<notin> {''enforce.traffic.rate_limit'', ''auto_block''}" if "h \<in> hard_actions" for h
    using that by (auto simp: hard_actions_def)
  then have miss: "\<not> guardrailActionMatches h ''enforce.traffic.rate_limit'' ''block''" if "h \<in> hard_actions" for h
    using that unfolding guardrailActionMatches_def Let_def hard [OF that] rl by simp
  have "\<not> guardrailForbidsAction g ''enforce.traffic.rate_limit'' ''block''" if "g \<in> set (RuntimeGuardrails R)" for g
    unfolding guardrailForbidsAction_def list_ex_iff using assms(6) that miss by blast
  then have "first_guardrail gs ''enforce.traffic.rate_limit'' ''block'' t = []" if "set gs \<subseteq> set (RuntimeGuardrails R)" for gs t
    using that by (induction gs) (auto split: prod.split)
  then have "guardrailDenyReason R ''enforce.traffic.rate_limit'' ''block'' (pr_Target p) = []"
    by (simp add: guardrailDenyReason_def)
  with assms show ?thesis
    by (simp add: Resolve_def Let_def base_resolution_def ceiling_of_def deny_reason_def capability_reason_def
        actionBlastRadiusDenyReason_def actionBlastRadiusSubjects_def any_at_def
        autonomySubjectAllowanceDenyReason_def autonomyApprovalDenyReason_def autonomyMaxActionDuration_def
        autonomyRequiresAudit_def ParseFSMLevel_def)
qed

text \<open>The guardrail of the repository's tests: no hard action on administrators.\<close>

definition never_block_admins :: guardrail where
  "never_block_admins = \<lparr>g_ID = ''never-auto-block-admins'', g_Type = ''never'',
     g_Subject = \<lparr>su_Type = ''group'', su_Ref = ''kernloom-admins''\<rparr>,
     ForbiddenActions = [''enforce.access.deny'', ''enforce.traffic.drop'', ''enforce.network.quarantine'', ''enforce.identity.disable''],
     UnknownBehavior = ''reject_hard_action''\<rparr>"

definition guarded_policy :: policy_resolver where
  "guarded_policy = open_policy\<lparr>RuntimeGuardrails := [never_block_admins]\<rparr>"

lemma admins_forbidden: "forbidden_by never_block_admins (bare_target v) ''enforce.traffic.drop'' ''block''"
proof -
  have "normalizeGuardrailAction ''enforce.traffic.drop'' = ''enforce.traffic.drop''"
    by (simp add: normalizeGuardrailAction_def ReplaceAll_def TrimSpace_def is_space_def)
  then show ?thesis
    by (simp add: forbidden_by_def lists_action_def concerns_def never_block_admins_def bare_target_unknown
        guardrailUnknownRejectsHardAction_def isHardRuntimeAction_def TrimSpace_def is_space_def)
qed

theorem resolver_keeps_policy_witness:
  "(ExecutableAction (Resolve (\<lambda>v. []) guarded_policy (excluding [])),
    ExecutableLevel (Resolve (\<lambda>v. []) guarded_policy (excluding []))) \<noteq> (''enforce.traffic.drop'', ''block'')"
  using resolver_keeps_policy [of guarded_policy "\<lambda>v. []" "excluding []"] admins_forbidden [of "''10.0.0.1''"]
  by (auto simp: guarded_policy_def open_policy_def excluding_def)

theorem listed_actions_do_not_bound_level_witness:
  "ParseFSMLevel (ExecutableLevel (Resolve (\<lambda>v. []) guarded_policy
     ((excluding [])\<lparr>pr_DesiredAction := ''enforce.traffic.rate_limit'', pr_Parameters := []\<rparr>))) = LevelBlock"
  using listed_actions_do_not_bound_level [of guarded_policy
      "(excluding [])\<lparr>pr_DesiredAction := ''enforce.traffic.rate_limit'', pr_Parameters := []\<rparr>" "\<lambda>v. []"]
  by (auto simp: guarded_policy_def open_policy_def excluding_def never_block_admins_def hard_actions_def)

end
