(* ===== verification/Lease_Store.thy ===== *)
theory Lease_Store
  imports Go_Text Source_Fsm "HOL-Library.Char_ord" "HOL-Library.List_Lexorder" "HOL-Library.Product_Lexorder"
begin

text \<open>
  The journal of enforcement leases (\<open>src/pkg/statestore/sqlite/action_leases.go\<close>, with the lease of
  \<open>src/pkg/core/decision/decision.go\<close>): a table of a database, whose columns are texts. The database is
  library code, its statements are not: each is the function on rows that its text describes. Any call
  of the database may fail, and which ones do is a parameter, the outage; a call that fails changes no row.
\<close>

section \<open>Instants as texts\<close>

text \<open>
  Instants are stored in the format \<open>RFC3339Nano\<close>, which prints whole seconds in a fixed width and of the
  nanoseconds only the digits up to the last that is not zero, and are compared as texts. The part up
  to the seconds is ordered as the number of seconds, and is represented by it. The zero instant is
  the empty text.
\<close>

datatype time_text = No_time | Stamp int string

instantiation time_text :: linorder
begin

definition less_eq_time_text :: "time_text \<Rightarrow> time_text \<Rightarrow> bool" where
  "t \<le> u \<longleftrightarrow> (case (t, u) of
     (No_time, _) \<Rightarrow> True
   | (Stamp s f, No_time) \<Rightarrow> False
   | (Stamp s f, Stamp s' f') \<Rightarrow> (s, f) \<le> (s', f'))"

definition less_time_text :: "time_text \<Rightarrow> time_text \<Rightarrow> bool" where
  "(t :: time_text) < u \<longleftrightarrow> t \<le> u \<and> \<not> u \<le> t"

instance
proof
  fix t u v :: time_text
  show "t < u \<longleftrightarrow> t \<le> u \<and> \<not> u \<le> t" by (simp add: less_time_text_def)
  show "t \<le> t" by (auto simp: less_eq_time_text_def split: time_text.splits)
  show "t \<le> u \<Longrightarrow> u \<le> v \<Longrightarrow> t \<le> v"
    by (cases t; cases u; cases v) (auto simp: less_eq_time_text_def)
  show "t \<le> u \<Longrightarrow> u \<le> t \<Longrightarrow> t = u"
    by (cases t; cases u) (auto simp: less_eq_time_text_def)
  show "t \<le> u \<or> u \<le> t"
    by (cases t; cases u) (auto simp: less_eq_time_text_def)
qed

end

definition nine_digits :: "nat \<Rightarrow> string" where
  "nine_digits n = map (\<lambda>i. char_of (48 + n div 10 ^ i mod 10)) (rev [0..<9])"

definition fraction_text :: "nat \<Rightarrow> string" where
  "fraction_text n =
     (if n = 0 then ''Z''
      else CHR ''.'' # rev (dropWhile (\<lambda>c. c = CHR ''0'') (rev (nine_digits n))) @ ''Z'')"

definition formatTime :: "instant \<Rightarrow> time_text" where
  "formatTime t = (if t = zero_time then No_time else Stamp (t div 10 ^ 9) (fraction_text (nat (t mod 10 ^ 9))))"

section \<open>Leases\<close>

datatype lease_status =
    Lease_pending | Lease_active | Lease_reverted | Lease_expired | Lease_superseded | Lease_failed | Lease_conflict

text \<open>
  The metadata, a Go map from texts to texts, is an association list without repeated keys. It is stored as JSON,
  which gives valid UTF-8 back as it was, so the column holds the list itself.
\<close>

record action_lease =
  LeaseID :: string
  le_DecisionID :: string
  le_ProposalID :: string
  le_NodeID :: string
  le_AdapterID :: string
  le_Target :: string
  le_Action :: string
  le_Level :: string
  le_Status :: lease_status
  le_Token :: string
  le_PolicyID :: string
  le_BundleID :: string
  le_Reason :: string
  le_AppliedAt :: instant
  le_ExpiresAt :: instant
  le_RevertedAt :: "instant option"
  LastError :: string
  le_Metadata :: "(string \<times> string) list"

definition no_lease :: action_lease where
  "no_lease = \<lparr>LeaseID = [], le_DecisionID = [], le_ProposalID = [], le_NodeID = [], le_AdapterID = [],
     le_Target = [], le_Action = [], le_Level = [], le_Status = Lease_pending, le_Token = [], le_PolicyID = [],
     le_BundleID = [], le_Reason = [], le_AppliedAt = zero_time, le_ExpiresAt = zero_time, le_RevertedAt = None,
     LastError = [], le_Metadata = []\<rparr>"

section \<open>Statements\<close>

record lease_db =
  rows :: "action_lease list"
  calls :: nat

text \<open>The error of each call of the database, for those that fail.\<close>

type_synonym outage = "nat \<Rightarrow> string option"

definition db_call :: "outage \<Rightarrow> (action_lease list \<Rightarrow> (string + 'a) \<times> action_lease list) \<Rightarrow> lease_db \<Rightarrow> (string + 'a) \<times> lease_db" where
  "db_call F f d =
     (let d' = d\<lparr>calls := Suc (calls d)\<rparr> in
      case F (calls d) of
        Some e \<Rightarrow> (Inl e, d')
      | None \<Rightarrow> (let (x, rs) = f (rows d) in (x, d'\<lparr>rows := rs\<rparr>)))"

fun upsert :: "action_lease \<Rightarrow> action_lease list \<Rightarrow> action_lease list" where
  "upsert l [] = [l]"
| "upsert l (r # rs) = (if LeaseID r = LeaseID l then l # rs else r # upsert l rs)"

definition UpsertActionLease :: "outage \<Rightarrow> action_lease \<Rightarrow> lease_db \<Rightarrow> (string + unit) \<times> lease_db" where
  "UpsertActionLease F l = db_call F (\<lambda>rs. (Inr (), upsert l rs))"

text \<open>A row whose instants are empty texts cannot be read back; an empty \<open>reverted_at\<close> reads as none.\<close>

definition scanActionLease :: "action_lease \<Rightarrow> string + action_lease" where
  "scanActionLease r =
     (if formatTime (le_AppliedAt r) = No_time then Inl ''parse applied_at''
      else if formatTime (le_ExpiresAt r) = No_time then Inl ''parse expires_at''
      else Inr (r\<lparr>le_RevertedAt := (case le_RevertedAt r of
             None \<Rightarrow> None | Some t \<Rightarrow> if formatTime t = No_time then None else Some t)\<rparr>))"

fun scan_all :: "action_lease list \<Rightarrow> string + action_lease list" where
  "scan_all [] = Inr []"
| "scan_all (r # rs) =
     (case scanActionLease r of
        Inl e \<Rightarrow> Inl e
      | Inr l \<Rightarrow> (case scan_all rs of Inl e \<Rightarrow> Inl e | Inr ls \<Rightarrow> Inr (l # ls)))"

text \<open>\<open>ORDER BY expires_at DESC, applied_at DESC, lease_id DESC LIMIT 1\<close>.\<close>

definition lease_key :: "action_lease \<Rightarrow> time_text \<times> time_text \<times> string" where
  "lease_key l = (formatTime (le_ExpiresAt l), formatTime (le_AppliedAt l), LeaseID l)"

fun newest :: "action_lease list \<Rightarrow> action_lease option" where
  "newest [] = None"
| "newest (r # rs) = (case newest rs of None \<Rightarrow> Some r | Some m \<Rightarrow> if lease_key r < lease_key m then Some m else Some r)"

definition matches :: "string \<Rightarrow> string \<Rightarrow> string \<Rightarrow> string \<Rightarrow> action_lease \<Rightarrow> bool" where
  "matches adapterID target action level r \<longleftrightarrow>
     le_AdapterID r = adapterID \<and> le_Target r = target \<and> le_Action r = action \<and> le_Level r = level \<and>
     le_Status r = Lease_active"

definition FindActiveActionLease ::
    "outage \<Rightarrow> string \<Rightarrow> string \<Rightarrow> string \<Rightarrow> string \<Rightarrow> lease_db \<Rightarrow> (string + action_lease option) \<times> lease_db" where
  "FindActiveActionLease F adapterID target action level =
     db_call F (\<lambda>rs.
       (case newest (filter (matches adapterID target action level) rs) of
          None \<Rightarrow> Inr None
        | Some r \<Rightarrow> (case scanActionLease r of Inl e \<Rightarrow> Inl e | Inr l \<Rightarrow> Inr (Some l)), rs))"

text \<open>\<open>ORDER BY expires_at, lease_id\<close>.\<close>

definition by_expiry :: "action_lease list \<Rightarrow> action_lease list" where
  "by_expiry = sort_key (\<lambda>l. (formatTime (le_ExpiresAt l), LeaseID l))"

definition ListActionLeasesByStatus ::
    "outage \<Rightarrow> lease_status \<Rightarrow> lease_db \<Rightarrow> (string + action_lease list) \<times> lease_db" where
  "ListActionLeasesByStatus F status = db_call F (\<lambda>rs. (scan_all (by_expiry (filter (\<lambda>r. le_Status r = status) rs)), rs))"

definition ListExpiredActionLeases ::
    "outage \<Rightarrow> instant \<Rightarrow> lease_db \<Rightarrow> (string + action_lease list) \<times> lease_db" where
  "ListExpiredActionLeases F now =
     db_call F (\<lambda>rs.
       (scan_all (by_expiry (filter (\<lambda>r. le_Status r = Lease_active \<and> formatTime (le_ExpiresAt r) \<le> formatTime now) rs)), rs))"

definition set_status :: "action_lease \<Rightarrow> action_lease \<Rightarrow> action_lease" where
  "set_status l r =
     (if LeaseID r = LeaseID l
      then r\<lparr>le_Status := le_Status l, le_RevertedAt := le_RevertedAt l, LastError := LastError l\<rparr> else r)"

definition UpdateActionLeaseStatus :: "outage \<Rightarrow> action_lease \<Rightarrow> lease_db \<Rightarrow> (string + unit) \<times> lease_db" where
  "UpdateActionLeaseStatus F l = db_call F (\<lambda>rs. (Inr (), map (set_status l) rs))"

section \<open>Sequencing\<close>

definition done_db :: "'a \<Rightarrow> lease_db \<Rightarrow> (string + 'a) \<times> lease_db" where
  "done_db x d = (Inr x, d)"

definition then_db ::
    "(lease_db \<Rightarrow> (string + 'a) \<times> lease_db) \<Rightarrow> ('a \<Rightarrow> lease_db \<Rightarrow> (string + 'b) \<times> lease_db) \<Rightarrow> lease_db \<Rightarrow> (string + 'b) \<times> lease_db" where
  "then_db m f d = (case m d of (Inl e, d') \<Rightarrow> (Inl e, d') | (Inr x, d') \<Rightarrow> f x d')"

text \<open>The same for code that does not pass an error on as it is.\<close>

definition try_db ::
    "(lease_db \<Rightarrow> (string + 'a) \<times> lease_db) \<Rightarrow> (string \<Rightarrow> lease_db \<Rightarrow> 'b) \<Rightarrow> ('a \<Rightarrow> lease_db \<Rightarrow> 'b) \<Rightarrow> lease_db \<Rightarrow> 'b" where
  "try_db m g f d = (case m d of (Inl e, d') \<Rightarrow> g e d' | (Inr x, d') \<Rightarrow> f x d')"

end
