(* ===== verification/Action_Broker.thy ===== *)
theory Action_Broker
  imports Lease_Store Action_Resolver
begin

text \<open>
  The broker of enforcement leases (\<open>src/iq/internal/actionbroker/broker.go\<close>): it applies an authorized
  action through an enforcement point, journals it as a lease with a time of expiry and a fencing
  token, renews, supersedes and reverts leases. The enforcement point is a record of its operations
  over a state of its own; random identifiers and the hash behind a token are arguments.
\<close>

section \<open>The enforcement point and the broker\<close>

record 'w lease_pep =
  AdapterID :: string
  pep_Apply :: "action_lease \<Rightarrow> 'w \<Rightarrow> (string + string) \<times> 'w"
  CurrentFencingToken :: "action_lease \<Rightarrow> 'w \<Rightarrow> string + string"
  pep_Revert :: "action_lease \<Rightarrow> 'w \<Rightarrow> string option \<times> 'w"

record broker =
  nodeID :: string
  autonomyAllowances :: "autonomy_allowance list"
  maxRenewals :: int
  requireAuditReceipt :: bool

text \<open>What a call draws from outside: the clock, the outages of the database, random identifiers, the hash.\<close>

record broker_env =
  e_now :: instant
  e_outage :: outage
  e_decision_id :: string
  e_lease_id :: string
  e_sha256_hex :: "string \<Rightarrow> string"
  e_printer :: printer

datatype receipt_status =
    StatusApplied | StatusFailed | StatusSkipped | StatusReverted | StatusConflict

datatype revert_status = RevertStatusNone | RevertStatusReverted | RevertStatusFailed | RevertStatusConflict

record receipt =
  rc_DecisionID :: string
  rc_NodeID :: string
  rc_AdapterID :: string
  rc_Status :: receipt_status
  rc_RevertStatus :: revert_status
  rc_Message :: string
  rc_LeaseID :: string
  rc_Action :: string
  rc_Target :: string
  rc_Token :: string
  rc_AppliedAt :: instant
  rc_ExpiresAt :: "instant option"
  rc_RevertedAt :: "instant option"

definition NewEnforcementReceipt :: "string \<Rightarrow> string \<Rightarrow> string \<Rightarrow> receipt_status \<Rightarrow> instant \<Rightarrow> receipt" where
  "NewEnforcementReceipt decisionID node adapterID status now =
     \<lparr>rc_DecisionID = decisionID, rc_NodeID = node, rc_AdapterID = adapterID, rc_Status = status,
      rc_RevertStatus = RevertStatusNone, rc_Message = [], rc_LeaseID = [], rc_Action = [], rc_Target = [],
      rc_Token = [], rc_AppliedAt = now, rc_ExpiresAt = None, rc_RevertedAt = None\<rparr>"

definition SetLease :: "action_lease \<Rightarrow> receipt \<Rightarrow> receipt" where
  "SetLease l r =
     r\<lparr>rc_LeaseID := LeaseID l, rc_Action := le_Action l, rc_Target := le_Target l, rc_Token := le_Token l,
       rc_ExpiresAt := Some (le_ExpiresAt l), rc_RevertedAt := le_RevertedAt l\<rparr>"

section \<open>Error texts\<close>

definition changed_text :: "string \<Rightarrow> string" where
  "changed_text key = ''superseded by execution metadata change: '' @ key"

definition superseded_text :: "action_lease \<Rightarrow> string" where
  "superseded_text applied = ''superseded by stronger action '' @ le_Action applied @ '':'' @ le_Level applied"

definition mismatch_text :: "string \<Rightarrow> string \<Rightarrow> string \<Rightarrow> string" where
  "mismatch_text occasion expected got =
     ''fencing token mismatch'' @ occasion @ '': expected '' @ quoted expected @ '' got '' @ quoted got"

definition unexpected_text :: "string \<Rightarrow> string \<Rightarrow> string" where
  "unexpected_text expected got =
     ''PEP returned unexpected fencing token: expected '' @ quoted expected @ '' got '' @ quoted got"

section \<open>Strength of an action\<close>

definition actionLeaseStrength :: "string \<Rightarrow> string \<Rightarrow> nat" where
  "actionLeaseStrength action level =
     (if TrimSpace action \<in> hard_actions then 300
      else if TrimSpace level = ''block'' then 300
      else if TrimSpace level = ''hard'' then 200
      else if TrimSpace level = ''soft'' then 100 else 0)"

definition orderedRuntimeActions :: "string list" where
  "orderedRuntimeActions =
     [''enforce.traffic.drop'', ''enforce.access.deny'', ''enforce.network.quarantine'',
      ''enforce.identity.disable'', ''enforce.traffic.rate_limit'']"

definition runtimeActionsWithRequested :: "string \<Rightarrow> string list" where
  "runtimeActionsWithRequested requested =
     (let r = TrimSpace requested in
      if r = [] \<or> r \<in> set orderedRuntimeActions
      then (if r = [] then [] else [r]) @ filter (\<lambda>a. a \<noteq> r) orderedRuntimeActions
      else r # orderedRuntimeActions)"

definition lease_slots :: "string \<Rightarrow> string list \<Rightarrow> (string \<times> string) list" where
  "lease_slots action levels = concat (map (\<lambda>a. map (Pair a) levels) (runtimeActionsWithRequested action))"

section \<open>Gates before a lease\<close>

fun find_any :: "outage \<Rightarrow> string \<Rightarrow> string \<Rightarrow> string \<Rightarrow> string list \<Rightarrow> lease_db \<Rightarrow> (string + bool) \<times> lease_db" where
  "find_any F adapterID target action [] = done_db False"
| "find_any F adapterID target action (level # levels) =
     then_db (FindActiveActionLease F adapterID target action level)
       (\<lambda>found. if found \<noteq> None then done_db True else find_any F adapterID target action levels)"

definition hasActiveActionLease :: "outage \<Rightarrow> string \<Rightarrow> string \<Rightarrow> string \<Rightarrow> lease_db \<Rightarrow> (string + bool) \<times> lease_db" where
  "hasActiveActionLease F adapterID target action =
     find_any F adapterID target action [''soft'', ''hard'', ''block'']"

fun prerequisite_reason ::
    "outage \<Rightarrow> string \<Rightarrow> string \<Rightarrow> string \<Rightarrow> autonomy_allowance list \<Rightarrow> lease_db \<Rightarrow> (string + string) \<times> lease_db" where
  "prerequisite_reason F adapterID target action [] = done_db []"
| "prerequisite_reason F adapterID target action (al # als) =
     (let previous = TrimSpace (RequiresPreviousAction al) in
      if TrimSpace (al_Action al) \<noteq> action \<or> previous = [] then prerequisite_reason F adapterID target action als
      else then_db (hasActiveActionLease F adapterID target previous)
        (\<lambda>active. if active then prerequisite_reason F adapterID target action als
                  else done_db (''autonomy_previous_action_not_active('' @ previous @ '')'')))"

definition autonomyPrerequisiteDenyReason ::
    "outage \<Rightarrow> broker \<Rightarrow> string \<Rightarrow> action_resolution \<Rightarrow> string \<Rightarrow> lease_db \<Rightarrow> (string + string) \<times> lease_db" where
  "autonomyPrerequisiteDenyReason F b adapterID r target =
     prerequisite_reason F adapterID target (ExecutableAction r) (autonomyAllowances b)"

fun strongest_of ::
    "outage \<Rightarrow> string \<Rightarrow> string \<Rightarrow> (string \<times> string) list \<Rightarrow> action_lease option \<Rightarrow> lease_db
     \<Rightarrow> (string + action_lease option) \<times> lease_db" where
  "strongest_of F adapterID target [] best = done_db best"
| "strongest_of F adapterID target ((action, level) # slots) best =
     then_db (FindActiveActionLease F adapterID target action level)
       (\<lambda>found. strongest_of F adapterID target slots
          (case found of
             None \<Rightarrow> best
           | Some l \<Rightarrow>
               if actionLeaseStrength (le_Action l) (le_Level l) >
                  (case best of None \<Rightarrow> 0 | Some m \<Rightarrow> actionLeaseStrength (le_Action m) (le_Level m))
               then Some l else best))"

definition strongestActiveLease ::
    "outage \<Rightarrow> string \<Rightarrow> string \<Rightarrow> string \<Rightarrow> lease_db \<Rightarrow> (string + action_lease option) \<times> lease_db" where
  "strongestActiveLease F adapterID target action =
     strongest_of F adapterID target (lease_slots action [''block'', ''hard'', ''soft'']) None"

definition strongerActiveLeaseDenyReason ::
    "outage \<Rightarrow> string \<Rightarrow> action_resolution \<Rightarrow> string \<Rightarrow> lease_db \<Rightarrow> (string + string) \<times> lease_db" where
  "strongerActiveLeaseDenyReason F adapterID r target =
     (let requested = actionLeaseStrength (ExecutableAction r) (ExecutableLevel r) in
      if requested = 0 then done_db []
      else then_db (strongestActiveLease F adapterID target (ExecutableAction r))
        (\<lambda>found. done_db
           (case found of
              None \<Rightarrow> []
            | Some l \<Rightarrow>
                if actionLeaseStrength (le_Action l) (le_Level l) \<le> requested then []
                else ''stronger_action_active('' @ le_Action l @ '':'' @ le_Level l @ '')'')))"

section \<open>Superseding and renewing\<close>

fun supersede_slots ::
    "outage \<Rightarrow> string \<Rightarrow> action_lease \<Rightarrow> instant \<Rightarrow> (string \<times> string) list \<Rightarrow> lease_db \<Rightarrow> (string + unit) \<times> lease_db" where
  "supersede_slots F adapterID applied now [] = done_db ()"
| "supersede_slots F adapterID applied now ((action, level) # slots) =
     then_db (FindActiveActionLease F adapterID (le_Target applied) action level)
       (\<lambda>found.
          case found of
            None \<Rightarrow> supersede_slots F adapterID applied now slots
          | Some l \<Rightarrow>
              if LeaseID l = LeaseID applied \<or>
                 actionLeaseStrength (le_Action l) (le_Level l) \<ge> actionLeaseStrength (le_Action applied) (le_Level applied)
              then supersede_slots F adapterID applied now slots
              else then_db (UpdateActionLeaseStatus F
                  (l\<lparr>le_Status := Lease_superseded,
                     LastError := superseded_text applied,
                     le_RevertedAt := Some now\<rparr>))
                (\<lambda>_. supersede_slots F adapterID applied now slots))"

definition supersedeWeakerActiveLeases ::
    "outage \<Rightarrow> string \<Rightarrow> action_lease \<Rightarrow> instant \<Rightarrow> lease_db \<Rightarrow> (string + unit) \<times> lease_db" where
  "supersedeWeakerActiveLeases F adapterID applied now =
     (if actionLeaseStrength (le_Action applied) (le_Level applied) = 0 then done_db ()
      else supersede_slots F adapterID applied now (lease_slots (le_Action applied) [''soft'', ''hard'', ''block'']))"

definition leaseRenewalCount :: "(string \<times> string) list \<Rightarrow> int" where
  "leaseRenewalCount metadata =
     (case Atoi (TrimSpace (text_at metadata ''broker.renewal_count'')) of
        None \<Rightarrow> 0 | Some n \<Rightarrow> if n < 0 then 0 else n)"

definition executionMetadataChanged :: "(string \<times> string) list \<Rightarrow> (string \<times> string) list \<Rightarrow> string option" where
  "executionMetadataChanged existing nxt =
     find (\<lambda>k. text_at existing k \<noteq> text_at nxt k)
       (sort (remdups (filter (\<lambda>k. HasPrefix k ''param.execution_'') (map fst existing @ map fst nxt))))"

datatype renewal =
    Renewed action_lease | Not_renewed | Renewal_refused action_lease string | Renewal_failed action_lease string

definition renewActiveLease ::
    "broker_env \<Rightarrow> broker \<Rightarrow> 'w lease_pep \<Rightarrow> action_resolution \<Rightarrow> string \<Rightarrow> string \<Rightarrow> (string \<times> string) list \<Rightarrow> 'w
     \<Rightarrow> lease_db \<Rightarrow> renewal \<times> lease_db" where
  "renewActiveLease E b P r decisionID target metadata w =
     (let F = e_outage E; now = e_now E;
          retire = (\<lambda>l. try_db (UpdateActionLeaseStatus F l) (\<lambda>e d. (Renewal_failed l e, d)) (\<lambda>_ d. (Not_renewed, d)))
      in try_db (FindActiveActionLease F (AdapterID P) target (ExecutableAction r) (ExecutableLevel r))
        (\<lambda>e d. (Renewal_failed no_lease e, d))
        (\<lambda>found.
          case found of
            None \<Rightarrow> Pair Not_renewed
          | Some existing \<Rightarrow>
            (case executionMetadataChanged (le_Metadata existing) metadata of
               Some key \<Rightarrow>
                 retire (existing\<lparr>le_Status := Lease_superseded,
                   LastError := changed_text key, le_RevertedAt := Some now\<rparr>)
             | None \<Rightarrow>
               (case CurrentFencingToken P existing w of
                  Inl e \<Rightarrow> Pair (Renewal_failed existing e)
                | Inr currentToken \<Rightarrow>
                  if currentToken \<noteq> le_Token existing then
                    retire (existing\<lparr>le_Status := Lease_conflict,
                      LastError := mismatch_text '' during renewal'' (le_Token existing) currentToken, le_RevertedAt := Some now\<rparr>)
                  else
                    (let renewalCount = leaseRenewalCount (le_Metadata existing) in
                     if maxRenewals b > 0 \<and> renewalCount \<ge> maxRenewals b
                     then Pair (Renewal_refused existing ''autonomy_max_renewals_exceeded'')
                     else
                       (let renewed = existing\<lparr>le_DecisionID := decisionID, le_ProposalID := re_ProposalID r,
                              le_PolicyID := re_PolicyID r, le_Reason := DenyReason r, le_ExpiresAt := now + re_TTL r,
                              le_Metadata := AList.update ''broker.renewal_count'' (Itoa (renewalCount + 1)) metadata,
                              le_Status := Lease_active, LastError := [], le_RevertedAt := None\<rparr>
                        in try_db (UpsertActionLease F renewed) (\<lambda>e d. (Renewal_failed renewed e, d))
                             (\<lambda>_ d. (Renewed renewed, d))))))))"

section \<open>Applying\<close>

definition targetString :: "action_target \<Rightarrow> string" where
  "targetString t = (if Granularity t = [] then Value t else Granularity t @ '':'' @ Value t)"

definition lease_metadata :: "broker_env \<Rightarrow> broker \<Rightarrow> action_resolution \<Rightarrow> (string \<times> string) list" where
  "lease_metadata E b r =
     (let base = [(''requested_action'', RequestedAction r), (''requested_level'', RequestedLevel r),
            (''target_granularity'', Granularity (re_Target r)), (''target_value'', Value (re_Target r)),
            (''broker.renewal_count'', ''0'')];
          attrs = fold (\<lambda>(k, v). AList.update (''target_attr.'' @ k) v) (Attributes (re_Target r)) base;
          params = fold (\<lambda>(k, v). if v = Any_nil then (\<lambda>m. m)
            else AList.update (''param.'' @ k) (Sprint (e_printer E) v)) (re_Parameters r) attrs
      in if requireAuditReceipt b then AList.update ''policy.requires_audit_receipt'' ''true'' params else params)"

definition nonZeroMetadataValue :: "(string \<times> string) list \<Rightarrow> string \<Rightarrow> string" where
  "nonZeroMetadataValue metadata key =
     (let v = TrimSpace (text_at metadata key) in if v = ''0'' then [] else v)"

fun joined :: "string list \<Rightarrow> string" where
  "joined [] = []"
| "joined [s] = s"
| "joined (s # t # ss) = s @ '' '' @ joined (t # ss)"

definition executionMetadataSummary :: "(string \<times> string) list \<Rightarrow> string" where
  "executionMetadataSummary metadata =
     (let part = (\<lambda>(key, label). let v = nonZeroMetadataValue metadata key in if v = [] then [] else [label @ ''='' @ v])
      in joined
        (part (''param.evidence_drop_rl_rate'', ''drop_rl_rate'') @
         (if TrimSpace (text_at metadata ''requested_action'') = ''enforce.traffic.rate_limit''
          then concat (map part
            [(''param.execution_soft_rate'', ''soft_rate_pps''), (''param.execution_soft_burst'', ''soft_burst''),
             (''param.execution_hard_rate'', ''hard_rate_pps''), (''param.execution_hard_burst'', ''hard_burst'')])
          else [])))"

definition receiptMessageWithExecutionSummary :: "string \<Rightarrow> (string \<times> string) list \<Rightarrow> string" where
  "receiptMessageWithExecutionSummary base metadata =
     (let summary = executionMetadataSummary metadata in
      if base = [] then summary else if summary = [] then base else base @ '' '' @ summary)"

definition buildFencingToken :: "(string \<Rightarrow> string) \<Rightarrow> action_lease \<Rightarrow> string" where
  "buildFencingToken sha l =
     take 32 (sha (le_AdapterID l @ ''|'' @ le_Target l @ ''|'' @ le_Action l @ ''|'' @ le_Level l @ ''|'' @
       le_DecisionID l @ ''|'' @ LeaseID l))"

definition new_lease ::
    "broker_env \<Rightarrow> broker \<Rightarrow> string \<Rightarrow> action_resolution \<Rightarrow> string \<Rightarrow> string \<Rightarrow> (string \<times> string) list \<Rightarrow> action_lease" where
  "new_lease E b adapterID r decisionID target metadata =
     (let l = \<lparr>LeaseID = ''lease-'' @ e_lease_id E, le_DecisionID = decisionID, le_ProposalID = re_ProposalID r,
            le_NodeID = nodeID b, le_AdapterID = adapterID, le_Target = target, le_Action = ExecutableAction r,
            le_Level = ExecutableLevel r, le_Status = Lease_pending, le_Token = [], le_PolicyID = re_PolicyID r,
            le_BundleID = [], le_Reason = DenyReason r, le_AppliedAt = e_now E, le_ExpiresAt = e_now E + re_TTL r,
            le_RevertedAt = None, LastError = [], le_Metadata = metadata\<rparr>
      in l\<lparr>le_Token := buildFencingToken (e_sha256_hex E) l\<rparr>)"

text \<open>The lease, the receipt, an error; and what the enforcement point and the journal became.\<close>

type_synonym 'w applied = "(action_lease \<times> receipt \<times> string option) \<times> 'w \<times> lease_db"

definition failed_apply :: "receipt \<Rightarrow> 'w \<Rightarrow> action_lease \<Rightarrow> string \<Rightarrow> lease_db \<Rightarrow> 'w applied" where
  "failed_apply rc w l e d = ((l, SetLease l (rc\<lparr>rc_Status := StatusFailed, rc_Message := e\<rparr>), Some e), w, d)"

text \<open>The part that creates a lease: journal it, apply it, journal the outcome, supersede weaker ones.\<close>

definition apply_new_lease ::
    "broker_env \<Rightarrow> 'w lease_pep \<Rightarrow> receipt \<Rightarrow> action_lease \<Rightarrow> 'w \<Rightarrow> lease_db \<Rightarrow> 'w applied" where
  "apply_new_lease E P rc l w =
     (let F = e_outage E in
      try_db (UpsertActionLease F l) (failed_apply rc w l)
        (\<lambda>_ d.
          case pep_Apply P l w of
            (Inl e, w') \<Rightarrow>
              (let l' = l\<lparr>le_Status := Lease_failed, LastError := e\<rparr>
               in failed_apply rc w' l' e (snd (UpdateActionLeaseStatus F l' d)))
          | (Inr token, w') \<Rightarrow>
              if token \<noteq> [] \<and> token \<noteq> le_Token l then
                (let e = unexpected_text (le_Token l) token;
                     l' = l\<lparr>le_Status := Lease_conflict, LastError := e\<rparr>
                 in failed_apply rc w' l' e (snd (UpdateActionLeaseStatus F l' d)))
              else
                (let l' = l\<lparr>le_Status := Lease_active\<rparr> in
                 try_db (UpdateActionLeaseStatus F l') (failed_apply rc w' l')
                   (\<lambda>_. try_db (supersedeWeakerActiveLeases F (AdapterID P) l' (e_now E)) (failed_apply rc w' l')
                      (\<lambda>_ d. ((l', SetLease l' (rc\<lparr>rc_Status := StatusApplied,
                           rc_Message := executionMetadataSummary (le_Metadata l)\<rparr>), None), w', d))) d)))"

text \<open>The part behind the gates.\<close>

definition renew_or_apply ::
    "broker_env \<Rightarrow> broker \<Rightarrow> 'w lease_pep \<Rightarrow> action_resolution \<Rightarrow> string \<Rightarrow> string \<Rightarrow> (string \<times> string) list \<Rightarrow> receipt
     \<Rightarrow> 'w \<Rightarrow> lease_db \<Rightarrow> 'w applied" where
  "renew_or_apply E b P r decisionID target metadata rc w d =
     (case renewActiveLease E b P r decisionID target metadata w d of
        (Renewal_failed l e, d') \<Rightarrow> failed_apply rc w l e d'
      | (Renewal_refused l reason, d') \<Rightarrow> ((l, SetLease l (rc\<lparr>rc_Message := reason\<rparr>), None), w, d')
      | (Renewed l, d') \<Rightarrow>
          ((l, SetLease l (rc\<lparr>rc_Status := StatusApplied,
             rc_Message := receiptMessageWithExecutionSummary ''lease renewed'' metadata\<rparr>), None), w, d')
      | (Not_renewed, d') \<Rightarrow>
          apply_new_lease E P rc (new_lease E b (AdapterID P) r decisionID target metadata) w d')"

definition broker_Apply ::
    "broker_env \<Rightarrow> broker \<Rightarrow> 'w lease_pep \<Rightarrow> action_resolution \<Rightarrow> 'w \<Rightarrow> lease_db \<Rightarrow> 'w applied" where
  "broker_Apply E b P r w d =
     (let F = e_outage E; now = e_now E;
          decisionID = (if re_DecisionID r = [] then ''decision-'' @ e_decision_id E else re_DecisionID r);
          rc = NewEnforcementReceipt decisionID (nodeID b) (AdapterID P) StatusSkipped now;
          target = targetString (re_Target r);
          metadata = lease_metadata E b r;
          gate_failed = (\<lambda>e d. ((no_lease, rc\<lparr>rc_Status := StatusFailed, rc_Message := e\<rparr>, Some e), w, d));
          gate_closed = (\<lambda>reason. Pair (no_lease, rc\<lparr>rc_Action := ExecutableAction r, rc_Target := target, rc_Message := reason\<rparr>, None))
      in if \<not> Allowed r then ((no_lease, rc\<lparr>rc_Message := DenyReason r\<rparr>, None), w, d)
         else if ExecutableLevel r = [] \<or> ExecutableLevel r = ''observe'' \<or> re_TTL r \<le> 0 then
           ((no_lease, rc\<lparr>rc_Status := StatusApplied, rc_Action := ExecutableAction r, rc_Target := target,
              rc_Message := (if re_TTL r \<le> 0 then ''no lease: action has no TTL'' else [])\<rparr>, None), w, d)
         else
           try_db (autonomyPrerequisiteDenyReason F b (AdapterID P) r target) gate_failed
             (\<lambda>reason. if reason \<noteq> [] then (\<lambda>d. gate_closed reason (w, d)) else
                try_db (strongerActiveLeaseDenyReason F (AdapterID P) r target) gate_failed
                  (\<lambda>reason. if reason \<noteq> [] then (\<lambda>d. gate_closed reason (w, d)) else
                     renew_or_apply E b P r decisionID target metadata rc w)) d)"

section \<open>Reverting\<close>

definition broker_Revert ::
    "broker_env \<Rightarrow> broker \<Rightarrow> 'w lease_pep \<Rightarrow> action_lease \<Rightarrow> 'w \<Rightarrow> lease_db \<Rightarrow> (receipt \<times> string option) \<times> 'w \<times> lease_db" where
  "broker_Revert E b P l w d =
     (let F = e_outage E; now = e_now E;
          rc = (SetLease l (NewEnforcementReceipt (le_DecisionID l) (nodeID b) (le_AdapterID l) StatusReverted now))
            \<lparr>rc_AppliedAt := le_AppliedAt l, rc_RevertedAt := Some now\<rparr>;
          broken = (\<lambda>e w. ((rc\<lparr>rc_Status := StatusFailed, rc_RevertStatus := RevertStatusFailed, rc_Message := e\<rparr>, Some e), w,
            snd (UpdateActionLeaseStatus F (l\<lparr>le_Status := Lease_failed, LastError := e, le_RevertedAt := Some now\<rparr>) d)));
          finish = (\<lambda>l rc w. try_db (UpdateActionLeaseStatus F l) (\<lambda>e d. ((rc, Some e), w, d)) (\<lambda>_ d. ((rc, None), w, d)) d)
      in case CurrentFencingToken P l w of
           Inl e \<Rightarrow> broken e w
         | Inr currentToken \<Rightarrow>
             if currentToken \<noteq> le_Token l then
               (let e = mismatch_text [] (le_Token l) currentToken
                in finish (l\<lparr>le_Status := Lease_conflict, LastError := e, le_RevertedAt := Some now\<rparr>)
                     (rc\<lparr>rc_Status := StatusConflict, rc_RevertStatus := RevertStatusConflict, rc_Message := e\<rparr>) w)
             else
               (case pep_Revert P l w of
                  (Some e, w') \<Rightarrow> broken e w'
                | (None, w') \<Rightarrow>
                    finish (l\<lparr>le_Status := Lease_reverted, le_RevertedAt := Some now\<rparr>)
                      (rc\<lparr>rc_Status := StatusReverted, rc_RevertStatus := RevertStatusReverted\<rparr>) w'))"

fun revert_all ::
    "broker_env \<Rightarrow> broker \<Rightarrow> 'w lease_pep \<Rightarrow> action_lease list \<Rightarrow> receipt list \<Rightarrow> 'w \<Rightarrow> lease_db
     \<Rightarrow> (receipt list \<times> string option) \<times> 'w \<times> lease_db" where
  "revert_all E b P [] rcs w d = ((rcs, None), w, d)"
| "revert_all E b P (l # ls) rcs w d =
     (case broker_Revert E b P l w d of
        ((rc, Some e), w', d') \<Rightarrow> ((rcs @ [rc], Some e), w', d')
      | ((rc, None), w', d') \<Rightarrow> revert_all E b P ls (rcs @ [rc]) w' d')"

definition broker_RevertExpired ::
    "broker_env \<Rightarrow> broker \<Rightarrow> 'w lease_pep \<Rightarrow> instant \<Rightarrow> 'w \<Rightarrow> lease_db \<Rightarrow> (receipt list \<times> string option) \<times> 'w \<times> lease_db" where
  "broker_RevertExpired E b P now w =
     try_db (ListExpiredActionLeases (e_outage E) now) (\<lambda>e d. (([], Some e), w, d)) (\<lambda>ls d. revert_all E b P ls [] w d)"

fun fail_pending :: "broker_env \<Rightarrow> broker \<Rightarrow> action_lease list \<Rightarrow> receipt list \<Rightarrow> lease_db \<Rightarrow> (receipt list \<times> string option) \<times> lease_db" where
  "fail_pending E b [] rcs d = ((rcs, None), d)"
| "fail_pending E b (l # ls) rcs d =
     (let l' = l\<lparr>le_Status := Lease_failed, LastError := ''pending lease found during broker startup; apply outcome unknown''\<rparr>;
          rc = (SetLease l' (NewEnforcementReceipt (le_DecisionID l) (nodeID b) (le_AdapterID l) StatusFailed (e_now E)))
            \<lparr>rc_AppliedAt := le_AppliedAt l, rc_RevertedAt := Some (e_now E), rc_RevertStatus := RevertStatusFailed,
             rc_Message := LastError l'\<rparr>
      in try_db (UpdateActionLeaseStatus (e_outage E) l') (\<lambda>e d. ((rcs, Some e), d))
           (\<lambda>_ d. fail_pending E b ls (rcs @ [rc]) d) d)"

definition ReconcilePending :: "broker_env \<Rightarrow> broker \<Rightarrow> lease_db \<Rightarrow> (receipt list \<times> string option) \<times> lease_db" where
  "ReconcilePending E b =
     try_db (ListActionLeasesByStatus (e_outage E) Lease_pending) (\<lambda>e d. (([], Some e), d)) (\<lambda>ls d. fail_pending E b ls [] d)"

definition TargetFromLease :: "action_lease \<Rightarrow> action_target" where
  "TargetFromLease l =
     (let m = le_Metadata l; g = text_at m ''target_granularity''; v = text_at m ''target_value'';
          (g, v) = (if g = [] \<or> v = [] then
              (case Cut (CHR '':'') (le_Target l) of None \<Rightarrow> (g, le_Target l) | Some (before, after) \<Rightarrow> (before, after))
            else (g, v))
      in \<lparr>Granularity = g, Value = v,
          Attributes = concat (map (\<lambda>(k, v). case CutPrefix k ''target_attr.'' of None \<Rightarrow> [] | Some a \<Rightarrow> [(a, v)]) m)\<rparr>)"

end
