(* ===== verification/Lease_Journal.thy ===== *)
theory Lease_Journal
  imports Action_Broker
begin

text \<open>
  What holds of the journal of leases and of the broker, with any outage of the database and any
  enforcement point: statuses only retire, a slot has one active lease. And the contract of fencing tokens,
  under which the lease that was applied last is the one that is reverted.
\<close>

section \<open>Calls of the database\<close>

lemma db_call_cases:
  assumes "db_call F f d = (x, d')"
  obtains (down) e where "F (calls d) = Some e" "x = Inl e" "rows d' = rows d"
    | (up) "F (calls d) = None" "x = fst (f (rows d))" "rows d' = snd (f (rows d))"
  using assms by (auto simp: db_call_def Let_def split: option.splits prod.splits)

text \<open>A relation on rows that a program keeps.\<close>

definition keeps :: "(action_lease list \<Rightarrow> action_lease list \<Rightarrow> bool) \<Rightarrow> (lease_db \<Rightarrow> 'a \<times> lease_db) \<Rightarrow> bool" where
  "keeps Q m \<longleftrightarrow> (\<forall>d. Q (rows d) (rows (snd (m d))))"

lemma keeps_done: "reflp Q \<Longrightarrow> keeps Q (done_db x)"
  by (simp add: keeps_def done_db_def reflpD)

lemma keeps_Pair: "reflp Q \<Longrightarrow> keeps Q (Pair x)"
  by (simp add: keeps_def reflpD)

lemma keeps_then:
  assumes "transp Q" "keeps Q m" "\<And>x. keeps Q (f x)"
  shows "keeps Q (then_db m f)"
  unfolding keeps_def
proof
  fix d
  show "Q (rows d) (rows (snd (then_db m f d)))"
    using assms(2,3) transpD [OF assms(1)]
    by (auto simp: keeps_def then_db_def split: prod.split sum.split) (metis snd_conv)+
qed

lemma keeps_try:
  assumes "transp Q" "keeps Q m" "\<And>e. keeps Q (g e)" "\<And>x. keeps Q (f x)"
  shows "keeps Q (try_db m g f)"
  unfolding keeps_def
proof
  fix d
  show "Q (rows d) (rows (snd (try_db m g f d)))"
    using assms(2-4) transpD [OF assms(1)]
    by (auto simp: keeps_def try_db_def split: prod.split sum.split) (metis snd_conv)+
qed

text \<open>Queries keep the rows.\<close>

lemma query_keeps:
  assumes "\<And>rs. snd (f rs) = rs" "reflp Q"
  shows "keeps Q (db_call F f)"
  unfolding keeps_def
proof
  fix d
  have "rows (snd (db_call F f d)) = rows d"
    using assms(1) by (cases "db_call F f d" rule: prod.exhaust) (auto elim!: db_call_cases)
  then show "Q (rows d) (rows (snd (db_call F f d)))" by (simp add: reflpD [OF assms(2)])
qed

lemma keeps_find: "reflp Q \<Longrightarrow> keeps Q (FindActiveActionLease F a t act lv)"
  unfolding FindActiveActionLease_def by (rule query_keeps) simp_all

lemma keeps_list: "reflp Q \<Longrightarrow> keeps Q (ListActionLeasesByStatus F st)"
  unfolding ListActionLeasesByStatus_def by (rule query_keeps) simp_all

lemma keeps_expired: "reflp Q \<Longrightarrow> keeps Q (ListExpiredActionLeases F now)"
  unfolding ListExpiredActionLeases_def by (rule query_keeps) simp_all

section \<open>Retiring leases\<close>

text \<open>The journal after status changes none of which activates a lease.\<close>

inductive retired :: "action_lease list \<Rightarrow> action_lease list \<Rightarrow> bool" where
  same: "retired rs rs"
| retire: "retired rs rs' \<Longrightarrow> le_Status l \<noteq> Lease_active \<Longrightarrow> retired rs (map (set_status l) rs')"

lemma retired_trans: "retired rs' rs'' \<Longrightarrow> retired rs rs' \<Longrightarrow> retired rs rs''"
  by (induction rule: retired.induct) (auto intro: retired.intros)

lemma retired_reflp [simp]: "reflp retired"
  by (auto intro: reflpI retired.same)

lemma retired_transp [simp]: "transp retired"
  by (auto intro: transpI retired_trans)

lemma eq_reflp_transp: "reflp ((=) :: 'a \<Rightarrow> 'a \<Rightarrow> bool)" "transp ((=) :: 'a \<Rightarrow> 'a \<Rightarrow> bool)"
  by (auto intro: reflpI transpI)

lemma keeps_update:
  assumes "le_Status l \<noteq> Lease_active"
  shows "keeps retired (UpdateActionLeaseStatus F l)"
  unfolding keeps_def
proof
  fix d
  show "retired (rows d) (rows (snd (UpdateActionLeaseStatus F l d)))"
    using assms
    by (cases "UpdateActionLeaseStatus F l d")
      (auto simp: UpdateActionLeaseStatus_def elim!: db_call_cases intro: retired.same retired.retire [OF retired.same])
qed

lemma keeps_case_option:
  "keeps Q f \<Longrightarrow> (\<And>x. keeps Q (g x)) \<Longrightarrow> keeps Q (case v of None \<Rightarrow> f | Some x \<Rightarrow> g x)"
  by (cases v) simp_all

lemma keeps_if: "(c \<Longrightarrow> keeps Q f) \<Longrightarrow> (\<not> c \<Longrightarrow> keeps Q g) \<Longrightarrow> keeps Q (if c then f else g)"
  by simp

lemmas keeps_rules = keeps_done keeps_Pair keeps_then keeps_try keeps_find keeps_list keeps_expired keeps_case_option keeps_if

text \<open>The gates only look.\<close>

lemma keeps_find_any: "reflp Q \<Longrightarrow> transp Q \<Longrightarrow> keeps Q (find_any F a t act lvs)"
  by (induction lvs) (auto intro!: keeps_rules)

lemma keeps_prerequisite: "reflp Q \<Longrightarrow> transp Q \<Longrightarrow> keeps Q (prerequisite_reason F a t act als)"
  by (induction als) (auto simp: hasActiveActionLease_def Let_def intro!: keeps_rules keeps_find_any)

lemma keeps_strongest: "reflp Q \<Longrightarrow> transp Q \<Longrightarrow> keeps Q (strongest_of F a t sl best)"
proof (induction sl arbitrary: best)
  case (Cons x sl)
  then show ?case by (cases x) (auto intro!: keeps_rules)
qed (auto intro: keeps_done)

lemma keeps_gates:
  assumes "reflp Q" "transp Q"
  shows "keeps Q (autonomyPrerequisiteDenyReason F b a r t)" "keeps Q (strongerActiveLeaseDenyReason F a r t)"
  using assms
  by (auto simp: autonomyPrerequisiteDenyReason_def strongerActiveLeaseDenyReason_def strongestActiveLease_def Let_def
      intro!: keeps_rules keeps_prerequisite keeps_strongest)

lemma keeps_supersede: "keeps retired (supersede_slots F a l now sl)"
proof (induction sl)
  case (Cons x sl)
  then show ?case by (cases x) (auto intro!: keeps_rules keeps_update split: option.split)
qed (auto intro: keeps_done)

lemma keeps_supersede_weaker: "keeps retired (supersedeWeakerActiveLeases F a l now)"
  by (auto simp: supersedeWeakerActiveLeases_def intro!: keeps_supersede keeps_done)

lemma keeps_ext: "(\<And>d. f d = g d) \<Longrightarrow> keeps Q g \<Longrightarrow> keeps Q f"
  by (simp add: keeps_def)

lemma keeps_fail_pending: "keeps retired (fail_pending E b ls rcs)"
proof (induction ls arbitrary: rcs)
  case (Cons l ls)
  show ?case
    by (rule keeps_ext [OF fail_pending.simps(2)], unfold Let_def)
      (intro keeps_try keeps_update keeps_Pair Cons.IH retired_transp retired_reflp; simp)
qed (auto simp: keeps_def intro: retired.same)

lemma keeps_reconcile: "keeps retired (ReconcilePending E b)"
  unfolding ReconcilePending_def
  by (intro keeps_try keeps_list keeps_Pair keeps_fail_pending retired_transp retired_reflp)

text \<open>Reverts: the enforcement point may do anything, the journal only retires.\<close>

lemma update_rows: "le_Status l \<noteq> Lease_active \<Longrightarrow> retired (rows d) (rows (snd (UpdateActionLeaseStatus F l d)))"
  using keeps_update by (auto simp: keeps_def)

lemma try_db_state: "try_db m (\<lambda>e d. (g e, w, d)) (\<lambda>x d. (h x, w, d)) d = (y, w', d') \<Longrightarrow> w' = w \<and> d' = snd (m d)"
  by (auto simp: try_db_def split: prod.splits sum.splits)

lemma revert_cases:
  assumes "broker_Revert E b P l w d = (x, w', d')"
  obtains (fenced) l' where "w' = w" "d' = snd (UpdateActionLeaseStatus (e_outage E) l' d)" "LeaseID l' = LeaseID l"
      "le_Status l' \<in> {Lease_failed, Lease_conflict}" "CurrentFencingToken P l w \<noteq> Inr (le_Token l)"
    | (reverted) l' e where "pep_Revert P l w = (e, w')" "d' = snd (UpdateActionLeaseStatus (e_outage E) l' d)"
      "LeaseID l' = LeaseID l" "le_Status l' = (if e = None then Lease_reverted else Lease_failed)"
      "CurrentFencingToken P l w = Inr (le_Token l)"
proof (cases "CurrentFencingToken P l w = Inr (le_Token l)")
  case True
  obtain e w1 where p: "pep_Revert P l w = (e, w1)" by fastforce
  show thesis
  proof (cases e)
    case None
    from assms have "w' = w1 \<and> d' = snd (UpdateActionLeaseStatus (e_outage E)
        (l\<lparr>le_Status := Lease_reverted, le_RevertedAt := Some (e_now E)\<rparr>) d)"
      unfolding broker_Revert_def Let_def True sum.case p None prod.case option.case
      by (auto dest: try_db_state)
    then show thesis
      using p None True by (intro reverted [of e "l\<lparr>le_Status := Lease_reverted, le_RevertedAt := Some (e_now E)\<rparr>"]) simp_all
  next
    case (Some er)
    from assms have "w' = w1 \<and> d' = snd (UpdateActionLeaseStatus (e_outage E)
        (l\<lparr>le_Status := Lease_failed, LastError := er, le_RevertedAt := Some (e_now E)\<rparr>) d)"
      unfolding broker_Revert_def Let_def True sum.case p Some prod.case option.case by auto
    then show thesis
      using p Some True by (intro reverted [of e "l\<lparr>le_Status := Lease_failed, LastError := er, le_RevertedAt := Some (e_now E)\<rparr>"]) simp_all
  qed
next
  case False
  show thesis
  proof (cases "CurrentFencingToken P l w")
    case (Inl er)
    from assms have "w' = w \<and> d' = snd (UpdateActionLeaseStatus (e_outage E)
        (l\<lparr>le_Status := Lease_failed, LastError := er, le_RevertedAt := Some (e_now E)\<rparr>) d)"
      unfolding broker_Revert_def Let_def Inl sum.case by auto
    then show thesis
      using False by (intro fenced [of "l\<lparr>le_Status := Lease_failed, LastError := er, le_RevertedAt := Some (e_now E)\<rparr>"]) simp_all
  next
    case (Inr token)
    then have "token \<noteq> le_Token l" using False by simp
    with assms obtain er where "w' = w \<and> d' = snd (UpdateActionLeaseStatus (e_outage E)
        (l\<lparr>le_Status := Lease_conflict, LastError := er, le_RevertedAt := Some (e_now E)\<rparr>) d)"
      unfolding broker_Revert_def Let_def Inr sum.case by (auto dest: try_db_state)
    then show thesis
      using False by (intro fenced [of "l\<lparr>le_Status := Lease_conflict, LastError := er, le_RevertedAt := Some (e_now E)\<rparr>"]) simp_all
  qed
qed

lemma revert_retires:
  assumes "broker_Revert E b P l w d = (x, w', d')"
  shows "retired (rows d) (rows d')"
  using assms by (cases rule: revert_cases) (auto intro!: update_rows split: if_splits)

lemma revert_all_invariant:
  assumes "revert_all E b P ls rcs w d = (x, w', d')" "I w d"
    and "\<And>l w d x w' d'. l \<in> set ls \<Longrightarrow> broker_Revert E b P l w d = (x, w', d') \<Longrightarrow> I w d \<Longrightarrow> I w' d'"
  shows "I w' d'"
  using assms
proof (induction ls arbitrary: rcs w d)
  case (Cons l ls)
  obtain rc e w1 d1 where r: "broker_Revert E b P l w d = ((rc, e), w1, d1)" by (metis prod.exhaust)
  have "I w1 d1" by (rule Cons.prems(3) [OF _ r Cons.prems(2)]) simp
  show ?case
  proof (cases e)
    case None
    then have "revert_all E b P ls (rcs @ [rc]) w1 d1 = (x, w', d')" using Cons.prems(1) r by simp
    then show ?thesis by (rule Cons.IH [OF _ \<open>I w1 d1\<close>]) (rule Cons.prems(3); simp)
  next
    case (Some er)
    then show ?thesis using Cons.prems(1) r \<open>I w1 d1\<close> by simp
  qed
qed simp

lemma sweep_invariant:
  assumes "broker_RevertExpired E b P now w d = (x, w', d')"
    and "\<And>d'. rows d' = rows d \<Longrightarrow> I w d'"
    and "\<And>l w d x w' d'. broker_Revert E b P l w d = (x, w', d') \<Longrightarrow> I w d \<Longrightarrow> I w' d'"
  shows "I w' d'"
proof -
  obtain r d1 where l: "ListExpiredActionLeases (e_outage E) now d = (r, d1)" by fastforce
  have "rows d1 = rows d" using keeps_expired [OF eq_reflp_transp(1), of "e_outage E" now] l by (metis keeps_def snd_conv)
  then have "I w d1" by (rule assms(2))
  with assms(1) l show ?thesis
    by (cases r) (auto simp: broker_RevertExpired_def try_db_def intro: revert_all_invariant [where I = I, OF _ _ assms(3)])
qed

lemma sweep_retires: "broker_RevertExpired E b P now w d = (x, w', d') \<Longrightarrow> retired (rows d) (rows d')"
  by (erule sweep_invariant [where I = "\<lambda>w d'. retired (rows d) (rows d')"])
    (auto intro: retired.same retired_trans revert_retires)

section \<open>One active lease for a slot\<close>

definition lease_slot :: "action_lease \<Rightarrow> string \<times> string \<times> string \<times> string" where
  "lease_slot l = (le_AdapterID l, le_Target l, le_Action l, le_Level l)"

definition one_active :: "action_lease list \<Rightarrow> bool" where
  "one_active rs \<longleftrightarrow> distinct (map LeaseID rs) \<and>
     (\<forall>r \<in> set rs. \<forall>q \<in> set rs. le_Status r = Lease_active \<longrightarrow> le_Status q = Lease_active \<longrightarrow>
        lease_slot r = lease_slot q \<longrightarrow> LeaseID r = LeaseID q)"

lemma set_status_id [simp]: "LeaseID (set_status l r) = LeaseID r" "lease_slot (set_status l r) = lease_slot r"
  by (simp_all add: set_status_def lease_slot_def)

lemma matches_slot: "matches a t act lv r \<longleftrightarrow> lease_slot r = (a, t, act, lv) \<and> le_Status r = Lease_active"
  by (auto simp: matches_def lease_slot_def)

lemma retired_ids: "retired rs rs' \<Longrightarrow> map LeaseID rs' = map LeaseID rs"
  by (induction rule: retired.induct) (simp_all add: comp_def)

lemma retired_active: "retired rs rs' \<Longrightarrow> r \<in> set rs' \<Longrightarrow> le_Status r = Lease_active \<Longrightarrow> r \<in> set rs"
  by (induction rule: retired.induct) (auto simp: set_status_def split: if_splits)

lemma one_activeI:
  assumes "distinct (map LeaseID rs)"
    and "\<And>r q. r \<in> set rs \<Longrightarrow> q \<in> set rs \<Longrightarrow> le_Status r = Lease_active \<Longrightarrow> le_Status q = Lease_active \<Longrightarrow>
      lease_slot r = lease_slot q \<Longrightarrow> LeaseID r = LeaseID q"
  shows "one_active rs"
  using assms unfolding one_active_def by blast

lemma one_activeD:
  assumes "one_active rs"
  shows "distinct (map LeaseID rs)"
    and "\<And>r q. r \<in> set rs \<Longrightarrow> q \<in> set rs \<Longrightarrow> le_Status r = Lease_active \<Longrightarrow> le_Status q = Lease_active \<Longrightarrow>
      lease_slot r = lease_slot q \<Longrightarrow> LeaseID r = LeaseID q"
  using assms unfolding one_active_def by blast+

lemma retired_one_active:
  assumes "retired rs rs'" "one_active rs"
  shows "one_active rs'"
proof (rule one_activeI)
  show "distinct (map LeaseID rs')" using one_activeD(1) [OF assms(2)] retired_ids [OF assms(1)] by simp
qed (use one_activeD(2) [OF assms(2)] retired_active [OF assms(1)] in blast)

lemma upsert_fresh: "LeaseID l \<notin> LeaseID ` set rs \<Longrightarrow> upsert l rs = rs @ [l]"
  by (induction rs) auto

lemma upsert_known:
  "LeaseID l \<in> LeaseID ` set rs \<Longrightarrow> distinct (map LeaseID rs) \<Longrightarrow>
    upsert l rs = map (\<lambda>r. if LeaseID r = LeaseID l then l else r) rs"
proof (induction rs)
  case (Cons r rs)
  have "LeaseID r = LeaseID l \<Longrightarrow> map (\<lambda>r. if LeaseID r = LeaseID l then l else r) rs = rs"
    using Cons.prems(2) by (intro map_idI) (force simp: image_iff)
  with Cons show ?case by auto
qed simp

lemma one_active_new:
  assumes "one_active rs" "LeaseID l \<notin> LeaseID ` set rs" "le_Status l \<noteq> Lease_active"
  shows "one_active (upsert l rs)"
proof -
  have u: "upsert l rs = rs @ [l]" by (rule upsert_fresh [OF assms(2)])
  show ?thesis
  proof (rule one_activeI)
    show "distinct (map LeaseID (upsert l rs))" using one_activeD(1) [OF assms(1)] assms(2) by (simp add: u)
    fix r q
    assume a: "r \<in> set (upsert l rs)" "q \<in> set (upsert l rs)" "le_Status r = Lease_active" "le_Status q = Lease_active"
      "lease_slot r = lease_slot q"
    then have "r \<in> set rs" "q \<in> set rs" using assms(3) by (auto simp: u)
    then show "LeaseID r = LeaseID q" using a(3-5) by (rule one_activeD(2) [OF assms(1)])
  qed
qed

lemma one_active_renewed:
  assumes "one_active rs" "r \<in> set rs" "le_Status r = Lease_active" "LeaseID l = LeaseID r" "lease_slot l = lease_slot r"
  shows "one_active (upsert l rs)"
proof -
  have "LeaseID l \<in> LeaseID ` set rs" using assms(2,4) by auto
  then have u: "upsert l rs = map (\<lambda>r. if LeaseID r = LeaseID l then l else r) rs"
    using one_activeD(1) [OF assms(1)] by (simp add: upsert_known)
  have ids: "map LeaseID (upsert l rs) = map LeaseID rs" unfolding u by simp
  have old: "\<exists>q0 \<in> set rs. le_Status q0 = Lease_active \<and> lease_slot q0 = lease_slot q \<and> LeaseID q0 = LeaseID q"
    if "q \<in> set (upsert l rs)" "le_Status q = Lease_active" for q
  proof -
    from that(1) have "q = l \<or> q \<in> set rs" by (auto simp: u split: if_splits)
    then show ?thesis
    proof
      assume "q = l"
      with assms(2-5) show ?thesis by (intro bexI [of _ r]) simp_all
    next
      assume "q \<in> set rs"
      with that(2) show ?thesis by (intro bexI [of _ q]) simp_all
    qed
  qed
  show ?thesis
  proof (rule one_activeI)
    show "distinct (map LeaseID (upsert l rs))" using one_activeD(1) [OF assms(1)] ids by simp
    fix p q
    assume a: "p \<in> set (upsert l rs)" "q \<in> set (upsert l rs)" "le_Status p = Lease_active" "le_Status q = Lease_active"
      "lease_slot p = lease_slot q"
    obtain p0 where p0: "p0 \<in> set rs" "le_Status p0 = Lease_active" "lease_slot p0 = lease_slot p" "LeaseID p0 = LeaseID p"
      using old [OF a(1,3)] by blast
    obtain q0 where q0: "q0 \<in> set rs" "le_Status q0 = Lease_active" "lease_slot q0 = lease_slot q" "LeaseID q0 = LeaseID q"
      using old [OF a(2,4)] by blast
    have "LeaseID p0 = LeaseID q0"
      by (rule one_activeD(2) [OF assms(1) p0(1) q0(1) p0(2) q0(2)]) (simp add: p0(3) q0(3) a(5))
    then show "LeaseID p = LeaseID q" by (simp add: p0(4) q0(4))
  qed
qed

lemma one_active_activated:
  assumes "one_active rs" "\<And>q. q \<in> set rs \<Longrightarrow> le_Status q = Lease_active \<Longrightarrow> lease_slot q \<noteq> lease_slot l"
    and "\<And>r. r \<in> set rs \<Longrightarrow> LeaseID r = LeaseID l \<Longrightarrow> lease_slot r = lease_slot l"
  shows "one_active (map (set_status l) rs)"
proof (rule one_activeI)
  show "distinct (map LeaseID (map (set_status l) rs))" using one_activeD(1) [OF assms(1)] by (simp add: comp_def)
  have kind: "LeaseID r = LeaseID l \<and> lease_slot r = lease_slot l \<or> r \<in> set rs \<and> lease_slot r \<noteq> lease_slot l"
    if r: "r \<in> set (map (set_status l) rs)" "le_Status r = Lease_active" for r
  proof -
    obtain r0 where r0: "r0 \<in> set rs" "r = set_status l r0" using r(1) by auto
    show ?thesis
    proof (cases "LeaseID r0 = LeaseID l")
      case True
      then show ?thesis using assms(3) [OF r0(1)] by (simp add: r0(2))
    next
      case False
      then have "r = r0" by (simp add: r0(2) set_status_def)
      then show ?thesis using assms(2) [OF r0(1)] r0(1) r(2) by simp
    qed
  qed
  fix p q
  assume a: "p \<in> set (map (set_status l) rs)" "q \<in> set (map (set_status l) rs)" "le_Status p = Lease_active"
    "le_Status q = Lease_active" "lease_slot p = lease_slot q"
  show "LeaseID p = LeaseID q"
    using kind [OF a(1,3)] kind [OF a(2,4)] a(5) one_activeD(2) [OF assms(1) _ _ a(3,4,5)] by auto
qed

section \<open>Finding the active lease\<close>

lemma newest_None: "newest rs = None \<longleftrightarrow> rs = []"
  by (induction rs) (auto split: option.splits)

lemma newest_Some: "newest rs = Some r \<Longrightarrow> r \<in> set rs"
  by (induction rs arbitrary: r) (auto split: option.splits if_splits)

lemma scanned: "scanActionLease r = Inr l \<Longrightarrow> l = r\<lparr>le_RevertedAt := le_RevertedAt l\<rparr>"
  by (auto simp: scanActionLease_def split: if_splits)

lemma found:
  assumes "FindActiveActionLease F a t act lv d = (Inr x, d')"
  obtains (none) "x = None" "\<And>q. q \<in> set (rows d) \<Longrightarrow> \<not> matches a t act lv q"
    | (lease) r l where "x = Some l" "r \<in> set (rows d)" "matches a t act lv r" "l = r\<lparr>le_RevertedAt := le_RevertedAt l\<rparr>"
  using assms unfolding FindActiveActionLease_def
proof (cases rule: db_call_cases)
  case up
  show thesis
  proof (cases "newest (filter (matches a t act lv) (rows d))")
    case None
    then show thesis using up none by (auto simp: newest_None filter_empty_conv)
  next
    case (Some r)
    then have r: "r \<in> set (rows d)" "matches a t act lv r" using newest_Some by fastforce+
    show thesis using up Some r scanned [of r] lease by (auto split: sum.splits)
  qed
qed simp

lemma find_rows: "FindActiveActionLease F a t act lv d = (x, d') \<Longrightarrow> rows d' = rows d"
  using keeps_find [OF eq_reflp_transp(1)] by (metis keeps_def snd_conv)

section \<open>Renewing and applying\<close>

definition slot_free :: "string \<times> string \<times> string \<times> string \<Rightarrow> action_lease list \<Rightarrow> bool" where
  "slot_free k rs \<longleftrightarrow> (\<forall>q \<in> set rs. le_Status q = Lease_active \<longrightarrow> lease_slot q \<noteq> k)"

lemma upsert_rows:
  assumes "UpsertActionLease F l d = (x, d')"
  shows "(\<exists>e. x = Inl e) \<and> rows d' = rows d \<or> x = Inr () \<and> rows d' = upsert l (rows d)"
  using assms unfolding UpsertActionLease_def by (cases rule: db_call_cases) auto

lemma update_result:
  assumes "UpdateActionLeaseStatus F l d = (x, d')"
  shows "(\<exists>e. x = Inl e) \<and> rows d' = rows d \<or> x = Inr () \<and> rows d' = map (set_status l) (rows d)"
  using assms unfolding UpdateActionLeaseStatus_def by (cases rule: db_call_cases) auto

text \<open>Retiring the one active lease of a slot frees the slot.\<close>

lemma slot_free_retired:
  assumes "one_active rs" "r \<in> set rs" "le_Status r = Lease_active" "LeaseID l = LeaseID r" "le_Status l \<noteq> Lease_active"
  shows "slot_free (lease_slot r) (map (set_status l) rs)"
  unfolding slot_free_def
proof (intro ballI impI notI)
  fix q
  assume q: "q \<in> set (map (set_status l) rs)" "le_Status q = Lease_active" "lease_slot q = lease_slot r"
  then obtain q0 where q0: "q0 \<in> set rs" "q = set_status l q0" by auto
  show False
  proof (cases "LeaseID q0 = LeaseID l")
    case True
    then show False using q(2) q0(2) assms(5) by (simp add: set_status_def)
  next
    case False
    then have "q = q0" by (simp add: q0(2) set_status_def)
    then have "LeaseID q0 = LeaseID r" using one_activeD(2) [OF assms(1) q0(1) assms(2)] q(2,3) assms(3) by simp
    then show False using False assms(4) by simp
  qed
qed

text \<open>Retiring by the given lease, as \<open>renewActiveLease\<close> does it.\<close>

lemma retire_result:
  assumes "try_db (UpdateActionLeaseStatus F l) (\<lambda>e d. (Renewal_failed l e, d)) (\<lambda>_ d. (Not_renewed, d)) d = (x, d')"
    and "le_Status l \<noteq> Lease_active"
  shows "(\<exists>e. x = Renewal_failed l e) \<and> rows d' = rows d \<or> x = Not_renewed \<and> rows d' = map (set_status l) (rows d)"
  using assms(1) update_result [of F l d] by (auto simp: try_db_def split: prod.splits sum.splits)

lemma renew_cases:
  assumes "renewActiveLease E b P r dec t md w d = (x, d')" "one_active (rows d)"
  obtains (renewed) l q where "x = Renewed l" "q \<in> set (rows d)" "matches (AdapterID P) t (ExecutableAction r) (ExecutableLevel r) q"
      "LeaseID l = LeaseID q" "lease_slot l = lease_slot q" "le_ExpiresAt l = e_now E + re_TTL r" "rows d' = upsert l (rows d)"
    | (vacant) "x = Not_renewed" "slot_free (AdapterID P, t, ExecutableAction r, ExecutableLevel r) (rows d')"
      "retired (rows d) (rows d')"
    | (refused) l why where "x = Renewal_refused l why \<or> x = Renewal_failed l why" "rows d' = rows d"
proof -
  let ?F = "e_outage E"
  let ?k = "(AdapterID P, t, ExecutableAction r, ExecutableLevel r)"
  obtain y d1 where f: "FindActiveActionLease ?F (AdapterID P) t (ExecutableAction r) (ExecutableLevel r) d = (y, d1)"
    by fastforce
  note d1 = find_rows [OF f]
  note run = assms(1) [unfolded renewActiveLease_def Let_def try_db_def f prod.case]
  show thesis
  proof (cases y)
    case (Inl e)
    with run d1 show thesis by (intro refused [of no_lease e]) simp_all
  next
    case (Inr z)
    from f [unfolded Inr] show thesis
    proof (cases rule: found)
      case none
      with run d1 Inr show thesis by (intro vacant) (auto simp: slot_free_def matches_slot retired.same)
    next
      case (lease q l)
      have l: "LeaseID l = LeaseID q" "lease_slot l = lease_slot q" by (subst lease(4), simp add: lease_slot_def)+
      have q: "lease_slot q = ?k" "le_Status q = Lease_active" using lease(3) by (simp_all add: matches_slot)
      have retire: thesis
        if "try_db (UpdateActionLeaseStatus ?F m) (\<lambda>e d. (Renewal_failed m e, d)) (\<lambda>_ d. (Not_renewed, d)) d1 = (x, d')"
          "LeaseID m = LeaseID q" "le_Status m \<noteq> Lease_active" for m
        using retire_result [OF that(1,3)]
      proof (elim disjE conjE exE)
        fix e assume "x = Renewal_failed m e" "rows d' = rows d1"
        then show thesis using d1 by (intro refused [of m e]) simp_all
      next
        assume a: "x = Not_renewed" "rows d' = map (set_status m) (rows d1)"
        show thesis
          using a d1 slot_free_retired [OF assms(2) lease(2) q(2) that(2,3)] q(1) that(3)
          by (intro vacant) (auto intro: retired.retire [OF retired.same])
      qed
      note run = run [unfolded Inr sum.case lease(1) option.case, folded try_db_def]
      show thesis
      proof (cases "executionMetadataChanged (le_Metadata l) md")
        case (Some key)
        show thesis
          by (rule retire [of "l\<lparr>le_Status := Lease_superseded,
             LastError := changed_text key, le_RevertedAt := Some (e_now E)\<rparr>"])
            (use run l Some in \<open>simp_all add: try_db_def\<close>)
      next
        case None
        note run = run [unfolded None option.case]
        show thesis
        proof (cases "CurrentFencingToken P l w")
          case (Inl e)
          with run d1 show thesis by (intro refused [of l e]) simp_all
        next
          case (Inr token)
          note run = run [unfolded Inr sum.case]
          show thesis
          proof (cases "token = le_Token l")
            case False
            show thesis
              by (rule retire [of "l\<lparr>le_Status := Lease_conflict,
                LastError := mismatch_text '' during renewal'' (le_Token l) token, le_RevertedAt := Some (e_now E)\<rparr>"])
                (use run l False in \<open>simp_all add: try_db_def\<close>)
          next
            case True
            note run = run [unfolded True if_not_P [OF not_not [THEN iffD2, OF refl]]]
            show thesis
            proof (cases "maxRenewals b > 0 \<and> leaseRenewalCount (le_Metadata l) \<ge> maxRenewals b")
              case True
              with run d1 show thesis
                by (intro refused [of l "''autonomy_max_renewals_exceeded''"]) simp_all
            next
              case False
              define m where "m = l\<lparr>le_DecisionID := dec, le_ProposalID := re_ProposalID r, le_PolicyID := re_PolicyID r,
                le_Reason := DenyReason r, le_ExpiresAt := e_now E + re_TTL r,
                le_Metadata := AList.update ''broker.renewal_count'' (Itoa (leaseRenewalCount (le_Metadata l) + 1)) md,
                le_Status := Lease_active, LastError := [], le_RevertedAt := None\<rparr>"
              obtain z d2 where u: "UpsertActionLease ?F m d1 = (z, d2)" by fastforce
              have m: "LeaseID m = LeaseID q" "lease_slot m = lease_slot q" "le_ExpiresAt m = e_now E + re_TTL r"
                using l by (simp_all add: m_def lease_slot_def)
              note run = run [unfolded if_not_P [OF False], folded m_def, unfolded u prod.case]
              from upsert_rows [OF u] show thesis
              proof (elim disjE conjE exE)
                fix e assume "z = Inl e" "rows d2 = rows d1"
                with run d1 show thesis by (intro refused [of m e]) simp_all
              next
                assume "z = Inr ()" "rows d2 = upsert m (rows d1)"
                with run d1 lease(2,3) m show thesis by (intro renewed [of m q]) simp_all
              qed
            qed
          qed
        qed
      qed
    qed
  qed
qed

lemma one_active_update:
  assumes "UpdateActionLeaseStatus F l d = (x, d')" "le_Status l \<noteq> Lease_active" "one_active (rows d)"
  shows "one_active (rows d')"
  using retired_one_active [OF update_rows [OF assms(2), of d F] assms(3)] assms(1) by simp

lemma apply_new_journal:
  assumes "apply_new_lease E P rc l w d = (x, w', d')" "one_active (rows d)" "LeaseID l \<notin> LeaseID ` set (rows d)"
    and "le_Status l = Lease_pending" "slot_free (lease_slot l) (rows d)"
  shows "one_active (rows d') \<and> (w' = w \<or> w' = snd (pep_Apply P l w))"
proof -
  let ?F = "e_outage E"
  obtain y d1 where u: "UpsertActionLease ?F l d = (y, d1)" by fastforce
  note run = assms(1) [unfolded apply_new_lease_def Let_def try_db_def u prod.case]
  show ?thesis
  proof (cases y)
    case (Inl e)
    with run assms(2) upsert_rows [OF u] show ?thesis by (auto simp: failed_apply_def)
  next
    case (Inr z)
    then have d1: "rows d1 = upsert l (rows d)" using upsert_rows [OF u] by auto
    have one: "one_active (rows d1)" unfolding d1 using assms(2-4) by (intro one_active_new) simp_all
    note run = run [unfolded Inr sum.case]
    obtain a w1 where p: "pep_Apply P l w = (a, w1)" by fastforce
    have retire: "one_active (rows (snd (UpdateActionLeaseStatus ?F m d1)))" if "le_Status m \<noteq> Lease_active" for m
      using one_active_update [OF prod.collapse [symmetric] that one] .
    show ?thesis
    proof (cases a)
      case (Inl e)
      with run p retire show ?thesis by (auto simp: failed_apply_def Let_def)
    next
      case (Inr token)
      show ?thesis
      proof (cases "token \<noteq> [] \<and> token \<noteq> le_Token l")
        case True
        with run p Inr retire show ?thesis by (auto simp: failed_apply_def Let_def)
      next
        case False
        let ?m = "l\<lparr>le_Status := Lease_active\<rparr>"
        note run = run [unfolded p prod.case Inr sum.case if_not_P [OF False]]
        obtain v d2 where a: "UpdateActionLeaseStatus ?F ?m d1 = (v, d2)" by fastforce
        have slot: "lease_slot ?m = lease_slot l" by (simp add: lease_slot_def)
        have two: "one_active (rows d2)"
          using update_result [OF a]
        proof (elim disjE conjE exE)
          assume "rows d2 = map (set_status ?m) (rows d1)"
          then have d2: "rows d2 = map (set_status ?m) (rows d1)" .
          show ?thesis
            unfolding d2
          proof (rule one_active_activated [OF one])
            fix q
            assume "q \<in> set (rows d1)"
            then have q: "q \<in> set (rows d) \<or> q = l" by (auto simp: d1 upsert_fresh [OF assms(3)])
            show "le_Status q = Lease_active \<Longrightarrow> lease_slot q \<noteq> lease_slot ?m"
              using q assms(4,5) by (auto simp: slot_free_def slot)
            show "LeaseID q = LeaseID ?m \<Longrightarrow> lease_slot q = lease_slot ?m"
              using q assms(3) by (auto simp: slot image_iff)
          qed
        qed (simp add: one)
        show ?thesis
        proof (cases v)
          case (Inl e)
          with run a p two show ?thesis by (auto simp: failed_apply_def)
        next
          case (Inr v')
          obtain v3 d3 where su: "supersedeWeakerActiveLeases ?F (AdapterID P) ?m (e_now E) d2 = (v3, d3)" by fastforce
          have "retired (rows d2) (rows d3)" using keeps_supersede_weaker su by (metis keeps_def snd_conv)
          then have "one_active (rows d3)" by (rule retired_one_active [OF _ two])
          with run a su p Inr show ?thesis by (cases v3) (auto simp: failed_apply_def)
        qed
      qed
    qed
  qed
qed

lemma new_lease_slot [simp]:
  "lease_slot (new_lease E b a r dec t md) = (a, t, ExecutableAction r, ExecutableLevel r)"
  "LeaseID (new_lease E b a r dec t md) = ''lease-'' @ e_lease_id E"
  "le_Status (new_lease E b a r dec t md) = Lease_pending"
  by (simp_all add: new_lease_def Let_def lease_slot_def)

definition fresh_id :: "broker_env \<Rightarrow> lease_db \<Rightarrow> bool" where
  "fresh_id E d \<longleftrightarrow> ''lease-'' @ e_lease_id E \<notin> LeaseID ` set (rows d)"

lemma renew_or_apply_journal:
  assumes "renew_or_apply E b P r dec t md rc w d = (x, w', d')" "one_active (rows d)" "fresh_id E d"
  shows "one_active (rows d') \<and> (w' = w \<or> (\<exists>l. w' = snd (pep_Apply P l w)))"
proof -
  obtain v d1 where n: "renewActiveLease E b P r dec t md w d = (v, d1)" by fastforce
  note run = assms(1) [unfolded renew_or_apply_def n prod.case]
  from n assms(2) show ?thesis
  proof (cases rule: renew_cases)
    case (renewed l q)
    have "one_active (rows d1)"
      unfolding renewed(7) using renewed(3) by (intro one_active_renewed [OF assms(2) renewed(2)] renewed) (simp add: matches_slot)
    with run renewed(1) show ?thesis by auto
  next
    case vacant
    let ?l = "new_lease E b (AdapterID P) r dec t md"
    have "LeaseID ` set (rows d1) = LeaseID ` set (rows d)"
      using retired_ids [OF vacant(3)] by (metis set_map)
    then have "LeaseID ?l \<notin> LeaseID ` set (rows d1)" using assms(3) by (simp add: fresh_id_def)
    with run vacant(1,2) retired_one_active [OF vacant(3) assms(2)] show ?thesis
      using apply_new_journal [of E P rc ?l w d1 x w' d'] by auto
  next
    case (refused l why)
    with run assms(2) show ?thesis by (auto simp: failed_apply_def)
  qed
qed

lemma broker_Apply_cases:
  assumes "broker_Apply E b P r w d = (x, w', d')"
  obtains (stopped) "w' = w" "rows d' = rows d" "LeaseID (fst x) = []"
    | (went) dec t md rc d1 where "renew_or_apply E b P r dec t md rc w d1 = (x, w', d')" "rows d1 = rows d"
      "Allowed r" "ExecutableLevel r \<noteq> ''observe''" "re_TTL r > 0"
proof (cases "\<not> Allowed r \<or> ExecutableLevel r = [] \<or> ExecutableLevel r = ''observe'' \<or> re_TTL r \<le> 0")
  case True
  with assms stopped show thesis by (auto simp: broker_Apply_def Let_def no_lease_def split: if_splits)
next
  case False
  let ?F = "e_outage E" and ?t = "targetString (re_Target r)"
  obtain y d1 where g: "autonomyPrerequisiteDenyReason ?F b (AdapterID P) r ?t d = (y, d1)" by fastforce
  have d1: "rows d1 = rows d"
    using keeps_gates(1) [OF eq_reflp_transp, of ?F b "AdapterID P" r ?t] g by (metis keeps_def snd_conv)
  obtain z d2 where h: "strongerActiveLeaseDenyReason ?F (AdapterID P) r ?t d1 = (z, d2)" by fastforce
  have d2: "rows d2 = rows d1"
    using keeps_gates(2) [OF eq_reflp_transp, of ?F "AdapterID P" r ?t] h by (metis keeps_def snd_conv)
  show thesis
  proof (cases "y = Inr [] \<and> z = Inr []")
    case True
    with assms False d1 d2 show thesis
      by (intro went [of _ _ _ _ d2]) (simp_all add: broker_Apply_def Let_def try_db_def g h)
  next
    case stop: False
    with assms False d1 d2 show thesis
      by (intro stopped) (auto simp: broker_Apply_def Let_def try_db_def g h no_lease_def split: sum.splits if_splits)
  qed
qed

lemma broker_Apply_journal:
  assumes "broker_Apply E b P r w d = (x, w', d')" "one_active (rows d)" "fresh_id E d"
  shows "one_active (rows d') \<and> (w' = w \<or> (\<exists>l. w' = snd (pep_Apply P l w)))"
  using assms(1)
proof (cases rule: broker_Apply_cases)
  case (went dec t md rc d1)
  then show ?thesis using renew_or_apply_journal [OF went(1)] assms(2,3) by (simp add: fresh_id_def)
qed (use assms(2) in simp)

section \<open>Without outages\<close>

lemma update_up: "F = (\<lambda>n. None) \<Longrightarrow> rows (snd (UpdateActionLeaseStatus F l d)) = map (set_status l) (rows d)"
  by (simp add: UpdateActionLeaseStatus_def db_call_def)

lemma update_up_result: "F = (\<lambda>n. None) \<Longrightarrow> fst (UpdateActionLeaseStatus F l d) = Inr ()"
  by (simp add: UpdateActionLeaseStatus_def db_call_def)

lemma revert_no_error:
  assumes "broker_Revert E b P l w d = ((rc, e), w', d')" "e_outage E = (\<lambda>n. None)"
    and "\<not> isl (CurrentFencingToken P l w)" "fst (pep_Revert P l w) = None"
  shows "e = None"
proof -
  have up: "\<exists>d2. UpdateActionLeaseStatus (\<lambda>n. None) m d = (Inr (), d2)" for m
    using update_up_result [of "\<lambda>n. None" m d] by (metis prod.collapse)
  obtain t w1 where t: "CurrentFencingToken P l w = Inr t" "pep_Revert P l w = (None, w1)"
    using assms(3,4) by (cases "CurrentFencingToken P l w"; cases "pep_Revert P l w") auto
  have "try_db (UpdateActionLeaseStatus (\<lambda>n. None) m) (\<lambda>er d. ((r, Some er), v, d)) (\<lambda>_ d. ((r, None), v, d)) d = ((rc, e), w', d') \<Longrightarrow>
      e = None" for m r v
    using up [of m] by (auto simp: try_db_def)
  with assms(1) show ?thesis
    unfolding broker_Revert_def Let_def t sum.case prod.case option.case assms(2) by (auto split: if_splits)
qed

lemma revert_other:
  assumes "broker_Revert E b P q w d = (x, w', d')" "LeaseID q \<noteq> i"
    and "\<forall>r \<in> set (rows d). LeaseID r = i \<longrightarrow> le_Status r = st"
  shows "\<forall>r \<in> set (rows d'). LeaseID r = i \<longrightarrow> le_Status r = st"
proof -
  have "\<forall>r \<in> set (rows (snd (UpdateActionLeaseStatus F m d))). LeaseID r = i \<longrightarrow> le_Status r = st"
    if "LeaseID m = LeaseID q" for F m
  proof (cases "UpdateActionLeaseStatus F m d")
    case (Pair y d2)
    with update_result [OF Pair] assms(2,3) that show ?thesis by (auto simp: set_status_def)
  qed
  with assms(1) show ?thesis by (cases rule: revert_cases) auto
qed

lemma revert_state:
  assumes "broker_Revert E b P q w d = (x, w', d')" "Q w" "Q (snd (pep_Revert P q w))"
  shows "Q w'"
  using assms(1) by (cases rule: revert_cases) (use assms(2,3) in auto)

section \<open>Fencing\<close>

text \<open>
  The contract of an enforcement point: it keeps a token for each key of a lease (the empty text is
  none), noted by an application, cleared by the revert of the lease that noted it.
\<close>

locale fencing_pep =
  fixes P :: "'w lease_pep" and token :: "'w \<Rightarrow> string \<Rightarrow> string" and key :: "action_lease \<Rightarrow> string"
  assumes token_now: "CurrentFencingToken P l w = Inr (if token w (key l) \<noteq> [] then token w (key l) else le_Token l)"
    and token_noted: "pep_Apply P l w = (Inr t, w') \<Longrightarrow> t = le_Token l \<and> token w' = (token w)(key l := le_Token l)"
    and token_cleared: "pep_Revert P l w = (None, w') \<Longrightarrow>
      token w' = (if token w (key l) = le_Token l then (token w)(key l := []) else token w)"
    and token_kept: "pep_Revert P l w = (Some e, w') \<Longrightarrow> token w' = token w"
begin

lemma overtaken:
  assumes "pep_Apply P l w = (Inr t, w1)" "key l' = key l" "le_Token l \<noteq> []" "le_Token l' \<noteq> le_Token l"
    and "broker_Revert E b P l' w1 d = ((rc, e), w2, d')"
  shows "w2 = w1 \<and> rc_Status rc = StatusConflict"
proof -
  have "CurrentFencingToken P l' w1 = Inr (le_Token l)"
    using token_noted [OF assms(1)] assms(2,3) by (simp add: token_now)
  with assms(4,5) show ?thesis
    by (auto simp: broker_Revert_def Let_def try_db_def split: prod.splits sum.splits)
qed

lemma holder_reverts:
  assumes "token w (key l) \<in> {[], le_Token l}" "broker_Revert E b P l w d = (x, w', d')"
  obtains l' e where "pep_Revert P l w = (e, w')" "d' = snd (UpdateActionLeaseStatus (e_outage E) l' d)"
    "LeaseID l' = LeaseID l" "le_Status l' = (if e = None then Lease_reverted else Lease_failed)"
  using assms(2)
proof (cases rule: revert_cases)
  case (fenced l')
  with assms(1) show ?thesis by (auto simp: token_now split: if_splits)
qed (use that in blast)

text \<open>A revert notes no token.\<close>

lemma revert_tokens:
  assumes "broker_Revert E b P l w d = (x, w', d')"
  shows "token w' k \<in> {token w k, []}"
  using assms
proof (cases rule: revert_cases)
  case (reverted l' e)
  show ?thesis
  proof (cases e)
    case None
    with reverted(1) have "token w' = (if token w (key l) = le_Token l then (token w)(key l := []) else token w)"
      by (intro token_cleared) simp
    then show ?thesis by simp
  next
    case (Some er)
    with reverted(1) show ?thesis using token_kept by simp
  qed
qed simp

text \<open>
  A sweep over listed leases reverts each of them that holds the token, or whose key has none: when no
  revert of them fails, what its revert establishes and every other revert keeps holds in the end.
\<close>

lemma sweep_reverts:
  assumes "revert_all E b P ls rcs w d = (x, w', d')" "l \<in> set ls" "distinct (map LeaseID ls)"
    and "e_outage E = (\<lambda>n. None)" "token w (key l) \<in> {[], le_Token l}"
    and "\<And>q w. q \<in> set ls \<Longrightarrow> fst (pep_Revert P q w) = None"
    and "\<And>w. Q (snd (pep_Revert P l w))"
    and "\<And>q w. q \<in> set ls \<Longrightarrow> Q w \<Longrightarrow> Q (snd (pep_Revert P q w))"
  shows "Q w' \<and> (\<forall>r \<in> set (rows d'). LeaseID r = LeaseID l \<longrightarrow> le_Status r = Lease_reverted)"
  using assms
proof (induction ls arbitrary: rcs w d)
  case (Cons q ls)
  obtain rc e w1 d1 where r: "broker_Revert E b P q w d = ((rc, e), w1, d1)" by (metis prod.exhaust)
  have e: "e = None"
    by (rule revert_no_error [OF r Cons.prems(4)]) (use Cons.prems(6) token_now in auto)
  then have rest: "revert_all E b P ls (rcs @ [rc]) w1 d1 = (x, w', d')" using Cons.prems(1) r by simp
  show ?case
  proof (cases "q = l")
    case True
    from Cons.prems(5) r [unfolded True] obtain l' e' where l': "pep_Revert P l w = (e', w1)"
      "d1 = snd (UpdateActionLeaseStatus (e_outage E) l' d)" "LeaseID l' = LeaseID l"
      "le_Status l' = (if e' = None then Lease_reverted else Lease_failed)" by (rule holder_reverts)
    have "e' = None" using Cons.prems(6) [of l w] l'(1) True by simp
    then have st: "\<forall>r \<in> set (rows d1). LeaseID r = LeaseID l \<longrightarrow> le_Status r = Lease_reverted"
      using l'(2-4) by (auto simp: update_up [OF Cons.prems(4)] set_status_def)
    have Q: "Q w1" using Cons.prems(7) [of w] l'(1) by simp
    show ?thesis
      using rest
    proof (rule revert_all_invariant [where I = "\<lambda>w d. Q w \<and>
        (\<forall>r \<in> set (rows d). LeaseID r = LeaseID l \<longrightarrow> le_Status r = Lease_reverted)"])
      show "Q w1 \<and> (\<forall>r \<in> set (rows d1). LeaseID r = LeaseID l \<longrightarrow> le_Status r = Lease_reverted)" using Q st by simp
      fix p v c y v' c'
      assume p: "p \<in> set ls" "broker_Revert E b P p v c = (y, v', c')"
        "Q v \<and> (\<forall>r \<in> set (rows c). LeaseID r = LeaseID l \<longrightarrow> le_Status r = Lease_reverted)"
      have "LeaseID p \<noteq> LeaseID l" using imageI [OF p(1), of LeaseID] Cons.prems(3) True by auto
      from p(2) this have "\<forall>r \<in> set (rows c'). LeaseID r = LeaseID l \<longrightarrow> le_Status r = Lease_reverted"
        by (rule revert_other) (simp add: p(3))
      moreover have "Q v'"
        by (rule revert_state [OF p(2)]) (use p(1,3) Cons.prems(8) [of p v] in simp_all)
      ultimately show "Q v' \<and> (\<forall>r \<in> set (rows c'). LeaseID r = LeaseID l \<longrightarrow> le_Status r = Lease_reverted)" by simp
    qed
  next
    case False
    have "token w1 (key l) \<in> {[], le_Token l}" using revert_tokens [OF r, of "key l"] Cons.prems(5) by auto
    with False Cons.prems show ?thesis by (intro Cons.IH [OF rest]) auto
  qed
qed simp

end

end
