(* ===== verification/Control_Plane.thy ===== *)
theory Control_Plane
  imports Scenario Wire_Layout Go_Text
begin

text \<open>
  The commands with which \<open>klshield\<close> writes the policy maps (\<open>src/shield/cmd/klshield/klshield.go\<close>), and
  the system they form with the program: any interleaving of packets, commands and the clearing of
  flow counters by the telemetry adapter (\<open>src/pkg/adapters/klshield/telemetry/adapter.go\<close>). Addresses
  and numbers come parsed, which the Go library does. The failure of a map update (the map is full)
  or of a delete (no such entry) ends the tool with an error, which here is a value. What an update
  does to a map is kernel code: the record \<open>control\<close> holds it, under the contracts \<open>bpf_hash\<close>,
  \<open>bpf_lru\<close> and \<open>bpf_trie\<close>. The last section shows that commands keep the invariant of the program.
\<close>

section \<open>The contract of trie updates\<close>

text \<open>
  Storing a prefix in an LPM trie is kernel code as well. Its contract: the update fails, or the trie
  then holds the new prefix with its value and every other prefix as it was.
\<close>

type_synonym 'k trie_update = "'k \<Rightarrow> u8 \<Rightarrow> 'k lpm_trie \<Rightarrow> 'k lpm_trie option"

locale bpf_trie =
  fixes upd :: "'k trie_update"
  assumes upd_stores: "upd k v T = Some T' \<Longrightarrow> set T' = insert (k, v) {e \<in> set T. fst e \<noteq> k}"
begin

lemma upd_covers:
  assumes "upd k v T = Some T'"
  shows "(\<exists>(e, w) \<in> set T'. P e) \<longleftrightarrow> P k \<or> (\<exists>(e, w) \<in> set T. P e)"
  unfolding upd_stores [OF assms] by auto

end

text \<open>A trie that replaces an equal prefix and refuses a new one when it is full.\<close>

definition trie_insert :: "bpf_map_def \<Rightarrow> 'k trie_update" where
  "trie_insert d k v T =
     (let T' = filter (\<lambda>e. fst e \<noteq> k) T
      in if length T' < max_entries d then Some ((k, v) # T') else None)"

interpretation trie: bpf_trie "trie_insert d" for d
  by unfold_locales (auto simp: trie_insert_def Let_def split: if_splits)

section \<open>Map operations of user space\<close>

datatype cli_error = Usage | Parse_failed | Update_failed | Delete_failed

text \<open>The system calls succeed exactly when the entry is stored, or was there to be removed.\<close>

definition map_update_elem ::
    "('k, 'v) map_update \<Rightarrow> 'k \<Rightarrow> 'v \<Rightarrow> ('k \<rightharpoonup> 'v) \<Rightarrow> cli_error + ('k \<rightharpoonup> 'v)" where
  "map_update_elem upd k v m =
     (let m' = upd BPF_ANY k v m in if m' k = Some v then Inr m' else Inl Update_failed)"

definition map_delete_elem :: "'k \<Rightarrow> ('k \<rightharpoonup> 'v) \<Rightarrow> cli_error + ('k \<rightharpoonup> 'v)" where
  "map_delete_elem k m = (if m k = None then Inl Delete_failed else Inr (m(k := None)))"

definition lpm_update_elem ::
    "'k trie_update \<Rightarrow> 'k \<Rightarrow> u8 \<Rightarrow> 'k lpm_trie \<Rightarrow> cli_error + 'k lpm_trie" where
  "lpm_update_elem upd k v T =
     (case upd k v T of None \<Rightarrow> Inl Update_failed | Some T' \<Rightarrow> Inr T')"

definition store_in :: "('m \<Rightarrow> 's \<Rightarrow> 's) \<Rightarrow> 's \<Rightarrow> cli_error + 'm \<Rightarrow> cli_error + 's" where
  "store_in put s r = (case r of Inl e \<Rightarrow> Inl e | Inr m \<Rightarrow> Inr (put m s))"

text \<open>The kernel side of the updates of the policy maps, one for each map.\<close>

record control =
  c_allow4 :: "lpm_key_v4 trie_update"
  c_allow6 :: "lpm_key_v6 trie_update"
  c_deny4 :: "(key4_bytes, u8) map_update"
  c_deny6 :: "(key6_bytes, u8) map_update"
  c_rl4 :: "(key4_bytes, rl_cfg_t) map_update"
  c_rl6 :: "(src6_key, rl_cfg_t) map_update"
  c_edge_deny :: "(edge4_key, u8) map_update"
  c_edge_allow :: "(edge4_key, u8) map_update"
  c_edge_rl :: "(edge4_key, rl_cfg_t) map_update"

definition control_ok :: "control \<Rightarrow> bool" where
  "control_ok C \<longleftrightarrow>
     bpf_trie (c_allow4 C) \<and> bpf_trie (c_allow6 C) \<and>
     bpf_hash (c_deny4 C) (max_entries xdp_deny_hash_map) \<and>
     bpf_hash (c_deny6 C) (max_entries xdp_deny6_hash_map) \<and>
     bpf_hash (c_rl4 C) (max_entries xdp_rl_policy4_map) \<and>
     bpf_hash (c_rl6 C) (max_entries xdp_rl_policy6_map) \<and>
     bpf_lru (c_edge_deny C) \<and> bpf_lru (c_edge_allow C) \<and>
     bpf_hash (c_edge_rl C) (max_entries edge4_rl_policy_map)"

section \<open>The commands\<close>

text \<open>A parsed address: \<open>To4\<close> of the Go library gives 4 bytes, otherwise \<open>To16\<close> gives 16.\<close>

datatype ip = IPv4 "u8 list" | IPv6 "u8 list"

definition addAllowCIDR :: "control \<Rightarrow> ip \<Rightarrow> nat \<Rightarrow> shield \<Rightarrow> cli_error + shield" where
  "addAllowCIDR C a ones s =
     (case a of
        IPv4 ip4 \<Rightarrow>
          store_in (\<lambda>T. xdp_allow_lpm_update (\<lambda>_. T)) s
            (lpm_update_elem (c_allow4 C) \<lparr>lpm4_prefixlen = of_nat ones, lpm4_data = ip4\<rparr> 1
              (xdp_allow_lpm s))
      | IPv6 ip16 \<Rightarrow>
          store_in (\<lambda>T. xdp_allow6_lpm_update (\<lambda>_. T)) s
            (lpm_update_elem (c_allow6 C) \<lparr>lpm6_prefixlen = of_nat ones, lpm6_data = ip16\<rparr> 1
              (xdp_allow6_lpm s)))"

definition addDenyIP :: "control \<Rightarrow> ip \<Rightarrow> shield \<Rightarrow> cli_error + shield" where
  "addDenyIP C a s =
     (case a of
        IPv4 ip4 \<Rightarrow>
          store_in (\<lambda>m. xdp_deny_hash_update (\<lambda>_. m)) s
            (map_update_elem (c_deny4 C) \<lparr>k4_ip = ip4\<rparr> 1 (xdp_deny_hash s))
      | IPv6 ip16 \<Rightarrow>
          store_in (\<lambda>m. xdp_deny6_hash_update (\<lambda>_. m)) s
            (map_update_elem (c_deny6 C) \<lparr>k6_ip = ip16\<rparr> 1 (xdp_deny6_hash s)))"

definition delDenyIP :: "ip \<Rightarrow> shield \<Rightarrow> cli_error + shield" where
  "delDenyIP a s =
     (case a of
        IPv4 ip4 \<Rightarrow>
          store_in (\<lambda>m. xdp_deny_hash_update (\<lambda>_. m)) s
            (map_delete_elem \<lparr>k4_ip = ip4\<rparr> (xdp_deny_hash s))
      | IPv6 ip16 \<Rightarrow>
          store_in (\<lambda>m. xdp_deny6_hash_update (\<lambda>_. m)) s
            (map_delete_elem \<lparr>k6_ip = ip16\<rparr> (xdp_deny6_hash s)))"

text \<open>\<open>resetMaps\<close> collects the keys of four maps and deletes each of them.\<close>

definition resetMaps :: "shield \<Rightarrow> shield" where
  "resetMaps s =
     s\<lparr>xdp_deny_hash := (\<lambda>k. None), xdp_deny6_hash := (\<lambda>k. None),
       xdp_rl_policy4 := (\<lambda>k. None), xdp_rl_policy6 := (\<lambda>k. None)\<rparr>"

definition cur_cfg :: "shield \<Rightarrow> xdp_cfg_t" where
  "cur_cfg s =
     (case xdp_cfg s 0 of None \<Rightarrow> \<lparr>enforce_allow = 0, event_sample_mask = 0\<rparr> | Some c \<Rightarrow> c)"

definition enforceAllow :: "bool \<Rightarrow> shield \<Rightarrow> shield" where
  "enforceAllow on s =
     (let cur = (cur_cfg s)\<lparr>enforce_allow := if on then 1 else 0\<rparr>;
          cur = (if event_sample_mask cur = 0 then cur\<lparr>event_sample_mask := 1023\<rparr> else cur)
      in s\<lparr>xdp_cfg := (xdp_cfg s)(0 \<mapsto> cur)\<rparr>)"

definition setEventSampling :: "u32 \<Rightarrow> shield \<Rightarrow> shield" where
  "setEventSampling msk s =
     s\<lparr>xdp_cfg := (xdp_cfg s)(0 \<mapsto> (cur_cfg s)\<lparr>event_sample_mask := msk\<rparr>)\<rparr>"

text \<open>Attaching the program gives events a default sampling mask.\<close>

definition initCfgDefaults :: "shield \<Rightarrow> shield" where
  "initCfgDefaults s =
     (let cur = cur_cfg s
      in if event_sample_mask cur = 0
         then s\<lparr>xdp_cfg := (xdp_cfg s)(0 \<mapsto> cur\<lparr>event_sample_mask := 1023\<rparr>)\<rparr> else s)"

definition rlSet :: "u64 \<Rightarrow> u64 \<Rightarrow> shield \<Rightarrow> shield" where
  "rlSet rate bst s = s\<lparr>xdp_rl_cfg := (xdp_rl_cfg s)(0 \<mapsto> \<lparr>rate_pps = rate, burst = bst\<rparr>)\<rparr>"

definition rlSetIP :: "control \<Rightarrow> ip \<Rightarrow> u64 \<Rightarrow> u64 \<Rightarrow> shield \<Rightarrow> cli_error + shield" where
  "rlSetIP C a rate bst s =
     (case a of
        IPv4 ip4 \<Rightarrow>
          store_in (\<lambda>m. xdp_rl_policy4_update (\<lambda>_. m)) s
            (map_update_elem (c_rl4 C) \<lparr>k4_ip = ip4\<rparr> \<lparr>rate_pps = rate, burst = bst\<rparr>
              (xdp_rl_policy4 s))
      | IPv6 ip16 \<Rightarrow>
          store_in (\<lambda>m. xdp_rl_policy6_update (\<lambda>_. m)) s
            (map_update_elem (c_rl6 C) \<lparr>src6_ip = ip16\<rparr> \<lparr>rate_pps = rate, burst = bst\<rparr>
              (xdp_rl_policy6 s)))"

definition rlUnsetIP :: "ip \<Rightarrow> shield \<Rightarrow> cli_error + shield" where
  "rlUnsetIP a s =
     (case a of
        IPv4 ip4 \<Rightarrow>
          store_in (\<lambda>m. xdp_rl_policy4_update (\<lambda>_. m)) s
            (map_delete_elem \<lparr>k4_ip = ip4\<rparr> (xdp_rl_policy4 s))
      | IPv6 ip16 \<Rightarrow>
          store_in (\<lambda>m. xdp_rl_policy6_update (\<lambda>_. m)) s
            (map_delete_elem \<lparr>src6_ip = ip16\<rparr> (xdp_rl_policy6 s)))"

text \<open>
  The tuple of an edge command: the address in wire order, the port in host order (cut to 16 bits)
  and the protocol by name. The C key reads the four address bytes as one little-endian word.
\<close>

definition parse_proto :: "string \<Rightarrow> u8 option" where
  "parse_proto p =
     (let p = ToLower p
      in if p = ''tcp'' then Some 6 else if p = ''udp'' then Some 17
         else if p = ''icmp'' then Some 1 else None)"

definition parseEdge4Key :: "ip \<Rightarrow> u64 \<Rightarrow> string \<Rightarrow> cli_error + edge4_key" where
  "parseEdge4Key a port proto =
     (case a of
        IPv6 _ \<Rightarrow> Inl Parse_failed
      | IPv4 ip4 \<Rightarrow>
          (case parse_proto proto of
             None \<Rightarrow> Inl Parse_failed
           | Some p \<Rightarrow>
               Inr \<lparr>ek_src_ip = of_nat (le_nat ip4), ek_dst_port = ucast port, ek_proto = p,
                    ek_pad = 0\<rparr>))"

definition addEdgeDeny :: "control \<Rightarrow> ip \<Rightarrow> u64 \<Rightarrow> string \<Rightarrow> shield \<Rightarrow> cli_error + shield" where
  "addEdgeDeny C a port proto s =
     (case parseEdge4Key a port proto of
        Inl e \<Rightarrow> Inl e
      | Inr k \<Rightarrow> store_in (\<lambda>m. edge4_deny_update (\<lambda>_. m)) s
          (map_update_elem (c_edge_deny C) k 1 (edge4_deny s)))"

text \<open>Deleting a tuple that is not there is reported, but is no failure.\<close>

definition delEdgeDeny :: "ip \<Rightarrow> u64 \<Rightarrow> string \<Rightarrow> shield \<Rightarrow> cli_error + shield" where
  "delEdgeDeny a port proto s =
     (case parseEdge4Key a port proto of
        Inl e \<Rightarrow> Inl e
      | Inr k \<Rightarrow> Inr (s\<lparr>edge4_deny := (edge4_deny s)(k := None)\<rparr>))"

definition addEdgeAllow :: "control \<Rightarrow> ip \<Rightarrow> u64 \<Rightarrow> string \<Rightarrow> shield \<Rightarrow> cli_error + shield" where
  "addEdgeAllow C a port proto s =
     (case parseEdge4Key a port proto of
        Inl e \<Rightarrow> Inl e
      | Inr k \<Rightarrow> store_in (\<lambda>m. edge4_allow_update (\<lambda>_. m)) s
          (map_update_elem (c_edge_allow C) k 1 (edge4_allow s)))"

definition delEdgeAllow :: "ip \<Rightarrow> u64 \<Rightarrow> string \<Rightarrow> shield \<Rightarrow> cli_error + shield" where
  "delEdgeAllow a port proto s =
     (case parseEdge4Key a port proto of
        Inl e \<Rightarrow> Inl e
      | Inr k \<Rightarrow> Inr (s\<lparr>edge4_allow := (edge4_allow s)(k := None)\<rparr>))"

definition setEdgeRL ::
    "control \<Rightarrow> ip \<Rightarrow> u64 \<Rightarrow> string \<Rightarrow> u64 \<Rightarrow> u64 \<Rightarrow> shield \<Rightarrow> cli_error + shield" where
  "setEdgeRL C a port proto rate bst s =
     (case parseEdge4Key a port proto of
        Inl e \<Rightarrow> Inl e
      | Inr k \<Rightarrow> store_in (\<lambda>m. edge4_rl_policy_update (\<lambda>_. m)) s
          (map_update_elem (c_edge_rl C) k \<lparr>rate_pps = rate, burst = bst\<rparr> (edge4_rl_policy s)))"

definition tupleEnforceMode :: "string \<Rightarrow> shield \<Rightarrow> shield" where
  "tupleEnforceMode md s =
     s\<lparr>edge4_cfg := (edge4_cfg s)(0 \<mapsto>
        \<lparr>edge_mode = (let md = ToLower md
                      in if md = ''on'' \<or> md = ''deny'' then 1 else if md = ''allow'' then 2 else 0),
         edge_pad = 0\<rparr>)\<rparr>"

section \<open>The system\<close>

text \<open>
  The commands that write maps, with the arguments as they come out of the flag parser, and the
  configuration default of \<open>attach-xdp\<close>. \<open>run_command\<close> is the dispatch of \<open>main\<close> with its checks of
  the arguments.
\<close>

datatype command =
    Attach_xdp
  | Add_allow_cidr ip nat
  | Add_deny_ip ip
  | Del_deny_ip ip
  | Enforce_allow string
  | Set_sampling u32
  | Set_default_rl u64 u64
  | Disable_default_rl
  | Rl_set u64 u64
  | Rl_set_ip ip u64 u64
  | Rl_unset_ip ip
  | Tuple_enforce string
  | Add_edge_deny ip u64 string
  | Del_edge_deny ip u64 string
  | Add_edge_allow ip u64 string
  | Del_edge_allow ip u64 string
  | Set_edge_rl ip u64 string u64 u64
  | Reset

fun run_command :: "control \<Rightarrow> command \<Rightarrow> shield \<Rightarrow> cli_error + shield" where
  "run_command C Attach_xdp s = Inr (initCfgDefaults s)"
| "run_command C (Add_allow_cidr a n) s = addAllowCIDR C a n s"
| "run_command C (Add_deny_ip a) s = addDenyIP C a s"
| "run_command C (Del_deny_ip a) s = delDenyIP a s"
| "run_command C (Enforce_allow w) s = Inr (enforceAllow (ToLower w = ''on'') s)"
| "run_command C (Set_sampling m) s = Inr (setEventSampling m s)"
| "run_command C (Set_default_rl r b) s = (if r = 0 \<or> b = 0 then Inl Usage else Inr (rlSet r b s))"
| "run_command C Disable_default_rl s = Inr (rlSet 0 0 s)"
| "run_command C (Rl_set r b) s = Inr (rlSet r b s)"
| "run_command C (Rl_set_ip a r b) s = rlSetIP C a r b s"
| "run_command C (Rl_unset_ip a) s = rlUnsetIP a s"
| "run_command C (Tuple_enforce md) s = Inr (tupleEnforceMode md s)"
| "run_command C (Add_edge_deny a p pr) s = addEdgeDeny C a p pr s"
| "run_command C (Del_edge_deny a p pr) s = delEdgeDeny a p pr s"
| "run_command C (Add_edge_allow a p pr) s = addEdgeAllow C a p pr s"
| "run_command C (Del_edge_allow a p pr) s = delEdgeAllow a p pr s"
| "run_command C (Set_edge_rl a p pr r b) s =
     (if r = 0 \<or> b = 0 then Inl Usage else setEdgeRL C a p pr r b s)"
| "run_command C Reset s = Inr (resetMaps s)"

text \<open>
  A step of the system: a packet on some CPU, a command that succeeds, a command that fails and
  changes nothing, or the telemetry adapter deleting the flow entries it has read.
\<close>

datatype sys_event =
    Packet kernel nat packet xdp_action
  | Command command
  | Failed command cli_error
  | Flows_read "flow4_key set"

inductive sys_step :: "control \<Rightarrow> shield \<Rightarrow> sys_event \<Rightarrow> shield \<Rightarrow> bool" for C where
  packet: "kernel_ok K \<Longrightarrow> xdp_klshield K cpu pkt s = Some (a, s') \<Longrightarrow>
    sys_step C s (Packet K cpu pkt a) s'"
| command: "run_command C cmd s = Inr s' \<Longrightarrow> sys_step C s (Command cmd) s'"
| failed: "run_command C cmd s = Inl e \<Longrightarrow> sys_step C s (Failed cmd e) s"
| flows_read: "sys_step C s (Flows_read ks)
    (s\<lparr>xdp_flow4_stats := (\<lambda>k. if k \<in> ks then None else xdp_flow4_stats s k)\<rparr>)"

abbreviation sys_run :: "control \<Rightarrow> shield \<Rightarrow> sys_event list \<Rightarrow> shield \<Rightarrow> bool" where
  "sys_run C \<equiv> steps (sys_step C)"

inductive_simps sys_step_command: "sys_step C s (Command cmd) s'"

section \<open>Commands keep the invariant of the program\<close>

lemmas command_defs =
  initCfgDefaults_def
  addAllowCIDR_def addDenyIP_def delDenyIP_def resetMaps_def enforceAllow_def setEventSampling_def
  rlSet_def rlSetIP_def rlUnsetIP_def addEdgeDeny_def delEdgeDeny_def addEdgeAllow_def
  delEdgeAllow_def setEdgeRL_def tupleEnforceMode_def

text \<open>What no command touches: telemetry and buckets.\<close>

definition data_view where
  "data_view s =
     (xdp_totals s, xdp_src4_stats s, xdp_src6_stats s, xdp_flow4_stats s, edge4_rl_state s,
      xdp_rl_state4 s, xdp_rl_state6 s, xdp_port_hist s, xdp_len_hist s, xdp_events s)"

lemma data_view_frame [simp]:
  "data_view (xdp_allow_lpm_update f1 s) = data_view s"
  "data_view (xdp_allow6_lpm_update f2 s) = data_view s"
  "data_view (xdp_deny_hash_update f3 s) = data_view s"
  "data_view (xdp_deny6_hash_update f4 s) = data_view s"
  "data_view (xdp_cfg_update f5 s) = data_view s"
  "data_view (edge4_deny_update f6 s) = data_view s"
  "data_view (edge4_allow_update f7 s) = data_view s"
  "data_view (edge4_rl_policy_update f8 s) = data_view s"
  "data_view (edge4_cfg_update f9 s) = data_view s"
  "data_view (xdp_rl_cfg_update f10 s) = data_view s"
  "data_view (xdp_rl_policy4_update f11 s) = data_view s"
  "data_view (xdp_rl_policy6_update f12 s) = data_view s"
  by (simp_all add: data_view_def)

lemma store_in_Inr: "store_in put s r = Inr s' \<longleftrightarrow> (\<exists>m. r = Inr m \<and> s' = put m s)"
  by (auto simp: store_in_def split: sum.splits)

lemma run_command_data: "run_command C cmd s = Inr s' \<Longrightarrow> data_view s' = data_view s"
  by (cases cmd) (auto simp: command_defs store_in_Inr Let_def split: ip.splits sum.splits if_splits)

lemma array_wf_index0: "array_wf d m \<Longrightarrow> 0 < max_entries d \<Longrightarrow> array_wf d (m(0 \<mapsto> v))"
  by (auto simp: array_wf_def)

definition config_wf :: "shield \<Rightarrow> bool" where
  "config_wf s \<longleftrightarrow> array_wf xdp_cfg_map (xdp_cfg s) \<and> array_wf xdp_rl_cfg_map (xdp_rl_cfg s) \<and>
     array_wf edge4_cfg_map (edge4_cfg s)"

lemma config_wf_frame [simp]:
  "config_wf (xdp_allow_lpm_update f1 s) = config_wf s"
  "config_wf (xdp_allow6_lpm_update f2 s) = config_wf s"
  "config_wf (xdp_deny_hash_update f3 s) = config_wf s"
  "config_wf (xdp_deny6_hash_update f4 s) = config_wf s"
  "config_wf (edge4_deny_update f6 s) = config_wf s"
  "config_wf (edge4_allow_update f7 s) = config_wf s"
  "config_wf (edge4_rl_policy_update f8 s) = config_wf s"
  "config_wf (xdp_rl_policy4_update f11 s) = config_wf s"
  "config_wf (xdp_rl_policy6_update f12 s) = config_wf s"
  by (simp_all add: config_wf_def)

lemma config_wf_index0 [simp]:
  "config_wf s \<Longrightarrow> config_wf (s\<lparr>xdp_cfg := (xdp_cfg s)(0 \<mapsto> c)\<rparr>)"
  "config_wf s \<Longrightarrow> config_wf (s\<lparr>xdp_rl_cfg := (xdp_rl_cfg s)(0 \<mapsto> l)\<rparr>)"
  "config_wf s \<Longrightarrow> config_wf (s\<lparr>edge4_cfg := (edge4_cfg s)(0 \<mapsto> e)\<rparr>)"
  by (simp_all add: config_wf_def array_wf_index0 xdp_cfg_map_def xdp_rl_cfg_map_def edge4_cfg_map_def)

lemma run_command_config: "run_command C cmd s = Inr s' \<Longrightarrow> config_wf s \<Longrightarrow> config_wf s'"
  by (cases cmd) (auto simp: command_defs store_in_Inr Let_def split: ip.splits sum.splits if_splits)

lemma run_command_inv: "run_command C cmd s = Inr s' \<Longrightarrow> shield_inv s \<Longrightarrow> shield_inv s'"
  using run_command_data [of C cmd s s'] run_command_config [of C cmd s s']
  by (simp add: shield_inv_def data_view_def config_wf_def buckets_free_def arrays_wf_def
      cpus_balanced_def sources_balanced_def)

lemma sys_step_inv:
  assumes "sys_step C s e s'" "shield_inv s"
  shows "shield_inv s'"
  using assms(1)
proof (cases rule: sys_step.cases)
  case (packet K cpu pkt a)
  show ?thesis by (rule run_shield_inv [OF packet(2) assms(2) packet(3)])
next
  case (command cmd)
  then show ?thesis using run_command_inv assms(2) by blast
next
  case (flows_read ks)
  then show ?thesis
    using assms(2) by (simp add: shield_inv_def buckets_free_def arrays_wf_def cpus_balanced_def
        sources_balanced_def)
qed (use assms(2) in auto)

end
