(* ===== verification/Control_Laws.thy ===== *)
theory Control_Laws
  imports Control_Plane
begin

text \<open>
  What the commands of \<open>klshield\<close> achieve: properties of single commands and of every interleaving of
  commands and packets, by induction over runs of the system, with instances over concrete maps.
\<close>

section \<open>Policy over time\<close>

text \<open>
  C10: Every reachable state is safe. Whatever packets arrive and whatever commands are given, in any
  order, the invariant of the program holds, and the next packet is decided.
\<close>

theorem reachable_states_are_safe:
  assumes "shield_inv s0" "sys_run C s0 es s"
  shows "shield_inv s \<and> (\<exists>a s'. xdp_klshield K cpu pkt s = Some (a, s') \<and> a \<in> {XDP_PASS, XDP_DROP})"
proof -
  have inv: "shield_inv s"
    by (rule steps_invariant [where P = shield_inv, OF assms(2,1)]) (rule sys_step_inv)
  then obtain a s' where run: "xdp_klshield K cpu pkt s = Some (a, s')"
    using run_total [of s] unfolding shield_inv_def by blast
  with run_action [OF run] inv show ?thesis by auto
qed

lemma control_okD:
  assumes "control_ok C"
  shows "bpf_hash (c_deny4 C) (max_entries xdp_deny_hash_map)" "bpf_lru (c_edge_allow C)"
    "bpf_lru (c_edge_deny C)" "bpf_trie (c_allow4 C)"
  using assms by (simp_all add: control_ok_def)

lemma map_update_elem_Inr:
  "map_update_elem upd k v m = Inr m' \<Longrightarrow> m' = upd BPF_ANY k v m \<and> m' k = Some v"
  by (auto simp: map_update_elem_def Let_def split: if_splits)

lemma map_delete_elem_Inr: "map_delete_elem k m = Inr m' \<Longrightarrow> m' = m(k := None)"
  by (auto simp: map_delete_elem_def split: if_splits)

text \<open>The IPv4 deny list under a command: entries go by their own removal or by a reset only.\<close>

lemma addDenyIP_denies: "addDenyIP C (IPv4 ip4) s = Inr s' \<Longrightarrow> xdp_deny_hash s' \<lparr>k4_ip = ip4\<rparr> = Some 1"
  by (auto simp: addDenyIP_def store_in_Inr dest!: map_update_elem_Inr)

lemma command_deny_hash:
  assumes "control_ok C" "run_command C cmd s = Inr s'" "xdp_deny_hash s \<lparr>k4_ip = ip4\<rparr> \<noteq> None"
    and "cmd \<noteq> Reset" "cmd \<noteq> Del_deny_ip (IPv4 ip4)"
  shows "xdp_deny_hash s' \<lparr>k4_ip = ip4\<rparr> \<noteq> None"
proof (cases "\<exists>a. cmd = Add_deny_ip a \<or> cmd = Del_deny_ip a")
  case False
  then have "xdp_deny_hash s' = xdp_deny_hash s"
    using assms(2,4) by (cases cmd) (auto simp: command_defs store_in_Inr Let_def split: ip.splits sum.splits if_splits)
  with assms(3) show ?thesis by simp
next
  case True
  then obtain a where cmd: "cmd = Add_deny_ip a \<or> cmd = Del_deny_ip a" by blast
  show ?thesis
  proof (cases a)
    case (IPv4 b)
    have frame: "c_deny4 C BPF_ANY \<lparr>k4_ip = b\<rparr> 1 (xdp_deny_hash s) \<lparr>k4_ip = ip4\<rparr> = xdp_deny_hash s \<lparr>k4_ip = ip4\<rparr>"
      if "b \<noteq> ip4" using bpf_hash.upd_frame [OF control_okD(1) [OF assms(1)]] that by simp
    from cmd show ?thesis
    proof
      assume "cmd = Add_deny_ip a"
      with assms(2,3) frame show ?thesis
        by (cases "b = ip4") (auto simp: IPv4 addDenyIP_def store_in_Inr dest!: map_update_elem_Inr)
    next
      assume "cmd = Del_deny_ip a"
      with assms(2,3,5) show ?thesis
        by (auto simp: IPv4 delDenyIP_def store_in_Inr dest!: map_delete_elem_Inr)
    qed
  next
    case (IPv6 b)
    with cmd assms(2,3) show ?thesis by (auto simp: addDenyIP_def delDenyIP_def store_in_Inr)
  qed
qed

lemma run_policy_maps:
  assumes "xdp_klshield K cpu pkt s = Some (a, s')"
  shows "xdp_deny_hash s' = xdp_deny_hash s" "edge4_allow s' = edge4_allow s" "edge4_cfg s' = edge4_cfg s"
    "edge4_deny s' = edge4_deny s"
  using run_policy [OF assms] by (simp_all add: policy_view_def)

lemma step_deny_hash:
  assumes "control_ok C" "sys_step C s e s'" "xdp_deny_hash s \<lparr>k4_ip = ip4\<rparr> \<noteq> None"
    and "e \<noteq> Command Reset" "e \<noteq> Command (Del_deny_ip (IPv4 ip4))"
  shows "xdp_deny_hash s' \<lparr>k4_ip = ip4\<rparr> \<noteq> None"
  using assms(2)
proof (cases rule: sys_step.cases)
  case (packet K cpu pkt a)
  then show ?thesis using run_policy_maps(1) assms(3) by metis
next
  case (command cmd)
  then show ?thesis using command_deny_hash [OF assms(1) command(2) assms(3)] assms(4,5) by auto
qed (use assms(3) in auto)

text \<open>An entry of the deny list drops its packets as long as nobody removes it.\<close>

lemma denied_entry_stays:
  assumes "control_ok C" "shield_inv s1" "xdp_deny_hash s1 \<lparr>k4_ip = bytes_of_u32 a\<rparr> \<noteq> None"
    and "sys_run C s1 es s"
    and "Command Reset \<notin> set es" "Command (Del_deny_ip (IPv4 (bytes_of_u32 a))) \<notin> set es"
    and "kernel_ok K" "source_v4 pkt = Some a"
  shows "\<exists>s'. xdp_klshield K cpu pkt s = Some (XDP_DROP, s') \<and> abs_firewall s' = abs_firewall s"
proof -
  let ?P = "\<lambda>s. shield_inv s \<and> xdp_deny_hash s \<lparr>k4_ip = bytes_of_u32 a\<rparr> \<noteq> None"
  have "?P s1" using assms(2,3) by blast
  then have "?P s"
    by (rule steps_invariant [where P = ?P, OF assms(4)])
      (use assms(5,6) sys_step_inv step_deny_hash [OF assms(1)] in blast)
  then show ?thesis
    using run_acl_v4_drop [OF assms(7) _ assms(8)] by (simp add: in_deny_v4_def shield_inv_def)
qed

text \<open>
  C9: A denied source stays out. Once \<open>klshield\<close> has added an IPv4 address to the deny list, every
  packet from it is dropped and charges no bucket, in whatever state the system gets to by packets
  and commands, until that entry is removed or the lists are reset. No flood of other entries
  pushes it out.
\<close>

theorem denied_source_stays_out:
  assumes "control_ok C" "shield_inv s0" "addDenyIP C (IPv4 (bytes_of_u32 a)) s0 = Inr s1"
    and "sys_run C s1 es s"
    and "Command Reset \<notin> set es" "Command (Del_deny_ip (IPv4 (bytes_of_u32 a))) \<notin> set es"
    and "kernel_ok K" "source_v4 pkt = Some a"
  shows "\<exists>s'. xdp_klshield K cpu pkt s = Some (XDP_DROP, s') \<and> abs_firewall s' = abs_firewall s"
proof -
  have "shield_inv s1" using run_command_inv [of C "Add_deny_ip (IPv4 (bytes_of_u32 a))"] assms(2,3) by simp
  moreover have "xdp_deny_hash s1 \<lparr>k4_ip = bytes_of_u32 a\<rparr> \<noteq> None" using addDenyIP_denies [OF assms(3)] by simp
  ultimately show ?thesis by (rule denied_entry_stays [OF assms(1) _ _ assms(4-8)])
qed

text \<open>The tuple allow list and the mode under a command.\<close>

lemma command_edge_allow:
  assumes "control_ok C" "run_command C cmd s = Inr s'" "edge4_allow s k = None"
    and "\<And>a p pr. cmd = Add_edge_allow a p pr \<Longrightarrow> parseEdge4Key a p pr \<noteq> Inr k"
  shows "edge4_allow s' k = None"
proof (cases "\<exists>a p pr. cmd = Add_edge_allow a p pr \<or> cmd = Del_edge_allow a p pr")
  case False
  then have "edge4_allow s' = edge4_allow s"
    using assms(2)
    by (cases cmd) (auto simp: command_defs store_in_Inr Let_def split: ip.splits sum.splits if_splits)
  with assms(3) show ?thesis by simp
next
  case True
  then obtain a p pr where cmd: "cmd = Add_edge_allow a p pr \<or> cmd = Del_edge_allow a p pr" by blast
  then show ?thesis
  proof
    assume c: "cmd = Add_edge_allow a p pr"
    then obtain k' where k': "parseEdge4Key a p pr = Inr k'" "k' \<noteq> k"
      and s': "edge4_allow s' = c_edge_allow C BPF_ANY k' 1 (edge4_allow s)"
      using assms(2,4)
      by (fastforce simp: addEdgeAllow_def store_in_Inr dest!: map_update_elem_Inr split: sum.splits)
    show ?thesis
      using bpf_lru.upd_other [OF control_okD(2) [OF assms(1)], of k k'] k'(2) assms(3) s' by metis
  next
    assume "cmd = Del_edge_allow a p pr"
    with assms(2,3) show ?thesis by (auto simp: delEdgeAllow_def split: sum.splits)
  qed
qed

lemma command_edge_cfg:
  assumes "run_command C cmd s = Inr s'" "\<And>md. cmd \<noteq> Tuple_enforce md"
  shows "edge4_cfg s' = edge4_cfg s"
  using assms by (cases cmd) (auto simp: command_defs store_in_Inr Let_def split: ip.splits sum.splits if_splits)

lemma step_edge_allow:
  assumes "control_ok C" "sys_step C s e s'" "edge4_allow s k = None"
    and "\<And>a p pr. e = Command (Add_edge_allow a p pr) \<Longrightarrow> parseEdge4Key a p pr \<noteq> Inr k"
    and "\<And>md. e \<noteq> Command (Tuple_enforce md)"
  shows "edge4_allow s' k = None \<and> edge4_cfg s' = edge4_cfg s"
  using assms(2)
proof (cases rule: sys_step.cases)
  case (packet K cpu pkt a)
  then show ?thesis using run_policy_maps(2,3) assms(3) by metis
next
  case (command cmd)
  then show ?thesis
    using command_edge_allow [OF assms(1) command(2) assms(3)] command_edge_cfg [OF command(2)] assms(4,5)
    by blast
qed (use assms(3) in auto)

text \<open>
  C11: Default deny holds over time. While the tuple mode is allow, a tuple that nobody lists stays out:
  from a state in which it is not on the tuple allow list, through any packets and commands that
  neither change the mode nor list it, every IPv4 packet with that source, port and protocol is
  dropped.
\<close>

theorem unlisted_tuple_stays_out:
  assumes "control_ok C" "shield_inv s0" "sys_run C s0 es s"
    and "edge4_cfg s0 0 = Some c" "edge_mode c = 2"
    and "frame_kind pkt = Inl (iph, off)"
    and "port = dest_port pkt (unat (l4_offset off iph)) (ip_protocol iph)" "port \<noteq> 0"
    and "edge4_allow s0 (edge_key (ip_saddr iph) port (ip_protocol iph)) = None"
    and "\<forall>md. Command (Tuple_enforce md) \<notin> set es"
    and "\<forall>a p pr. Command (Add_edge_allow a p pr) \<in> set es \<longrightarrow>
           parseEdge4Key a p pr \<noteq> Inr (edge_key (ip_saddr iph) port (ip_protocol iph))"
  shows "\<exists>s'. xdp_klshield K cpu pkt s = Some (XDP_DROP, s')"
proof -
  let ?k = "edge_key (ip_saddr iph) port (ip_protocol iph)"
  let ?P = "\<lambda>s. shield_inv s \<and> edge4_allow s ?k = None \<and> edge4_cfg s 0 = Some c"
  have "?P s"
  proof (rule steps_invariant [where P = ?P, OF assms(3)])
    show "?P s0" using assms(2,4,9) by simp
    fix s1 e s2
    assume "?P s1" "e \<in> set es" "sys_step C s1 e s2"
    then show "?P s2"
      using sys_step_inv step_edge_allow [OF assms(1), of s1 e s2 ?k] assms(10,11) by metis
  qed
  then show ?thesis
    using run_tuple_denied [OF _ assms(6-8)] assms(5) by (simp add: shield_inv_def tuple_denied_def)
qed

section \<open>Prefixes\<close>

text \<open>
  Allowing a prefix admits its addresses and no others. After \<open>klshield\<close> has added an IPv4 prefix, a
  source is on the allow list exactly when it was before or its leading bits are those of the
  prefix; the IPv6 list is as before.
\<close>

theorem allowing_a_prefix:
  assumes "control_ok C" "addAllowCIDR C (IPv4 p) n s = Inr s'" "n \<le> 32"
  shows "(allowed_v4 s' a \<longleftrightarrow>
      allowed_v4 s a \<or> take n (addr_bits p) = take n (addr_bits (bytes_of_u32 a))) \<and>
    allowed_v6 s' = allowed_v6 s"
proof -
  let ?k = "\<lparr>lpm4_prefixlen = of_nat n, lpm4_data = p\<rparr> :: lpm_key_v4"
  have n: "unat (of_nat n :: u32) = n" using assms(3) by (simp add: unat_of_nat)
  have T: "c_allow4 C ?k 1 (xdp_allow_lpm s) = Some (xdp_allow_lpm s')"
    and v6: "xdp_allow6_lpm s' = xdp_allow6_lpm s"
    using assms(2) by (auto simp: addAllowCIDR_def store_in_Inr lpm_update_elem_def split: option.splits)
  have "allowed_v4 s' a \<longleftrightarrow> prefix_covers (prefix4 ?k) (32, bytes_of_u32 a) \<or> allowed_v4 s a"
    unfolding allowed_v4_def by (rule bpf_trie.upd_covers [OF control_okD(4) [OF assms(1)] T])
  moreover have "prefix_covers (prefix4 ?k) (32, bytes_of_u32 a) \<longleftrightarrow>
      take n (addr_bits p) = take n (addr_bits (bytes_of_u32 a))"
    using assms(3) by (simp add: prefix_covers_def prefix4_def n)
  ultimately show ?thesis using v6 by (auto simp: allowed_v6_def)
qed

section \<open>Concrete systems\<close>

definition demo_control :: control where
  "demo_control =
     \<lparr>c_allow4 = trie_insert xdp_allow_lpm_map, c_allow6 = trie_insert xdp_allow6_lpm_map,
      c_deny4 = hash_update xdp_deny_hash_map, c_deny6 = hash_update xdp_deny6_hash_map,
      c_rl4 = hash_update xdp_rl_policy4_map, c_rl6 = hash_update xdp_rl_policy6_map,
      c_edge_deny = lru_update (\<lambda>_. edge_key (le32 10 0 0 1) 53 17) edge4_deny_map,
      c_edge_allow = lru_update (\<lambda>_. edge_key (le32 10 0 0 1) 53 17) edge4_allow_map,
      c_edge_rl = hash_update edge4_rl_policy_map\<rparr>"

lemma demo_control_ok: "control_ok demo_control"
  unfolding control_ok_def demo_control_def
  by (simp add: hash.bpf_hash_axioms lru.bpf_lru_axioms trie.bpf_trie_axioms)

text \<open>A tuple deny list filled with every UDP port of one source: as many entries as the map holds.\<close>

definition all_ports_denied :: shield where
  "all_ports_denied = fresh_shield
     \<lparr>edge4_cfg := [0 \<mapsto> \<lparr>edge_mode = 1, edge_pad = 0\<rparr>],
      edge4_deny := (\<lambda>k. if ek_src_ip k = le32 10 0 0 1 \<and> ek_proto k = 17 \<and> ek_pad k = 0
                         then Some 1 else None)\<rparr>"

lemma all_ports_card: "card (dom (edge4_deny all_ports_denied)) = 65536"
proof -
  have "dom (edge4_deny all_ports_denied) = (\<lambda>p. edge_key (le32 10 0 0 1) p 17) ` UNIV"
    by (auto simp: all_ports_denied_def edge_key_def image_iff split: if_splits)
      (metis edge4_key.surjective old.unit.exhaust)
  moreover have "inj (\<lambda>p. edge_key (le32 10 0 0 1) p 17)"
    by (rule injI) (simp add: edge_key_def)
  ultimately show ?thesis by (simp add: card_image card_word)
qed

section \<open>Tuples named on the command line\<close>

lemma ToLower_allow: "ToLower ''allow'' = ''allow''"
  by code_simp

lemma parseEdge4Key_bytes:
  "parseEdge4Key (IPv4 (bytes_of_u32 a)) port proto =
     (case parse_proto proto of None \<Rightarrow> Inl Parse_failed | Some p \<Rightarrow> Inr (edge_key a (ucast port) p))"
  by (simp add: parseEdge4Key_def edge_key_def le_nat_bytes_of_u32 split: option.splits)

lemma addEdgeDeny_denies:
  "addEdgeDeny C (IPv4 (bytes_of_u32 a)) port proto s = Inr s' \<Longrightarrow> parse_proto proto = Some p \<Longrightarrow>
     edge4_deny s' (edge_key a (ucast port) p) = Some 1"
  by (auto simp: addEdgeDeny_def parseEdge4Key_bytes store_in_Inr dest!: map_update_elem_Inr)

text \<open>
  The key typed is the key on the wire. After \<open>klshield\<close> has put a source, a port and a
  protocol on the tuple deny list and set the mode to deny, the next IPv4 packet from that source to
  that port (modulo 65536, as a larger number is cut) with that protocol is dropped.
\<close>

theorem denied_tuple_is_dropped:
  assumes "shield_inv s0" "addEdgeDeny C (IPv4 (bytes_of_u32 (ip_saddr iph))) port proto s0 = Inr s1"
    and "parse_proto proto = Some (ip_protocol iph)" "ToLower md = ''deny'' \<or> ToLower md = ''on''"
    and "frame_kind pkt = Inl (iph, off)"
    and "ucast port = dest_port pkt (unat (l4_offset off iph)) (ip_protocol iph)"
    and "(ucast port :: u16) \<noteq> 0"
  shows "\<exists>s'. xdp_klshield K cpu pkt (tupleEnforceMode md s1) = Some (XDP_DROP, s')"
proof -
  let ?s = "tupleEnforceMode md s1"
  have "shield_inv s1" using run_command_inv [of C "Add_edge_deny _ port proto"] assms(1,2) by fastforce
  then have "shield_inv ?s" using run_command_inv [of C "Tuple_enforce md" s1 ?s] by simp
  moreover have "tuple_denied (edge4_cfg ?s) (edge4_allow ?s) (edge4_deny ?s)
      (edge_key (ip_saddr iph) (ucast port) (ip_protocol iph))"
    using addEdgeDeny_denies [OF assms(2,3)] assms(4) by (auto simp: tuple_denied_def tupleEnforceMode_def Let_def)
  ultimately show ?thesis using run_tuple_denied [OF _ assms(5-7)] by (simp add: shield_inv_def)
qed

text \<open>
  Undoing a deny. Removing an IPv4 address that was put on the deny list, and was not there
  before, succeeds and gives back the state before.
\<close>

theorem deny_then_allow_again:
  assumes "control_ok C" "addDenyIP C (IPv4 b) s = Inr s'" "xdp_deny_hash s \<lparr>k4_ip = b\<rparr> = None"
  shows "delDenyIP (IPv4 b) s' = Inr s"
proof -
  let ?k = "\<lparr>k4_ip = b\<rparr>"
  have s': "s' = s\<lparr>xdp_deny_hash := c_deny4 C BPF_ANY ?k 1 (xdp_deny_hash s)\<rparr>"
    "c_deny4 C BPF_ANY ?k 1 (xdp_deny_hash s) ?k = Some 1"
    using assms(2) by (auto simp: addDenyIP_def store_in_Inr dest!: map_update_elem_Inr)
  have "(c_deny4 C BPF_ANY ?k 1 (xdp_deny_hash s))(?k := None) = xdp_deny_hash s"
    using bpf_hash.upd_frame [OF control_okD(1) [OF assms(1)]] assms(3) by (intro ext) auto
  then show ?thesis using s' by (simp add: delDenyIP_def map_delete_elem_def store_in_def)
qed

text \<open>
  A reset spares the tuples. The source deny lists and the limits of single sources are empty after
  \<open>klshield reset\<close>, but the tuple lists are not touched: a packet that the tuple policy denied before
  is dropped after it as well.
\<close>

theorem reset_keeps_tuple_denies:
  assumes "shield_inv s" "run_command C Reset s = Inr s'" "frame_kind pkt = Inl (iph, off)"
    and "port = dest_port pkt (unat (l4_offset off iph)) (ip_protocol iph)" "port \<noteq> 0"
    and "tuple_denied (edge4_cfg s) (edge4_allow s) (edge4_deny s)
      (edge_key (ip_saddr iph) port (ip_protocol iph))"
  shows "(\<forall>a. \<not> in_deny_v4 (xdp_deny_hash s') a) \<and> (\<forall>a. \<not> in_deny_v6 (xdp_deny6_hash s') a) \<and>
    (\<forall>a. source_limit s' a = usable (xdp_rl_cfg s 0)) \<and>
    (\<exists>s''. xdp_klshield K cpu pkt s' = Some (XDP_DROP, s''))"
proof -
  have inv: "buckets_free s'" using run_command_inv [OF assms(2,1)] by (simp add: shield_inv_def)
  have s': "s' = resetMaps s" using assms(2) by simp
  show ?thesis
    using run_tuple_denied [OF inv assms(3-5), of K cpu] assms(6)
    by (simp add: s' resetMaps_def in_deny_v4_def in_deny_v6_def source_limit_def override_def usable_def)
qed

text \<open>
  Events cannot be kept off: changing the allow-list flag, and attaching, replace a sampling mask of
  0, with which an operator has disabled events, by 1023. The flag is on for the word \<open>on\<close> only.
\<close>

theorem enforcing_reenables_events:
  "cfg_sample_mask (enforceAllow on (setEventSampling m s)) = (if m = 0 then 1023 else m) \<and>
   cfg_sample_mask (initCfgDefaults (setEventSampling m s)) = (if m = 0 then 1023 else m) \<and>
   cfg_enforce (enforceAllow on s) = (if on then 1 else 0) \<and>
   cfg_enforce (setEventSampling m s) = cfg_enforce s"
  by (auto simp: enforceAllow_def setEventSampling_def initCfgDefaults_def cfg_sample_mask_def cfg_enforce_def
      cur_cfg_def Let_def split: option.splits)

section \<open>A full tuple list\<close>

lemma all_ports_ok: "buckets_free all_ports_denied" "tables_room all_ports_denied" "limits_ok all_ports_denied"
  using fresh_frame(1-3)
  by (simp_all add: all_ports_denied_def buckets_free_def tables_room_def limits_ok_def)

lemma all_ports_add:
  "run_command demo_control (Add_edge_deny (IPv4 [10, 0, 0, 2]) 53 ''udp'') all_ports_denied =
     Inr (all_ports_denied\<lparr>edge4_deny := (edge4_deny all_ports_denied)
       (edge_key (le32 10 0 0 1) 53 17 := None, edge_key (le32 10 0 0 2) 53 17 \<mapsto> 1)\<rparr>)"
proof -
  have ne: "le32 10 0 0 2 \<noteq> le32 10 0 0 1"
    using bytes_of_le32 [of 10 0 0 1] bytes_of_le32 [of 10 0 0 2] by force
  have k: "parseEdge4Key (IPv4 [10, 0, 0, 2]) 53 ''udp'' = Inr (edge_key (le32 10 0 0 2) 53 17)"
    using parseEdge4Key_bytes [of "le32 10 0 0 2" 53 "''udp''"] by (simp add: parse_proto_def ToLower_def)
  have new: "edge4_deny all_ports_denied (edge_key (le32 10 0 0 2) 53 17) = None"
    using ne by (simp add: all_ports_denied_def edge_key_def)
  have full: "\<not> card (dom (edge4_deny all_ports_denied)) < max_entries edge4_deny_map"
    using all_ports_card by (simp add: edge4_deny_map_def)
  have "lru_update (\<lambda>_. edge_key (le32 10 0 0 1) 53 17) edge4_deny_map BPF_ANY
      (edge_key (le32 10 0 0 2) 53 17) 1 (edge4_deny all_ports_denied) =
    (edge4_deny all_ports_denied)
       (edge_key (le32 10 0 0 1) 53 17 := None, edge_key (le32 10 0 0 2) 53 17 \<mapsto> 1)"
    using new full by (simp add: lru_update_def) (simp add: all_ports_denied_def edge_key_def)
  then show ?thesis
    by (simp add: addEdgeDeny_def k store_in_def map_update_elem_def demo_control_def)
qed

text \<open>The tuple of a packet, and a source and tuple that nothing but the tuple lists holds up.\<close>

definition tuple_of :: "packet \<Rightarrow> edge4_key option" where
  "tuple_of pkt = (case frame_kind pkt of
     Inl (iph, off) \<Rightarrow>
       (let port = dest_port pkt (unat (l4_offset off iph)) (ip_protocol iph)
        in if port = 0 then None else Some (edge_key (ip_saddr iph) port (ip_protocol iph)))
   | Inr _ \<Rightarrow> None)"

definition unrestricted :: "shield \<Rightarrow> edge4_key \<Rightarrow> bool" where
  "unrestricted s k \<longleftrightarrow> (cfg_enforce s = 0 \<or> allowed_v4 s (ek_src_ip k)) \<and>
     \<not> in_deny_v4 (xdp_deny_hash s) (ek_src_ip k) \<and> source_limit s (ek_src_ip k) = None \<and> tuple_limit s k = None"

lemma unrestricted_judge:
  assumes "tuple_of pkt = Some k" "unrestricted s k" "tuple_mode_on (edge4_cfg s)"
  shows "judge s pkt now fw =
    (if tuple_denied (edge4_cfg s) (edge4_allow s) (edge4_deny s) k then Tuple_denied else Accept, fw)"
proof -
  obtain iph off where kind: "frame_kind pkt = Inl (iph, off)" using assms(1) by (auto simp: tuple_of_def split: sum.splits)
  let ?port = "dest_port pkt (unat (l4_offset off iph)) (ip_protocol iph)"
  have k: "?port \<noteq> 0" "k = edge_key (ip_saddr iph) ?port (ip_protocol iph)" "ek_src_ip k = ip_saddr iph"
    using assms(1) by (auto simp: tuple_of_def kind Let_def edge_key_def split: if_splits)
  show ?thesis
    using assms(2,3) k(1) unfolding unrestricted_def k(3)
    by (auto simp: judge_def kind judge_v4_def spec_gate_def Let_def k(2) [symmetric])
qed

lemma unrestricted_run:
  assumes "kernel_ok K" "buckets_free s" "tables_room s" "limits_ok s"
    and "tuple_of pkt = Some k" "unrestricted s k" "tuple_mode_on (edge4_cfg s)"
  shows "\<exists>s'. xdp_klshield K cpu pkt s =
    Some (if tuple_denied (edge4_cfg s) (edge4_allow s) (edge4_deny s) k then XDP_DROP else XDP_PASS, s')"
proof -
  obtain a s' where run: "xdp_klshield K cpu pkt s = Some (a, s')" using run_total [OF assms(2)] by blast
  from run_refines [OF assms(1-4) run] unrestricted_judge [OF assms(5-7)] run show ?thesis
    by (auto simp: outcome_action_def split: if_splits)
qed

text \<open>
  C31: A denied tuple is forgotten when the list is full. The tuple deny list is an LRU table, so while it
  holds as many tuples as it can, every command that denies another one takes a tuple off it that
  nobody removed: in deny mode the packets of this tuple were dropped before the command and, when
  nothing else restricts them, pass after it.
\<close>

theorem denied_tuple_can_be_forgotten:
  assumes "bpf_lru_cap (c_edge_deny C) (max_entries edge4_deny_map)"
    and "finite (dom (edge4_deny s))" "card (dom (edge4_deny s)) = max_entries edge4_deny_map"
    and "parseEdge4Key a port proto = Inr k" "edge4_deny s k = None"
    and "run_command C (Add_edge_deny a port proto) s = Inr s1"
    and "edge4_cfg s 0 = Some c" "edge_mode c = 1" "buckets_free s" "tables_room s" "limits_ok s"
  shows "\<exists>k'. edge4_deny s k' \<noteq> None \<and> edge4_deny s1 k' = None \<and>
    (\<forall>K cpu pkt. kernel_ok K \<and> tuple_of pkt = Some k' \<and> unrestricted s k' \<longrightarrow>
      (\<exists>s2. xdp_klshield K cpu pkt s = Some (XDP_DROP, s2)) \<and>
      (\<exists>s3. xdp_klshield K cpu pkt s1 = Some (XDP_PASS, s3)))"
proof -
  define m where "m = c_edge_deny C BPF_ANY k 1 (edge4_deny s)"
  have s1: "s1 = s\<lparr>edge4_deny := m\<rparr>" and m: "m k = Some 1"
    using assms(6) by (auto simp: addEdgeDeny_def assms(4) store_in_Inr m_def dest!: map_update_elem_Inr)
  obtain k' where k': "edge4_deny s k' \<noteq> None" "m k' = None"
    using bpf_lru_cap.full_evicts [OF assms(1-3,5) m [unfolded m_def]] unfolding m_def by blast
  have on: "tuple_mode_on (edge4_cfg s)" "tuple_denied (edge4_cfg s) (edge4_allow s) (edge4_deny s) k'"
    "\<not> tuple_denied (edge4_cfg s) (edge4_allow s) m k'"
    using k' assms(7,8) by (auto simp: tuple_mode_on_def tuple_denied_def)
  have ok1: "buckets_free s1" "tables_room s1" "limits_ok s1" "unrestricted s1 k' = unrestricted s k'"
    using assms(9-11)
    by (simp_all add: s1 buckets_free_def tables_room_def limits_ok_def unrestricted_def cfg_enforce_def
        allowed_v4_def source_limit_def tuple_limit_def)
  show ?thesis
    using unrestricted_run [OF _ assms(9-11), of _ _ k'] unrestricted_run [OF _ ok1(1-3), of _ _ k'] k' on ok1(4)
    by (intro exI [of _ k']) (auto simp: s1)
qed

text \<open>The table with every port of one source: the tuple of port 53 is forgotten.\<close>

lemma udp_frame_tuple: "p \<noteq> 0 \<Longrightarrow> tuple_of (udp_frame [10, 0, 0, 1] p) = Some (edge_key (le32 10 0 0 1) p 17)"
  using udp_frame_kind [of 10 0 0 1 p] udp_frame_port [of 10 0 0 1 p]
  by (fastforce simp: tuple_of_def l4_offset_def)

lemma all_ports_unrestricted: "unrestricted all_ports_denied k"
  by (simp add: unrestricted_def all_ports_denied_def fresh_shield_def filled_def cfg_enforce_def
      in_deny_v4_def source_limit_def tuple_limit_def override_def usable_def)

theorem denied_tuple_can_be_forgotten_witness:
  "\<exists>s1 s2 s3. run_command demo_control (Add_edge_deny (IPv4 [10, 0, 0, 2]) 53 ''udp'') all_ports_denied = Inr s1 \<and>
     xdp_klshield (demo_kernel 1) 0 (udp_frame [10, 0, 0, 1] 53) all_ports_denied = Some (XDP_DROP, s2) \<and>
     xdp_klshield (demo_kernel 1) 0 (udp_frame [10, 0, 0, 1] 53) s1 = Some (XDP_PASS, s3)"
proof -
  let ?k = "edge_key (le32 10 0 0 1) 53 17"
  let ?D = "(edge4_deny all_ports_denied)(?k := None, edge_key (le32 10 0 0 2) 53 17 \<mapsto> 1)"
  have ne: "le32 10 0 0 2 \<noteq> le32 10 0 0 1"
    using bytes_of_le32 [of 10 0 0 1] bytes_of_le32 [of 10 0 0 2] by force
  have cap: "bpf_lru_cap (c_edge_deny demo_control) (max_entries edge4_deny_map)"
    by (simp add: demo_control_def lru_cap.bpf_lru_cap_axioms)
  have card: "card (dom (edge4_deny all_ports_denied)) = max_entries edge4_deny_map"
    using all_ports_card by (simp add: edge4_deny_map_def)
  then have fin: "finite (dom (edge4_deny all_ports_denied))"
    by (intro card_ge_0_finite) (simp add: edge4_deny_map_def)
  have key: "parseEdge4Key (IPv4 [10, 0, 0, 2]) 53 ''udp'' = Inr (edge_key (le32 10 0 0 2) 53 17)"
    using parseEdge4Key_bytes [of "le32 10 0 0 2" 53 "''udp''"] by (simp add: parse_proto_def ToLower_def)
  have new: "edge4_deny all_ports_denied (edge_key (le32 10 0 0 2) 53 17) = None"
    using ne by (simp add: all_ports_denied_def edge_key_def)
  have cfg: "edge4_cfg all_ports_denied 0 = Some \<lparr>edge_mode = 1, edge_pad = 0\<rparr>" by (simp add: all_ports_denied_def)
  from denied_tuple_can_be_forgotten [OF cap fin card key new all_ports_add cfg _ all_ports_ok] obtain k' where
    k': "edge4_deny all_ports_denied k' \<noteq> None" "edge4_deny (all_ports_denied\<lparr>edge4_deny := ?D\<rparr>) k' = None"
    and run: "\<And>K cpu pkt. kernel_ok K \<and> tuple_of pkt = Some k' \<and> unrestricted all_ports_denied k' \<Longrightarrow>
      (\<exists>s2. xdp_klshield K cpu pkt all_ports_denied = Some (XDP_DROP, s2)) \<and>
      (\<exists>s3. xdp_klshield K cpu pkt (all_ports_denied\<lparr>edge4_deny := ?D\<rparr>) = Some (XDP_PASS, s3))"
    by auto
  have "k' = ?k" using k' by (simp split: if_splits)
  with run [of "demo_kernel 1" "udp_frame [10, 0, 0, 1] 53" 0] udp_frame_tuple [of 53] demo_kernel_ok all_ports_unrestricted
  show ?thesis using all_ports_add by auto
qed

section \<open>Instances\<close>

text \<open>A short history: one address is denied, packets of it come, another is denied.\<close>

lemma demo_deny:
  "\<exists>s1. addDenyIP demo_control (IPv4 (bytes_of_u32 (le32 10 0 0 1))) fresh_shield = Inr s1 \<and>
     sys_run demo_control s1 [Failed (Del_deny_ip (IPv4 [1, 1, 1, 1])) Delete_failed] s1"
proof -
  let ?k = "\<lparr>k4_ip = [10, 0, 0, 1]\<rparr>"
  let ?s = "fresh_shield\<lparr>xdp_deny_hash := [?k \<mapsto> 1]\<rparr>"
  have e: "xdp_deny_hash fresh_shield = (\<lambda>_. None)" by (simp add: fresh_shield_def)
  have "addDenyIP demo_control (IPv4 (bytes_of_u32 (le32 10 0 0 1))) fresh_shield = Inr ?s"
    by (simp add: addDenyIP_def demo_control_def store_in_def map_update_elem_def hash_update_def e xdp_deny_hash_map_def)
  moreover have "sys_step demo_control ?s (Failed (Del_deny_ip (IPv4 [1, 1, 1, 1])) Delete_failed) ?s"
    by (rule sys_step.failed) (simp add: delDenyIP_def store_in_def map_delete_elem_def)
  then have "sys_run demo_control ?s [Failed (Del_deny_ip (IPv4 [1, 1, 1, 1])) Delete_failed] ?s"
    by (rule steps_one)
  ultimately show ?thesis by blast
qed

theorem denied_source_stays_out_witness:
  "\<exists>s s'. xdp_klshield (demo_kernel 1) 0 (udp_frame [10, 0, 0, 1] 53) s = Some (XDP_DROP, s')"
proof -
  obtain s1 where s1: "addDenyIP demo_control (IPv4 (bytes_of_u32 (le32 10 0 0 1))) fresh_shield = Inr s1"
    "sys_run demo_control s1 [Failed (Del_deny_ip (IPv4 [1, 1, 1, 1])) Delete_failed] s1"
    using demo_deny by blast
  show ?thesis
    using denied_source_stays_out [OF demo_control_ok fresh_inv s1 _ _ demo_kernel_ok udp_frame_source, of 1 0 53] by auto
qed

theorem reachable_states_are_safe_witness:
  "\<exists>s1. addDenyIP demo_control (IPv4 (bytes_of_u32 (le32 10 0 0 1))) fresh_shield = Inr s1 \<and> shield_inv s1"
proof -
  obtain s1 where s1: "addDenyIP demo_control (IPv4 (bytes_of_u32 (le32 10 0 0 1))) fresh_shield = Inr s1"
    using demo_deny by blast
  then have "sys_step demo_control fresh_shield (Command (Add_deny_ip (IPv4 (bytes_of_u32 (le32 10 0 0 1))))) s1"
    by (simp add: sys_step_command)
  with reachable_states_are_safe [OF fresh_inv steps_one] s1 show ?thesis by blast
qed

lemma dns_kind:
  obtains iph where "frame_kind (udp_frame [10, 0, 0, 1] dp) = Inl (iph, 14)" "ip_saddr iph = le32 10 0 0 1"
    "ip_protocol iph = 17" "l4_offset 14 iph = 34"
  using udp_frame_kind [of 10 0 0 1 dp] by (fastforce simp: l4_offset_def)

theorem unlisted_tuple_stays_out_witness:
  "\<exists>s s'. sys_run demo_control (tupleEnforceMode ''allow'' fresh_shield) [Command (Enforce_allow ''off'')] s \<and>
     xdp_klshield (demo_kernel 7) 0 (udp_frame [10, 0, 0, 1] 80) s = Some (XDP_DROP, s')"
proof -
  let ?c = "\<lparr>edge_mode = 2, edge_pad = 0\<rparr> :: edge4_cfg_t"
  let ?t = "tupleEnforceMode ''allow'' fresh_shield"
  let ?s = "enforceAllow (ToLower ''off'' = ''on'') ?t"
  have s0: "shield_inv ?t" using run_command_inv [of demo_control "Tuple_enforce ''allow''" fresh_shield] by simp
  have e: "edge4_allow ?t = (\<lambda>_. None)" by (simp add: tupleEnforceMode_def fresh_shield_def)
  have c: "edge4_cfg ?t 0 = Some ?c" unfolding tupleEnforceMode_def by (simp add: ToLower_allow)
  have run: "sys_run demo_control ?t [Command (Enforce_allow ''off'')] ?s"
    by (rule steps_one, rule sys_step.command) simp
  obtain iph where iph: "frame_kind (udp_frame [10, 0, 0, 1] 80) = Inl (iph, 14)" "ip_saddr iph = le32 10 0 0 1"
     "ip_protocol iph = 17" "l4_offset 14 iph = 34"
    by (rule dns_kind)
  have "\<exists>s'. xdp_klshield (demo_kernel 7) 0 (udp_frame [10, 0, 0, 1] 80) ?s = Some (XDP_DROP, s')"
    by (rule unlisted_tuple_stays_out [where port = 80, OF demo_control_ok s0 run c _ iph(1)])
      (simp_all add: iph udp_frame_port e)
  with run show ?thesis by blast
qed

theorem allowing_a_prefix_witness:
  "\<exists>s. addAllowCIDR demo_control (IPv4 [10, 0, 0, 0]) 8 fresh_shield = Inr s \<and>
     allowed_v4 s (le32 10 1 2 3) \<and> \<not> allowed_v4 s (le32 11 1 2 3)"
proof -
  let ?k = "\<lparr>lpm4_prefixlen = 8, lpm4_data = [10, 0, 0, 0]\<rparr> :: lpm_key_v4"
  let ?s = "fresh_shield\<lparr>xdp_allow_lpm := [(?k, 1)]\<rparr>"
  have e: "xdp_allow_lpm fresh_shield = []" by (simp add: fresh_shield_def)
  have add: "addAllowCIDR demo_control (IPv4 [10, 0, 0, 0]) 8 fresh_shield = Inr ?s"
    by (simp add: addAllowCIDR_def demo_control_def store_in_def lpm_update_elem_def trie_insert_def e xdp_allow_lpm_map_def)
  have "\<not> allowed_v4 fresh_shield a" for a by (simp add: allowed_v4_def e)
  then show ?thesis
    using allowing_a_prefix [OF demo_control_ok add, of "le32 10 1 2 3"]
      allowing_a_prefix [OF demo_control_ok add, of "le32 11 1 2 3"] add
    by (simp add: addr_bits_def byte_bits_def)
qed

theorem denied_tuple_is_dropped_witness:
  "\<exists>s1 s'. addEdgeDeny demo_control (IPv4 [10, 0, 0, 1]) 65589 ''UDP'' fresh_shield = Inr s1 \<and>
     xdp_klshield (demo_kernel 1) 0 (udp_frame [10, 0, 0, 1] 53) (tupleEnforceMode ''on'' s1) = Some (XDP_DROP, s')"
proof -
  let ?k = "edge_key (le32 10 0 0 1) 53 17"
  let ?s = "fresh_shield\<lparr>edge4_deny := [?k \<mapsto> 1]\<rparr>"
  have e: "edge4_deny fresh_shield = (\<lambda>_. None)" by (simp add: fresh_shield_def)
  have udp: "parse_proto ''UDP'' = Some 17" by code_simp
  have cut: "(65589 :: u16) = 53" by simp
  have k: "parseEdge4Key (IPv4 [10, 0, 0, 1]) 65589 ''UDP'' = Inr ?k"
    using parseEdge4Key_bytes [of "le32 10 0 0 1" 65589 "''UDP''"] cut by (simp add: udp)
  have add: "addEdgeDeny demo_control (IPv4 [10, 0, 0, 1]) 65589 ''UDP'' fresh_shield = Inr ?s"
    by (simp add: addEdgeDeny_def k demo_control_def store_in_def map_update_elem_def lru_update_def e edge4_deny_map_def)
  obtain iph where iph: "frame_kind (udp_frame [10, 0, 0, 1] 53) = Inl (iph, 14)" "ip_saddr iph = le32 10 0 0 1"
     "ip_protocol iph = 17" "l4_offset 14 iph = 34"
    by (rule dns_kind)
  show ?thesis
    using denied_tuple_is_dropped [OF fresh_inv _ _ _ iph(1), of demo_control 65589 "''UDP''" ?s "''on''" "demo_kernel 1" 0]
      add udp
    by (simp add: iph udp_frame_port ToLower_def)
qed

theorem deny_then_allow_again_witness:
  "\<exists>s. addDenyIP demo_control (IPv4 (bytes_of_u32 (le32 10 0 0 1))) fresh_shield = Inr s \<and>
     delDenyIP (IPv4 (bytes_of_u32 (le32 10 0 0 1))) s = Inr fresh_shield"
proof -
  obtain s1 where s1: "addDenyIP demo_control (IPv4 (bytes_of_u32 (le32 10 0 0 1))) fresh_shield = Inr s1"
    using demo_deny by blast
  with deny_then_allow_again [OF demo_control_ok s1] show ?thesis by (simp add: fresh_shield_def)
qed

theorem reset_keeps_tuple_denies_witness:
  "\<exists>s'. xdp_klshield (demo_kernel 7) 0 (udp_frame [10, 0, 0, 1] 80)
     (resetMaps (tupleEnforceMode ''allow'' fresh_shield)) = Some (XDP_DROP, s')"
proof -
  let ?t = "tupleEnforceMode ''allow'' fresh_shield"
  have inv: "shield_inv ?t" using run_command_inv [of demo_control "Tuple_enforce ''allow''" fresh_shield] by simp
  have "edge4_allow ?t = (\<lambda>_. None)" by (simp add: tupleEnforceMode_def fresh_shield_def)
  then have "tuple_denied (edge4_cfg ?t) (edge4_allow ?t) (edge4_deny ?t) k" for k
    by (simp add: tuple_denied_def) (simp add: tupleEnforceMode_def ToLower_allow)
  moreover obtain iph where iph: "frame_kind (udp_frame [10, 0, 0, 1] 80) = Inl (iph, 14)" "ip_saddr iph = le32 10 0 0 1"
     "ip_protocol iph = 17" "l4_offset 14 iph = 34"
    by (rule dns_kind)
  ultimately show ?thesis
    using reset_keeps_tuple_denies [where port = 80, OF inv _ iph(1), of demo_control "resetMaps ?t" "demo_kernel 7" 0]
    by (simp add: iph udp_frame_port)
qed

end
