(* ===== verification/Map_Client.thy ===== *)
theory Map_Client
  imports Control_Laws
begin

text \<open>
  The Go client of the pinned maps (\<open>src/pkg/adapters/klshield/client/maps.go\<close>): which maps are open,
  the tuple policy it writes, the mode, and the sum of the per-CPU totals. Opening a pinned map succeeds
  when the pin is there. Updates and deletes are those of the command-line tool (\<open>Control_Plane\<close>); the
  only failure of a delete is a missing key. What the library writes in the error of such a delete is
  library code, and a parameter.
\<close>

section \<open>Handles\<close>

record map_handles =
  h_Src4 :: bool
  h_Src6 :: bool
  h_Flow4 :: bool
  h_Deny4 :: bool
  h_RL4 :: bool
  h_Deny6 :: bool
  h_RL6 :: bool
  h_Totals :: bool
  h_Edge4Deny :: bool
  h_Edge4Allow :: bool
  h_Edge4RL :: bool
  h_Edge4Cfg :: bool

datatype map_pin =
    MapPinSrc4 | MapPinSrc6 | MapPinFlow4 | MapPinTotals | MapPinDeny4 | MapPinDeny6
  | MapPinRLPolicy4 | MapPinRLPolicy6 | MapPinEdge4Deny | MapPinEdge4Allow | MapPinEdge4RL | MapPinEdge4Cfg

datatype client_error = Open_failed map_pin | Map_unavailable | Map_failed cli_error

definition Open :: "(map_pin \<Rightarrow> bool) \<Rightarrow> bool \<Rightarrow> client_error + map_handles" where
  "Open pinned dryRun =
     (if \<not> pinned MapPinSrc4 then Inl (Open_failed MapPinSrc4)
      else
        let m = \<lparr>h_Src4 = True, h_Src6 = pinned MapPinSrc6, h_Flow4 = pinned MapPinFlow4,
                 h_Deny4 = False, h_RL4 = False, h_Deny6 = False, h_RL6 = False,
                 h_Totals = pinned MapPinTotals, h_Edge4Deny = False, h_Edge4Allow = False,
                 h_Edge4RL = False, h_Edge4Cfg = False\<rparr>
        in if dryRun then Inr m
           else if \<not> pinned MapPinDeny4 then Inl (Open_failed MapPinDeny4)
           else if \<not> pinned MapPinRLPolicy4 then Inl (Open_failed MapPinRLPolicy4)
           else Inr (m\<lparr>h_Deny4 := True, h_RL4 := True, h_Deny6 := pinned MapPinDeny6,
                       h_RL6 := pinned MapPinRLPolicy6, h_Edge4Deny := pinned MapPinEdge4Deny,
                       h_Edge4Allow := pinned MapPinEdge4Allow, h_Edge4RL := pinned MapPinEdge4RL,
                       h_Edge4Cfg := pinned MapPinEdge4Cfg\<rparr>))"

definition TryOpenEdgeMaps :: "(map_pin \<Rightarrow> bool) \<Rightarrow> map_handles \<Rightarrow> bool \<times> map_handles" where
  "TryOpenEdgeMaps pinned m =
     (let m = m\<lparr>h_Edge4Deny := h_Edge4Deny m \<or> pinned MapPinEdge4Deny,
                h_Edge4Allow := h_Edge4Allow m \<or> pinned MapPinEdge4Allow,
                h_Edge4RL := h_Edge4RL m \<or> pinned MapPinEdge4RL,
                h_Edge4Cfg := h_Edge4Cfg m \<or> pinned MapPinEdge4Cfg\<rparr>
      in (h_Edge4Deny m \<and> h_Edge4RL m, m))"

section \<open>Tuple policy\<close>

text \<open>The address of a key is parsed by the library; a protocol name is taken as it is written.\<close>

definition NewEdge4Key :: "ip option \<Rightarrow> u16 \<Rightarrow> string \<Rightarrow> edge4_key option" where
  "NewEdge4Key srcIP dstPort proto =
     (case srcIP of
        Some (IPv4 ip4) \<Rightarrow>
          (let key = (\<lambda>p. Some \<lparr>ek_src_ip = of_nat (le_nat ip4), ek_dst_port = dstPort, ek_proto = p, ek_pad = 0\<rparr>)
           in if proto = ''tcp'' then key 6 else if proto = ''udp'' then key 17
              else if proto = ''icmp'' then key 1 else None)
      | _ \<Rightarrow> None)"

definition on_error :: "cli_error + 's \<Rightarrow> client_error + 's" where
  "on_error r = (case r of Inl e \<Rightarrow> Inl (Map_failed e) | Inr s \<Rightarrow> Inr s)"

definition WriteEdge4Deny :: "control \<Rightarrow> map_handles \<Rightarrow> edge4_key \<Rightarrow> shield \<Rightarrow> client_error + shield" where
  "WriteEdge4Deny C m key s =
     (if \<not> h_Edge4Deny m then Inl Map_unavailable
      else on_error (store_in (\<lambda>x. edge4_deny_update (\<lambda>_. x)) s
             (map_update_elem (c_edge_deny C) key 1 (edge4_deny s))))"

text \<open>The delete of an absent key is forgiven when the text of its error is the one expected.\<close>

definition forgive :: "string \<Rightarrow> 's \<Rightarrow> cli_error + 's \<Rightarrow> client_error + 's" where
  "forgive missing s r =
     (case r of Inr s' \<Rightarrow> Inr s'
      | Inl e \<Rightarrow> if missing = ''key does not exist'' then Inr s else Inl (Map_failed e))"

definition DeleteEdge4Deny :: "string \<Rightarrow> map_handles \<Rightarrow> edge4_key \<Rightarrow> shield \<Rightarrow> client_error + shield" where
  "DeleteEdge4Deny missing m key s =
     (if \<not> h_Edge4Deny m then Inl Map_unavailable
      else forgive missing s (store_in (\<lambda>x. edge4_deny_update (\<lambda>_. x)) s (map_delete_elem key (edge4_deny s))))"

definition WriteEdge4RL :: "control \<Rightarrow> map_handles \<Rightarrow> edge4_key \<Rightarrow> u64 \<Rightarrow> u64 \<Rightarrow> shield \<Rightarrow> client_error + shield" where
  "WriteEdge4RL C m key ratePPS bst s =
     (if \<not> h_Edge4RL m then Inl Map_unavailable
      else on_error (store_in (\<lambda>x. edge4_rl_policy_update (\<lambda>_. x)) s
             (map_update_elem (c_edge_rl C) key \<lparr>rate_pps = ratePPS, burst = bst\<rparr> (edge4_rl_policy s))))"

definition DeleteEdge4RL :: "string \<Rightarrow> map_handles \<Rightarrow> edge4_key \<Rightarrow> shield \<Rightarrow> client_error + shield" where
  "DeleteEdge4RL missing m key s =
     (if \<not> h_Edge4RL m then Inl Map_unavailable
      else forgive missing s
             (store_in (\<lambda>x. edge4_rl_policy_update (\<lambda>_. x)) s (map_delete_elem key (edge4_rl_policy s))))"

definition WriteEdge4Allow :: "control \<Rightarrow> map_handles \<Rightarrow> edge4_key \<Rightarrow> shield \<Rightarrow> client_error + shield" where
  "WriteEdge4Allow C m key s =
     (if \<not> h_Edge4Allow m then Inl Map_unavailable
      else on_error (store_in (\<lambda>x. edge4_allow_update (\<lambda>_. x)) s
             (map_update_elem (c_edge_allow C) key 1 (edge4_allow s))))"

definition DeleteEdge4Allow :: "string \<Rightarrow> map_handles \<Rightarrow> edge4_key \<Rightarrow> shield \<Rightarrow> client_error + shield" where
  "DeleteEdge4Allow missing m key s =
     (if \<not> h_Edge4Allow m then Inl Map_unavailable
      else forgive missing s (store_in (\<lambda>x. edge4_allow_update (\<lambda>_. x)) s (map_delete_elem key (edge4_allow s))))"

datatype tuple_mode = TupleModeOff | TupleModeDeny | TupleModeAllow

fun mode_word :: "tuple_mode \<Rightarrow> u32" where
  "mode_word TupleModeOff = 0"
| "mode_word TupleModeDeny = 1"
| "mode_word TupleModeAllow = 2"

definition SetTupleMode :: "map_handles \<Rightarrow> tuple_mode \<Rightarrow> shield \<Rightarrow> client_error + shield" where
  "SetTupleMode m md s =
     (if \<not> h_Edge4Cfg m then Inl Map_unavailable
      else Inr (s\<lparr>edge4_cfg := (edge4_cfg s)(0 \<mapsto> \<lparr>edge_mode = mode_word md, edge_pad = 0\<rparr>)\<rparr>))"

definition SetTupleEnforce :: "map_handles \<Rightarrow> bool \<Rightarrow> shield \<Rightarrow> client_error + shield" where
  "SetTupleEnforce m on s = SetTupleMode m (if on then TupleModeDeny else TupleModeOff) s"

definition TupleEnforceMode :: "map_handles \<Rightarrow> shield \<Rightarrow> u32" where
  "TupleEnforceMode m s =
     (if \<not> h_Edge4Cfg m then 0 else case edge4_cfg s 0 of None \<Rightarrow> 0 | Some v \<Rightarrow> edge_mode v)"

definition TupleEnforceActive :: "map_handles \<Rightarrow> shield \<Rightarrow> bool" where
  "TupleEnforceActive m s \<longleftrightarrow> TupleEnforceMode m s \<noteq> 0"

section \<open>The sum of the totals\<close>

text \<open>
  A lookup in a per-CPU map returns the values of all \<open>n\<close> possible CPUs. Five of the counters are
  summed.
\<close>

record totals_sum =
  ts_pkts :: u64
  ts_pass :: u64
  ts_drop_allow :: u64
  ts_drop_deny :: u64
  ts_drop_rl :: u64

definition add_totals :: "xdp_totals_t \<Rightarrow> totals_sum \<Rightarrow> totals_sum" where
  "add_totals v t =
     \<lparr>ts_pkts = ts_pkts t + t_pkts v, ts_pass = ts_pass t + t_pass v,
      ts_drop_allow = ts_drop_allow t + t_drop_allow v, ts_drop_deny = ts_drop_deny t + t_drop_deny v,
      ts_drop_rl = ts_drop_rl t + t_drop_rl v\<rparr>"

definition no_totals :: totals_sum where
  "no_totals = \<lparr>ts_pkts = 0, ts_pass = 0, ts_drop_allow = 0, ts_drop_deny = 0, ts_drop_rl = 0\<rparr>"

definition ReadTotalsSum :: "nat \<Rightarrow> map_handles \<Rightarrow> shield \<Rightarrow> client_error + totals_sum" where
  "ReadTotalsSum n m s =
     (if \<not> h_Totals m then Inl Map_unavailable
      else Inr (fold add_totals (map (\<lambda>cpu. the (xdp_totals s cpu 0)) [0..<n]) no_totals))"

section \<open>What a sum of totals says\<close>

lemma fold_add_totals:
  "ts_pkts (fold add_totals vs t) = ts_pkts t + (\<Sum>v \<leftarrow> vs. t_pkts v)"
  "ts_pass (fold add_totals vs t) = ts_pass t + (\<Sum>v \<leftarrow> vs. t_pass v)"
  "ts_drop_allow (fold add_totals vs t) = ts_drop_allow t + (\<Sum>v \<leftarrow> vs. t_drop_allow v)"
  "ts_drop_deny (fold add_totals vs t) = ts_drop_deny t + (\<Sum>v \<leftarrow> vs. t_drop_deny v)"
  "ts_drop_rl (fold add_totals vs t) = ts_drop_rl t + (\<Sum>v \<leftarrow> vs. t_drop_rl v)"
  by (induction vs arbitrary: t) (simp_all add: add_totals_def add.assoc)

lemma ReadTotalsSum_sums:
  assumes "h_Totals m"
  shows "ReadTotalsSum n m s = Inr \<lparr>ts_pkts = (\<Sum>c < n. t_pkts (the (xdp_totals s c 0))),
      ts_pass = (\<Sum>c < n. t_pass (the (xdp_totals s c 0))),
      ts_drop_allow = (\<Sum>c < n. t_drop_allow (the (xdp_totals s c 0))),
      ts_drop_deny = (\<Sum>c < n. t_drop_deny (the (xdp_totals s c 0))),
      ts_drop_rl = (\<Sum>c < n. t_drop_rl (the (xdp_totals s c 0)))\<rparr>"
proof -
  have "(\<Sum>v \<leftarrow> map f [0..<n]. g v) = (\<Sum>c < n. g (f c))" for f :: "nat \<Rightarrow> xdp_totals_t" and g :: "xdp_totals_t \<Rightarrow> u64"
    by (simp add: interv_sum_list_conv_sum_set_nat atLeast0LessThan comp_def)
  then show ?thesis using assms by (simp add: ReadTotalsSum_def fold_add_totals no_totals_def totals_sum.equality)
qed


lemma sum_one:
  fixes f g :: "nat \<Rightarrow> u64"
  assumes "cpu < n" "\<And>c. c \<noteq> cpu \<Longrightarrow> g c = f c"
  shows "(\<Sum>c < n. g c) = (\<Sum>c < n. f c) + (g cpu - f cpu)"
proof -
  have "(\<Sum>c < n. g c) = g cpu + (\<Sum>c \<in> {..<n} - {cpu}. g c)" using assms(1) by (intro sum.remove) auto
  moreover have "(\<Sum>c < n. f c) = f cpu + (\<Sum>c \<in> {..<n} - {cpu}. f c)" using assms(1) by (intro sum.remove) auto
  moreover have "(\<Sum>c \<in> {..<n} - {cpu}. g c) = (\<Sum>c \<in> {..<n} - {cpu}. f c)"
    using assms(2) by (intro sum.cong) auto
  ultimately show ?thesis by simp
qed

definition over_cpus :: "nat \<Rightarrow> (xdp_totals_t \<Rightarrow> u64) \<Rightarrow> shield \<Rightarrow> u64" where
  "over_cpus n f s = (\<Sum>c < n. f (the (xdp_totals s c 0)))"

lemma run_over_cpus:
  assumes run: "xdp_klshield K cpu pkt s = Some (a, s')" and cpu: "cpu < n" and wf: "\<And>c. c < n \<Longrightarrow> xdp_totals s c 0 \<noteq> None"
  shows "over_cpus n t_pkts s' = over_cpus n t_pkts s + 1"
    "over_cpus n t_pass s' = over_cpus n t_pass s + (if a = XDP_PASS then 1 else 0)"
    "over_cpus n t_drop_allow s' + over_cpus n t_drop_deny s' + over_cpus n t_drop_rl s' =
       over_cpus n t_drop_allow s + over_cpus n t_drop_deny s + over_cpus n t_drop_rl s + (if a = XDP_PASS then 0 else 1)"
    "\<And>c. c < n \<Longrightarrow> xdp_totals s' c 0 \<noteq> None"
proof -
  obtain v where v: "xdp_totals s cpu 0 = Some v" using wf [OF cpu] by blast
  from run_counts_once [OF v run] obtain w where w: "xdp_totals s' cpu 0 = Some w" "t_pkts w = t_pkts v + 1"
    "(t_pass w, t_drop_allow w, t_drop_deny w, t_drop_rl w) \<in>
      (if a = XDP_PASS then {(t_pass v + 1, t_drop_allow v, t_drop_deny v, t_drop_rl v)}
       else {(t_pass v, t_drop_allow v + 1, t_drop_deny v, t_drop_rl v),
             (t_pass v, t_drop_allow v, t_drop_deny v + 1, t_drop_rl v),
             (t_pass v, t_drop_allow v, t_drop_deny v, t_drop_rl v + 1)})"
    "\<forall>c. c \<noteq> cpu \<longrightarrow> xdp_totals s' c = xdp_totals s c" by blast
  have o: "over_cpus n f s' = over_cpus n f s + (f w - f v)" for f
    unfolding over_cpus_def using sum_one [OF cpu, of "\<lambda>c. f (the (xdp_totals s' c 0))" "\<lambda>c. f (the (xdp_totals s c 0))"] w(1,4) v by simp
  show "over_cpus n t_pkts s' = over_cpus n t_pkts s + 1" unfolding o using w(2) by simp
  show "over_cpus n t_pass s' = over_cpus n t_pass s + (if a = XDP_PASS then 1 else 0)"
    unfolding o using w(3) by (auto split: if_splits)
  show "over_cpus n t_drop_allow s' + over_cpus n t_drop_deny s' + over_cpus n t_drop_rl s' =
       over_cpus n t_drop_allow s + over_cpus n t_drop_deny s + over_cpus n t_drop_rl s + (if a = XDP_PASS then 0 else 1)"
    unfolding o using w(3) by (auto split: if_splits)
  show "xdp_totals s' c 0 \<noteq> None" if "c < n" for c using wf [OF that] w(1,4) by (cases "c = cpu") simp_all
qed

lemma xdp_run_over_cpus:
  assumes "xdp_run xs s = Some (as, s')" "\<forall>y \<in> set xs. fst (snd y) < n" "\<And>c. c < n \<Longrightarrow> xdp_totals s c 0 \<noteq> None"
  shows "over_cpus n t_pkts s' = over_cpus n t_pkts s + of_nat (length xs) \<and>
    over_cpus n t_pass s' = over_cpus n t_pass s + of_nat (count_list as XDP_PASS) \<and>
    over_cpus n t_drop_allow s' + over_cpus n t_drop_deny s' + over_cpus n t_drop_rl s' =
      over_cpus n t_drop_allow s + over_cpus n t_drop_deny s + over_cpus n t_drop_rl s + of_nat (count_list as XDP_DROP)"
  using assms
proof (induction xs arbitrary: s as)
  case (Cons y xs)
  obtain K cpu pkt where y: "y = (K, cpu, pkt)" by (cases y)
  obtain a s1 as1 where run: "xdp_klshield K cpu pkt s = Some (a, s1)" "xdp_run xs s1 = Some (as1, s')" "as = a # as1"
    using Cons.prems(1) unfolding y xdp_run_Cons by blast
  have cpu: "cpu < n" "\<forall>y \<in> set xs. fst (snd y) < n" using Cons.prems(2) by (simp_all add: y)
  note r = run_over_cpus [OF run(1) cpu(1) Cons.prems(3)]
  note IH = Cons.IH [OF run(2) cpu(2) r(4)]
  have "a = XDP_PASS \<or> a = XDP_DROP" by (rule run_action [OF run(1)])
  then show ?case using IH r(1-3) by (auto simp: run(3) algebra_simps)
qed simp

text \<open>
  C24: The sum of the totals counts the packets. Read before and after any run on the CPUs of the
  machine, the sum the client computes grows by the number of packets, its pass count by the
  packets passed, and its three drop counts together by the packets dropped.
\<close>

theorem summed_totals_count_packets:
  assumes "h_Totals m" "xdp_run xs s = Some (as, s')" "\<forall>y \<in> set xs. fst (snd y) < n" "\<forall>c < n. xdp_totals s c 0 \<noteq> None"
  shows "\<exists>t t'. ReadTotalsSum n m s = Inr t \<and> ReadTotalsSum n m s' = Inr t' \<and>
    ts_pkts t' = ts_pkts t + of_nat (length xs) \<and> ts_pass t' = ts_pass t + of_nat (count_list as XDP_PASS) \<and>
    ts_drop_allow t' + ts_drop_deny t' + ts_drop_rl t' =
      ts_drop_allow t + ts_drop_deny t + ts_drop_rl t + of_nat (count_list as XDP_DROP)"
proof -
  have "\<And>c. c < n \<Longrightarrow> xdp_totals s c 0 \<noteq> None" using assms(4) by blast
  from xdp_run_over_cpus [OF assms(2,3) this] show ?thesis
    unfolding ReadTotalsSum_sums [OF assms(1)] over_cpus_def by simp
qed

text \<open>A call of the client writes the tuple that the command-line tool writes, when both accept the protocol.\<close>

lemma widened_port: "ucast (ucast (x :: u16) :: u64) = x"
  by transfer simp

lemma NewEdge4Key_parses:
  assumes "NewEdge4Key (Some a) port proto = Some k"
  shows "parseEdge4Key a (ucast port) proto = Inr k"
  using assms
  by (auto simp: widened_port NewEdge4Key_def parseEdge4Key_def parse_proto_def ToLower_def Let_def split: ip.splits if_splits)

text \<open>
  The client and the command-line tool agree. For a tuple that the client accepts, denying,
  allowing and limiting it through the client has the effect of the corresponding command, and
  fails when that does.
\<close>

theorem client_writes_as_cli:
  assumes "NewEdge4Key (Some a) port proto = Some k" "h_Edge4Deny m" "h_Edge4Allow m" "h_Edge4RL m"
  shows "WriteEdge4Deny C m k s = on_error (addEdgeDeny C a (ucast port) proto s) \<and>
    WriteEdge4Allow C m k s = on_error (addEdgeAllow C a (ucast port) proto s) \<and>
    WriteEdge4RL C m k rate bst s = on_error (setEdgeRL C a (ucast port) proto rate bst s)"
  using NewEdge4Key_parses [OF assms(1)] assms(2-4)
  by (simp add: WriteEdge4Deny_def WriteEdge4Allow_def WriteEdge4RL_def addEdgeDeny_def addEdgeAllow_def setEdgeRL_def)

text \<open>
  Forgetting an absent tuple is no failure only for one text. The three deletes of the client
  remove the tuple when it is there; when it is not, they leave the map as it is, but succeed exactly if
  the library words its error as the client expects.
\<close>

theorem deletes_depend_on_the_wording:
  assumes "h_Edge4Deny m" "h_Edge4Allow m" "h_Edge4RL m"
  shows "DeleteEdge4Deny txt m k s =
      (if edge4_deny s k = None \<and> txt \<noteq> ''key does not exist'' then Inl (Map_failed Delete_failed)
       else Inr (s\<lparr>edge4_deny := (edge4_deny s)(k := None)\<rparr>)) \<and>
    DeleteEdge4Allow txt m k s =
      (if edge4_allow s k = None \<and> txt \<noteq> ''key does not exist'' then Inl (Map_failed Delete_failed)
       else Inr (s\<lparr>edge4_allow := (edge4_allow s)(k := None)\<rparr>)) \<and>
    DeleteEdge4RL txt m k s =
      (if edge4_rl_policy s k = None \<and> txt \<noteq> ''key does not exist'' then Inl (Map_failed Delete_failed)
       else Inr (s\<lparr>edge4_rl_policy := (edge4_rl_policy s)(k := None)\<rparr>))"
proof -
  have "g k = None \<Longrightarrow> g(k := None) = g" for g :: "edge4_key \<Rightarrow> 'v option" by (simp add: fun_upd_idem)
  then show ?thesis using assms
    by (simp add: DeleteEdge4Deny_def DeleteEdge4Allow_def DeleteEdge4RL_def forgive_def store_in_def map_delete_elem_def fun_upd_idem)
qed

text \<open>
  What the client calls all four tuple maps is two of them. \<open>TryOpenEdgeMaps\<close> reports success exactly
  when the deny map and the limit map are there; without the configuration map the mode can then
  neither be set nor read.
\<close>

theorem edge_maps_need_two_pins:
  "(fst (TryOpenEdgeMaps pinned m) \<longleftrightarrow>
      (h_Edge4Deny m \<or> pinned MapPinEdge4Deny) \<and> (h_Edge4RL m \<or> pinned MapPinEdge4RL)) \<and>
   (\<not> h_Edge4Cfg m \<and> \<not> pinned MapPinEdge4Cfg \<longrightarrow>
      SetTupleMode (snd (TryOpenEdgeMaps pinned m)) md s = Inl Map_unavailable \<and>
      \<not> TupleEnforceActive (snd (TryOpenEdgeMaps pinned m)) s)"
  by (simp add: TryOpenEdgeMaps_def Let_def SetTupleMode_def TupleEnforceActive_def TupleEnforceMode_def)

section \<open>Instances\<close>

definition all_open :: map_handles where
  "all_open = \<lparr>h_Src4 = True, h_Src6 = True, h_Flow4 = True, h_Deny4 = True, h_RL4 = True, h_Deny6 = True,
     h_RL6 = True, h_Totals = True, h_Edge4Deny = True, h_Edge4Allow = True, h_Edge4RL = True, h_Edge4Cfg = True\<rparr>"

lemma open_all: "Open (\<lambda>_. True) False = Inr all_open"
  by (simp add: Open_def all_open_def)

theorem summed_totals_count_packets_witness:
  "\<exists>as s' t'. xdp_run [(demo_kernel 1, 1, udp_frame [10, 0, 0, 1] 53), (demo_kernel 2, 0, [])] fresh_shield = Some (as, s') \<and>
     ReadTotalsSum 4 all_open s' = Inr t' \<and> ts_pkts t' = 2"
proof -
  let ?xs = "[(demo_kernel 1, 1, udp_frame [10, 0, 0, 1] 53), (demo_kernel 2, 0, [])]"
  obtain as s' where run: "xdp_run ?xs fresh_shield = Some (as, s')"
    using xdp_run_total [of ?xs fresh_shield] by auto
  have h: "h_Totals all_open" "\<forall>y \<in> set ?xs. fst (snd y) < (4 :: nat)" "\<forall>c < (4 :: nat). xdp_totals fresh_shield c 0 \<noteq> None"
    by (simp_all add: all_open_def fresh_totals)
  have "ReadTotalsSum 4 all_open fresh_shield = Inr no_totals"
    unfolding ReadTotalsSum_sums [OF h(1)] by (simp add: fresh_totals zero_totals_def no_totals_def)
  with summed_totals_count_packets [OF h(1) run h(2,3)] run show ?thesis by (auto simp: no_totals_def)
qed

theorem client_writes_as_cli_witness:
  "WriteEdge4Deny C all_open \<lparr>ek_src_ip = le32 10 0 0 1, ek_dst_port = 53, ek_proto = 17, ek_pad = 0\<rparr> s =
     on_error (addEdgeDeny C (IPv4 [10, 0, 0, 1]) 53 ''udp'' s)"
proof -
  have "NewEdge4Key (Some (IPv4 [10, 0, 0, 1])) 53 ''udp'' =
      Some \<lparr>ek_src_ip = le32 10 0 0 1, ek_dst_port = 53, ek_proto = 17, ek_pad = 0\<rparr>"
    by (simp add: NewEdge4Key_def le32_def)
  from client_writes_as_cli [OF this, of all_open C s] show ?thesis by (simp add: all_open_def)
qed

theorem deletes_depend_on_the_wording_witness:
  "DeleteEdge4Deny ''delete: key does not exist'' all_open \<lparr>ek_src_ip = 1, ek_dst_port = 53, ek_proto = 17, ek_pad = 0\<rparr> fresh_shield
     = Inl (Map_failed Delete_failed)"
  using deletes_depend_on_the_wording [of all_open "''delete: key does not exist''"]
  by (simp add: all_open_def fresh_shield_def)

end
