(* ===== verification/Fsm_Laws.thy ===== *)
theory Fsm_Laws
  imports Source_Fsm
begin

text \<open>
  What the state machine of \<open>src/pkg/core/fsm/fsm.go\<close> promises: blocks last, escalation is earned,
  levels change no faster than the cooldown, and a quiet source is released.
\<close>

section \<open>Sequences of ticks\<close>

fun fsm_ticks :: "fsm_config \<Rightarrow> (fsm_metrics \<times> instant) list \<Rightarrow> 'a fsm_state_scheme \<Rightarrow> 'a fsm_state_scheme" where
  "fsm_ticks cfg [] st = st"
| "fsm_ticks cfg ((m, now) # xs) st =
     fsm_ticks cfg xs (fst (Advance m st now cfg (syntheticFSMTransition now cfg)))"

lemma fsm_ticks_append: "fsm_ticks cfg (xs @ ys) st = fsm_ticks cfg ys (fsm_ticks cfg xs st)"
  by (induction cfg xs st rule: fsm_ticks.induct) simp_all

lemma fsm_ticks_snoc:
  "fsm_ticks cfg (xs @ [(m, now)]) st =
    fst (Advance m (fsm_ticks cfg xs st) now cfg (syntheticFSMTransition now cfg))"
  by (simp add: fsm_ticks_append)

abbreviation tick :: "fsm_config \<Rightarrow> fsm_metrics \<Rightarrow> instant \<Rightarrow> 'a fsm_state_scheme \<Rightarrow> 'a fsm_state_scheme" where
  "tick cfg m now st \<equiv> fst (Advance m st now cfg (syntheticFSMTransition now cfg))"

text \<open>The counters after a tick are those of the count, whatever the transition.\<close>

context fsm_transition
begin

lemma Advance_counters:
  "Strikes (fst (Advance m st now cfg tr)) = Strikes (counted m now cfg st)"
  "UpStreak (fst (Advance m st now cfg tr)) = UpStreak (counted m now cfg st)"
  "DownStreak (fst (Advance m st now cfg tr)) = DownStreak (counted m now cfg st)"
  "NonCompTicks (fst (Advance m st now cfg tr)) = NonCompTicks (counted m now cfg st)"
  "HighSevSince (fst (Advance m st now cfg tr)) = HighSevSince (counted m now cfg st)"
  by (simp_all add: Advance_def Let_def tr_counters stepped_down_frame)

end

section \<open>A block lasts\<close>

text \<open>
  A block holds until it expires. While the time of a block is not over, no tick lowers or
  moves the level, whatever the metrics, the counters and the transition.
\<close>

theorem block_holds_until_expiry:
  assumes "Level st = LevelBlock" "ExpiresAt st \<noteq> zero_time" "now < ExpiresAt st"
  shows "Level (fst (Advance m st now cfg tr)) = LevelBlock \<and> \<not> snd (Advance m st now cfg tr)"
proof -
  let ?c = "counted m now cfg st"
  have "stepped_down now cfg tr ?c = ?c" using assms by (simp add: stepped_down_def stepdown_def)
  moreover have "target_level now cfg ?c = LevelBlock"
  proof -
    have "hold_block now ?c (wanted_level cfg ?c) = LevelBlock"
      using assms by (cases "wanted_level cfg ?c") (simp_all add: hold_block_def)
    then show ?thesis using assms(1) by (simp add: target_level_def gate_block_def)
  qed
  ultimately show ?thesis using assms(1) by (simp add: Advance_def Let_def)
qed

section \<open>Level changes are spaced\<close>

lemma ticks_in_cooldown:
  assumes "0 \<le> Cooldown cfg" "\<forall>(m, t) \<in> set xs. t \<le> CooldownUntil st"
  shows "Level (fsm_ticks cfg xs st) = Level st \<and> CooldownUntil (fsm_ticks cfg xs st) = CooldownUntil st \<and>
    ExpiresAt (fsm_ticks cfg xs st) = ExpiresAt st"
  using assms(2)
proof (induction xs rule: rev_induct)
  case (snoc x xs)
  obtain m t where x: "x = (m, t)" by (cases x)
  have IH: "Level (fsm_ticks cfg xs st) = Level st" "CooldownUntil (fsm_ticks cfg xs st) = CooldownUntil st"
    "ExpiresAt (fsm_ticks cfg xs st) = ExpiresAt st"
    using snoc by auto
  have t: "t \<le> CooldownUntil (fsm_ticks cfg xs st)" using snoc.prems IH(2) by (simp add: x)
  show ?case unfolding x fsm_ticks_snoc
    using t IH by (cases rule: synthetic.Advance_cases [OF assms(1), of m "fsm_ticks cfg xs st" t cfg]) simp_all
qed simp

text \<open>
  C22: Levels change no faster than the cooldown. A tick that changes the level is followed by no other
  change, up or down, in any number of ticks until the cooldown is over.
\<close>

theorem level_changes_are_spaced:
  assumes "0 \<le> Cooldown cfg" "Level (tick cfg m t0 st) \<noteq> Level st"
    and "\<forall>(m, t) \<in> set xs. t \<le> t0 + Cooldown cfg"
  shows "Level (fsm_ticks cfg xs (tick cfg m t0 st)) = Level (tick cfg m t0 st)"
proof -
  have "CooldownUntil (tick cfg m t0 st) = t0 + Cooldown cfg"
    using synthetic.Advance_level [OF assms(1), of m st t0 cfg] assms(2) by simp
  then show ?thesis using ticks_in_cooldown [OF assms(1), of xs "tick cfg m t0 st"] assms(3) by simp
qed

section \<open>A block is earned\<close>

lemma track_severity_since:
  "HighSevSince (track_severity m now cfg st) =
    (if BlockMinSev cfg > 0 \<and> Severity m \<ge> BlockMinSev cfg
     then (if HighSevSince st = zero_time then now else HighSevSince st) else zero_time)"
  by (simp add: track_severity_def)

lemma counted_since: "HighSevSince (counted m now cfg st) = HighSevSince (track_severity m now cfg st)"
  by (simp add: counted_def)

text \<open>The start of the present stretch of high severity.\<close>

lemma high_severity_stretch:
  assumes "HighSevSince st = zero_time" "sorted_wrt (<) (map snd xs)" "zero_time \<notin> snd ` set xs"
  shows "HighSevSince (fsm_ticks cfg xs st) = zero_time \<or>
    (HighSevSince (fsm_ticks cfg xs st) \<in> snd ` set xs \<and>
     (\<forall>(m, t) \<in> set xs. HighSevSince (fsm_ticks cfg xs st) \<le> t \<longrightarrow> BlockMinSev cfg \<le> Severity m))"
  using assms(2,3)
proof (induction xs rule: rev_induct)
  case Nil
  then show ?case using assms(1) by simp
next
  case (snoc x xs)
  obtain m t where x: "x = (m, t)" by (cases x)
  let ?s = "HighSevSince (fsm_ticks cfg xs st)"
  have IH: "?s = zero_time \<or> (?s \<in> snd ` set xs \<and> (\<forall>(m, t) \<in> set xs. ?s \<le> t \<longrightarrow> BlockMinSev cfg \<le> Severity m))"
    using snoc by (simp add: sorted_wrt_append)
  have before: "\<forall>(m', t') \<in> set xs. t' < t" using snoc.prems(1) by (auto simp: x sorted_wrt_append)
  have now: "HighSevSince (fsm_ticks cfg (xs @ [x]) st) =
    (if BlockMinSev cfg > 0 \<and> Severity m \<ge> BlockMinSev cfg then (if ?s = zero_time then t else ?s) else zero_time)"
    unfolding x fsm_ticks_snoc by (simp add: synthetic.Advance_counters counted_since track_severity_since)
  show ?case
  proof (cases "BlockMinSev cfg > 0 \<and> Severity m \<ge> BlockMinSev cfg")
    case True
    show ?thesis
    proof (cases "?s = zero_time")
      case zero: True
      have "\<forall>(m', t') \<in> set (xs @ [x]). t \<le> t' \<longrightarrow> BlockMinSev cfg \<le> Severity m'"
        using before True by (auto simp: x)
      then show ?thesis unfolding now using True zero by (simp add: x)
    next
      case False
      with IH have "?s \<in> snd ` set xs" "\<forall>(m, t) \<in> set xs. ?s \<le> t \<longrightarrow> BlockMinSev cfg \<le> Severity m" by simp_all
      with True False show ?thesis unfolding now by (simp add: x)
    qed
  next
    case False
    then have "HighSevSince (fsm_ticks cfg (xs @ [x]) st) = zero_time" unfolding now by (rule if_not_P)
    then show ?thesis by blast
  qed
qed

text \<open>
  C19: A block is earned by sustained severity. When the gate is on and the source does not carry the flag
  that forces a block past the gate, a tick that blocks a source not blocked before comes after a stretch of ticks, at least \<open>BlockMinDur\<close>
  long and up to now, in which every severity was at least \<open>BlockMinSev\<close>.
\<close>

theorem block_needs_sustained_severity:
  assumes "0 \<le> Cooldown cfg" "0 < BlockMinSev cfg" "0 < BlockMinDur cfg" "BlockMinDur cfg < 2 ^ 63"
    and "HighSevSince st = zero_time" "sorted_wrt (<) (map snd (xs @ [(m, now)]))" "zero_time \<notin> snd ` set (xs @ [(m, now)])"
    and "Level (fsm_ticks cfg xs st) \<noteq> LevelBlock" "\<not> ForceBlock (fsm_ticks cfg xs st)"
    and "Level (fsm_ticks cfg (xs @ [(m, now)]) st) = LevelBlock"
  shows "\<exists>since \<in> snd ` set xs. since + BlockMinDur cfg \<le> now \<and>
    (\<forall>(m', t) \<in> set (xs @ [(m, now)]). since \<le> t \<longrightarrow> BlockMinSev cfg \<le> Severity m')"
proof -
  let ?s = "fsm_ticks cfg xs st"
  let ?c = "counted m now cfg ?s"
  have block: "Level (tick cfg m now ?s) = LevelBlock" using assms(10) by (simp add: fsm_ticks_snoc)
  have target: "target_level now cfg ?c = LevelBlock"
    using block assms(8)
    by (cases rule: synthetic.Advance_cases [OF assms(1), of m ?s now cfg])
      (auto simp: synthetic.tr_level)
  have since: "HighSevSince ?c \<noteq> zero_time" "Sub now (HighSevSince ?c) \<ge> BlockMinDur cfg"
    using target assms(2,3,8,9)
    by (auto simp: target_level_def gate_block_def hold_block_def less_fsm_level_def level_num_def split: if_splits fsm_level.splits)
  have c: "HighSevSince ?c = HighSevSince (fsm_ticks cfg (xs @ [(m, now)]) st)"
    unfolding fsm_ticks_snoc by (simp add: synthetic.Advance_counters)
  have at: "HighSevSince ?c \<in> snd ` set (xs @ [(m, now)])"
    and high: "\<forall>(m', t) \<in> set (xs @ [(m, now)]). HighSevSince ?c \<le> t \<longrightarrow> BlockMinSev cfg \<le> Severity m'"
    using high_severity_stretch [OF assms(5-7), of cfg] since(1) unfolding c [symmetric] by blast+
  have le: "HighSevSince ?c + BlockMinDur cfg \<le> now" using since(2) assms(3,4) by (simp add: Sub_def)
  with at assms(3) have "HighSevSince ?c \<in> snd ` set xs" by auto
  with le high show ?thesis by blast
qed

section \<open>A quiet source is released\<close>

definition quiet_tick :: "fsm_config \<Rightarrow> fsm_metrics \<Rightarrow> bool" where
  "quiet_tick cfg m \<longleftrightarrow> \<not> highTick m cfg \<and> lowTick m cfg \<and> strikeDelta m cfg \<le> 0 \<and>
     Severity m < NonCompResetBelow cfg \<and> \<not> (NonCompSev cfg > 0 \<and> Severity m \<ge> NonCompSev cfg)"

lemma quiet_counts:
  assumes "quiet_tick cfg m"
  shows "Strikes (counted m now cfg st) =
      (if Strikes st > 0 \<and> DownStreak st + 1 \<ge> DownNeed cfg then Strikes st - 1 else Strikes st)"
    "DownStreak (counted m now cfg st) = DownStreak st + 1"
    "NonCompTicks (counted m now cfg st) = 0"
proof -
  have d: "DropRLRate m = 0" using assms by (simp add: quiet_tick_def lowTick_def)
  have s: "count_streaks m cfg (track_severity m now cfg st) =
      (track_severity m now cfg st)\<lparr>DownStreak := DownStreak st + 1, UpStreak := 0\<rparr>"
    using assms by (simp add: quiet_tick_def count_streaks_def)
  have k: "Strikes (count_strikes m now cfg (count_streaks m cfg (track_severity m now cfg st))) =
      (if Strikes st > 0 \<and> DownStreak st + 1 \<ge> DownNeed cfg then Strikes st - 1 else Strikes st)"
    using assms unfolding s by (simp add: quiet_tick_def count_strikes_def)
  show "Strikes (counted m now cfg st) =
      (if Strikes st > 0 \<and> DownStreak st + 1 \<ge> DownNeed cfg then Strikes st - 1 else Strikes st)"
    by (simp add: counted_def k)
  show "DownStreak (counted m now cfg st) = DownStreak st + 1"
    by (simp add: counted_def s)
  show "NonCompTicks (counted m now cfg st) = 0"
    using assms d by (auto simp: counted_def count_noncomp_def quiet_tick_def)
qed

lemma quiet_run:
  assumes "\<forall>(m, t) \<in> set xs. quiet_tick cfg m" "0 \<le> DownStreak st" "0 \<le> Strikes st"
  shows "DownStreak (fsm_ticks cfg xs st) = DownStreak st + int (length xs)"
    "0 \<le> Strikes (fsm_ticks cfg xs st)"
    "Strikes (fsm_ticks cfg xs st) + int (length xs) \<le> max (int (length xs)) (Strikes st + max 0 (DownNeed cfg - 1 - DownStreak st))"
proof -
  have "DownStreak (fsm_ticks cfg xs st) = DownStreak st + int (length xs) \<and> 0 \<le> Strikes (fsm_ticks cfg xs st) \<and>
    Strikes (fsm_ticks cfg xs st) \<le> Strikes st \<and>
    Strikes (fsm_ticks cfg xs st) + int (length xs) \<le> max (int (length xs)) (Strikes st + max 0 (DownNeed cfg - 1 - DownStreak st))"
    using assms(1)
  proof (induction xs rule: rev_induct)
    case Nil
    then show ?case using assms(2,3) by simp
  next
    case (snoc x xs)
    obtain m t where x: "x = (m, t)" by (cases x)
    have q: "quiet_tick cfg m" using snoc.prems by (simp add: x)
    from snoc have IH: "DownStreak (fsm_ticks cfg xs st) = DownStreak st + int (length xs)"
      "0 \<le> Strikes (fsm_ticks cfg xs st)" "Strikes (fsm_ticks cfg xs st) \<le> Strikes st"
      "Strikes (fsm_ticks cfg xs st) + int (length xs) \<le> max (int (length xs)) (Strikes st + max 0 (DownNeed cfg - 1 - DownStreak st))"
      by auto
    show ?case
      unfolding x fsm_ticks_snoc synthetic.Advance_counters quiet_counts [OF q] using IH by auto
  qed
  then show "DownStreak (fsm_ticks cfg xs st) = DownStreak st + int (length xs)" "0 \<le> Strikes (fsm_ticks cfg xs st)"
    "Strikes (fsm_ticks cfg xs st) + int (length xs) \<le> max (int (length xs)) (Strikes st + max 0 (DownNeed cfg - 1 - DownStreak st))"
    by blast+
qed

text \<open>Once the strikes are gone, every quiet tick after cooldown and expiry lowers the level.\<close>

definition thresholds_ok :: "fsm_config \<Rightarrow> bool" where
  "thresholds_ok cfg \<longleftrightarrow> 0 \<le> Cooldown cfg \<and> 0 < SoftAt cfg \<and> 0 < HardAt cfg \<and> 0 < BlockAt cfg"

lemma quiet_target:
  assumes "thresholds_ok cfg" "quiet_tick cfg m" "Strikes st = 0"
    and "Level st = LevelBlock \<longrightarrow> ExpiresAt st = zero_time \<or> ExpiresAt st \<le> now"
  shows "target_level now cfg (counted m now cfg st) = LevelObserve"
proof -
  have c: "Strikes (counted m now cfg st) = 0" "NonCompTicks (counted m now cfg st) = 0"
    using quiet_counts [OF assms(2), of now st] assms(3) by simp_all
  then have "wanted_level cfg (counted m now cfg st) = LevelObserve"
    using assms(1) by (simp add: wanted_level_def strike_level_def thresholds_ok_def)
  then show ?thesis using assms(4) by (auto simp: target_level_def hold_block_def gate_block_def)
qed

lemma quiet_step:
  assumes "thresholds_ok cfg" "quiet_tick cfg m" "Strikes st = 0" "CooldownUntil st < now"
    and "Level st = LevelBlock \<longrightarrow> ExpiresAt st = zero_time \<or> ExpiresAt st \<le> now"
  shows "Strikes (tick cfg m now st) = 0"
    "Level (tick cfg m now st) = LevelObserve \<or> Level (tick cfg m now st) < Level st"
    "Level st \<noteq> LevelObserve \<Longrightarrow> CooldownUntil (tick cfg m now st) = now + Cooldown cfg"
    "Level st = LevelBlock \<Longrightarrow> ExpiresAt st = zero_time \<Longrightarrow> Level (tick cfg m now st) = LevelObserve"
    "Level st = LevelObserve \<Longrightarrow> CooldownUntil (tick cfg m now st) = CooldownUntil st"
proof -
  have cd: "0 \<le> Cooldown cfg" using assms(1) by (simp add: thresholds_ok_def)
  note t = quiet_target [OF assms(1,2,3,5)]
  show "Strikes (tick cfg m now st) = 0"
    unfolding synthetic.Advance_counters using quiet_counts [OF assms(2), of now st] assms(3) by simp
  show "Level (tick cfg m now st) = LevelObserve \<or> Level (tick cfg m now st) < Level st"
    using t assms(4) by (cases rule: synthetic.Advance_cases [OF cd, of m st now cfg]) (auto simp: synthetic.tr_level)
  show "CooldownUntil (tick cfg m now st) = now + Cooldown cfg" if "Level st \<noteq> LevelObserve"
    using t assms(4) that
    by (cases rule: synthetic.Advance_cases [OF cd, of m st now cfg]) (auto simp: synthetic.tr_cooldown)
  show "Level (tick cfg m now st) = LevelObserve" if "Level st = LevelBlock" "ExpiresAt st = zero_time"
    using t assms(4) that
    by (cases rule: synthetic.Advance_cases [OF cd, of m st now cfg]) (auto simp: synthetic.tr_level)
  show "CooldownUntil (tick cfg m now st) = CooldownUntil st" if "Level st = LevelObserve"
    using t assms(4) that
    by (cases rule: synthetic.Advance_cases [OF cd, of m st now cfg]) auto
qed

lemma quiet_strikes_gone:
  assumes "\<forall>(m, t) \<in> set xs. quiet_tick cfg m" "0 \<le> DownStreak st" "0 \<le> Strikes st"
    and "Strikes st + max 0 (DownNeed cfg) \<le> int (length xs)"
  shows "Strikes (fsm_ticks cfg xs st) = 0"
  using quiet_run(2,3) [OF assms(1-3)] assms(2,4) by linarith

lemma level_chain:
  assumes "a = LevelObserve \<or> a < z" "b = LevelObserve \<or> b < a" "c = LevelObserve \<or> c < (b :: fsm_level)"
  shows "c = LevelObserve"
  using assms by (cases a; cases b; cases c; cases z) (simp_all add: less_fsm_level_def level_num_def)

text \<open>
  C20: A quiet source is released. After as many quiet ticks as it has strikes and the quiet streak takes, three
  more quiet ticks, each after the cooldown of the one before and the first after the time of a
  block, bring a source back to observation from any level.
\<close>

theorem quiet_source_is_released:
  assumes "thresholds_ok cfg" "\<forall>(m, t) \<in> set xs. quiet_tick cfg m" "0 \<le> DownStreak st" "0 \<le> Strikes st"
    and "Strikes st + max 0 (DownNeed cfg) \<le> int (length xs)"
    and "quiet_tick cfg m1" "quiet_tick cfg m2" "quiet_tick cfg m3"
    and "CooldownUntil (fsm_ticks cfg xs st) < t1" "t1 + Cooldown cfg < t2" "t2 + Cooldown cfg < t3"
    and "Level (fsm_ticks cfg xs st) = LevelBlock \<longrightarrow> ExpiresAt (fsm_ticks cfg xs st) \<le> t1"
  shows "Level (fsm_ticks cfg (xs @ [(m1, t1), (m2, t2), (m3, t3)]) st) = LevelObserve"
proof -
  let ?s1 = "fsm_ticks cfg xs st"
  let ?s2 = "tick cfg m1 t1 ?s1" let ?s3 = "tick cfg m2 t2 ?s2"
  have cd: "0 \<le> Cooldown cfg" using assms(1) by (simp add: thresholds_ok_def)
  have z: "Strikes ?s1 = 0" by (rule quiet_strikes_gone [OF assms(2-5)])
  have b1: "Level ?s1 = LevelBlock \<longrightarrow> ExpiresAt ?s1 = zero_time \<or> ExpiresAt ?s1 \<le> t1" using assms(12) by blast
  note q1 = quiet_step [OF assms(1,6) z assms(9) b1]
  have c2: "CooldownUntil ?s2 < t2" using q1(3,5) assms(9,10) cd by (cases "Level ?s1 = LevelObserve") auto
  have n2: "Level ?s2 \<noteq> LevelBlock" using q1(2) by auto
  then have b2: "Level ?s2 = LevelBlock \<longrightarrow> ExpiresAt ?s2 = zero_time \<or> ExpiresAt ?s2 \<le> t2" by blast
  note q2 = quiet_step [OF assms(1,7) q1(1) c2 b2]
  have c3: "CooldownUntil ?s3 < t3" using q2(3,5) c2 assms(10,11) cd by (cases "Level ?s2 = LevelObserve") auto
  have "Level ?s3 \<noteq> LevelBlock" using q2(2) by auto
  then have b3: "Level ?s3 = LevelBlock \<longrightarrow> ExpiresAt ?s3 = zero_time \<or> ExpiresAt ?s3 \<le> t3" by blast
  note q3 = quiet_step [OF assms(1,8) q2(1) c3 b3]
  have "Level (tick cfg m3 t3 ?s3) = LevelObserve" by (rule level_chain [OF q1(2) q2(2) q3(2)])
  then show ?thesis by (simp add: fsm_ticks_append)
qed

text \<open>
  C39: A block without expiry is the shortest. With a block time of 0, which the configuration documents as
  no expiry, a block is not held at all. When within the cooldown at least as many ticks as the
  source has strikes plus \<open>DownNeed\<close> were quiet, so that the strikes are used up, the first quiet tick after
  the cooldown lifts the block, straight to observation.
\<close>

theorem block_without_expiry_is_released:
  assumes "thresholds_ok cfg" "BlockTTL cfg \<le> 0" "0 \<le> DownStreak st" "0 \<le> Strikes st"
    and "\<forall>(m, t) \<in> set xs. quiet_tick cfg m \<and> t \<le> t0 + Cooldown cfg"
    and "Strikes st + max 0 (DownNeed cfg) \<le> int (length xs)"
    and "quiet_tick cfg m" "t0 + Cooldown cfg < t"
  shows "Level (fsm_ticks cfg (xs @ [(m, t)]) (syntheticFSMTransition t0 cfg st LevelBlock)) = LevelObserve"
proof -
  let ?s0 = "syntheticFSMTransition t0 cfg st LevelBlock"
  let ?s1 = "fsm_ticks cfg xs ?s0"
  have s0: "Level ?s0 = LevelBlock" "ExpiresAt ?s0 = zero_time" "CooldownUntil ?s0 = t0 + Cooldown cfg"
    "DownStreak ?s0 = DownStreak st" "Strikes ?s0 = Strikes st"
    using assms(2) by (simp_all add: syntheticFSMTransition_def expiryTime_def)
  have "0 \<le> Cooldown cfg" using assms(1) by (simp add: thresholds_ok_def)
  from ticks_in_cooldown [OF this, of xs ?s0] assms(5) s0
  have s1: "Level ?s1 = LevelBlock" "ExpiresAt ?s1 = zero_time" "CooldownUntil ?s1 = t0 + Cooldown cfg" by auto
  have "\<forall>(m, t) \<in> set xs. quiet_tick cfg m" using assms(5) by blast
  from quiet_strikes_gone [OF this, of ?s0] assms(3,4,6) s0 have z: "Strikes ?s1 = 0" by simp
  have "CooldownUntil ?s1 < t" using s1(3) assms(8) by simp
  from quiet_step(4) [OF assms(1,7) z this _ s1(1,2)] s1(2) show ?thesis by (simp add: fsm_ticks_snoc)
qed

section \<open>The two transitions\<close>

definition params_match :: "enforcement_params \<Rightarrow> fsm_config \<Rightarrow> bool" where
  "params_match p cfg \<longleftrightarrow> p_SoftTTL p = SoftTTL cfg \<and> p_HardTTL p = HardTTL cfg \<and>
     p_BlockTTL p = BlockTTL cfg \<and> p_Cooldown p = Cooldown cfg"

fun ttl_of :: "fsm_config \<Rightarrow> fsm_level \<Rightarrow> duration" where
  "ttl_of cfg LevelObserve = 1"
| "ttl_of cfg LevelSoft = SoftTTL cfg"
| "ttl_of cfg LevelHard = HardTTL cfg"
| "ttl_of cfg LevelBlock = BlockTTL cfg"

text \<open>
  The decision point and the enforcement point agree on the state after a transition exactly
  when the time of the level is positive: a time of 0 is no expiry for one and expiry at once for the
  other.
\<close>

theorem transitions_agree_iff:
  assumes "params_match p cfg" "0 \<le> now" "0 \<le> SoftTTL cfg" "0 \<le> HardTTL cfg" "0 \<le> BlockTTL cfg"
  shows "applyStateFields now p st l = syntheticFSMTransition now cfg st l \<longleftrightarrow> 0 < ttl_of cfg l"
proof -
  have "ExpiresAt (applyStateFields now p st l) = ExpiresAt (syntheticFSMTransition now cfg st l) \<longleftrightarrow> 0 < ttl_of cfg l"
    using assms by (cases l) (auto simp: applyStateFields_def syntheticFSMTransition_def expiryTime_def zero_time_def params_match_def)
  moreover have "applyStateFields now p st l = (syntheticFSMTransition now cfg st l)\<lparr>ExpiresAt := ExpiresAt (applyStateFields now p st l)\<rparr>"
    using assms(1) by (simp add: applyStateFields_def syntheticFSMTransition_def params_match_def)
  ultimately show ?thesis by (metis fsm_state.ext_inject fsm_state.surjective fsm_state.update_convs(3))
qed

section \<open>The intent of a tick\<close>

text \<open>The note that the callback takes does not change what a tick does to the state.\<close>

lemma truncate_fields [simp]:
  "Level (fsm_state.truncate s) = Level s" "Strikes (fsm_state.truncate s) = Strikes s"
  "ExpiresAt (fsm_state.truncate s) = ExpiresAt s" "CooldownUntil (fsm_state.truncate s) = CooldownUntil s"
  "LastTrigger (fsm_state.truncate s) = LastTrigger s" "HighSevSince (fsm_state.truncate s) = HighSevSince s"
  "UpStreak (fsm_state.truncate s) = UpStreak s" "DownStreak (fsm_state.truncate s) = DownStreak s"
  "NonCompTicks (fsm_state.truncate s) = NonCompTicks s" "ForceBlock (fsm_state.truncate s) = ForceBlock s"
  by (simp_all add: fsm_state.truncate_def)

lemma truncate_count:
  "fsm_state.truncate (track_severity m now cfg s) = track_severity m now cfg (fsm_state.truncate s)"
  "fsm_state.truncate (count_streaks m cfg s) = count_streaks m cfg (fsm_state.truncate s)"
  "fsm_state.truncate (count_strikes m now cfg s) = count_strikes m now cfg (fsm_state.truncate s)"
  "fsm_state.truncate (count_noncomp m cfg s) = count_noncomp m cfg (fsm_state.truncate s)"
  unfolding track_severity_def count_streaks_def count_strikes_def count_noncomp_def truncate_fields
  by (simp_all add: fsm_state.truncate_def) auto

lemma truncate_counted: "fsm_state.truncate (counted m now cfg s) = counted m now cfg (fsm_state.truncate s)"
  by (simp add: counted_def truncate_count)

lemma truncate_note:
  "fsm_state.truncate (note_transition now c s l) = syntheticFSMTransition now c (fsm_state.truncate s) l"
  by (simp add: note_transition_def syntheticFSMTransition_def fsm_state.truncate_def)

lemma truncate_stepdown:
  "fsm_state.truncate (stepdown now cfg (note_transition now c) a h b s) =
    stepdown now cfg (syntheticFSMTransition now c) a h b (fsm_state.truncate s)"
  by (simp add: stepdown_def truncate_note)

lemma truncate_target: "target_level now cfg (fsm_state.truncate s) = target_level now cfg s"
  by (simp add: target_level_def gate_block_def hold_block_def wanted_level_def strike_level_def)

lemma truncate_force: "fsm_state.truncate (s\<lparr>ForceBlock := b\<rparr>) = (fsm_state.truncate s)\<lparr>ForceBlock := b\<rparr>"
  by (simp add: fsm_state.truncate_def)

text \<open>
  The intent is the state machine. \<open>evaluateFSMIntent\<close> returns the state and the change flag of one
  tick, and the level it proposes is the level of that state.
\<close>

theorem intent_is_the_tick:
  assumes "0 \<le> Cooldown c"
  shows "(SignalState (evaluateFSMIntent m st now c), Transitioned (evaluateFSMIntent m st now c)) =
      Advance m st now c (syntheticFSMTransition now c) \<and>
    ProposedLevel (evaluateFSMIntent m st now c) = Level (SignalState (evaluateFSMIntent m st now c))"
proof -
  let ?st = "fsm_state.extend st (fsm_noted.fields (Level st))"
  have st: "fsm_state.truncate ?st = st" by (simp add: fsm_state.truncate_def fsm_state.extend_def)
  have tr: "proposed (note_transition now c s l) = Level (note_transition now c s l)" for s l
    by (simp add: note_transition_def synthetic.tr_level)
  define s where "s = stepped_down now c (note_transition now c) (counted m now c ?st)"
  have s: "fsm_state.truncate s = stepped_down now c (syntheticFSMTransition now c) (counted m now c st)"
    by (simp add: s_def stepped_down_def truncate_stepdown truncate_counted st)
  have "map_prod fsm_state.truncate id (Advance m ?st now c (note_transition now c)) =
      Advance m st now c (syntheticFSMTransition now c)"
    unfolding Advance_def Let_def s [symmetric] s_def [symmetric] truncate_target truncate_fields
    by (simp add: truncate_note truncate_force)
  moreover have "ProposedLevel (evaluateFSMIntent m st now c) = Level (SignalState (evaluateFSMIntent m st now c))"
    by (cases rule: noted.Advance_cases [OF assms, of m ?st now c]) (simp_all add: evaluateFSMIntent_def tr)
  ultimately show ?thesis by (simp add: evaluateFSMIntent_def split_beta map_prod_def)
qed

lemma CalcSeverity_bounds:
  assumes "0 \<le> pps" "0 \<le> synps" "0 \<le> scanps" "0 \<le> bps" "0 \<le> cap"
    and "0 \<le> wPPS" "0 \<le> wSyn" "0 \<le> wScan" "0 \<le> wBps"
  shows "0 \<le> CalcSeverity pps synps scanps bps tp ts tc tb wPPS wSyn wScan wBps cap \<and>
    CalcSeverity pps synps scanps bps tp ts tc tb wPPS wSyn wScan wBps cap \<le> (wPPS + wSyn + wScan + wBps) * cap"
proof -
  let ?n = "\<lambda>v trig. if trig > 0 then min (v / trig) cap else 0"
  have n: "0 \<le> ?n v trig \<and> ?n v trig \<le> cap" if "0 \<le> v" for v trig using that assms(5) by simp
  have w: "0 \<le> w * ?n v trig \<and> w * ?n v trig \<le> w * cap" if "0 \<le> v" "0 \<le> w" for v w trig
    using n [OF that(1), of trig] that(2) by (meson mult_left_mono mult_nonneg_nonneg)
  show ?thesis
    using w [OF assms(1,6), of tp] w [OF assms(2,7), of ts] w [OF assms(3,8), of tc] w [OF assms(4,9), of tb]
    unfolding CalcSeverity_def Let_def distrib_right by linarith
qed

section \<open>Instances\<close>

definition demo_fsm :: fsm_config where
  "demo_fsm = \<lparr>SevStep1 = 1, SevStep2 = 2, SevStep3 = 3, SevDelta1 = 1, SevDelta2 = 2, SevDelta3 = 3,
     SevDecayBelow = 1 / 2, SoftAt = 3, HardAt = 6, BlockAt = 9, UpNeed = 2, DownNeed = 2,
     MinHoldSoft = 0, MinHoldHard = 0, BlockMinSev = 2, BlockMinDur = 10, Cooldown = 5,
     SoftTTL = 100, HardTTL = 100, BlockTTL = 100, NonCompAt = 0, NonCompDrop = 0, NonCompSev = 0,
     NonCompResetBelow = 1, LearnMaxSev = 1\<rparr>"

definition loud :: fsm_metrics where
  "loud = \<lparr>PPS = 0, Bps = 0, SynRate = 0, ScanRate = 0, DropRLRate = 0, Severity = 3\<rparr>"

definition still :: fsm_metrics where
  "still = \<lparr>PPS = 0, Bps = 0, SynRate = 0, ScanRate = 0, DropRLRate = 0, Severity = 0\<rparr>"

definition new_source :: fsm_state where
  "new_source = \<lparr>Level = LevelObserve, Strikes = 0, ExpiresAt = zero_time, CooldownUntil = zero_time,
     LastTrigger = zero_time, HighSevSince = zero_time, LastSeenWallTime = zero_time, UpStreak = 0,
     DownStreak = 0, NonCompTicks = 0, ForceBlock = False\<rparr>"

lemmas tick_defs = Advance_def Let_def counted_def count_noncomp_def count_strikes_def count_streaks_def
  track_severity_def highTick_def lowTick_def strikeDelta_def stepped_down_def stepdown_def target_level_def
  gate_block_def hold_block_def wanted_level_def strike_level_def syntheticFSMTransition_def expiryTime_def
  Sub_def zero_time_def less_fsm_level_def less_eq_fsm_level_def level_num_def

lemma loud_10: "fsm_ticks demo_fsm [(loud, 10)] new_source =
    new_source\<lparr>Strikes := 3, LastTrigger := 10, HighSevSince := 10, UpStreak := 1\<rparr>"
  by (simp add: tick_defs demo_fsm_def loud_def new_source_def)

lemma loud_20: "fsm_ticks demo_fsm [(loud, 10), (loud, 20)] new_source =
    new_source\<lparr>Level := LevelHard, Strikes := 6, LastTrigger := 20, HighSevSince := 10, UpStreak := 2,
      CooldownUntil := 25, ExpiresAt := 120\<rparr>"
proof -
  have "tick demo_fsm loud 20 (new_source\<lparr>Strikes := 3, LastTrigger := 10, HighSevSince := 10, UpStreak := 1\<rparr>) =
    new_source\<lparr>Level := LevelHard, Strikes := 6, LastTrigger := 20, HighSevSince := 10, UpStreak := 2,
      CooldownUntil := 25, ExpiresAt := 120\<rparr>"
    by (simp add: tick_defs demo_fsm_def loud_def new_source_def)
  then show ?thesis using fsm_ticks_snoc [of demo_fsm "[(loud, 10)]" loud 20 new_source] loud_10 by simp
qed

lemma loud_30: "fsm_ticks demo_fsm [(loud, 10), (loud, 20), (loud, 30)] new_source =
    new_source\<lparr>Level := LevelBlock, Strikes := 9, LastTrigger := 30, HighSevSince := 10, UpStreak := 3,
      CooldownUntil := 35, ExpiresAt := 130\<rparr>"
proof -
  have "tick demo_fsm loud 30 (new_source\<lparr>Level := LevelHard, Strikes := 6, LastTrigger := 20, HighSevSince := 10, UpStreak := 2,
      CooldownUntil := 25, ExpiresAt := 120\<rparr>) =
    new_source\<lparr>Level := LevelBlock, Strikes := 9, LastTrigger := 30, HighSevSince := 10, UpStreak := 3,
      CooldownUntil := 35, ExpiresAt := 130\<rparr>"
    by (simp add: tick_defs demo_fsm_def loud_def new_source_def)
  then show ?thesis using fsm_ticks_snoc [of demo_fsm "[(loud, 10), (loud, 20)]" loud 30 new_source] loud_20 by simp
qed

lemma still_quiet: "quiet_tick demo_fsm still" "quiet_tick (demo_fsm\<lparr>BlockTTL := 0\<rparr>) still"
  "thresholds_ok demo_fsm" "thresholds_ok (demo_fsm\<lparr>BlockTTL := 0\<rparr>)"
  by (simp_all add: demo_fsm_def quiet_tick_def still_def highTick_def lowTick_def strikeDelta_def thresholds_ok_def)

theorem block_holds_until_expiry_witness:
  "\<exists>st. fsm_ticks demo_fsm [(loud, 10), (loud, 20), (loud, 30)] new_source = st \<and>
     Level (tick demo_fsm still 129 st) = LevelBlock"
proof -
  let ?st = "new_source\<lparr>Level := LevelBlock, Strikes := 9, LastTrigger := 30, HighSevSince := 10, UpStreak := 3,
      CooldownUntil := 35, ExpiresAt := 130\<rparr>"
  have "Level ?st = LevelBlock" "ExpiresAt ?st \<noteq> zero_time" "(129 :: int) < ExpiresAt ?st" by (simp_all add: zero_time_def)
  from block_holds_until_expiry [OF this, of still demo_fsm "syntheticFSMTransition 129 demo_fsm"] show ?thesis
    using loud_30 by blast
qed

theorem level_changes_are_spaced_witness:
  "\<exists>st :: fsm_state. Level (fsm_ticks demo_fsm [(still, 22), (loud, 25)] st) = LevelHard \<and> CooldownUntil st = 25"
proof -
  let ?st = "new_source\<lparr>Strikes := 3, LastTrigger := 10, HighSevSince := 10, UpStreak := 1\<rparr>"
  have t: "tick demo_fsm loud 20 ?st = new_source\<lparr>Level := LevelHard, Strikes := 6, LastTrigger := 20,
      HighSevSince := 10, UpStreak := 2, CooldownUntil := 25, ExpiresAt := 120\<rparr>"
    by (simp add: tick_defs demo_fsm_def loud_def new_source_def)
  have "0 \<le> Cooldown demo_fsm" "Level (tick demo_fsm loud 20 ?st) \<noteq> Level ?st"
    "\<forall>(m, t) \<in> set [(still, 22), (loud, 25)]. t \<le> 20 + Cooldown demo_fsm"
    unfolding t by (simp_all add: demo_fsm_def new_source_def)
  from level_changes_are_spaced [OF this] show ?thesis unfolding t by (intro exI [of _ "new_source\<lparr>Level := LevelHard, Strikes := 6, LastTrigger := 20,
      HighSevSince := 10, UpStreak := 2, CooldownUntil := 25, ExpiresAt := 120\<rparr>"]) simp
qed

theorem block_needs_sustained_severity_witness:
  "Level (fsm_ticks demo_fsm [(loud, 10), (loud, 20)] new_source) \<noteq> LevelBlock \<and>
   Level (fsm_ticks demo_fsm [(loud, 10), (loud, 20), (loud, 30)] new_source) = LevelBlock \<and>
   (\<exists>since \<in> snd ` set [(loud, 10), (loud, 20)]. since + BlockMinDur demo_fsm \<le> 30 \<and>
     (\<forall>(m, t) \<in> set [(loud, 10), (loud, 20), (loud, 30)]. since \<le> t \<longrightarrow> BlockMinSev demo_fsm \<le> Severity m))"
proof -
  have c: "0 \<le> Cooldown demo_fsm" "0 < BlockMinSev demo_fsm" "0 < BlockMinDur demo_fsm" "BlockMinDur demo_fsm < 2 ^ 63"
    by (simp_all add: demo_fsm_def)
  have i: "HighSevSince new_source = zero_time" "sorted_wrt (<) (map snd ([(loud, 10), (loud, 20)] @ [(loud, 30 :: int)]))"
    "zero_time \<notin> snd ` set ([(loud, 10), (loud, 20)] @ [(loud, 30)])"
    by (simp_all add: new_source_def zero_time_def)
  have l: "Level (fsm_ticks demo_fsm [(loud, 10), (loud, 20)] new_source) \<noteq> LevelBlock"
    "\<not> ForceBlock (fsm_ticks demo_fsm [(loud, 10), (loud, 20)] new_source)"
    unfolding loud_20 by (simp_all add: new_source_def)
  have b: "Level (fsm_ticks demo_fsm ([(loud, 10), (loud, 20)] @ [(loud, 30)]) new_source) = LevelBlock"
    using loud_30 by simp
  from block_needs_sustained_severity [OF c i l b] l(1) b show ?thesis by simp
qed

theorem quiet_source_is_released_witness:
  "\<exists>st :: fsm_state. Level st = LevelBlock \<and>
     Level (fsm_ticks demo_fsm ([(still, 20), (still, 21), (still, 22)] @ [(still, 131), (still, 140), (still, 150)]) st)
       = LevelObserve"
proof -
  let ?st = "new_source\<lparr>Level := LevelBlock, Strikes := 1, CooldownUntil := 35, ExpiresAt := 130\<rparr>"
  let ?xs = "[(still, 20), (still, 21), (still, 22)] :: (fsm_metrics \<times> instant) list"
  have cd: "0 \<le> Cooldown demo_fsm" "\<forall>(m, t) \<in> set ?xs. t \<le> CooldownUntil ?st" by (simp_all add: demo_fsm_def)
  from ticks_in_cooldown [OF this] have s1: "CooldownUntil (fsm_ticks demo_fsm ?xs ?st) < 131"
    "Level (fsm_ticks demo_fsm ?xs ?st) = LevelBlock \<longrightarrow> ExpiresAt (fsm_ticks demo_fsm ?xs ?st) \<le> 131"
    by simp_all
  have q: "\<forall>(m, t) \<in> set ?xs. quiet_tick demo_fsm m" using still_quiet(1) by simp
  have n: "0 \<le> DownStreak ?st" "0 \<le> Strikes ?st" "Strikes ?st + max 0 (DownNeed demo_fsm) \<le> int (length ?xs)"
    "(131 :: int) + Cooldown demo_fsm < 140" "(140 :: int) + Cooldown demo_fsm < 150"
    by (simp_all add: new_source_def demo_fsm_def)
  from quiet_source_is_released [OF still_quiet(3) q n(1-3) still_quiet(1) still_quiet(1) still_quiet(1) s1(1) n(4,5) s1(2)]
  show ?thesis by (intro exI [of _ ?st]) simp
qed

theorem block_without_expiry_is_released_witness:
  "\<exists>st :: fsm_state. Level st = LevelBlock \<and>
     Level (fsm_ticks (demo_fsm\<lparr>BlockTTL := 0\<rparr>) ([(still, 1), (still, 2), (still, 3), (still, 4)] @ [(still, 6)]) st) = LevelObserve"
proof -
  let ?c = "demo_fsm\<lparr>BlockTTL := 0\<rparr>"
  let ?st = "new_source\<lparr>Strikes := 2\<rparr>"
  let ?xs = "[(still, 1), (still, 2), (still, 3), (still, 4)] :: (fsm_metrics \<times> instant) list"
  have q: "\<forall>(m, t) \<in> set ?xs. quiet_tick ?c m \<and> t \<le> 0 + Cooldown ?c" using still_quiet(2) by (simp add: demo_fsm_def)
  have n: "BlockTTL ?c \<le> 0" "0 \<le> DownStreak ?st" "0 \<le> Strikes ?st"
    "Strikes ?st + max 0 (DownNeed ?c) \<le> int (length ?xs)" "0 + Cooldown ?c < 6"
    by (simp_all add: new_source_def demo_fsm_def)
  from block_without_expiry_is_released [OF still_quiet(4) n(1-3) q n(4) still_quiet(2) n(5)] show ?thesis
    by (intro exI [of _ "syntheticFSMTransition 0 ?c ?st LevelBlock"]) (simp add: synthetic.tr_level)
qed

definition demo_params :: enforcement_params where
  "demo_params = \<lparr>p_DryRun = False, p_SoftRate = 100, p_SoftBurst = 200, p_SoftTTL = 100, p_HardRate = 10,
     p_HardBurst = 20, p_HardTTL = 100, p_BlockTTL = 0, p_Cooldown = 5\<rparr>"

theorem transitions_agree_iff_witness:
  "applyStateFields 7 demo_params new_source LevelBlock \<noteq> syntheticFSMTransition 7 (demo_fsm\<lparr>BlockTTL := 0\<rparr>) new_source LevelBlock"
proof -
  have "params_match demo_params (demo_fsm\<lparr>BlockTTL := 0\<rparr>)" by (simp add: params_match_def demo_params_def demo_fsm_def)
  from transitions_agree_iff [OF this, of 7 new_source LevelBlock] show ?thesis by (simp add: demo_fsm_def)
qed

theorem intent_is_the_tick_witness:
  "Transitioned (evaluateFSMIntent loud (new_source\<lparr>Strikes := 3, UpStreak := 1\<rparr>) 20 demo_fsm)"
proof -
  have "snd (Advance loud (new_source\<lparr>Strikes := 3, UpStreak := 1\<rparr>) 20 demo_fsm (syntheticFSMTransition 20 demo_fsm))"
    by (simp add: tick_defs demo_fsm_def loud_def new_source_def)
  with intent_is_the_tick [of demo_fsm loud "new_source\<lparr>Strikes := 3, UpStreak := 1\<rparr>" 20]
  show ?thesis by (auto simp: demo_fsm_def dest: arg_cong [where f = snd])
qed

end
