(* ===== verification/Pep_Adapter.thy ===== *)
theory Pep_Adapter
  imports Map_Client Fsm_Laws Go_Text
begin

text \<open>
  The enforcement point (\<open>src/pkg/adapters/klshield/pep/adapter.go\<close>): it moves a source to a level by
  writing the deny and limit maps, and denies, allows or limits relationships by writing the tuple
  maps. Access policies are only recorded by this adapter. A transition that fails half way leaves the maps
  as the calls before the failure made them, so its result is a state, an error or none, and the
  maps.
\<close>

section \<open>Moving a source to a level\<close>

datatype pep_error = Maps_unavailable | Client_failed client_error | Bad_target

record pep =
  maps :: "map_handles option"
  dryRun :: bool

text \<open>A delete whose missing key, the only failure modelled, is ignored, and an update, on a map that may not be open.\<close>

definition del_rl4 :: "map_handles \<Rightarrow> u8 list \<Rightarrow> shield \<Rightarrow> shield" where
  "del_rl4 m ip s = (if h_RL4 m then s\<lparr>xdp_rl_policy4 := (xdp_rl_policy4 s)(\<lparr>k4_ip = ip\<rparr> := None)\<rparr> else s)"

definition del_deny4 :: "map_handles \<Rightarrow> u8 list \<Rightarrow> shield \<Rightarrow> shield" where
  "del_deny4 m ip s = (if h_Deny4 m then s\<lparr>xdp_deny_hash := (xdp_deny_hash s)(\<lparr>k4_ip = ip\<rparr> := None)\<rparr> else s)"

definition keep_on_error :: "cli_error + shield \<Rightarrow> shield \<Rightarrow> pep_error option \<times> shield" where
  "keep_on_error r s = (case r of Inl e \<Rightarrow> (Some (Client_failed (Map_failed e)), s) | Inr s' \<Rightarrow> (None, s'))"

definition set_rl4 :: "control \<Rightarrow> map_handles \<Rightarrow> u8 list \<Rightarrow> rl_cfg_t \<Rightarrow> shield \<Rightarrow> pep_error option \<times> shield" where
  "set_rl4 C m ip cfg s =
     (if \<not> h_RL4 m then (Some Maps_unavailable, s)
      else keep_on_error (store_in (\<lambda>x. xdp_rl_policy4_update (\<lambda>_. x)) s
             (map_update_elem (c_rl4 C) \<lparr>k4_ip = ip\<rparr> cfg (xdp_rl_policy4 s))) s)"

definition set_deny4 :: "control \<Rightarrow> map_handles \<Rightarrow> u8 list \<Rightarrow> shield \<Rightarrow> pep_error option \<times> shield" where
  "set_deny4 C m ip s =
     (if \<not> h_Deny4 m then (Some Maps_unavailable, s)
      else keep_on_error (store_in (\<lambda>x. xdp_deny_hash_update (\<lambda>_. x)) s
             (map_update_elem (c_deny4 C) \<lparr>k4_ip = ip\<rparr> 1 (xdp_deny_hash s))) s)"

definition write_level4 ::
    "control \<Rightarrow> map_handles \<Rightarrow> u8 list \<Rightarrow> fsm_level \<Rightarrow> enforcement_params \<Rightarrow> shield \<Rightarrow> pep_error option \<times> shield" where
  "write_level4 C m ip target p s =
     (case target of
        LevelObserve \<Rightarrow> (None, del_deny4 m ip (del_rl4 m ip s))
      | LevelSoft \<Rightarrow> set_rl4 C m ip \<lparr>rate_pps = p_SoftRate p, burst = p_SoftBurst p\<rparr> (del_deny4 m ip s)
      | LevelHard \<Rightarrow> set_rl4 C m ip \<lparr>rate_pps = p_HardRate p, burst = p_HardBurst p\<rparr> (del_deny4 m ip s)
      | LevelBlock \<Rightarrow> set_deny4 C m ip (del_rl4 m ip s))"

definition del_rl6 :: "map_handles \<Rightarrow> u8 list \<Rightarrow> shield \<Rightarrow> shield" where
  "del_rl6 m ip s = (if h_RL6 m then s\<lparr>xdp_rl_policy6 := (xdp_rl_policy6 s)(\<lparr>src6_ip = ip\<rparr> := None)\<rparr> else s)"

definition del_deny6 :: "map_handles \<Rightarrow> u8 list \<Rightarrow> shield \<Rightarrow> shield" where
  "del_deny6 m ip s = (if h_Deny6 m then s\<lparr>xdp_deny6_hash := (xdp_deny6_hash s)(\<lparr>k6_ip = ip\<rparr> := None)\<rparr> else s)"

definition set_rl6 :: "control \<Rightarrow> map_handles \<Rightarrow> u8 list \<Rightarrow> rl_cfg_t \<Rightarrow> shield \<Rightarrow> pep_error option \<times> shield" where
  "set_rl6 C m ip cfg s =
     (if \<not> h_RL6 m then (Some Maps_unavailable, s)
      else keep_on_error (store_in (\<lambda>x. xdp_rl_policy6_update (\<lambda>_. x)) s
             (map_update_elem (c_rl6 C) \<lparr>src6_ip = ip\<rparr> cfg (xdp_rl_policy6 s))) s)"

definition set_deny6 :: "control \<Rightarrow> map_handles \<Rightarrow> u8 list \<Rightarrow> shield \<Rightarrow> pep_error option \<times> shield" where
  "set_deny6 C m ip s =
     (if \<not> h_Deny6 m then (Some Maps_unavailable, s)
      else keep_on_error (store_in (\<lambda>x. xdp_deny6_hash_update (\<lambda>_. x)) s
             (map_update_elem (c_deny6 C) \<lparr>k6_ip = ip\<rparr> 1 (xdp_deny6_hash s))) s)"

definition write_level6 ::
    "control \<Rightarrow> map_handles \<Rightarrow> u8 list \<Rightarrow> fsm_level \<Rightarrow> enforcement_params \<Rightarrow> shield \<Rightarrow> pep_error option \<times> shield" where
  "write_level6 C m ip target p s =
     (case target of
        LevelObserve \<Rightarrow> (None, del_deny6 m ip (del_rl6 m ip s))
      | LevelSoft \<Rightarrow> set_rl6 C m ip \<lparr>rate_pps = p_SoftRate p, burst = p_SoftBurst p\<rparr> (del_deny6 m ip s)
      | LevelHard \<Rightarrow> set_rl6 C m ip \<lparr>rate_pps = p_HardRate p, burst = p_HardBurst p\<rparr> (del_deny6 m ip s)
      | LevelBlock \<Rightarrow> set_deny6 C m ip (del_rl6 m ip s))"

text \<open>The state of the source follows when the maps could be written, or in a dry run.\<close>

definition transition_with ::
    "(map_handles \<Rightarrow> shield \<Rightarrow> pep_error option \<times> shield) \<Rightarrow> pep \<Rightarrow> 'a fsm_state_scheme \<Rightarrow> fsm_level \<Rightarrow> instant
     \<Rightarrow> enforcement_params \<Rightarrow> shield \<Rightarrow> 'a fsm_state_scheme \<times> pep_error option \<times> shield" where
  "transition_with write_maps a st target now p s =
     (if dryRun a then (applyStateFields now p st target, None, s)
      else case maps a of
        None \<Rightarrow> (st, Some Maps_unavailable, s)
      | Some m \<Rightarrow>
          (case write_maps m s of
             (Some e, s') \<Rightarrow> (st, Some e, s')
           | (None, s') \<Rightarrow> (applyStateFields now p st target, None, s')))"

definition transitionV4 ::
    "control \<Rightarrow> pep \<Rightarrow> u8 list \<Rightarrow> 'a fsm_state_scheme \<Rightarrow> fsm_level \<Rightarrow> instant \<Rightarrow> enforcement_params \<Rightarrow> shield
     \<Rightarrow> 'a fsm_state_scheme \<times> pep_error option \<times> shield" where
  "transitionV4 C a ip st target now p s =
     transition_with (\<lambda>m. write_level4 C m ip target p) a st target now p s"

definition transitionV6 ::
    "control \<Rightarrow> pep \<Rightarrow> u8 list \<Rightarrow> 'a fsm_state_scheme \<Rightarrow> fsm_level \<Rightarrow> instant \<Rightarrow> enforcement_params \<Rightarrow> shield
     \<Rightarrow> 'a fsm_state_scheme \<times> pep_error option \<times> shield" where
  "transitionV6 C a ip st target now p s =
     transition_with (\<lambda>m. write_level6 C m ip target p) a st target now p s"

text \<open>The identifier of a target, parsed by the library.\<close>

definition TransitionSource ::
    "control \<Rightarrow> pep \<Rightarrow> ip option \<Rightarrow> 'a fsm_state_scheme \<Rightarrow> fsm_level \<Rightarrow> instant \<Rightarrow> enforcement_params \<Rightarrow> shield
     \<Rightarrow> 'a fsm_state_scheme \<times> pep_error option \<times> shield" where
  "TransitionSource C a target st level now p s =
     (case target of
        None \<Rightarrow> (st, Some Bad_target, s)
      | Some (IPv4 key) \<Rightarrow> transitionV4 C a key st level now p s
      | Some (IPv6 key) \<Rightarrow> transitionV6 C a key st level now p s)"

section \<open>Relationships\<close>

text \<open>\<open>strconv.ParseUint\<close> in base 10 with 16 bits.\<close>

definition ParseUint16 :: "string \<Rightarrow> u16 option" where
  "ParseUint16 ds =
     (if ds = [] \<or> \<not> list_all digit ds \<or> decimal ds \<ge> 65536 then None else Some (of_nat (decimal ds)))"

text \<open>A missing dimension reads as the empty string.\<close>

definition dimension :: "(string \<rightharpoonup> string) \<Rightarrow> string \<Rightarrow> string" where
  "dimension d k = (case d k of None \<Rightarrow> [] | Some v \<Rightarrow> v)"

definition klshieldRelationshipDimension :: "(string \<rightharpoonup> string) \<Rightarrow> (u16 \<times> string) option" where
  "klshieldRelationshipDimension d =
     (let rawPort = dimension d ''port'';
          rawPort = (if rawPort = [] then dimension d ''destination_port'' else rawPort);
          proto = dimension d ''proto'';
          proto = (if proto = [] then dimension d ''protocol'' else proto)
      in if rawPort = [] \<or> proto = [] then None
         else case ParseUint16 rawPort of
                None \<Rightarrow> None
              | Some port \<Rightarrow> if port = 0 then None else Some (port, proto))"

definition lift_client :: "client_error + shield \<Rightarrow> pep_error + shield" where
  "lift_client r = (case r of Inl e \<Rightarrow> Inl (Client_failed e) | Inr s \<Rightarrow> Inr s)"

text \<open>The maps of the tuple operations are those of an adapter that has been given handles.\<close>

definition DenyEdge4 :: "control \<Rightarrow> bool \<Rightarrow> map_handles \<Rightarrow> edge4_key \<Rightarrow> shield \<Rightarrow> pep_error + shield" where
  "DenyEdge4 C dry m key s =
     (if dry then Inr s else if \<not> h_Edge4Deny m then Inl Maps_unavailable
      else lift_client (WriteEdge4Deny C m key s))"

definition AllowEdge4 :: "control \<Rightarrow> bool \<Rightarrow> map_handles \<Rightarrow> edge4_key \<Rightarrow> shield \<Rightarrow> pep_error + shield" where
  "AllowEdge4 C dry m key s =
     (if dry then Inr s else if \<not> h_Edge4Allow m then Inl Maps_unavailable
      else lift_client (WriteEdge4Allow C m key s))"

definition RateLimitEdge4 ::
    "control \<Rightarrow> bool \<Rightarrow> map_handles \<Rightarrow> edge4_key \<Rightarrow> u64 \<Rightarrow> u64 \<Rightarrow> shield \<Rightarrow> pep_error + shield" where
  "RateLimitEdge4 C dry m key ratePPS bst s =
     (if dry then Inr s else if \<not> h_Edge4RL m then Inl Maps_unavailable
      else lift_client (WriteEdge4RL C m key ratePPS bst s))"

definition RevokeEdgeDeny4 :: "string \<Rightarrow> bool \<Rightarrow> map_handles \<Rightarrow> edge4_key \<Rightarrow> shield \<Rightarrow> pep_error + shield" where
  "RevokeEdgeDeny4 txt dry m key s =
     (if dry \<or> \<not> h_Edge4Deny m then Inr s else lift_client (DeleteEdge4Deny txt m key s))"

definition RevokeEdgeAllow4 :: "string \<Rightarrow> bool \<Rightarrow> map_handles \<Rightarrow> edge4_key \<Rightarrow> shield \<Rightarrow> pep_error + shield" where
  "RevokeEdgeAllow4 txt dry m key s =
     (if dry \<or> \<not> h_Edge4Allow m then Inr s else lift_client (DeleteEdge4Allow txt m key s))"

definition RevokeEdgeRL4 :: "string \<Rightarrow> bool \<Rightarrow> map_handles \<Rightarrow> edge4_key \<Rightarrow> shield \<Rightarrow> pep_error + shield" where
  "RevokeEdgeRL4 txt dry m key s =
     (if dry \<or> \<not> h_Edge4RL m then Inr s else lift_client (DeleteEdge4RL txt m key s))"

definition pep_SetTupleEnforce :: "bool \<Rightarrow> map_handles \<Rightarrow> bool \<Rightarrow> shield \<Rightarrow> pep_error + shield" where
  "pep_SetTupleEnforce dry m on s = (if dry then Inr s else lift_client (SetTupleEnforce m on s))"

definition SetTupleAllowMode :: "bool \<Rightarrow> map_handles \<Rightarrow> shield \<Rightarrow> pep_error + shield" where
  "SetTupleAllowMode dry m s = (if dry then Inr s else lift_client (SetTupleMode m TupleModeAllow s))"

definition TupleAvailable :: "map_handles \<Rightarrow> bool" where
  "TupleAvailable m \<longleftrightarrow> h_Edge4Deny m \<and> h_Edge4RL m"

definition relationship_key :: "ip option \<Rightarrow> (string \<rightharpoonup> string) \<Rightarrow> edge4_key option" where
  "relationship_key subj d =
     (case klshieldRelationshipDimension d of
        None \<Rightarrow> None
      | Some (port, proto) \<Rightarrow> NewEdge4Key subj port proto)"

definition DenyRelationship ::
    "control \<Rightarrow> bool \<Rightarrow> map_handles \<Rightarrow> ip option \<Rightarrow> (string \<rightharpoonup> string) \<Rightarrow> shield \<Rightarrow> pep_error + shield" where
  "DenyRelationship C dry m subj d s =
     (case relationship_key subj d of None \<Rightarrow> Inl Bad_target | Some key \<Rightarrow> DenyEdge4 C dry m key s)"

definition AllowRelationship ::
    "control \<Rightarrow> bool \<Rightarrow> map_handles \<Rightarrow> ip option \<Rightarrow> (string \<rightharpoonup> string) \<Rightarrow> shield \<Rightarrow> pep_error + shield" where
  "AllowRelationship C dry m subj d s =
     (case relationship_key subj d of None \<Rightarrow> Inl Bad_target | Some key \<Rightarrow> AllowEdge4 C dry m key s)"

end
