(* ===== verification/Brokered_Executor.thy ===== *)
theory Brokered_Executor
  imports Lease_Journal Pep_Adapter
begin

text \<open>
  The executor of authorized actions (\<open>src/iq/internal/actions/executor.go\<close>) and the executor with
  leases around it (\<open>src/iq/cmd/kliq/brokered_executor.go\<close>), on the enforcement point of \<open>Pep_Adapter\<close>. Receipts,
  which are logged and stored for upload, are left out. The text of an adapter's error is an
  argument.
\<close>

section \<open>Targets and results\<close>

record source_target =
  SourceID :: string
  SubjectID :: string
  t_Attributes :: "(string \<times> string) list"

definition source_id :: "source_target \<Rightarrow> string" where
  "source_id t = (if SourceID t = [] then SubjectID t else SourceID t)"

definition sourceTargetFromID :: "string \<Rightarrow> source_target" where
  "sourceTargetFromID sourceID = \<lparr>SourceID = sourceID, SubjectID = sourceID, t_Attributes = []\<rparr>"

record action_result =
  rs_ProposalID :: string
  rs_DecisionID :: string
  rs_Action :: string
  rs_Status :: string
  rs_Reason :: string
  rs_AppliedAt :: instant

definition no_result :: action_result where
  "no_result = \<lparr>rs_ProposalID = [], rs_DecisionID = [], rs_Action = [], rs_Status = [], rs_Reason = [],
     rs_AppliedAt = zero_time\<rparr>"

text \<open>What a sidecar is told: the target, the level before and after, how long.\<close>

type_synonym notification = "string \<times> source_target \<times> fsm_level \<times> fsm_level \<times> duration"

record executor =
  adapter :: "pep option"
  sidecars :: "string list"
  x_control :: control
  ParseIP :: "string \<Rightarrow> ip option"
  error_text :: "pep_error \<Rightarrow> string"

record apply_context =
  c_target :: source_target
  c_state :: fsm_state
  c_resolution :: action_resolution
  c_params :: enforcement_params
  c_now :: instant

text \<open>
  The state: the maps of the data plane, what sidecars have been told, and the fields of
  \<open>brokeredSourcePEP\<close>. The outcome noted by an application is a state and a result; none is the zero
  value.
\<close>

record source_world =
  w_maps :: shield
  w_notified :: "notification list"
  currentTokens :: "(string \<times> string) list"
  w_active :: "apply_context option"
  w_last :: "(fsm_state \<times> action_result) option"

section \<open>The executor\<close>

definition apply_level ::
    "executor \<Rightarrow> source_target \<Rightarrow> fsm_state \<Rightarrow> fsm_level \<Rightarrow> instant \<Rightarrow> enforcement_params \<Rightarrow> source_world
     \<Rightarrow> (string + fsm_state) \<times> source_world" where
  "apply_level X target st level now params w =
     (case adapter X of
        None \<Rightarrow> (Inr (st\<lparr>Level := level\<rparr>), w)
      | Some a \<Rightarrow>
          (case TransitionSource (x_control X) a (ParseIP X (source_id target)) st level now params (w_maps w) of
             (st', None, s) \<Rightarrow> (Inr st', w\<lparr>w_maps := s\<rparr>)
           | (st', Some e, s) \<Rightarrow> (Inl (error_text X e), w\<lparr>w_maps := s\<rparr>)))"

definition notifySidecars ::
    "executor \<Rightarrow> source_target \<Rightarrow> fsm_level \<Rightarrow> fsm_level \<Rightarrow> duration \<Rightarrow> source_world \<Rightarrow> source_world" where
  "notifySidecars X target prev nxt ttl w =
     w\<lparr>w_notified := w_notified w @ map (\<lambda>i. (i, target, prev, nxt, ttl)) (sidecars X)\<rparr>"

definition ApplySource ::
    "executor \<Rightarrow> source_target \<Rightarrow> fsm_state \<Rightarrow> action_resolution \<Rightarrow> enforcement_params \<Rightarrow> instant \<Rightarrow> source_world
     \<Rightarrow> (fsm_state \<times> action_result) \<times> source_world" where
  "ApplySource X target st r params now w =
     (let result = \<lparr>rs_ProposalID = re_ProposalID r, rs_DecisionID = re_DecisionID r, rs_Action = RequestedAction r,
            rs_Status = [], rs_Reason = [], rs_AppliedAt = now\<rparr>;
          level = (if Allowed r then ParseFSMLevel (ExecutableLevel r) else LevelObserve)
      in case apply_level X target st level now params w of
           (Inl e, w') \<Rightarrow> ((st, result\<lparr>rs_Status := ''failed'', rs_Reason := e\<rparr>), w')
         | (Inr st', w') \<Rightarrow>
             ((st', if \<not> Allowed r then result\<lparr>rs_Status := ''denied'', rs_Reason := DenyReason r\<rparr>
                    else result\<lparr>rs_Status := (if DenyReason r \<noteq> [] then ''downgraded'' else ''applied''),
                      rs_Action := ExecutableAction r, rs_Reason := DenyReason r\<rparr>),
              notifySidecars X target (Level st) level (re_TTL r) w'))"

definition ApplyDeEnforceSource ::
    "executor \<Rightarrow> source_target \<Rightarrow> fsm_state \<Rightarrow> enforcement_params \<Rightarrow> instant \<Rightarrow> source_world \<Rightarrow> fsm_state \<times> source_world" where
  "ApplyDeEnforceSource X target st params now w =
     (case apply_level X target st LevelObserve now params w of
        (Inl e, w') \<Rightarrow> (st, w')
      | (Inr st', w') \<Rightarrow> (st', notifySidecars X target (Level st) LevelObserve 0 w'))"

section \<open>The enforcement point of the broker\<close>

definition leaseFencingKey :: "action_lease \<Rightarrow> string" where
  "leaseFencingKey l =
     (if le_Target l \<noteq> [] then le_Target l
      else let t = TargetFromLease l in if Granularity t \<noteq> [] then Granularity t @ '':'' @ Value t else Value t)"

definition brokered_Apply :: "executor \<Rightarrow> action_lease \<Rightarrow> source_world \<Rightarrow> (string + string) \<times> source_world" where
  "brokered_Apply X l w =
     (case w_active w of
        None \<Rightarrow> (Inl ''brokered source pep apply without active transition context'', w)
      | Some c \<Rightarrow>
          (let ((st, result), w') = ApplySource X (c_target c) (c_state c) (c_resolution c) (c_params c) (c_now c) w;
               w'' = w'\<lparr>w_last := Some (st, result)\<rparr>
           in if rs_Status result = ''failed'' then (Inl (rs_Reason result), w'')
              else (Inr (le_Token l), w''\<lparr>currentTokens := AList.update (leaseFencingKey l) (le_Token l) (currentTokens w'')\<rparr>)))"

definition brokered_CurrentFencingToken :: "action_lease \<Rightarrow> source_world \<Rightarrow> string + string" where
  "brokered_CurrentFencingToken l w =
     (let token = text_at (currentTokens w) (leaseFencingKey l) in Inr (if token \<noteq> [] then token else le_Token l))"

definition clearCurrentFencingToken :: "action_lease \<Rightarrow> source_world \<Rightarrow> source_world" where
  "clearCurrentFencingToken l w =
     (let k = leaseFencingKey l in
      if text_at (currentTokens w) k = le_Token l then w\<lparr>currentTokens := AList.delete k (currentTokens w)\<rparr> else w)"

definition blank_state :: fsm_state where
  "blank_state = \<lparr>Level = LevelObserve, Strikes = 0, ExpiresAt = zero_time, CooldownUntil = zero_time,
     LastTrigger = zero_time, HighSevSince = zero_time, LastSeenWallTime = zero_time, UpStreak = 0,
     DownStreak = 0, NonCompTicks = 0, ForceBlock = False\<rparr>"

definition brokered_Revert ::
    "executor \<Rightarrow> enforcement_params \<Rightarrow> instant \<Rightarrow> action_lease \<Rightarrow> source_world \<Rightarrow> string option \<times> source_world" where
  "brokered_Revert X params now l w =
     (let t = TargetFromLease l in
      if Value t = [] then (Some (''source revert target missing for lease '' @ LeaseID l), w)
      else
        (let blank = blank_state\<lparr>Level := ParseFSMLevel (le_Level l)\<rparr>;
             (st, w') = ApplyDeEnforceSource X
               \<lparr>SourceID = Value t, SubjectID = Value t, t_Attributes = Attributes t\<rparr> blank params now w
         in (None, clearCurrentFencingToken l w')))"

definition brokeredSourcePEP :: "executor \<Rightarrow> enforcement_params \<Rightarrow> instant \<Rightarrow> source_world lease_pep" where
  "brokeredSourcePEP X params now =
     \<lparr>AdapterID = ''kliq-source-pep'', pep_Apply = brokered_Apply X,
      CurrentFencingToken = brokered_CurrentFencingToken, pep_Revert = brokered_Revert X params now\<rparr>"

text \<open>It keeps the contract of fencing tokens.\<close>

lemma text_at_update [simp]: "text_at (AList.update k v m) = (text_at m)(k := v)"
  by (rule ext) (simp add: text_at_def update_conv')

lemma text_at_delete [simp]: "text_at (AList.delete k m) = (text_at m)(k := [])"
  by (rule ext) (simp add: text_at_def delete_conv')

text \<open>What the executor leaves alone.\<close>

lemma apply_level_frame:
  assumes "apply_level X t st lv now p w = (r, w')"
  shows "currentTokens w' = currentTokens w" "w_active w' = w_active w" "w_last w' = w_last w"
  using assms by (auto simp: apply_level_def split: option.splits prod.splits)

lemma notify_frame [simp]:
  "currentTokens (notifySidecars X t prev nxt ttl w) = currentTokens w"
  "w_active (notifySidecars X t prev nxt ttl w) = w_active w"
  "w_last (notifySidecars X t prev nxt ttl w) = w_last w"
  "w_maps (notifySidecars X t prev nxt ttl w) = w_maps w"
  by (simp_all add: notifySidecars_def)

definition level_of :: "action_resolution \<Rightarrow> fsm_level" where
  "level_of r = (if Allowed r then ParseFSMLevel (ExecutableLevel r) else LevelObserve)"

lemma ApplySource_world:
  assumes "ApplySource X t st r p now w = (y, w')"
  shows "currentTokens w' = currentTokens w \<and> w_active w' = w_active w \<and>
    w_maps w' = w_maps (snd (apply_level X t st (level_of r) now p w))"
proof -
  obtain z w1 where z: "apply_level X t st (level_of r) now p w = (z, w1)" by fastforce
  show ?thesis
    using assms apply_level_frame [OF z]
    unfolding ApplySource_def Let_def level_of_def [symmetric] z by (cases z) auto
qed

lemma DeEnforce_world:
  assumes "ApplyDeEnforceSource X t st p now w = (y, w')"
  shows "currentTokens w' = currentTokens w \<and> w_active w' = w_active w \<and>
    w_maps w' = w_maps (snd (apply_level X t st LevelObserve now p w))"
proof -
  obtain z w1 where z: "apply_level X t st LevelObserve now p w = (z, w1)" by fastforce
  show ?thesis
    using assms apply_level_frame [OF z] unfolding ApplyDeEnforceSource_def z by (cases z) auto
qed

text \<open>The operations of the enforcement point, by what they do to maps and tokens.\<close>

lemma brokered_Apply_cases:
  assumes "brokered_Apply X l w = (r, w')"
  obtains (idle) "w_active w = None" "w' = w" "isl r"
    | (failed) c where "w_active w = Some c" "isl r" "currentTokens w' = currentTokens w"
      "w_maps w' = w_maps (snd (apply_level X (c_target c) (c_state c) (level_of (c_resolution c)) (c_now c) (c_params c) w))"
    | (noted) c where "w_active w = Some c" "r = Inr (le_Token l)"
      "currentTokens w' = AList.update (leaseFencingKey l) (le_Token l) (currentTokens w)"
      "w_maps w' = w_maps (snd (apply_level X (c_target c) (c_state c) (level_of (c_resolution c)) (c_now c) (c_params c) w))"
proof (cases "w_active w")
  case None
  with assms show thesis by (intro idle) (auto simp: brokered_Apply_def)
next
  case (Some c)
  obtain st y w1 where a: "ApplySource X (c_target c) (c_state c) (c_resolution c) (c_params c) (c_now c) w = ((st, y), w1)"
    by (metis prod.exhaust)
  note run = assms [unfolded brokered_Apply_def Some option.case a Let_def prod.case]
  show thesis
  proof (cases "rs_Status y = ''failed''")
    case True
    then have "r = Inl (rs_Reason y)" "w' = w1\<lparr>w_last := Some (st, y)\<rparr>" using run by simp_all
    with ApplySource_world [OF a] show thesis by (intro failed [OF Some]) simp_all
  next
    case False
    then have "r = Inr (le_Token l)"
      "w' = w1\<lparr>w_last := Some (st, y), currentTokens := AList.update (leaseFencingKey l) (le_Token l) (currentTokens w1)\<rparr>"
      using run by simp_all
    with ApplySource_world [OF a] show thesis by (intro noted [OF Some]) simp_all
  qed
qed

definition revert_target :: "action_lease \<Rightarrow> source_target" where
  "revert_target l = \<lparr>SourceID = Value (TargetFromLease l), SubjectID = Value (TargetFromLease l),
     t_Attributes = Attributes (TargetFromLease l)\<rparr>"

lemma brokered_Revert_cases:
  assumes "brokered_Revert X p now l w = (r, w')"
  obtains (missing) "Value (TargetFromLease l) = []" "w' = w" "r \<noteq> None"
    | (lifted) "Value (TargetFromLease l) \<noteq> []" "r = None"
      "text_at (currentTokens w') = (if text_at (currentTokens w) (leaseFencingKey l) = le_Token l
         then (text_at (currentTokens w))(leaseFencingKey l := []) else text_at (currentTokens w))"
      "w_maps w' = w_maps (snd (apply_level X (revert_target l) (blank_state\<lparr>Level := ParseFSMLevel (le_Level l)\<rparr>)
         LevelObserve now p w))"
proof (cases "Value (TargetFromLease l) = []")
  case True
  with assms show thesis by (intro missing) (auto simp: brokered_Revert_def Let_def)
next
  case False
  obtain y w1 where a: "ApplyDeEnforceSource X (revert_target l) (blank_state\<lparr>Level := ParseFSMLevel (le_Level l)\<rparr>) p now w = (y, w1)"
    by fastforce
  have "r = None" "w' = clearCurrentFencingToken l w1"
    using assms False a by (simp_all add: brokered_Revert_def Let_def revert_target_def)
  with DeEnforce_world [OF a] False show thesis by (intro lifted) (simp_all add: clearCurrentFencingToken_def Let_def)
qed

interpretation source_fencing:
  fencing_pep "brokeredSourcePEP X params now" "\<lambda>w. text_at (currentTokens w)" leaseFencingKey for X params now
proof
  fix l w t w' e
  let ?P = "brokeredSourcePEP X params now"
  show "CurrentFencingToken ?P l w =
      Inr (if text_at (currentTokens w) (leaseFencingKey l) \<noteq> [] then text_at (currentTokens w) (leaseFencingKey l) else le_Token l)"
    by (simp add: brokeredSourcePEP_def brokered_CurrentFencingToken_def Let_def)
  show "pep_Apply ?P l w = (Inr t, w') \<Longrightarrow>
      t = le_Token l \<and> text_at (currentTokens w') = (text_at (currentTokens w))(leaseFencingKey l := le_Token l)"
    by (auto simp: brokeredSourcePEP_def elim!: brokered_Apply_cases)
  show "pep_Revert ?P l w = (None, w') \<Longrightarrow> text_at (currentTokens w') =
      (if text_at (currentTokens w) (leaseFencingKey l) = le_Token l
       then (text_at (currentTokens w))(leaseFencingKey l := []) else text_at (currentTokens w))"
    by (auto simp: brokeredSourcePEP_def elim!: brokered_Revert_cases)
  show "pep_Revert ?P l w = (Some e, w') \<Longrightarrow> text_at (currentTokens w') = text_at (currentTokens w)"
    by (auto simp: brokeredSourcePEP_def elim!: brokered_Revert_cases)
qed

section \<open>The executor with leases\<close>

definition shouldBrokerLease :: "action_resolution \<Rightarrow> bool" where
  "shouldBrokerLease r \<longleftrightarrow>
     Allowed r \<and> re_TTL r > 0 \<and> ExecutableLevel r \<noteq> [] \<and> ExecutableLevel r \<noteq> ''observe''"

definition resolutionWithExecutionMetadata :: "action_resolution \<Rightarrow> enforcement_params \<Rightarrow> action_resolution" where
  "resolutionWithExecutionMetadata r params =
     r\<lparr>re_Parameters :=
        AList.update ''execution_hard_burst'' (Any_uint (p_HardBurst params))
         (AList.update ''execution_hard_rate'' (Any_uint (p_HardRate params))
          (AList.update ''execution_soft_burst'' (Any_uint (p_SoftBurst params))
           (AList.update ''execution_soft_rate'' (Any_uint (p_SoftRate params))
            (AList.update ''execution_dry_run'' (Any_bool (p_DryRun params)) (re_Parameters r)))))\<rparr>"

text \<open>
  The number in a parameter. A floating-point number of \<open>2 ^ 64\<close> or more wraps here; its conversion is left to the
  implementation by Go.
\<close>

fun uint64_of :: "go_any \<Rightarrow> u64" where
  "uint64_of (Any_uint n) = n"
| "uint64_of (Any_int i) = (if i > 0 then of_int i else 0)"
| "uint64_of (Any_float x) = (if x > 0 then of_int \<lfloor>x\<rfloor> else 0)"
| "uint64_of (Any_text s) =
     (let ds = TrimSpace s in
      if ds \<noteq> [] \<and> list_all digit ds \<and> decimal ds < 2 ^ 64 then of_nat (decimal ds) else 0)"
| "uint64_of v = 0"

definition enforcementParamsForResolution :: "enforcement_params \<Rightarrow> action_resolution \<Rightarrow> enforcement_params" where
  "enforcementParamsForResolution params r =
     (let level = ParseFSMLevel (ExecutableLevel r);
          timed = (if re_TTL r > 0 then
              (case level of
                 LevelSoft \<Rightarrow> params\<lparr>p_SoftTTL := re_TTL r\<rparr>
               | LevelHard \<Rightarrow> params\<lparr>p_HardTTL := re_TTL r\<rparr>
               | LevelBlock \<Rightarrow> params\<lparr>p_BlockTTL := re_TTL r\<rparr>
               | LevelObserve \<Rightarrow> params) else params);
          rate = uint64_of (any_at (re_Parameters r) ''rate_pps'');
          given = uint64_of (any_at (re_Parameters r) ''burst'');
          brst = (if given = 0 then rate * 2 else given)
      in if rate = 0 then timed
         else case level of
                LevelSoft \<Rightarrow> timed\<lparr>p_SoftRate := rate, p_SoftBurst := brst\<rparr>
              | LevelHard \<Rightarrow> timed\<lparr>p_HardRate := rate, p_HardBurst := brst\<rparr>
              | _ \<Rightarrow> timed)"

record brokered_executor =
  bx_executor :: executor
  bx_broker :: broker
  bx_params :: enforcement_params

definition applyBrokered ::
    "broker_env \<Rightarrow> brokered_executor \<Rightarrow> apply_context \<Rightarrow> source_world \<Rightarrow> lease_db
     \<Rightarrow> (fsm_state \<times> action_result) \<times> source_world \<times> lease_db" where
  "applyBrokered E B ctx w d =
     (let r = resolutionWithExecutionMetadata (c_resolution ctx) (c_params ctx);
          ctx = ctx\<lparr>c_resolution := r\<rparr>;
          failed = no_result\<lparr>rs_ProposalID := re_ProposalID r, rs_DecisionID := re_DecisionID r,
            rs_Action := ExecutableAction r, rs_AppliedAt := c_now ctx\<rparr>
      in case broker_Apply E (bx_broker B) (brokeredSourcePEP (bx_executor B) (bx_params B) (e_now E)) r
             (w\<lparr>w_active := Some ctx, w_last := None\<rparr>) d of
           ((l, rc, err), w', d') \<Rightarrow>
             (let applied = w_last w'; w'' = w'\<lparr>w_active := None, w_last := None\<rparr>;
                  noted = (case applied of None \<Rightarrow> no_result | Some (st, result) \<Rightarrow> result)
              in case err of
                   Some e \<Rightarrow>
                     ((c_state ctx, if rs_Status noted = [] then failed\<lparr>rs_Status := ''failed'', rs_Reason := e\<rparr> else noted), w'', d')
                 | None \<Rightarrow>
                     if LeaseID l = [] then
                       ((c_state ctx, failed\<lparr>rs_Status := ''skipped'', rs_Reason := ''broker produced no lease''\<rparr>), w'', d')
                     else if rs_Status noted = [] then
                       (((c_state ctx)\<lparr>Level := ParseFSMLevel (le_Level l), ExpiresAt := le_ExpiresAt l\<rparr>,
                         failed\<lparr>rs_Action := le_Action l, rs_Status := ''applied'', rs_Reason := ''lease renewed''\<rparr>), w'', d')
                     else (the applied, w'', d')))"

definition brokered_ApplySource ::
    "broker_env \<Rightarrow> brokered_executor \<Rightarrow> source_target \<Rightarrow> fsm_state \<Rightarrow> action_resolution \<Rightarrow> enforcement_params \<Rightarrow> instant
     \<Rightarrow> source_world \<Rightarrow> lease_db \<Rightarrow> (fsm_state \<times> action_result) \<times> source_world \<times> lease_db" where
  "brokered_ApplySource E B target st r params now w d =
     (let params = enforcementParamsForResolution params r in
      if shouldBrokerLease r
      then applyBrokered E B \<lparr>c_target = target, c_state = st, c_resolution = r, c_params = params, c_now = now\<rparr> w d
      else (let (x, w') = ApplySource (bx_executor B) target st r params now w in (x, w', d)))"

definition override_resolution :: "source_target \<Rightarrow> string \<Rightarrow> string \<Rightarrow> action_resolution" where
  "override_resolution target decisionID reason =
     \<lparr>re_ProposalID = ''operator-override'', Allowed = True, DenyReason = reason, RequestedAction = ''operator.observe'',
      RequestedLevel = ''observe'', ExecutableAction = ''operator.observe'', ExecutableLevel = ''observe'',
      re_Target = \<lparr>Granularity = ''source'', Value = SourceID target, Attributes = t_Attributes target\<rparr>,
      re_Parameters = [], re_TTL = 0, re_PolicyID = ''operator.override'', re_DecisionID = decisionID\<rparr>"

text \<open>The operator moves a source to observation; \<open>decisionID\<close> is composed of the time and the source.\<close>

definition ApplySourceObserveOverride ::
    "brokered_executor \<Rightarrow> source_target \<Rightarrow> fsm_state \<Rightarrow> enforcement_params \<Rightarrow> instant \<Rightarrow> string \<Rightarrow> string \<Rightarrow> source_world
     \<Rightarrow> (fsm_state \<times> action_result) \<times> source_world" where
  "ApplySourceObserveOverride B target st params now decisionID reason w =
     (let target = (if SourceID target = [] then target\<lparr>SourceID := SubjectID target\<rparr> else target)
      in ApplySource (bx_executor B) target st (override_resolution target decisionID reason) params now w)"

text \<open>
  The state that the journal gives a source: the strongest lease that has not expired. A failing
  lookup counts as none.
\<close>

fun active_state ::
    "outage \<Rightarrow> string \<Rightarrow> instant \<Rightarrow> (string \<times> string) list \<Rightarrow> action_lease option \<Rightarrow> lease_db \<Rightarrow> action_lease option \<times> lease_db" where
  "active_state F target now [] best d = (best, d)"
| "active_state F target now ((action, level) # sl) best d =
     (case FindActiveActionLease F ''kliq-source-pep'' target action level d of
        (Inr (Some l), d') \<Rightarrow>
          active_state F target now sl
            (if (le_ExpiresAt l = zero_time \<or> now < le_ExpiresAt l) \<and>
                actionLeaseStrength (le_Action l) (le_Level l) >
                  (case best of None \<Rightarrow> 0 | Some m \<Rightarrow> actionLeaseStrength (le_Action m) (le_Level m))
             then Some l else best) d'
      | (_, d') \<Rightarrow> active_state F target now sl best d')"

definition activeSourceState :: "outage \<Rightarrow> string \<Rightarrow> instant \<Rightarrow> lease_db \<Rightarrow> fsm_state \<times> lease_db" where
  "activeSourceState F sourceID now d =
     (if sourceID = [] then (blank_state, d)
      else case active_state F (''source:'' @ sourceID) now
             (concat (map (\<lambda>a. map (Pair a) [''block'', ''hard'', ''soft'']) orderedRuntimeActions)) None d of
           (None, d') \<Rightarrow> (blank_state, d')
         | (Some l, d') \<Rightarrow> (blank_state\<lparr>Level := ParseFSMLevel (le_Level l), ExpiresAt := le_ExpiresAt l\<rparr>, d'))"

section \<open>One decision\<close>

text \<open>
  A decision of the runtime decision point on a source: the proposal is resolved, the resolution
  executed, and the counters of the state machine merged into the state that results
  (\<open>processRuntimePDPDecisionForCandidate\<close> of \<open>src/iq/cmd/kliq/source_fsm.go\<close>, active mode, target a source).
\<close>

definition decide_source ::
    "broker_env \<Rightarrow> policy_resolver \<Rightarrow> brokered_executor \<Rightarrow> source_target \<Rightarrow> fsm_state \<Rightarrow> fsm_intent \<Rightarrow> action_proposal
     \<Rightarrow> source_world \<Rightarrow> lease_db \<Rightarrow> fsm_state \<times> source_world \<times> lease_db" where
  "decide_source E R B m_target current intent prop w d =
     (let res = Resolve (e_printer E) R prop;
          v = Value (re_Target res);
          target = (if v \<noteq> [] \<and> v \<noteq> source_id m_target then sourceTargetFromID v else m_target);
          target = target\<lparr>t_Attributes := Attributes (re_Target res)\<rparr>
      in case brokered_ApplySource E B target current res (bx_params B) (e_now E) w d of
           ((st, result), w', d') \<Rightarrow>
             (mergeFSMRuntimeState (if rs_Status result = ''failed'' then current else st) (SignalState intent), w', d'))"

section \<open>Start of the process\<close>

text \<open>
  A lease that a dry run left behind is superseded when enforcement is real
  (\<open>src/iq/cmd/kliq/execution_lease_reconcile.go\<close>). The count of leases, which is only printed, is left out.
\<close>

definition leaseExecutionDryRun :: "action_lease \<Rightarrow> bool" where
  "leaseExecutionDryRun l = (ParseBool (TrimSpace (text_at (le_Metadata l) ''param.execution_dry_run'')) = Some True)"

fun supersede_dry_runs :: "outage \<Rightarrow> instant \<Rightarrow> action_lease list \<Rightarrow> lease_db \<Rightarrow> (string + unit) \<times> lease_db" where
  "supersede_dry_runs F now [] = done_db ()"
| "supersede_dry_runs F now (l # ls) =
     (if \<not> leaseExecutionDryRun l then supersede_dry_runs F now ls
      else then_db (UpdateActionLeaseStatus F
          (l\<lparr>le_Status := Lease_superseded,
             LastError := ''superseded stale dry-run lease before real enforcement startup'', le_RevertedAt := Some now\<rparr>))
        (\<lambda>_. supersede_dry_runs F now ls))"

definition supersedeStaleDryRunExecutionLeases :: "outage \<Rightarrow> bool \<Rightarrow> instant \<Rightarrow> lease_db \<Rightarrow> (string + unit) \<times> lease_db" where
  "supersedeStaleDryRunExecutionLeases F currentDryRun now =
     (if currentDryRun then done_db ()
      else then_db (ListActionLeasesByStatus F Lease_active) (supersede_dry_runs F now))"

text \<open>A restart forgets the tokens of the process and reconciles the journal.\<close>

definition restart :: "broker_env \<Rightarrow> brokered_executor \<Rightarrow> bool \<Rightarrow> source_world \<Rightarrow> lease_db \<Rightarrow> source_world \<times> lease_db" where
  "restart E B dry w d =
     (let (_, d1) = supersedeStaleDryRunExecutionLeases (e_outage E) dry (e_now E) d;
          (_, d2) = ReconcilePending E (bx_broker B) d1
      in (w\<lparr>currentTokens := [], w_active := None, w_last := None\<rparr>, d2))"

end
