(* ===== verification/Relationship_Broker.thy ===== *)
theory Relationship_Broker
  imports Brokered_Executor
begin

text \<open>
  Leases on relationships (\<open>brokeredRelationshipPEP\<close> and \<open>ApplyRelationship\<close> of
  \<open>src/iq/cmd/kliq/brokered_executor.go\<close>, targets of \<open>src/iq/cmd/kliq/relationship_target.go\<close>): a
  relationship is denied for the time of a lease through the tuple maps of \<open>Pep_Adapter\<close>. One adapter
  stands for the group of adapters. The label of a target, which only serves logs, is left out.
\<close>

section \<open>Targets\<close>

record relationship_target =
  rt_SubjectID :: string
  rt_TargetID :: string
  rt_Dimension :: "(string \<times> string) list"

definition relationshipTargetID :: "(string \<times> string) list \<Rightarrow> string" where
  "relationshipTargetID attrs = firstAttr attrs [''target_id'', ''object_id'', ''object_entity_id'', ''target_id'']"

definition relationshipDimensions :: "(string \<times> string) list \<Rightarrow> (string \<times> string) list" where
  "relationshipDimensions attrs =
     concat (map (\<lambda>(k, v).
       case CutPrefix k ''dimension.'' of
         None \<Rightarrow> []
       | Some name \<Rightarrow> if name \<noteq> [] \<and> TrimSpace v \<noteq> [] then [(name, TrimSpace v)] else []) attrs)"

definition relationshipTargetFromActionTarget :: "action_target \<Rightarrow> relationship_target option" where
  "relationshipTargetFromActionTarget t =
     (let attrs = Attributes t;
          subject = text_at attrs ''subject_id'';
          subject = TrimSpace (if subject = [] then text_at attrs ''source_id'' else subject);
          rt = \<lparr>rt_SubjectID = subject, rt_TargetID = relationshipTargetID attrs,
            rt_Dimension = relationshipDimensions attrs\<rparr>
      in if Granularity t \<noteq> ''relationship'' \<or> subject = [] \<or> rt_TargetID rt = [] \<and> rt_Dimension rt = []
         then None else Some rt)"

section \<open>The enforcement point of the broker\<close>

record relationship_executor =
  rx_adapter :: "(bool \<times> map_handles) option"
  rx_control :: control
  rx_ParseIP :: "string \<Rightarrow> ip option"
  rx_error_text :: "pep_error \<Rightarrow> string"

record relationship_world =
  r_maps :: shield
  r_tokens :: "(string \<times> string) list"
  r_active :: "relationship_target option"
  r_last :: "action_result option"

definition RelationshipAvailable :: "relationship_executor \<Rightarrow> bool" where
  "RelationshipAvailable X = (case rx_adapter X of None \<Rightarrow> False | Some (dry, m) \<Rightarrow> TupleAvailable m)"

definition on_maps :: "relationship_executor \<Rightarrow> pep_error + shield \<Rightarrow> relationship_world \<Rightarrow> string option \<times> relationship_world" where
  "on_maps X r w = (case r of Inl e \<Rightarrow> (Some (rx_error_text X e), w) | Inr s \<Rightarrow> (None, w\<lparr>r_maps := s\<rparr>))"

definition relationship_Apply :: "relationship_executor \<Rightarrow> instant \<Rightarrow> action_lease \<Rightarrow> relationship_world \<Rightarrow> (string + string) \<times> relationship_world" where
  "relationship_Apply X now l w =
     (if \<not> RelationshipAvailable X then (Inl ''relationship pep unavailable'', w)
      else case (r_active w, rx_adapter X) of
        (Some t, Some (dry, m)) \<Rightarrow>
          (let result = no_result\<lparr>rs_ProposalID := le_ProposalID l, rs_DecisionID := le_DecisionID l,
                 rs_Action := le_Action l, rs_AppliedAt := now\<rparr>
           in case on_maps X (DenyRelationship (rx_control X) dry m (rx_ParseIP X (rt_SubjectID t)) (map_of (rt_Dimension t)) (r_maps w)) w of
                (Some e, w') \<Rightarrow> (Inl e, w'\<lparr>r_last := Some (result\<lparr>rs_Status := ''failed'', rs_Reason := e\<rparr>)\<rparr>)
              | (None, w') \<Rightarrow>
                  (Inr (le_Token l),
                   w'\<lparr>r_last := Some (result\<lparr>rs_Status := ''applied''\<rparr>),
                      r_tokens := AList.update (leaseFencingKey l) (le_Token l) (r_tokens w')\<rparr>))
      | _ \<Rightarrow> (Inl ''relationship pep apply without active target context'', w))"

definition relationship_CurrentFencingToken :: "action_lease \<Rightarrow> relationship_world \<Rightarrow> string + string" where
  "relationship_CurrentFencingToken l w =
     (let token = text_at (r_tokens w) (leaseFencingKey l) in Inr (if token \<noteq> [] then token else le_Token l))"

text \<open>The revert allows the relationship.\<close>

definition relationship_Revert :: "relationship_executor \<Rightarrow> action_lease \<Rightarrow> relationship_world \<Rightarrow> string option \<times> relationship_world" where
  "relationship_Revert X l w =
     (if \<not> RelationshipAvailable X then (Some ''relationship pep unavailable'', w)
      else case (relationshipTargetFromActionTarget (TargetFromLease l), rx_adapter X) of
        (Some t, Some (dry, m)) \<Rightarrow>
          (case on_maps X (AllowRelationship (rx_control X) dry m (rx_ParseIP X (rt_SubjectID t)) (map_of (rt_Dimension t)) (r_maps w)) w of
             (Some e, w') \<Rightarrow> (Some e, w')
           | (None, w') \<Rightarrow>
               (None, if text_at (r_tokens w') (leaseFencingKey l) = le_Token l
                  then w'\<lparr>r_tokens := AList.delete (leaseFencingKey l) (r_tokens w')\<rparr> else w'))
      | _ \<Rightarrow> (Some (''relationship revert target invalid for lease '' @ LeaseID l), w))"

definition brokeredRelationshipPEP :: "relationship_executor \<Rightarrow> instant \<Rightarrow> relationship_world lease_pep" where
  "brokeredRelationshipPEP X now =
     \<lparr>AdapterID = ''kliq-relationship-pep'', pep_Apply = relationship_Apply X now,
      CurrentFencingToken = relationship_CurrentFencingToken, pep_Revert = relationship_Revert X\<rparr>"

text \<open>It keeps the contract of fencing tokens.\<close>

lemma on_maps_frame:
  "on_maps X r w = (e, w') \<Longrightarrow> r_tokens w' = r_tokens w \<and> r_active w' = r_active w"
  by (auto simp: on_maps_def split: sum.splits)

lemma relationship_Apply_noted:
  assumes "relationship_Apply X now l w = (Inr t, w')"
  obtains rt dry m s where "r_active w = Some rt" "rx_adapter X = Some (dry, m)" "t = le_Token l"
    "DenyRelationship (rx_control X) dry m (rx_ParseIP X (rt_SubjectID rt)) (map_of (rt_Dimension rt)) (r_maps w) = Inr s"
    "r_maps w' = s" "r_tokens w' = AList.update (leaseFencingKey l) (le_Token l) (r_tokens w)"
  using assms
  by (auto simp: relationship_Apply_def on_maps_def Let_def split: option.splits prod.splits sum.splits if_splits)

lemma relationship_Revert_cases:
  assumes "relationship_Revert X l w = (r, w')"
  obtains (kept) e where "r = Some e" "r_tokens w' = r_tokens w"
    | (allowed) rt dry m s where "r = None" "relationshipTargetFromActionTarget (TargetFromLease l) = Some rt"
      "rx_adapter X = Some (dry, m)"
      "AllowRelationship (rx_control X) dry m (rx_ParseIP X (rt_SubjectID rt)) (map_of (rt_Dimension rt)) (r_maps w) = Inr s"
      "r_maps w' = s"
      "text_at (r_tokens w') = (if text_at (r_tokens w) (leaseFencingKey l) = le_Token l
         then (text_at (r_tokens w))(leaseFencingKey l := []) else text_at (r_tokens w))"
  using assms
  by (auto simp: relationship_Revert_def on_maps_def Let_def split: option.splits prod.splits sum.splits if_splits)

interpretation relationship_fencing:
  fencing_pep "brokeredRelationshipPEP X now" "\<lambda>w. text_at (r_tokens w)" leaseFencingKey for X now
proof
  fix l w t w' e
  let ?P = "brokeredRelationshipPEP X now"
  show "CurrentFencingToken ?P l w =
      Inr (if text_at (r_tokens w) (leaseFencingKey l) \<noteq> [] then text_at (r_tokens w) (leaseFencingKey l) else le_Token l)"
    by (simp add: brokeredRelationshipPEP_def relationship_CurrentFencingToken_def Let_def)
  show "pep_Apply ?P l w = (Inr t, w') \<Longrightarrow>
      t = le_Token l \<and> text_at (r_tokens w') = (text_at (r_tokens w))(leaseFencingKey l := le_Token l)"
    by (auto simp: brokeredRelationshipPEP_def elim!: relationship_Apply_noted)
  show "pep_Revert ?P l w = (None, w') \<Longrightarrow> text_at (r_tokens w') =
      (if text_at (r_tokens w) (leaseFencingKey l) = le_Token l
       then (text_at (r_tokens w))(leaseFencingKey l := []) else text_at (r_tokens w))"
    by (auto simp: brokeredRelationshipPEP_def elim!: relationship_Revert_cases)
  show "pep_Revert ?P l w = (Some e, w') \<Longrightarrow> text_at (r_tokens w') = text_at (r_tokens w)"
    by (auto simp: brokeredRelationshipPEP_def elim!: relationship_Revert_cases)
qed

section \<open>The executor\<close>

definition relationshipSkippedResult :: "action_resolution \<Rightarrow> instant \<Rightarrow> string \<Rightarrow> action_result" where
  "relationshipSkippedResult r now reason =
     no_result\<lparr>rs_ProposalID := re_ProposalID r, rs_DecisionID := re_DecisionID r, rs_Action := RequestedAction r,
       rs_Status := ''skipped'', rs_Reason := (if reason = [] then DenyReason r else reason), rs_AppliedAt := now\<rparr>"

definition ApplyRelationship ::
    "broker_env \<Rightarrow> broker option \<Rightarrow> relationship_executor \<Rightarrow> relationship_target \<Rightarrow> action_resolution \<Rightarrow> instant
     \<Rightarrow> relationship_world \<Rightarrow> lease_db \<Rightarrow> action_result \<times> relationship_world \<times> lease_db" where
  "ApplyRelationship E broker X target r now w d =
     (let result = no_result\<lparr>rs_ProposalID := re_ProposalID r, rs_DecisionID := re_DecisionID r, rs_AppliedAt := now\<rparr>;
          skipped = (\<lambda>reason. (relationshipSkippedResult r now reason, w, d))
      in if \<not> Allowed r then
           (result\<lparr>rs_Action := RequestedAction r, rs_Status := ''denied'', rs_Reason := DenyReason r\<rparr>, w, d)
         else if ExecutableLevel r \<noteq> ''block'' then skipped (DenyReason r)
         else if re_TTL r \<le> 0 then skipped ''relationship action requires TTL''
         else case broker of
           None \<Rightarrow> skipped ''relationship broker unavailable''
         | Some b \<Rightarrow>
             (case broker_Apply E b (brokeredRelationshipPEP X (e_now E)) r (w\<lparr>r_active := Some target, r_last := None\<rparr>) d of
                ((l, rc, err), w', d') \<Rightarrow>
                  (let applied = r_last w'; w'' = w'\<lparr>r_active := None, r_last := None\<rparr>;
                       plain = result\<lparr>rs_Action := ExecutableAction r\<rparr>
                   in case err of
                        Some e \<Rightarrow>
                          ((case applied of None \<Rightarrow> plain\<lparr>rs_Status := ''failed'', rs_Reason := e\<rparr> | Some x \<Rightarrow> x), w'', d')
                      | None \<Rightarrow>
                          if LeaseID l = []
                          then (relationshipSkippedResult r now ''broker produced no relationship lease'', w'', d')
                          else ((case applied of None \<Rightarrow> plain\<lparr>rs_Status := ''applied''\<rparr> | Some x \<Rightarrow> x), w'', d'))))"

section \<open>The sweep of the executor\<close>

text \<open>
  The two brokers work on one journal, and the enforcement points on the same maps; the broker of the sources
  goes first.
\<close>

definition RevertExpired ::
    "broker_env \<Rightarrow> brokered_executor \<Rightarrow> (broker \<times> relationship_executor) option \<Rightarrow> source_world \<Rightarrow> relationship_world
     \<Rightarrow> lease_db \<Rightarrow> source_world \<times> relationship_world \<times> lease_db" where
  "RevertExpired E B relationships w r d =
     (let (_, w1, d1) = broker_RevertExpired E (bx_broker B) (brokeredSourcePEP (bx_executor B) (bx_params B) (e_now E)) (e_now E) w d;
          r1 = r\<lparr>r_maps := w_maps w1\<rparr>
      in case relationships of
           None \<Rightarrow> (w1, r1, d1)
         | Some (b, X) \<Rightarrow>
             (let (_, r2, d2) = broker_RevertExpired E b (brokeredRelationshipPEP X (e_now E)) (e_now E) r1 d1
              in (w1\<lparr>w_maps := r_maps r2\<rparr>, r2, d2)))"

end
