(* ===== verification/Lease_Sweep.thy ===== *)
theory Lease_Sweep
  imports Lease_Journal
begin

text \<open>
  What a sweep over expired leases does when the database answers: which leases it lists, that it
  retires all of them, and that the target of a lease is the target the lease was made for.
\<close>

section \<open>What is listed\<close>

definition scannable :: "action_lease \<Rightarrow> bool" where
  "scannable r \<longleftrightarrow> le_AppliedAt r \<noteq> zero_time \<and> le_ExpiresAt r \<noteq> zero_time"

definition due :: "instant \<Rightarrow> action_lease \<Rightarrow> bool" where
  "due now r \<longleftrightarrow> le_Status r = Lease_active \<and> formatTime (le_ExpiresAt r) \<le> formatTime now"

definition scanned_lease :: "action_lease \<Rightarrow> action_lease" where
  "scanned_lease r = r\<lparr>le_RevertedAt := (case le_RevertedAt r of
     None \<Rightarrow> None | Some t \<Rightarrow> if formatTime t = No_time then None else Some t)\<rparr>"

lemma scanned_lease_fields [simp]:
  "LeaseID (scanned_lease r) = LeaseID r" "le_Token (scanned_lease r) = le_Token r" "le_Level (scanned_lease r) = le_Level r"
  "TargetFromLease (scanned_lease r) = TargetFromLease r" "le_Target (scanned_lease r) = le_Target r"
  by (simp_all add: scanned_lease_def TargetFromLease_def Let_def cong: if_cong option.case_cong)

abbreviation listed_leases :: "instant \<Rightarrow> action_lease list \<Rightarrow> action_lease list" where
  "listed_leases now rs \<equiv> map scanned_lease (by_expiry (filter (due now) rs))"

lemma formatTime_none [simp]: "formatTime t = No_time \<longleftrightarrow> t = zero_time"
  by (simp add: formatTime_def)

lemma scan_all_ok: "\<forall>r \<in> set rs. scannable r \<Longrightarrow> scan_all rs = Inr (map scanned_lease rs)"
  by (induction rs) (simp_all add: scannable_def scanActionLease_def scanned_lease_def cong: option.case_cong)

lemma listed:
  assumes "\<forall>r \<in> set (rows d). scannable r"
  shows "ListExpiredActionLeases (\<lambda>n. None) now d =
    (Inr (listed_leases now (rows d)), d\<lparr>calls := Suc (calls d)\<rparr>)"
  using assms scan_all_ok [of "by_expiry (filter (due now) (rows d))"]
  by (simp add: ListExpiredActionLeases_def db_call_def due_def [abs_def] by_expiry_def)

lemma listed_set: "set (listed_leases now rs) = scanned_lease ` {r \<in> set rs. due now r}"
  by (auto simp: by_expiry_def)

lemma listed_distinct:
  assumes "distinct (map LeaseID rs)"
  shows "distinct (map LeaseID (listed_leases now rs))"
  using distinct_map_filter [OF assms, of "due now"] by (simp add: by_expiry_def distinct_map comp_def inj_on_def)

text \<open>Instants a second apart are in order as texts; within a second they need not be.\<close>

lemma seconds_apart:
  assumes "t + 10 ^ 9 \<le> now" "now \<noteq> zero_time"
  shows "formatTime t \<le> formatTime now"
proof -
  have "t div 10 ^ 9 < now div 10 ^ 9"
    using zdiv_mono1 [OF assms(1), of "10 ^ 9"] by simp
  then show ?thesis using assms(2) by (auto simp: formatTime_def less_eq_time_text_def)
qed

section \<open>A sweep retires what is due\<close>

lemma revert_all_retired: "revert_all E b P ls rcs w d = (x, w', d') \<Longrightarrow> retired (rows d) (rows d')"
  by (erule revert_all_invariant [where I = "\<lambda>w d'. retired (rows d) (rows d')"])
    (auto intro: retired.same retired_trans revert_retires)

lemma revert_all_retires:
  assumes "revert_all E b P ls rcs w d = (x, w', d')" "e_outage E = (\<lambda>n. None)"
    and "\<And>q w. q \<in> set ls \<Longrightarrow> fst (pep_Revert P q w) = None" "\<And>q w. \<not> isl (CurrentFencingToken P q w)"
  shows "\<forall>r \<in> set (rows d'). LeaseID r \<in> LeaseID ` set ls \<longrightarrow> le_Status r \<noteq> Lease_active"
  using assms
proof (induction ls arbitrary: rcs w d)
  case (Cons q ls)
  obtain rc e w1 d1 where r: "broker_Revert E b P q w d = ((rc, e), w1, d1)" by (metis prod.exhaust)
  have "e = None" by (rule revert_no_error [OF r Cons.prems(2)]) (use Cons.prems(3,4) in simp_all)
  then have rest: "revert_all E b P ls (rcs @ [rc]) w1 d1 = (x, w', d')" using Cons.prems(1) r by simp
  have off: "le_Status p \<noteq> Lease_active" if "p \<in> set (rows d1)" "LeaseID p = LeaseID q" for p
    using r that by (cases rule: revert_cases) (auto simp: update_up [OF Cons.prems(2)] set_status_def split: if_splits)
  show ?case
  proof (intro ballI impI)
    fix p
    assume p: "p \<in> set (rows d')" "LeaseID p \<in> LeaseID ` set (q # ls)"
    show "le_Status p \<noteq> Lease_active"
    proof (cases "LeaseID p = LeaseID q")
      case True
      then show ?thesis using off retired_active [OF revert_all_retired [OF rest] p(1)] by blast
    next
      case False
      then show ?thesis using Cons.IH [OF rest Cons.prems(2)] Cons.prems(3,4) p by auto
    qed
  qed
qed simp

lemma sweep_leaves_none_due:
  assumes "broker_RevertExpired E b P now w d = (x, w', d')" "e_outage E = (\<lambda>n. None)" "\<forall>r \<in> set (rows d). scannable r"
    and "\<And>q w. q \<in> set (rows d) \<Longrightarrow> fst (pep_Revert P (scanned_lease q) w) = None" "\<And>q w. \<not> isl (CurrentFencingToken P q w)"
  shows "\<forall>r \<in> set (rows d'). \<not> due now r"
proof -
  let ?ls = "listed_leases now (rows d)"
  have run: "revert_all E b P ?ls [] w (d\<lparr>calls := Suc (calls d)\<rparr>) = (x, w', d')"
    using assms(1) listed [OF assms(3)] by (simp add: broker_RevertExpired_def try_db_def assms(2))
  have off: "\<forall>r \<in> set (rows d'). LeaseID r \<in> LeaseID ` set ?ls \<longrightarrow> le_Status r \<noteq> Lease_active"
    by (rule revert_all_retires [OF run assms(2) _ assms(5)]) (use assms(4) in \<open>auto simp: by_expiry_def\<close>)
  show ?thesis
  proof (intro ballI notI)
    fix r
    assume r: "r \<in> set (rows d')" "due now r"
    then have a: "le_Status r = Lease_active" by (simp add: due_def)
    have "r \<in> set (rows d)" using retired_active [OF revert_all_retired [OF run] r(1) a] by simp
    then have "LeaseID r \<in> LeaseID ` set ?ls" unfolding listed_set using r(2) by (force simp: image_iff)
    with off r(1) a show False by blast
  qed
qed

text \<open>When nothing is due, a sweep does nothing.\<close>

lemma idle_sweep:
  assumes "broker_RevertExpired E b P now w d = (x, w', d')" "e_outage E = (\<lambda>n. None)"
    and "\<forall>r \<in> set (rows d). scannable r \<and> \<not> due now r"
  shows "w' = w \<and> rows d' = rows d"
proof -
  have "filter (due now) (rows d) = []" using assms(3) by simp
  moreover have "\<forall>r \<in> set (rows d). scannable r" using assms(3) by simp
  ultimately show ?thesis
    using assms(1) listed [of d now] by (auto simp: broker_RevertExpired_def try_db_def assms(2) by_expiry_def)
qed

lemma retired_scannable: "retired rs rs' \<Longrightarrow> \<forall>r \<in> set rs. scannable r \<Longrightarrow> \<forall>r \<in> set rs'. scannable r"
  by (induction rule: retired.induct) (auto simp: scannable_def set_status_def)

section \<open>The target of a lease\<close>

lemma fold_update_new:
  assumes "distinct (map fst as)" "\<And>k. k \<in> fst ` set as \<Longrightarrow> f k \<notin> fst ` set m" "inj f"
  shows "fold (\<lambda>(k, v). AList.update (f k) v) as m = m @ map (\<lambda>(k, v). (f k, v)) as"
  using assms(1,2)
proof (induction as arbitrary: m)
  case (Cons a as)
  obtain k v where a: "a = (k, v)" by (cases a)
  have new: "AList.update (f k) v m = m @ [(f k, v)]"
    using Cons.prems(2) [of k] by (induction m) (auto simp: a)
  have "fold (\<lambda>(k, v). AList.update (f k) v) as (m @ [(f k, v)]) = (m @ [(f k, v)]) @ map (\<lambda>(k, v). (f k, v)) as"
    by (rule Cons.IH) (use Cons.prems a assms(3) in \<open>auto dest: injD\<close>)
  then show ?case by (simp add: a new)
qed simp

definition attributes_in :: "(string \<times> string) list \<Rightarrow> (string \<times> string) list" where
  "attributes_in m = concat (map (\<lambda>(k, v). case CutPrefix k ''target_attr.'' of None \<Rightarrow> [] | Some a \<Rightarrow> [(a, v)]) m)"

lemma attributes_in_update: "CutPrefix k ''target_attr.'' = None \<Longrightarrow> attributes_in (AList.update k v m) = attributes_in m"
  by (induction m) (auto simp: attributes_in_def)

lemma cut_own_prefix [simp]: "CutPrefix (p @ s) p = Some s"
  by (induction p) simp_all

lemma attributes_in_own: "attributes_in (map (\<lambda>(k, v). (''target_attr.'' @ k, v)) as) = as"
proof -
  have "CutPrefix (''target_attr.'' @ k) ''target_attr.'' = Some k" for k by (rule cut_own_prefix)
  then show ?thesis unfolding attributes_in_def by (induction as) (auto simp del: append_Cons append_Nil)
qed

end
