(* ===== verification/Pep_Laws.thy ===== *)
theory Pep_Laws
  imports Pep_Adapter
begin

text \<open>
  What a transition of the enforcement point does to the packets of the source, and what is left when it
  fails half way.
\<close>

section \<open>Transitions write policy only\<close>

lemmas write_level_defs =
  write_level4_def del_rl4_def del_deny4_def set_rl4_def set_deny4_def
  write_level6_def del_rl6_def del_deny6_def set_rl6_def set_deny6_def keep_on_error_def

lemma shield_inv_policy:
  "data_view s' = data_view s \<Longrightarrow> config_wf s' = config_wf s \<Longrightarrow> shield_inv s' = shield_inv s"
  by (simp add: shield_inv_def data_view_def config_wf_def buckets_free_def arrays_wf_def
      cpus_balanced_def sources_balanced_def)

lemma write_level4_inv: "shield_inv (snd (write_level4 C m ip target p s)) = shield_inv s"
  by (intro shield_inv_policy)
    (auto simp: write_level_defs store_in_def map_update_elem_def Let_def split: fsm_level.splits)

section \<open>A successful transition\<close>

definition level_limit :: "enforcement_params \<Rightarrow> fsm_level \<Rightarrow> rl_cfg_t option" where
  "level_limit p l =
     (case l of
        LevelSoft \<Rightarrow> Some \<lparr>rate_pps = p_SoftRate p, burst = p_SoftBurst p\<rparr>
      | LevelHard \<Rightarrow> Some \<lparr>rate_pps = p_HardRate p, burst = p_HardBurst p\<rparr>
      | _ \<Rightarrow> None)"

lemma transition_success:
  assumes "transitionV4 C a ip st target now p s = (st', None, s')" "\<not> dryRun a" "maps a = Some m"
  shows "st' = applyStateFields now p st target" "write_level4 C m ip target p s = (None, s')"
  using assms by (auto simp: transitionV4_def transition_with_def split: prod.splits option.splits)

text \<open>An update that succeeds stores its entry and touches no other.\<close>

lemma kept_update:
  assumes "bpf_hash upd cap" "keep_on_error (store_in put s (map_update_elem upd k v mp)) s = (None, s')"
  shows "s' = put (mp(k \<mapsto> v)) s"
proof -
  obtain mp' where mp': "map_update_elem upd k v mp = Inr mp'" "s' = put mp' s"
    using assms(2) by (auto simp: keep_on_error_def store_in_def split: sum.splits)
  have "mp' = mp(k \<mapsto> v)"
    using map_update_elem_Inr [OF mp'(1)] bpf_hash.upd_frame [OF assms(1)] by (intro ext) (metis fun_upd_apply)
  with mp'(2) show ?thesis by simp
qed

lemma set_None:
  assumes "control_ok C"
  shows "set_rl4 C m ip cfg s = (None, s') \<Longrightarrow> s' = s\<lparr>xdp_rl_policy4 := (xdp_rl_policy4 s)(\<lparr>k4_ip = ip\<rparr> \<mapsto> cfg)\<rparr>"
    "set_deny4 C m ip s = (None, s') \<Longrightarrow> s' = s\<lparr>xdp_deny_hash := (xdp_deny_hash s)(\<lparr>k4_ip = ip\<rparr> \<mapsto> 1)\<rparr>"
    "set_rl6 C m ip cfg s = (None, s') \<Longrightarrow> s' = s\<lparr>xdp_rl_policy6 := (xdp_rl_policy6 s)(\<lparr>src6_ip = ip\<rparr> \<mapsto> cfg)\<rparr>"
    "set_deny6 C m ip s = (None, s') \<Longrightarrow> s' = s\<lparr>xdp_deny6_hash := (xdp_deny6_hash s)(\<lparr>k6_ip = ip\<rparr> \<mapsto> 1)\<rparr>"
proof -
  have h: "bpf_hash (c_rl4 C) (max_entries xdp_rl_policy4_map)" "bpf_hash (c_deny4 C) (max_entries xdp_deny_hash_map)"
    "bpf_hash (c_rl6 C) (max_entries xdp_rl_policy6_map)" "bpf_hash (c_deny6 C) (max_entries xdp_deny6_hash_map)"
    using assms by (simp_all add: control_ok_def)
  show "set_rl4 C m ip cfg s = (None, s') \<Longrightarrow> s' = s\<lparr>xdp_rl_policy4 := (xdp_rl_policy4 s)(\<lparr>k4_ip = ip\<rparr> \<mapsto> cfg)\<rparr>"
    unfolding set_rl4_def using kept_update [OF h(1)] by (simp split: if_splits)
  show "set_deny4 C m ip s = (None, s') \<Longrightarrow> s' = s\<lparr>xdp_deny_hash := (xdp_deny_hash s)(\<lparr>k4_ip = ip\<rparr> \<mapsto> 1)\<rparr>"
    unfolding set_deny4_def using kept_update [OF h(2)] by (simp split: if_splits)
  show "set_rl6 C m ip cfg s = (None, s') \<Longrightarrow> s' = s\<lparr>xdp_rl_policy6 := (xdp_rl_policy6 s)(\<lparr>src6_ip = ip\<rparr> \<mapsto> cfg)\<rparr>"
    unfolding set_rl6_def using kept_update [OF h(3)] by (simp split: if_splits)
  show "set_deny6 C m ip s = (None, s') \<Longrightarrow> s' = s\<lparr>xdp_deny6_hash := (xdp_deny6_hash s)(\<lparr>k6_ip = ip\<rparr> \<mapsto> 1)\<rparr>"
    unfolding set_deny6_def using kept_update [OF h(4)] by (simp split: if_splits)
qed

lemma write_level4_result:
  assumes "control_ok C" "h_Deny4 m" "h_RL4 m" "write_level4 C m ip target p s = (None, s')"
  shows "s' = s\<lparr>xdp_deny_hash := (xdp_deny_hash s)(\<lparr>k4_ip = ip\<rparr> := if target = LevelBlock then Some 1 else None),
      xdp_rl_policy4 := (xdp_rl_policy4 s)(\<lparr>k4_ip = ip\<rparr> := level_limit p target)\<rparr>"
  using assms(2-4)
  by (cases target) (auto simp: write_level4_def del_rl4_def del_deny4_def level_limit_def dest!: set_None [OF assms(1)])

lemma write_level6_result:
  assumes "control_ok C" "h_Deny6 m" "h_RL6 m" "write_level6 C m ip target p s = (None, s')"
  shows "s' = s\<lparr>xdp_deny6_hash := (xdp_deny6_hash s)(\<lparr>k6_ip = ip\<rparr> := if target = LevelBlock then Some 1 else None),
      xdp_rl_policy6 := (xdp_rl_policy6 s)(\<lparr>src6_ip = ip\<rparr> := level_limit p target)\<rparr>"
  using assms(2-4)
  by (cases target) (auto simp: write_level6_def del_rl6_def del_deny6_def level_limit_def dest!: set_None [OF assms(1)])

text \<open>
  C23: A transition enforces its level. When moving a source succeeds, the maps have changed in two
  places: its entry of the deny list, which is there exactly when the level is the block, and its own limit,
  which is that of the two rate-limit levels and none at the others. For both versions of IP.
\<close>

theorem transition_enforces_level:
  assumes "control_ok C" "maps a = Some m" "\<not> dryRun a" "h_Deny4 m" "h_RL4 m" "h_Deny6 m" "h_RL6 m"
    and "TransitionSource C a (Some src) st target now p s = (st', None, s')"
  shows "Level st' = target \<and>
    (case src of
       IPv4 ip \<Rightarrow> s' = s\<lparr>xdp_deny_hash := (xdp_deny_hash s)(\<lparr>k4_ip = ip\<rparr> := if target = LevelBlock then Some 1 else None),
         xdp_rl_policy4 := (xdp_rl_policy4 s)(\<lparr>k4_ip = ip\<rparr> := level_limit p target)\<rparr>
     | IPv6 ip \<Rightarrow> s' = s\<lparr>xdp_deny6_hash := (xdp_deny6_hash s)(\<lparr>k6_ip = ip\<rparr> := if target = LevelBlock then Some 1 else None),
         xdp_rl_policy6 := (xdp_rl_policy6 s)(\<lparr>src6_ip = ip\<rparr> := level_limit p target)\<rparr>)"
proof (cases src)
  case (IPv4 ip)
  with assms(8) have t: "transitionV4 C a ip st target now p s = (st', None, s')" by (simp add: TransitionSource_def)
  note t = transition_success [OF this assms(3,2)]
  show ?thesis using write_level4_result [OF assms(1,4,5) t(2)] IPv4 by (simp add: t(1) applied.tr_level)
next
  case (IPv6 ip)
  with assms(2,3,8) have t: "st' = applyStateFields now p st target" "write_level6 C m ip target p s = (None, s')"
    by (auto simp: TransitionSource_def transitionV6_def transition_with_def split: prod.splits option.splits)
  show ?thesis using write_level6_result [OF assms(1,6,7) t(2)] IPv6 by (simp add: t(1) applied.tr_level)
qed

text \<open>
  C13: A blocked source is cut off. Once a source has been moved to the block, every packet from it is
  dropped, in every state that packets and commands lead to, until its entry is removed or the lists
  are reset.
\<close>

theorem blocked_source_is_cut_off:
  assumes "control_ok C" "shield_inv s" "maps a = Some m" "\<not> dryRun a" "h_Deny4 m" "h_RL4 m"
    and "transitionV4 C a (bytes_of_u32 src) st LevelBlock now p s = (st', None, s1)"
    and "sys_run C s1 es s2" "Command Reset \<notin> set es" "Command (Del_deny_ip (IPv4 (bytes_of_u32 src))) \<notin> set es"
    and "kernel_ok K" "source_v4 pkt = Some src"
  shows "\<exists>s3. xdp_klshield K cpu pkt s2 = Some (XDP_DROP, s3) \<and> abs_firewall s3 = abs_firewall s2"
proof -
  note t = transition_success(2) [OF assms(7,4,3)]
  have "shield_inv s1" using write_level4_inv [of C m "bytes_of_u32 src" LevelBlock p s] t assms(2) by simp
  moreover have "xdp_deny_hash s1 \<lparr>k4_ip = bytes_of_u32 src\<rparr> \<noteq> None"
    using write_level4_result [OF assms(1,5,6) t] by simp
  ultimately show ?thesis by (rule denied_entry_stays [OF assms(1) _ _ assms(8-12)])
qed

section \<open>A transition that fails\<close>

lemma full_deny_list:
  assumes "control_ok C" "xdp_deny_hash s k = None" "\<not> card (dom (xdp_deny_hash s)) < max_entries xdp_deny_hash_map"
  shows "map_update_elem (c_deny4 C) k 1 (xdp_deny_hash s) = Inl Update_failed"
proof -
  have "bpf_hash (c_deny4 C) (max_entries xdp_deny_hash_map)" using assms(1) by (simp add: control_ok_def)
  from bpf_hash.upd_full [OF this assms(2,3)] show ?thesis using assms(2) by (simp add: map_update_elem_def)
qed

text \<open>
  C40: A block that fails frees the source. When the deny list is full, moving a rate-limited source to
  the block fails and its state stays what it was, but the limit it had has been deleted: the source
  is neither blocked nor limited any more.
\<close>

theorem failed_block_frees_the_source:
  assumes "control_ok C" "maps a = Some m" "\<not> dryRun a" "h_Deny4 m" "h_RL4 m"
    and "\<not> in_deny_v4 (xdp_deny_hash s) src" "\<not> card (dom (xdp_deny_hash s)) < max_entries xdp_deny_hash_map"
  shows "\<exists>e s'. transitionV4 C a (bytes_of_u32 src) st LevelBlock now p s = (st, Some e, s') \<and>
    \<not> in_deny_v4 (xdp_deny_hash s') src \<and> xdp_rl_policy4 s' \<lparr>k4_ip = bytes_of_u32 src\<rparr> = None"
proof -
  have n: "xdp_deny_hash s \<lparr>k4_ip = bytes_of_u32 src\<rparr> = None" using assms(6) by (simp add: in_deny_v4_def)
  show ?thesis
    using assms(2-6) full_deny_list [OF assms(1) n assms(7)]
    by (simp add: transitionV4_def transition_with_def write_level_defs store_in_def in_deny_v4_def)
qed

section \<open>Relationships\<close>

text \<open>
  Denying a relationship denies its tuple. When the adapter denies a relationship, it has done what
  the command for the same address, port and protocol does; the port is one of 1 to 65535.
\<close>

theorem deny_relationship_is_edge_deny:
  assumes "DenyRelationship C False m (Some ip) d s = Inr s'"
  shows "\<exists>port proto. klshieldRelationshipDimension d = Some (port, proto) \<and> port \<noteq> 0 \<and>
    addEdgeDeny C ip (ucast port) proto s = Inr s'"
proof -
  from assms obtain port proto k where k: "klshieldRelationshipDimension d = Some (port, proto)"
    "NewEdge4Key (Some ip) port proto = Some k" "DenyEdge4 C False m k s = Inr s'"
    by (auto simp: DenyRelationship_def relationship_key_def split: option.splits)
  from k(3) have "store_in (\<lambda>x. edge4_deny_update (\<lambda>_. x)) s (map_update_elem (c_edge_deny C) k 1 (edge4_deny s)) = Inr s'"
    by (auto simp: DenyEdge4_def WriteEdge4Deny_def lift_client_def on_error_def split: if_splits sum.splits)
  then have "addEdgeDeny C ip (ucast port) proto s = Inr s'"
    using NewEdge4Key_parses [OF k(2)] by (simp add: addEdgeDeny_def)
  moreover have "port \<noteq> 0" using k(1) by (auto simp: klshieldRelationshipDimension_def Let_def split: if_splits option.splits)
  ultimately show ?thesis using k(1) by blast
qed

section \<open>Instances\<close>

definition demo_pep :: pep where
  "demo_pep = \<lparr>maps = Some all_open, dryRun = False\<rparr>"

lemma demo_pep_ok: "maps demo_pep = Some all_open" "\<not> dryRun demo_pep" "h_Deny4 all_open" "h_RL4 all_open"
  "h_Deny6 all_open" "h_RL6 all_open"
  by (simp_all add: demo_pep_def all_open_def)

lemma demo_block:
  "\<exists>s'. transitionV4 demo_control demo_pep (bytes_of_u32 (le32 10 0 0 1)) new_source LevelBlock 7 demo_params fresh_shield
     = (applyStateFields 7 demo_params new_source LevelBlock, None, s')"
proof -
  have "xdp_deny_hash fresh_shield = (\<lambda>_. None)" by (simp add: fresh_shield_def)
  then show ?thesis
    by (simp add: transitionV4_def transition_with_def write_level_defs demo_pep_def all_open_def store_in_def
        map_update_elem_def demo_control_def hash_update_def xdp_deny_hash_map_def)
qed

theorem transition_enforces_level_witness:
  "\<exists>s'. TransitionSource demo_control demo_pep (Some (IPv4 [10, 0, 0, 1])) new_source LevelBlock 7 demo_params fresh_shield
       = (applyStateFields 7 demo_params new_source LevelBlock, None, s') \<and>
     xdp_deny_hash s' \<lparr>k4_ip = [10, 0, 0, 1]\<rparr> = Some 1 \<and> xdp_rl_policy4 s' \<lparr>k4_ip = [10, 0, 0, 1]\<rparr> = None"
proof -
  obtain s' where "transitionV4 demo_control demo_pep (bytes_of_u32 (le32 10 0 0 1)) new_source LevelBlock 7 demo_params fresh_shield
     = (applyStateFields 7 demo_params new_source LevelBlock, None, s')" using demo_block by blast
  then have t: "TransitionSource demo_control demo_pep (Some (IPv4 [10, 0, 0, 1])) new_source LevelBlock 7 demo_params fresh_shield
     = (applyStateFields 7 demo_params new_source LevelBlock, None, s')"
    by (simp add: TransitionSource_def)
  from transition_enforces_level [OF demo_control_ok demo_pep_ok t] t
  show ?thesis by (intro exI [of _ s']) (simp add: level_limit_def)
qed

theorem blocked_source_is_cut_off_witness:
  "\<exists>s s'. xdp_klshield (demo_kernel 3) 0 (udp_frame [10, 0, 0, 1] 53) s = Some (XDP_DROP, s')"
proof -
  obtain s1 where t: "transitionV4 demo_control demo_pep (bytes_of_u32 (le32 10 0 0 1)) new_source LevelBlock 7 demo_params fresh_shield
     = (applyStateFields 7 demo_params new_source LevelBlock, None, s1)" using demo_block by blast
  show ?thesis
    using blocked_source_is_cut_off [OF demo_control_ok fresh_inv demo_pep_ok(1-4) t steps.none _ _ demo_kernel_ok udp_frame_source,
        of 3 0 53]
    by auto
qed

text \<open>A full deny list: the first addresses, all but the one that is to be blocked.\<close>

lemma bytes_of_u32_inject: "bytes_of_u32 x = bytes_of_u32 y \<longleftrightarrow> x = y"
proof
  assume eq: "bytes_of_u32 x = bytes_of_u32 y"
  show "x = y"
  proof (rule bit_word_eqI)
    fix n :: nat
    assume n: "n < LENGTH(32)"
    have b: "(ucast (drop_bit (8 * i) x) :: u8) = ucast (drop_bit (8 * i) y)" if "i < 4" for i
      using eq that by (auto simp: bytes_of_u32_def less_Suc_eq numeral_eq_Suc)
    have "n div 8 < 4" using n by simp
    from b [OF this] have "bit (ucast (drop_bit (8 * (n div 8)) x) :: u8) (n mod 8) = bit (ucast (drop_bit (8 * (n div 8)) y) :: u8) (n mod 8)"
      by simp
    then show "bit x n = bit y n" by (simp add: bit_simps)
  qed
qed simp

definition full_list :: shield where
  "full_list = fresh_shield\<lparr>xdp_deny_hash := (\<lambda>k. if k \<in> (\<lambda>i. \<lparr>k4_ip = bytes_of_u32 (of_nat i)\<rparr>) ` {1..max_entries xdp_deny_hash_map}
     then Some 1 else None)\<rparr>"

lemma full_list_full: "\<not> card (dom (xdp_deny_hash full_list)) < max_entries xdp_deny_hash_map"
proof -
  let ?f = "\<lambda>i. \<lparr>k4_ip = bytes_of_u32 (of_nat i)\<rparr>" and ?A = "{1..max_entries xdp_deny_hash_map}"
  have "inj_on ?f ?A"
  proof (rule inj_onI)
    fix i j assume ij: "i \<in> ?A" "j \<in> ?A" "?f i = ?f j"
    then have "(of_nat i :: u32) = of_nat j" by (simp add: bytes_of_u32_inject)
    then have "unat (of_nat i :: u32) = unat (of_nat j :: u32)" by (rule arg_cong)
    then show "i = j" using ij(1,2) by (simp add: xdp_deny_hash_map_def unsigned_of_nat take_bit_nat_eq_self)
  qed
  then have "card (?f ` ?A) = max_entries xdp_deny_hash_map" by (simp add: card_image)
  moreover have "dom (xdp_deny_hash full_list) = ?f ` ?A" by (auto simp: full_list_def split: if_splits)
  ultimately show ?thesis by simp
qed

lemma full_list_misses: "\<not> in_deny_v4 (xdp_deny_hash full_list) (le32 10 0 0 1)"
proof -
  have "(of_nat i :: u32) \<noteq> le32 10 0 0 1" if "i \<in> {1..max_entries xdp_deny_hash_map}" for i
  proof
    assume "(of_nat i :: u32) = le32 10 0 0 1"
    then have "unat (of_nat i :: u32) = unat (le32 10 0 0 1)" by (rule arg_cong)
    moreover have "unat (le32 10 0 0 1) = 16777226" by (simp add: le32_def)
    ultimately show False using that by (simp add: xdp_deny_hash_map_def unsigned_of_nat take_bit_nat_eq_self)
  qed
  then have "\<forall>i \<in> {1..max_entries xdp_deny_hash_map}. le32 10 0 0 1 \<noteq> of_nat i" by metis
  then show ?thesis by (simp add: full_list_def in_deny_v4_def bytes_of_u32_inject image_iff del: bytes_of_le32)
qed

theorem failed_block_frees_the_source_witness:
  "\<exists>e s'. transitionV4 demo_control demo_pep (bytes_of_u32 (le32 10 0 0 1)) new_source LevelBlock 7 demo_params full_list
     = (new_source, Some e, s') \<and> xdp_rl_policy4 s' \<lparr>k4_ip = bytes_of_u32 (le32 10 0 0 1)\<rparr> = None"
  using failed_block_frees_the_source [OF demo_control_ok demo_pep_ok(1-4) full_list_misses full_list_full, of new_source 7 demo_params]
  by blast

theorem deny_relationship_is_edge_deny_witness:
  "\<exists>s'. addEdgeDeny demo_control (IPv4 [10, 0, 0, 1]) 53 ''udp'' fresh_shield = Inr s'"
proof -
  let ?d = "[''port'' \<mapsto> ''53'', ''proto'' \<mapsto> ''udp'']"
  have d: "klshieldRelationshipDimension ?d = Some (53, ''udp'')"
    by (simp add: klshieldRelationshipDimension_def dimension_def ParseUint16_def digit_def decimal_def)
  have "edge4_deny fresh_shield = (\<lambda>_. None)" by (simp add: fresh_shield_def)
  then have "\<exists>s'. DenyRelationship demo_control False all_open (Some (IPv4 [10, 0, 0, 1])) ?d fresh_shield = Inr s'"
    by (simp add: DenyRelationship_def relationship_key_def d NewEdge4Key_def DenyEdge4_def WriteEdge4Deny_def all_open_def
        lift_client_def on_error_def store_in_def map_update_elem_def demo_control_def lru_update_def edge4_deny_map_def)
  then obtain s' where "DenyRelationship demo_control False all_open (Some (IPv4 [10, 0, 0, 1])) ?d fresh_shield = Inr s'" by blast
  from deny_relationship_is_edge_deny [OF this] d show ?thesis by auto
qed

end
