(* ===== verification/Lease_Laws.thy ===== *)
theory Lease_Laws
  imports Relationship_Broker Lease_Sweep Pep_Laws
begin

text \<open>
  What leases are for: an enforcement ends when its lease expires. That this holds of sources, where it
  fails, and that relationships stay denied.
\<close>

section \<open>A lease knows its target\<close>

lemma params_kept:
  "attributes_in (fold (\<lambda>(k, v). if v = Any_nil then (\<lambda>m. m) else AList.update (''param.'' @ k) (Sprint pr v)) ps m) = attributes_in m"
  "CutPrefix key ''param.'' = None \<Longrightarrow>
     text_at (fold (\<lambda>(k, v). if v = Any_nil then (\<lambda>m. m) else AList.update (''param.'' @ k) (Sprint pr v)) ps m) key = text_at m key"
  by (induction ps arbitrary: m) (auto simp: attributes_in_update)

definition base_metadata :: "action_resolution \<Rightarrow> (string \<times> string) list" where
  "base_metadata r =
     [(''requested_action'', RequestedAction r), (''requested_level'', RequestedLevel r),
      (''target_granularity'', Granularity (re_Target r)), (''target_value'', Value (re_Target r)),
      (''broker.renewal_count'', ''0'')]"

lemma base_metadata:
  "attributes_in (base_metadata r) = []" "text_at (base_metadata r) ''target_granularity'' = Granularity (re_Target r)"
  "text_at (base_metadata r) ''target_value'' = Value (re_Target r)"
  by (simp_all add: base_metadata_def attributes_in_def text_at_def)

lemma target_metadata:
  assumes "distinct (map fst (Attributes (re_Target r)))"
  shows "attributes_in (lease_metadata E b r) = Attributes (re_Target r)"
    "text_at (lease_metadata E b r) ''target_granularity'' = Granularity (re_Target r)"
    "text_at (lease_metadata E b r) ''target_value'' = Value (re_Target r)"
proof -
  let ?as = "Attributes (re_Target r)"
  have attrs: "fold (\<lambda>(k, v). AList.update (''target_attr.'' @ k) v) ?as (base_metadata r) =
      base_metadata r @ map (\<lambda>(k, v). (''target_attr.'' @ k, v)) ?as"
    by (rule fold_update_new [OF assms]) (auto simp: base_metadata_def intro: injI)
  have split: "attributes_in (m @ m') = attributes_in m @ attributes_in m'" for m m' by (simp add: attributes_in_def)
  have front: "text_at (base_metadata r @ m) k = text_at (base_metadata r) k" if "k \<in> fst ` set (base_metadata r)" for m k
    using that by (auto simp: text_at_def map_add_def split: option.splits dest: weak_map_of_SomeI)
  show "attributes_in (lease_metadata E b r) = ?as"
    "text_at (lease_metadata E b r) ''target_granularity'' = Granularity (re_Target r)"
    "text_at (lease_metadata E b r) ''target_value'' = Value (re_Target r)"
    unfolding lease_metadata_def Let_def base_metadata_def [symmetric] attrs
    using base_metadata [of r] attributes_in_own [of ?as]
    by (simp_all add: attributes_in_update params_kept split front)
      (simp_all add: base_metadata_def text_at_def)
qed

lemma target_read_back:
  assumes "Granularity (re_Target r) \<noteq> []" "Value (re_Target r) \<noteq> []" "distinct (map fst (Attributes (re_Target r)))"
    and "le_Metadata l \<in> {lease_metadata E b r, AList.update ''broker.renewal_count'' n (lease_metadata E b r)}"
  shows "TargetFromLease l = re_Target r"
proof -
  have "attributes_in (le_Metadata l) = Attributes (re_Target r)"
    "text_at (le_Metadata l) ''target_granularity'' = Granularity (re_Target r)"
    "text_at (le_Metadata l) ''target_value'' = Value (re_Target r)"
    using assms(4) target_metadata [OF assms(3)] by (auto simp: attributes_in_update)
  then show ?thesis using assms(1,2) by (simp add: TargetFromLease_def attributes_in_def Let_def)
qed

text \<open>A renewal writes the metadata of the renewed proposal, and the count.\<close>

lemma renewed_lease:
  assumes "renewActiveLease E b P r dec t md w d = (Renewed l, d')"
  shows "(\<exists>n. le_Metadata l = AList.update ''broker.renewal_count'' n md) \<and> l \<in> set (rows d')"
proof -
  let ?F = "e_outage E"
  have in_upsert: "l \<in> set (upsert l rs)" for rs by (induction rs) auto
  obtain y d1 where f: "FindActiveActionLease ?F (AdapterID P) t (ExecutableAction r) (ExecutableLevel r) d = (y, d1)"
    by fastforce
  note run = assms [unfolded renewActiveLease_def Let_def try_db_def f prod.case]
  have no_retire: "(case UpdateActionLeaseStatus ?F m d1 of (Inl e, d) \<Rightarrow> (Renewal_failed m e, d) | (Inr x, d) \<Rightarrow> (Not_renewed, d))
      \<noteq> (Renewed l, d')" for m
    by (auto split: prod.splits sum.splits)
  show ?thesis
  proof (cases y)
    case (Inr z)
    then show ?thesis
    proof (cases z)
      case (Some q)
      define m where "m = q\<lparr>le_DecisionID := dec, le_ProposalID := re_ProposalID r, le_PolicyID := re_PolicyID r,
        le_Reason := DenyReason r, le_ExpiresAt := e_now E + re_TTL r,
        le_Metadata := AList.update ''broker.renewal_count'' (Itoa (leaseRenewalCount (le_Metadata q) + 1)) md,
        le_Status := Lease_active, LastError := [], le_RevertedAt := None\<rparr>"
      obtain v d2 where u: "UpsertActionLease ?F m d1 = (v, d2)" by fastforce
      have "l = m \<and> d' = d2 \<and> v = Inr ()"
        using run no_retire
        by (auto simp: Inr Some m_def [symmetric] u split: option.splits sum.splits if_splits)
      then show ?thesis using upsert_rows [OF u] in_upsert [of "rows d1"] by (auto simp: m_def)
    qed (use run Inr in simp)
  qed (use run in simp)
qed

text \<open>The journal keeps the metadata of a lease whatever status changes follow.\<close>

lemma set_status_target [simp]:
  "le_Metadata (set_status m l) = le_Metadata l" "le_Target (set_status m l) = le_Target l"
  by (simp_all add: set_status_def)

lemma retired_target:
  "retired rs rs' \<Longrightarrow> q \<in> set rs \<Longrightarrow> \<exists>q' \<in> set rs'. LeaseID q' = LeaseID q \<and> le_Metadata q' = le_Metadata q"
proof (induction rule: retired.induct)
  case (retire rs rs' l)
  then obtain q' where "q' \<in> set rs'" "LeaseID q' = LeaseID q" "le_Metadata q' = le_Metadata q" by blast
  then show ?case by (intro bexI [of _ "set_status l q'"]) auto
qed auto

lemma applied_lease:
  assumes "apply_new_lease E P rc l w d = ((l', rc', None), w', d')"
  shows "LeaseID l' = LeaseID l \<and> le_Metadata l' = le_Metadata l \<and>
    (\<exists>q \<in> set (rows d'). LeaseID q = LeaseID l \<and> le_Metadata q = le_Metadata l)"
proof -
  let ?F = "e_outage E" and ?m = "l\<lparr>le_Status := Lease_active\<rparr>"
  have in_upsert: "l \<in> set (upsert l rs)" for rs by (induction rs) auto
  obtain y d1 where u: "UpsertActionLease ?F l d = (y, d1)" by fastforce
  obtain a w1 where p: "pep_Apply P l w = (a, w1)" by fastforce
  obtain v d2 where s: "UpdateActionLeaseStatus ?F ?m d1 = (v, d2)" by fastforce
  obtain v3 d3 where su: "supersedeWeakerActiveLeases ?F (AdapterID P) ?m (e_now E) d2 = (v3, d3)" by fastforce
  have "y = Inr () \<and> v = Inr () \<and> l' = ?m \<and> d' = d3"
    using assms by (auto simp: apply_new_lease_def Let_def try_db_def failed_apply_def u p s su
        split: sum.splits if_splits)
  note ok = this
  have "l \<in> set (rows d1)" using upsert_rows [OF u] in_upsert [of "rows d"] ok by auto
  moreover have "rows d2 = map (set_status ?m) (rows d1)" using update_result [OF s] ok by auto
  ultimately have q: "set_status ?m l \<in> set (rows d2)" by simp
  have "retired (rows d2) (rows d3)" using keeps_supersede_weaker su by (metis keeps_def snd_conv)
  from retired_target [OF this q] ok show ?thesis by auto
qed

lemma broker_Apply_metadata:
  assumes "broker_Apply E b P r w d = ((l, rc, None), w', d')" "rc_Status rc = StatusApplied" "LeaseID l \<noteq> []"
  shows "(\<exists>n. le_Metadata l \<in> {lease_metadata E b r, AList.update ''broker.renewal_count'' n (lease_metadata E b r)}) \<and>
    (\<exists>q \<in> set (rows d'). LeaseID q = LeaseID l \<and> le_Metadata q = le_Metadata l)"
proof -
  let ?md = "lease_metadata E b r"
  define dec where "dec = (if re_DecisionID r = [] then ''decision-'' @ e_decision_id E else re_DecisionID r)"
  define t where "t = targetString (re_Target r)"
  define rc0 where "rc0 = NewEnforcementReceipt dec (nodeID b) (AdapterID P) StatusSkipped (e_now E)"
  have rc0: "rc_Status rc0 = StatusSkipped" by (simp add: rc0_def NewEnforcementReceipt_def)
  obtain y d0 where g: "autonomyPrerequisiteDenyReason (e_outage E) b (AdapterID P) r t d = (y, d0)" by fastforce
  obtain z d1 where h: "strongerActiveLeaseDenyReason (e_outage E) (AdapterID P) r t d0 = (z, d1)" by fastforce
  note go = assms(1) [unfolded broker_Apply_def Let_def try_db_def dec_def [symmetric] t_def [symmetric]
      rc0_def [symmetric] g prod.case]
  have "Allowed r" "\<not> (ExecutableLevel r = [] \<or> ExecutableLevel r = ''observe'' \<or> re_TTL r \<le> 0)"
    using go assms(3) by (auto simp: no_lease_def split: if_splits)
  moreover from this have "y = Inr [] \<and> z = Inr []"
    using go assms(3) by (auto simp: no_lease_def h split: sum.splits if_splits)
  ultimately have run: "renew_or_apply E b P r dec t ?md rc0 w d1 = ((l, rc, None), w', d')"
    using go by (simp add: h)
  obtain v d2 where n: "renewActiveLease E b P r dec t ?md w d1 = (v, d2)" by fastforce
  note run = run [unfolded renew_or_apply_def n prod.case]
  show ?thesis
  proof (cases v)
    case Not_renewed
    from applied_lease run [unfolded Not_renewed renewal.case] show ?thesis
      by (fastforce simp: new_lease_def Let_def)
  next
    case (Renewed m)
    with run renewed_lease [OF n [unfolded Renewed]] show ?thesis by auto
  next
    case (Renewal_refused m why)
    with run rc0 assms(2) show ?thesis by (auto simp: SetLease_def)
  next
    case (Renewal_failed m e)
    with run show ?thesis by (simp add: failed_apply_def)
  qed
qed

text \<open>
  C30: A lease remembers its target. When the broker has applied a resolution, with a new lease or by
  renewing one, the target that is read back from the lease, and from the row of it in the journal, is
  the one the resolution was made for, with its attributes (a target with granularity and
  value, and no attribute twice).
\<close>

theorem lease_remembers_target:
  assumes "Granularity (re_Target r) \<noteq> []" "Value (re_Target r) \<noteq> []" "distinct (map fst (Attributes (re_Target r)))"
    and "broker_Apply E b P r w d = ((l, rc, None), w', d')" "rc_Status rc = StatusApplied" "LeaseID l \<noteq> []"
  shows "TargetFromLease l = re_Target r \<and>
    (\<exists>q \<in> set (rows d'). LeaseID q = LeaseID l \<and> TargetFromLease q = re_Target r)"
  using broker_Apply_metadata [OF assms(4-6)] target_read_back [OF assms(1-3)] by metis

section \<open>A block ends with its lease\<close>

text \<open>A source of IPv4 that the maps neither deny nor limit by itself.\<close>

definition source_free :: "u8 list \<Rightarrow> source_world \<Rightarrow> bool" where
  "source_free ip w \<longleftrightarrow> xdp_deny_hash (w_maps w) \<lparr>k4_ip = ip\<rparr> = None \<and> xdp_rl_policy4 (w_maps w) \<lparr>k4_ip = ip\<rparr> = None"

lemma observe_frees:
  assumes "source_free ip v"
  shows "source_free ip (w_maps_update (\<lambda>_. w_maps (snd (apply_level X t st LevelObserve now p v))) v')"
  using assms
  by (auto simp: source_free_def apply_level_def TransitionSource_def transitionV4_def transitionV6_def transition_with_def
      write_level_defs split: option.splits ip.splits prod.splits if_splits)

lemma source_free_maps: "w_maps w' = w_maps w \<Longrightarrow> source_free ip w' = source_free ip w"
  by (simp add: source_free_def)

lemma revert_keeps_free:
  assumes "source_free ip w"
  shows "source_free ip (snd (brokered_Revert X p now l w))"
proof -
  obtain r w' where a: "brokered_Revert X p now l w = (r, w')" by fastforce
  from a show ?thesis
  proof (cases rule: brokered_Revert_cases)
    case lifted
    then have "source_free ip w' = source_free ip (w_maps_update (\<lambda>_. w_maps (snd (apply_level X (revert_target l)
        (blank_state\<lparr>Level := ParseFSMLevel (le_Level l)\<rparr>) LevelObserve now p w))) w)"
      by (intro source_free_maps) simp
    then show ?thesis using observe_frees [OF assms] a by simp
  qed (use a assms in simp)
qed

lemma revert_frees:
  assumes "adapter X = Some a" "maps a = Some m" "\<not> dryRun a" "h_Deny4 m" "h_RL4 m"
    and "Value (TargetFromLease l) \<noteq> []" "ParseIP X (Value (TargetFromLease l)) = Some (IPv4 ip)"
  shows "source_free ip (snd (brokered_Revert X p now l w))"
proof -
  obtain r w' where a: "brokered_Revert X p now l w = (r, w')" by fastforce
  from a show ?thesis
  proof (cases rule: brokered_Revert_cases)
    case lifted
    have "source_id (revert_target l) = Value (TargetFromLease l)" by (simp add: source_id_def revert_target_def)
    then have "w_maps w' = del_deny4 m ip (del_rl4 m ip (w_maps w))"
      using assms lifted(4)
      by (simp add: apply_level_def TransitionSource_def transitionV4_def transition_with_def write_level4_def)
    then show ?thesis using assms(4,5) by (simp add: a source_free_def del_deny4_def del_rl4_def)
  qed (use assms(6) in simp)
qed

lemma source_revert_None:
  "Value (TargetFromLease l) \<noteq> [] \<Longrightarrow> fst (pep_Revert (brokeredSourcePEP X p now) l w) = None"
  by (simp add: brokeredSourcePEP_def brokered_Revert_def Let_def split: prod.split)

lemma source_token: "\<not> isl (CurrentFencingToken (brokeredSourcePEP X p now) l w)"
  by (simp add: brokeredSourcePEP_def brokered_CurrentFencingToken_def Let_def)

text \<open>
  C17: A block ends with its lease. When a sweep of the broker runs a second or more after the expiry of an
  active lease on an IPv4 source, with the database and the maps available, and no later lease has taken the
  fencing token of the target, then the source is neither denied nor limited by itself any more, the lease is
  reverted, and no expired lease is active.
\<close>

theorem expired_block_is_lifted:
  assumes "broker_RevertExpired E b (brokeredSourcePEP X p (e_now E)) now w d = (x, w', d')"
    and "e_outage E = (\<lambda>n. None)" "adapter X = Some a" "maps a = Some m" "\<not> dryRun a" "h_Deny4 m" "h_RL4 m"
    and "distinct (map LeaseID (rows d))" "\<forall>r \<in> set (rows d). scannable r \<and> Value (TargetFromLease r) \<noteq> []"
    and "l \<in> set (rows d)" "le_Status l = Lease_active" "le_ExpiresAt l + 10 ^ 9 \<le> now" "now \<noteq> zero_time"
    and "ParseIP X (Value (TargetFromLease l)) = Some (IPv4 ip)"
    and "text_at (currentTokens w) (leaseFencingKey l) \<in> {[], le_Token l}"
  shows "source_free ip w' \<and> (\<forall>r \<in> set (rows d'). LeaseID r = LeaseID l \<longrightarrow> le_Status r = Lease_reverted) \<and>
    (\<forall>r \<in> set (rows d'). \<not> due now r)"
proof -
  let ?P = "brokeredSourcePEP X p (e_now E)"
  let ?ls = "listed_leases now (rows d)"
  have ok: "\<forall>r \<in> set (rows d). scannable r" using assms(9) by blast
  have run: "revert_all E b ?P ?ls [] w (d\<lparr>calls := Suc (calls d)\<rparr>) = (x, w', d')"
    using assms(1) listed [OF ok] by (simp add: broker_RevertExpired_def try_db_def assms(2))
  have mem: "scanned_lease l \<in> set ?ls"
    unfolding listed_set using assms(10,11) seconds_apart [OF assms(12,13)] by (auto simp: due_def)
  have val: "Value (TargetFromLease q) \<noteq> []" if "q \<in> set ?ls" for q
    using that assms(9) unfolding listed_set by auto
  have key: "leaseFencingKey (scanned_lease l) = leaseFencingKey l" by (simp add: leaseFencingKey_def Let_def)
  have "source_free ip w' \<and> (\<forall>r \<in> set (rows d'). LeaseID r = LeaseID (scanned_lease l) \<longrightarrow> le_Status r = Lease_reverted)"
  proof (rule source_fencing.sweep_reverts [OF run mem listed_distinct [OF assms(8)] assms(2)])
    show "text_at (currentTokens w) (leaseFencingKey (scanned_lease l)) \<in> {[], le_Token (scanned_lease l)}"
      using assms(15) by (simp add: key)
    show "fst (pep_Revert ?P q v) = None" if "q \<in> set ?ls" for q v
      by (rule source_revert_None) (rule val [OF that])
    show "source_free ip (snd (pep_Revert ?P (scanned_lease l) v))" for v
      using revert_frees [OF assms(3-7), of "scanned_lease l"] val [OF mem] assms(14) by (simp add: brokeredSourcePEP_def)
    show "source_free ip (snd (pep_Revert ?P q v))" if "source_free ip v" for q v
      using revert_keeps_free [OF that] by (simp add: brokeredSourcePEP_def)
  qed
  moreover have "\<forall>r \<in> set (rows d'). \<not> due now r"
    by (rule sweep_leaves_none_due [OF assms(1,2) ok]) (use assms(9) source_revert_None source_token in simp_all)
  ultimately show ?thesis by simp
qed

section \<open>Overtaken leases\<close>

text \<open>
  C29: An older lease cannot undo a newer one. Once a lease has been applied to a source, the revert of another
  lease on the same target with another token touches neither the maps nor the token, and is a conflict.
\<close>

theorem overtaken_lease_is_fenced:
  assumes "brokered_Apply X l w = (Inr t, w1)" "leaseFencingKey l' = leaseFencingKey l" "le_Token l \<noteq> []"
    and "le_Token l' \<noteq> le_Token l" "broker_Revert E b (brokeredSourcePEP X p (e_now E)) l' w1 d = ((rc, e), w2, d')"
  shows "w_maps w2 = w_maps w1 \<and> currentTokens w2 = currentTokens w1 \<and> rc_Status rc = StatusConflict"
proof -
  have a: "pep_Apply (brokeredSourcePEP X p (e_now E)) l w = (Inr t, w1)" using assms(1) by (simp add: brokeredSourcePEP_def)
  from source_fencing.overtaken [OF a assms(2-5)] show ?thesis by simp
qed

section \<open>Denials of relationships\<close>

text \<open>What the tuple policy of the data plane reads.\<close>

definition tuple_view where
  "tuple_view s = (edge4_cfg s, edge4_allow s, edge4_deny s, edge4_rl_policy s)"

lemma apply_level_tuples: "tuple_view (w_maps (snd (apply_level X t st lv now p w))) = tuple_view (w_maps w)"
proof -
  have "tuple_view (snd (write_level4 C m ip lv p s)) = tuple_view s" "tuple_view (snd (write_level6 C m ip lv p s)) = tuple_view s"
    for C m ip s
    by (cases lv; simp add: write_level_defs store_in_def tuple_view_def split: sum.splits)+
  then have "tuple_view (snd (snd (TransitionSource C a t' st lv now p s))) = tuple_view s" for C a t' s
    by (auto simp: TransitionSource_def transitionV4_def transitionV6_def transition_with_def
        split: option.splits ip.splits prod.splits) (metis snd_conv)+
  then show ?thesis by (auto simp: apply_level_def split: option.splits prod.splits) (metis snd_conv)+
qed

lemma source_sweep_tuples:
  assumes "broker_RevertExpired E b (brokeredSourcePEP X p (e_now E)) now w d = (x, w', d')"
  shows "tuple_view (w_maps w') = tuple_view (w_maps w)"
  using assms
proof (rule sweep_invariant [where I = "\<lambda>w' d'. tuple_view (w_maps w') = tuple_view (w_maps w)"])
  fix l v d1 y v' d2
  assume r: "broker_Revert E b (brokeredSourcePEP X p (e_now E)) l v d1 = (y, v', d2)" "tuple_view (w_maps v) = tuple_view (w_maps w)"
  obtain z u where u: "brokered_Revert X p (e_now E) l v = (z, u)" by fastforce
  then have "tuple_view (w_maps u) = tuple_view (w_maps v)"
    by (cases rule: brokered_Revert_cases) (simp_all add: apply_level_tuples)
  then show "tuple_view (w_maps v') = tuple_view (w_maps w)"
    using r(2) u by (intro revert_state [OF r(1), where Q = "\<lambda>v. tuple_view (w_maps v) = tuple_view (w_maps w)"])
      (simp_all add: brokeredSourcePEP_def)
qed simp

text \<open>
  C27: Relationships stay denied. The sweep of the executor, when the database answers, retires every lease that
  is due, but it never touches the tuple policy: the broker of the sources goes first and takes the leases on
  relationships with its own. So a tuple that was denied for the time of a lease is denied after it.
\<close>

theorem sweep_forgets_relationships:
  assumes "RevertExpired E B (Some (rb, RX)) w r d = (w', r', d')" "e_outage E = (\<lambda>n. None)"
    and "\<forall>l \<in> set (rows d). scannable l \<and> Value (TargetFromLease l) \<noteq> []"
  shows "(\<forall>l \<in> set (rows d'). \<not> due (e_now E) l) \<and> r_tokens r' = r_tokens r \<and>
    tuple_view (r_maps r') = tuple_view (w_maps w) \<and> w_maps w' = r_maps r'"
proof -
  let ?P = "brokeredSourcePEP (bx_executor B) (bx_params B) (e_now E)"
  obtain x w1 d1 where s: "broker_RevertExpired E (bx_broker B) ?P (e_now E) w d = (x, w1, d1)" by (metis prod.exhaust)
  obtain y r2 d2 where t: "broker_RevertExpired E rb (brokeredRelationshipPEP RX (e_now E)) (e_now E) (r\<lparr>r_maps := w_maps w1\<rparr>) d1 = (y, r2, d2)"
    by (metis prod.exhaust)
  have fin: "w' = w1\<lparr>w_maps := r_maps r2\<rparr>" "r' = r2" "d' = d2"
    using assms(1) s t by (auto simp: RevertExpired_def)
  have ok: "\<forall>l \<in> set (rows d). scannable l" using assms(3) by blast
  have none: "\<forall>l \<in> set (rows d1). \<not> due (e_now E) l"
    by (rule sweep_leaves_none_due [OF s assms(2) ok]) (use assms(3) source_revert_None source_token in simp_all)
  moreover have "\<forall>l \<in> set (rows d1). scannable l" by (rule retired_scannable [OF sweep_retires [OF s] ok])
  ultimately have "r2 = r\<lparr>r_maps := w_maps w1\<rparr> \<and> rows d2 = rows d1" by (intro idle_sweep [OF t assms(2)]) simp
  with none fin source_sweep_tuples [OF s] show ?thesis by simp
qed

text \<open>
  And a revert allows instead of forgetting. When the enforcement point of the relationships reverts a lease and
  reports success, it has put the tuple on the allow list; an entry of the deny list is still there.
\<close>

theorem revert_allows_and_keeps_the_denial:
  assumes "relationship_Revert X l w = (None, w')"
    and "rx_adapter X = Some (False, m)" "relationshipTargetFromActionTarget (TargetFromLease l) = Some rt"
    and "relationship_key (rx_ParseIP X (rt_SubjectID rt)) (map_of (rt_Dimension rt)) = Some k"
  shows "edge4_deny (r_maps w') = edge4_deny (r_maps w) \<and> edge4_allow (r_maps w') k = Some 1"
  using assms(1)
proof (cases rule: relationship_Revert_cases)
  case (allowed rt' dry m' s)
  then have "rt' = rt" "dry = False" "m' = m" using assms(2,3) by auto
  with allowed(4) assms(4) have "AllowEdge4 (rx_control X) False m k (r_maps w) = Inr s" by (simp add: AllowRelationship_def)
  then have "store_in (\<lambda>x. edge4_allow_update (\<lambda>_. x)) (r_maps w) (map_update_elem (c_edge_allow (rx_control X)) k 1 (edge4_allow (r_maps w))) = Inr s"
    by (auto simp: AllowEdge4_def WriteEdge4Allow_def lift_client_def on_error_def split: if_splits sum.splits)
  then show ?thesis using allowed(5) by (auto simp: store_in_Inr dest!: map_update_elem_Inr)
qed simp

section \<open>Renewals\<close>

lemma strength_bound: "actionLeaseStrength a lv \<le> 300"
  by (simp add: actionLeaseStrength_def)

lemma block_strength: "actionLeaseStrength a ''block'' = 300"
  by (simp add: actionLeaseStrength_def TrimSpace_def is_space_def)

lemma find_any_slot:
  assumes "\<forall>q \<in> set (rows d). scannable q"
  shows "\<exists>y. FindActiveActionLease (\<lambda>n. None) a t act lv d = (Inr y, d\<lparr>calls := Suc (calls d)\<rparr>)"
proof (cases "newest (filter (matches a t act lv) (rows d))")
  case (Some q)
  then have "scannable q" using newest_Some [OF Some] assms by simp
  then show ?thesis using Some by (simp add: FindActiveActionLease_def db_call_def scanActionLease_def scannable_def)
qed (simp add: FindActiveActionLease_def db_call_def)

lemma strongest_exists:
  assumes "\<forall>q \<in> set (rows d). scannable q"
  shows "\<exists>y d'. strongest_of (\<lambda>n. None) a t sl best d = (Inr y, d') \<and> rows d' = rows d"
  using assms
proof (induction sl arbitrary: best d)
  case (Cons x sl)
  obtain act lv where x: "x = (act, lv)" by (cases x)
  obtain y where "FindActiveActionLease (\<lambda>n. None) a t act lv d = (Inr y, d\<lparr>calls := Suc (calls d)\<rparr>)"
    using find_any_slot [OF Cons.prems] by blast
  then show ?case
    using Cons.IH [of "d\<lparr>calls := Suc (calls d)\<rparr>"] Cons.prems by (simp add: x then_db_def)
qed (simp add: done_db_def)

lemma block_passes_gate:
  assumes "\<forall>q \<in> set (rows d). scannable q" "ExecutableLevel r = ''block''"
  shows "\<exists>d'. strongerActiveLeaseDenyReason (\<lambda>n. None) a r t d = (Inr [], d') \<and> rows d' = rows d"
proof -
  obtain y d' where "strongestActiveLease (\<lambda>n. None) a t (ExecutableAction r) d = (Inr y, d')" "rows d' = rows d"
    using strongest_exists [OF assms(1)] unfolding strongestActiveLease_def by blast
  then show ?thesis
    using strength_bound
    by (auto simp: strongerActiveLeaseDenyReason_def assms(2) block_strength Let_def then_db_def done_db_def split: option.split)
qed

text \<open>The active lease of a slot is the one that is found.\<close>

lemma find_the_lease:
  assumes "one_active (rows d)" "\<forall>q \<in> set (rows d). scannable q" "l \<in> set (rows d)" "matches a t act lv l"
  shows "FindActiveActionLease (\<lambda>n. None) a t act lv d = (Inr (Some (scanned_lease l)), d\<lparr>calls := Suc (calls d)\<rparr>)"
proof -
  obtain q where q: "newest (filter (matches a t act lv) (rows d)) = Some q"
    using assms(3,4) newest_None [of "filter (matches a t act lv) (rows d)"] by (auto simp: filter_empty_conv)
  from newest_Some [OF q] have m: "q \<in> set (rows d)" "matches a t act lv q" by simp_all
  have "LeaseID q = LeaseID l"
    using one_activeD(2) [OF assms(1) m(1) assms(3)] m(2) assms(4) by (simp add: matches_slot)
  then have "q = l" using one_activeD(1) [OF assms(1)] m(1) assms(3) by (auto simp: distinct_map dest: inj_onD)
  then show ?thesis
    using q assms(2,3) by (simp add: FindActiveActionLease_def db_call_def scanActionLease_def scannable_def scanned_lease_def)
qed

lemma lease_renewed:
  assumes "e_outage E = (\<lambda>n. None)" "maxRenewals b \<le> 0" "one_active (rows d)" "\<forall>q \<in> set (rows d). scannable q"
    and "l \<in> set (rows d)" "matches (AdapterID P) t (ExecutableAction r) (ExecutableLevel r) l"
    and "executionMetadataChanged (le_Metadata l) md = None" "CurrentFencingToken P (scanned_lease l) w = Inr (le_Token l)"
  obtains m d' where "renewActiveLease E b P r dec t md w d = (Renewed m, d')" "LeaseID m = LeaseID l"
    "le_Level m = le_Level l" "le_ExpiresAt m = e_now E + re_TTL r"
proof -
  have md: "le_Metadata (scanned_lease l) = le_Metadata l" by (simp add: scanned_lease_def)
  have up: "UpsertActionLease (\<lambda>n. None) m d = (Inr (), d\<lparr>calls := Suc (calls d), rows := upsert m (rows d)\<rparr>)" for m d
    by (simp add: UpsertActionLease_def db_call_def)
  have "\<exists>m d'. renewActiveLease E b P r dec t md w d = (Renewed m, d') \<and> LeaseID m = LeaseID l \<and>
      le_Level m = le_Level l \<and> le_ExpiresAt m = e_now E + re_TTL r"
    using assms(2,7,8)
    by (simp add: renewActiveLease_def Let_def try_db_def assms(1) find_the_lease [OF assms(3-6)] md up)
  then show thesis using that by blast
qed

text \<open>
  C28: A renewal enforces nothing. While a lease that blocks a target is active and its fencing token current, another
  decision to block it renews the lease and reports it applied, at level block, but does not touch the maps. So when
  an operator or a downgraded decision has lifted the block in between, the source stays free.
\<close>

theorem renewal_enforces_nothing:
  assumes "brokered_ApplySource E B target st r params now w d = ((st', result), w', d')"
    and "e_outage E = (\<lambda>n. None)" "autonomyAllowances (bx_broker B) = []" "maxRenewals (bx_broker B) \<le> 0"
    and "Allowed r" "re_TTL r > 0" "ExecutableLevel r = ''block''"
    and "one_active (rows d)" "\<forall>q \<in> set (rows d). scannable q" "l \<in> set (rows d)" "LeaseID l \<noteq> []"
    and "matches ''kliq-source-pep'' (targetString (re_Target r)) (ExecutableAction r) ''block'' l"
    and "executionMetadataChanged (le_Metadata l) (lease_metadata E (bx_broker B)
        (resolutionWithExecutionMetadata r (enforcementParamsForResolution params r))) = None"
    and "text_at (currentTokens w) (leaseFencingKey l) \<in> {[], le_Token l}"
  shows "w_maps w' = w_maps w \<and> Level st' = LevelBlock \<and> rs_Status result = ''applied''"
proof -
  let ?p = "enforcementParamsForResolution params r" and ?X = "bx_executor B" and ?b = "bx_broker B"
  let ?r = "resolutionWithExecutionMetadata r ?p" and ?P = "brokeredSourcePEP ?X (bx_params B) (e_now E)"
  let ?v = "w\<lparr>w_active := Some \<lparr>c_target = target, c_state = st, c_resolution = ?r, c_params = ?p, c_now = now\<rparr>, w_last := None\<rparr>"
  have r: "Allowed ?r" "re_TTL ?r = re_TTL r" "ExecutableLevel ?r = ''block''" "ExecutableAction ?r = ExecutableAction r"
    "re_Target ?r = re_Target r"
    using assms(5,7) by (simp_all add: resolutionWithExecutionMetadata_def)
  have P: "AdapterID ?P = ''kliq-source-pep''" by (simp add: brokeredSourcePEP_def)
  have key: "leaseFencingKey (scanned_lease l) = leaseFencingKey l" by (simp add: leaseFencingKey_def Let_def)
  obtain d1 where d1: "strongerActiveLeaseDenyReason (\<lambda>n. None) (AdapterID ?P) ?r (targetString (re_Target ?r)) d = (Inr [], d1)"
    "rows d1 = rows d" using block_passes_gate [OF assms(9) r(3)] by blast
  have tok: "CurrentFencingToken ?P (scanned_lease l) ?v = Inr (le_Token l)"
    using assms(14) by (auto simp: brokeredSourcePEP_def brokered_CurrentFencingToken_def Let_def key)
  let ?dec = "if re_DecisionID ?r = [] then ''decision-'' @ e_decision_id E else re_DecisionID ?r"
  obtain m d2 where m: "renewActiveLease E ?b ?P ?r ?dec (targetString (re_Target ?r)) (lease_metadata E ?b ?r) ?v d1 = (Renewed m, d2)"
    "LeaseID m = LeaseID l" "le_Level m = le_Level l"
    by (rule lease_renewed [of E ?b d1 l ?P "targetString (re_Target ?r)" ?r "lease_metadata E ?b ?r" ?v ?dec])
      (use assms tok d1(2) P r in simp_all)
  have lv: "le_Level m = ''block''" using m(3) assms(12) by (simp add: matches_def)
  have "\<exists>rc. broker_Apply E ?b ?P ?r ?v d = ((m, rc, None), ?v, d2)"
    using assms(2,3,6) d1(1) m(1) r(1-3)
    by (simp add: broker_Apply_def Let_def autonomyPrerequisiteDenyReason_def done_db_def try_db_def renew_or_apply_def)
  then obtain rc where "broker_Apply E ?b ?P ?r ?v d = ((m, rc, None), ?v, d2)" by blast
  then show ?thesis
    using assms(1,5,6,7,11) m(2) lv
    by (auto simp: brokered_ApplySource_def shouldBrokerLease_def applyBrokered_def Let_def no_result_def ParseFSMLevel_def)
qed

section \<open>A block that is decided is enforced\<close>

lemma set_status_other: "LeaseID m \<noteq> LeaseID l \<Longrightarrow> set_status m l = l"
  by (simp add: set_status_def)

text \<open>Without outages superseding succeeds, and spares the lease it is done for.\<close>

lemma supersede_spares:
  assumes "\<forall>q \<in> set (rows d). scannable q" "l \<in> set (rows d)"
  shows "\<exists>d'. supersede_slots (\<lambda>n. None) a l now sl d = (Inr (), d') \<and> l \<in> set (rows d')"
  using assms
proof (induction sl arbitrary: d)
  case (Cons x sl)
  obtain act lv where x: "x = (act, lv)" by (cases x)
  let ?d = "d\<lparr>calls := Suc (calls d)\<rparr>"
  obtain y where f: "FindActiveActionLease (\<lambda>n. None) a (le_Target l) act lv d = (Inr y, ?d)"
    using find_any_slot [OF Cons.prems(1)] by blast
  show ?case
  proof (cases "\<exists>q. y = Some q \<and> LeaseID q \<noteq> LeaseID l \<and>
      actionLeaseStrength (le_Action q) (le_Level q) < actionLeaseStrength (le_Action l) (le_Level l)")
    case True
    then obtain q where q: "y = Some q" "LeaseID q \<noteq> LeaseID l"
      "actionLeaseStrength (le_Action q) (le_Level q) < actionLeaseStrength (le_Action l) (le_Level l)" by blast
    define m where "m = q\<lparr>le_Status := Lease_superseded, LastError := superseded_text l, le_RevertedAt := Some now\<rparr>"
    let ?d' = "?d\<lparr>calls := Suc (Suc (calls d)), rows := map (set_status m) (rows d)\<rparr>"
    have u: "UpdateActionLeaseStatus (\<lambda>n. None) m ?d = (Inr (), ?d')"
      by (simp add: UpdateActionLeaseStatus_def db_call_def)
    have "LeaseID m \<noteq> LeaseID l" using q(2) by (simp add: m_def)
    then have "l \<in> set (rows ?d')" using Cons.prems(2) set_status_other [of m l] by force
    moreover have "\<forall>q \<in> set (rows ?d'). scannable q"
      using Cons.prems(1) by (auto simp: scannable_def set_status_def)
    ultimately show ?thesis using Cons.IH [of ?d'] q f u by (simp add: x then_db_def m_def [symmetric])
  next
    case False
    then show ?thesis using Cons.IH [of ?d] Cons.prems f by (auto simp: x then_db_def not_less split: option.split)
  qed
qed (simp add: done_db_def)

lemma no_lease_found:
  assumes "slot_free (a, t, act, lv) (rows d)"
  shows "FindActiveActionLease (\<lambda>n. None) a t act lv d = (Inr None, d\<lparr>calls := Suc (calls d)\<rparr>)"
proof -
  have "filter (matches a t act lv) (rows d) = []"
    using assms by (auto simp: slot_free_def matches_slot filter_empty_conv)
  then show ?thesis by (simp add: FindActiveActionLease_def db_call_def)
qed

text \<open>When the enforcement point takes a new lease, the lease is active in the end.\<close>

lemma new_lease_taken:
  assumes "e_outage E = (\<lambda>n. None)" "\<forall>q \<in> set (rows d). scannable q" "LeaseID l \<notin> LeaseID ` set (rows d)" "scannable l"
    and "pep_Apply P l w = (Inr (le_Token l), w')"
  shows "\<exists>rc' d'. apply_new_lease E P rc l w d = ((l\<lparr>le_Status := Lease_active\<rparr>, rc', None), w', d') \<and>
    l\<lparr>le_Status := Lease_active\<rparr> \<in> set (rows d')"
proof -
  let ?l = "l\<lparr>le_Status := Lease_active\<rparr>"
  let ?d1 = "d\<lparr>calls := Suc (calls d), rows := upsert l (rows d)\<rparr>"
  let ?d2 = "?d1\<lparr>calls := Suc (Suc (calls d)), rows := map (set_status ?l) (upsert l (rows d))\<rparr>"
  have up: "UpsertActionLease (\<lambda>n. None) l d = (Inr (), ?d1)" by (simp add: UpsertActionLease_def db_call_def)
  have st: "UpdateActionLeaseStatus (\<lambda>n. None) ?l ?d1 = (Inr (), ?d2)" by (simp add: UpdateActionLeaseStatus_def db_call_def)
  have "set_status ?l l = ?l" by (simp add: set_status_def)
  then have mem: "?l \<in> set (rows ?d2)" by (simp add: upsert_fresh [OF assms(3)])
  have "\<forall>q \<in> set (rows ?d2). scannable q"
    using assms(2,4) by (auto simp: upsert_fresh [OF assms(3)] scannable_def set_status_def)
  from supersede_spares [OF this mem] obtain d3 where
    s: "\<exists>d3. supersedeWeakerActiveLeases (\<lambda>n. None) (AdapterID P) ?l (e_now E) ?d2 = (Inr (), d3) \<and> ?l \<in> set (rows d3)"
    using mem by (auto simp: supersedeWeakerActiveLeases_def done_db_def)
  then obtain d3 where "supersedeWeakerActiveLeases (\<lambda>n. None) (AdapterID P) ?l (e_now E) ?d2 = (Inr (), d3)" "?l \<in> set (rows d3)"
    by blast
  with st up assms(5) show ?thesis by (simp add: apply_new_lease_def Let_def try_db_def assms(1))
qed

text \<open>The enforcement point takes a block exactly when its transition succeeds.\<close>

lemma block_applied:
  assumes "w_active w = Some c" "level_of (c_resolution c) = LevelBlock" "Allowed (c_resolution c)"
    and "control_ok (x_control X)" "adapter X = Some a" "maps a = Some m" "\<not> dryRun a" "h_Deny4 m" "h_RL4 m"
    and "ParseIP X (source_id (c_target c)) = Some (IPv4 ip)"
  obtains (failed) w' e st y where "brokered_Apply X l w = (Inl e, w')" "w_last w' = Some (st, y)" "rs_Status y = ''failed''"
      "fst (snd (transitionV4 (x_control X) a ip (c_state c) LevelBlock (c_now c) (c_params c) (w_maps w))) \<noteq> None"
    | (taken) w' st y where "fst (snd (transitionV4 (x_control X) a ip (c_state c) LevelBlock (c_now c) (c_params c) (w_maps w))) = None"
      "brokered_Apply X l w = (Inr (le_Token l), w')" "w_last w' = Some (st, y)" "Level st = LevelBlock"
      "rs_Status y \<in> {''applied'', ''downgraded''}" "text_at (currentTokens w') (leaseFencingKey l) = le_Token l"
      "xdp_deny_hash (w_maps w') \<lparr>k4_ip = ip\<rparr> = Some 1"
proof -
  obtain st' e s where t: "transitionV4 (x_control X) a ip (c_state c) LevelBlock (c_now c) (c_params c) (w_maps w) = (st', e, s)"
    by (metis prod.exhaust)
  then have T: "TransitionSource (x_control X) a (Some (IPv4 ip)) (c_state c) LevelBlock (c_now c) (c_params c) (w_maps w) = (st', e, s)"
    by (simp add: TransitionSource_def)
  have lv: "ParseFSMLevel (ExecutableLevel (c_resolution c)) = LevelBlock" using assms(2,3) by (simp add: level_of_def)
  show thesis
  proof (cases e)
    case (Some er)
    then have "\<exists>w' st y er'. brokered_Apply X l w = (Inl er', w') \<and> w_last w' = Some (st, y) \<and> rs_Status y = ''failed''"
      using T assms(1,3,5,10) lv by (simp add: brokered_Apply_def ApplySource_def apply_level_def Let_def)
    then show thesis using failed t Some by (metis fst_conv option.distinct(1) snd_conv)
  next
    case None
    have n: "fst (snd (transitionV4 (x_control X) a ip (c_state c) LevelBlock (c_now c) (c_params c) (w_maps w))) = None"
      using t None by simp
    note t = transition_success [OF t [unfolded None] assms(7,6)]
    have "Level st' = LevelBlock" by (simp add: t(1) applied.tr_level)
    moreover have "xdp_deny_hash s \<lparr>k4_ip = ip\<rparr> = Some 1" using write_level4_result [OF assms(4,8,9) t(2)] by simp
    ultimately have "\<exists>w' st y. brokered_Apply X l w = (Inr (le_Token l), w') \<and> w_last w' = Some (st, y) \<and> Level st = LevelBlock \<and>
        rs_Status y \<in> {''applied'', ''downgraded''} \<and> text_at (currentTokens w') (leaseFencingKey l) = le_Token l \<and>
        xdp_deny_hash (w_maps w') \<lparr>k4_ip = ip\<rparr> = Some 1"
      using T None assms(1,3,5,10) lv
      by (cases "DenyReason (c_resolution c) = []")
        (simp_all add: brokered_Apply_def ApplySource_def apply_level_def Let_def)
    then show thesis using taken n by blast
  qed
qed

text \<open>
  C16: A block that is decided is enforced. When the slot of a block is free and no call of the database fails, a decision
  to block an IPv4 source for some time fails exactly when the adapter cannot move the source; otherwise the source is on
  the deny list, and the journal has an active lease for the target that expires after that time and holds the
  fencing token.
\<close>

theorem decided_block_is_enforced:
  assumes "brokered_ApplySource E B target st r params now w d = ((st', result), w', d')"
    and "e_outage E = (\<lambda>n. None)" "autonomyAllowances (bx_broker B) = []"
    and "Allowed r" "re_TTL r > 0" "ExecutableLevel r = ''block''"
    and "\<forall>q \<in> set (rows d). scannable q" "fresh_id E d" "e_now E \<noteq> zero_time" "e_now E + re_TTL r \<noteq> zero_time"
    and "slot_free (''kliq-source-pep'', targetString (re_Target r), ExecutableAction r, ''block'') (rows d)"
    and "control_ok (x_control (bx_executor B))" "adapter (bx_executor B) = Some a" "maps a = Some m" "\<not> dryRun a" "h_Deny4 m" "h_RL4 m"
    and "ParseIP (bx_executor B) (source_id target) = Some (IPv4 ip)"
  shows "if fst (snd (transitionV4 (x_control (bx_executor B)) a ip st LevelBlock now
           (enforcementParamsForResolution params r) (w_maps w))) \<noteq> None
    then rs_Status result = ''failed''
    else rs_Status result \<in> {''applied'', ''downgraded''} \<and> Level st' = LevelBlock \<and>
      xdp_deny_hash (w_maps w') \<lparr>k4_ip = ip\<rparr> = Some 1 \<and>
      (\<exists>l \<in> set (rows d'). le_Status l = Lease_active \<and> le_Target l = targetString (re_Target r) \<and>
         le_ExpiresAt l = e_now E + re_TTL r \<and> text_at (currentTokens w') (leaseFencingKey l) = le_Token l)"
proof -
  let ?p = "enforcementParamsForResolution params r" and ?X = "bx_executor B" and ?b = "bx_broker B"
  let ?r = "resolutionWithExecutionMetadata r ?p" and ?P = "brokeredSourcePEP ?X (bx_params B) (e_now E)"
  let ?c = "\<lparr>c_target = target, c_state = st, c_resolution = ?r, c_params = ?p, c_now = now\<rparr>"
  let ?v = "w\<lparr>w_active := Some ?c, w_last := None\<rparr>" and ?t = "targetString (re_Target ?r)"
  have r: "Allowed ?r" "re_TTL ?r = re_TTL r" "ExecutableLevel ?r = ''block''" "ExecutableAction ?r = ExecutableAction r"
    "re_Target ?r = re_Target r"
    using assms(4,6) by (simp_all add: resolutionWithExecutionMetadata_def)
  have P: "AdapterID ?P = ''kliq-source-pep''" "pep_Apply ?P = brokered_Apply ?X" by (simp_all add: brokeredSourcePEP_def)
  have lv: "level_of (c_resolution ?c) = LevelBlock" using r by (simp add: level_of_def ParseFSMLevel_def)
  obtain d1 where d1: "strongerActiveLeaseDenyReason (\<lambda>n. None) (AdapterID ?P) ?r ?t d = (Inr [], d1)" "rows d1 = rows d"
    using block_passes_gate [OF assms(7) r(3)] by blast
  let ?d2 = "d1\<lparr>calls := Suc (calls d1)\<rparr>"
  have free: "slot_free (AdapterID ?P, ?t, ExecutableAction ?r, ExecutableLevel ?r) (rows d1)"
    using assms(11) d1(2) P(1) r by simp
  have none: "renewActiveLease E ?b ?P ?r dec ?t md ?v d1 = (Not_renewed, ?d2)" for dec md
    using no_lease_found [OF free] by (simp add: renewActiveLease_def Let_def try_db_def assms(2))
  define dec where "dec = (if re_DecisionID ?r = [] then ''decision-'' @ e_decision_id E else re_DecisionID ?r)"
  define l where "l = new_lease E ?b (AdapterID ?P) ?r dec ?t (lease_metadata E ?b ?r)"
  have l: "LeaseID l \<notin> LeaseID ` set (rows ?d2)" "scannable l" "le_Target l = ?t" "le_ExpiresAt l = e_now E + re_TTL r"
    using assms(8-10) d1(2) r(2) by (simp_all add: l_def fresh_id_def) (simp_all add: new_lease_def Let_def scannable_def)
  have "\<exists>rc. broker_Apply E ?b ?P ?r ?v d = apply_new_lease E ?P rc l ?v ?d2"
    using assms(2,3,5) d1(1) r(1-3) none
    unfolding broker_Apply_def Let_def dec_def [symmetric]
    by (simp add: autonomyPrerequisiteDenyReason_def done_db_def try_db_def renew_or_apply_def l_def) (rule exI, rule refl)
  then obtain rc where ap: "broker_Apply E ?b ?P ?r ?v d = apply_new_lease E ?P rc l ?v ?d2" by blast
  have lease: "shouldBrokerLease r" using assms(4-6) by (simp add: shouldBrokerLease_def)
  have c: "w_active ?v = Some ?c" "Allowed (c_resolution ?c)" "ParseIP ?X (source_id (c_target ?c)) = Some (IPv4 ip)"
    using r(1) assms(18) by simp_all
  show ?thesis
  proof (cases rule: block_applied [OF c(1) lv c(2) assms(12-17) c(3), of l, case_names failed taken])
    case (failed w1 e s y)
    have "\<exists>x d3. apply_new_lease E ?P rc l ?v ?d2 = ((fst x, snd x, Some e), w1, d3)"
      using failed(1) by (simp add: apply_new_lease_def Let_def try_db_def assms(2) P(2) UpsertActionLease_def db_call_def failed_apply_def)
    with ap obtain x d3 where "broker_Apply E ?b ?P ?r ?v d = ((fst x, snd x, Some e), w1, d3)" by metis
    then have "rs_Status result = ''failed''"
      using assms(1) lease failed(2,3) by (simp add: brokered_ApplySource_def applyBrokered_def Let_def)
    then show ?thesis using failed(4) by simp
  next
    case (taken w1 s y)
    have "\<forall>q \<in> set (rows ?d2). scannable q" using assms(7) d1(2) by simp
    from new_lease_taken [OF assms(2) this l(1,2), of ?P ?v w1 rc] taken(2) P(2) obtain rc' d3 where
      n: "apply_new_lease E ?P rc l ?v ?d2 = ((l\<lparr>le_Status := Lease_active\<rparr>, rc', None), w1, d3)"
      "l\<lparr>le_Status := Lease_active\<rparr> \<in> set (rows d3)" by auto
    have "LeaseID l \<noteq> []" by (simp add: l_def)
    then have fin: "st' = s" "result = y" "w' = w1\<lparr>w_active := None, w_last := None\<rparr>" "d' = d3"
      using assms(1) lease ap n(1) taken(3,5) by (auto simp: brokered_ApplySource_def applyBrokered_def Let_def)
    have key: "leaseFencingKey (l\<lparr>le_Status := Lease_active\<rparr>) = leaseFencingKey l"
      by (simp add: leaseFencingKey_def TargetFromLease_def Let_def cong: if_cong option.case_cong)
    have "\<exists>l \<in> set (rows d'). le_Status l = Lease_active \<and> le_Target l = targetString (re_Target r) \<and>
         le_ExpiresAt l = e_now E + re_TTL r \<and> text_at (currentTokens w') (leaseFencingKey l) = le_Token l"
      using n(2) taken(6) l(3,4) r(5) key
      by (simp add: fin) (intro bexI [of _ "l\<lparr>le_Status := Lease_active\<rparr>"]; simp)
    then show ?thesis using taken(1,4,5,7) fin(1-3) by simp
  qed
qed

section \<open>Instances\<close>

text \<open>A source is blocked for a minute, at the first second after the epoch.\<close>

definition lease_env :: "instant \<Rightarrow> string \<Rightarrow> broker_env" where
  "lease_env t i =
     \<lparr>e_now = t, e_outage = (\<lambda>n. None), e_decision_id = i, e_lease_id = i, e_sha256_hex = (\<lambda>s. ''5eed''), e_printer = (\<lambda>v. [])\<rparr>"

lemma lease_env_printer [simp]: "e_printer (lease_env t i) = (\<lambda>v. [])"
  by (simp add: lease_env_def)

definition lease_executor :: executor where
  "lease_executor = \<lparr>adapter = Some demo_pep, sidecars = [''audit''], x_control = demo_control,
     ParseIP = (\<lambda>s. Some (IPv4 [10, 0, 0, 1])), error_text = (\<lambda>e. ''failed'')\<rparr>"

definition lease_broker :: broker where
  "lease_broker = \<lparr>nodeID = ''node'', autonomyAllowances = [], maxRenewals = 0, requireAuditReceipt = False\<rparr>"

definition lease_loop :: brokered_executor where
  "lease_loop = \<lparr>bx_executor = lease_executor, bx_broker = lease_broker, bx_params = demo_params\<rparr>"

definition block_resolution :: action_resolution where
  "block_resolution = \<lparr>re_ProposalID = ''p1'', Allowed = True, DenyReason = [], RequestedAction = ''enforce.traffic.drop'',
     RequestedLevel = ''block'', ExecutableAction = ''enforce.traffic.drop'', ExecutableLevel = ''block'',
     re_Target = \<lparr>Granularity = ''source'', Value = ''10.0.0.1'', Attributes = []\<rparr>, re_Parameters = [],
     re_TTL = 60000000000, re_PolicyID = ''pol'', re_DecisionID = ''d1''\<rparr>"

abbreviation block_resolved :: action_resolution where
  "block_resolved \<equiv> resolutionWithExecutionMetadata block_resolution (enforcementParamsForResolution demo_params block_resolution)"

definition block_lease :: action_lease where
  "block_lease = (new_lease (lease_env 1000000000 ''1'') lease_broker ''kliq-source-pep'' block_resolved ''d1'' ''source:10.0.0.1''
     (lease_metadata (lease_env 1000000000 ''1'') lease_broker block_resolved))\<lparr>le_Status := Lease_active\<rparr>"

definition blank_world :: source_world where
  "blank_world = \<lparr>w_maps = fresh_shield, w_notified = [], currentTokens = [], w_active = None, w_last = None\<rparr>"

lemma block_resolved_fields [simp]:
  "re_Target block_resolved = \<lparr>Granularity = ''source'', Value = ''10.0.0.1'', Attributes = []\<rparr>"
  "re_TTL block_resolved = 60000000000" "ExecutableAction block_resolved = ''enforce.traffic.drop''"
  "ExecutableLevel block_resolved = ''block''"
  by (simp_all add: resolutionWithExecutionMetadata_def block_resolution_def)

lemma block_lease_fields [simp]:
  "LeaseID block_lease = ''lease-1''" "le_Status block_lease = Lease_active" "le_AppliedAt block_lease = 1000000000"
  "le_ExpiresAt block_lease = 61000000000" "le_Target block_lease = ''source:10.0.0.1''" "le_Token block_lease = ''5eed''"
  "le_AdapterID block_lease = ''kliq-source-pep''" "le_Action block_lease = ''enforce.traffic.drop''"
  "le_Level block_lease = ''block''"
  by (simp_all add: block_lease_def new_lease_def Let_def lease_env_def buildFencingToken_def)

lemma block_lease_metadata:
  "le_Metadata block_lease = lease_metadata (lease_env t i) lease_broker block_resolved"
  by (simp add: block_lease_def new_lease_def Let_def lease_metadata_def cong: if_cong)

lemma block_lease_target [simp]: "TargetFromLease block_lease = \<lparr>Granularity = ''source'', Value = ''10.0.0.1'', Attributes = []\<rparr>"
  using target_read_back [of block_resolved block_lease "lease_env 0 []" lease_broker] block_lease_metadata by simp

lemma block_lease_ok [simp]: "scannable block_lease" "one_active [block_lease]"
  by (simp_all add: scannable_def zero_time_def one_active_def)

lemma block_key [simp]: "leaseFencingKey block_lease = ''source:10.0.0.1''"
  by (simp add: leaseFencingKey_def)

lemma lease_executor_ok: "adapter lease_executor = Some demo_pep" "maps demo_pep = Some all_open"
  "ParseIP lease_executor s = Some (IPv4 [10, 0, 0, 1])"
  by (simp_all add: lease_executor_def demo_pep_def)

theorem decided_block_is_enforced_witness:
  "\<exists>st' result w' d'. brokered_ApplySource (lease_env 1000000000 ''1'') lease_loop (sourceTargetFromID ''10.0.0.1'') blank_state
       block_resolution demo_params 1000000000 blank_world \<lparr>rows = [], calls = 0\<rparr> = ((st', result), w', d') \<and>
     Level st' = LevelBlock \<and> xdp_deny_hash (w_maps w') \<lparr>k4_ip = [10, 0, 0, 1]\<rparr> = Some 1"
proof -
  let ?E = "lease_env 1000000000 ''1''"
  obtain st' result w' d' where run: "brokered_ApplySource ?E lease_loop (sourceTargetFromID ''10.0.0.1'') blank_state
       block_resolution demo_params 1000000000 blank_world \<lparr>rows = [], calls = 0\<rparr> = ((st', result), w', d')"
    by (metis prod.exhaust)
  have deny: "xdp_deny_hash (w_maps blank_world) = (\<lambda>_. None)" by (simp add: blank_world_def fresh_shield_def)
  have ok: "fst (snd (transitionV4 demo_control demo_pep [10, 0, 0, 1] st LevelBlock now p (w_maps blank_world))) = None" for st :: fsm_state and now p
    by (simp add: transitionV4_def transition_with_def write_level_defs demo_pep_def all_open_def store_in_def
        map_update_elem_def demo_control_def hash_update_def xdp_deny_hash_map_def deny)
  have loop: "bx_executor lease_loop = lease_executor" "x_control lease_executor = demo_control" "bx_broker lease_loop = lease_broker"
    by (simp_all add: lease_loop_def lease_executor_def)
  have "Level st' = LevelBlock \<and> xdp_deny_hash (w_maps w') \<lparr>k4_ip = [10, 0, 0, 1]\<rparr> = Some 1"
    using decided_block_is_enforced [OF run, of demo_pep all_open "[10, 0, 0, 1]"] demo_pep_ok demo_control_ok lease_executor_ok ok
    by (simp add: loop lease_env_def lease_broker_def block_resolution_def zero_time_def slot_free_def fresh_id_def)
  with run show ?thesis by blast
qed

text \<open>Half a minute later the same block is decided again, and the lease is renewed.\<close>

lemma block_renewed:
  "\<exists>l rc w' d'. broker_Apply (lease_env 30000000000 ''2'') lease_broker (brokeredSourcePEP lease_executor demo_params 30000000000)
     block_resolved blank_world \<lparr>rows = [block_lease], calls = 0\<rparr> = ((l, rc, None), w', d') \<and>
   rc_Status rc = StatusApplied \<and> LeaseID l = ''lease-1''"
proof -
  let ?E = "lease_env 30000000000 ''2''" and ?P = "brokeredSourcePEP lease_executor demo_params 30000000000"
  let ?r = block_resolved and ?t = "targetString (re_Target block_resolved)" and ?md = "lease_metadata (lease_env 30000000000 ''2'') lease_broker block_resolved"
  have E: "e_outage ?E = (\<lambda>n. None)" by (simp add: lease_env_def)
  have b: "autonomyAllowances lease_broker = []" "maxRenewals lease_broker = 0" by (simp_all add: lease_broker_def)
  have r: "Allowed ?r" "re_TTL ?r > 0" "ExecutableLevel ?r = ''block''" "ExecutableAction ?r = ''enforce.traffic.drop''"
    by (simp_all add: resolutionWithExecutionMetadata_def block_resolution_def)
  have same: "executionMetadataChanged (le_Metadata block_lease) ?md = None"
    by (simp add: block_lease_metadata [of 30000000000 "''2''"] executionMetadataChanged_def find_None_iff)
  have m: "matches (AdapterID ?P) ?t (ExecutableAction ?r) (ExecutableLevel ?r) block_lease"
    by (simp add: matches_def brokeredSourcePEP_def r targetString_def)
  have k: "leaseFencingKey (scanned_lease block_lease) = ''source:10.0.0.1''" by (simp add: leaseFencingKey_def)
  have tok: "CurrentFencingToken ?P (scanned_lease block_lease) blank_world = Inr (le_Token block_lease)"
    by (simp add: brokeredSourcePEP_def brokered_CurrentFencingToken_def Let_def k blank_world_def text_at_def)
  obtain d1 where d1: "strongerActiveLeaseDenyReason (\<lambda>n. None) (AdapterID ?P) ?r ?t \<lparr>rows = [block_lease], calls = 0\<rparr> = (Inr [], d1)"
    "rows d1 = [block_lease]" using block_passes_gate [of "\<lparr>rows = [block_lease], calls = 0\<rparr>" ?r] r(3) by auto
  let ?dec = "if re_DecisionID ?r = [] then ''decision-'' @ e_decision_id ?E else re_DecisionID ?r"
  have mx: "maxRenewals lease_broker \<le> 0" using b(2) by (rule eq_refl)
  have j: "one_active (rows d1)" "\<forall>q \<in> set (rows d1). scannable q" "block_lease \<in> set (rows d1)" by (simp_all add: d1(2))
  obtain l d2 where l: "renewActiveLease ?E lease_broker ?P ?r ?dec ?t ?md blank_world d1 = (Renewed l, d2)"
    "LeaseID l = LeaseID block_lease"
    using lease_renewed [where d = d1 and dec = ?dec, OF E mx j m same tok] by metis
  have "\<exists>rc. broker_Apply ?E lease_broker ?P ?r blank_world \<lparr>rows = [block_lease], calls = 0\<rparr> = ((l, rc, None), blank_world, d2) \<and>
      rc_Status rc = StatusApplied"
    using b(1) d1(1) l(1) r
    by (simp add: broker_Apply_def Let_def autonomyPrerequisiteDenyReason_def done_db_def try_db_def renew_or_apply_def E SetLease_def)
  then show ?thesis using l(2) by auto
qed

theorem lease_remembers_target_witness:
  "\<exists>l rc w' d'. broker_Apply (lease_env 30000000000 ''2'') lease_broker (brokeredSourcePEP lease_executor demo_params 30000000000)
     block_resolved blank_world \<lparr>rows = [block_lease], calls = 0\<rparr> = ((l, rc, None), w', d') \<and>
   (\<exists>q \<in> set (rows d'). LeaseID q = ''lease-1'' \<and> TargetFromLease q = \<lparr>Granularity = ''source'', Value = ''10.0.0.1'', Attributes = []\<rparr>)"
proof -
  obtain l rc w' d' where run: "broker_Apply (lease_env 30000000000 ''2'') lease_broker
      (brokeredSourcePEP lease_executor demo_params 30000000000) block_resolved blank_world \<lparr>rows = [block_lease], calls = 0\<rparr>
      = ((l, rc, None), w', d')" "rc_Status rc = StatusApplied" "LeaseID l = ''lease-1''"
    using block_renewed by blast
  from lease_remembers_target [OF _ _ _ run(1,2)] run show ?thesis by auto
qed

theorem expired_block_is_lifted_witness:
  "\<exists>x w' d'. broker_RevertExpired (lease_env 62000000000 ''2'') lease_broker
       (brokeredSourcePEP lease_executor demo_params 62000000000) 62000000000
       (blank_world\<lparr>w_maps := fresh_shield\<lparr>xdp_deny_hash := [\<lparr>k4_ip = [10, 0, 0, 1]\<rparr> \<mapsto> 1]\<rparr>\<rparr>)
       \<lparr>rows = [block_lease], calls = 0\<rparr> = (x, w', d') \<and>
     xdp_deny_hash (w_maps w') \<lparr>k4_ip = [10, 0, 0, 1]\<rparr> = None"
proof -
  let ?E = "lease_env 62000000000 ''2''"
  let ?w = "blank_world\<lparr>w_maps := fresh_shield\<lparr>xdp_deny_hash := [\<lparr>k4_ip = [10, 0, 0, 1]\<rparr> \<mapsto> 1]\<rparr>\<rparr>"
  obtain x w' d' where run: "broker_RevertExpired ?E lease_broker (brokeredSourcePEP lease_executor demo_params (e_now ?E))
      62000000000 ?w \<lparr>rows = [block_lease], calls = 0\<rparr> = (x, w', d')" by (metis prod.exhaust)
  have "source_free [10, 0, 0, 1] w'"
    using expired_block_is_lifted [OF run _ lease_executor_ok(1,2) demo_pep_ok(2-4), of block_lease "[10, 0, 0, 1]"]
    by (simp add: lease_env_def zero_time_def lease_executor_ok blank_world_def text_at_def)
  with run show ?thesis by (auto simp: source_free_def lease_env_def)
qed

theorem renewal_enforces_nothing_witness:
  "\<exists>st' result w' d'. brokered_ApplySource (lease_env 30000000000 ''2'') lease_loop (sourceTargetFromID ''10.0.0.1'') blank_state
       block_resolution demo_params 30000000000 blank_world \<lparr>rows = [block_lease], calls = 0\<rparr> = ((st', result), w', d') \<and>
     Level st' = LevelBlock \<and> rs_Status result = ''applied'' \<and> xdp_deny_hash (w_maps w') = (\<lambda>_. None)"
proof -
  let ?E = "lease_env 30000000000 ''2''"
  obtain st' result w' d' where run: "brokered_ApplySource ?E lease_loop (sourceTargetFromID ''10.0.0.1'') blank_state
       block_resolution demo_params 30000000000 blank_world \<lparr>rows = [block_lease], calls = 0\<rparr> = ((st', result), w', d')"
    by (metis prod.exhaust)
  have same: "executionMetadataChanged m m = None" for m by (simp add: executionMetadataChanged_def find_None_iff)
  have "w_maps w' = w_maps blank_world \<and> Level st' = LevelBlock \<and> rs_Status result = ''applied''"
    by (rule renewal_enforces_nothing [OF run, where l = block_lease])
      (simp_all add: lease_env_def [of 30000000000] lease_loop_def lease_broker_def block_resolution_def matches_def targetString_def
        block_lease_metadata [of 30000000000 "''2''", unfolded lease_env_def lease_broker_def block_resolution_def] same
        blank_world_def text_at_def)
  with run show ?thesis by (auto simp: blank_world_def fresh_shield_def)
qed

lemma transition_block:
  "\<exists>s'. TransitionSource demo_control demo_pep (Some (IPv4 [10, 0, 0, 1])) new_source LevelBlock 7 demo_params fresh_shield
     = (applyStateFields 7 demo_params new_source LevelBlock, None, s')"
  using demo_block by (simp add: TransitionSource_def)

theorem overtaken_lease_is_fenced_witness:
  "\<exists>w1 w2 rc e d'. broker_Revert (lease_env 62000000000 ''2'') lease_broker (brokeredSourcePEP lease_executor demo_params 62000000000)
       (block_lease\<lparr>LeaseID := ''lease-0'', le_Token := ''feed''\<rparr>) w1 \<lparr>rows = [block_lease], calls = 0\<rparr> = ((rc, e), w2, d') \<and>
     w_maps w2 = w_maps w1 \<and> rc_Status rc = StatusConflict"
proof -
  let ?E = "lease_env 62000000000 ''2''" and ?P = "brokeredSourcePEP lease_executor demo_params"
  let ?c = "\<lparr>c_target = sourceTargetFromID ''10.0.0.1'', c_state = new_source, c_resolution = block_resolution, c_params = demo_params,
      c_now = 7\<rparr>"
  obtain s' where t: "TransitionSource demo_control demo_pep (Some (IPv4 [10, 0, 0, 1])) new_source LevelBlock 7 demo_params fresh_shield
       = (applyStateFields 7 demo_params new_source LevelBlock, None, s')"
    using transition_block by blast
  have a: "\<exists>w1. brokered_Apply lease_executor block_lease (blank_world\<lparr>w_active := Some ?c\<rparr>) = (Inr ''5eed'', w1)"
    by (simp add: brokered_Apply_def ApplySource_def Let_def apply_level_def block_resolution_def ParseFSMLevel_def
        lease_executor_def blank_world_def t)
  then obtain w1 where a: "brokered_Apply lease_executor block_lease (blank_world\<lparr>w_active := Some ?c\<rparr>) = (Inr ''5eed'', w1)" by blast
  let ?l = "block_lease\<lparr>LeaseID := ''lease-0'', le_Token := ''feed''\<rparr>"
  have key: "leaseFencingKey ?l = leaseFencingKey block_lease" by (simp add: leaseFencingKey_def)
  obtain rc e w2 d' where r: "broker_Revert ?E lease_broker (?P (e_now ?E)) ?l w1 \<lparr>rows = [block_lease], calls = 0\<rparr> = ((rc, e), w2, d')"
    by (metis prod.exhaust)
  have "w_maps w2 = w_maps w1 \<and> rc_Status rc = StatusConflict"
    using overtaken_lease_is_fenced [OF a key _ _ r] by simp
  moreover have "e_now ?E = 62000000000" by (simp add: lease_env_def)
  ultimately show ?thesis using r by metis
qed

text \<open>A relationship that was denied until the first minute.\<close>

definition relationship_lease :: action_lease where
  "relationship_lease = no_lease\<lparr>LeaseID := ''lease-r'', le_AdapterID := ''kliq-relationship-pep'',
     le_Target := ''relationship:10.0.0.1->dns'', le_Action := ''enforce.access.deny'', le_Level := ''block'',
     le_Status := Lease_active, le_Token := ''5eed'', le_AppliedAt := 1000000000, le_ExpiresAt := 61000000000,
     le_Metadata := [(''target_granularity'', ''relationship''), (''target_value'', ''10.0.0.1->dns''),
       (''target_attr.subject_id'', ''10.0.0.1''), (''target_attr.dimension.port'', ''53''),
       (''target_attr.dimension.proto'', ''udp'')]\<rparr>"

definition relationship_demo :: relationship_executor where
  "relationship_demo = \<lparr>rx_adapter = Some (False, all_open), rx_control = demo_control,
     rx_ParseIP = (\<lambda>s. Some (IPv4 [10, 0, 0, 1])), rx_error_text = (\<lambda>e. ''failed'')\<rparr>"

definition denied_maps :: shield where
  "denied_maps = fresh_shield\<lparr>edge4_deny := [edge_key (le32 10 0 0 1) 53 17 \<mapsto> 1]\<rparr>"

lemma relationship_lease_target:
  "TargetFromLease relationship_lease = \<lparr>Granularity = ''relationship'', Value = ''10.0.0.1->dns'',
     Attributes = [(''subject_id'', ''10.0.0.1''), (''dimension.port'', ''53''), (''dimension.proto'', ''udp'')]\<rparr>"
  by (simp add: TargetFromLease_def relationship_lease_def text_at_def Let_def)

theorem sweep_forgets_relationships_witness:
  "\<exists>w' r' d'. RevertExpired (lease_env 62000000000 ''2'') lease_loop (Some (lease_broker, relationship_demo))
       (blank_world\<lparr>w_maps := denied_maps\<rparr>) \<lparr>r_maps = denied_maps, r_tokens = [], r_active = None, r_last = None\<rparr>
       \<lparr>rows = [relationship_lease], calls = 0\<rparr> = (w', r', d') \<and>
     (\<forall>l \<in> set (rows d'). \<not> due 62000000000 l) \<and> edge4_deny (r_maps r') (edge_key (le32 10 0 0 1) 53 17) = Some 1"
proof -
  let ?E = "lease_env 62000000000 ''2''"
  obtain w' r' d' where run: "RevertExpired ?E lease_loop (Some (lease_broker, relationship_demo))
       (blank_world\<lparr>w_maps := denied_maps\<rparr>) \<lparr>r_maps = denied_maps, r_tokens = [], r_active = None, r_last = None\<rparr>
       \<lparr>rows = [relationship_lease], calls = 0\<rparr> = (w', r', d')" by (metis prod.exhaust)
  have "scannable relationship_lease" by (simp add: scannable_def relationship_lease_def zero_time_def)
  then have "(\<forall>l \<in> set (rows d'). \<not> due (e_now ?E) l) \<and> tuple_view (r_maps r') = tuple_view denied_maps"
    using sweep_forgets_relationships [OF run] relationship_lease_target by (simp add: lease_env_def)
  then show ?thesis using run by (auto simp: lease_env_def tuple_view_def denied_maps_def)
qed

theorem revert_allows_and_keeps_the_denial_witness:
  "\<exists>w'. relationship_Revert relationship_demo relationship_lease
       \<lparr>r_maps = denied_maps, r_tokens = [], r_active = None, r_last = None\<rparr> = (None, w') \<and>
     edge4_deny (r_maps w') (edge_key (le32 10 0 0 1) 53 17) = Some 1 \<and>
     edge4_allow (r_maps w') (edge_key (le32 10 0 0 1) 53 17) = Some 1"
proof -
  let ?rt = "\<lparr>rt_SubjectID = ''10.0.0.1'', rt_TargetID = [], rt_Dimension = [(''port'', ''53''), (''proto'', ''udp'')]\<rparr>"
  let ?k = "edge_key (le32 10 0 0 1) 53 17"
  have rt: "relationshipTargetFromActionTarget (TargetFromLease relationship_lease) = Some ?rt"
    by (simp add: relationship_lease_target relationshipTargetFromActionTarget_def relationshipTargetID_def relationshipDimensions_def
        text_at_def TrimSpace_def is_space_def Let_def)
  have d: "klshieldRelationshipDimension (map_of (rt_Dimension ?rt)) = Some (53, ''udp'')"
    by (simp add: klshieldRelationshipDimension_def dimension_def ParseUint16_def digit_def decimal_def)
  have k: "relationship_key (rx_ParseIP relationship_demo (rt_SubjectID ?rt)) (map_of (rt_Dimension ?rt)) = Some ?k"
    using d by (simp add: relationship_key_def relationship_demo_def NewEdge4Key_def edge_key_def le32_def)
  have "edge4_allow denied_maps = (\<lambda>_. None)" by (simp add: denied_maps_def fresh_shield_def)
  then have "\<exists>s. AllowRelationship demo_control False all_open (rx_ParseIP relationship_demo (rt_SubjectID ?rt)) (map_of (rt_Dimension ?rt)) denied_maps = Inr s"
    using k by (simp add: AllowRelationship_def AllowEdge4_def WriteEdge4Allow_def all_open_def
        lift_client_def on_error_def store_in_def map_update_elem_def demo_control_def lru_update_def edge4_allow_map_def)
  then obtain s where s: "AllowRelationship demo_control False all_open (rx_ParseIP relationship_demo (rt_SubjectID ?rt)) (map_of (rt_Dimension ?rt)) denied_maps = Inr s" by blast
  have "\<exists>w'. relationship_Revert relationship_demo relationship_lease
       \<lparr>r_maps = denied_maps, r_tokens = [], r_active = None, r_last = None\<rparr> = (None, w')"
    using s rt by (simp add: relationship_Revert_def RelationshipAvailable_def TupleAvailable_def all_open_def on_maps_def relationship_demo_def)
  then obtain w' where w': "relationship_Revert relationship_demo relationship_lease
       \<lparr>r_maps = denied_maps, r_tokens = [], r_active = None, r_last = None\<rparr> = (None, w')" by blast
  have a: "rx_adapter relationship_demo = Some (False, all_open)" by (simp add: relationship_demo_def)
  from revert_allows_and_keeps_the_denial [OF w' a rt k] w' show ?thesis by (simp add: denied_maps_def)
qed

end
