(* ===== verification/Decision_Loop.thy ===== *)
theory Decision_Loop
  imports Resolver_Laws Lease_Laws
begin

text \<open>
  The loop that decides and enforces: the decision point proposes, \<open>Action_Resolver\<close> authorizes, \<open>Brokered_Executor\<close>
  executes and journals, packets run through the data plane, expired leases are reverted, the operator
  overrides, the process restarts. One step relation over the maps and the journal, and what holds
  along every run of it, whatever calls of the database fail.
\<close>

section \<open>The loop\<close>

datatype loop_event =
    Frame kernel nat packet
  | Decision broker_env policy_resolver source_target fsm_state fsm_intent action_proposal
  | Override source_target fsm_state enforcement_params instant string string
  | Sweep broker_env
  | Restart broker_env bool

type_synonym loop_state = "source_world \<times> lease_db"

text \<open>The random identifier of a new lease has not been used before.\<close>

inductive loop_step :: "brokered_executor \<Rightarrow> loop_state \<Rightarrow> loop_event \<Rightarrow> loop_state \<Rightarrow> bool" for B where
  frame: "xdp_klshield K cpu pkt (w_maps w) = Some (a, s) \<Longrightarrow>
    loop_step B (w, d) (Frame K cpu pkt) (w\<lparr>w_maps := s\<rparr>, d)"
| decision: "fresh_id E d \<Longrightarrow> decide_source E R B target st intent proposal w d = (st', w', d') \<Longrightarrow>
    loop_step B (w, d) (Decision E R target st intent proposal) (w', d')"
| override: "ApplySourceObserveOverride B target st params now decisionID reason w = (x, w') \<Longrightarrow>
    loop_step B (w, d) (Override target st params now decisionID reason) (w', d)"
| sweep: "broker_RevertExpired E (bx_broker B) (brokeredSourcePEP (bx_executor B) (bx_params B) (e_now E)) (e_now E) w d = (x, w', d') \<Longrightarrow>
    loop_step B (w, d) (Sweep E) (w', d')"
| restart: "restart E B dry w d = (w', d') \<Longrightarrow> loop_step B (w, d) (Restart E dry) (w', d')"

abbreviation loop_run :: "brokered_executor \<Rightarrow> loop_state \<Rightarrow> loop_event list \<Rightarrow> loop_state \<Rightarrow> bool" where
  "loop_run B \<equiv> steps (loop_step B)"

inductive_cases frame_cases: "loop_step B (w, d) (Frame K cpu pkt) (w', d')"

section \<open>What a decision does\<close>

lemma level_of_metadata [simp]: "level_of (resolutionWithExecutionMetadata r p) = level_of r"
  by (simp add: level_of_def resolutionWithExecutionMetadata_def)

text \<open>It leaves the maps alone or applies the level that was resolved.\<close>

lemma applied_maps:
  assumes "brokered_ApplySource E B target st r params now w d = (x, w', d')" "one_active (rows d)" "fresh_id E d"
  shows "one_active (rows d') \<and>
    (w_maps w' = w_maps w \<or> (\<exists>p v. w_maps v = w_maps w \<and>
       w_maps w' = w_maps (snd (apply_level (bx_executor B) target st (level_of r) now p v))))"
proof (cases "shouldBrokerLease r")
  case False
  let ?p = "enforcementParamsForResolution params r"
  obtain y w1 where a: "ApplySource (bx_executor B) target st r ?p now w = (y, w1)" by fastforce
  have "w' = w1" "d' = d" using assms(1) False a by (simp_all add: brokered_ApplySource_def Let_def)
  with ApplySource_world [OF a] assms(2) show ?thesis by blast
next
  case True
  let ?p = "enforcementParamsForResolution params r" and ?X = "bx_executor B"
  let ?r = "resolutionWithExecutionMetadata r ?p"
  let ?ctx = "\<lparr>c_target = target, c_state = st, c_resolution = ?r, c_params = ?p, c_now = now\<rparr>"
  let ?P = "brokeredSourcePEP ?X (bx_params B) (e_now E)"
  let ?v = "w\<lparr>w_active := Some ?ctx, w_last := None\<rparr>"
  obtain l rc err w1 d1 where b: "broker_Apply E (bx_broker B) ?P ?r ?v d = ((l, rc, err), w1, d1)" by (metis prod.exhaust)
  have "w_maps w' = w_maps w1 \<and> d' = d1"
    using assms(1) True by (auto simp: brokered_ApplySource_def applyBrokered_def Let_def b split: option.splits if_splits)
  moreover have "w_maps w1 = w_maps w \<or>
    (\<exists>p v. w_maps v = w_maps w \<and> w_maps w1 = w_maps (snd (apply_level ?X target st (level_of r) now p v)))"
    using broker_Apply_journal [OF b assms(2,3)]
  proof (elim conjE disjE exE)
    fix m
    assume w1: "w1 = snd (pep_Apply ?P m ?v)"
    obtain y w2 where y: "brokered_Apply ?X m ?v = (y, w2)" by fastforce
    then have w2: "w1 = w2" using w1 by (simp add: brokeredSourcePEP_def)
    from y show ?thesis
    proof (cases rule: brokered_Apply_cases)
      case idle
      then show ?thesis by simp
    next
      case (failed c)
      then have "c = ?ctx" by simp
      with failed(4) w2 show ?thesis by (intro disjI2 exI [of _ ?p] exI [of _ ?v]) simp
    next
      case (noted c)
      then have "c = ?ctx" by simp
      with noted(4) w2 show ?thesis by (intro disjI2 exI [of _ ?p] exI [of _ ?v]) simp
    qed
  qed simp
  ultimately show ?thesis using broker_Apply_journal [OF b assms(2,3)] by simp
qed

lemma decision_maps:
  assumes "decide_source E R B target st intent proposal w d = (st', w', d')" "one_active (rows d)" "fresh_id E d"
  obtains (decided) t p v where "one_active (rows d')"
    "w_maps w' = w_maps w \<or> w_maps v = w_maps w \<and>
       w_maps w' = w_maps (snd (apply_level (bx_executor B) t st (level_of (Resolve (e_printer E) R proposal)) (e_now E) p v))"
proof -
  let ?r = "Resolve (e_printer E) R proposal"
  define t where "t = (let v = Value (re_Target ?r);
      u = (if v \<noteq> [] \<and> v \<noteq> source_id target then sourceTargetFromID v else target) in u\<lparr>t_Attributes := Attributes (re_Target ?r)\<rparr>)"
  obtain y z w1 d1 where a: "brokered_ApplySource E B t st ?r (bx_params B) (e_now E) w d = ((y, z), w1, d1)"
    by (metis prod.exhaust)
  have "w' = w1" "d' = d1" using assms(1) a by (simp_all add: decide_source_def Let_def t_def)
  with applied_maps [OF a assms(2,3)] show thesis by (auto intro: decided)
qed

section \<open>One active lease, always\<close>

lemma keeps_dry_runs: "keeps retired (supersede_dry_runs F now ls)"
  by (induction ls) (auto intro!: keeps_rules keeps_update)

lemma keeps_stale: "keeps retired (supersedeStaleDryRunExecutionLeases F dry now)"
  unfolding supersedeStaleDryRunExecutionLeases_def
  by (intro keeps_if keeps_then keeps_list keeps_done keeps_dry_runs retired_transp retired_reflp)

lemma restart_retires:
  assumes "restart E B dry w d = (w', d')"
  shows "retired (rows d) (rows d')"
proof -
  let ?d1 = "snd (supersedeStaleDryRunExecutionLeases (e_outage E) dry (e_now E) d)"
  have "d' = snd (ReconcilePending E (bx_broker B) ?d1)"
    using assms by (auto simp: restart_def split: prod.splits)
  moreover have "retired (rows d) (rows ?d1)" using keeps_stale by (simp add: keeps_def)
  moreover have "retired (rows ?d1) (rows (snd (ReconcilePending E (bx_broker B) ?d1)))"
    using keeps_reconcile by (simp add: keeps_def)
  ultimately show ?thesis using retired_trans by blast
qed

lemma step_one_active:
  assumes "loop_step B c e c'" "one_active (rows (snd c))"
  shows "one_active (rows (snd c'))"
  using assms(1)
proof cases
  case (decision E d R target st intent proposal w st' w' d')
  with assms(2) show ?thesis by (auto elim!: decision_maps)
next
  case (sweep E w d x w' d')
  with assms(2) show ?thesis using retired_one_active [OF sweep_retires [OF sweep(4)]] by simp
next
  case (restart E dry w d w' d')
  with assms(2) show ?thesis using retired_one_active [OF restart_retires [OF restart(4)]] by simp
qed (use assms(2) in auto)

text \<open>
  C15: Leases are unique. Along every run of decisions, sweeps, overrides and restarts, with any calls of
  the database failing, identifiers stay unique and no two active leases have the same enforcement
  point, target, action and level.
\<close>

theorem active_leases_are_unique:
  assumes "loop_run B (w, d) es (w', d')" "one_active (rows d)"
  shows "one_active (rows d')"
  using steps_invariant [where P = "\<lambda>c. one_active (rows (snd c))", OF assms(1)] assms(2) step_one_active by fastforce

section \<open>A ceiling below the block\<close>

text \<open>The deny lists of one state hold no more than those of another.\<close>

definition no_new_denials :: "shield \<Rightarrow> shield \<Rightarrow> bool" where
  "no_new_denials s s' \<longleftrightarrow>
     dom (xdp_deny_hash s') \<subseteq> dom (xdp_deny_hash s) \<and> dom (xdp_deny6_hash s') \<subseteq> dom (xdp_deny6_hash s)"

lemma no_new_denials_refl [simp]: "no_new_denials s s"
  by (simp add: no_new_denials_def)

lemma no_new_denials_trans: "no_new_denials s s' \<Longrightarrow> no_new_denials s' s'' \<Longrightarrow> no_new_denials s s''"
  unfolding no_new_denials_def by blast

lemma write_level_denials:
  assumes "target \<noteq> LevelBlock"
  shows "no_new_denials s (snd (write_level4 C m ip target p s))" "no_new_denials s (snd (write_level6 C m ip target p s))"
  using assms
  by (cases target; auto simp: no_new_denials_def write_level_defs store_in_def split: sum.splits if_splits)+

lemma apply_level_denials:
  assumes "lv \<noteq> LevelBlock"
  shows "no_new_denials (w_maps v) (w_maps (snd (apply_level X t st lv now p v)))"
proof -
  have "no_new_denials (w_maps v) (snd (snd (TransitionSource C a t' st lv now p (w_maps v))))" for C a t'
    using write_level_denials [OF assms, of "w_maps v"]
    by (auto simp: TransitionSource_def transitionV4_def transitionV6_def transition_with_def
        split: option.splits ip.splits prod.splits) (metis snd_conv)+
  then show ?thesis by (auto simp: apply_level_def split: option.splits prod.splits) (metis snd_conv)+
qed

lemma pep_revert_denials: "no_new_denials (w_maps w) (w_maps (snd (brokered_Revert X p now l w)))"
proof -
  obtain r w' where a: "brokered_Revert X p now l w = (r, w')" by fastforce
  from a show ?thesis
  proof (cases rule: brokered_Revert_cases)
    case lifted
    then show ?thesis using apply_level_denials [of LevelObserve w] by (simp add: a)
  qed (simp add: a)
qed

lemma capped_level:
  assumes "Mode R = ''managed''" "policy_cap R \<le> LevelHard"
  shows "level_of (Resolve pr R p) \<noteq> LevelBlock"
proof -
  have n: "x \<noteq> LevelBlock" if "x \<le> LevelHard" for x using that by (cases x) (auto simp: less_eq_fsm_level_def level_num_def)
  show ?thesis
    using assms(1)
  proof (cases rule: Resolve_cases [of R pr p])
    case (passed action level why)
    have "ParseFSMLevel level \<le> LevelHard"
      using ceiling_level [OF passed(3,1,2)] assms(2) order_trans by blast
    with passed(5,7) show ?thesis using n by (simp add: level_of_def)
  qed (auto simp: level_of_def ParseFSMLevel_def)
qed

lemma step_denials:
  assumes "loop_step B c e c'" "one_active (rows (snd c))"
    and "\<And>E R t st i p. e = Decision E R t st i p \<Longrightarrow> Mode R = ''managed'' \<and> policy_cap R \<le> LevelHard"
  shows "no_new_denials (w_maps (fst c)) (w_maps (fst c'))"
  using assms(1)
proof cases
  case (frame K cpu pkt w a s d)
  then show ?thesis using run_policy [OF frame(4)] by (simp add: no_new_denials_def policy_view_def)
next
  case (decision E d R target st intent proposal w st' w' d')
  have cap: "level_of (Resolve (e_printer E) R proposal) \<noteq> LevelBlock"
    using assms(3) [OF decision(2)] by (intro capped_level) simp_all
  have "one_active (rows d)" using assms(2) decision(1) by simp
  from decision(5) this decision(4) show ?thesis
  proof (cases rule: decision_maps)
    case (decided t p v)
    then show ?thesis using apply_level_denials [OF cap, of v] decision(1,3) by auto
  qed
next
  case (override target st params now decisionID reason w x w' d)
  then obtain t where a: "ApplySource (bx_executor B) t st (override_resolution t decisionID reason) params now w = (x, w')"
    by (auto simp: ApplySourceObserveOverride_def Let_def)
  have "level_of (override_resolution t decisionID reason) = LevelObserve"
    by (simp add: level_of_def override_resolution_def ParseFSMLevel_def)
  then show ?thesis using ApplySource_world [OF a] apply_level_denials [of LevelObserve w] override(1,3) by simp
next
  case (sweep E w d x w' d')
  have "no_new_denials (w_maps w) (w_maps w')"
    using sweep(4)
  proof (rule sweep_invariant [where I = "\<lambda>w' d'. no_new_denials (w_maps w) (w_maps w')"])
    fix l v d1 y v' d1'
    assume a: "broker_Revert E (bx_broker B) (brokeredSourcePEP (bx_executor B) (bx_params B) (e_now E)) l v d1 = (y, v', d1')"
      "no_new_denials (w_maps w) (w_maps v)"
    from a(1) show "no_new_denials (w_maps w) (w_maps v')"
      by (rule revert_state [where Q = "\<lambda>v. no_new_denials (w_maps w) (w_maps v)"])
        (use a(2) pep_revert_denials no_new_denials_trans in \<open>auto simp: brokeredSourcePEP_def\<close>)
  qed simp
  then show ?thesis using sweep(1,3) by simp
next
  case (restart E dry w d w' d')
  then show ?thesis by (auto simp: restart_def split: prod.splits)
qed

text \<open>
  C14: A policy without the block never denies. Along a run in which every decision is made in managed mode
  under a policy whose ceiling is below the block, whatever is proposed, no source is added to the deny lists: one
  that was not denied before is not denied after.
\<close>

theorem capped_loop_never_denies:
  assumes "loop_run B (w, d) es (w', d')" "one_active (rows d)"
    and "\<And>E R t st i p. Decision E R t st i p \<in> set es \<Longrightarrow> Mode R = ''managed'' \<and> policy_cap R \<le> LevelHard"
  shows "(in_deny_v4 (xdp_deny_hash (w_maps w')) src \<longrightarrow> in_deny_v4 (xdp_deny_hash (w_maps w)) src) \<and>
    (in_deny_v6 (xdp_deny6_hash (w_maps w')) srcb \<longrightarrow> in_deny_v6 (xdp_deny6_hash (w_maps w)) srcb)"
proof -
  have "one_active (rows (snd (w', d'))) \<and> no_new_denials (w_maps w) (w_maps (fst (w', d')))"
    using assms(1)
  proof (rule steps_invariant)
    fix c e c'
    assume a: "one_active (rows (snd c)) \<and> no_new_denials (w_maps w) (w_maps (fst c))" "e \<in> set es" "loop_step B c e c'"
    have "no_new_denials (w_maps (fst c)) (w_maps (fst c'))"
      by (rule step_denials [OF a(3)]) (use a(1,2) assms(3) in auto)
    with a step_one_active [OF a(3)] no_new_denials_trans
    show "one_active (rows (snd c')) \<and> no_new_denials (w_maps w) (w_maps (fst c'))" by blast
  qed (simp add: assms(2))
  then show ?thesis by (auto simp: no_new_denials_def in_deny_v4_def in_deny_v6_def domIff)
qed

section \<open>Instances\<close>

definition block_decision :: "string \<Rightarrow> loop_event" where
  "block_decision ceil =
     Decision (lease_env 1000000000 ''1'') (open_policy\<lparr>PolicyMaxAction := ceil\<rparr>) (sourceTargetFromID ''10.0.0.1'') blank_state
       (evaluateFSMIntent loud new_source 20 demo_fsm) (excluding [])"

definition empty_journal :: lease_db where
  "empty_journal = \<lparr>rows = [], calls = 0\<rparr>"

lemma empty_journal_ok: "one_active (rows empty_journal)" "fresh_id E empty_journal"
  by (simp_all add: empty_journal_def one_active_def fresh_id_def)

lemma decision_happens: "\<exists>w d. loop_step lease_loop (blank_world, empty_journal) (block_decision ceil) (w, d)"
proof -
  obtain st w d where "decide_source (lease_env 1000000000 ''1'') (open_policy\<lparr>PolicyMaxAction := ceil\<rparr>) lease_loop
      (sourceTargetFromID ''10.0.0.1'') blank_state (evaluateFSMIntent loud new_source 20 demo_fsm) (excluding [])
      blank_world empty_journal = (st, w, d)" by (metis prod.exhaust)
  from loop_step.decision [OF empty_journal_ok(2) this] show ?thesis unfolding block_decision_def by blast
qed

lemma sweep_happens: "\<exists>c'. loop_step B c (Sweep E) c'"
proof -
  obtain w d where c: "c = (w, d)" by fastforce
  obtain x w' d' where "broker_RevertExpired E (bx_broker B) (brokeredSourcePEP (bx_executor B) (bx_params B) (e_now E)) (e_now E) w d = (x, w', d')"
    by (metis prod.exhaust)
  from loop_step.sweep [OF this] show ?thesis unfolding c by blast
qed

theorem active_leases_are_unique_witness:
  "\<exists>w d. loop_run lease_loop (blank_world, empty_journal) [block_decision [], Sweep (lease_env 62000000000 ''2'')] (w, d) \<and>
     one_active (rows d)"
proof -
  obtain w1 d1 where "loop_step lease_loop (blank_world, empty_journal) (block_decision []) (w1, d1)" using decision_happens by blast
  moreover obtain c where "loop_step lease_loop (w1, d1) (Sweep (lease_env 62000000000 ''2'')) c" using sweep_happens by blast
  ultimately have "loop_run lease_loop (blank_world, empty_journal) [block_decision [], Sweep (lease_env 62000000000 ''2'')] c"
    by (intro steps_Cons steps_one)
  moreover obtain w d where "c = (w, d)" by fastforce
  ultimately show ?thesis using active_leases_are_unique [OF _ empty_journal_ok(1)] by blast
qed

theorem capped_loop_never_denies_witness:
  "\<exists>w d. loop_run lease_loop (blank_world, empty_journal) [block_decision ''rate_limit_hard''] (w, d) \<and>
     \<not> in_deny_v4 (xdp_deny_hash (w_maps w)) (le32 10 0 0 1)"
proof -
  obtain w d where "loop_step lease_loop (blank_world, empty_journal) (block_decision ''rate_limit_hard'') (w, d)"
    using decision_happens by blast
  then have run: "loop_run lease_loop (blank_world, empty_journal) [block_decision ''rate_limit_hard''] (w, d)" by (rule steps_one)
  have "Mode R = ''managed'' \<and> policy_cap R \<le> LevelHard"
    if "Decision E R t st i p \<in> set [block_decision ''rate_limit_hard'']" for E R t st i p
    using that by (simp add: block_decision_def open_policy_def policy_cap_def)
  from capped_loop_never_denies [where src = "le32 10 0 0 1" and srcb = "[]", OF run empty_journal_ok(1) this]
  have "\<not> in_deny_v4 (xdp_deny_hash (w_maps w)) (le32 10 0 0 1)"
    by (simp add: blank_world_def fresh_shield_def in_deny_v4_def)
  with run show ?thesis by blast
qed

end
