(* ===== verification/Spec2Isabelle.thy ===== *)
theory Spec2Isabelle
  imports Kernel_Laws Smp_Progress Smp_Counters Flow_Poll Decision_Loop
begin

text \<open>
  Verification of Kernloom Shield, the XDP data plane of Kernloom.

  The program. \<open>src/shield/bpf/xdp_kernloom_shield.bpf.c\<close> is a packet filter that the kernel runs on
  every frame a network device receives. It parses the Ethernet header and up to two VLAN tags; for
  an IPv4 or IPv6 packet it classifies layer 4, checks the source against the allow list and the
  deny list, charges the token bucket of the source, for IPv4 also checks the tuple (source, port,
  protocol) and its bucket, and returns \<open>XDP_DROP\<close> or \<open>XDP_PASS\<close>. On the way it updates totals,
  histograms, per-source and per-flow counters and may emit events to a ring buffer. Its state is 22
  BPF maps, which Go programs (\<open>src/shield/cmd/klshield\<close>, \<open>src/pkg/adapters/klshield\<close>) fill with
  policy and read for telemetry. The types of the kernel come from
  \<open>src/shield/bpf/include/vmlinux.h\<close>.

  How the code is modelled. One function of the C program is one definition of the same name. A BPF
  map is a partial function from key records to value records, a per-CPU map one such function for
  each CPU; machine integers are words of their width, so every sum, product and shift wraps as in
  C. A load outside the packet, a failing lock or a missing array entry is the value \<open>None\<close> (the
  program would be stuck); an error return is the left side of a sum. The clock, the random number,
  the room in the ring buffer, the longest-prefix match and the outcome of a map update are kernel
  services, not code of the repository: they are fields of the record \<open>kernel\<close>, with the documented
  contract of an update stated by the locales \<open>bpf_lru\<close> and \<open>bpf_hash\<close> and met by the concrete
  functions \<open>hash_update\<close> and \<open>lru_update\<close>. An LRU map may evict at any time under \<open>bpf_lru\<close>; theorems that
  need an entry to stay assume that the entries of the run fit the room below which the map evicts nothing
  (\<open>bpf_lru_room\<close>), and the one on a full table that it keeps to its capacity (\<open>bpf_lru_cap\<close>). Every function of the packet path is total and
  executable; the only loop, over VLAN tags, is unrolled twice in the code and recursive on the
  count 2 in the model, so no fuel is chosen anywhere.

  The theories, from the bottom up.
  \<^item> \<open>Shield_Prelude\<close>: words, packets, bounds-checked little-endian loads, byte order.
  \<^item> \<open>Bpf_Maps\<close>: the map declarations (lines 88 to 415) and the contract of map updates.
  \<^item> \<open>Token_Bucket\<close>: \<open>tb_allow_and_update\<close> and its unlocked body (549 to 599). A reference bucket
    over the naturals, the refinement of it under the spin lock, bounds on what a bucket admits
    (one token in \<open>token_ns\<close>, a billion over the rate rounded down), recovery of an empty bucket, and the
    wrap-around of very large bursts.
  \<^item> \<open>Headers\<close>: header records and loads, \<open>parse_eth\<close> (429 to 447). Memory safety, the offsets of the
    payload, recovery of the EtherType of every tagged frame.
  \<^item> \<open>Telemetry\<close>: totals, histograms, \<open>src4_update\<close>, \<open>src6_update\<close>, \<open>flow4_update\<close>, event emission
    (417 to 506, 601 to 827).
  \<^item> \<open>Classify\<close>: layer 4 behind an IP header (879 to 925, 1070 to 1116).
  \<^item> \<open>Policy\<close>: access lists, choice of limits, the gate over bucket tables, tuple enforcement (449 to
    547, 927 to 1013).
  \<^item> \<open>Xdp_Program\<close>: the state of the program as one record and \<open>xdp_klshield\<close> (829 to 1190).
  \<^item> \<open>Xdp_Laws\<close>, \<open>Xdp_Run\<close>: what deciding and recording change, and runs over packet sequences with
    the invariant of the state (locks free, arrays populated, verdict counters balanced).
  \<^item> \<open>Firewall_Spec\<close>: the reference firewall, a function of policy, buckets over the naturals and the
    packet, with the refinement of one packet and of runs.
  \<^item> \<open>Scenario\<close>: concrete kernels, states and packets, on which the witnesses evaluate.
  \<^item> \<open>C_Layout\<close>, \<open>C_Memory\<close>: sizes, alignments and member places of C declarations, bit fields
    included, for the 64-bit little-endian target; values of structures as bytes in memory. The
    locale \<open>c_record\<close> relates a record of the model to its C structure.
  \<^item> \<open>Kernel_Types\<close>, \<open>Kernel_Maps\<close>, \<open>Kernel_Prog\<close>, \<open>Kernel_Net\<close>: declarations of \<open>vmlinux.h\<close>, one
    definition each, named by kind and tag (\<open>struct_bpf_map\<close>, \<open>union_bpf_attr\<close>, \<open>enum_xdp_action\<close>,
    \<open>ty___u32\<close> for a typedef): what the program uses and the kernel objects behind it, each with the
    types it contains by value. A pointer keeps its declaration as text. \<open>bpf_ringbuf\<close> is split at
    its position counters, its runs of \<open>long: 64;\<close> padding are \<open>replicate\<close>.
  \<^item> \<open>Wire_Layout\<close>: the header loads are the reads the declarations prescribe.
  \<^item> \<open>Shield_Layout\<close>, \<open>Shield_Abi\<close>: the structures of the program as C types; map keys and their bytes;
    events and their decoding by \<open>klshield\<close>; the structures of the Go tools,
    field by field and by name, against the C ones; the map declarations.
  \<^item> \<open>Kernel_Laws\<close>: soundness of the kernel types, objects behind the maps, the pages of the ring
    buffer, instructions, numbers, the argument that creates a map.
  \<^item> \<open>Control_Plane\<close>: the commands of \<open>klshield\<close> that write maps (\<open>addAllowCIDR\<close> to
    \<open>tupleEnforceMode\<close> of \<open>src/shield/cmd/klshield/klshield.go\<close>, dispatched by \<open>run_command\<close>), the
    system of packets and commands as the step relation \<open>sys_step\<close>, and the invariant along it. The
    kernel side of an update is a parameter under the locales \<open>bpf_hash\<close>, \<open>bpf_lru\<close> and \<open>bpf_trie\<close>.
  \<^item> \<open>Control_Laws\<close>: what commands achieve. A denied source and an unlisted tuple stay out along every
    run, a prefix admits its addresses, a deny can be undone, a reset spares the tuples, and a full
    tuple list forgets entries.
  \<^item> \<open>Smp_Gate\<close>, \<open>Smp_Rate\<close>, \<open>Smp_Progress\<close>: the rate-limit gate of one source on several CPUs (lines 945
    to 959, 588 to 599), a step relation of single accesses to shared memory. Mutual exclusion,
    linearizability, the rate bound, the race of two first packets, freedom from deadlock.
  \<^item> \<open>Smp_Counters\<close>: the counters of one source on several CPUs (692 to 711), which are updated
    without lock or atomics. Counts are lost and the packet counter can run backwards.
  \<^item> \<open>Telemetry_Poll\<close>, \<open>Flow_Poll\<close>: the reader of the telemetry maps (\<open>poll\<close> and \<open>pollFlow4\<close> of
    \<open>src/pkg/adapters/klshield/telemetry/adapter.go\<close>). Rates are those of the run between two polls;
    read and clear counts every packet once, except those between the read and the delete.
  \<^item> \<open>Source_Fsm\<close>, \<open>Fsm_Laws\<close>: the state machine of a source (\<open>src/pkg/core/fsm/fsm.go\<close>): blocks last,
    escalation needs strikes or sustained severity, levels change no faster than the cooldown, a
    quiet source is released. Termination is structural: a tick is a function.
  \<^item> \<open>Map_Client\<close>: the Go client of the pinned maps (\<open>src/pkg/adapters/klshield/client/maps.go\<close>).
  \<^item> \<open>Pep_Adapter\<close>, \<open>Pep_Laws\<close>: the enforcement point (\<open>src/pkg/adapters/klshield/pep/adapter.go\<close>), which
    turns a level into entries of the deny and limit maps, and what a transition does to the packets
    of the source, on success and when it fails half way.
  \<^item> \<open>Go_Text\<close>: the functions of the Go library on texts and numbers that the code uses.
  \<^item> \<open>Action_Resolver\<close>, \<open>Resolver_Laws\<close>: the gate in front of enforcement
    (\<open>src/iq/internal/actions/resolver.go\<close>). Ceilings, capabilities, guardrails and
    durations hold; three ways around.
  \<^item> \<open>Lease_Store\<close>: the journal of enforcement leases (\<open>src/pkg/statestore/sqlite/action_leases.go\<close>), a
    table with one definition for each statement; an outage says which calls of the database fail.
  \<^item> \<open>Action_Broker\<close>: the broker (\<open>src/iq/internal/actionbroker/broker.go\<close>), from \<open>broker_Apply\<close> with its gates and
    renewals to \<open>broker_Revert\<close>, the sweep \<open>broker_RevertExpired\<close> and \<open>ReconcilePending\<close>, over an enforcement point
    that is a record of operations.
  \<^item> \<open>Lease_Journal\<close>, \<open>Lease_Sweep\<close>: statuses only retire, one active lease for a slot, what a sweep lists and
    retires, the target of a lease; the locale \<open>fencing_pep\<close> is the contract of fencing tokens.
  \<^item> \<open>Brokered_Executor\<close>, \<open>Relationship_Broker\<close>: the executors with leases
    (\<open>src/iq/internal/actions/executor.go\<close>, \<open>src/iq/cmd/kliq/brokered_executor.go\<close>) on the maps of \<open>Pep_Adapter\<close>;
    both of their enforcement points interpret \<open>fencing_pep\<close>.
  \<^item> \<open>Lease_Laws\<close>: a block that is decided is enforced and ends with its lease, an older lease cannot undo a newer one; a renewal enforces
    nothing, the denial of a relationship never ends.
  \<^item> \<open>Decision_Loop\<close>: decisions, packets, sweeps, overrides and restarts as one step relation, and what holds
    along every run of it.
  \<^item> This theory: the properties of the whole program, each with a witness.

  Specification and refinement. The reference firewall of \<open>Firewall_Spec\<close> decides from the policy
  maps and unbounded buckets; the program refines it on every packet while bucket tables have room
  and limits are in the range in which the 64-bit arithmetic is exact (\<open>tb_cfg_ok\<close>: the burst in
  token nanoseconds plus the rate is at most \<open>2 ^ 64\<close>). Outside that range the program misbehaves; the
  theorems on large bursts and on full tables say how.

  The system. \<open>Source_Fsm\<close> decides a level from metrics, which \<open>Telemetry_Poll\<close> computes from the maps
  that \<open>Xdp_Program\<close> writes; the proposal for that level goes through \<open>Action_Resolver\<close>, \<open>Brokered_Executor\<close> and
  \<open>Action_Broker\<close> to \<open>Pep_Adapter\<close>, which writes the level to the maps that \<open>Xdp_Program\<close> reads. So a source at
  level block is cut off on every run of packets (\<open>Pep_Laws\<close>), until the broker reverts its lease (\<open>Lease_Laws\<close>),
  and under a policy without the block none is ever cut off (\<open>Decision_Loop\<close>).

  Not modelled, and why. Whole packets are ordered one after the other; packets on several CPUs are
  interleaved at single accesses only for the IPv4 source gate and the counters of an IPv4 source
  (the other gates and the other shared counters have the same shape). The analytics of KLIQ, its
  configuration and its learning, which compute metrics by statistics over time; the composition of proposals, the
  runtime of the decision point beside the authorization and execution of one decision, receipts and logs. The
  two brokers run one after the other, as their locks make them. Of the adapter, the
  threads, the printing and the record of access policies. Floating point is real arithmetic; a number
  of \<open>2 ^ 64\<close> or more wraps when it is converted to \<open>uint64\<close>, which Go leaves to the implementation. The
  counters of the state machine are integers without bound. Deleting an entry fails only when there is none, which
  the code takes as success; other errors of a delete are not modelled. The metadata of a lease comes back from its JSON as it
  was written, which holds of valid UTF-8, and a database call that fails has changed nothing. A
  map iteration of the Go tools sees a map at one moment. What is left of \<open>klshield\<close> is loading,
  attaching and printing. The kernel's implementation of maps, helpers and the verifier: not in the
  repository. The rest of \<open>vmlinux.h\<close>, a generated dump of all types of a kernel, of which the
  program uses almost nothing.
\<close>

section \<open>Whole runs\<close>

text \<open>
  C1: Refinement. On every packet, from every state whose locks are free, whose bucket tables have
  room and whose limits fit the refill arithmetic, the program gives the verdict of the reference
  firewall and leaves the buckets the reference firewall leaves.
\<close>

theorem shield_refines_firewall:
  assumes "kernel_ok K" "buckets_free s" "tables_room s" "limits_ok s"
  shows "\<exists>out s'. judge s pkt (unat (k_now K)) (abs_firewall s) = (out, abs_firewall s') \<and>
    xdp_klshield K cpu pkt s = Some (outcome_action out, s')"
proof -
  obtain a s' where run: "xdp_klshield K cpu pkt s = Some (a, s')" using run_total [OF assms(2)] by blast
  with run_refines [OF assms run] show ?thesis by auto
qed

theorem shield_refines_firewall_witness:
  "\<exists>s1 s2. xdp_klshield (demo_kernel 7) 0 (udp_frame [10, 0, 0, 1] 53) allow_dns = Some (XDP_PASS, s1) \<and>
     xdp_klshield (demo_kernel 7) 0 (udp_frame [10, 0, 0, 1] 80) allow_dns = Some (XDP_DROP, s2)"
  using shield_refines_firewall [OF demo_kernel_ok allow_dns_ok(1-3), of "udp_frame [10, 0, 0, 1] 53" 7 0]
    shield_refines_firewall [OF demo_kernel_ok allow_dns_ok(1-3), of "udp_frame [10, 0, 0, 1] 80" 7 0]
  by (auto simp: udp_frame_judge judge_v4_def spec_gate_def tuple_mode_on_def tuple_denied_def in_deny_v4_def
      edge_key_def outcome_action_def)

text \<open>
  C2: Safety of every run. Whatever packets arrive, on whatever CPUs, the program never reads
  outside a packet and never waits for a lock: it returns a verdict for each packet, and the verdict
  is to pass or to drop.
\<close>

theorem shield_runs_safely:
  assumes "\<forall>(K, cpu, pkt) \<in> set xs. kernel_ok K" "buckets_free s"
  shows "\<exists>as s'. xdp_run xs s = Some (as, s') \<and> length as = length xs \<and> set as \<subseteq> {XDP_PASS, XDP_DROP}"
proof -
  obtain as s' where run: "xdp_run xs s = Some (as, s')" using xdp_run_total [OF assms] by blast
  have "xdp_run xs s = Some (as, s') \<Longrightarrow> length as = length xs \<and> set as \<subseteq> {XDP_PASS, XDP_DROP}" for s as
  proof (induction xs arbitrary: s as)
    case (Cons x xs)
    obtain K cpu pkt a s1 as1 where "xdp_klshield K cpu pkt s = Some (a, s1)" "xdp_run xs s1 = Some (as1, s')" "as = a # as1"
      using Cons.prems by (cases x) (auto simp only: xdp_run_Cons)
    with Cons.IH [of s1 as1] run_action show ?case by auto
  qed simp
  with run show ?thesis by blast
qed

theorem shield_runs_safely_witness:
  "\<exists>as s'. xdp_run [(demo_kernel 1, 0, []), (demo_kernel 2, 1, udp_frame [10, 0, 0, 1] 53)] fresh_shield = Some (as, s') \<and>
     length as = 2"
  using shield_runs_safely [of "[(demo_kernel 1, 0, []), (demo_kernel 2, 1, udp_frame [10, 0, 0, 1] 53)]" fresh_shield]
  by auto

text \<open>
  C3: The rate limit end to end. In any run of packets, on any CPUs and mixed with any other
  traffic, the packets of one IPv4 source that get through are at most the tokens its bucket held
  plus one for every \<open>token_ns\<close> nanoseconds of the elapsed time. This is the configured rate when it
  divides a billion (\<open>token_ns_exact\<close>); otherwise the time of a token is rounded down to whole
  nanoseconds, and \<open>rounding_admits_faster\<close> shows a source that is admitted at that pace.
\<close>

theorem source_rate_limited:
  assumes "tb_cfg_ok c" "unat (rate_pps c) \<le> nsec"
    and "\<forall>(K, cpu, pkt) \<in> set xs. kernel_ok K \<and> k_now K \<le> T" "buckets_free s"
    and "source_limit s a = Some c" "xdp_rl_state4 s a = Some st" "tokens st \<le> burst c" "last_ns st \<le> T"
    and "xdp_run xs s = Some (as, s')"
  shows "passes_of a xs as
    \<le> unat (tokens st) + (unat T - unat (last_ns st)) div token_ns (unat (rate_pps c))"
  using xdp_run_source_potential [OF assms(1,3-9)]
  by (rule within_price [OF token_ns_pos [OF tb_cfg_okD(3) [OF assms(1)] assms(2)]])

theorem source_rate_limited_witness:
  "\<exists>as s'. xdp_run [(demo_kernel 1000, 0, udp_frame [10, 0, 0, 1] 53), (demo_kernel 2000, 1, udp_frame [10, 0, 0, 1] 54)]
      limited = Some (as, s') \<and>
    passes_of (le32 10 0 0 1) [(demo_kernel 1000, 0, udp_frame [10, 0, 0, 1] 53),
      (demo_kernel 2000, 1, udp_frame [10, 0, 0, 1] 54)] as = 0"
proof -
  let ?xs = "[(demo_kernel 1000, 0, udp_frame [10, 0, 0, 1] 53), (demo_kernel 2000, 1, udp_frame [10, 0, 0, 1] 54)]"
  obtain as s' where run: "xdp_run ?xs limited = Some (as, s')"
    using xdp_run_total [of ?xs limited] by auto
  have "passes_of (le32 10 0 0 1) ?xs as
      \<le> unat (tokens (empty_bucket 0)) + (unat (2000 :: u64) - unat (last_ns (empty_bucket 0))) div token_ns (unat (rate_pps demo_limit))"
    by (rule source_rate_limited [OF demo_limit_ok _ _ limited_ok(1) limited_ok(2) _ _ _ run])
      (auto simp: demo_limit_def nsec_def empty_bucket_def)
  then have "passes_of (le32 10 0 0 1) ?xs as = 0"
    by (simp add: demo_limit_def nsec_def empty_bucket_def token_ns_def)
  with run show ?thesis by blast
qed

text \<open>
  C4: The invariant of a run. Free locks, total arrays, balanced totals on every CPU (packets equal
  passes plus drops by the three reasons) and balanced counters of every source are kept by every
  run.
\<close>

theorem runs_keep_invariant:
  assumes "\<forall>(K, cpu, pkt) \<in> set xs. kernel_ok K" "shield_inv s" "xdp_run xs s = Some (as, s')"
  shows "shield_inv s'"
  by (rule xdp_run_invariant [where P = shield_inv, OF _ assms(2,3)]) (use assms(1) run_shield_inv in blast)

theorem runs_keep_invariant_witness:
  "\<exists>as s'. xdp_run [(demo_kernel 1, 0, []), (demo_kernel 2, 1, udp_frame [10, 0, 0, 1] 53)] fresh_shield = Some (as, s') \<and>
     cpus_balanced s'"
proof -
  let ?xs = "[(demo_kernel 1, 0, []), (demo_kernel 2, 1, udp_frame [10, 0, 0, 1] 53)]"
  obtain as s' where run: "xdp_run ?xs fresh_shield = Some (as, s')"
    using xdp_run_total [of ?xs fresh_shield] by auto
  with runs_keep_invariant [OF _ fresh_inv run] show ?thesis by (auto simp: shield_inv_def)
qed

text \<open>
  Every packet is counted once. On the CPU it arrived on, the totals gain one packet, its bytes,
  and one in exactly one of the four verdict counters, which is the pass counter exactly when the
  packet passes; no other CPU's totals change.
\<close>

theorem packet_counted_once:
  assumes "xdp_totals s cpu 0 = Some v" "xdp_klshield K cpu pkt s = Some (a, s')"
  shows "\<exists>w. xdp_totals s' cpu 0 = Some w \<and> t_pkts w = t_pkts v + 1 \<and>
    t_bytes w = t_bytes v + of_nat (length pkt) \<and>
    (t_pass w, t_drop_allow w, t_drop_deny w, t_drop_rl w) \<in>
      (if a = XDP_PASS then {(t_pass v + 1, t_drop_allow v, t_drop_deny v, t_drop_rl v)}
       else {(t_pass v, t_drop_allow v + 1, t_drop_deny v, t_drop_rl v),
             (t_pass v, t_drop_allow v, t_drop_deny v + 1, t_drop_rl v),
             (t_pass v, t_drop_allow v, t_drop_deny v, t_drop_rl v + 1)}) \<and>
    (\<forall>c. c \<noteq> cpu \<longrightarrow> xdp_totals s' c = xdp_totals s c)"
  by (rule run_counts_once [OF assms])

theorem packet_counted_once_witness:
  "\<exists>a s' w. xdp_klshield (demo_kernel 2) 1 (udp_frame [10, 0, 0, 1] 53) fresh_shield = Some (a, s') \<and>
     xdp_totals s' 1 0 = Some w \<and> t_pkts w = 1 \<and> t_bytes w = 42"
proof -
  obtain a s' where run: "xdp_klshield (demo_kernel 2) 1 (udp_frame [10, 0, 0, 1] 53) fresh_shield = Some (a, s')"
    using run_total [OF fresh_frame(1)] by blast
  from packet_counted_once [OF fresh_totals run] run show ?thesis by (auto simp: zero_totals_def)
qed

text \<open>
  The packet path never writes policy. Allow and deny lists, limits, tuple maps and the two
  configuration maps are the same after any run as before.
\<close>

theorem policy_is_read_only:
  assumes "xdp_run xs s = Some (as, s')"
  shows "xdp_allow_lpm s' = xdp_allow_lpm s \<and> xdp_allow6_lpm s' = xdp_allow6_lpm s \<and>
    xdp_deny_hash s' = xdp_deny_hash s \<and> xdp_deny6_hash s' = xdp_deny6_hash s \<and> xdp_cfg s' = xdp_cfg s \<and>
    edge4_deny s' = edge4_deny s \<and> edge4_allow s' = edge4_allow s \<and> edge4_cfg s' = edge4_cfg s \<and>
    edge4_rl_policy s' = edge4_rl_policy s \<and> xdp_rl_cfg s' = xdp_rl_cfg s \<and>
    xdp_rl_policy4 s' = xdp_rl_policy4 s \<and> xdp_rl_policy6 s' = xdp_rl_policy6 s"
proof -
  have "policy_view s' = policy_view s"
    by (rule xdp_run_invariant [of xs "\<lambda>s'. policy_view s' = policy_view s", OF _ refl assms])
      (simp add: run_policy)
  then show ?thesis by (simp add: policy_view_def)
qed

theorem policy_is_read_only_witness:
  "\<exists>as s'. xdp_run [(demo_kernel 1, 0, udp_frame [10, 0, 0, 1] 53)] allow_dns = Some (as, s') \<and>
     edge4_allow s' = [edge_key (le32 10 0 0 1) 53 17 \<mapsto> 1]"
proof -
  obtain as s' where run: "xdp_run [(demo_kernel 1, 0, udp_frame [10, 0, 0, 1] 53)] allow_dns = Some (as, s')"
    using xdp_run_total [of "[(demo_kernel 1, 0, udp_frame [10, 0, 0, 1] 53)]" allow_dns] by auto
  with policy_is_read_only [OF run] show ?thesis by auto
qed

section \<open>Access lists come first\<close>

text \<open>
  The access lists of IPv4. A packet whose source is not on an enforced allow list, or is on
  the deny list, is dropped, and it leaves every token bucket as it was.
\<close>

theorem acl_v4_drops_first:
  assumes "kernel_ok K" "buckets_free s" "source_v4 pkt = Some a"
    and "cfg_enforce s \<noteq> 0 \<and> \<not> allowed_v4 s a \<or> in_deny_v4 (xdp_deny_hash s) a"
  shows "\<exists>s'. xdp_klshield K cpu pkt s = Some (XDP_DROP, s') \<and> abs_firewall s' = abs_firewall s"
  by (rule run_acl_v4_drop [OF assms])

theorem acl_v4_drops_first_witness:
  "\<exists>s'. xdp_klshield (demo_kernel 3) 0 (udp_frame [10, 0, 0, 1] 53) blocked = Some (XDP_DROP, s')"
  using acl_v4_drops_first [OF demo_kernel_ok blocked_ok(1) udp_frame_source, of 10 0 0 1 3 0 53] by auto

text \<open>
  The access lists of IPv6, likewise.
\<close>

theorem acl_v6_drops_first:
  assumes "kernel_ok K" "buckets_free s" "source_v6 pkt = Some a"
    and "cfg_enforce s \<noteq> 0 \<and> \<not> allowed_v6 s a \<or> in_deny_v6 (xdp_deny6_hash s) a"
  shows "\<exists>s'. xdp_klshield K cpu pkt s = Some (XDP_DROP, s') \<and> abs_firewall s' = abs_firewall s"
proof -
  obtain act s' where run: "xdp_klshield K cpu pkt s = Some (act, s')" using run_total [OF assms(2)] by blast
  obtain ip6 off where kind: "frame_kind pkt = Inr (Inl (ip6, off))" and a: "a = ip6_saddr ip6"
    using assms(3) by (auto simp: source_v6_def split: sum.splits)
  have acl: "dropped (acl_v6 K s (cfg_enforce s) a)"
    using assms(4) by (simp add: acl_dropped in_allow_v6_allowed [OF kernel_okD(2) [OF assms(1)]])
  show ?thesis
    using run
    by (rule run_v6_steps [OF kind])
      (use acl run in \<open>auto simp: dropped_gates acl_dropped(4) verdict_def abs_firewall_def simp flip: a\<close>)
qed

theorem acl_v6_drops_first_witness:
  "\<exists>s'. xdp_klshield (demo_kernel 3) 0 (ipv6_frame (replicate 16 9)) allow_none = Some (XDP_DROP, s')"
proof -
  have free: "buckets_free allow_none" using fresh_frame(1) by (simp add: allow_none_def buckets_free_def)
  have src: "source_v6 (ipv6_frame (replicate 16 9)) = Some (replicate 16 9)" by (rule ipv6_frame_source) simp
  have "cfg_enforce allow_none \<noteq> 0 \<and> \<not> allowed_v6 allow_none (replicate 16 9)"
    by (simp add: cfg_enforce_def allow_none_def allowed_v6_def fresh_shield_def)
  with acl_v6_drops_first [OF demo_kernel_ok free src] show ?thesis by blast
qed

text \<open>
  Isolation. A packet changes no token bucket of any IPv4 source but its own, and an IPv6
  packet changes none at all in the IPv4 and tuple tables.
\<close>

theorem buckets_are_isolated:
  assumes "kernel_ok K" "xdp_klshield K cpu pkt s = Some (a, s')" "source_v4 pkt \<noteq> Some b"
  shows "xdp_rl_state4 s' b = xdp_rl_state4 s b \<and>
    (source_v4 pkt = None \<longrightarrow> xdp_rl_state4 s' = xdp_rl_state4 s \<and> edge4_rl_state s' = edge4_rl_state s)"
  using assms(2)
proof (cases rule: xdp_klshield_cases)
  case early
  then show ?thesis by simp
next
  case (v6 ip6 off l4 d tm rl)
  then show ?thesis by simp
next
  case (v4 iph off l4 d tm rl erl)
  have src: "source_v4 pkt = Some (ip_saddr iph)" using v4(1) by (simp add: source_v4_def)
  then have ne: "b \<noteq> ip_saddr iph" using assms(3) by auto
  obtain d1 tm1 d2 tm3 where
    "source_gate_v4 K s (ip_saddr iph) (k_now K) (totals_get (xdp_totals s cpu)) d1 tm1 = Some (d2, tm3, xdp_rl_state4 s')"
    using run_v4_steps [OF v4(1) assms(2)] by metis
  then have "xdp_rl_state4 s' b = xdp_rl_state4 s b"
    using rl_check_isolated [OF kernel_okD(6) [OF assms(1)] _ ne]
    by (auto simp: source_gate_v4_def rl_gate_def split: if_splits option.splits Option.bind_splits)
  with src show ?thesis by simp
qed

theorem buckets_are_isolated_witness:
  "\<exists>a s'. xdp_klshield (demo_kernel 1000) 0 (udp_frame [10, 0, 0, 2] 53) limited = Some (a, s') \<and>
     xdp_rl_state4 s' (le32 10 0 0 1) = Some (empty_bucket 0)"
proof -
  obtain a s' where run: "xdp_klshield (demo_kernel 1000) 0 (udp_frame [10, 0, 0, 2] 53) limited = Some (a, s')"
    using run_total [OF limited_ok(1)] by blast
  have "le32 10 0 0 1 \<noteq> le32 10 0 0 2"
  proof
    assume "le32 10 0 0 1 = le32 10 0 0 2"
    then have "bytes_of_u32 (le32 10 0 0 1) = bytes_of_u32 (le32 10 0 0 2)" by (rule arg_cong)
    then show False by simp
  qed
  then have "source_v4 (udp_frame [10, 0, 0, 2] 53) \<noteq> Some (le32 10 0 0 1)" by (simp add: udp_frame_source)
  from buckets_are_isolated [OF demo_kernel_ok run this] run show ?thesis by auto
qed

section \<open>What the firewall does not look at\<close>

text \<open>
  Frames that are not IP. A frame that is truncated, has another EtherType or has a malformed
  IP header passes, whatever the policy; only the totals and the length histogram change.
\<close>

theorem other_frames_pass:
  assumes "frame_kind pkt = Inr (Inr ())"
  shows "\<exists>T L. xdp_klshield K cpu pkt s = Some (XDP_PASS, s\<lparr>xdp_totals := T, xdp_len_hist := L\<rparr>)"
  by (rule other_frame_state [OF assms])

theorem other_frames_pass_witness:
  "\<exists>T L. xdp_klshield (demo_kernel 1) 0 [1, 2, 3] allow_none = Some (XDP_PASS, allow_none\<lparr>xdp_totals := T, xdp_len_hist := L\<rparr>)"
  using other_frames_pass [OF short_frame, of "[1, 2, 3]" "demo_kernel 1" 0 allow_none] by simp

text \<open>
  Three or more VLAN tags hide the payload. The parser stops after two tags, so such a frame is
  not recognised as IP and passes under every policy, an enforced empty allow list included.
\<close>

theorem third_tag_bypasses_policy:
  assumes "length dst = 6" "length src = 6" "3 \<le> length tags" "\<forall>(t, c) \<in> set tags. vlan_tpid t"
  shows "\<exists>T L. xdp_klshield K cpu (eth_frame dst src tags proto payload) s =
    Some (XDP_PASS, s\<lparr>xdp_totals := T, xdp_len_hist := L\<rparr>)"
proof -
  let ?q = "outer_proto (drop 2 tags) proto"
  have parse: "parse_eth (eth_frame dst src tags proto payload) = Some (Inr (?q, 14 + of_nat (4 * min 2 (length tags))))"
    using assms(3) by (intro parse_eth_frame [OF assms(1,2,4)]) simp
  obtain t c rest where d: "drop 2 tags = (t, c) # rest"
    using assms(3) by (cases "drop 2 tags") auto
  then have "(t, c) \<in> set tags" by (metis in_set_dropD list.set_intros(1))
  then have "vlan_tpid ?q" using assms(4) d by auto
  then have "?q \<noteq> 0x0800" "?q \<noteq> 0x86DD" by (auto simp: vlan_tpid_def)
  then have "frame_kind (eth_frame dst src tags proto payload) = Inr (Inr ())"
    by (simp add: frame_kind_def parse)
  then show ?thesis by (rule other_frame_state)
qed

theorem third_tag_bypasses_policy_witness:
  "\<exists>s'. xdp_klshield (demo_kernel 1) 0 (eth_frame (replicate 6 1) (replicate 6 2) [(0x88a8, 1), (0x8100, 2), (0x8100, 3)]
     0x0800 (ipv4_bytes 17 [10, 0, 0, 1] [10, 0, 0, 2] (udp_bytes 1 2))) allow_none = Some (XDP_PASS, s')"
  using third_tag_bypasses_policy [of "replicate 6 1" "replicate 6 2" "[(0x88a8, 1), (0x8100, 2), (0x8100, 3)]"
      "demo_kernel 1" 0 "0x0800" "ipv4_bytes 17 [10, 0, 0, 1] [10, 0, 0, 2] (udp_bytes 1 2)" allow_none]
  by (auto simp: vlan_tpid_def)

text \<open>
  Tuple default deny. In allow mode an IPv4 packet with a destination port whose (source, port,
  protocol) is not in the allow map is dropped.
\<close>

theorem tuple_allow_mode_denies:
  assumes "buckets_free s" "frame_kind pkt = Inl (iph, off)"
    and "edge4_cfg s 0 = Some c" "edge_mode c = 2"
    and "port = dest_port pkt (unat (l4_offset off iph)) (ip_protocol iph)" "port \<noteq> 0"
    and "edge4_allow s (edge_key (ip_saddr iph) port (ip_protocol iph)) = None"
  shows "\<exists>s'. xdp_klshield K cpu pkt s = Some (XDP_DROP, s')"
  by (rule run_tuple_denied [OF assms(1,2,5,6)]) (use assms(3,4,7) in \<open>simp add: tuple_denied_def\<close>)

theorem tuple_allow_mode_denies_witness:
  "\<exists>s'. xdp_klshield (demo_kernel 7) 0 (udp_frame [10, 0, 0, 1] 80) allow_dns = Some (XDP_DROP, s')"
proof -
  obtain iph where iph: "frame_kind (udp_frame [10, 0, 0, 1] 80) = Inl (iph, 14)" "ip_saddr iph = le32 10 0 0 1"
     "ip_protocol iph = 17" "ip_ihl iph = 5"
    using udp_frame_kind by blast
  then have l4: "l4_offset 14 iph = 34" by (simp add: l4_offset_def)
  show ?thesis
    by (rule tuple_allow_mode_denies [where port = 80 and c = "\<lparr>edge_mode = 2, edge_pad = 0\<rparr>", OF allow_dns_ok(1) iph(1)])
      (simp_all add: iph l4 udp_frame_port edge_key_def)
qed

text \<open>
  Packets without a port escape the tuple policy. An IPv4 packet with no destination port
  (ICMP, any protocol but TCP and UDP, a truncated layer-4 header, port 0) that the access lists
  admit and whose source is not limited passes, in allow mode with an empty allow map too.
\<close>

theorem portless_packets_escape_tuples:
  assumes "kernel_ok K" "buckets_free s" "frame_kind pkt = Inl (iph, off)"
    and "dest_port pkt (unat (l4_offset off iph)) (ip_protocol iph) = 0"
    and "cfg_enforce s = 0 \<or> allowed_v4 s (ip_saddr iph)" "\<not> in_deny_v4 (xdp_deny_hash s) (ip_saddr iph)"
    and "source_limit s (ip_saddr iph) = None"
  shows "\<exists>s'. xdp_klshield K cpu pkt s = Some (XDP_PASS, s')"
proof -
  obtain a s' where run: "xdp_klshield K cpu pkt s = Some (a, s')" using run_total [OF assms(2)] by blast
  have acl: "acl_v4 K s (cfg_enforce s) (ip_saddr iph) = no_drop"
    using assms(5,6) by (intro acl_passed) (simp add: acl_dropped in_allow_v4_allowed [OF kernel_okD(1) [OF assms(1)]])
  have "a = XDP_PASS"
    using run
  proof (rule run_v4_steps [OF assms(3)])
    fix l4 :: l4_info and d2 d tm1 tm3 tm
    assume g: "source_gate_v4 K s (ip_saddr iph) (k_now K) (totals_get (xdp_totals s cpu))
       (acl_v4 K s (cfg_enforce s) (ip_saddr iph)) tm1 = Some (d2, tm3, xdp_rl_state4 s')"
      and t: "tuple_gate K s (ip_saddr iph) (dport l4) (ip_protocol iph) (k_now K) (totals_get (xdp_totals s cpu)) d2 tm3
       = Some (d, tm, edge4_rl_state s')"
      and p: "bpf_ntohs (dport l4) = dest_port pkt (unat (l4_offset off iph)) (ip_protocol iph)" and a: "a = verdict d"
    have "d2 = no_drop"
      using g acl assms(7) by (simp add: source_gate_v4_def select_rl_v4_limit no_drop_def)
    moreover have "dport l4 = 0" using p assms(4) by simp
    ultimately have "d = no_drop" using t by (simp add: tuple_gate_def edge_gate_skip)
    then show "a = XDP_PASS" using a by (simp add: verdict_def dropped_def no_drop_def)
  qed
  with run show ?thesis by blast
qed

theorem portless_packets_escape_tuples_witness:
  "\<exists>s'. xdp_klshield (demo_kernel 7) 0 (udp_frame [10, 0, 0, 9] 0) allow_dns = Some (XDP_PASS, s')"
proof -
  obtain iph where iph: "frame_kind (udp_frame [10, 0, 0, 9] 0) = Inl (iph, 14)" "ip_saddr iph = le32 10 0 0 9"
     "ip_protocol iph = 17" "ip_ihl iph = 5"
    using udp_frame_kind by blast
  then have l4: "l4_offset 14 iph = 34" by (simp add: l4_offset_def)
  show ?thesis
    by (rule portless_packets_escape_tuples [OF demo_kernel_ok allow_dns_ok(1) iph(1)])
      (simp_all add: iph l4 udp_frame_port in_deny_v4_def)
qed

text \<open>
  The position of a fragment is not looked at. Whatever is written to the two bytes of the
  fragment field of an IPv4 header, the verdict and the buckets are the same: a later fragment is
  judged by the bytes of its payload that stand where a port would.
\<close>

theorem fragment_position_is_ignored:
  fixes x y :: u8
  assumes "kernel_ok K" "buckets_free s" "tables_room s" "limits_ok s" "frame_kind pkt = Inl (iph, off)"
  shows "\<exists>a s1 s2. xdp_klshield K cpu pkt s = Some (a, s1) \<and>
    xdp_klshield K cpu (pkt[unat off + 6 := x, unat off + 7 := y]) s = Some (a, s2) \<and>
    abs_firewall s1 = abs_firewall s2"
proof -
  let ?q = "pkt[unat off + 6 := x, unat off + 7 := y]"
  obtain a s1 where 1: "xdp_klshield K cpu pkt s = Some (a, s1)" using run_total [OF assms(2)] by blast
  obtain b s2 where 2: "xdp_klshield K cpu ?q s = Some (b, s2)" using run_total [OF assms(2)] by blast
  have "a = b \<and> abs_firewall s1 = abs_firewall s2"
    using run_refines [OF assms(1-4) 1] run_refines [OF assms(1-4) 2] judge_frag [OF assms(5), of s x y]
    by auto
  with 1 2 show ?thesis by blast
qed

theorem fragment_position_is_ignored_witness:
  "\<exists>s'. xdp_klshield (demo_kernel 7) 0 ((udp_frame [10, 0, 0, 1] 53)[20 := 0, 21 := 185]) allow_dns = Some (XDP_PASS, s')"
proof -
  obtain iph where iph: "frame_kind (udp_frame [10, 0, 0, 1] 53) = Inl (iph, 14)" using udp_frame_kind by blast
  obtain a s1 where 1: "xdp_klshield (demo_kernel 7) 0 (udp_frame [10, 0, 0, 1] 53) allow_dns = Some (a, s1)"
    using run_total [OF allow_dns_ok(1)] by blast
  have "a = XDP_PASS"
    using run_refines [OF demo_kernel_ok allow_dns_ok(1-3) 1]
    by (auto simp: udp_frame_judge judge_v4_def spec_gate_def tuple_mode_on_def tuple_denied_def in_deny_v4_def
        edge_key_def outcome_action_def)
  with 1 fragment_position_is_ignored [OF demo_kernel_ok allow_dns_ok(1-3) iph, of 7 0 0 185]
  show ?thesis by auto
qed

text \<open>
  C34: A full bucket table fails open. When the table of IPv4 buckets has reached its capacity, a
  source without a bucket is never limited again: in every run, whatever else arrives, every packet
  of it that the access lists admit passes (with the tuple policy off), because buckets are never
  removed and none can be added.
\<close>

theorem full_table_never_limits_newcomers:
  assumes "\<forall>(K, cpu, pkt) \<in> set xs. kernel_ok K"
    and "\<not> card (dom (xdp_rl_state4 s)) < max_entries xdp_rl_state4_map" "xdp_rl_state4 s a = None"
    and "cfg_enforce s = 0 \<or> allowed_v4 s a" "\<not> in_deny_v4 (xdp_deny_hash s) a" "\<not> tuple_mode_on (edge4_cfg s)"
    and "xdp_run xs s = Some (as, s')"
  shows "passes_of a xs as = length (filter (\<lambda>(K, cpu, pkt). source_v4 pkt = Some a) xs)"
  using assms
proof (induction xs arbitrary: s as)
  case Nil
  then show ?case by (simp add: passes_of_def)
next
  case (Cons x xs)
  obtain K cpu pkt where x: "x = (K, cpu, pkt)" by (cases x)
  obtain act s1 as1 where s1: "xdp_klshield K cpu pkt s = Some (act, s1)" "xdp_run xs s1 = Some (as1, s')"
    and as: "as = act # as1"
    using Cons.prems(7) unfolding x xdp_run_Cons by blast
  have K: "kernel_ok K" using Cons.prems(1) x by auto
  note dom = run_full_table [OF K Cons.prems(2) s1(1)]
  have pol: "policy_view s1 = policy_view s" by (rule run_policy [OF s1(1)])
  then have keep: "cfg_enforce s1 = 0 \<or> allowed_v4 s1 a" "\<not> in_deny_v4 (xdp_deny_hash s1) a"
    "\<not> tuple_mode_on (edge4_cfg s1)"
    using Cons.prems(4-6) by (simp_all add: policy_view_def cfg_enforce_def allowed_v4_def)
  have new: "xdp_rl_state4 s1 a = None" using dom Cons.prems(3) by (metis domIff)
  have "passes_of a xs as1 = length (filter (\<lambda>(K, cpu, pkt). source_v4 pkt = Some a) xs)"
    using Cons.IH [OF _ _ new keep s1(2)] Cons.prems(1,2) dom by auto
  moreover have "act = XDP_PASS" if "source_v4 pkt = Some a"
    by (rule run_full_table_pass [OF K Cons.prems(2) that Cons.prems(3-6) s1(1)])
  ultimately show ?case by (simp add: x as passes_of_Cons)
qed

theorem full_table_never_limits_newcomers_witness:
  "\<exists>as s'. xdp_run [(demo_kernel 1, 0, udp_frame [10, 0, 0, 9] 53), (demo_kernel 1, 0, udp_frame [10, 0, 0, 9] 53)] crowded
      = Some (as, s') \<and>
    passes_of (le32 10 0 0 9) [(demo_kernel 1, 0, udp_frame [10, 0, 0, 9] 53),
      (demo_kernel 1, 0, udp_frame [10, 0, 0, 9] 53)] as = 2"
proof -
  let ?xs = "[(demo_kernel 1, 0, udp_frame [10, 0, 0, 9] 53), (demo_kernel 1, 0, udp_frame [10, 0, 0, 9] 53)]"
  have free: "buckets_free crowded"
    using fresh_frame(1) by (auto simp: crowded_def buckets_free_def locks_free_def filled_def empty_bucket_def)
  obtain as s' where run: "xdp_run ?xs crowded = Some (as, s')" using xdp_run_total [OF _ free, of ?xs] by auto
  have "unat (le32 10 0 0 9) = 150994954" by (simp add: le32_def)
  then have new: "xdp_rl_state4 crowded (le32 10 0 0 9) = None"
    by (simp add: crowded_def filled_def xdp_rl_state4_map_def)
  have pol: "cfg_enforce crowded = 0" "\<not> in_deny_v4 (xdp_deny_hash crowded) (le32 10 0 0 9)"
    "\<not> tuple_mode_on (edge4_cfg crowded)"
    by (simp_all add: crowded_def fresh_shield_def cfg_enforce_def in_deny_v4_def tuple_mode_on_def filled_def
        xdp_cfg_map_def edge4_cfg_map_def)
  from full_table_never_limits_newcomers [OF _ crowded_full new _ pol(2,3) run] pol(1) run
  show ?thesis by (auto simp: udp_frame_source)
qed

section \<open>Recovery and telemetry of a run\<close>

text \<open>A packet that no tuple rule concerns: the mode is off, or its tuple is neither denied nor limited.\<close>

definition tuple_clear :: "shield \<Rightarrow> packet \<Rightarrow> bool" where
  "tuple_clear s pkt \<longleftrightarrow> \<not> tuple_mode_on (edge4_cfg s) \<or>
     (case tuple_of pkt of
        None \<Rightarrow> True
      | Some k \<Rightarrow> \<not> tuple_denied (edge4_cfg s) (edge4_allow s) (edge4_deny s) k \<and> tuple_limit s k = None)"

lemma tuple_clear_gate:
  assumes "tuple_clear s pkt" "frame_kind pkt = Inl (iph, off)"
    and "bpf_ntohs dp = dest_port pkt (unat (l4_offset off iph)) (ip_protocol iph)"
    and "tuple_gate K s (ip_saddr iph) dp (ip_protocol iph) now t d tm = Some (d', tm', erl)"
  shows "d' = d"
proof (cases "dropped d \<or> dp = 0 \<or> \<not> tuple_mode_on (edge4_cfg s)")
  case True
  then show ?thesis using assms(4) by (simp add: tuple_gate_def edge_gate_skip)
next
  case False
  then have "tuple_of pkt = Some (edge_key (ip_saddr iph) (bpf_ntohs dp) (ip_protocol iph))"
    by (simp add: tuple_of_def assms(2) assms(3) [symmetric] Let_def)
  with False assms(1,4) show ?thesis
    by (simp add: tuple_clear_def tuple_limit_def tuple_gate_def edge_gate_limits)
qed

text \<open>
  C25: A limited source gets through again. An IPv4 packet that the access lists admit and no tuple rule
  concerns passes once the time one token takes has gone by since the last refill of its source's bucket
  (or the source has no bucket yet), for every limit whose refill arithmetic fits 64 bits.
\<close>

theorem limited_source_recovers:
  assumes "kernel_ok K" "buckets_free s" "source_v4 pkt = Some a"
    and "cfg_enforce s = 0 \<or> allowed_v4 s a" "\<not> in_deny_v4 (xdp_deny_hash s) a"
    and "source_limit s a = Some c" "tb_cfg_ok c" "tuple_clear s pkt"
    and "case xdp_rl_state4 s a of None \<Rightarrow> True
         | Some st \<Rightarrow> need_spec (unat (rate_pps c)) 1 \<le> unat (k_now K) - unat (last_ns st)"
  shows "\<exists>s'. xdp_klshield K cpu pkt s = Some (XDP_PASS, s')"
proof -
  obtain act s' where run: "xdp_klshield K cpu pkt s = Some (act, s')" using run_total [OF assms(2)] by blast
  obtain iph off where kind: "frame_kind pkt = Inl (iph, off)" and a: "ip_saddr iph = a"
    using assms(3) by (auto simp: source_v4_def split: sum.splits)
  have acl: "acl_v4 K s (cfg_enforce s) a = no_drop"
    using assms(4,5) by (intro acl_passed) (simp add: acl_dropped in_allow_v4_allowed [OF kernel_okD(1) [OF assms(1)]])
  have "act = XDP_PASS"
    using run
  proof (rule run_v4_steps [OF kind])
    fix l4 :: l4_info and d2 d tm1 tm3 tm
    assume g: "source_gate_v4 K s (ip_saddr iph) (k_now K) (totals_get (xdp_totals s cpu))
       (acl_v4 K s (cfg_enforce s) (ip_saddr iph)) tm1 = Some (d2, tm3, xdp_rl_state4 s')"
      and t: "tuple_gate K s (ip_saddr iph) (dport l4) (ip_protocol iph) (k_now K) (totals_get (xdp_totals s cpu)) d2 tm3
       = Some (d, tm, edge4_rl_state s')" and v: "act = verdict d"
      and port: "bpf_ntohs (dport l4) = dest_port pkt (unat (l4_offset off iph)) (ip_protocol iph)"
    have "\<not> drop_rl d2 \<and> (d2 = no_drop \<or> d2 = no_drop\<lparr>drop_rl := True\<rparr>)"
    proof (cases "xdp_rl_state4 s a")
      case None
      with g show ?thesis
        by (auto simp: a acl source_gate_v4_def select_rl_v4_limit assms(6) rl_gate_def rl_check_miss no_drop_def)
    next
      case (Some st)
      have "\<not> (unat (k_now K) - unat (last_ns st)) * unat (rate_pps c) < nsec"
      proof -
        have "nsec \<le> need_spec (unat (rate_pps c)) 1 * unat (rate_pps c)"
          using need_spec_upper [OF tb_cfg_okD(3) [OF assms(7)], of 1] by simp
        also have "\<dots> \<le> (unat (k_now K) - unat (last_ns st)) * unat (rate_pps c)" using assms(9) Some by simp
        finally show ?thesis by simp
      qed
      with take_spec_denies [OF tb_cfg_okD(3,4) [OF assms(7)]] tb_take_refines [OF assms(7), of st "k_now K"]
      have "fst (tb_take st c (k_now K))" by (cases "tb_take st c (k_now K)") (metis fst_conv id_apply map_prod_simp tb_abs_def)
      moreover have "val (lock st) = 0" using assms(2) Some locks_freeD by (auto simp: buckets_free_def)
      moreover have "\<not> drop_allow no_drop" "\<not> drop_deny no_drop" by (simp_all add: no_drop_def)
      ultimately have "\<not> drop_rl d2"
        using source_gate_v4_hit(2) [OF Some _ assms(6) tb_cfg_usable [OF assms(7)] _ _ g [unfolded a acl]]
        by (simp add: no_drop_def)
      with source_gate_v4_result(1) [OF g] show ?thesis by (auto simp: a acl)
    qed
    then have "d2 = no_drop" by auto
    with tuple_clear_gate [OF assms(8) kind port t] have "d = no_drop" by simp
    with v show "act = XDP_PASS" by (simp add: verdict_def dropped_def no_drop_def)
  qed
  with run show ?thesis by blast
qed

theorem limited_source_recovers_witness:
  "\<exists>s'. xdp_klshield (demo_kernel 10000000) 0 (udp_frame [10, 0, 0, 1] 53) limited = Some (XDP_PASS, s')"
proof -
  have "\<not> tuple_mode_on (edge4_cfg limited)"
    by (simp add: tuple_mode_on_def) (simp add: fresh_shield_def filled_def edge4_cfg_map_def)
  then have "tuple_clear limited (udp_frame [10, 0, 0, 1] 53)" by (simp add: tuple_clear_def)
  then show ?thesis
    by (intro limited_source_recovers [where c = demo_limit, OF demo_kernel_ok limited_ok(1) udp_frame_source])
      (simp_all add: in_deny_v4_def need_spec_def nsec_def empty_bucket_def demo_limit_def tb_cfg_ok_def)
qed

text \<open>
  Events. An invocation only appends to the ring buffer, at most two events (a scan hint and a
  drop reason), and none at all while the sample mask is zero.
\<close>

theorem events_are_bounded:
  assumes "xdp_klshield K cpu pkt s = Some (a, s')"
  shows "\<exists>es. xdp_events s' = xdp_events s @ es \<and> length es \<le> 2 \<and> (cfg_sample_mask s = 0 \<longrightarrow> es = [])"
  using assms
proof (cases rule: xdp_klshield_cases)
  case early
  then show ?thesis by simp
next
  case (v4 iph off l4 d tm rl erl)
  let ?e = "(entered cpu pkt s)\<lparr>xdp_totals := (xdp_totals (entered cpu pkt s))
            (cpu := count_verdict (totals_get (xdp_totals s cpu)) d tm), xdp_rl_state4 := rl, edge4_rl_state := erl\<rparr>"
  have "\<exists>es. xdp_events s' = xdp_events ?e @ es \<and> length es \<le> 2" unfolding v4(4) by (rule record_v4_events)
  moreover have "xdp_events s' = xdp_events ?e" if "cfg_sample_mask s = 0"
    unfolding v4(4) that by (rule record_events_off)
  moreover have "xdp_events ?e = xdp_events s" by simp
  ultimately show ?thesis by (cases "cfg_sample_mask s = 0") auto
next
  case (v6 ip6 off l4 d tm rl)
  let ?e = "(entered cpu pkt s)\<lparr>xdp_totals := (xdp_totals (entered cpu pkt s))
            (cpu := count_verdict (totals_get (xdp_totals s cpu)) d tm), xdp_rl_state6 := rl\<rparr>"
  have "\<exists>es. xdp_events s' = xdp_events ?e @ es \<and> length es \<le> 2" unfolding v6(4) by (rule record_v6_events)
  moreover have "xdp_events s' = xdp_events ?e" if "cfg_sample_mask s = 0"
    unfolding v6(4) that by (rule record_events_off)
  moreover have "xdp_events ?e = xdp_events s" by simp
  ultimately show ?thesis by (cases "cfg_sample_mask s = 0") auto
qed

theorem events_are_bounded_witness:
  "\<exists>a s'. xdp_klshield (demo_kernel 3) 0 (udp_frame [10, 0, 0, 1] 53) blocked = Some (a, s') \<and> xdp_events s' = []"
proof -
  obtain a s' where run: "xdp_klshield (demo_kernel 3) 0 (udp_frame [10, 0, 0, 1] 53) blocked = Some (a, s')"
    using run_total [OF blocked_ok(1)] by blast
  have "cfg_sample_mask blocked = 0" "xdp_events blocked = []"
    by (simp_all add: cfg_sample_mask_def blocked_def fresh_shield_def filled_def xdp_cfg_map_def)
  with events_are_bounded [OF run] run show ?thesis by auto
qed

section \<open>Classification\<close>

text \<open>
  Layer 4. The protocol flags are those of the protocol number, the destination port is the one
  on the wire (none for other protocols or a header that does not fit), and the packet and verdict
  counters are left alone.
\<close>

theorem l4_classification:
  assumes "l4_parse IPPROTO_ICMP pkt off p t tm = Some (l4, tm')"
  shows "(is_tcp l4 \<longleftrightarrow> p = 6) \<and> (is_udp l4 \<longleftrightarrow> p = 17) \<and> (is_icmp l4 \<longleftrightarrow> p = 1) \<and>
    bpf_ntohs (dport l4) = dest_port pkt (unat off) p \<and> same_verdicts tm tm'"
proof -
  have "(is_tcp l4 \<longleftrightarrow> p = 6) \<and> (is_udp l4 \<longleftrightarrow> p = 17) \<and> (is_icmp l4 \<longleftrightarrow> p = 1)"
    using assms by (auto simp: l4_parse_def Let_def ipprotos tcp_info_def no_l4_def split: if_splits Option.bind_splits)
  with l4_parse_dport [OF assms] l4_parse_same_verdicts [OF assms] show ?thesis by simp
qed

theorem l4_classification_witness:
  "\<exists>l4 tm'. l4_parse IPPROTO_ICMP (udp_frame [10, 0, 0, 1] 53) 34 17 None (\<lambda>_. None) = Some (l4, tm') \<and>
     is_udp l4 \<and> bpf_ntohs (dport l4) = 53"
proof -
  obtain l4 tm' where p: "l4_parse IPPROTO_ICMP (udp_frame [10, 0, 0, 1] 53) 34 17 None (\<lambda>_. None) = Some (l4, tm')"
    using l4_parse_safe by fastforce
  from l4_classification [OF p] p show ?thesis by (auto simp: udp_frame_port)
qed

end
